(* ===== verification/Models.thy ===== *)
theory Models
  imports GN_Prelude
begin

text \<open>
  The semantic model of \<open>crates/graphnight-core/src/models.rs\<close>: aggregations, filter
  operators, measures, dimensions, queries and models, with their constructors and
  parsers, and the part of \<open>serde_json::Value\<close> the crates match on.
\<close>

subsection \<open>JSON values\<close>

text \<open>
  \<open>serde_json::Value\<close> by its constructors. A number is its decimal text, what
  \<open>Number::to_string\<close> yields; an object is its entry list, which the default map of
  \<open>serde_json\<close> keeps sorted by key.
\<close>

datatype json =
    JNull
  | JBool bool
  | JNumber string
  | JString string
  | JArray "json list"
  | JObject "(string \<times> json) list"

fun as_str :: "json \<Rightarrow> string option" where
  "as_str (JString s) = Some s"
| "as_str _ = None"

fun as_array :: "json \<Rightarrow> json list option" where
  "as_array (JArray xs) = Some xs"
| "as_array _ = None"

fun as_object :: "json \<Rightarrow> (string \<times> json) list option" where
  "as_object (JObject m) = Some m"
| "as_object _ = None"

subsection \<open>Aggregations\<close>

datatype aggregation_type =
    Sum | Avg | Count | Min | Max | CountDistinct
  | Custom string

text \<open>The two errors of \<open>AggregationType::parse_strict\<close> and the one of
  \<open>FilterOperator::parse_strict\<close>; the code renders them as text around the input.\<close>

datatype parse_error =
    EmptyAggregation
  | InvalidAggregation string
  | InvalidOperator string

definition ident_start :: "char \<Rightarrow> bool" where
  "ident_start c \<longleftrightarrow> is_ascii_alphabetic c \<or> c = CHR ''_''"

definition ident_char :: "char \<Rightarrow> bool" where
  "ident_char c \<longleftrightarrow> is_ascii_alphanumeric c \<or> c = CHR ''_'' \<or> c = CHR ''$''"

fun is_plain_identifier :: "string \<Rightarrow> bool" where
  "is_plain_identifier [] = False"
| "is_plain_identifier (c # cs) = (ident_start c \<and> list_all ident_char cs)"

definition known_aggregation :: "string \<Rightarrow> aggregation_type option" where
  "known_aggregation upper =
     (if upper = ''SUM'' then Some Sum
      else if upper = ''AVG'' \<or> upper = ''AVERAGE'' then Some Avg
      else if upper = ''COUNT'' then Some Count
      else if upper = ''MIN'' then Some Min
      else if upper = ''MAX'' then Some Max
      else if upper = ''COUNT_DISTINCT'' \<or> upper = ''COUNTDISTINCT'' then Some CountDistinct
      else None)"

definition aggregation_parse_strict :: "string \<Rightarrow> parse_error + aggregation_type" where
  "aggregation_parse_strict input =
     (let trimmed = trim input in
      if trimmed = [] then Inl EmptyAggregation
      else case known_aggregation (to_upper trimmed) of
        Some known \<Rightarrow> Inr known
      | None \<Rightarrow>
          if \<not> list_all is_plain_identifier (split_on (CHR ''.'') trimmed)
          then Inl (InvalidAggregation input)
          else Inr (Custom trimmed))"

fun sql_function :: "aggregation_type \<Rightarrow> string" where
  "sql_function Sum = ''SUM''"
| "sql_function Avg = ''AVG''"
| "sql_function Count = ''COUNT''"
| "sql_function Min = ''MIN''"
| "sql_function Max = ''MAX''"
| "sql_function CountDistinct = ''COUNT(DISTINCT ''"
| "sql_function (Custom name) = name"

fun needs_closing_paren :: "aggregation_type \<Rightarrow> bool" where
  "needs_closing_paren CountDistinct = True"
| "needs_closing_paren _ = False"

text \<open>\<open>Display\<close> of an aggregation is its SQL function.\<close>

definition aggregation_display :: "aggregation_type \<Rightarrow> string" where
  "aggregation_display a = sql_function a"

subsection \<open>Granularities and joins\<close>

datatype time_granularity = Second | Minute | Hour | Day | Week | Month | Quarter | Year

fun date_trunc_unit :: "time_granularity \<Rightarrow> string" where
  "date_trunc_unit Second = ''second''"
| "date_trunc_unit Minute = ''minute''"
| "date_trunc_unit Hour = ''hour''"
| "date_trunc_unit Day = ''day''"
| "date_trunc_unit Week = ''week''"
| "date_trunc_unit Month = ''month''"
| "date_trunc_unit Quarter = ''quarter''"
| "date_trunc_unit Year = ''year''"

datatype join_type = Inner | Left | Right | Full

fun sql_keyword :: "join_type \<Rightarrow> string" where
  "sql_keyword Inner = ''INNER JOIN''"
| "sql_keyword Left = ''LEFT JOIN''"
| "sql_keyword Right = ''RIGHT JOIN''"
| "sql_keyword Full = ''FULL JOIN''"

subsection \<open>Filter operators\<close>

datatype filter_operator =
    Eq | Neq | Gt | Gte | Lt | Lte | Like | ILike | In | NotIn
  | IsNull | IsNotNull | Between | NotBetween
  | Intersects | Within | Contains

fun sql_operator :: "filter_operator \<Rightarrow> string option" where
  "sql_operator Eq = Some ''=''"
| "sql_operator Neq = Some ''!=''"
| "sql_operator Gt = Some ''>''"
| "sql_operator Gte = Some ''>=''"
| "sql_operator Lt = Some ''<''"
| "sql_operator Lte = Some ''<=''"
| "sql_operator Like = Some ''LIKE''"
| "sql_operator ILike = Some ''ILIKE''"
| "sql_operator In = Some ''IN''"
| "sql_operator NotIn = Some ''NOT IN''"
| "sql_operator IsNull = Some ''IS NULL''"
| "sql_operator IsNotNull = Some ''IS NOT NULL''"
| "sql_operator Between = Some ''BETWEEN''"
| "sql_operator NotBetween = Some ''NOT BETWEEN''"
| "sql_operator Intersects = None"
| "sql_operator Within = None"
| "sql_operator Contains = None"

fun spatial_function :: "filter_operator \<Rightarrow> string option" where
  "spatial_function Intersects = Some ''ST_Intersects''"
| "spatial_function Within = Some ''ST_Within''"
| "spatial_function Contains = Some ''ST_Contains''"
| "spatial_function _ = None"

definition is_valueless :: "filter_operator \<Rightarrow> bool" where
  "is_valueless op \<longleftrightarrow> op = IsNull \<or> op = IsNotNull"

definition needs_value :: "filter_operator \<Rightarrow> bool" where
  "needs_value op \<longleftrightarrow> \<not> is_valueless op"

definition needs_two_values :: "filter_operator \<Rightarrow> bool" where
  "needs_two_values op \<longleftrightarrow> op = Between \<or> op = NotBetween"

definition operator_parse_strict :: "string \<Rightarrow> parse_error + filter_operator" where
  "operator_parse_strict input =
     (let s = to_lower (trim input) in
      if s = ''eq'' \<or> s = ''='' \<or> s = ''=='' then Inr Eq
      else if s = ''neq'' \<or> s = ''!='' \<or> s = ''<>'' then Inr Neq
      else if s = ''gt'' \<or> s = ''>'' then Inr Gt
      else if s = ''gte'' \<or> s = ''>='' then Inr Gte
      else if s = ''lt'' \<or> s = ''<'' then Inr Lt
      else if s = ''lte'' \<or> s = ''<='' then Inr Lte
      else if s = ''like'' then Inr Like
      else if s = ''ilike'' then Inr ILike
      else if s = ''in'' then Inr In
      else if s = ''not_in'' \<or> s = ''nin'' then Inr NotIn
      else if s = ''is_null'' \<or> s = ''isnull'' then Inr IsNull
      else if s = ''is_not_null'' \<or> s = ''isnotnull'' then Inr IsNotNull
      else if s = ''between'' then Inr Between
      else if s = ''not_between'' then Inr NotBetween
      else if s = ''intersects'' then Inr Intersects
      else if s = ''within'' then Inr Within
      else if s = ''contains'' then Inr Contains
      else Inl (InvalidOperator input))"

subsection \<open>Measures, dimensions, filters\<close>

record formula =
  f_expression :: string
  f_label :: "string option"
  f_format :: "string option"

definition formula_new :: "string \<Rightarrow> formula" where
  "formula_new expression = \<lparr>f_expression = expression, f_label = None, f_format = None\<rparr>"

definition formula_with_label :: "formula \<Rightarrow> string \<Rightarrow> formula" where
  "formula_with_label f label = f\<lparr>f_label := Some label\<rparr>"

definition formula_with_format :: "formula \<Rightarrow> string \<Rightarrow> formula" where
  "formula_with_format f fmt = f\<lparr>f_format := Some fmt\<rparr>"

definition formula_parse_shorthand :: "string \<Rightarrow> formula" where
  "formula_parse_shorthand s =
     (case split_once (CHR '':'') s of
        Some (expr, agg) \<Rightarrow> formula_with_label (formula_new expr) agg
      | None \<Rightarrow> formula_new s)"

record measure =
  m_formula :: formula
  m_aggregation :: aggregation_type

definition measure_new :: "formula \<Rightarrow> aggregation_type \<Rightarrow> measure" where
  "measure_new f a = \<lparr>m_formula = f, m_aggregation = a\<rparr>"

definition measure_simple :: "string \<Rightarrow> aggregation_type \<Rightarrow> measure" where
  "measure_simple expression a = measure_new (formula_new expression) a"

definition measure_label :: "measure \<Rightarrow> string" where
  "measure_label m = unwrap_or (f_label (m_formula m)) (f_expression (m_formula m))"

record dimension =
  d_name :: string
  d_label :: "string option"

definition dimension_new :: "string \<Rightarrow> dimension" where
  "dimension_new name = \<lparr>d_name = name, d_label = None\<rparr>"

definition dimension_with_label :: "dimension \<Rightarrow> string \<Rightarrow> dimension" where
  "dimension_with_label d label = d\<lparr>d_label := Some label\<rparr>"

definition dimension_label :: "dimension \<Rightarrow> string" where
  "dimension_label d = unwrap_or (d_label d) (d_name d)"

record time_dimension =
  td_dimension :: string
  td_granularity :: time_granularity
  td_label :: "string option"

definition time_dimension_new :: "string \<Rightarrow> time_granularity \<Rightarrow> time_dimension" where
  "time_dimension_new d g = \<lparr>td_dimension = d, td_granularity = g, td_label = None\<rparr>"

definition time_dimension_with_label :: "time_dimension \<Rightarrow> string \<Rightarrow> time_dimension" where
  "time_dimension_with_label td label = td\<lparr>td_label := Some label\<rparr>"

definition time_dimension_label :: "time_dimension \<Rightarrow> string" where
  "time_dimension_label td = unwrap_or (td_label td) (td_dimension td)"

definition td_sql_expression :: "time_dimension \<Rightarrow> string option \<Rightarrow> string" where
  "td_sql_expression td table_alias =
     (let column = (case table_alias of
                      Some alias \<Rightarrow> alias @ ''.'' @ td_dimension td
                    | None \<Rightarrow> td_dimension td)
      in ''DATE_TRUNC('' @ squote @ date_trunc_unit (td_granularity td) @ squote @ '', '' @ column @ '')'')"

record filter_cond =
  fl_field :: string
  fl_operator :: filter_operator
  fl_value :: json
  fl_or :: bool

definition filter_new :: "string \<Rightarrow> filter_operator \<Rightarrow> json \<Rightarrow> filter_cond" where
  "filter_new field op value = \<lparr>fl_field = field, fl_operator = op, fl_value = value, fl_or = False\<rparr>"

definition filter_or :: "filter_cond \<Rightarrow> filter_cond" where
  "filter_or f = f\<lparr>fl_or := True\<rparr>"

record order_by =
  ob_field :: string
  ob_descending :: bool

definition order_by_new :: "string \<Rightarrow> bool \<Rightarrow> order_by" where
  "order_by_new field desc = \<lparr>ob_field = field, ob_descending = desc\<rparr>"

definition order_by_asc :: "string \<Rightarrow> order_by" where
  "order_by_asc field = order_by_new field False"

definition order_by_desc :: "string \<Rightarrow> order_by" where
  "order_by_desc field = order_by_new field True"

subsection \<open>Queries\<close>

record source_spec =
  ss_model :: string
  ss_datasource :: "string option"
  ss_alias :: "string option"

record query =
  q_name :: "string option"
  q_source_model :: "source_spec option"
  q_measures :: "measure list"
  q_dimensions :: "dimension list"
  q_time_dimensions :: "time_dimension list"
  q_filters :: "filter_cond list"
  q_order :: "order_by list"
  q_limit :: "nat option"
  q_offset :: "nat option"
  q_whole_periods_only :: "bool option"
  q_distinct_dimension_values :: "bool option"
  q_stage_ref :: "string option"

definition query_new :: query where
  "query_new = \<lparr>q_name = None, q_source_model = None, q_measures = [], q_dimensions = [],
     q_time_dimensions = [], q_filters = [], q_order = [], q_limit = None, q_offset = None,
     q_whole_periods_only = None, q_distinct_dimension_values = None, q_stage_ref = None\<rparr>"

definition query_with_name :: "query \<Rightarrow> string \<Rightarrow> query" where
  "query_with_name q name = q\<lparr>q_name := Some name\<rparr>"

definition query_with_source_model :: "query \<Rightarrow> source_spec \<Rightarrow> query" where
  "query_with_source_model q src = q\<lparr>q_source_model := Some src\<rparr>"

definition query_add_measure :: "query \<Rightarrow> measure \<Rightarrow> query" where
  "query_add_measure q m = q\<lparr>q_measures := q_measures q @ [m]\<rparr>"

definition query_add_dimension :: "query \<Rightarrow> dimension \<Rightarrow> query" where
  "query_add_dimension q d = q\<lparr>q_dimensions := q_dimensions q @ [d]\<rparr>"

definition query_add_time_dimension :: "query \<Rightarrow> time_dimension \<Rightarrow> query" where
  "query_add_time_dimension q td = q\<lparr>q_time_dimensions := q_time_dimensions q @ [td]\<rparr>"

definition query_add_filter :: "query \<Rightarrow> filter_cond \<Rightarrow> query" where
  "query_add_filter q f = q\<lparr>q_filters := q_filters q @ [f]\<rparr>"

definition query_add_order :: "query \<Rightarrow> order_by \<Rightarrow> query" where
  "query_add_order q ob = q\<lparr>q_order := q_order q @ [ob]\<rparr>"

definition query_with_limit :: "query \<Rightarrow> nat \<Rightarrow> query" where
  "query_with_limit q n = q\<lparr>q_limit := Some n\<rparr>"

definition query_with_offset :: "query \<Rightarrow> nat \<Rightarrow> query" where
  "query_with_offset q n = q\<lparr>q_offset := Some n\<rparr>"

subsection \<open>Models and datasources\<close>

record join_def =
  jn_name :: string
  jn_model :: string
  jn_type :: join_type
  jn_on :: "(string \<times> string) list"
  jn_alias :: "string option"

text \<open>\<open>meta\<close> is a hash map: an association list with distinct keys.\<close>

record model =
  mo_name :: string
  mo_datasource :: string
  mo_description :: "string option"
  mo_measures :: "measure list"
  mo_dimensions :: "dimension list"
  mo_time_dimensions :: "time_dimension list"
  mo_joins :: "join_def list"
  mo_sql :: "string option"
  mo_meta :: "(string \<times> json) list"

record data_source =
  ds_name :: string
  ds_driver :: string
  ds_connection_string :: string
  ds_description :: "string option"
  ds_models :: "string list"
  ds_pool_size :: "nat option"
  ds_meta :: "(string \<times> json) list"

definition geometry_columns_meta_key :: string where
  "geometry_columns_meta_key = ''graphnight_geometry_columns''"

definition geometry_array :: "model \<Rightarrow> json list option" where
  "geometry_array m = Option.bind (map_of (mo_meta m) geometry_columns_meta_key) as_array"

definition geometry_columns :: "model \<Rightarrow> string list" where
  "geometry_columns m =
     (case geometry_array m of None \<Rightarrow> [] | Some arr \<Rightarrow> List.map_filter as_str arr)"

definition is_geometry_column :: "model \<Rightarrow> string \<Rightarrow> bool" where
  "is_geometry_column m column =
     (case geometry_array m of
        None \<Rightarrow> False
      | Some arr \<Rightarrow> list_ex (\<lambda>v. as_str v = Some column) arr)"

definition mark_geometry_column :: "model \<Rightarrow> string \<Rightarrow> model" where
  "mark_geometry_column m column =
     (let columns = geometry_columns m;
          columns = (if column \<in> set columns then columns else columns @ [column]);
          columns = remdups_adj (sort columns)
      in m\<lparr>mo_meta := AList.update geometry_columns_meta_key
                        (JArray (map JString columns)) (mo_meta m)\<rparr>)"

subsection \<open>Identifiers and aggregation names\<close>

lemma byte_eq_iff: "c = d \<longleftrightarrow> byte c = byte d"
  by (simp add: byte_def)

lemma byte_char_of: "byte (char_of n) = n mod 256"
  by (simp add: byte_def take_bit_eq_mod)

lemma byte_upper_char: "byte (upper_char c) = (if is_ascii_lower c then byte c - 32 else byte c)"
  by (auto simp: upper_char_def byte_char_of is_ascii_lower_def)

lemma byte_lower_char: "byte (lower_char c) = (if is_ascii_upper c then byte c + 32 else byte c)"
  by (auto simp: lower_char_def byte_char_of is_ascii_upper_def)

lemma ident_byte:
  "ident_start c \<longleftrightarrow> (65 \<le> byte c \<and> byte c \<le> 90) \<or> (97 \<le> byte c \<and> byte c \<le> 122) \<or> byte c = 95"
  "ident_char c \<longleftrightarrow> (65 \<le> byte c \<and> byte c \<le> 90) \<or> (97 \<le> byte c \<and> byte c \<le> 122)
     \<or> (48 \<le> byte c \<and> byte c \<le> 57) \<or> byte c = 95 \<or> byte c = 36"
  by (simp_all add: ident_start_def ident_char_def byte_eq_iff [of c "CHR ''_''"]
      byte_eq_iff [of c "CHR ''$''"] is_ascii_alphabetic_def is_ascii_alphanumeric_def
      is_ascii_upper_def is_ascii_lower_def is_ascii_digit_def, simp_all add: byte_def)

lemma ident_upper_char:
  "ident_start (upper_char c) = ident_start c" "ident_char (upper_char c) = ident_char c"
  by (auto simp: ident_byte byte_upper_char is_ascii_lower_def)

lemma is_plain_identifier_to_upper: "is_plain_identifier (to_upper s) = is_plain_identifier s"
  by (cases s) (auto simp: to_upper_def list_all_iff ident_upper_char)

lemma known_names_plain:
  "list_all is_plain_identifier [''SUM'', ''AVG'', ''AVERAGE'', ''COUNT'', ''MIN'', ''MAX'',
     ''COUNT_DISTINCT'', ''COUNTDISTINCT'']"
  by code_simp

lemma known_aggregation_plain: "known_aggregation s = Some a \<Longrightarrow> is_plain_identifier s"
  using known_names_plain
  by (auto simp: known_aggregation_def simp del: is_plain_identifier.simps split: if_splits)

lemma is_plain_identifier_chars: "is_plain_identifier p \<Longrightarrow> c \<in> set p \<Longrightarrow> ident_char c"
  by (cases p) (auto simp: list_all_iff ident_byte)

lemma is_plain_identifier_hd: "is_plain_identifier p \<Longrightarrow> p \<noteq> [] \<and> ident_start (hd p)"
  by (cases p) auto

lemma plain_identifier_no_dot: "is_plain_identifier p \<Longrightarrow> CHR ''.'' \<notin> set p"
  using is_plain_identifier_chars [of p "CHR ''.''"] by (auto simp: ident_byte byte_def)

definition dotted_identifier :: "string \<Rightarrow> bool" where
  "dotted_identifier s \<longleftrightarrow> list_all is_plain_identifier (split_on (CHR ''.'') s)"

lemma dotted_identifier_chars:
  assumes "dotted_identifier s" and "c \<in> set s"
  shows "ident_char c \<or> c = CHR ''.''"
  using assms set_split_on [of s "CHR ''.''"] is_plain_identifier_chars
  by (fastforce simp: list_all_iff dotted_identifier_def)

lemma dotted_identifier_hd: "dotted_identifier s \<Longrightarrow> s \<noteq> [] \<and> ident_start (hd s)"
proof -
  assume d: "dotted_identifier s"
  obtain w ws where ws: "split_on (CHR ''.'') s = w # ws"
    by (cases "split_on (CHR ''.'') s") auto
  with d have w: "w \<noteq> []" "ident_start (hd w)"
    by (auto simp: dotted_identifier_def dest: is_plain_identifier_hd)
  have "s = str_join ''.'' (w # ws)" using ws str_join_split_on [of "CHR ''.''" s] by simp
  then show ?thesis using w by (cases ws) auto
qed

lemma plain_dotted: "is_plain_identifier s \<Longrightarrow> dotted_identifier s"
  by (simp add: dotted_identifier_def split_on_no_sep plain_identifier_no_dot)

lemma aggregation_parse_strict_ok:
  "is_ok (aggregation_parse_strict s) \<longleftrightarrow> dotted_identifier (trim s)"
proof -
  have "dotted_identifier (trim s)" if "known_aggregation (to_upper (trim s)) = Some a" for a
    using that known_aggregation_plain is_plain_identifier_to_upper plain_dotted by blast
  then show ?thesis
    by (auto simp: aggregation_parse_strict_def Let_def dotted_identifier_def split: option.splits)
qed

text \<open>
  Aggregation names from user input: \<open>AggregationType::parse_strict\<close> accepts exactly the
  dotted paths of plain identifiers, and what it accepts reaches the statement only as such a
  path (or as the fixed \<open>COUNT(DISTINCT\<close>), so an aggregation name cannot carry SQL.
\<close>

lemma aggregation_parse_strict_safe:
  "is_ok (aggregation_parse_strict s) = dotted_identifier (trim s) \<and>
   (\<forall>a. aggregation_parse_strict s = Inr a \<longrightarrow> a = CountDistinct \<or> dotted_identifier (sql_function a))"
proof -
  have "a = CountDistinct \<or> dotted_identifier (sql_function a)"
    if "aggregation_parse_strict s = Inr a" for a
    using that
    using known_names_plain plain_dotted
    by (auto simp: aggregation_parse_strict_def Let_def known_aggregation_def dotted_identifier_def [symmetric]
          simp del: is_plain_identifier.simps split: if_splits option.splits)
  then show ?thesis by (simp add: aggregation_parse_strict_ok)
qed

lemma aggregation_parse_strict_safe_witness:
  "aggregation_parse_strict '' stats.pct_cont '' = Inr (Custom ''stats.pct_cont'') \<and>
   dotted_identifier ''stats.pct_cont''"
proof -
  have "aggregation_parse_strict '' stats.pct_cont '' = Inr (Custom ''stats.pct_cont'')"
    by code_simp
  with aggregation_parse_strict_safe [of "'' stats.pct_cont ''"] show ?thesis by auto
qed

subsection \<open>Geometry columns\<close>

lemma sql_operator_none: "sql_operator op = None \<longleftrightarrow> spatial_function op \<noteq> None"
  by (cases op) auto

lemma is_geometry_column_iff: "is_geometry_column m c \<longleftrightarrow> c \<in> set (geometry_columns m)"
  by (force simp: is_geometry_column_def geometry_columns_def list_ex_iff List.map_filter_def
      split: option.splits)

lemma map_filter_as_str [simp]: "List.map_filter as_str (map JString xs) = xs"
  by (induction xs) (auto simp: List.map_filter_def)

lemma distinct_remdups_adj_sorted:
  "sorted (xs :: 'a :: linorder list) \<Longrightarrow> distinct (remdups_adj xs)"
  by (induction xs rule: remdups_adj.induct) auto

lemma geometry_columns_mark:
  "geometry_columns (mark_geometry_column m c) = sorted_list_of_set (insert c (set (geometry_columns m)))"
proof -
  let ?xs = "remdups_adj (sort (if c \<in> set (geometry_columns m) then geometry_columns m
               else geometry_columns m @ [c]))"
  have "geometry_columns (mark_geometry_column m c) = ?xs"
    by (simp add: mark_geometry_column_def geometry_columns_def [of "_ \<lparr> mo_meta := _ \<rparr>"]
        geometry_array_def update_conv' Let_def)
  moreover have "sorted ?xs" "distinct ?xs" "set ?xs = insert c (set (geometry_columns m))"
    by (auto simp: sorted_remdups_adj distinct_remdups_adj_sorted)
  ultimately show ?thesis
    by (metis sorted_list_of_set.idem_if_sorted_distinct)
qed

text \<open>
  \<open>Model::mark_geometry_column\<close> keeps the recorded geometry columns sorted and free of
  duplicates, adds exactly the given column, and marking twice changes nothing.
\<close>

lemma mark_geometry_column_spec:
  "sorted (geometry_columns (mark_geometry_column m c)) \<and>
   distinct (geometry_columns (mark_geometry_column m c)) \<and>
   is_geometry_column (mark_geometry_column m c) c' = (c' = c \<or> is_geometry_column m c') \<and>
   mark_geometry_column (mark_geometry_column m c) c = mark_geometry_column m c"
proof -
  have mark: "mark_geometry_column n c = n\<lparr>mo_meta := AList.update geometry_columns_meta_key
      (JArray (map JString (geometry_columns (mark_geometry_column n c)))) (mo_meta n)\<rparr>" for n
    by (simp add: mark_geometry_column_def geometry_columns_def [of "_ \<lparr> mo_meta := _ \<rparr>"]
        geometry_array_def update_conv' Let_def)
  have set_mark: "set (geometry_columns (mark_geometry_column n c)) = insert c (set (geometry_columns n))" for n
    by (simp only: geometry_columns_mark set_sorted_list_of_set finite_insert List.finite_set)
  have cols: "geometry_columns (mark_geometry_column (mark_geometry_column m c) c)
      = geometry_columns (mark_geometry_column m c)"
    using set_mark by (simp only: geometry_columns_mark [of _ c] insert_absorb2)
  have idem: "mark_geometry_column (mark_geometry_column m c) c = mark_geometry_column m c"
  proof -
    let ?n = "mark_geometry_column m c"
    have "mo_meta ?n = AList.update geometry_columns_meta_key
        (JArray (map JString (geometry_columns ?n))) (mo_meta m)"
      using arg_cong [OF mark [of m], of mo_meta] by simp
    then have "?n\<lparr>mo_meta := AList.update geometry_columns_meta_key
        (JArray (map JString (geometry_columns (mark_geometry_column ?n c)))) (mo_meta ?n)\<rparr> = ?n"
      by (simp only: cols update_last) simp
    then show ?thesis using mark [of ?n] by simp
  qed
  show ?thesis 
    by (simp add: idem is_geometry_column_iff set_mark)
      (simp add: geometry_columns_mark del: sorted_list_of_set_insert_remove)
qed

end
