(* ===== verification/Formula.thy ===== *)
theory Formula
  imports Models
begin

text \<open>
  \<open>crates/graphnight-core/src/formula.rs\<close>: the measure shorthand, the allowlisted
  function calls and the formula registry. The three regular expressions of
  \<open>FormulaParser\<close> are matched by hand: each is deterministic from a given start, and an
  unanchored one is tried at every start, leftmost first.
\<close>

subsection \<open>Regular expressions\<close>

text \<open>\<open>Regex::captures\<close> of an unanchored pattern: the leftmost start that matches.\<close>

fun find_first_match :: "(string \<Rightarrow> 'a option) \<Rightarrow> string \<Rightarrow> 'a option" where
  "find_first_match f [] = f []"
| "find_first_match f (x # xs) =
     (case f (x # xs) of Some r \<Rightarrow> Some r | None \<Rightarrow> find_first_match f xs)"

text \<open>The simple aggregation \<open>field:aggregation\<close>, anchored at both ends.\<close>

definition agg_captures :: "string \<Rightarrow> (string \<times> string) option" where
  "agg_captures s =
     (case split_once (CHR '':'') s of
        None \<Rightarrow> None
      | Some (a, b) \<Rightarrow>
          if a \<noteq> [] \<and> list_all (\<lambda>c. is_word c \<or> c = CHR ''*'') a \<and> b \<noteq> [] \<and> list_all is_word b
          then Some (a, b) else None)"

text \<open>\<open>time_shift(inner, offset, 'unit')\<close>, matched at the start of the text.\<close>

definition optional_minus :: "string \<Rightarrow> string \<times> string" where
  "optional_minus s = (case strip_prefix ''-'' s of Some r \<Rightarrow> (''-'', r) | None \<Rightarrow> ([], s))"

definition time_shift_at :: "string \<Rightarrow> (string \<times> string \<times> string) option" where
  "time_shift_at s =
     (case strip_prefix ''time_shift('' s of None \<Rightarrow> None | Some r \<Rightarrow>
      (case split_once (CHR '','') r of None \<Rightarrow> None | Some (inner, r2) \<Rightarrow>
        if inner = [] then None
        else
          let (sign, r3) = optional_minus (dropWhile is_space r2);
              ds = takeWhile is_ascii_digit r3
          in if ds = [] then None
          else case strip_prefix '','' (drop (length ds) r3) of None \<Rightarrow> None | Some r4 \<Rightarrow>
            (case strip_prefix squote (dropWhile is_space r4) of None \<Rightarrow> None | Some r5 \<Rightarrow>
              let unit = takeWhile is_word r5
              in if unit = [] then None
              else case strip_prefix (squote @ '')'') (drop (length unit) r5) of
                None \<Rightarrow> None
              | Some _ \<Rightarrow> Some (inner, sign @ ds, unit))))"

text \<open>
  \<open>ratio(num, denom)\<close>. The white space after the comma is optional and greedy, but the
  second group needs one character: when only white space stands before the closing
  parenthesis, the group backs up to the last white space character.
\<close>

definition ratio_at :: "string \<Rightarrow> (string \<times> string) option" where
  "ratio_at s =
     (case strip_prefix ''ratio('' s of None \<Rightarrow> None | Some r \<Rightarrow>
      (case split_once (CHR '','') r of None \<Rightarrow> None | Some (num, r2) \<Rightarrow>
        if num = [] then None
        else case split_once (CHR '')'') r2 of None \<Rightarrow> None | Some (body, _) \<Rightarrow>
          let denom = dropWhile is_space body
          in if denom \<noteq> [] then Some (num, denom)
          else if body \<noteq> [] then Some (num, [last body]) else None))"

subsection \<open>Parsing measures\<close>

datatype formula_error =
    EmptyExpression
  | OffsetOutOfRange string
  | UnknownAggregation string
  | UnknownGranularity string

definition needs_parse :: "string \<Rightarrow> bool" where
  "needs_parse expr0 =
     (let expr = trim expr0 in
      if expr = [] then False
      else CHR '':'' \<in> set expr
        \<or> starts_with ''time_shift('' expr
        \<or> starts_with ''ratio('' expr
        \<or> starts_with ''pct_change('' expr
        \<or> starts_with ''running_total('' expr)"

text \<open>\<open>str::parse::<i32>\<close> on text the pattern already restricts to an optional minus sign and
  digits, and the decimal text of the number.\<close>

fun digits_value :: "nat \<Rightarrow> string \<Rightarrow> nat" where
  "digits_value n [] = n"
| "digits_value n (c # cs) = digits_value (10 * n + (byte c - 48)) cs"

definition parse_i32 :: "string \<Rightarrow> int option" where
  "parse_i32 s =
     (let v = (case strip_prefix ''-'' s of
                 Some r \<Rightarrow> - int (digits_value 0 r)
               | None \<Rightarrow> int (digits_value 0 s))
      in if - 2147483648 \<le> v \<and> v \<le> 2147483647 then Some v else None)"

definition int_str :: "int \<Rightarrow> string" where
  "int_str i = (if i < 0 then ''-'' @ nat_str (nat (- i)) else nat_str (nat i))"

definition parse_aggregation :: "string \<Rightarrow> formula_error + aggregation_type" where
  "parse_aggregation s =
     (let l = to_lower s in
      if l = ''sum'' then Inr Sum
      else if l = ''avg'' \<or> l = ''average'' then Inr Avg
      else if l = ''count'' then Inr Count
      else if l = ''min'' then Inr Min
      else if l = ''max'' then Inr Max
      else if l = ''count_distinct'' \<or> l = ''countd'' then Inr CountDistinct
      else Inl (UnknownAggregation l))"

lemma find_first_match_bound:
  "find_first_match f s = Some r \<Longrightarrow> (\<And>t. f t = Some r \<Longrightarrow> g r < length t) \<Longrightarrow> g r < length s"
  by (induction s) (fastforce split: option.splits)+

lemma time_shift_at_bound: "time_shift_at t = Some (inner, off, u) \<Longrightarrow> length inner < length t"
  by (auto simp: time_shift_at_def strip_prefix_eq split_once_Some Let_def
      split: option.splits if_splits prod.splits)

lemma ratio_at_bound: "ratio_at t = Some (num, denom) \<Longrightarrow> length num + length denom < length t"
proof -
  assume "ratio_at t = Some (num, denom)"
  then obtain body rest where t: "t = ''ratio('' @ num @ CHR '','' # body @ CHR '')'' # rest"
    and d: "denom = dropWhile is_space body \<or> (body \<noteq> [] \<and> denom = [last body])"
    by (auto simp: ratio_at_def strip_prefix_eq split_once_Some Let_def
        split: option.splits if_splits)
  from d have "length denom \<le> length body"
    by (auto simp: length_dropWhile_le Suc_le_eq)
  then show ?thesis by (simp add: t)
qed

lemma time_shift_match_bound:
  assumes "find_first_match time_shift_at s = Some (inner, off, u)"
  shows "length inner < length s"
  using find_first_match_bound [where g = "\<lambda>(inner, _, _). length inner", OF assms]
  by (auto simp: time_shift_at_bound)

lemma ratio_match_bound:
  assumes "find_first_match ratio_at s = Some (num, denom)"
  shows "length num + length denom < length s"
  using find_first_match_bound [where g = "\<lambda>(a, b). length a + length b", OF assms]
  by (auto simp: ratio_at_bound)

lemma time_shift_match_trim:
  "find_first_match time_shift_at (trim s) = Some (inner, off, u) \<Longrightarrow> length inner < length s"
  using time_shift_match_bound length_trim [of s] by fastforce

lemma ratio_match_trim:
  "find_first_match ratio_at (trim s) = Some (num, denom) \<Longrightarrow>
     length num < length s \<and> length denom < length s"
  using ratio_match_bound length_trim [of s] by fastforce

function parse_measure :: "string \<Rightarrow> formula_error + measure" where
  "parse_measure expr0 =
     (let expr = trim expr0 in
      if expr = [] then Inl EmptyExpression
      else case find_first_match time_shift_at expr of
        Some (inner, offset, granularity) \<Rightarrow>
          (case parse_i32 offset of
             None \<Rightarrow> Inl (OffsetOutOfRange offset)
           | Some off \<Rightarrow> rbind (parse_measure inner) (\<lambda>im.
               Inr (measure_new
                 (formula_with_label
                   (formula_new (''LAG('' @ f_expression (m_formula im) @ ''::''
                      @ aggregation_display (m_aggregation im) @ '') OVER (ORDER BY '' @ granularity @ '')''))
                   (measure_label im @ ''_shift_'' @ int_str off))
                 (m_aggregation im))))
      | None \<Rightarrow>
        (case find_first_match ratio_at expr of
           Some (num, denom) \<Rightarrow>
             rbind (parse_measure num) (\<lambda>nm.
             rbind (parse_measure denom) (\<lambda>dm.
               Inr (measure_new
                 (formula_with_label
                   (formula_new (''('' @ f_expression (m_formula nm) @ ''::''
                      @ aggregation_display (m_aggregation nm) @ '') / NULLIF(''
                      @ f_expression (m_formula dm) @ ''::''
                      @ aggregation_display (m_aggregation dm) @ '', 0)''))
                   (measure_label nm @ ''_per_'' @ measure_label dm))
                 Avg)))
         | None \<Rightarrow>
           (case agg_captures expr of
              Some (field, agg) \<Rightarrow>
                rbind (parse_aggregation agg) (\<lambda>a. Inr (measure_simple field a))
            | None \<Rightarrow> Inr (measure_simple expr Sum))))"
  by pat_completeness auto

termination
  by (relation "measure length")
    (auto dest!: time_shift_match_trim ratio_match_trim)

declare parse_measure.simps [simp del]

text \<open>\<open>is_compiled_sql\<close>: a parsed expression that is already SQL.\<close>

definition is_compiled_sql :: "string \<Rightarrow> bool" where
  "is_compiled_sql expression \<longleftrightarrow>
     str_contains '' OVER '' expression \<or> str_contains ''NULLIF('' expression
     \<or> str_contains ''::'' expression"

definition parse_granularity :: "string \<Rightarrow> formula_error + time_granularity" where
  "parse_granularity s =
     (let l = to_lower s in
      if l \<in> {''second'', ''seconds'', ''sec''} then Inr Second
      else if l \<in> {''minute'', ''minutes'', ''min''} then Inr Minute
      else if l \<in> {''hour'', ''hours'', ''hr''} then Inr Hour
      else if l \<in> {''day'', ''days'', ''d''} then Inr Day
      else if l \<in> {''week'', ''weeks'', ''w''} then Inr Week
      else if l \<in> {''month'', ''months'', ''mon''} then Inr Month
      else if l \<in> {''quarter'', ''quarters'', ''qtr''} then Inr Quarter
      else if l \<in> {''year'', ''years'', ''yr''} then Inr Year
      else Inl (UnknownGranularity l))"

definition parse_operator :: "string \<Rightarrow> parse_error + filter_operator" where
  "parse_operator s = operator_parse_strict s"

subsection \<open>The formula registry\<close>

record formula_registry =
  fr_formulas :: "(string \<times> measure) list"

definition registry_new :: formula_registry where
  "registry_new = \<lparr>fr_formulas = []\<rparr>"

definition registry_register :: "formula_registry \<Rightarrow> string \<Rightarrow> measure \<Rightarrow> formula_registry" where
  "registry_register r name m = r\<lparr>fr_formulas := AList.update name m (fr_formulas r)\<rparr>"

definition registry_register_str ::
    "formula_registry \<Rightarrow> string \<Rightarrow> string \<Rightarrow> formula_error + formula_registry" where
  "registry_register_str r name expr =
     rbind (parse_measure expr) (\<lambda>m. Inr (registry_register r name m))"

definition registry_get :: "formula_registry \<Rightarrow> string \<Rightarrow> measure option" where
  "registry_get r name = map_of (fr_formulas r) name"

definition registry_resolve :: "formula_registry \<Rightarrow> string \<Rightarrow> formula_error + measure" where
  "registry_resolve r expr =
     (case map_of (fr_formulas r) expr of
        Some m \<Rightarrow> Inr m
      | None \<Rightarrow> parse_measure expr)"

subsection \<open>Function calls\<close>

datatype function_arg = ColumnArg string | NumberArg string

record function_call =
  fc_name :: string
  fc_args :: "function_arg list"

datatype call_error =
    UnclosedParen string
  | TrailingText string
  | FunctionNotAllowed string
  | EmptyArgument string
  | BadArgument string string

definition allowed_functions :: "string list" where
  "allowed_functions =
   [''lower'', ''upper'', ''length'', ''char_length'', ''trim'', ''btrim'', ''ltrim'',
    ''rtrim'', ''substring'', ''substr'', ''replace'', ''concat'', ''left'', ''right'',
    ''abs'', ''round'', ''ceil'', ''ceiling'', ''floor'', ''trunc'', ''sqrt'', ''power'',
    ''pow'', ''sign'', ''mod'', ''greatest'', ''least'', ''date_trunc'', ''extract'',
    ''date_part'', ''to_char'', ''age'', ''st_area'', ''st_perimeter'', ''st_length'',
    ''st_npoints'', ''st_numgeometries'', ''st_numinteriorrings'', ''st_geometrytype'',
    ''st_srid'', ''st_isvalid'', ''st_isempty'', ''st_ismalformed'', ''st_dimension'',
    ''st_zmflag'', ''st_x'', ''st_y'', ''st_z'', ''st_m'', ''st_xmin'', ''st_xmax'',
    ''st_ymin'', ''st_ymax'', ''st_mindim'', ''st_maxdim'', ''st_envelope'', ''st_expand'',
    ''st_buffer'', ''st_simplify'', ''st_transform'', ''st_astext'', ''st_aswkt'',
    ''st_asbinary'', ''st_asgml'', ''st_asgeojson'', ''st_geohash'', ''st_point'',
    ''st_makepoint'', ''st_centroid'', ''st_contains'', ''st_within'', ''st_intersects'',
    ''st_disjoint'', ''st_touches'', ''st_overlaps'', ''st_crosses'', ''st_equals'',
    ''st_dwithin'', ''st_distance'', ''st_distancesphere'', ''st_distancewithin'',
    ''st_hausdorffdistance'', ''st_lineintersects'', ''st_linelocatepoint'',
    ''st_linelength'', ''st_azimuth'', ''st_boundingbox'', ''st_remap'']"

definition is_allowed_function :: "string \<Rightarrow> bool" where
  "is_allowed_function name = list_ex (\<lambda>f. eq_ignore_case f name) allowed_functions"

definition looks_like_function_call :: "string \<Rightarrow> bool" where
  "looks_like_function_call expr =
     (case split_once (CHR ''('') expr of
        None \<Rightarrow> False
      | Some (pre, _) \<Rightarrow>
          let name = trim pre
          in name \<noteq> [] \<and> list_all is_plain_identifier (split_on (CHR ''.'') name)
             \<and> CHR '' '' \<notin> set name)"

definition strip_sign :: "string \<Rightarrow> string" where
  "strip_sign s = (case s of [] \<Rightarrow> [] | c # cs \<Rightarrow> if c = CHR ''+'' \<or> c = CHR ''-'' then cs else s)"

definition digits_ok :: "string \<Rightarrow> bool" where
  "digits_ok s \<longleftrightarrow> s \<noteq> [] \<and> list_all is_ascii_digit s"

definition is_exp_char :: "char \<Rightarrow> bool" where
  "is_exp_char c \<longleftrightarrow> c = CHR ''e'' \<or> c = CHR ''E''"

definition is_numeric_literal :: "string \<Rightarrow> bool" where
  "is_numeric_literal s =
     (let body = strip_sign s;
          mantissa = takeWhile (\<lambda>c. \<not> is_exp_char c) body;
          exponent = dropWhile (\<lambda>c. \<not> is_exp_char c) body;
          parts = split_on (CHR ''.'') mantissa;
          int_part = hd parts;
          frac_part = (case tl parts of [] \<Rightarrow> [] | f # _ \<Rightarrow> f)
      in if 2 < length parts then False
         else if \<not> digits_ok int_part \<or> \<not> (frac_part = [] \<or> digits_ok frac_part) then False
         else case exponent of
           [] \<Rightarrow> True
         | _ # e \<Rightarrow> digits_ok (strip_sign e))"

definition is_column_arg :: "string \<Rightarrow> bool" where
  "is_column_arg part \<longleftrightarrow>
     length (split_on (CHR ''.'') part) \<le> 2
     \<and> list_all is_plain_identifier (split_on (CHR ''.'') part)"

text \<open>One iteration of the argument loop.\<close>

definition parse_call_arg :: "string \<Rightarrow> string \<Rightarrow> call_error + function_arg" where
  "parse_call_arg expr raw =
     (let part = trim raw in
      if part = [] then Inl (EmptyArgument expr)
      else if is_numeric_literal part then Inr (NumberArg part)
      else if is_column_arg part then Inr (ColumnArg part)
      else Inl (BadArgument part expr))"

definition parse_function_call :: "string \<Rightarrow> call_error + function_call option" where
  "parse_function_call expr0 =
     (let expr = trim expr0 in
      if \<not> looks_like_function_call expr then Inr None
      else case split_once (CHR ''('') expr of
        None \<Rightarrow> Inr None
      | Some (pre, body) \<Rightarrow>
          let name = trim pre in
          (case rsplit_once (CHR '')'') body of
             None \<Rightarrow> Inl (UnclosedParen expr)
           | Some (args_src, after) \<Rightarrow>
               if trim after \<noteq> [] then Inl (TrailingText expr)
               else if \<not> is_allowed_function name then Inl (FunctionNotAllowed name)
               else if trim args_src = [] then Inr (Some \<lparr>fc_name = name, fc_args = []\<rparr>)
               else rbind (rmap (parse_call_arg expr) (split_on (CHR '','') args_src))
                 (\<lambda>args. Inr (Some \<lparr>fc_name = name, fc_args = args\<rparr>))))"

subsection \<open>Function calls are safe to render\<close>

lemma ident_lower_char:
  "ident_start (lower_char c) = ident_start c" "ident_char (lower_char c) = ident_char c"
  by (auto simp: ident_byte byte_lower_char is_ascii_upper_def)

lemma is_plain_identifier_to_lower: "is_plain_identifier (to_lower s) = is_plain_identifier s"
  by (cases s) (auto simp: to_lower_def list_all_iff ident_lower_char)

lemma allowed_functions_plain: "list_all is_plain_identifier allowed_functions"
  by code_simp

lemma is_allowed_function_plain: "is_allowed_function name \<Longrightarrow> is_plain_identifier name"
  using allowed_functions_plain is_plain_identifier_to_lower
  by (auto simp: is_allowed_function_def list_ex_iff list_all_iff eq_ignore_case_def) metis

fun arg_ok :: "function_arg \<Rightarrow> bool" where
  "arg_ok (ColumnArg c) = is_column_arg c"
| "arg_ok (NumberArg n) = is_numeric_literal n"

definition call_ok :: "function_call \<Rightarrow> bool" where
  "call_ok call \<longleftrightarrow> is_allowed_function (fc_name call) \<and> list_all arg_ok (fc_args call)"

lemma parse_call_arg_ok: "parse_call_arg e raw = Inr a \<Longrightarrow> arg_ok a"
  by (auto simp: parse_call_arg_def Let_def split: if_splits)

text \<open>
  C17. The function calls \<open>parse_function_call\<close> accepts are safe to render: the name is on the
  allowlist and is a plain identifier, and every argument is a column of at most two plain
  identifiers or a numeric literal.
\<close>

theorem parse_function_call_safe:
  assumes "parse_function_call e = Inr (Some call)"
  shows "call_ok call \<and> is_plain_identifier (fc_name call)"
proof -
  have "is_allowed_function (fc_name call)"
    using assms
    by (auto simp: parse_function_call_def Let_def branch_simps split: if_splits option.splits)
  moreover have "list_all arg_ok (fc_args call)"
  proof -
    have "fc_args call = [] \<or> (\<exists>e' xs. rmap (parse_call_arg e') xs = Inr (fc_args call))"
      using assms
      by (auto simp: parse_function_call_def Let_def branch_simps split: if_splits option.splits)
    then show ?thesis
      using parse_call_arg_ok by (auto elim: rmap_Inr_all)
  qed
  ultimately show ?thesis by (simp add: call_ok_def is_allowed_function_plain)
qed

fun arg_text :: "function_arg \<Rightarrow> string" where
  "arg_text (ColumnArg c) = c"
| "arg_text (NumberArg n) = n"

definition call_text :: "function_call \<Rightarrow> string" where
  "call_text call = fc_name call @ ''('' @ str_join '', '' (map arg_text (fc_args call)) @ '')''"

text \<open>Characters of an argument.\<close>

definition arg_char :: "char \<Rightarrow> bool" where
  "arg_char c \<longleftrightarrow> ident_char c \<or> c = CHR ''.'' \<or> c = CHR ''+'' \<or> c = CHR ''-''"

lemma arg_char_byte: "arg_char c \<longleftrightarrow> ident_char c \<or> byte c = 46 \<or> byte c = 43 \<or> byte c = 45"
  unfolding arg_char_def byte_eq_iff [of c] by (simp add: byte_def)

lemma digits_ok_chars: "digits_ok s \<Longrightarrow> c \<in> set s \<Longrightarrow> is_ascii_digit c"
  by (auto simp: digits_ok_def list_all_iff)

lemma digit_ident: "is_ascii_digit c \<Longrightarrow> ident_char c"
  by (auto simp: ident_byte is_ascii_digit_def)

lemma strip_sign_cases: "strip_sign s = s \<or> s = CHR ''+'' # strip_sign s \<or> s = CHR ''-'' # strip_sign s"
  by (cases s) (auto simp: strip_sign_def)

lemma set_strip_sign: "set s \<subseteq> {CHR ''+'', CHR ''-''} \<union> set (strip_sign s)"
  by (cases s) (auto simp: strip_sign_def)

lemma split_dot_parts:
  assumes "\<not> 2 < length (split_on d s)"
  shows "split_on d s = [hd (split_on d s)] \<or>
    split_on d s = [hd (split_on d s), hd (tl (split_on d s))]"
proof -
  obtain w ws where "split_on d s = w # ws" by (cases "split_on d s") auto
  with assms show ?thesis by (cases ws; cases "tl ws") auto
qed

lemma is_numeric_literalE:
  assumes "is_numeric_literal s"
  obtains ip fp ex where
    "strip_sign s = ip @ fp @ ex" "digits_ok ip"
    "fp = [] \<or> (\<exists>f. fp = CHR ''.'' # f \<and> list_all is_ascii_digit f)"
    "ex = [] \<or> (\<exists>x e. ex = x # e \<and> is_exp_char x \<and> digits_ok (strip_sign e))"
proof -
  define body where "body = strip_sign s"
  define m where "m = takeWhile (\<lambda>c. \<not> is_exp_char c) body"
  define ex where "ex = dropWhile (\<lambda>c. \<not> is_exp_char c) body"
  define parts where "parts = split_on (CHR ''.'') m"
  have h: "\<not> 2 < length parts" "digits_ok (hd parts)"
    "(case tl parts of [] \<Rightarrow> [] | f # _ \<Rightarrow> f) = [] \<or> digits_ok (case tl parts of [] \<Rightarrow> [] | f # _ \<Rightarrow> f)"
    "case ex of [] \<Rightarrow> True | _ # e \<Rightarrow> digits_ok (strip_sign e)"
    using assms unfolding is_numeric_literal_def Let_def body_def [symmetric] m_def [symmetric]
      ex_def [symmetric] parts_def [symmetric]
    by (auto split: if_splits)
  have m: "m = str_join ''.'' parts"
    by (simp add: parts_def)
  obtain fp where fp: "m = hd parts @ fp" "fp = [] \<or> (\<exists>f. fp = CHR ''.'' # f \<and> list_all is_ascii_digit f)"
  proof (cases "tl parts")
    case Nil
    then have "parts = [hd parts]" using split_on_not_Nil [of "CHR ''.''" m]
      by (metis parts_def list.collapse)
    then have "m = hd parts @ []" using m by (metis append_Nil2 str_join.simps(2))
    then show ?thesis using that [of "[]"] by simp
  next
    case (Cons f fs)
    then have "parts = [hd parts, f]" using split_dot_parts [of "CHR ''.''" m] h(1)
      by (metis parts_def list.distinct(1) list.sel(1) list.sel(3))
    then have "m = hd parts @ CHR ''.'' # f" using m
      by (metis append_Cons append_Nil str_join.simps(2) str_join.simps(3))
    moreover have "list_all is_ascii_digit f" using h(3) Cons by (auto simp: digits_ok_def)
    ultimately show ?thesis using that [of "CHR ''.'' # f"] by simp
  qed
  have ex: "ex = [] \<or> (\<exists>x e. ex = x # e \<and> is_exp_char x \<and> digits_ok (strip_sign e))"
  proof (cases ex)
    case (Cons x e)
    have "\<not> \<not> is_exp_char (hd ex)"
      unfolding ex_def by (rule hd_dropWhile) (use Cons in \<open>simp add: ex_def\<close>)
    with Cons h(4) show ?thesis by auto
  qed simp
  have "strip_sign s = hd parts @ fp @ ex"
  proof -
    have "m @ ex = strip_sign s" unfolding m_def ex_def body_def by (rule takeWhile_dropWhile_id)
    then show ?thesis by (simp add: fp(1))
  qed
  then show ?thesis using that h(2) fp(2) ex by blast
qed

lemma numeric_literal_chars:
  assumes "is_numeric_literal s" and "c \<in> set s"
  shows "arg_char c"
proof -
  have dig: "digits_ok t \<Longrightarrow> c \<in> set t \<Longrightarrow> arg_char c" for t
    using digits_ok_chars digit_ident by (auto simp: arg_char_def)
  have signed: "digits_ok (strip_sign t) \<Longrightarrow> c \<in> set t \<Longrightarrow> arg_char c" for t
    using set_strip_sign [of t] dig [of "strip_sign t"] by (auto simp: arg_char_def)
  obtain ip fp ex where parts: "strip_sign s = ip @ fp @ ex" "digits_ok ip"
    "fp = [] \<or> (\<exists>f. fp = CHR ''.'' # f \<and> list_all is_ascii_digit f)"
    "ex = [] \<or> (\<exists>x e. ex = x # e \<and> is_exp_char x \<and> digits_ok (strip_sign e))"
    by (rule is_numeric_literalE [OF assms(1)])
  have "c \<in> set fp \<Longrightarrow> arg_char c"
    using parts(3) digit_ident by (auto simp: arg_char_def list_all_iff)
  moreover have "c \<in> set ex \<Longrightarrow> arg_char c"
    using parts(4) signed by (auto simp: is_exp_char_def arg_char_byte ident_byte byte_def)
  ultimately show ?thesis
    using assms(2) set_strip_sign [of s] parts(1) dig [OF parts(2)] by (auto simp: arg_char_def)
qed

lemma column_arg_dotted: "is_column_arg p \<Longrightarrow> dotted_identifier p"
  by (simp add: is_column_arg_def dotted_identifier_def)

lemma column_arg_chars: "is_column_arg p \<Longrightarrow> c \<in> set p \<Longrightarrow> arg_char c"
  using dotted_identifier_chars column_arg_dotted by (auto simp: arg_char_def)

lemma numeric_literal_ne: "is_numeric_literal s \<Longrightarrow> s \<noteq> []"
  by (auto simp: is_numeric_literal_def digits_ok_def strip_sign_def Let_def)

lemma numeric_not_column: "is_numeric_literal s \<Longrightarrow> \<not> is_column_arg s"
proof
  assume n: "is_numeric_literal s" and c: "is_column_arg s"
  from c have s: "s \<noteq> []" "ident_start (hd s)"
    using dotted_identifier_hd column_arg_dotted by auto
  then have same: "strip_sign s = s"
    by (cases s) (auto simp: strip_sign_def ident_byte byte_def)
  obtain ip fp ex where "strip_sign s = ip @ fp @ ex" "digits_ok ip"
    using n by (rule is_numeric_literalE)
  then have "is_ascii_digit (hd s)"
    using same by (cases ip) (auto simp: digits_ok_def)
  with s(2) show False by (auto simp: ident_byte is_ascii_digit_def)
qed

lemma arg_text_chars: "arg_ok a \<Longrightarrow> c \<in> set (arg_text a) \<Longrightarrow> arg_char c"
  by (cases a) (auto dest: column_arg_chars numeric_literal_chars)

lemma arg_text_ne: "arg_ok a \<Longrightarrow> arg_text a \<noteq> []"
  using column_arg_dotted dotted_identifier_hd
  by (cases a) (auto dest: numeric_literal_ne)

lemma arg_char_not_space: "arg_char c \<Longrightarrow> \<not> is_space c"
  by (auto simp: arg_char_byte ident_byte is_space_def)

lemma arg_char_not_punct: "arg_char c \<Longrightarrow> c \<noteq> CHR '','' \<and> c \<noteq> CHR '')'' \<and> c \<noteq> CHR ''(''"
  by (auto simp: arg_char_byte ident_byte byte_def)

lemma trim_arg_text: "arg_ok a \<Longrightarrow> trim (arg_text a) = arg_text a"
  using arg_text_chars [of a] arg_text_ne [of a] arg_char_not_space
  by (intro trim_id) auto

lemma trim_space_arg: "trim (CHR '' '' # s) = trim s"
  by (simp add: trim_def trim_start_def is_space_def byte_def)

lemma parse_call_arg_text:
  "arg_ok a \<Longrightarrow> trim raw = arg_text a \<Longrightarrow> parse_call_arg e raw = Inr a"
  using arg_text_ne [of a] numeric_not_column
  by (cases a) (auto simp: parse_call_arg_def)

lemma split_args_text:
  assumes "list_all arg_ok args" and "args \<noteq> []"
  shows "split_on (CHR '','') (str_join '', '' (map arg_text args)) =
    arg_text (hd args) # map (\<lambda>a. CHR '' '' # arg_text a) (tl args)"
  using assms
proof (induction args)
  case (Cons a args)
  then have a: "CHR '','' \<notin> set (arg_text a)"
    using arg_text_chars arg_char_not_punct by auto
  show ?case
  proof (cases args)
    case Nil
    then show ?thesis using a by (simp add: split_on_no_sep)
  next
    case (Cons b bs)
    with Cons.IH Cons.prems have IH: "split_on (CHR '','') (str_join '', '' (map arg_text args)) =
       arg_text b # map (\<lambda>a. CHR '' '' # arg_text a) bs" by auto
    have "split_on (CHR '','') (CHR '' '' # str_join '', '' (map arg_text args)) =
       (CHR '' '' # arg_text b) # map (\<lambda>a. CHR '' '' # arg_text a) bs"
      by (simp add: IH)
    with a show ?thesis by (simp add: local.Cons split_on_append_sep)
  qed
qed simp

lemma parse_args_text:
  assumes "list_all arg_ok args" and "args \<noteq> []"
  shows "rmap (parse_call_arg e) (split_on (CHR '','') (str_join '', '' (map arg_text args))) = Inr args"
    and "trim (str_join '', '' (map arg_text args)) \<noteq> []"
proof -
  obtain a as where args: "args = a # as" using assms(2) by (cases args) auto
  have "parse_call_arg e (arg_text a) = Inr a"
    using assms(1) by (intro parse_call_arg_text) (simp_all add: args trim_arg_text)
  moreover have "rmap (parse_call_arg e) (map (\<lambda>a. CHR '' '' # arg_text a) as) = Inr as"
    using assms(1) by (intro rmap_map_id parse_call_arg_text)
      (auto simp: args list_all_iff trim_arg_text trim_space_arg)
  ultimately show "rmap (parse_call_arg e) (split_on (CHR '','') (str_join '', '' (map arg_text args))) = Inr args"
    using assms by (subst split_args_text) (simp_all add: args)
  have "arg_ok a" using assms(1) by (simp add: args)
  then have "str_join '', '' (map arg_text args) \<noteq> []" "\<not> is_space (hd (str_join '', '' (map arg_text args)))"
    using arg_text_ne [of a] arg_text_chars [of a "hd (arg_text a)"] arg_char_not_space
    by (cases as; auto simp: args)+
  then show "trim (str_join '', '' (map arg_text args)) \<noteq> []" by (rule trim_ne)
qed

text \<open>
  Nothing that is allowed is refused: the text of every allowlisted call over columns and
  numbers parses, to that call.
\<close>

lemma parse_function_call_text:
  assumes "call_ok call"
  shows "parse_function_call (call_text call) = Inr (Some call)"
proof -
  define args where "args = str_join '', '' (map arg_text (fc_args call))"
  have allowed: "is_allowed_function (fc_name call)" and oks: "list_all arg_ok (fc_args call)"
    using assms by (auto simp: call_ok_def)
  have plain: "is_plain_identifier (fc_name call)"
    using allowed by (rule is_allowed_function_plain)
  have name_chars: "c \<in> set (fc_name call) \<Longrightarrow> arg_char c" for c
    using plain is_plain_identifier_chars by (auto simp: arg_char_def)
  have name_ne: "fc_name call \<noteq> []" using is_plain_identifier_hd [OF plain] by simp
  have trim_name: "trim (fc_name call) = fc_name call"
    using name_chars name_ne arg_char_not_space by (intro trim_id) auto
  have sp: "is_space (CHR '' '')" by (simp add: is_space_def byte_def)
  have no_paren: "CHR ''('' \<notin> set (fc_name call)"
    and no_sp: "CHR '' '' \<notin> set (fc_name call)"
    using name_chars arg_char_not_punct arg_char_not_space sp by blast+
  have ctext: "call_text call = fc_name call @ CHR ''('' # args @ '')''"
    by (simp add: call_text_def args_def)
  have trim_text: "trim (call_text call) = call_text call"
    using name_ne name_chars arg_char_not_space unfolding ctext
    by (intro trim_id) (auto simp: is_space_def byte_def)
  have s1: "split_once (CHR ''('') (call_text call) = Some (fc_name call, args @ '')'')"
    using no_paren by (simp add: split_once_Some ctext)
  have s2: "rsplit_once (CHR '')'') (args @ '')'') = Some (args, [])"
    by (simp add: rsplit_once_Some)
  have looks: "looks_like_function_call (call_text call)"
    using plain_dotted [OF plain] name_ne no_sp
    by (simp add: looks_like_function_call_def s1 trim_name Let_def dotted_identifier_def)
  have tr_nil: "trim [] = []" by (simp add: trim_defs)
  show ?thesis
  proof (cases "fc_args call")
    case Nil
    then have "trim args = []" by (simp add: args_def tr_nil)
    with Nil show ?thesis
      using allowed by (simp add: parse_function_call_def trim_text looks s1 s2 trim_name tr_nil)
  next
    case (Cons a as)
    then have "trim args \<noteq> []"
      "rmap (parse_call_arg (call_text call)) (split_on (CHR '','') args) = Inr (fc_args call)"
      unfolding args_def by (intro parse_args_text [OF oks]; simp)+
    then show ?thesis
      using allowed by (simp add: parse_function_call_def trim_text looks s1 s2 trim_name tr_nil)
  qed
qed

text \<open>
  The measure shorthand: \<open>field:aggregation\<close> parses to the simple measure of that field
  with the named aggregation (in any letter case), for every word-character field.
\<close>

lemma parse_measure_shorthand:
  assumes "f \<noteq> []" and "list_all (\<lambda>c. is_word c \<or> c = CHR ''*'') f"
    and "list_all is_word agg" and "parse_aggregation agg = Inr a"
  shows "parse_measure (f @ '':'' @ agg) = Inr (measure_simple f a)"
proof -
  have wb: "is_word c \<or> c = CHR ''*'' \<Longrightarrow> \<not> is_space c \<and> c \<noteq> CHR '':'' \<and> c \<noteq> CHR ''(''" for c
    unfolding is_word_def byte_eq_iff [of c] is_ascii_alphanumeric_def is_ascii_alphabetic_def
      is_ascii_upper_def is_ascii_lower_def is_ascii_digit_def is_space_def
    by (simp add: byte_def) arith
  have colon_ns: "\<not> is_space (CHR '':'')" by (simp add: is_space_def byte_def)
  have chars: "c \<in> set (f @ '':'' @ agg) \<Longrightarrow> \<not> is_space c \<and> c \<noteq> CHR ''(''" for c
    using assms(2,3) wb colon_ns by (auto simp: list_all_iff)
  have colon: "CHR '':'' \<notin> set f" using assms(2) wb by (auto simp: list_all_iff)
  have agg_ne: "agg \<noteq> []"
    using assms(4) by (auto simp: parse_aggregation_def to_lower_def)
  have tr: "trim (f @ '':'' @ agg) = f @ '':'' @ agg"
    using chars assms(1) agg_ne by (intro trim_id) auto
  have no_call: "CHR ''('' \<notin> set s \<Longrightarrow> find_first_match time_shift_at s = None"
    "CHR ''('' \<notin> set s \<Longrightarrow> find_first_match ratio_at s = None" for s
    by (induction s) (auto simp: time_shift_at_def ratio_at_def strip_prefix_eq split: option.splits)
  have "agg_captures (f @ '':'' @ agg) = Some (f, agg)"
  proof -
    have "split_once (CHR '':'') (f @ '':'' @ agg) = Some (f, agg)"
      using colon by (simp add: split_once_Some)
    then show ?thesis using assms(1-3) agg_ne by (simp add: agg_captures_def)
  qed
  moreover have "find_first_match time_shift_at (f @ '':'' @ agg) = None"
    "find_first_match ratio_at (f @ '':'' @ agg) = None"
    using chars by (intro no_call; blast)+
  moreover have "f @ '':'' @ agg \<noteq> []" by simp
  ultimately show ?thesis
    unfolding parse_measure.simps [of "f @ '':'' @ agg"] tr Let_def
    by (simp only: option.case prod.case if_False assms(4) rbind.simps)
qed

lemma parse_measure_shorthand_witness:
  "parse_measure (''orders_total'' @ '':'' @ ''AVERAGE'') = Inr (measure_simple ''orders_total'' Avg)"
  by (rule parse_measure_shorthand) code_simp+

theorem parse_function_call_safe_witness:
  "call_ok \<lparr>fc_name = ''round'', fc_args = [ColumnArg ''o.total'', NumberArg ''2'']\<rparr> \<and>
   is_plain_identifier ''round''"
proof -
  have "parse_function_call '' round ( o.total,2 )'' =
      Inr (Some \<lparr>fc_name = ''round'', fc_args = [ColumnArg ''o.total'', NumberArg ''2'']\<rparr>)"
    by code_simp
  from parse_function_call_safe [OF this] show ?thesis by simp
qed

lemma parse_function_call_text_witness:
  "parse_function_call (call_text \<lparr>fc_name = ''round'', fc_args = [ColumnArg ''o.total'', NumberArg ''-2.5'']\<rparr>) =
     Inr (Some \<lparr>fc_name = ''round'', fc_args = [ColumnArg ''o.total'', NumberArg ''-2.5'']\<rparr>)"
  by (rule parse_function_call_text) code_simp

end
