(* ===== verification/Join.thy ===== *)
theory Join
  imports Models
begin

text \<open>
  \<open>crates/graphnight-core/src/join.rs\<close>: the join graph of a set of models, the breadth
  first search for a join path, and the join clauses built from the edges it finds. The two
  hash maps are association lists, the visited set is a set, the queue is a list.
\<close>

subsection \<open>The graph\<close>

record join_edge =
  je_target :: string
  je_join :: join_def
  je_reverse :: bool

record join_graph =
  jg_models :: "(string \<times> model) list"
  jg_adjacency :: "(string \<times> join_edge list) list"

datatype join_error = NoJoinPath string string

definition edges_of :: "(string \<times> join_edge list) list \<Rightarrow> string \<Rightarrow> join_edge list" where
  "edges_of adj n = unwrap_or (map_of adj n) []"

text \<open>\<open>adjacency.entry(k).or_default().push(e)\<close>\<close>

definition push_edge ::
    "string \<Rightarrow> join_edge \<Rightarrow> (string \<times> join_edge list) list \<Rightarrow> (string \<times> join_edge list) list" where
  "push_edge k e adj = AList.update k (edges_of adj k @ [e]) adj"

definition forward_edge :: "join_def \<Rightarrow> join_edge" where
  "forward_edge j = \<lparr>je_target = jn_model j, je_join = j, je_reverse = False\<rparr>"

definition reverse_edge :: "string \<Rightarrow> join_def \<Rightarrow> join_edge" where
  "reverse_edge name j =
     \<lparr>je_target = name,
      je_join = \<lparr>jn_name = jn_name j @ ''_reverse'', jn_model = name, jn_type = jn_type j,
                 jn_on = map (\<lambda>(l, r). (r, l)) (jn_on j), jn_alias = None\<rparr>,
      je_reverse = True\<rparr>"

definition add_join ::
    "string \<Rightarrow> join_def \<Rightarrow> (string \<times> join_edge list) list \<Rightarrow> (string \<times> join_edge list) list" where
  "add_join name j adj = push_edge (jn_model j) (reverse_edge name j) (push_edge name (forward_edge j) adj)"

definition add_model :: "join_graph \<Rightarrow> model \<Rightarrow> join_graph" where
  "add_model g m =
     \<lparr>jg_models = AList.update (mo_name m) m (jg_models g),
      jg_adjacency = fold (add_join (mo_name m)) (mo_joins m) (jg_adjacency g)\<rparr>"

definition join_graph_new :: "model list \<Rightarrow> join_graph" where
  "join_graph_new ms = foldl add_model \<lparr>jg_models = [], jg_adjacency = []\<rparr> ms"

subsection \<open>Breadth first search\<close>

text \<open>The loop over the edges of the current node: the visited set and the queue grow.\<close>

fun visit_edges ::
    "join_edge list \<Rightarrow> join_edge list \<Rightarrow> string set \<Rightarrow> (string \<times> join_edge list) list
      \<Rightarrow> string set \<times> (string \<times> join_edge list) list" where
  "visit_edges path [] vis q = (vis, q)"
| "visit_edges path (e # es) vis q =
     (if je_target e \<notin> vis
      then visit_edges path es (insert (je_target e) vis) (q @ [(je_target e, path @ [e])])
      else visit_edges path es vis q)"

definition edge_targets :: "(string \<times> join_edge list) list \<Rightarrow> string set" where
  "edge_targets adj = je_target ` (\<Union> (set ` snd ` set adj))"

lemma finite_edge_targets [simp]: "finite (edge_targets adj)"
  by (simp add: edge_targets_def)

lemma edges_of_targets: "e \<in> set (edges_of adj n) \<Longrightarrow> je_target e \<in> edge_targets adj"
proof (cases "map_of adj n")
  case (Some es)
  moreover assume "e \<in> set (edges_of adj n)"
  ultimately have "(n, es) \<in> set adj" "e \<in> set es"
    by (auto simp: edges_of_def dest: map_of_SomeD)
  then have "e \<in> \<Union> (set ` snd ` set adj)" by (intro UN_I [of es] image_eqI [of _ snd "(n, es)"]) simp_all
  then show ?thesis unfolding edge_targets_def by (rule imageI)
qed (simp add: edges_of_def)

lemma visit_edges_measure:
  assumes "je_target ` set es \<subseteq> T" and "finite T" and "visit_edges path es vis q = (vis', q')"
  shows "length q' + card (T - vis') \<le> length q + card (T - vis)"
  using assms
proof (induction path es vis q rule: visit_edges.induct)
  case (2 path e es vis q)
  show ?case
  proof (cases "je_target e \<in> vis")
    case False
    have "T - insert (je_target e) vis = (T - vis) - {je_target e}" by auto
    moreover have "je_target e \<in> T - vis" using 2 False by simp
    ultimately have "Suc (card (T - insert (je_target e) vis)) = card (T - vis)"
      using 2(4) by (metis card.remove finite_Diff)
    then show ?thesis using 2 False by simp
  qed (use 2 in simp)
qed simp

function search_path ::
    "(string \<times> join_edge list) list \<Rightarrow> string \<Rightarrow> string set \<Rightarrow> (string \<times> join_edge list) list
      \<Rightarrow> join_edge list option" where
  "search_path adj to vis [] = None"
| "search_path adj to vis ((current, path) # q) =
     (if current = to then Some path
      else (case visit_edges path (edges_of adj current) vis q of
              (vis', q') \<Rightarrow> search_path adj to vis' q'))"
  by pat_completeness auto

termination
proof (relation "measure (\<lambda>(adj, to, vis, q). length q + card (edge_targets adj - vis))", goal_cases)
  case (2 adj to vis current path q vis' q')
  moreover have "je_target ` set (edges_of adj current) \<subseteq> edge_targets adj"
    by (auto intro: edges_of_targets)
  ultimately have "length q' + card (edge_targets adj - vis') \<le> length q + card (edge_targets adj - vis)"
    by (intro visit_edges_measure) simp_all
  then show ?case by simp
qed simp

definition find_path :: "join_graph \<Rightarrow> string \<Rightarrow> string \<Rightarrow> join_error + join_edge list" where
  "find_path g from to =
     (if from = to then Inr []
      else ok_or (NoJoinPath from to) (search_path (jg_adjacency g) to {from} [(from, [])]))"

subsection \<open>Joins of a query\<close>

text \<open>Keep the first edge of every target.\<close>

fun dedup_targets :: "string set \<Rightarrow> join_edge list \<Rightarrow> join_edge list" where
  "dedup_targets seen [] = []"
| "dedup_targets seen (e # es) =
     (if je_target e \<in> seen then dedup_targets seen es
      else e # dedup_targets (insert (je_target e) seen) es)"

definition resolve_joins :: "join_graph \<Rightarrow> string \<Rightarrow> string list \<Rightarrow> join_error + join_edge list" where
  "resolve_joins g base required =
     rbind (rmap (find_path g base) (filter (\<lambda>m. m \<noteq> base) required))
       (\<lambda>paths. Inr (dedup_targets {} (concat paths)))"

record join_clause =
  jc_join_type :: string
  jc_table :: string
  jc_alias :: string
  jc_on :: string

definition edge_on_condition :: "string \<Rightarrow> string \<Rightarrow> bool \<Rightarrow> string \<times> string \<Rightarrow> string" where
  "edge_on_condition base_alias target_alias reversed cond =
     (case cond of (left, right) \<Rightarrow>
        (if reversed then target_alias @ ''.'' @ left else base_alias @ ''.'' @ left) @ '' = ''
        @ (if reversed then base_alias @ ''.'' @ right else target_alias @ ''.'' @ right))"

definition edge_clause :: "string \<Rightarrow> join_edge \<Rightarrow> join_clause" where
  "edge_clause base_alias e =
     (let j = je_join e;
          target_alias = unwrap_or (jn_alias j) (jn_model j)
      in \<lparr>jc_join_type = sql_keyword (jn_type j), jc_table = jn_model j, jc_alias = target_alias,
          jc_on = str_join '' AND ''
            (map (edge_on_condition base_alias target_alias (je_reverse e)) (jn_on j))\<rparr>)"

definition build_join_clauses ::
    "join_graph \<Rightarrow> string \<Rightarrow> string list \<Rightarrow> string \<Rightarrow> join_error + join_clause list" where
  "build_join_clauses g base required base_alias =
     rbind (resolve_joins g base required) (\<lambda>edges. Inr (map (edge_clause base_alias) edges))"

subsection \<open>Walks\<close>

text \<open>The edges of a path, followed from a node to a node.\<close>

fun walk :: "(string \<times> join_edge list) list \<Rightarrow> string \<Rightarrow> join_edge list \<Rightarrow> string \<Rightarrow> bool" where
  "walk adj a [] b = (a = b)"
| "walk adj a (e # es) b = (e \<in> set (edges_of adj a) \<and> walk adj (je_target e) es b)"

lemma walk_append: "walk adj a (p @ r) b \<longleftrightarrow> (\<exists>c. walk adj a p c \<and> walk adj c r b)"
  by (induction p arbitrary: a) auto

definition shortest :: "(string \<times> join_edge list) list \<Rightarrow> string \<Rightarrow> join_edge list \<Rightarrow> string \<Rightarrow> bool" where
  "shortest adj a p b \<longleftrightarrow> walk adj a p b \<and> (\<forall>p'. walk adj a p' b \<longrightarrow> length p \<le> length p')"

lemma visit_edges_result:
  assumes "visit_edges path es vis q = (vis', q')"
  shows "vis' = vis \<union> je_target ` set es \<and>
    (\<exists>new. q' = q @ map (\<lambda>e. (je_target e, path @ [e])) new \<and> set new \<subseteq> set es
       \<and> je_target ` set new = je_target ` set es - vis)"
  using assms
proof (induction path es vis q rule: visit_edges.induct)
  case (2 path e es vis q)
  show ?case
  proof (cases "je_target e \<in> vis")
    case True
    with 2 obtain new where new: "vis' = vis \<union> je_target ` set es"
      "q' = q @ map (\<lambda>e. (je_target e, path @ [e])) new"
      "set new \<subseteq> set es" "je_target ` set new = je_target ` set es - vis"
      by auto
    then show ?thesis using True by (intro conjI exI [of _ new]) auto
  next
    case False
    with 2 obtain new where new:
      "vis' = insert (je_target e) vis \<union> je_target ` set es"
      "q' = (q @ [(je_target e, path @ [e])]) @ map (\<lambda>e. (je_target e, path @ [e])) new"
      "set new \<subseteq> set es" "je_target ` set new = je_target ` set es - insert (je_target e) vis"
      by auto
    then show ?thesis using False
      by (intro conjI exI [of _ "e # new"]) auto
  qed
qed simp

text \<open>The invariant of the search: entries of the queue are shortest paths, ordered by length,
  and the visited nodes are closed under edges apart from the nodes in the queue.\<close>

definition search_inv ::
    "(string \<times> join_edge list) list \<Rightarrow> string \<Rightarrow> string \<Rightarrow> string set \<Rightarrow> (string \<times> join_edge list) list \<Rightarrow> bool" where
  "search_inv adj a to vis q \<longleftrightarrow>
     a \<in> vis \<and>
     (\<forall>x \<in> set q. fst x \<in> vis \<and> shortest adj a (snd x) (fst x)) \<and>
     sorted (map (\<lambda>x. length (snd x)) q) \<and>
     (\<forall>x \<in> set q. length (snd x) \<le> Suc (length (snd (hd q)))) \<and>
     (\<forall>v \<in> vis - fst ` set q. v \<noteq> to \<and> je_target ` set (edges_of adj v) \<subseteq> vis)"

lemma sorted_hd_le:
  "sorted (map f q) \<Longrightarrow> x \<in> set q \<Longrightarrow> f (hd q) \<le> (f x :: nat)"
  by (cases q) auto

lemma search_inv_frontier:
  assumes "search_inv adj a to vis q" and "walk adj a p v" and "v \<notin> vis"
  shows "q \<noteq> [] \<and> length (snd (hd q)) < length p"
  using assms(2,3)
proof (induction p arbitrary: v rule: rev_induct)
  case Nil
  then show ?case using assms(1) by (simp add: search_inv_def)
next
  case (snoc e p)
  then obtain c where c: "walk adj a p c" "e \<in> set (edges_of adj c)" "je_target e = v"
    by (auto simp: walk_append)
  show ?case
  proof (cases "c \<in> vis")
    case True
    have "c \<in> fst ` set q"
    proof (rule ccontr)
      assume "c \<notin> fst ` set q"
      with True have "c \<in> vis - fst ` set q" by simp
      with assms(1) have "je_target ` set (edges_of adj c) \<subseteq> vis"
        unfolding search_inv_def by blast
      with c(2) have "je_target e \<in> vis" by auto
      then show False using c(3) snoc.prems(2) by simp
    qed
    then obtain x where x: "x \<in> set q" "fst x = c" by auto
    then have "length (snd x) \<le> length p"
      using assms(1) c(1) by (auto simp: search_inv_def shortest_def)
    moreover have "length (snd (hd q)) \<le> length (snd x)"
      using assms(1) x(1) by (intro sorted_hd_le [of "\<lambda>x. length (snd x)"]) (simp_all add: search_inv_def)
    ultimately show ?thesis using x(1) by auto
  next
    case False
    from snoc.IH [OF c(1) False] show ?thesis by simp
  qed
qed

lemma search_inv_step:
  assumes inv: "search_inv adj a to vis ((current, path) # q)" and "current \<noteq> to"
    and step: "visit_edges path (edges_of adj current) vis q = (vis', q')"
  shows "search_inv adj a to vis' q'"
proof -
  from visit_edges_result [OF step] obtain new where
    vis': "vis' = vis \<union> je_target ` set (edges_of adj current)"
    and q': "q' = q @ map (\<lambda>e. (je_target e, path @ [e])) new"
    and new: "set new \<subseteq> set (edges_of adj current)"
      "je_target ` set new = je_target ` set (edges_of adj current) - vis" by auto
  have a: "a \<in> vis'" using inv by (simp add: search_inv_def vis')
  have short: "shortest adj a (path @ [e]) (je_target e)" if "e \<in> set new" for e
  proof -
    have "walk adj a path current" using inv by (simp add: search_inv_def shortest_def)
    then have "walk adj a (path @ [e]) (je_target e)" using that new(1) by (auto simp: walk_append)
    moreover have "je_target e \<notin> vis" using that new(2) by auto
    ultimately show ?thesis
      using search_inv_frontier [OF inv] by (fastforce simp: shortest_def)
  qed
  have entries: "\<forall>x \<in> set q'. fst x \<in> vis' \<and> shortest adj a (snd x) (fst x)"
    using inv new(1) short by (auto simp: search_inv_def q' vis')
  have le: "length (snd x) \<le> Suc (length path)" "length path \<le> length (snd x)" if "x \<in> set q" for x
    using inv that by (auto simp: search_inv_def)
  have sorted: "sorted (map (\<lambda>x. length (snd x)) q')"
  proof -
    have "map (\<lambda>x. length (snd x)) q' = map (\<lambda>x. length (snd x)) q @ replicate (length new) (Suc (length path))"
      by (simp add: q' comp_def map_replicate_const)
    then show ?thesis
      using inv le by (auto simp: search_inv_def sorted_append)
  qed
  have width: "length (snd x) \<le> Suc (length (snd (hd q')))" if "x \<in> set q'" for x
  proof -
    have "length path \<le> length (snd (hd q'))"
      using that le by (cases q; cases new) (auto simp: q')
    moreover have "length (snd x) \<le> Suc (length path)"
      using that by (auto simp: q' dest: le(1))
    ultimately show ?thesis by simp
  qed
  have "\<forall>v \<in> vis' - fst ` set q'. v \<noteq> to \<and> je_target ` set (edges_of adj v) \<subseteq> vis'"
  proof
    fix v assume v: "v \<in> vis' - fst ` set q'"
    have "je_target e \<in> fst ` set q'" if "e \<in> set (edges_of adj current)" "je_target e \<notin> vis" for e
    proof -
      from that new(2) have "je_target e \<in> je_target ` set new" by auto
      then show ?thesis by (simp add: q' image_Un image_image)
    qed
    then have "v \<in> vis" using v by (auto simp: vis')
    then consider "v = current" | "v \<in> vis - fst ` set ((current, path) # q)"
      using v by (auto simp: q')
    then show "v \<noteq> to \<and> je_target ` set (edges_of adj v) \<subseteq> vis'"
    proof cases
      case 1 then show ?thesis using assms(2) by (simp add: vis')
    next
      case 2
      then have "v \<noteq> to \<and> je_target ` set (edges_of adj v) \<subseteq> vis"
        using inv unfolding search_inv_def by blast
      then show ?thesis by (auto simp: vis')
    qed
  qed
  then show ?thesis using a entries sorted width by (simp add: search_inv_def)
qed

lemma search_path_shortest:
  "search_inv adj a to vis q \<Longrightarrow>
     (case search_path adj to vis q of
        Some p \<Rightarrow> shortest adj a p to | None \<Rightarrow> (\<forall>p. \<not> walk adj a p to))"
proof (induction adj to vis q rule: search_path.induct)
  case (1 adj to vis)
  then have "to \<notin> vis" by (auto simp: search_inv_def)
  with search_inv_frontier [OF 1] show ?case by auto
next
  case (2 adj to vis current path q)
  obtain vis' q' where step: "visit_edges path (edges_of adj current) vis q = (vis', q')" by fastforce
  show ?case
  proof (cases "current = to")
    case True
    then show ?thesis using 2(2) by (auto simp: search_inv_def)
  next
    case False
    with 2(1) [OF False step [symmetric]] search_inv_step [OF 2(2) False step]
    show ?thesis by (simp add: step)
  qed
qed

lemma find_path_cases:
  "case find_path g a b of
     Inr p \<Rightarrow> shortest (jg_adjacency g) a p b
   | Inl e \<Rightarrow> e = NoJoinPath a b \<and> (\<forall>p. \<not> walk (jg_adjacency g) a p b)"
proof (cases "a = b")
  case True
  then show ?thesis by (simp add: find_path_def shortest_def)
next
  case False
  have "search_inv (jg_adjacency g) a b {a} [(a, [])]"
    by (auto simp: search_inv_def shortest_def)
  from search_path_shortest [OF this] False show ?thesis
    by (auto simp: find_path_def ok_or_def split: option.splits)
qed

lemma find_path_Inr: "find_path g a b = Inr p \<Longrightarrow> shortest (jg_adjacency g) a p b"
  using find_path_cases [where g = g and a = a and b = b] by simp

lemma find_path_ok: "is_ok (find_path g a b) \<longleftrightarrow> (\<exists>p. walk (jg_adjacency g) a p b)"
  using find_path_cases [where g = g and a = a and b = b] by (cases "find_path g a b") (auto simp: shortest_def)

subsection \<open>The graph is symmetric\<close>

lemma edges_of_push: "edges_of (push_edge k e adj) n = (if n = k then edges_of adj n @ [e] else edges_of adj n)"
  by (simp add: edges_of_def push_edge_def update_conv')

definition symmetric_adj :: "(string \<times> join_edge list) list \<Rightarrow> bool" where
  "symmetric_adj adj \<longleftrightarrow>
     (\<forall>a. \<forall>e \<in> set (edges_of adj a). \<exists>e' \<in> set (edges_of adj (je_target e)). je_target e' = a)"

lemma symmetric_add_join: "symmetric_adj adj \<Longrightarrow> symmetric_adj (add_join name j adj)"
  unfolding symmetric_adj_def
  by (auto simp: add_join_def edges_of_push forward_edge_def reverse_edge_def) metis+

lemma symmetric_fold: "symmetric_adj adj \<Longrightarrow> symmetric_adj (fold (add_join name) js adj)"
  by (induction js arbitrary: adj) (auto simp: symmetric_add_join)

lemma symmetric_graph: "symmetric_adj (jg_adjacency (join_graph_new ms))"
proof -
  have "symmetric_adj (jg_adjacency g) \<Longrightarrow> symmetric_adj (jg_adjacency (foldl add_model g ms))" for g
    by (induction ms arbitrary: g) (auto simp: add_model_def symmetric_fold)
  moreover have "symmetric_adj []" by (simp add: symmetric_adj_def edges_of_def)
  ultimately show ?thesis by (simp add: join_graph_new_def)
qed

lemma walk_reverse:
  assumes "symmetric_adj adj" and "walk adj a p b"
  shows "\<exists>p'. walk adj b p' a \<and> length p' = length p"
  using assms(2)
proof (induction p arbitrary: a)
  case (Cons e p)
  then obtain p' where p': "walk adj b p' (je_target e)" "length p' = length p" by auto
  from Cons.prems assms(1) obtain e' where "e' \<in> set (edges_of adj (je_target e))" "je_target e' = a"
    by (auto simp: symmetric_adj_def)
  with p' show ?case by (intro exI [of _ "p' @ [e']"]) (auto simp: walk_append)
qed simp


subsection \<open>Resolved joins\<close>

text \<open>Every edge starts at the base model or at the target of an earlier edge.\<close>

fun joinable :: "(string \<times> join_edge list) list \<Rightarrow> string set \<Rightarrow> join_edge list \<Rightarrow> bool" where
  "joinable adj seen [] = True"
| "joinable adj seen (e # es) =
     ((\<exists>u \<in> seen. e \<in> set (edges_of adj u)) \<and> joinable adj (insert (je_target e) seen) es)"

lemma joinable_append:
  "joinable adj seen (xs @ ys) \<longleftrightarrow> joinable adj seen xs \<and> joinable adj (seen \<union> je_target ` set xs) ys"
  by (induction xs arbitrary: seen) auto

lemma joinable_mono: "joinable adj seen es \<Longrightarrow> seen \<subseteq> seen' \<Longrightarrow> joinable adj seen' es"
proof (induction es arbitrary: seen seen')
  case (Cons e es)
  then have "joinable adj (insert (je_target e) seen') es"
    by (metis insert_mono joinable.simps(2))
  with Cons.prems show ?case by auto
qed simp

lemma walk_joinable: "walk adj a p b \<Longrightarrow> a \<in> seen \<Longrightarrow> joinable adj seen p"
  by (induction p arbitrary: a seen) auto

lemma concat_joinable:
  "(\<And>p. p \<in> set ps \<Longrightarrow> joinable adj seen p) \<Longrightarrow> joinable adj seen (concat ps)"
  by (induction ps arbitrary: seen) (auto simp: joinable_append intro: joinable_mono)

lemma dedup_joinable: "joinable adj S es \<Longrightarrow> seen \<subseteq> S \<Longrightarrow> joinable adj S (dedup_targets seen es)"
proof (induction seen es arbitrary: S rule: dedup_targets.induct)
  case (2 seen e es)
  show ?case
  proof (cases "je_target e \<in> seen")
    case True
    then have "insert (je_target e) S = S" using 2(4) by auto
    with 2 True show ?thesis by simp
  next
    case False
    with 2(2) [OF False, of "insert (je_target e) S"] 2(3,4) show ?thesis by auto
  qed
qed simp

lemma dedup_targets_spec:
  "distinct (map je_target (dedup_targets seen es)) \<and>
   je_target ` set (dedup_targets seen es) = je_target ` set es - seen"
  by (induction seen es rule: dedup_targets.induct) auto

lemma shortest_not_base:
  assumes "shortest adj a p b" and "e \<in> set p"
  shows "je_target e \<noteq> a"
proof
  assume eq: "je_target e = a"
  from assms(2) obtain xs ys where p: "p = xs @ e # ys" by (auto simp: in_set_conv_decomp)
  with assms(1) have "walk adj a ys b" by (auto simp: shortest_def walk_append eq)
  with assms(1) p show False by (fastforce simp: shortest_def)
qed

lemma walk_last_target: "walk adj a p b \<Longrightarrow> a \<noteq> b \<Longrightarrow> b \<in> je_target ` set p"
  by (induction p arbitrary: a) auto

text \<open>
  C11. \<open>JoinGraph::find_path\<close> always returns: a path whose edges lead from the first model to the
  second and that is as short as any such path, or, exactly when there is none, the error
  naming the two models.
\<close>

theorem find_path_shortest:
  "(case find_path g a b of
      Inr p \<Rightarrow> shortest (jg_adjacency g) a p b
    | Inl e \<Rightarrow> e = NoJoinPath a b \<and> (\<nexists>p. walk (jg_adjacency g) a p b))"
  using find_path_cases [where g = g and a = a and b = b] by (simp split: sum.splits)

text \<open>
  The graph is built with an edge in both directions for every declared join, so whether
  two models can be joined does not depend on which one the query starts from.
\<close>

lemma find_path_symmetric:
  "is_ok (find_path (join_graph_new ms) a b) = is_ok (find_path (join_graph_new ms) b a)"
  using walk_reverse [OF symmetric_graph] by (auto simp: find_path_ok) blast+

text \<open>
  C21. \<open>JoinGraph::resolve_joins\<close> fails exactly on a model that cannot be reached from the base,
  and otherwise yields edges with distinct targets, never back into the base, that reach every
  required model and are ordered so that each starts at the base or at an earlier target.
\<close>

theorem resolve_joins_ordered:
  "(case resolve_joins g base required of
      Inr es \<Rightarrow> distinct (map je_target es)
        \<and> set required - {base} \<subseteq> je_target ` set es \<and> base \<notin> je_target ` set es
        \<and> joinable (jg_adjacency g) {base} es
    | Inl e \<Rightarrow> \<exists>m. m \<in> set required \<and> e = NoJoinPath base m \<and> (\<nexists>p. walk (jg_adjacency g) base p m))"
proof (cases "rmap (find_path g base) (filter (\<lambda>m. m \<noteq> base) required)")
  case (Inl e)
  from rmap_Inl [OF this] obtain m where "m \<in> set required" "find_path g base m = Inl e" by auto
  then show ?thesis
    using find_path_cases [where g = g and a = base and b = m] Inl by (auto simp: resolve_joins_def)
next
  case (Inr paths)
  let ?adj = "jg_adjacency g"
  have paths: "\<exists>m \<in> set required. m \<noteq> base \<and> shortest ?adj base p m" if "p \<in> set paths" for p
  proof -
    let ?ms = "filter (\<lambda>m. m \<noteq> base) required"
    from that obtain i where i: "i < length paths" "p = paths ! i" by (auto simp: in_set_conv_nth)
    with Inr have m: "i < length ?ms" "find_path g base (?ms ! i) = Inr p"
      by (auto simp: rmap_Inr list_all2_conv_all_nth)
    from nth_mem [OF m(1)] have "?ms ! i \<in> set required" "?ms ! i \<noteq> base" by auto
    with find_path_Inr [OF m(2)] show ?thesis by blast
  qed
  have covered: "m \<in> je_target ` set (concat paths)" if m: "m \<in> set required" "m \<noteq> base" for m
  proof -
    from m obtain i where i: "i < length (filter (\<lambda>m. m \<noteq> base) required)"
      "filter (\<lambda>m. m \<noteq> base) required ! i = m"
      using in_set_conv_nth [of m "filter (\<lambda>m. m \<noteq> base) required"] by auto
    with Inr have p: "i < length paths" "find_path g base m = Inr (paths ! i)"
      by (auto simp: rmap_Inr list_all2_conv_all_nth)
    from find_path_Inr [OF p(2)] have "walk ?adj base (paths ! i) m" by (simp add: shortest_def)
    from walk_last_target [OF this] m p(1) show ?thesis by fastforce
  qed
  have "joinable ?adj {base} (concat paths)"
    using paths by (intro concat_joinable) (auto simp: shortest_def intro: walk_joinable)
  then have "joinable ?adj {base} (dedup_targets {} (concat paths))"
    by (rule dedup_joinable) simp
  moreover have "base \<notin> je_target ` set (concat paths)"
    using paths shortest_not_base by fastforce
  ultimately show ?thesis
    using covered dedup_targets_spec [of "{}" "concat paths"] Inr
    by (auto simp: resolve_joins_def)
qed

text \<open>
  The columns of a join condition: a declared join from the base compares the base's left
  columns with the target's right columns, and walking the same join from the other end puts
  the right columns (the other model's) on the declaring model and the left ones on the base.
\<close>

lemma join_on_columns:
  "jc_on (edge_clause base_alias (forward_edge j)) =
     str_join '' AND '' (map (\<lambda>(l, r). base_alias @ ''.'' @ l @ '' = ''
       @ unwrap_or (jn_alias j) (jn_model j) @ ''.'' @ r) (jn_on j)) \<and>
   jc_on (edge_clause base_alias (reverse_edge name j)) =
     str_join '' AND '' (map (\<lambda>(l, r). name @ ''.'' @ r @ '' = '' @ base_alias @ ''.'' @ l) (jn_on j))"
  by (auto simp: edge_clause_def forward_edge_def reverse_edge_def edge_on_condition_def Let_def comp_def
      intro!: arg_cong [where f = "str_join _"])


end
