(* ===== verification/Security.thy ===== *)
theory Security
  imports Models
begin

text \<open>
  \<open>crates/graphnight-core/src/security.rs\<close> and \<open>secrets.rs\<close>: the session policy and its
  enforcement on queries, the built-in mask functions, the in-memory audit buffer, and the
  secret references of connection strings. The process environment is a parameter. A slice
  at a position that is no character boundary panics; a mask that panics returns \<open>None\<close>.
\<close>

subsection \<open>Masks\<close>

definition is_char_boundary :: "string \<Rightarrow> nat \<Rightarrow> bool" where
  "is_char_boundary s i \<longleftrightarrow>
     i = 0 \<or> i = length s \<or> (i < length s \<and> (byte (s ! i) < 128 \<or> 192 \<le> byte (s ! i)))"

definition slice_to :: "string \<Rightarrow> nat \<Rightarrow> string option" where
  "slice_to s i = (if is_char_boundary s i then Some (take i s) else None)"

definition slice_from :: "string \<Rightarrow> nat \<Rightarrow> string option" where
  "slice_from s i = (if is_char_boundary s i then Some (drop i s) else None)"

type_synonym mask_fn = "string \<Rightarrow> string option"

definition email_mask :: mask_fn where
  "email_mask value =
     (case split_once (CHR ''@'') value of
        Some (local_part, rest) \<Rightarrow>
          let dom_part = CHR ''@'' # rest in
          if 2 < length local_part
          then Option.bind (slice_to local_part 1) (\<lambda>a.
               Option.bind (slice_from local_part (length local_part - 1)) (\<lambda>b.
               Some (a @ ''***'' @ b @ dom_part)))
          else Some (''***'' @ dom_part)
      | None \<Rightarrow> Some ''***'')"

definition digits_in :: "string \<Rightarrow> string" where
  "digits_in s = filter is_ascii_digit s"

definition last_n :: "nat \<Rightarrow> string \<Rightarrow> string" where
  "last_n n s = drop (length s - n) s"

definition phone_mask :: mask_fn where
  "phone_mask value =
     (let digits = digits_in value in
      if 10 \<le> length digits then Some (''(***) ***-'' @ last_n 4 digits)
      else Some ''***-***-****'')"

definition ssn_mask :: mask_fn where
  "ssn_mask value = Some ''***-**-****''"

definition credit_card_mask :: mask_fn where
  "credit_card_mask value =
     (let digits = digits_in value in
      if 4 \<le> length digits then Some (''**** **** **** '' @ last_n 4 digits)
      else Some ''**** **** **** ****'')"

definition truncate_mask :: "nat \<Rightarrow> mask_fn" where
  "truncate_mask len value =
     (if len < length value then map_option (\<lambda>s. s @ ''...'') (slice_to value len)
      else Some value)"

subsection \<open>The session policy\<close>

record session_policy =
  sp_forced_filters :: "filter_cond list"
  sp_allowed_models :: "string list option"
  sp_denied_models :: "string list option"
  sp_column_masks :: "(string \<times> mask_fn) list"
  sp_row_filter :: "filter_cond option"
  sp_max_rows :: "nat option"
  sp_allowed_datasources :: "string list option"
  sp_query_timeout_secs :: "nat option"

definition session_policy_new :: session_policy where
  "session_policy_new =
     \<lparr>sp_forced_filters = [], sp_allowed_models = None, sp_denied_models = None,
      sp_column_masks = [], sp_row_filter = None, sp_max_rows = Some 10000,
      sp_allowed_datasources = None, sp_query_timeout_secs = Some 300\<rparr>"

definition with_forced_filter :: "session_policy \<Rightarrow> filter_cond \<Rightarrow> session_policy" where
  "with_forced_filter p f = p\<lparr>sp_forced_filters := sp_forced_filters p @ [f]\<rparr>"

definition with_allowed_models :: "session_policy \<Rightarrow> string list \<Rightarrow> session_policy" where
  "with_allowed_models p ms = p\<lparr>sp_allowed_models := Some ms\<rparr>"

definition with_denied_models :: "session_policy \<Rightarrow> string list \<Rightarrow> session_policy" where
  "with_denied_models p ms = p\<lparr>sp_denied_models := Some ms\<rparr>"

definition with_column_mask :: "session_policy \<Rightarrow> string \<Rightarrow> mask_fn \<Rightarrow> session_policy" where
  "with_column_mask p c f = p\<lparr>sp_column_masks := AList.update c f (sp_column_masks p)\<rparr>"

definition with_row_filter :: "session_policy \<Rightarrow> filter_cond \<Rightarrow> session_policy" where
  "with_row_filter p f = p\<lparr>sp_row_filter := Some f\<rparr>"

definition with_max_rows :: "session_policy \<Rightarrow> nat \<Rightarrow> session_policy" where
  "with_max_rows p n = p\<lparr>sp_max_rows := Some n\<rparr>"

datatype access_error =
    ModelNotAllowed string
  | ModelDenied string
  | DatasourceNotAllowed string

definition check_model_access :: "session_policy \<Rightarrow> string \<Rightarrow> access_error + unit" where
  "check_model_access p name =
     (if (case sp_allowed_models p of Some allowed \<Rightarrow> name \<notin> set allowed | None \<Rightarrow> False)
      then Inl (ModelNotAllowed name)
      else if (case sp_denied_models p of Some denied \<Rightarrow> name \<in> set denied | None \<Rightarrow> False)
      then Inl (ModelDenied name)
      else Inr ())"

definition check_datasource_access :: "session_policy \<Rightarrow> string \<Rightarrow> access_error + unit" where
  "check_datasource_access p datasource =
     (if (case sp_allowed_datasources p of Some allowed \<Rightarrow> datasource \<notin> set allowed | None \<Rightarrow> False)
      then Inl (DatasourceNotAllowed datasource)
      else Inr ())"

definition apply_forced_filters :: "session_policy \<Rightarrow> query \<Rightarrow> query" where
  "apply_forced_filters p q = foldl query_add_filter q (sp_forced_filters p)"

definition apply_rls :: "session_policy \<Rightarrow> query \<Rightarrow> query" where
  "apply_rls p q = (case sp_row_filter p of Some f \<Rightarrow> query_add_filter q f | None \<Rightarrow> q)"

definition enforce_row_limit :: "session_policy \<Rightarrow> query \<Rightarrow> query" where
  "enforce_row_limit p q =
     (let max_rows = unwrap_or (sp_max_rows p) 10000 in
      case q_limit q of
        Some limit \<Rightarrow> if max_rows < limit then q\<lparr>q_limit := Some max_rows\<rparr> else q
      | None \<Rightarrow> q\<lparr>q_limit := Some max_rows\<rparr>)"

definition query_timeout :: "session_policy \<Rightarrow> nat" where
  "query_timeout p = unwrap_or (sp_query_timeout_secs p) 300"

subsection \<open>The audit buffer\<close>

text \<open>The time stamp is its RFC 3339 text.\<close>

record audit_entry =
  ae_timestamp :: string
  ae_user_id :: "string option"
  ae_tenant_id :: "string option"
  ae_action :: string
  ae_model :: "string option"
  ae_query_hash :: "string option"
  ae_row_count :: "nat option"
  ae_duration_ms :: nat
  ae_success :: bool
  ae_error :: "string option"

record audit_logger =
  al_entries :: "audit_entry list"
  al_max_entries :: nat

definition audit_new :: "nat \<Rightarrow> audit_logger" where
  "audit_new n = \<lparr>al_entries = [], al_max_entries = n\<rparr>"

definition audit_log :: "audit_logger \<Rightarrow> audit_entry \<Rightarrow> audit_logger" where
  "audit_log l e =
     (let entries = al_entries l @ [e]
      in l\<lparr>al_entries := (if al_max_entries l < length entries then tl entries else entries)\<rparr>)"

definition audit_clear :: "audit_logger \<Rightarrow> audit_logger" where
  "audit_clear l = l\<lparr>al_entries := []\<rparr>"

subsection \<open>Secret references\<close>

text \<open>The environment maps a variable to its value.\<close>

type_synonym env = "string \<Rightarrow> string option"

datatype secret_error = MissingVariable string | SecretRefRequired

definition require_secret_refs_enabled :: "env \<Rightarrow> bool" where
  "require_secret_refs_enabled env =
     (case env ''GRAPHNIGHT_REQUIRE_SECRET_REFS'' of
        Some v \<Rightarrow> v = ''1'' \<or> eq_ignore_case v ''true''
      | None \<Rightarrow> False)"

definition is_env_secret_ref :: "string \<Rightarrow> bool" where
  "is_env_secret_ref value =
     (case strip_prefix ''env:'' value of
        Some name \<Rightarrow> name \<noteq> [] \<and> CHR '':'' \<notin> set name
      | None \<Rightarrow> False)"

definition env_secret_var_name :: "string \<Rightarrow> string option" where
  "env_secret_var_name value =
     Option.bind (strip_prefix ''env:'' value) (\<lambda>name0.
       let name = trim name0 in
       if name = [] \<or> CHR '':'' \<in> set name then None else Some name)"

definition resolve_connection_string :: "env \<Rightarrow> string \<Rightarrow> secret_error + string" where
  "resolve_connection_string env value =
     (case env_secret_var_name value of
        Some var \<Rightarrow> ok_or (MissingVariable var) (env var)
      | None \<Rightarrow> Inr value)"

definition validate_connection_string_input :: "env \<Rightarrow> string \<Rightarrow> secret_error + unit" where
  "validate_connection_string_input env value =
     (if \<not> require_secret_refs_enabled env then Inr ()
      else if is_env_secret_ref value then Inr () else Inl SecretRefRequired)"

subsection \<open>What the policy guarantees\<close>

lemma check_model_access_ok:
  "check_model_access p m = Inr () \<longleftrightarrow>
     (\<forall>a. sp_allowed_models p = Some a \<longrightarrow> m \<in> set a) \<and> (\<forall>d. sp_denied_models p = Some d \<longrightarrow> m \<notin> set d)"
  by (auto simp: check_model_access_def split: option.splits)

lemma check_datasource_access_ok:
  "check_datasource_access p d = Inr () \<longleftrightarrow> (\<forall>a. sp_allowed_datasources p = Some a \<longrightarrow> d \<in> set a)"
  by (auto simp: check_datasource_access_def split: option.splits)

definition row_cap :: "session_policy \<Rightarrow> nat" where
  "row_cap p = unwrap_or (sp_max_rows p) 10000"

lemma enforce_row_limit_eq:
  "enforce_row_limit p q = q\<lparr>q_limit := Some (min (unwrap_or (q_limit q) (row_cap p)) (row_cap p))\<rparr>"
  by (cases q) (auto simp: enforce_row_limit_def row_cap_def Let_def min_def split: option.splits)

lemma apply_forced_filters_eq:
  "apply_forced_filters p q = q\<lparr>q_filters := q_filters q @ sp_forced_filters p\<rparr>"
proof -
  have "foldl query_add_filter q fs = q\<lparr>q_filters := q_filters q @ fs\<rparr>" for fs
    by (induction fs arbitrary: q) (auto simp: query_add_filter_def)
  then show ?thesis by (simp add: apply_forced_filters_def)
qed

lemma apply_rls_eq:
  "apply_rls p q = q\<lparr>q_filters := q_filters q @ (case sp_row_filter p of Some f \<Rightarrow> [f] | None \<Rightarrow> [])\<rparr>"
  by (auto simp: apply_rls_def query_add_filter_def split: option.splits)

text \<open>
  The three enforcement passes together: a query leaves them with its own filters first and
  then every forced filter and the row filter, with a limit that is the smaller of its own
  limit and the row cap, and otherwise unchanged.
\<close>

lemma policy_passes:
  "enforce_row_limit p (apply_rls p (apply_forced_filters p q)) =
     q\<lparr>q_filters := q_filters q @ sp_forced_filters p @ (case sp_row_filter p of Some f \<Rightarrow> [f] | None \<Rightarrow> []),
       q_limit := Some (min (unwrap_or (q_limit q) (row_cap p)) (row_cap p))\<rparr>"
  by (simp add: enforce_row_limit_eq apply_rls_eq apply_forced_filters_eq)

subsection \<open>What the masks reveal\<close>

lemma email_mask_long:
  assumes "CHR ''@'' \<notin> set (a # x @ [b])" and "x \<noteq> []"
  shows "email_mask (a # x @ b # ''@'' @ d) =
    (if is_char_boundary (a # x @ [b]) 1 \<and> is_char_boundary (a # x @ [b]) (Suc (length x))
     then Some (a # ''***'' @ b # ''@'' @ d) else None)"
proof -
  have "split_once (CHR ''@'') (a # x @ b # ''@'' @ d) = Some (a # x @ [b], d)"
    using assms(1) by (simp add: split_once_Some)
  moreover have "2 < length (a # x @ [b])" using assms(2) by (cases x) auto
  ultimately show ?thesis
    by (simp add: email_mask_def slice_to_def slice_from_def)
qed

text \<open>
  The masks show no more than they promise. Phone and card numbers with the same last four
  digits are masked alike, a social security number shows nothing, and an e-mail address whose
  local part has more than two characters shows its first and its last one around three stars;
  the mask panics exactly when one of the two cuts falls inside a multi-byte character.
\<close>

lemma masks_hide:
  assumes "CHR ''@'' \<notin> set (a # x @ [b])" and "x \<noteq> []"
    and "10 \<le> length (digits_in v)" and "10 \<le> length (digits_in w)"
    and "last_n 4 (digits_in v) = last_n 4 (digits_in w)"
  shows "email_mask (a # x @ b # ''@'' @ d) =
      (if is_char_boundary (a # x @ [b]) 1 \<and> is_char_boundary (a # x @ [b]) (Suc (length x))
       then Some (a # ''***'' @ b # ''@'' @ d) else None) \<and>
    phone_mask v = phone_mask w \<and> credit_card_mask v = credit_card_mask w \<and> ssn_mask v = ssn_mask w"
proof (intro conjI)
  show "email_mask (a # x @ b # ''@'' @ d) =
      (if is_char_boundary (a # x @ [b]) 1 \<and> is_char_boundary (a # x @ [b]) (Suc (length x))
       then Some (a # ''***'' @ b # ''@'' @ d) else None)"
    by (rule email_mask_long [OF assms(1,2)])
qed (use assms(3-5) in \<open>simp_all add: phone_mask_def credit_card_mask_def ssn_mask_def\<close>)

lemma masks_hide_witness:
  "email_mask (CHR ''j'' # ''ane'' @ CHR ''d'' # ''@'' @ ''x.org'') = Some (CHR ''j'' # ''***'' @ CHR ''d'' # ''@'' @ ''x.org'')
   \<and> phone_mask ''(555) 010-4477'' = phone_mask ''999 888 4477''"
proof -
  have "CHR ''@'' \<notin> set (CHR ''j'' # ''ane'' @ [CHR ''d''])" "''ane'' \<noteq> []"
    "10 \<le> length (digits_in ''(555) 010-4477'')" "10 \<le> length (digits_in ''999 888 4477'')"
    "last_n 4 (digits_in ''(555) 010-4477'') = last_n 4 (digits_in ''999 888 4477'')"
    "is_char_boundary (CHR ''j'' # ''ane'' @ [CHR ''d'']) 1"
    "is_char_boundary (CHR ''j'' # ''ane'' @ [CHR ''d'']) (Suc (length ''ane''))"
    by code_simp+
  with masks_hide [of "CHR ''j''" "''ane''" "CHR ''d''" "''(555) 010-4477''" "''999 888 4477''" "''x.org''"]
  show ?thesis by simp
qed

subsection \<open>The audit buffer keeps the latest entries\<close>

lemma audit_log_all:
  "foldl audit_log (audit_new n) es = \<lparr>al_entries = drop (length es - n) es, al_max_entries = n\<rparr>"
proof (induction es rule: rev_induct)
  case Nil
  then show ?case by (simp add: audit_new_def)
next
  case (snoc e es)
  show ?case
  proof (cases "n \<le> length es")
    case True
    then have "drop (length (es @ [e]) - n) (es @ [e]) = tl (drop (length es - n) (es @ [e]))"
      by (simp only: length_append_singleton Suc_diff_le drop_Suc tl_drop)
    also have "drop (length es - n) (es @ [e]) = drop (length es - n) es @ [e]" by simp
    finally show ?thesis using snoc True by (simp add: audit_log_def)
  next
    case False
    with snoc show ?thesis by (simp add: audit_log_def)
  qed
qed

text \<open>
  C40. The audit buffer is a window: after any sequence of entries it holds exactly the latest
  ones, at most its capacity, in the order they were logged.
\<close>

theorem audit_window:
  "al_entries (foldl audit_log (audit_new n) es) = drop (length es - n) es \<and>
   length (al_entries (foldl audit_log (audit_new n) es)) = min n (length es)"
  by (simp add: audit_log_all min_def)

subsection \<open>Secret references stay references\<close>

lemma is_env_secret_ref_text: "is_env_secret_ref v \<longleftrightarrow> (\<exists>n. v = ''env:'' @ n \<and> n \<noteq> [] \<and> CHR '':'' \<notin> set n)"
  by (auto simp: is_env_secret_ref_def strip_prefix_eq split: option.splits)

text \<open>
  With \<open>GRAPHNIGHT_REQUIRE_SECRET_REFS\<close> on, an accepted connection string is a reference
  and what it resolves to comes from the environment, under the trimmed name; only a reference
  whose name is blank, which is accepted too, resolves to its own text.
\<close>

lemma required_secrets_from_environment:
  assumes "require_secret_refs_enabled env" and "validate_connection_string_input env value = Inr ()"
  shows "\<exists>name. value = ''env:'' @ name \<and>
    resolve_connection_string env value =
      (if trim name = [] then Inr value else ok_or (MissingVariable (trim name)) (env (trim name)))"
proof -
  from assms obtain name where v: "value = ''env:'' @ name" "CHR '':'' \<notin> set name"
    by (auto simp: validate_connection_string_input_def is_env_secret_ref_text split: if_splits)
  then have "env_secret_var_name value = (if trim name = [] then None else Some (trim name))"
    using set_trim [of name] by (auto simp: env_secret_var_name_def Let_def)
  with v(1) show ?thesis by (auto simp: resolve_connection_string_def)
qed

lemma required_secrets_from_environment_witness:
  "\<exists>name. ''env: DB'' = ''env:'' @ name \<and>
    resolve_connection_string (\<lambda>k. if k = ''GRAPHNIGHT_REQUIRE_SECRET_REFS'' then Some ''TRUE'' else Some ''pg'') ''env: DB'' =
      (if trim name = [] then Inr ''env: DB''
       else ok_or (MissingVariable (trim name))
         ((\<lambda>k. if k = ''GRAPHNIGHT_REQUIRE_SECRET_REFS'' then Some ''TRUE'' else Some ''pg'') (trim name)))"
  by (rule required_secrets_from_environment) code_simp+

end
