(* ===== verification/Dialects.thy ===== *)
theory Dialects
  imports Join
begin

text \<open>
  \<open>crates/graphnight-sql/src/dialects.rs\<close>: the four SQL dialects behind the \<open>Dialect\<close>
  trait. The trait object is the datatype \<open>dialect\<close>; each trait method is a function that
  dispatches to the implementation of the dialect, and each implementation is a definition
  of its own. Rendering a JSON object (\<open>Value::to_string\<close>) is the work of \<open>serde_json\<close>: it is
  the parameter \<open>ser\<close>.
\<close>

subsection \<open>The logical plan\<close>

record select_item =
  si_expression :: string
  si_alias :: "string option"

record order_by_item =
  oi_column :: string
  oi_descending :: bool

text \<open>The join clauses of a plan have the fields of the walker's.\<close>

record logical_plan =
  lp_source_table :: string
  lp_source_is_sql :: bool
  lp_source_alias :: string
  lp_select_items :: "select_item list"
  lp_where_clause :: "string option"
  lp_group_by :: "string list"
  lp_order_by :: "order_by_item list"
  lp_limit :: "nat option"
  lp_offset :: "nat option"
  lp_joins :: "join_clause list"
  lp_distinct :: bool
  lp_params :: "json list"

datatype dialect = Postgres | MySql | Sqlite | DuckDb

type_synonym serializer = "json \<Rightarrow> string"

subsection \<open>Identifiers and literals\<close>

definition quote_with :: "char \<Rightarrow> string \<Rightarrow> string" where
  "quote_with q s = q # replace_char q [q, q] s @ [q]"

definition pg_quote_ident :: "string \<Rightarrow> string" where
  "pg_quote_ident ident = dquote @ replace_char (CHR 0x22) (dquote @ dquote) ident @ dquote"

definition mysql_quote_ident :: "string \<Rightarrow> string" where
  "mysql_quote_ident ident = bquote @ replace_char (CHR 0x60) (bquote @ bquote) ident @ bquote"

definition sqlite_quote_ident :: "string \<Rightarrow> string" where
  "sqlite_quote_ident ident = dquote @ replace_char (CHR 0x22) (dquote @ dquote) ident @ dquote"

definition duckdb_quote_ident :: "string \<Rightarrow> string" where
  "duckdb_quote_ident ident = dquote @ replace_char (CHR 0x22) (dquote @ dquote) ident @ dquote"

fun quote_ident :: "dialect \<Rightarrow> string \<Rightarrow> string" where
  "quote_ident Postgres ident = pg_quote_ident ident"
| "quote_ident MySql ident = mysql_quote_ident ident"
| "quote_ident Sqlite ident = sqlite_quote_ident ident"
| "quote_ident DuckDb ident = duckdb_quote_ident ident"

definition quote_literal :: "string \<Rightarrow> string" where
  "quote_literal s = squote @ replace_char (CHR 0x27) (squote @ squote) s @ squote"

definition escape_literal :: "string \<Rightarrow> string" where
  "escape_literal s =
     replace_char (CHR 0x27) (squote @ squote) (replace_char (CHR 0x5C) (backslash @ backslash) s)"

fun pg_format_value :: "serializer \<Rightarrow> json \<Rightarrow> string" where
  "pg_format_value ser JNull = ''NULL''"
| "pg_format_value ser (JBool b) = (if b then ''TRUE'' else ''FALSE'')"
| "pg_format_value ser (JNumber n) = n"
| "pg_format_value ser (JString s) = quote_literal s"
| "pg_format_value ser (JArray arr) =
     ''ARRAY['' @ str_join '', '' (map (pg_format_value ser) arr) @ '']''"
| "pg_format_value ser (JObject m) = quote_literal (ser (JObject m))"

fun mysql_format_value :: "serializer \<Rightarrow> json \<Rightarrow> string" where
  "mysql_format_value ser JNull = ''NULL''"
| "mysql_format_value ser (JBool b) = (if b then ''TRUE'' else ''FALSE'')"
| "mysql_format_value ser (JNumber n) = n"
| "mysql_format_value ser (JString s) = squote @ escape_literal s @ squote"
| "mysql_format_value ser (JArray arr) =
     ''JSON_ARRAY('' @ str_join '', '' (map (mysql_format_value ser) arr) @ '')''"
| "mysql_format_value ser (JObject m) = squote @ escape_literal (ser (JObject m)) @ squote"

fun sqlite_format_value :: "serializer \<Rightarrow> json \<Rightarrow> string" where
  "sqlite_format_value ser JNull = ''NULL''"
| "sqlite_format_value ser (JBool b) = (if b then ''1'' else ''0'')"
| "sqlite_format_value ser (JNumber n) = n"
| "sqlite_format_value ser (JString s) = quote_literal s"
| "sqlite_format_value ser (JArray arr) =
     ''JSON_GROUP_ARRAY('' @ str_join '','' (map (sqlite_format_value ser) arr) @ '')''"
| "sqlite_format_value ser (JObject m) = quote_literal (ser (JObject m))"

fun duckdb_format_value :: "serializer \<Rightarrow> json \<Rightarrow> string" where
  "duckdb_format_value ser JNull = ''NULL''"
| "duckdb_format_value ser (JBool b) = (if b then ''TRUE'' else ''FALSE'')"
| "duckdb_format_value ser (JNumber n) = n"
| "duckdb_format_value ser (JString s) = quote_literal s"
| "duckdb_format_value ser (JArray arr) =
     ''['' @ str_join '', '' (map (duckdb_format_value ser) arr) @ '']''"
| "duckdb_format_value ser (JObject m) = quote_literal (ser (JObject m))"

fun format_value :: "serializer \<Rightarrow> dialect \<Rightarrow> json \<Rightarrow> string" where
  "format_value ser Postgres v = pg_format_value ser v"
| "format_value ser MySql v = mysql_format_value ser v"
| "format_value ser Sqlite v = sqlite_format_value ser v"
| "format_value ser DuckDb v = duckdb_format_value ser v"

text \<open>Postgres numbers its placeholders, the other dialects inherit the question mark.\<close>

definition default_placeholder :: "nat \<Rightarrow> string" where
  "default_placeholder index = ''?''"

definition pg_placeholder :: "nat \<Rightarrow> string" where
  "pg_placeholder index = ''$'' @ nat_str index"

fun placeholder :: "dialect \<Rightarrow> nat \<Rightarrow> string" where
  "placeholder Postgres index = pg_placeholder index"
| "placeholder _ index = default_placeholder index"

subsection \<open>Names, spatial support, functions\<close>

fun dialect_name :: "dialect \<Rightarrow> string" where
  "dialect_name Postgres = ''postgres''"
| "dialect_name MySql = ''mysql''"
| "dialect_name Sqlite = ''sqlite''"
| "dialect_name DuckDb = ''duckdb''"

definition ogc_geometry_ctor :: "string \<Rightarrow> bool \<Rightarrow> string" where
  "ogc_geometry_ctor value_sql from_wkt =
     (if from_wkt then ''ST_GeomFromText'' else ''ST_GeomFromGeoJSON'')
       @ ''(CAST('' @ value_sql @ '' AS VARCHAR))''"

fun spatial_geometry :: "dialect \<Rightarrow> string \<Rightarrow> bool \<Rightarrow> string option" where
  "spatial_geometry Postgres value_sql from_wkt = Some (ogc_geometry_ctor value_sql from_wkt)"
| "spatial_geometry DuckDb value_sql from_wkt = Some (ogc_geometry_ctor value_sql from_wkt)"
| "spatial_geometry _ value_sql from_wkt = None"

fun geometry_as_geojson :: "dialect \<Rightarrow> string \<Rightarrow> string option" where
  "geometry_as_geojson Postgres column_sql = Some (''ST_AsGeoJSON('' @ column_sql @ '')'')"
| "geometry_as_geojson DuckDb column_sql = Some (''ST_AsGeoJSON('' @ column_sql @ '')'')"
| "geometry_as_geojson _ column_sql = None"

fun current_timestamp :: "dialect \<Rightarrow> string" where
  "current_timestamp Postgres = ''NOW()''"
| "current_timestamp MySql = ''NOW()''"
| "current_timestamp Sqlite = ''datetime('' @ squote @ ''now'' @ squote @ '')''"
| "current_timestamp DuckDb = ''CURRENT_TIMESTAMP''"

definition pg_date_trunc :: "string \<Rightarrow> string \<Rightarrow> string" where
  "pg_date_trunc u column = ''DATE_TRUNC('' @ squote @ u @ squote @ '', '' @ column @ '')''"

definition mysql_date_trunc :: "string \<Rightarrow> string \<Rightarrow> string" where
  "mysql_date_trunc u column =
     (let fmt = (if u = ''second'' then ''%Y-%m-%d %H:%i:%s''
                 else if u = ''minute'' then ''%Y-%m-%d %H:%i:00''
                 else if u = ''hour'' then ''%Y-%m-%d %H:00:00''
                 else if u = ''day'' then ''%Y-%m-%d''
                 else if u = ''week'' then ''%Y-%u''
                 else if u = ''month'' then ''%Y-%m''
                 else if u = ''quarter'' then ''QUARTER''
                 else if u = ''year'' then ''%Y''
                 else ''%Y-%m-%d'')
      in if fmt = ''QUARTER'' then ''QUARTER('' @ column @ '')''
         else ''DATE_FORMAT('' @ column @ '', '' @ squote @ fmt @ squote @ '')'')"

definition sqlite_quarter_format :: string where
  "sqlite_quarter_format =
     ''((CAST(strftime('' @ squote @ ''%m'' @ squote @ '', {}) AS INTEGER) - 1) / 3) + 1''"

definition sqlite_date_trunc :: "string \<Rightarrow> string \<Rightarrow> string" where
  "sqlite_date_trunc u column =
     (let fmt = (if u = ''second'' then ''%Y-%m-%d %H:%M:%S''
                 else if u = ''minute'' then ''%Y-%m-%d %H:%M:00''
                 else if u = ''hour'' then ''%Y-%m-%d %H:00:00''
                 else if u = ''day'' then ''%Y-%m-%d''
                 else if u = ''week'' then ''%Y-%W''
                 else if u = ''month'' then ''%Y-%m''
                 else if u = ''quarter'' then sqlite_quarter_format
                 else if u = ''year'' then ''%Y''
                 else ''%Y-%m-%d'')
      in if str_contains ''quarter'' fmt then str_join column (split_str ''{}'' fmt)
         else ''strftime('' @ squote @ fmt @ squote @ '', '' @ column @ '')'')"

definition duckdb_date_trunc :: "string \<Rightarrow> string \<Rightarrow> string" where
  "duckdb_date_trunc u column =
     (if u = ''day'' then ''CAST(DATE_TRUNC('' @ squote @ ''day'' @ squote @ '', '' @ column @ '') AS DATE)''
      else ''DATE_TRUNC('' @ squote @ u @ squote @ '', '' @ column @ '')'')"

fun date_trunc :: "dialect \<Rightarrow> string \<Rightarrow> string \<Rightarrow> string" where
  "date_trunc Postgres u column = pg_date_trunc u column"
| "date_trunc MySql u column = mysql_date_trunc u column"
| "date_trunc Sqlite u column = sqlite_date_trunc u column"
| "date_trunc DuckDb u column = duckdb_date_trunc u column"

fun cast_expr :: "dialect \<Rightarrow> string \<Rightarrow> string \<Rightarrow> string" where
  "cast_expr Postgres expr ty = expr @ ''::'' @ ty"
| "cast_expr MySql expr ty = ''CAST('' @ expr @ '' AS '' @ ty @ '')''"
| "cast_expr Sqlite expr ty = ''CAST('' @ expr @ '' AS '' @ ty @ '')''"
| "cast_expr DuckDb expr ty = expr @ ''::'' @ ty"

fun array_agg :: "dialect \<Rightarrow> string \<Rightarrow> string" where
  "array_agg Postgres expr = ''ARRAY_AGG('' @ expr @ '')''"
| "array_agg MySql expr = ''JSON_ARRAYAGG('' @ expr @ '')''"
| "array_agg Sqlite expr = ''JSON_GROUP_ARRAY('' @ expr @ '')''"
| "array_agg DuckDb expr = ''LIST('' @ expr @ '')''"

fun json_extract :: "dialect \<Rightarrow> string \<Rightarrow> string \<Rightarrow> string" where
  "json_extract Postgres column path = column @ '' ->> '' @ squote @ path @ squote"
| "json_extract MySql column path =
     ''JSON_UNQUOTE(JSON_EXTRACT('' @ column @ '', '' @ squote @ ''$.'' @ path @ squote @ ''))''"
| "json_extract Sqlite column path =
     ''JSON_EXTRACT('' @ column @ '', '' @ squote @ ''$.'' @ path @ squote @ '')''"
| "json_extract DuckDb column path = column @ ''.'' @ path"

subsection \<open>Statements\<close>

definition push_some :: "string \<Rightarrow> nat option \<Rightarrow> string" where
  "push_some keyword n = (case n of Some k \<Rightarrow> keyword @ nat_str k | None \<Rightarrow> [])"

definition pg_limit_offset :: "string \<Rightarrow> nat option \<Rightarrow> nat option \<Rightarrow> string" where
  "pg_limit_offset sql lim off = sql @ push_some '' LIMIT '' lim @ push_some '' OFFSET '' off"

definition mysql_limit_offset :: "string \<Rightarrow> nat option \<Rightarrow> nat option \<Rightarrow> string" where
  "mysql_limit_offset sql lim off =
     (case lim of
        Some l \<Rightarrow>
          (case off of
             Some k \<Rightarrow> sql @ '' LIMIT '' @ nat_str k @ '' OFFSET '' @ nat_str l
           | None \<Rightarrow> sql @ '' LIMIT '' @ nat_str l)
      | None \<Rightarrow>
          (case off of
             Some k \<Rightarrow> sql @ '' LIMIT '' @ nat_str 18446744073709551615 @ '' OFFSET '' @ nat_str k
           | None \<Rightarrow> sql))"

definition sqlite_limit_offset :: "string \<Rightarrow> nat option \<Rightarrow> nat option \<Rightarrow> string" where
  "sqlite_limit_offset sql lim off = sql @ push_some '' LIMIT '' lim @ push_some '' OFFSET '' off"

definition duckdb_limit_offset :: "string \<Rightarrow> nat option \<Rightarrow> nat option \<Rightarrow> string" where
  "duckdb_limit_offset sql lim off = sql @ push_some '' LIMIT '' lim @ push_some '' OFFSET '' off"

fun limit_offset :: "dialect \<Rightarrow> string \<Rightarrow> nat option \<Rightarrow> nat option \<Rightarrow> string" where
  "limit_offset Postgres sql lim off = pg_limit_offset sql lim off"
| "limit_offset MySql sql lim off = mysql_limit_offset sql lim off"
| "limit_offset Sqlite sql lim off = sqlite_limit_offset sql lim off"
| "limit_offset DuckDb sql lim off = duckdb_limit_offset sql lim off"

definition trim_end_semicolons :: "string \<Rightarrow> string" where
  "trim_end_semicolons s = rev (dropWhile (\<lambda>c. c = CHR '';'') (rev s))"

definition render_source :: "(string \<Rightarrow> string) \<Rightarrow> logical_plan \<Rightarrow> string" where
  "render_source quote plan =
     (if lp_source_is_sql plan
      then ''('' @ trim_end_semicolons (trim (lp_source_table plan)) @ '')''
      else quote (lp_source_table plan))"

definition render_select_item :: "(string \<Rightarrow> string) \<Rightarrow> select_item \<Rightarrow> string" where
  "render_select_item quote item =
     (case si_alias item of
        Some alias \<Rightarrow> si_expression item @ '' AS '' @ quote alias
      | None \<Rightarrow> si_expression item)"

definition render_join :: "(string \<Rightarrow> string) \<Rightarrow> join_clause \<Rightarrow> string" where
  "render_join quote j =
     '' '' @ jc_join_type j @ '' '' @ quote (jc_table j) @ '' '' @ quote (jc_alias j)
       @ '' ON '' @ jc_on j @ '' ''"

definition render_order :: "order_by_item \<Rightarrow> string" where
  "render_order item = oi_column item @ '' '' @ (if oi_descending item then ''DESC'' else ''ASC'')"

text \<open>
  The body of \<open>generate_sql\<close>, which the four implementations share letter for letter: they
  differ in the \<open>self\<close> that quotes and limits.
\<close>

definition render_plan ::
    "(string \<Rightarrow> string) \<Rightarrow> (string \<Rightarrow> nat option \<Rightarrow> nat option \<Rightarrow> string) \<Rightarrow> logical_plan \<Rightarrow> string" where
  "render_plan quote lim_off plan =
     (let sql = ''SELECT '' @ (if lp_distinct plan then ''DISTINCT '' else [])
            @ str_join '', '' (map (render_select_item quote) (lp_select_items plan))
            @ '' FROM '' @ render_source quote plan @ '' ''
            @ quote (lp_source_alias plan) @ '' ''
            @ concat (map (render_join quote) (lp_joins plan))
            @ (case lp_where_clause plan of Some w \<Rightarrow> '' WHERE '' @ w @ '' '' | None \<Rightarrow> [])
            @ (if lp_group_by plan \<noteq> []
               then '' GROUP BY '' @ str_join '', '' (lp_group_by plan) @ '' '' else [])
            @ (if lp_order_by plan \<noteq> []
               then '' ORDER BY '' @ str_join '', '' (map render_order (lp_order_by plan)) @ '' '' else [])
      in trim (lim_off sql (lp_limit plan) (lp_offset plan)))"

definition pg_generate_sql :: "logical_plan \<Rightarrow> string" where
  "pg_generate_sql plan = render_plan pg_quote_ident pg_limit_offset plan"

definition mysql_generate_sql :: "logical_plan \<Rightarrow> string" where
  "mysql_generate_sql plan = render_plan mysql_quote_ident mysql_limit_offset plan"

definition sqlite_generate_sql :: "logical_plan \<Rightarrow> string" where
  "sqlite_generate_sql plan = render_plan sqlite_quote_ident sqlite_limit_offset plan"

definition duckdb_generate_sql :: "logical_plan \<Rightarrow> string" where
  "duckdb_generate_sql plan = render_plan duckdb_quote_ident duckdb_limit_offset plan"

fun generate_sql :: "dialect \<Rightarrow> logical_plan \<Rightarrow> string" where
  "generate_sql Postgres plan = pg_generate_sql plan"
| "generate_sql MySql plan = mysql_generate_sql plan"
| "generate_sql Sqlite plan = sqlite_generate_sql plan"
| "generate_sql DuckDb plan = duckdb_generate_sql plan"

fun supports_lateral_join :: "dialect \<Rightarrow> bool" where
  "supports_lateral_join Postgres = True"
| "supports_lateral_join MySql = False"
| "supports_lateral_join Sqlite = False"
| "supports_lateral_join DuckDb = True"

definition get_dialect :: "string \<Rightarrow> dialect" where
  "get_dialect name =
     (let l = to_lower name in
      if l = ''postgres'' \<or> l = ''postgresql'' \<or> l = ''pg'' then Postgres
      else if l = ''mysql'' \<or> l = ''mariadb'' then MySql
      else if l = ''sqlite'' \<or> l = ''sqlite3'' then Sqlite
      else if l = ''duckdb'' then DuckDb
      else Postgres)"

subsection \<open>Reading quoted text back\<close>

text \<open>
  How a database reads a quoted identifier or literal: a delimiter, characters in which the
  delimiter is doubled, a delimiter. The result is the content and the rest of the text.
\<close>

fun read_body :: "char \<Rightarrow> string \<Rightarrow> (string \<times> string) option" where
  "read_body q [] = None"
| "read_body q [c] = (if c = q then Some ([], []) else None)"
| "read_body q (c # d # cs) =
     (if c = q
      then (if d = q then map_option (apfst (Cons q)) (read_body q cs) else Some ([], d # cs))
      else map_option (apfst (Cons c)) (read_body q (d # cs)))"

definition read_delimited :: "char \<Rightarrow> string \<Rightarrow> (string \<times> string) option" where
  "read_delimited q s = (case s of [] \<Rightarrow> None | c # cs \<Rightarrow> if c = q then read_body q cs else None)"

text \<open>In a MySQL string literal a backslash escapes the next character.\<close>

definition mysql_escape_char :: "char \<Rightarrow> char" where
  "mysql_escape_char c =
     (if c = CHR ''n'' then CHR 0x0A else if c = CHR ''t'' then CHR 0x09
      else if c = CHR ''r'' then CHR 0x0D else if c = CHR ''b'' then CHR 0x08
      else if c = CHR ''0'' then CHR 0x00 else if c = CHR ''Z'' then CHR 0x1A else c)"

fun read_mysql_body :: "string \<Rightarrow> (string \<times> string) option" where
  "read_mysql_body [] = None"
| "read_mysql_body [c] = (if c = CHR 0x27 then Some ([], []) else None)"
| "read_mysql_body (c # d # cs) =
     (if c = CHR 0x5C then map_option (apfst (Cons (mysql_escape_char d))) (read_mysql_body cs)
      else if c = CHR 0x27
      then (if d = CHR 0x27 then map_option (apfst (Cons (CHR 0x27))) (read_mysql_body cs)
            else Some ([], d # cs))
      else map_option (apfst (Cons c)) (read_mysql_body (d # cs)))"

definition read_mysql_literal :: "string \<Rightarrow> (string \<times> string) option" where
  "read_mysql_literal s =
     (case s of [] \<Rightarrow> None | c # cs \<Rightarrow> if c = CHR 0x27 then read_mysql_body cs else None)"

text \<open>What every quoting function owes its callers: its output is read back as the text that
  went in, whatever that text is, and reading stops there.\<close>

locale quoting =
  fixes quote :: "string \<Rightarrow> string"
    and read :: "string \<Rightarrow> (string \<times> string) option"
    and delim :: char
  assumes read_quote: "rest = [] \<or> hd rest \<noteq> delim \<Longrightarrow> read (quote s @ rest) = Some (s, rest)"
    and read_Nil: "read [] = None"
begin

lemma quote_inj: "quote s = quote t \<longleftrightarrow> s = t"
  using read_quote [of "[]" s] read_quote [of "[]" t] by (metis append_Nil2 option.inject prod.inject)

lemma quote_not_Nil: "quote s \<noteq> []"
  using read_quote [of "[]" s] read_Nil by auto

lemma quote_append_inj:
  assumes "r = [] \<or> hd r \<noteq> delim" and "r' = [] \<or> hd r' \<noteq> delim"
  shows "quote s @ r = quote t @ r' \<longleftrightarrow> s = t \<and> r = r'"
  using read_quote [OF assms(1), of s] read_quote [OF assms(2), of t] by (metis option.inject prod.inject)

lemma quote_list_inj:
  assumes "sep \<noteq> []" and "hd sep \<noteq> delim"
  shows "str_join sep (map quote xs) = str_join sep (map quote ys) \<longleftrightarrow> xs = ys"
proof
  have tail: "str_join sep (map quote (z # zs)) = quote z @ (if zs = [] then [] else sep @ str_join sep (map quote zs))"
    for z zs by (cases zs) auto
  show "str_join sep (map quote xs) = str_join sep (map quote ys) \<Longrightarrow> xs = ys"
  proof (induction xs arbitrary: ys)
    case Nil
    show ?case
    proof (cases ys)
      case (Cons y ys')
      with Nil have "[] = str_join sep (map quote (y # ys'))" by (simp only: list.map str_join.simps)
      then show ?thesis using quote_not_Nil [of y] unfolding tail by blast
    qed simp
  next
    case (Cons x xs)
    have "str_join sep (map quote (x # xs)) \<noteq> []" using quote_not_Nil [of x] unfolding tail by blast
    with Cons.prems obtain y ys' where ys: "ys = y # ys'" by (cases ys) auto
    let ?rest = "\<lambda>zs. if zs = [] then [] else sep @ str_join sep (map quote zs)"
    have stops: "?rest zs = [] \<or> hd (?rest zs) \<noteq> delim" for zs using assms by simp
    from Cons.prems have "quote x @ ?rest xs = quote y @ ?rest ys'"
      by (simp only: ys tail)
    then have "x = y \<and> ?rest xs = ?rest ys'"
      using quote_append_inj [OF stops stops] by blast
    with Cons.IH [of ys'] assms(1) show ?case by (cases "xs = []"; cases "ys' = []") (auto simp: ys)
  qed
qed simp

end

lemma read_body_quote:
  "rest = [] \<or> hd rest \<noteq> q \<Longrightarrow> read_body q (replace_char q [q, q] s @ q # rest) = Some (s, rest)"
proof (induction s)
  case Nil
  then show ?case by (cases rest) auto
next
  case (Cons c s)
  obtain d ds where "replace_char q [q, q] s @ q # rest = d # ds"
    by (cases "replace_char q [q, q] s @ q # rest") auto
  with Cons show ?case by simp
qed

lemma read_mysql_body_escape:
  "rest = [] \<or> hd rest \<noteq> CHR 0x27 \<Longrightarrow>
     read_mysql_body (escape_literal s @ CHR 0x27 # rest) = Some (s, rest)"
proof (induction s)
  case Nil
  then show ?case by (cases rest) (auto simp: escape_literal_def)
next
  case (Cons c s)
  obtain d ds where "escape_literal s @ CHR 0x27 # rest = d # ds"
    by (cases "escape_literal s @ CHR 0x27 # rest") auto
  with Cons show ?case by (auto simp: escape_literal_def mysql_escape_char_def)
qed

interpretation pg_ident: quoting pg_quote_ident "read_delimited (CHR 0x22)" "CHR 0x22"
  by unfold_locales (auto simp: pg_quote_ident_def read_delimited_def read_body_quote)

interpretation sqlite_ident: quoting sqlite_quote_ident "read_delimited (CHR 0x22)" "CHR 0x22"
  by unfold_locales (auto simp: sqlite_quote_ident_def read_delimited_def read_body_quote)

interpretation duckdb_ident: quoting duckdb_quote_ident "read_delimited (CHR 0x22)" "CHR 0x22"
  by unfold_locales (auto simp: duckdb_quote_ident_def read_delimited_def read_body_quote)

interpretation mysql_ident: quoting mysql_quote_ident "read_delimited (CHR 0x60)" "CHR 0x60"
  by unfold_locales (auto simp: mysql_quote_ident_def read_delimited_def read_body_quote)

interpretation std_literal: quoting quote_literal "read_delimited (CHR 0x27)" "CHR 0x27"
  by unfold_locales (auto simp: quote_literal_def read_delimited_def read_body_quote)

interpretation mysql_literal: quoting "\<lambda>s. squote @ escape_literal s @ squote" read_mysql_literal "CHR 0x27"
  by unfold_locales (auto simp: read_mysql_literal_def read_mysql_body_escape)

fun read_ident :: "dialect \<Rightarrow> string \<Rightarrow> (string \<times> string) option" where
  "read_ident MySql = read_delimited (CHR 0x60)"
| "read_ident _ = read_delimited (CHR 0x22)"

fun read_literal :: "dialect \<Rightarrow> string \<Rightarrow> (string \<times> string) option" where
  "read_literal MySql = read_mysql_literal"
| "read_literal _ = read_delimited (CHR 0x27)"

fun ident_delim :: "dialect \<Rightarrow> char" where
  "ident_delim MySql = CHR 0x60"
| "ident_delim _ = CHR 0x22"

lemma quote_ident_eqs:
  "quote_ident Postgres = pg_quote_ident" "quote_ident MySql = mysql_quote_ident"
  "quote_ident Sqlite = sqlite_quote_ident" "quote_ident DuckDb = duckdb_quote_ident"
  by (simp_all add: fun_eq_iff)

lemma limit_offset_eqs:
  "limit_offset Postgres = pg_limit_offset" "limit_offset MySql = mysql_limit_offset"
  "limit_offset Sqlite = sqlite_limit_offset" "limit_offset DuckDb = duckdb_limit_offset"
  by (simp_all add: fun_eq_iff)

interpretation dialect_ident: quoting "quote_ident d" "read_ident d" "ident_delim d" for d
  by (cases d) (simp_all only: quote_ident_eqs read_ident.simps ident_delim.simps pg_ident.quoting_axioms
      mysql_ident.quoting_axioms sqlite_ident.quoting_axioms duckdb_ident.quoting_axioms)

interpretation dialect_literal: quoting "\<lambda>s. format_value ser d (JString s)" "read_literal d" "CHR 0x27"
  for ser d
  by (cases d) (simp_all only: format_value.simps pg_format_value.simps mysql_format_value.simps
      sqlite_format_value.simps duckdb_format_value.simps read_literal.simps
      std_literal.quoting_axioms mysql_literal.quoting_axioms)

text \<open>
  C6. Nothing in a name or a string can leave its quotes: in every dialect, what a database reads
  from a rendered identifier or string literal is the original text, and it stops reading
  where the rendering ended. In MySQL this covers backslash escapes in literals.
\<close>

theorem quoting_roundtrip:
  assumes "rest = [] \<or> hd rest \<notin> {CHR 0x22, CHR 0x27, CHR 0x60}"
  shows "read_ident d (quote_ident d s @ rest) = Some (s, rest) \<and>
    read_literal d (format_value ser d (JString s) @ rest) = Some (s, rest)"
  using assms by (intro conjI dialect_ident.read_quote dialect_literal.read_quote) (cases d; auto)+

theorem quoting_roundtrip_witness:
  "read_ident MySql (quote_ident MySql (''a'' @ bquote @ ''b'') @ '' FROM'') = Some (''a'' @ bquote @ ''b'', '' FROM'') \<and>
   read_literal MySql (format_value (\<lambda>_. []) MySql (JString (backslash @ squote)) @ '')'') = Some (backslash @ squote, '')'')"
  using quoting_roundtrip [of "'' FROM''" MySql "''a'' @ bquote @ ''b''" "\<lambda>_. []"]
    quoting_roundtrip [of "'')''" MySql "backslash @ squote" "\<lambda>_. []"]
  by simp

text \<open>
  A comma-separated list of quoted identifiers determines the names: no name can pass for
  two, in any dialect.
\<close>

lemma ident_list_unambiguous:
  "str_join '', '' (map (quote_ident d) xs) = str_join '', '' (map (quote_ident d) ys) \<longleftrightarrow> xs = ys"
  by (rule dialect_ident.quote_list_inj) (cases d; simp)+

text \<open>
  The two replacements of \<open>MySqlDialect::escape_literal\<close> commute: doubling the quotes first
  gives the same text as doubling the backslashes first.
\<close>

lemma escape_literal_order:
  "escape_literal s =
     replace_char (CHR 0x5C) (backslash @ backslash) (replace_char (CHR 0x27) (squote @ squote) s)"
  by (induction s) (auto simp: escape_literal_def)

lemma generate_sql_render: "generate_sql d plan = render_plan (quote_ident d) (limit_offset d) plan"
  by (cases d) (simp_all only: generate_sql.simps pg_generate_sql_def mysql_generate_sql_def
      sqlite_generate_sql_def duckdb_generate_sql_def quote_ident_eqs limit_offset_eqs)

text \<open>
  The window of a statement: each dialect writes the limit after \<open>LIMIT\<close> and the offset after
  \<open>OFFSET\<close>, MySQL adds the largest limit when there is only an offset, and MySQL exchanges the
  two numbers when both are given.
\<close>

lemma limit_offset_window:
  "limit_offset d sql lim off =
     sql @ (case (lim, off) of
              (None, None) \<Rightarrow> []
            | (Some l, None) \<Rightarrow> '' LIMIT '' @ nat_str l
            | (None, Some k) \<Rightarrow> (if d = MySql then '' LIMIT 18446744073709551615'' else []) @ '' OFFSET '' @ nat_str k
            | (Some l, Some k) \<Rightarrow>
                if d = MySql then '' LIMIT '' @ nat_str k @ '' OFFSET '' @ nat_str l
                else '' LIMIT '' @ nat_str l @ '' OFFSET '' @ nat_str k)"
proof -
  have max: "nat_str 18446744073709551615 = ''18446744073709551615''"
    by (simp add: nat_str.simps digit_char_eqs)
  show ?thesis
    by (cases d; cases lim; cases off)
      (simp_all add: pg_limit_offset_def mysql_limit_offset_def sqlite_limit_offset_def
        duckdb_limit_offset_def push_some_def max)
qed

text \<open>
  Truncating to quarters on SQLite: the quarter expression is passed to \<open>strftime\<close> as a
  format string, its place holder still in it and its inner quotes closing the literal.
\<close>

lemma sqlite_quarter_not_substituted:
  "date_trunc Sqlite (date_trunc_unit Quarter) column =
     ''strftime('' @ squote @ ''((CAST(strftime('' @ squote @ ''%m'' @ squote
       @ '', {}) AS INTEGER) - 1) / 3) + 1'' @ squote @ '', '' @ column @ '')''"
proof -
  have "\<not> str_contains ''quarter'' sqlite_quarter_format" by code_simp
  then show ?thesis by (simp add: sqlite_date_trunc_def sqlite_quarter_format_def)
qed

lemma get_dialect_name: "get_dialect (dialect_name d) = d"
proof -
  have "get_dialect ''postgres'' = Postgres" "get_dialect ''mysql'' = MySql"
    "get_dialect ''sqlite'' = Sqlite" "get_dialect ''duckdb'' = DuckDb" by code_simp+
  then show ?thesis by (cases d) simp_all
qed

end
