(* ===== verification/Generator.thy ===== *)
theory Generator
  imports Formula Dialects
begin

text \<open>
  \<open>crates/graphnight-sql/src/generator.rs\<close>: the registry of models and datasources, and the
  translation of a semantic query to a logical plan and a statement. The hash maps are
  association lists; the order of the model registry stands for the arbitrary iteration order
  of the map. The locks are not modelled: every operation holds them for its own duration.
\<close>

subsection \<open>The registry\<close>

record sql_generator =
  sg_default_dialect :: dialect
  sg_dialects :: "(string \<times> dialect) list"
  sg_models :: "(string \<times> model) list"
  sg_datasource_drivers :: "(string \<times> string) list"

datatype gen_error =
    ModelNotFound string
  | NoQuerySource
  | InvalidCall string call_error
  | InvalidFormula string formula_error
  | FormulaFailed formula_error
  | MalformedFormula string
  | GeometryColumnUnsupported string string
  | NeedsGeometry string string
  | SpatialUnsupported string string
  | NoSqlRendering filter_operator
  | MembershipNeedsArray string
  | BetweenNeedsArray
  | IndexOutOfBounds
  | JoinFailed join_error

definition generator_new :: "dialect \<Rightarrow> sql_generator" where
  "generator_new d =
     \<lparr>sg_default_dialect = d, sg_dialects = [], sg_models = [], sg_datasource_drivers = []\<rparr>"

definition register_model :: "sql_generator \<Rightarrow> model \<Rightarrow> sql_generator" where
  "register_model g m = g\<lparr>sg_models := AList.update (mo_name m) m (sg_models g)\<rparr>"

definition with_models :: "sql_generator \<Rightarrow> model list \<Rightarrow> sql_generator" where
  "with_models g ms = foldl (\<lambda>g m. g\<lparr>sg_models := AList.update (mo_name m) m (sg_models g)\<rparr>) g ms"

definition unregister_model :: "sql_generator \<Rightarrow> string \<Rightarrow> sql_generator" where
  "unregister_model g name = g\<lparr>sg_models := AList.delete name (sg_models g)\<rparr>"

definition lookup_model :: "sql_generator \<Rightarrow> string \<Rightarrow> model option" where
  "lookup_model g name = map_of (sg_models g) name"

definition register_datasource :: "sql_generator \<Rightarrow> data_source \<Rightarrow> sql_generator" where
  "register_datasource g ds =
     (let g1 = g\<lparr>sg_datasource_drivers := AList.update (ds_name ds) (ds_driver ds) (sg_datasource_drivers g)\<rparr>
      in if ds_driver ds \<noteq> dialect_name (sg_default_dialect g1)
            \<and> map_of (sg_dialects g1) (ds_driver ds) = None
         then g1\<lparr>sg_dialects := AList.update (ds_driver ds) (get_dialect (ds_driver ds)) (sg_dialects g1)\<rparr>
         else g1)"

definition with_datasources :: "sql_generator \<Rightarrow> data_source list \<Rightarrow> sql_generator" where
  "with_datasources g dss = foldl register_datasource g dss"

definition dialect_for :: "sql_generator \<Rightarrow> string \<Rightarrow> dialect" where
  "dialect_for g model_name =
     (case Option.bind (lookup_model g model_name)
             (\<lambda>m. map_of (sg_datasource_drivers g) (mo_datasource m)) of
        Some drv \<Rightarrow>
          if drv \<noteq> dialect_name (sg_default_dialect g)
          then unwrap_or (map_of (sg_dialects g) drv) (sg_default_dialect g)
          else sg_default_dialect g
      | None \<Rightarrow> sg_default_dialect g)"

definition resolve_source :: "sql_generator \<Rightarrow> query \<Rightarrow> gen_error + string \<times> string" where
  "resolve_source g q =
     (case q_source_model q of
        Some src \<Rightarrow>
          rbind (ok_or (ModelNotFound (ss_model src)) (lookup_model g (ss_model src)))
            (\<lambda>m. Inr (mo_name m, unwrap_or (ss_alias src) (ss_model src)))
      | None \<Rightarrow>
          (case q_name q of
             Some name \<Rightarrow>
               rbind (ok_or (ModelNotFound name) (lookup_model g name)) (\<lambda>m. Inr (mo_name m, name))
           | None \<Rightarrow> Inl NoQuerySource))"

definition resolved_dialect_name :: "sql_generator \<Rightarrow> query \<Rightarrow> string" where
  "resolved_dialect_name g q =
     (case resolve_source g q of
        Inr (m, _) \<Rightarrow> dialect_name (dialect_for g m)
      | Inl _ \<Rightarrow> dialect_name (sg_default_dialect g))"

subsection \<open>Fields\<close>

definition model_has_plain_field :: "model \<Rightarrow> string \<Rightarrow> bool" where
  "model_has_plain_field m field =
     (if field = ''*'' then False
      else if list_ex (\<lambda>d. d_name d = field) (mo_dimensions m) then True
      else if list_ex (\<lambda>td. td_dimension td = field) (mo_time_dimensions m) then True
      else list_ex (\<lambda>ms. let e = trim (f_expression (m_formula ms)) in e = field \<and> \<not> needs_parse e)
             (mo_measures m))"

definition join_alias :: "join_def \<Rightarrow> string" where
  "join_alias j = unwrap_or (jn_alias j) (jn_name j)"

text \<open>The two loops over the joins of the base model: the first join whose model has the
  field, and the first join a qualified spelling can mean.\<close>

fun join_with_field :: "sql_generator \<Rightarrow> string \<Rightarrow> join_def list \<Rightarrow> (join_def \<times> model) option" where
  "join_with_field g field [] = None"
| "join_with_field g field (j # js) =
     (case lookup_model g (jn_model j) of
        Some joined \<Rightarrow>
          if model_has_plain_field joined field then Some (j, joined) else join_with_field g field js
      | None \<Rightarrow> join_with_field g field js)"

fun join_with_prefix ::
    "sql_generator \<Rightarrow> string \<Rightarrow> string \<Rightarrow> join_def list \<Rightarrow> (join_def \<times> model) option" where
  "join_with_prefix g prefx column [] = None"
| "join_with_prefix g prefx column (j # js) =
     (case lookup_model g (jn_model j) of
        None \<Rightarrow> join_with_prefix g prefx column js
      | Some joined \<Rightarrow>
          if (prefx = join_alias j \<or> prefx = jn_model j) \<and> model_has_plain_field joined column
          then Some (j, joined) else join_with_prefix g prefx column js)"

definition qualify_field :: "sql_generator \<Rightarrow> dialect \<Rightarrow> string \<Rightarrow> string \<Rightarrow> string \<Rightarrow> string" where
  "qualify_field g d base_model_name field source_alias =
     (if field = ''*'' then ''*''
      else
        let quoted = quote_ident d field;
            fallback = source_alias @ ''.'' @ quoted
        in case lookup_model g base_model_name of
             None \<Rightarrow> fallback
           | Some base \<Rightarrow>
               if model_has_plain_field base field then fallback
               else case join_with_field g field (mo_joins base) of
                 Some (j, _) \<Rightarrow> join_alias j @ ''.'' @ quoted
               | None \<Rightarrow>
                   (case rsplit_once (CHR ''.'') field of
                      None \<Rightarrow> fallback
                    | Some (prefx, column) \<Rightarrow>
                        let plain = quote_ident d column
                        in if prefx = base_model_name then source_alias @ ''.'' @ plain
                           else case join_with_prefix g prefx column (mo_joins base) of
                             Some (j, _) \<Rightarrow> join_alias j @ ''.'' @ plain
                           | None \<Rightarrow> fallback))"

definition field_is_geometry :: "sql_generator \<Rightarrow> string \<Rightarrow> string \<Rightarrow> bool" where
  "field_is_geometry g base_model_name field =
     (if field = ''*'' then False
      else case lookup_model g base_model_name of
        None \<Rightarrow> False
      | Some base \<Rightarrow>
          if model_has_plain_field base field then is_geometry_column base field
          else case join_with_field g field (mo_joins base) of
            Some (_, joined) \<Rightarrow> is_geometry_column joined field
          | None \<Rightarrow>
              (case rsplit_once (CHR ''.'') field of
                 None \<Rightarrow> False
               | Some (prefx, column) \<Rightarrow>
                   if prefx = base_model_name then is_geometry_column base column
                   else case join_with_prefix g prefx column (mo_joins base) of
                     Some (_, joined) \<Rightarrow> is_geometry_column joined column
                   | None \<Rightarrow> False))"

subsection \<open>Measures\<close>

definition call_arg_sql :: "sql_generator \<Rightarrow> dialect \<Rightarrow> string \<Rightarrow> string \<Rightarrow> function_arg \<Rightarrow> string" where
  "call_arg_sql g d base source_alias arg =
     (case arg of
        ColumnArg col \<Rightarrow> qualify_field g d base col source_alias
      | NumberArg n \<Rightarrow> n)"

definition resolve_expression ::
    "sql_generator \<Rightarrow> dialect \<Rightarrow> string \<Rightarrow> string \<Rightarrow> string \<Rightarrow> gen_error + string" where
  "resolve_expression g d base expr source_alias =
     rbind (map_err (InvalidCall expr) (parse_function_call expr)) (\<lambda>call.
       case call of
         None \<Rightarrow> Inr (qualify_field g d base expr source_alias)
       | Some c \<Rightarrow>
           Inr (fc_name c @ ''('' @ str_join '', '' (map (call_arg_sql g d base source_alias) (fc_args c)) @ '')''))"

definition apply_aggregation :: "aggregation_type \<Rightarrow> string \<Rightarrow> string" where
  "apply_aggregation agg column =
     (if needs_closing_paren agg then sql_function agg @ column @ '')''
      else sql_function agg @ ''('' @ column @ '')'')"

definition build_standard_aggregation ::
    "sql_generator \<Rightarrow> dialect \<Rightarrow> string \<Rightarrow> string \<Rightarrow> measure \<Rightarrow> gen_error + string" where
  "build_standard_aggregation g d source_alias base m =
     rbind (resolve_expression g d base (f_expression (m_formula m)) source_alias)
       (\<lambda>column. Inr (apply_aggregation (m_aggregation m) column))"

definition aggregate_column ::
    "sql_generator \<Rightarrow> dialect \<Rightarrow> string \<Rightarrow> aggregation_type \<Rightarrow> string \<Rightarrow> string \<Rightarrow> string" where
  "aggregate_column g d field agg source_alias base =
     apply_aggregation agg (qualify_field g d base field source_alias)"

text \<open>\<open>parser.parse_measure(inner)?\<close> followed by \<open>aggregate_column\<close>.\<close>

definition inner_aggregate ::
    "sql_generator \<Rightarrow> dialect \<Rightarrow> string \<Rightarrow> string \<Rightarrow> string \<Rightarrow> gen_error + string" where
  "inner_aggregate g d source_alias base inner =
     rbind (map_err FormulaFailed (parse_measure inner)) (\<lambda>m.
       Inr (aggregate_column g d (f_expression (m_formula m)) (m_aggregation m) source_alias base))"

definition build_time_shift_expression ::
    "sql_generator \<Rightarrow> dialect \<Rightarrow> string \<Rightarrow> string \<Rightarrow> string \<Rightarrow> gen_error + string" where
  "build_time_shift_expression g d source_alias base expr =
     rbind (ok_or (MalformedFormula ''time_shift'') (find_first_match time_shift_at expr))
       (\<lambda>(inner, _, _). rbind (inner_aggregate g d source_alias base (trim inner))
         (\<lambda>inner_sql. Inr (''LAG('' @ inner_sql @ '') OVER (ORDER BY '' @ source_alias @ '')'')))"

definition build_ratio_expression ::
    "sql_generator \<Rightarrow> dialect \<Rightarrow> string \<Rightarrow> string \<Rightarrow> string \<Rightarrow> gen_error + string" where
  "build_ratio_expression g d source_alias base expr =
     rbind (ok_or (MalformedFormula ''ratio'') (find_first_match ratio_at expr))
       (\<lambda>(num, denom).
         rbind (map_err FormulaFailed (parse_measure (trim num))) (\<lambda>nm.
         rbind (map_err FormulaFailed (parse_measure (trim denom))) (\<lambda>dm.
           Inr (''('' @ aggregate_column g d (f_expression (m_formula nm)) (m_aggregation nm) source_alias base
                @ '' / NULLIF('' @ aggregate_column g d (f_expression (m_formula dm)) (m_aggregation dm) source_alias base
                @ '', 0))''))))"

definition call_body :: "string \<Rightarrow> string \<Rightarrow> string option" where
  "call_body opening expr = map_option trim (Option.bind (strip_prefix opening expr) (strip_suffix '')''))"

definition build_pct_change_expression ::
    "sql_generator \<Rightarrow> dialect \<Rightarrow> string \<Rightarrow> string \<Rightarrow> string \<Rightarrow> gen_error + string" where
  "build_pct_change_expression g d source_alias base expr =
     rbind (ok_or (MalformedFormula ''pct_change'') (call_body ''pct_change('' expr)) (\<lambda>inner.
     rbind (inner_aggregate g d source_alias base inner) (\<lambda>current.
       Inr (''(('' @ current @ '' - LAG('' @ current @ '') OVER (ORDER BY '' @ source_alias
            @ '')) / NULLIF(LAG('' @ current @ '') OVER (ORDER BY '' @ source_alias @ ''), 0)) * 100'')))"

definition build_running_total_expression ::
    "sql_generator \<Rightarrow> dialect \<Rightarrow> string \<Rightarrow> string \<Rightarrow> string \<Rightarrow> gen_error + string" where
  "build_running_total_expression g d source_alias base expr =
     rbind (ok_or (MalformedFormula ''running_total'') (call_body ''running_total('' expr)) (\<lambda>inner.
     rbind (inner_aggregate g d source_alias base inner) (\<lambda>inner_sql.
       Inr (''SUM('' @ inner_sql @ '') OVER (ORDER BY '' @ source_alias @ '' ROWS UNBOUNDED PRECEDING)'')))"

definition build_measure_expression ::
    "sql_generator \<Rightarrow> dialect \<Rightarrow> string \<Rightarrow> string \<Rightarrow> measure \<Rightarrow> gen_error + string" where
  "build_measure_expression g d source_alias base m =
     (let expr = trim (f_expression (m_formula m)) in
      if needs_parse expr then
        if starts_with ''time_shift('' expr then build_time_shift_expression g d source_alias base expr
        else if starts_with ''ratio('' expr then build_ratio_expression g d source_alias base expr
        else if starts_with ''pct_change('' expr then build_pct_change_expression g d source_alias base expr
        else if starts_with ''running_total('' expr then build_running_total_expression g d source_alias base expr
        else rbind (map_err (InvalidFormula expr) (parse_measure expr))
               (build_standard_aggregation g d source_alias base)
      else build_standard_aggregation g d source_alias base m)"

definition time_dim_expr :: "dialect \<Rightarrow> time_dimension \<Rightarrow> string option \<Rightarrow> string" where
  "time_dim_expr d td source_alias =
     (let column = (case source_alias of
                      Some alias \<Rightarrow> alias @ ''.'' @ td_dimension td
                    | None \<Rightarrow> td_dimension td)
      in date_trunc d (date_trunc_unit (td_granularity td)) column)"

definition measure_item ::
    "sql_generator \<Rightarrow> dialect \<Rightarrow> string \<Rightarrow> string \<Rightarrow> measure \<Rightarrow> gen_error + select_item" where
  "measure_item g d source_alias base m =
     rbind (build_measure_expression g d source_alias base m) (\<lambda>expr.
       Inr \<lparr>si_expression = expr,
            si_alias = Some (unwrap_or (f_label (m_formula m)) (f_expression (m_formula m)))\<rparr>)"

definition dimension_item ::
    "sql_generator \<Rightarrow> dialect \<Rightarrow> string \<Rightarrow> string \<Rightarrow> dimension \<Rightarrow> gen_error + select_item" where
  "dimension_item g d source_alias base dim =
     (let expr = qualify_field g d base (d_name dim) source_alias in
      rbind (if field_is_geometry g base (d_name dim)
             then ok_or (GeometryColumnUnsupported (d_name dim) (dialect_name d)) (geometry_as_geojson d expr)
             else Inr expr)
        (\<lambda>expr. Inr \<lparr>si_expression = expr, si_alias = Some (unwrap_or (d_label dim) (d_name dim))\<rparr>))"

definition time_dimension_item :: "dialect \<Rightarrow> string \<Rightarrow> time_dimension \<Rightarrow> select_item" where
  "time_dimension_item d source_alias td =
     \<lparr>si_expression = time_dim_expr d td (Some source_alias),
      si_alias = Some (unwrap_or (td_label td)
        (td_dimension td @ ''_'' @ date_trunc_unit (td_granularity td)))\<rparr>"

definition build_select_items ::
    "sql_generator \<Rightarrow> query \<Rightarrow> dialect \<Rightarrow> string \<Rightarrow> string \<Rightarrow> gen_error + select_item list" where
  "build_select_items g q d source_alias base =
     rbind (rmap (measure_item g d source_alias base) (q_measures q)) (\<lambda>ms.
     rbind (rmap (dimension_item g d source_alias base) (q_dimensions q)) (\<lambda>ds.
       Inr (ms @ ds @ map (time_dimension_item d source_alias) (q_time_dimensions q))))"

subsection \<open>Filters\<close>

datatype value_mode = PlaceholderMode | LiteralMode

text \<open>\<open>render_value\<close> threads the parameter list it may push to.\<close>

fun render_value ::
    "serializer \<Rightarrow> dialect \<Rightarrow> value_mode \<Rightarrow> json list \<Rightarrow> json \<Rightarrow> string \<times> json list" where
  "render_value ser d PlaceholderMode params v =
     (let params1 = params @ [v] in (placeholder d (length params1), params1))"
| "render_value ser d LiteralMode params v = (format_value ser d v, params)"

fun render_values ::
    "serializer \<Rightarrow> dialect \<Rightarrow> value_mode \<Rightarrow> json list \<Rightarrow> json list \<Rightarrow> string list \<times> json list" where
  "render_values ser d mode params [] = ([], params)"
| "render_values ser d mode params (v # vs) =
     (let (s, params1) = render_value ser d mode params v;
          (ss, params2) = render_values ser d mode params1 vs
      in (s # ss, params2))"

definition render_spatial ::
    "serializer \<Rightarrow> dialect \<Rightarrow> value_mode \<Rightarrow> string \<Rightarrow> string \<Rightarrow> filter_cond \<Rightarrow> json list
      \<Rightarrow> gen_error + string \<times> json list" where
  "render_spatial ser d mode column func f params =
     rbind (case fl_value f of
              JString _ \<Rightarrow> Inr True
            | JObject _ \<Rightarrow> Inr False
            | _ \<Rightarrow> Inl (NeedsGeometry func (fl_field f)))
       (\<lambda>from_wkt.
          let (v, params1) = render_value ser d mode params (fl_value f) in
          rbind (ok_or (SpatialUnsupported func (dialect_name d)) (spatial_geometry d v from_wkt))
            (\<lambda>geometry. Inr (func @ ''('' @ column @ '', '' @ geometry @ '')'', params1)))"

definition render_comparison ::
    "serializer \<Rightarrow> dialect \<Rightarrow> value_mode \<Rightarrow> string \<Rightarrow> string \<Rightarrow> filter_cond \<Rightarrow> json list
      \<Rightarrow> gen_error + string \<times> json list" where
  "render_comparison ser d mode column op f params =
     (if fl_operator f = In \<or> fl_operator f = NotIn then
        rbind (ok_or (MembershipNeedsArray op) (as_array (fl_value f))) (\<lambda>arr.
          let (items, params1) = render_values ser d mode params arr
          in Inr (column @ '' '' @ op @ '' ('' @ str_join '', '' items @ '')'', params1))
      else if needs_value (fl_operator f) \<and> needs_two_values (fl_operator f) then
        rbind (ok_or BetweenNeedsArray (as_array (fl_value f))) (\<lambda>vals.
          case vals of
            v0 # v1 # _ \<Rightarrow>
              let (s0, params1) = render_value ser d mode params v0;
                  (s1, params2) = render_value ser d mode params1 v1
              in Inr (column @ '' '' @ op @ '' BETWEEN '' @ s0 @ '' AND '' @ s1, params2)
          | _ \<Rightarrow> Inl IndexOutOfBounds)
      else if needs_value (fl_operator f) then
        let (s, params1) = render_value ser d mode params (fl_value f)
        in Inr (column @ '' '' @ op @ '' '' @ s, params1)
      else Inr (column @ '' '' @ op, params))"

definition render_condition ::
    "serializer \<Rightarrow> sql_generator \<Rightarrow> dialect \<Rightarrow> string \<Rightarrow> string \<Rightarrow> value_mode \<Rightarrow> filter_cond \<Rightarrow> json list
      \<Rightarrow> gen_error + string \<times> json list" where
  "render_condition ser g d source_alias base mode f params =
     (let column = qualify_field g d base (fl_field f) source_alias in
      case spatial_function (fl_operator f) of
        Some func \<Rightarrow> render_spatial ser d mode column func f params
      | None \<Rightarrow>
          rbind (ok_or (NoSqlRendering (fl_operator f)) (sql_operator (fl_operator f)))
            (\<lambda>op. render_comparison ser d mode column op f params))"

definition separator :: "bool \<Rightarrow> filter_cond \<Rightarrow> string" where
  "separator first f = (if first then [] else if fl_or f then '' OR '' else '' AND '')"

fun render_conditions ::
    "serializer \<Rightarrow> sql_generator \<Rightarrow> dialect \<Rightarrow> string \<Rightarrow> string \<Rightarrow> value_mode \<Rightarrow> bool \<Rightarrow> filter_cond list
      \<Rightarrow> json list \<Rightarrow> gen_error + string \<times> json list" where
  "render_conditions ser g d source_alias base mode first [] params = Inr ([], params)"
| "render_conditions ser g d source_alias base mode first (f # fs) params =
     rbind (render_condition ser g d source_alias base mode f params) (\<lambda>(c, params1).
     rbind (render_conditions ser g d source_alias base mode False fs params1) (\<lambda>(cs, params2).
       Inr (separator first f @ c @ cs, params2)))"

definition build_where_clause ::
    "serializer \<Rightarrow> sql_generator \<Rightarrow> query \<Rightarrow> dialect \<Rightarrow> string \<Rightarrow> string \<Rightarrow> value_mode
      \<Rightarrow> gen_error + string option \<times> json list" where
  "build_where_clause ser g q d source_alias base mode =
     (if q_filters q = [] then Inr (None, [])
      else rbind (render_conditions ser g d source_alias base mode True (q_filters q) [])
             (\<lambda>(cs, params). Inr (Some cs, params)))"

subsection \<open>Groups, order, joins\<close>

definition build_group_by :: "sql_generator \<Rightarrow> query \<Rightarrow> dialect \<Rightarrow> string \<Rightarrow> string \<Rightarrow> string list" where
  "build_group_by g q d source_alias base =
     map (\<lambda>dim. qualify_field g d base (d_name dim) source_alias) (q_dimensions q)
     @ map (\<lambda>td. time_dim_expr d td (Some source_alias)) (q_time_dimensions q)"

definition order_item :: "dialect \<Rightarrow> string \<Rightarrow> order_by \<Rightarrow> order_by_item" where
  "order_item d source_alias ob =
     \<lparr>oi_column = (if str_contains ''.'' (ob_field ob) then ob_field ob
                   else source_alias @ ''.'' @ quote_ident d (ob_field ob)),
      oi_descending = ob_descending ob\<rparr>"

definition build_order_by :: "query \<Rightarrow> dialect \<Rightarrow> string \<Rightarrow> order_by_item list" where
  "build_order_by q d source_alias = map (order_item d source_alias) (q_order q)"

definition quote_qualified :: "dialect \<Rightarrow> string \<Rightarrow> string" where
  "quote_qualified d qualified =
     (case split_on (CHR ''.'') qualified of
        alias # col # _ \<Rightarrow> alias @ ''.'' @ quote_ident d col
      | _ \<Rightarrow> quote_ident d qualified)"

definition quote_condition :: "dialect \<Rightarrow> string \<Rightarrow> string" where
  "quote_condition d cond =
     (case map trim (split_on (CHR ''='') cond) of
        [l, r] \<Rightarrow> quote_qualified d l @ '' = '' @ quote_qualified d r
      | _ \<Rightarrow> cond)"

definition quote_join_on :: "dialect \<Rightarrow> string \<Rightarrow> string" where
  "quote_join_on d on_text =
     str_join '' AND '' (map (quote_condition d) (split_str '' AND '' on_text))"

definition build_joins ::
    "sql_generator \<Rightarrow> query \<Rightarrow> dialect \<Rightarrow> string \<Rightarrow> string \<Rightarrow> gen_error + join_clause list" where
  "build_joins g q d source_table source_alias =
     (let base = unwrap_or (opt_or (map_option ss_model (q_source_model q)) (q_name q)) source_table in
      case lookup_model g base of
        None \<Rightarrow> Inr []
      | Some m \<Rightarrow>
          if mo_joins m = [] then Inr []
          else
            rbind (map_err JoinFailed
                (build_join_clauses (join_graph_new (map snd (sg_models g))) base
                   (map jn_model (mo_joins m)) source_alias))
              (\<lambda>clauses. Inr (map (\<lambda>c. c\<lparr>jc_on := quote_join_on d (jc_on c)\<rparr>) clauses)))"

subsection \<open>Plans and statements\<close>

definition source_override :: "model option \<Rightarrow> string option" where
  "source_override m =
     (case Option.bind m mo_sql of
        None \<Rightarrow> None
      | Some sql \<Rightarrow> if trim sql \<noteq> [] then Some (trim sql) else None)"

definition build_logical_plan ::
    "serializer \<Rightarrow> sql_generator \<Rightarrow> query \<Rightarrow> dialect \<Rightarrow> string \<Rightarrow> string \<Rightarrow> value_mode
      \<Rightarrow> gen_error + logical_plan" where
  "build_logical_plan ser g q d source_table source_alias mode =
     (let m = lookup_model g source_table;
          base = (case m of Some x \<Rightarrow> mo_name x | None \<Rightarrow> source_table);
          override = source_override m
      in rbind (build_select_items g q d source_alias base) (\<lambda>select_items.
         rbind (build_where_clause ser g q d source_alias base mode) (\<lambda>(where_clause, params).
         rbind (build_joins g q d source_table source_alias) (\<lambda>joins.
           Inr \<lparr>lp_source_table = unwrap_or override source_table,
                lp_source_is_sql = (override \<noteq> None),
                lp_source_alias = source_alias,
                lp_select_items = select_items,
                lp_where_clause = where_clause,
                lp_group_by = build_group_by g q d source_alias base,
                lp_order_by = build_order_by q d source_alias,
                lp_limit = q_limit q,
                lp_offset = q_offset q,
                lp_joins = joins,
                lp_distinct = unwrap_or (q_distinct_dimension_values q) False,
                lp_params = params\<rparr>))))"

record generated_sql =
  gs_sql :: string
  gs_params :: "json list"
  gs_display :: string

definition generated_literal :: "string \<Rightarrow> generated_sql" where
  "generated_literal sql = \<lparr>gs_sql = sql, gs_params = [], gs_display = sql\<rparr>"

definition generate :: "serializer \<Rightarrow> sql_generator \<Rightarrow> query \<Rightarrow> gen_error + generated_sql" where
  "generate ser g q =
     rbind (resolve_source g q) (\<lambda>(source_table, source_alias).
       let d = dialect_for g source_table in
       rbind (build_logical_plan ser g q d source_table source_alias PlaceholderMode) (\<lambda>bound.
       rbind (build_logical_plan ser g q d source_table source_alias LiteralMode) (\<lambda>shown.
         Inr \<lparr>gs_sql = generate_sql d bound, gs_params = lp_params bound,
              gs_display = generate_sql d shown\<rparr>)))"

subsection \<open>The dialect of a model\<close>

text \<open>The generators a program can build: a fresh one, and one more registration.\<close>

inductive gen_reachable :: "dialect \<Rightarrow> sql_generator \<Rightarrow> bool" for d where
  fresh: "gen_reachable d (generator_new d)"
| model_added: "gen_reachable d g \<Longrightarrow> gen_reachable d (register_model g m)"
| model_removed: "gen_reachable d g \<Longrightarrow> gen_reachable d (unregister_model g name)"
| datasource_added: "gen_reachable d g \<Longrightarrow> gen_reachable d (register_datasource g ds)"

inductive_cases gen_reachable_freshE: "gen_reachable d (generator_new d')"

definition drivers_known :: "dialect \<Rightarrow> sql_generator \<Rightarrow> bool" where
  "drivers_known d g \<longleftrightarrow> sg_default_dialect g = d \<and>
     (\<forall>k e. map_of (sg_dialects g) k = Some e \<longrightarrow> e = get_dialect k) \<and>
     (\<forall>n drv. map_of (sg_datasource_drivers g) n = Some drv \<longrightarrow>
        drv = dialect_name d \<or> map_of (sg_dialects g) drv \<noteq> None)"

lemma drivers_known_register_datasource:
  assumes "drivers_known d g"
  shows "drivers_known d (register_datasource g ds)"
  using assms
  by (auto simp: drivers_known_def register_datasource_def Let_def update_conv' split: if_splits)

lemma gen_reachable_drivers: "gen_reachable d g \<Longrightarrow> drivers_known d g"
proof (induction rule: gen_reachable.induct)
  case (datasource_added g ds)
  then show ?case by (intro drivers_known_register_datasource)
qed (auto simp: drivers_known_def generator_new_def register_model_def unregister_model_def)

definition driver_of :: "sql_generator \<Rightarrow> string \<Rightarrow> string option" where
  "driver_of g name =
     Option.bind (lookup_model g name) (\<lambda>m. map_of (sg_datasource_drivers g) (mo_datasource m))"

text \<open>
  C12. In every generator a program can build by registering models and datasources, in any order,
  the dialect of a model is the one of the driver of its datasource, and the default when the
  model or its datasource is not registered: the lazily filled dialect table never disagrees
  with the drivers.
\<close>

theorem dialect_follows_driver:
  assumes "gen_reachable d g"
  shows "dialect_for g name = (case driver_of g name of Some drv \<Rightarrow> get_dialect drv | None \<Rightarrow> d)"
proof (cases "driver_of g name")
  case None
  then show ?thesis
    using gen_reachable_drivers [OF assms] by (simp add: drivers_known_def dialect_for_def driver_of_def)
next
  case (Some drv)
  then obtain n where "map_of (sg_datasource_drivers g) n = Some drv"
    by (auto simp: driver_of_def bind_eq_Some_conv)
  then have "drv = dialect_name d \<or> map_of (sg_dialects g) drv = Some (get_dialect drv)"
    and "sg_default_dialect g = d"
    using gen_reachable_drivers [OF assms] by (fastforce simp: drivers_known_def)+
  then show ?thesis
    using Some by (auto simp: dialect_for_def driver_of_def get_dialect_name)
qed

theorem dialect_follows_driver_witness:
  "dialect_for
     (register_model (register_datasource (generator_new Postgres)
        \<lparr>ds_name = ''lake'', ds_driver = ''DuckDB'', ds_connection_string = [], ds_description = None,
         ds_models = [], ds_pool_size = None, ds_meta = []\<rparr>)
       \<lparr>mo_name = ''orders'', mo_datasource = ''lake'', mo_description = None, mo_measures = [],
        mo_dimensions = [], mo_time_dimensions = [], mo_joins = [], mo_sql = None, mo_meta = []\<rparr>) ''orders''
   = DuckDb"
proof -
  let ?ds = "\<lparr>ds_name = ''lake'', ds_driver = ''DuckDB'', ds_connection_string = [], ds_description = None,
         ds_models = [], ds_pool_size = None, ds_meta = []\<rparr>"
  let ?m = "\<lparr>mo_name = ''orders'', mo_datasource = ''lake'', mo_description = None, mo_measures = [],
        mo_dimensions = [], mo_time_dimensions = [], mo_joins = [], mo_sql = None, mo_meta = []\<rparr>"
  have "gen_reachable Postgres (register_model (register_datasource (generator_new Postgres) ?ds) ?m)"
    by (intro gen_reachable.intros)
  note follows = dialect_follows_driver [OF this, of "''orders''"]
  have drv: "driver_of (register_model (register_datasource (generator_new Postgres) ?ds) ?m) ''orders'' = Some ''DuckDB''"
    by code_simp
  have "get_dialect ''DuckDB'' = DuckDb" by code_simp
  with follows show ?thesis by (simp only: drv option.case)
qed

subsection \<open>Fields are always quoted\<close>

lemma join_with_field_in: "join_with_field g field js = Some (j, m) \<Longrightarrow> j \<in> set js"
  by (induction js) (auto split: option.splits if_splits)

lemma join_with_prefix_in: "join_with_prefix g p column js = Some (j, m) \<Longrightarrow> j \<in> set js"
  by (induction js) (auto split: option.splits if_splits)

definition known_alias :: "sql_generator \<Rightarrow> string \<Rightarrow> string \<Rightarrow> string \<Rightarrow> bool" where
  "known_alias g base source_alias p \<longleftrightarrow>
     p = source_alias \<or> (\<exists>m j. lookup_model g base = Some m \<and> j \<in> set (mo_joins m) \<and> p = join_alias j)"

lemma qualify_field_unqualified:
  assumes "field \<noteq> ''*''" and "lookup_model g base = Some m"
    and "model_has_plain_field m field \<or> join_with_field g field (mo_joins m) \<noteq> None
      \<or> rsplit_once (CHR ''.'') field = None"
  shows "\<exists>p. qualify_field g d base field source_alias = p @ ''.'' @ quote_ident d field \<and>
    known_alias g base source_alias p"
proof (cases "join_with_field g field (mo_joins m)")
  case None
  with assms show ?thesis by (auto simp: qualify_field_def Let_def known_alias_def)
next
  case (Some jm)
  obtain j x where jm: "jm = (j, x)" by fastforce
  then have "j \<in> set (mo_joins m)" using Some by (simp add: join_with_field_in)
  then have "known_alias g base source_alias (if model_has_plain_field m field then source_alias else join_alias j)"
    using assms(2) by (auto simp: known_alias_def)
  then show ?thesis using assms(1,2) Some jm by (auto simp: qualify_field_def Let_def)
qed

lemma qualify_field_qualified:
  assumes "field \<noteq> ''*''" and "lookup_model g base = Some m"
    and "\<not> model_has_plain_field m field" and "join_with_field g field (mo_joins m) = None"
    and ab: "rsplit_once (CHR ''.'') field = Some (a, b)"
  shows "\<exists>p c. qualify_field g d base field source_alias = p @ ''.'' @ quote_ident d c \<and>
    known_alias g base source_alias p \<and> (c = field \<or> field = a @ ''.'' @ c)"
proof -
  let ?p = "if a = base then Some source_alias
    else map_option (\<lambda>x. join_alias (fst x)) (join_with_prefix g a b (mo_joins m))"
  have "field = a @ ''.'' @ b" using ab by (simp add: rsplit_once_Some)
  moreover have "qualify_field g d base field source_alias =
      (case ?p of Some p \<Rightarrow> p @ ''.'' @ quote_ident d b | None \<Rightarrow> source_alias @ ''.'' @ quote_ident d field)"
    using assms by (auto simp: qualify_field_def Let_def split: option.splits)
  moreover have "?p = Some p \<Longrightarrow> known_alias g base source_alias p" for p
    using assms(2) join_with_prefix_in [of g a b "mo_joins m"]
    by (fastforce simp: known_alias_def split: if_splits)
  moreover have "known_alias g base source_alias source_alias" by (simp add: known_alias_def)
  ultimately show ?thesis by (cases ?p) auto
qed

text \<open>
  However a field is spelled, what reaches the statement is a known alias (the alias of the
  source or of a declared join), a dot, and a quoted identifier that is the field or its part
  after a dot.
\<close>

lemma qualify_field_quotes:
  assumes "field \<noteq> ''*''"
  shows "\<exists>p c. qualify_field g d base field source_alias = p @ ''.'' @ quote_ident d c \<and>
    known_alias g base source_alias p \<and> (c = field \<or> (\<exists>pre. field = pre @ ''.'' @ c))"
proof (cases "lookup_model g base")
  case None
  then show ?thesis using assms
    by (intro exI [of _ source_alias] exI [of _ field]) (simp add: qualify_field_def known_alias_def Let_def)
next
  case (Some m)
  show ?thesis
  proof (cases "model_has_plain_field m field \<or> join_with_field g field (mo_joins m) \<noteq> None
      \<or> rsplit_once (CHR ''.'') field = None")
    case True
    from qualify_field_unqualified [OF assms Some this] show ?thesis by blast
  next
    case False
    then obtain a b where "rsplit_once (CHR ''.'') field = Some (a, b)" by auto
    with False qualify_field_qualified [OF assms Some, of a b d source_alias] show ?thesis by blast
  qed
qed

lemma qualify_field_quotes_witness:
  "\<exists>p c. qualify_field (generator_new MySql) MySql ''orders'' ''o.x` = 1 --'' ''o'' = p @ ''.'' @ quote_ident MySql c \<and>
    known_alias (generator_new MySql) ''orders'' ''o'' p \<and>
    (c = ''o.x` = 1 --'' \<or> (\<exists>pre. ''o.x` = 1 --'' = pre @ ''.'' @ c))"
  by (rule qualify_field_quotes) simp

subsection \<open>Filter values\<close>

text \<open>The kind of a value, as far as the text of a statement may depend on it.\<close>

fun same_shape :: "json \<Rightarrow> json \<Rightarrow> bool" where
  "same_shape (JArray xs) (JArray ys) = (length xs = length ys)"
| "same_shape (JString _) (JString _) = True"
| "same_shape (JObject _) (JObject _) = True"
| "same_shape JNull JNull = True"
| "same_shape (JBool _) (JBool _) = True"
| "same_shape (JNumber _) (JNumber _) = True"
| "same_shape _ _ = False"

definition same_but_value :: "filter_cond \<Rightarrow> filter_cond \<Rightarrow> bool" where
  "same_but_value f f' \<longleftrightarrow> fl_field f = fl_field f' \<and> fl_operator f = fl_operator f'
     \<and> fl_or f = fl_or f' \<and> same_shape (fl_value f) (fl_value f')"

text \<open>The values a filter binds, and when a dialect can render it.\<close>

definition array_of :: "json \<Rightarrow> json list" where
  "array_of v = unwrap_or (as_array v) []"

definition filter_values :: "filter_cond \<Rightarrow> json list" where
  "filter_values f =
     (if fl_operator f \<in> {In, NotIn} then array_of (fl_value f)
      else if fl_operator f \<in> {Between, NotBetween} then take 2 (array_of (fl_value f))
      else if fl_operator f \<in> {IsNull, IsNotNull} then []
      else [fl_value f])"

definition condition_ok :: "dialect \<Rightarrow> filter_cond \<Rightarrow> bool" where
  "condition_ok d f \<longleftrightarrow>
     (if spatial_function (fl_operator f) \<noteq> None
      then d \<in> {Postgres, DuckDb} \<and> (case fl_value f of JString _ \<Rightarrow> True | JObject _ \<Rightarrow> True | _ \<Rightarrow> False)
      else if fl_operator f \<in> {In, NotIn} then as_array (fl_value f) \<noteq> None
      else if fl_operator f \<in> {Between, NotBetween} then 2 \<le> length (array_of (fl_value f))
      else True)"

lemma render_values_placeholder:
  "render_values ser d PlaceholderMode ps vs =
     (map (placeholder d) [Suc (length ps)..<Suc (length ps + length vs)], ps @ vs)"
proof (induction vs arbitrary: ps)
  case (Cons v vs)
  show ?case by (simp add: Cons Let_def upt_conv_Cons del: upt_Suc)
qed simp

lemma two_elements: "2 \<le> length xs \<longleftrightarrow> (\<exists>a b r. xs = a # b # r)"
  by (cases xs; cases "tl xs") auto

lemma is_ok_rbind: "is_ok (rbind x f) \<longleftrightarrow> (\<exists>v. x = Inr v \<and> is_ok (f v))"
  by (cases x) auto

lemma is_ok_ok_or: "is_ok (ok_or e x) \<longleftrightarrow> x \<noteq> None"
  by (auto simp: ok_or_def split: option.splits)

lemma spatial_supported: "spatial_geometry d v w \<noteq> None \<longleftrightarrow> d \<in> {Postgres, DuckDb}"
  by (cases d) auto

lemma render_spatial_ok:
  "is_ok (render_spatial ser d mode column func f ps) \<longleftrightarrow>
     d \<in> {Postgres, DuckDb} \<and> (case fl_value f of JString _ \<Rightarrow> True | JObject _ \<Rightarrow> True | _ \<Rightarrow> False)"
  using spatial_supported [of d]
  by (cases "fl_value f")
    (auto simp: render_spatial_def is_ok_rbind is_ok_ok_or ok_or_Inr Let_def split: prod.splits)

lemma render_comparison_ok:
  "is_ok (render_comparison ser d mode column op f ps) \<longleftrightarrow>
     (if fl_operator f \<in> {In, NotIn} then as_array (fl_value f) \<noteq> None
      else if fl_operator f \<in> {Between, NotBetween} then 2 \<le> length (array_of (fl_value f))
      else True)"
proof (cases "as_array (fl_value f)")
  case None
  then show ?thesis
    by (auto simp: render_comparison_def is_ok_rbind ok_or_def needs_value_def is_valueless_def
        needs_two_values_def array_of_def Let_def split: prod.splits)
next
  case (Some vs)
  show ?thesis
  proof (cases "2 \<le> length vs")
    case True
    then obtain v0 v1 r where "vs = v0 # v1 # r" by (auto simp: two_elements)
    then show ?thesis using Some
      by (auto simp: render_comparison_def is_ok_rbind ok_or_def needs_value_def is_valueless_def
          needs_two_values_def array_of_def Let_def split: prod.splits)
  next
    case False
    then show ?thesis using Some
      by (cases vs; cases "tl vs")
        (auto simp: render_comparison_def is_ok_rbind ok_or_def needs_value_def is_valueless_def
          needs_two_values_def array_of_def Let_def split: prod.splits)
  qed
qed

lemma render_condition_ok:
  "is_ok (render_condition ser g d a b mode f ps) \<longleftrightarrow> condition_ok d f"
proof (cases "spatial_function (fl_operator f)")
  case None
  then obtain op where "sql_operator (fl_operator f) = Some op"
    using sql_operator_none [of "fl_operator f"] by auto
  with None show ?thesis
    by (simp add: render_condition_def condition_ok_def ok_or_def render_comparison_ok)
next
  case (Some func)
  then show ?thesis
    by (simp add: render_condition_def condition_ok_def render_spatial_ok)
qed

lemma same_shape_array: "same_shape v w \<Longrightarrow>
    (as_array v = None \<longleftrightarrow> as_array w = None) \<and> length (array_of v) = length (array_of w)"
  by (cases v; cases w) (auto simp: array_of_def)

lemma same_but_value_ok: "same_but_value f f' \<Longrightarrow> condition_ok d f \<longleftrightarrow> condition_ok d f'"
  using same_shape_array [of "fl_value f" "fl_value f'"]
  by (cases "fl_value f"; cases "fl_value f'") (auto simp: same_but_value_def condition_ok_def)

lemma render_spatial_shape:
  assumes "same_but_value f f'" and "length ps = length ps'"
    and "render_spatial ser d PlaceholderMode column func f ps = Inr (c, qs)"
  shows "render_spatial ser d PlaceholderMode column func f' ps' = Inr (c, ps' @ [fl_value f']) \<and>
    qs = ps @ [fl_value f]"
  using assms
  by (cases "fl_value f"; cases "fl_value f'")
    (auto simp: same_but_value_def render_spatial_def Let_def branch_simps)

lemma render_comparison_shape:
  assumes "same_but_value f f'" and "length ps = length ps'"
    and "spatial_function (fl_operator f) = None"
    and "render_comparison ser d PlaceholderMode column op f ps = Inr (c, qs)"
  shows "render_comparison ser d PlaceholderMode column op f' ps' = Inr (c, ps' @ filter_values f') \<and>
    qs = ps @ filter_values f"
proof -
  have ops: "fl_operator f' = fl_operator f" and shape: "same_shape (fl_value f) (fl_value f')"
    using assms(1) by (auto simp: same_but_value_def)
  note defs = render_comparison_def filter_values_def needs_value_def is_valueless_def
    needs_two_values_def array_of_def render_values_placeholder
  consider (list) "fl_operator f \<in> {In, NotIn}" | (between) "fl_operator f \<in> {Between, NotBetween}"
    | (other) "fl_operator f \<notin> {In, NotIn, Between, NotBetween}" by blast
  then show ?thesis
  proof cases
    case list
    then show ?thesis using assms(2,4) ops shape
      by (cases "fl_value f"; cases "fl_value f'") (auto simp: defs ok_or_def)
  next
    case between
    then have "is_ok (render_comparison ser d PlaceholderMode column op f ps)" using assms(4) by simp
    then have "2 \<le> length (array_of (fl_value f))" "2 \<le> length (array_of (fl_value f'))"
      using between same_shape_array [OF shape] by (auto simp: render_comparison_ok)
    then obtain a b r a' b' r' where "fl_value f = JArray (a # b # r)" "fl_value f' = JArray (a' # b' # r')"
      unfolding two_elements by (cases "fl_value f"; cases "fl_value f'") (auto simp: array_of_def)
    then show ?thesis using assms(2,4) ops between
      by (auto simp: defs ok_or_def)
  next
    case other
    then show ?thesis using assms(2,4) ops
      by (auto simp: defs Let_def split: if_splits)
  qed
qed

lemma render_condition_shape:
  assumes "same_but_value f f'" and "length ps = length ps'"
    and "render_condition ser g d a b PlaceholderMode f ps = Inr (c, qs)"
  shows "render_condition ser g d a b PlaceholderMode f' ps' = Inr (c, ps' @ filter_values f') \<and>
    qs = ps @ filter_values f"
proof -
  have ops: "fl_operator f' = fl_operator f" "fl_field f' = fl_field f"
    using assms(1) by (auto simp: same_but_value_def)
  show ?thesis
  proof (cases "spatial_function (fl_operator f)")
    case None
    then obtain op where "sql_operator (fl_operator f) = Some op"
      using sql_operator_none [of "fl_operator f"] by auto
    with None render_comparison_shape [OF assms(1,2) None] assms(3) show ?thesis
      by (simp add: render_condition_def ops ok_or_def)
  next
    case (Some func)
    then have "filter_values f = [fl_value f]" "filter_values f' = [fl_value f']"
      by (cases "fl_operator f"; simp add: filter_values_def ops)+
    with Some render_spatial_shape [OF assms(1,2)] assms(3) show ?thesis
      by (simp add: render_condition_def ops)
  qed
qed

lemma render_conditions_shape:
  assumes "list_all2 same_but_value fs fs'" and "length ps = length ps'"
    and "render_conditions ser g d a b PlaceholderMode first fs ps = Inr (c, qs)"
  shows "render_conditions ser g d a b PlaceholderMode first fs' ps' = Inr (c, ps' @ concat (map filter_values fs')) \<and>
    qs = ps @ concat (map filter_values fs)"
  using assms
proof (induction fs fs' arbitrary: ps ps' first c qs rule: list_all2_induct)
  case (Cons f fs f' fs')
  from Cons.prems obtain c1 ps1 c2 where
    r1: "render_condition ser g d a b PlaceholderMode f ps = Inr (c1, ps1)" and
    r2: "render_conditions ser g d a b PlaceholderMode False fs ps1 = Inr (c2, qs)" and
    c: "c = separator first f @ c1 @ c2"
    by (auto simp: branch_simps)
  have ps1: "ps1 = ps @ filter_values f" and
    r1': "render_condition ser g d a b PlaceholderMode f' ps' = Inr (c1, ps' @ filter_values f')"
    using render_condition_shape [OF Cons.hyps(1) Cons.prems(1) r1] by auto
  have "length (filter_values f) = length (filter_values f')"
    using Cons.hyps(1) same_shape_array [of "fl_value f" "fl_value f'"]
    by (auto simp: same_but_value_def filter_values_def)
  then have len: "length ps1 = length (ps' @ filter_values f')" using Cons.prems(1) ps1 by simp
  from Cons.IH [OF len r2] r1' ps1 c Cons.hyps(1) show ?case
    by (simp add: separator_def same_but_value_def)
qed simp

lemma render_conditions_ok:
  "is_ok (render_conditions ser g d a b mode first fs ps) \<longleftrightarrow> list_all (condition_ok d) fs"
proof (induction fs arbitrary: ps first)
  case (Cons f fs)
  show ?case
  proof (cases "render_condition ser g d a b mode f ps")
    case (Inl e)
    then show ?thesis using render_condition_ok [of ser g d a b mode f ps] by simp
  next
    case (Inr cp)
    obtain c ps1 where cp: "cp = (c, ps1)" by fastforce
    show ?thesis
      using render_condition_ok [of ser g d a b mode f ps] Cons.IH [of False ps1] Inr cp
      by (cases "render_conditions ser g d a b mode False fs ps1") auto
  qed
qed simp

lemma where_clause_ok:
  "is_ok (build_where_clause ser g q d a b mode) \<longleftrightarrow> list_all (condition_ok d) (q_filters q)"
proof (cases "q_filters q = []")
  case False
  then show ?thesis
    using render_conditions_ok [of ser g d a b mode True "q_filters q" "[]"]
    by (cases "render_conditions ser g d a b mode True (q_filters q) []")
      (auto simp: build_where_clause_def)
qed (simp add: build_where_clause_def)

lemma where_clause_shape:
  assumes "list_all2 same_but_value (q_filters q) fs"
    and "build_where_clause ser g q d a b PlaceholderMode = Inr (w, ps)"
  shows "build_where_clause ser g (q\<lparr>q_filters := fs\<rparr>) d a b PlaceholderMode = Inr (w, concat (map filter_values fs)) \<and>
    ps = concat (map filter_values (q_filters q))"
proof (cases "q_filters q = []")
  case True
  then show ?thesis using assms by (auto simp: build_where_clause_def)
next
  case False
  then have "fs \<noteq> []" using assms(1) by auto
  moreover obtain c where "w = Some c"
    "render_conditions ser g d a b PlaceholderMode True (q_filters q) [] = Inr (c, ps)"
    using assms(2) False by (auto simp: build_where_clause_def branch_simps)
  ultimately show ?thesis
    using render_conditions_shape [OF assms(1), of "[]" "[]"] by (auto simp: build_where_clause_def)
qed

lemma same_but_value_refl: "same_but_value f f"
  by (cases "fl_value f") (auto simp: same_but_value_def)

subsection \<open>Plans\<close>

lemma build_plan_filters:
  "build_joins g (q\<lparr>q_filters := fs\<rparr>) d st sa = build_joins g q d st sa"
  "build_select_items g (q\<lparr>q_filters := fs\<rparr>) d sa base = build_select_items g q d sa base"
  "build_group_by g (q\<lparr>q_filters := fs\<rparr>) d sa base = build_group_by g q d sa base"
  "build_order_by (q\<lparr>q_filters := fs\<rparr>) d sa = build_order_by q d sa"
  "resolve_source g (q\<lparr>q_filters := fs\<rparr>) = resolve_source g q"
  by (simp_all add: build_joins_def build_select_items_def build_group_by_def build_order_by_def
      resolve_source_def split: option.split)

definition plan_base :: "sql_generator \<Rightarrow> string \<Rightarrow> string" where
  "plan_base g st = (case lookup_model g st of Some m \<Rightarrow> mo_name m | None \<Rightarrow> st)"

lemma build_plan_ok_iff:
  "is_ok (build_logical_plan ser g q d st sa mode) \<longleftrightarrow>
     is_ok (build_select_items g q d sa (plan_base g st)) \<and>
     is_ok (build_where_clause ser g q d sa (plan_base g st) mode) \<and>
     is_ok (build_joins g q d st sa)"
  unfolding build_logical_plan_def plan_base_def [symmetric] Let_def
  by (cases "build_select_items g q d sa (plan_base g st)";
      cases "build_where_clause ser g q d sa (plan_base g st) mode"; cases "build_joins g q d st sa")
    (auto split: prod.splits)

lemma build_plan_ok:
  assumes "is_ok (build_logical_plan ser g q d st sa mode)"
    and "list_all2 same_but_value (q_filters q) fs"
  shows "is_ok (build_logical_plan ser g (q\<lparr>q_filters := fs\<rparr>) d st sa mode')"
proof -
  have "list_all (condition_ok d) (q_filters q) = list_all (condition_ok d) fs"
    using assms(2) by (induction rule: list_all2_induct) (auto dest: same_but_value_ok)
  then have "is_ok (build_where_clause ser g q d sa b mode) =
      is_ok (build_where_clause ser g (q\<lparr>q_filters := fs\<rparr>) d sa b mode')" for b
    by (simp add: where_clause_ok)
  with assms(1) show ?thesis
    by (simp add: build_plan_ok_iff build_plan_filters)
qed

lemma build_plan_shape:
  assumes "list_all2 same_but_value (q_filters q) fs"
    and "build_logical_plan ser g q d st sa PlaceholderMode = Inr plan"
  shows "build_logical_plan ser g (q\<lparr>q_filters := fs\<rparr>) d st sa PlaceholderMode =
      Inr (plan\<lparr>lp_params := concat (map filter_values fs)\<rparr>) \<and>
    lp_params plan = concat (map filter_values (q_filters q))"
  using assms(2) where_clause_shape [OF assms(1)]
  by (fastforce simp: build_logical_plan_def Let_def branch_simps build_plan_filters)

lemma generate_sql_params: "generate_sql d (plan\<lparr>lp_params := ps\<rparr>) = generate_sql d plan"
  by (simp add: generate_sql_render render_plan_def render_source_def)

text \<open>
  C1. The statement with placeholders that \<open>generate\<close> builds for bound execution (its field \<open>sql\<close>) does not
  depend on the values of the filters: replacing them by any others of the same kinds yields a
  statement again, with exactly the same text, and its parameters are the values themselves, in the
  order of the filters. (The readable text beside it has the values written out; that is the one the
  engine hands on, theory \<open>Engine\<close>.)
\<close>

theorem statement_independent_of_values:
  assumes "generate ser g q = Inr r" and "list_all2 same_but_value (q_filters q) fs"
  shows "\<exists>r'. generate ser g (q\<lparr>q_filters := fs\<rparr>) = Inr r' \<and> gs_sql r' = gs_sql r \<and>
    gs_params r' = concat (map filter_values fs) \<and>
    gs_params r = concat (map filter_values (q_filters q))"
proof -
  obtain st sa where src: "resolve_source g q = Inr (st, sa)"
    using assms(1) by (auto simp: generate_def branch_simps)
  define d where "d = dialect_for g st"
  obtain plan shown where plan: "build_logical_plan ser g q d st sa PlaceholderMode = Inr plan"
    and shown: "build_logical_plan ser g q d st sa LiteralMode = Inr shown"
    and r: "gs_sql r = generate_sql d plan" "gs_params r = lp_params plan"
    using assms(1) src by (auto simp: generate_def branch_simps d_def Let_def)
  obtain shown' where "build_logical_plan ser g (q\<lparr>q_filters := fs\<rparr>) d st sa LiteralMode = Inr shown'"
    using build_plan_ok [OF _ assms(2), of ser g d st sa LiteralMode] shown by (auto simp: is_ok_iff)
  then show ?thesis
    using build_plan_shape [OF assms(2) plan] src r
    by (simp add: generate_def build_plan_filters d_def generate_sql_params Let_def)
qed

text \<open>
  A where clause is built exactly when every filter is well formed for the dialect: spatial
  predicates take a string or an object and only exist on Postgres and DuckDB, membership
  takes an array, a range takes an array of at least two values. This does not depend on
  whether values are bound or shown.
\<close>

lemma where_clause_ok_iff:
  "is_ok (build_where_clause ser g q d a b mode) = list_all (condition_ok d) (q_filters q)"
  by (rule where_clause_ok)

text \<open>
  Range filters: the operator keyword is written twice, so the condition reads
  \<open>BETWEEN BETWEEN\<close>, and a list of fewer than two values panics instead of being refused.
\<close>

lemma between_rendering:
  "render_condition ser g d a b PlaceholderMode
     \<lparr>fl_field = field, fl_operator = Between, fl_value = JArray vs, fl_or = is_or\<rparr> ps =
   (case vs of
      v0 # v1 # _ \<Rightarrow>
        Inr (qualify_field g d b field a @ '' BETWEEN BETWEEN '' @ placeholder d (Suc (length ps))
             @ '' AND '' @ placeholder d (Suc (Suc (length ps))), ps @ [v0, v1])
    | _ \<Rightarrow> Inl IndexOutOfBounds)"
  by (simp add: render_condition_def render_comparison_def needs_value_def is_valueless_def
      needs_two_values_def ok_or_def Let_def split: list.splits)

text \<open>
  Ordering: a field without a dot is quoted, and a field with a dot is copied into the
  statement as it stands.
\<close>

lemma order_by_dotted_verbatim:
  "oi_column (order_item d a (order_by_new field desc)) =
     (if CHR ''.'' \<in> set field then field else a @ ''.'' @ quote_ident d field)"
  by (simp add: order_item_def order_by_new_def str_contains_char)

text \<open>
  A \<open>time_shift\<close> measure renders the same for every offset and every unit: only its inner
  measure reaches the statement.
\<close>

lemma time_shift_ignores_offset:
  assumes "find_first_match time_shift_at expr = Some (inner, offset, gran)"
    and "find_first_match time_shift_at expr' = Some (inner, offset', gran')"
  shows "build_time_shift_expression g d a b expr = build_time_shift_expression g d a b expr'"
  using assms by (simp add: build_time_shift_expression_def ok_or_def)

subsection \<open>An example\<close>

definition sample_model :: model where
  "sample_model = \<lparr>mo_name = ''orders'', mo_datasource = ''main'', mo_description = None, mo_measures = [],
     mo_dimensions = [dimension_new ''region''], mo_time_dimensions = [], mo_joins = [], mo_sql = None, mo_meta = []\<rparr>"

definition sample_query :: "json \<Rightarrow> query" where
  "sample_query v = query_add_filter (query_add_measure (query_with_name query_new ''orders'')
     (measure_simple ''total'' Sum)) (filter_new ''region'' Eq v)"

lemma sample_generate:
  "generate (\<lambda>_. []) (register_model (generator_new Postgres) sample_model) (sample_query (JString ''eu'')) =
     Inr \<lparr>gs_sql = ''SELECT SUM(orders.'' @ dquote @ ''total'' @ dquote @ '') AS '' @ dquote @ ''total'' @ dquote
            @ '' FROM '' @ dquote @ ''orders'' @ dquote @ '' '' @ dquote @ ''orders'' @ dquote
            @ ''  WHERE orders.'' @ dquote @ ''region'' @ dquote @ '' = $1'',
          gs_params = [JString ''eu''],
          gs_display = ''SELECT SUM(orders.'' @ dquote @ ''total'' @ dquote @ '') AS '' @ dquote @ ''total'' @ dquote
            @ '' FROM '' @ dquote @ ''orders'' @ dquote @ '' '' @ dquote @ ''orders'' @ dquote
            @ ''  WHERE orders.'' @ dquote @ ''region'' @ dquote @ '' = '' @ squote @ ''eu'' @ squote\<rparr>"
  by code_simp

theorem statement_independent_of_values_witness:
  "\<exists>r'. generate (\<lambda>_. []) (register_model (generator_new Postgres) sample_model)
      (sample_query (JString ''eu'')\<lparr>q_filters := [filter_new ''region'' Eq (JString (squote @ '' OR 1=1 --''))]\<rparr>) = Inr r' \<and>
    gs_params r' = [JString (squote @ '' OR 1=1 --'')] \<and> str_contains ''= $1'' (gs_sql r')"
proof -
  have "list_all2 same_but_value (q_filters (sample_query (JString ''eu'')))
      [filter_new ''region'' Eq (JString (squote @ '' OR 1=1 --''))]"
    by (simp add: sample_query_def query_add_filter_def query_add_measure_def query_with_name_def
        query_new_def filter_new_def same_but_value_def)
  from statement_independent_of_values [OF sample_generate this]
  show ?thesis by (auto simp: filter_values_def filter_new_def starts_with_def)
qed

lemma time_shift_ignores_offset_witness:
  "build_time_shift_expression (generator_new Postgres) Postgres ''o'' ''orders''
      (''time_shift(total:sum, -1, '' @ squote @ ''year'' @ squote @ '')'') =
   build_time_shift_expression (generator_new Postgres) Postgres ''o'' ''orders''
      (''time_shift(total:sum, -12, '' @ squote @ ''day'' @ squote @ '')'')"
proof (rule time_shift_ignores_offset)
  show "find_first_match time_shift_at (''time_shift(total:sum, -1, '' @ squote @ ''year'' @ squote @ '')'') =
      Some (''total:sum'', ''-1'', ''year'')" by code_simp
  show "find_first_match time_shift_at (''time_shift(total:sum, -12, '' @ squote @ ''day'' @ squote @ '')'') =
      Some (''total:sum'', ''-12'', ''day'')" by code_simp
qed

end
