(* ===== verification/Fnv.thy ===== *)
theory Fnv
  imports Models "HOL-Library.Word"
begin

unbundle bit_operations_syntax

text \<open>
  FNV-1a on 64-bit words, as \<open>FxHasher\<close> of \<open>crates/graphnight-sql/src/cache.rs\<close> has it (the rate
  limiter of the server repeats it), and the facts about bytes and words that the hash and the
  comparison of secrets share.
\<close>

definition fnv_offset :: "64 word" where
  "fnv_offset = 0xcbf29ce484222325"

definition feed_u8 :: "64 word \<Rightarrow> 8 word \<Rightarrow> 64 word" where
  "feed_u8 h i = (h XOR ucast i) * 0x100000001b3"

definition byte_word :: "char \<Rightarrow> 8 word" where
  "byte_word c = of_nat (byte c)"

definition feed_str :: "64 word \<Rightarrow> string \<Rightarrow> 64 word" where
  "feed_str h s = foldl (\<lambda>h c. feed_u8 h (byte_word c)) h s"

subsection \<open>Bytes and words\<close>

lemma fnv_prime_cancel: "x * 0x100000001b3 = y * (0x100000001b3 :: 64 word) \<longleftrightarrow> x = y"
proof
  have inv: "(0x100000001b3 :: 64 word) * 0xce965057aff6957b = 1" by simp
  assume "x * 0x100000001b3 = y * (0x100000001b3 :: 64 word)"
  then have "x * (0x100000001b3 * 0xce965057aff6957b) = y * (0x100000001b3 * 0xce965057aff6957b)"
    by (simp only: mult.assoc [symmetric])
  then show "x = y" by (simp only: inv mult_1_right)
qed simp

lemma xor_cancel: "x XOR a = y XOR a \<longleftrightarrow> x = (y :: 'a::len word)" "a XOR x = a XOR y \<longleftrightarrow> x = y"
proof -
  show right: "x XOR a = y XOR a \<longleftrightarrow> x = y" for x y a :: "'a::len word"
  proof
    assume "x XOR a = y XOR a"
    then have "(x XOR a) XOR a = (y XOR a) XOR a" by simp
    then show "x = y" by (simp only: xor.assoc xor_self_eq xor.right_neutral)
  qed simp
  show "a XOR x = a XOR y \<longleftrightarrow> x = y" using right by (simp only: xor.commute [of a])
qed

lemma ucast_byte_inj: "(ucast (i :: 8 word) :: 64 word) = ucast j \<longleftrightarrow> i = j"
proof
  have id: "(ucast (ucast k :: 64 word) :: 8 word) = k" for k :: "8 word"
    by (rule ucast_up_ucast_id) (simp add: is_up_eq source_size target_size)
  assume "(ucast i :: 64 word) = ucast j"
  then have "(ucast (ucast i :: 64 word) :: 8 word) = ucast (ucast j :: 64 word)" by simp
  then show "i = j" by (simp only: id)
qed simp

lemma feed_u8_inj: "feed_u8 h i = feed_u8 h' i \<longleftrightarrow> h = h'" "feed_u8 h i = feed_u8 h j \<longleftrightarrow> i = j"
  by (simp_all only: feed_u8_def fnv_prime_cancel xor_cancel ucast_byte_inj)

lemma byte_word_inj: "byte_word c = byte_word d \<longleftrightarrow> c = d"
proof
  assume "byte_word c = byte_word d"
  then have "unat (byte_word c) = unat (byte_word d)" by simp
  moreover have "byte e < 256" for e using nat_of_char_less_256 [of e] by (simp add: byte_def)
  ultimately show "c = d" by (simp add: byte_word_def unat_of_nat byte_eq_iff [of c])
qed simp

lemma xor_zero_iff: "a XOR b = 0 \<longleftrightarrow> a = (b :: 'a::len word)"
  using xor_cancel(1) [of a b b] by simp

lemma or_zero_iff: "a OR b = 0 \<longleftrightarrow> a = 0 \<and> b = (0 :: 'a::len word)"
  by (auto simp: bit_eq_iff bit_simps)

lemma feed_str_simps [simp]:
  "feed_str h [] = h" "feed_str h (c # s) = feed_str (feed_u8 h (byte_word c)) s"
  "feed_str h (s @ s') = feed_str (feed_str h s) s'"
  by (simp_all add: feed_str_def)

lemma feed_str_inj: "feed_str h s = feed_str h' s \<longleftrightarrow> h = h'"
  by (induction s arbitrary: h h') (simp_all add: feed_u8_inj)

end
