(* ===== verification/Cache.thy ===== *)
theory Cache
  imports Generator Fnv
begin

unbundle bit_operations_syntax

text \<open>
  \<open>crates/graphnight-sql/src/cache.rs\<close> and the cached entry points of
  \<open>crates/graphnight-sql/src/lib.rs\<close>: cache keys by the hash of theory \<open>Fnv\<close>, the canonical bytes of
  a query, the result cache with its time to live, and the plan cache of \<open>SqlEngine\<close>. The
  least-recently-used map is the \<open>lru\<close> crate: its operations are the parameter
  \<open>lru_ops\<close> and what the code relies on is \<open>lru_laws\<close>. Time is in nanoseconds since an
  arbitrary start. The hit and miss counters are not modelled.
\<close>

subsection \<open>Hashing\<close>

definition feed_part :: "64 word \<Rightarrow> string \<Rightarrow> 64 word" where
  "feed_part h p = feed_u8 (feed_str h p) 0"

definition hash_key :: "string list \<Rightarrow> 64 word" where
  "hash_key parts = foldl feed_part fnv_offset parts"

definition hash_bytes :: "string \<Rightarrow> 64 word" where
  "hash_bytes bytes = feed_str fnv_offset bytes"

subsection \<open>Canonical bytes\<close>

fun agg_name :: "aggregation_type \<Rightarrow> string" where
  "agg_name Sum = ''sum''"
| "agg_name Avg = ''avg''"
| "agg_name Count = ''count''"
| "agg_name Min = ''min''"
| "agg_name Max = ''max''"
| "agg_name CountDistinct = ''count_distinct''"
| "agg_name (Custom _) = ''custom''"

fun gran_name :: "time_granularity \<Rightarrow> string" where
  "gran_name Second = ''second''"
| "gran_name Minute = ''minute''"
| "gran_name Hour = ''hour''"
| "gran_name Day = ''day''"
| "gran_name Week = ''week''"
| "gran_name Month = ''month''"
| "gran_name Quarter = ''quarter''"
| "gran_name Year = ''year''"

fun op_name :: "filter_operator \<Rightarrow> string" where
  "op_name Eq = ''eq''"
| "op_name Neq = ''neq''"
| "op_name Gt = ''gt''"
| "op_name Gte = ''gte''"
| "op_name Lt = ''lt''"
| "op_name Lte = ''lte''"
| "op_name Like = ''like''"
| "op_name ILike = ''ilike''"
| "op_name In = ''in''"
| "op_name NotIn = ''not_in''"
| "op_name IsNull = ''is_null''"
| "op_name IsNotNull = ''is_not_null''"
| "op_name Between = ''between''"
| "op_name NotBetween = ''not_between''"
| "op_name Intersects = ''intersects''"
| "op_name Within = ''within''"
| "op_name Contains = ''contains''"

definition write_str :: "string \<Rightarrow> string" where
  "write_str s = s @ [CHR 0x1F]"

definition write_opt :: "string option \<Rightarrow> string" where
  "write_opt s = (case s of Some x \<Rightarrow> x @ [CHR 0x1F] | None \<Rightarrow> [CHR 0x1E])"

definition write_bool :: "bool \<Rightarrow> string" where
  "write_bool b = [if b then CHR 0x01 else CHR 0x00, CHR 0x1F]"

definition bool_str :: "bool \<Rightarrow> string" where
  "bool_str b = (if b then ''true'' else ''false'')"

definition measure_bytes :: "measure \<Rightarrow> string" where
  "measure_bytes m = write_str (f_expression (m_formula m)) @ write_opt (f_label (m_formula m))
     @ write_opt (f_format (m_formula m)) @ write_str (agg_name (m_aggregation m))"

definition dimension_bytes :: "dimension \<Rightarrow> string" where
  "dimension_bytes d = write_str (d_name d) @ write_opt (d_label d)"

definition time_dimension_bytes :: "time_dimension \<Rightarrow> string" where
  "time_dimension_bytes td = write_str (td_dimension td) @ write_str (gran_name (td_granularity td))
     @ write_opt (td_label td)"

definition filter_bytes :: "serializer \<Rightarrow> filter_cond \<Rightarrow> string" where
  "filter_bytes ser f = write_str (fl_field f) @ write_str (op_name (fl_operator f))
     @ write_str (ser (fl_value f)) @ write_bool (fl_or f)"

definition order_bytes :: "order_by \<Rightarrow> string" where
  "order_bytes ob = write_str (ob_field ob) @ write_bool (ob_descending ob)"

definition canonical_query_bytes :: "serializer \<Rightarrow> query \<Rightarrow> string" where
  "canonical_query_bytes ser q =
     write_opt (q_name q)
     @ write_opt (map_option ss_model (q_source_model q))
     @ write_opt (Option.bind (q_source_model q) ss_alias)
     @ write_opt (Option.bind (q_source_model q) ss_datasource)
     @ concat (map measure_bytes (q_measures q))
     @ concat (map dimension_bytes (q_dimensions q))
     @ concat (map time_dimension_bytes (q_time_dimensions q))
     @ concat (map (filter_bytes ser) (q_filters q))
     @ concat (map order_bytes (q_order q))
     @ write_opt (map_option nat_str (q_limit q))
     @ write_opt (map_option nat_str (q_offset q))
     @ write_opt (map_option bool_str (q_whole_periods_only q))
     @ write_opt (map_option bool_str (q_distinct_dimension_values q))
     @ write_opt (q_stage_ref q)"

text \<open>The digests of \<open>query_fingerprint\<close> and \<open>short_hash\<close>, before they are printed as hexadecimal.\<close>

definition query_fingerprint :: "serializer \<Rightarrow> query \<Rightarrow> 64 word" where
  "query_fingerprint ser q = feed_str fnv_offset (canonical_query_bytes ser q)"

definition short_hash :: "string \<Rightarrow> 64 word" where
  "short_hash input = feed_str fnv_offset input"

subsection \<open>The least-recently-used map\<close>

text \<open>\<open>get\<close> also returns the map with the entry promoted; \<open>view\<close> is what the map holds.\<close>

record ('c, 'v) lru_ops =
  lru_new :: "nat \<Rightarrow> 'c"
  lru_get :: "'c \<Rightarrow> 64 word \<Rightarrow> 'v option \<times> 'c"
  lru_put :: "'c \<Rightarrow> 64 word \<Rightarrow> 'v \<Rightarrow> 'c"
  lru_pop :: "'c \<Rightarrow> 64 word \<Rightarrow> 'c"
  lru_clear :: "'c \<Rightarrow> 'c"
  lru_view :: "'c \<Rightarrow> 64 word \<Rightarrow> 'v option"

definition lru_laws :: "('c, 'v) lru_ops \<Rightarrow> bool" where
  "lru_laws ops \<longleftrightarrow>
     (\<forall>n k. lru_view ops (lru_new ops n) k = None) \<and>
     (\<forall>c k. fst (lru_get ops c k) = lru_view ops c k) \<and>
     (\<forall>c k k'. lru_view ops (snd (lru_get ops c k)) k' = lru_view ops c k') \<and>
     (\<forall>c k v. lru_view ops (lru_put ops c k v) k = Some v) \<and>
     (\<forall>c k v k' w. k' \<noteq> k \<longrightarrow> lru_view ops (lru_put ops c k v) k' = Some w \<longrightarrow> lru_view ops c k' = Some w) \<and>
     (\<forall>c k. lru_view ops (lru_pop ops c k) k = None) \<and>
     (\<forall>c k k'. k' \<noteq> k \<longrightarrow> lru_view ops (lru_pop ops c k) k' = lru_view ops c k') \<and>
     (\<forall>c k. lru_view ops (lru_clear ops c) k = None)"

lemma lru_lawsD:
  assumes "lru_laws ops"
  shows "lru_view ops (lru_new ops n) k = None"
    and "fst (lru_get ops c k) = lru_view ops c k"
    and "lru_view ops (snd (lru_get ops c k)) k' = lru_view ops c k'"
    and "lru_view ops (lru_put ops c k v) k = Some v"
    and "k' \<noteq> k \<Longrightarrow> lru_view ops (lru_put ops c k v) k' = Some w \<Longrightarrow> lru_view ops c k' = Some w"
    and "lru_view ops (lru_pop ops c k) k = None"
    and "k' \<noteq> k \<Longrightarrow> lru_view ops (lru_pop ops c k) k' = lru_view ops c k'"
    and "lru_view ops (lru_clear ops c) k = None"
proof -
  note laws = assms [unfolded lru_laws_def]
  note laws2 = laws [THEN conjunct2]
  note laws3 = laws2 [THEN conjunct2]
  note laws4 = laws3 [THEN conjunct2]
  note laws5 = laws4 [THEN conjunct2]
  note laws6 = laws5 [THEN conjunct2]
  note laws7 = laws6 [THEN conjunct2]
  show "lru_view ops (lru_new ops n) k = None"
    by (rule laws [THEN conjunct1, rule_format])
  show "fst (lru_get ops c k) = lru_view ops c k"
    by (rule laws2 [THEN conjunct1, rule_format])
  show "lru_view ops (snd (lru_get ops c k)) k' = lru_view ops c k'"
    by (rule laws3 [THEN conjunct1, rule_format])
  show "lru_view ops (lru_put ops c k v) k = Some v"
    by (rule laws4 [THEN conjunct1, rule_format])
  show "k' \<noteq> k \<Longrightarrow> lru_view ops (lru_put ops c k v) k' = Some w \<Longrightarrow> lru_view ops c k' = Some w"
    by (rule laws5 [THEN conjunct1, rule_format])
  show "lru_view ops (lru_pop ops c k) k = None"
    by (rule laws6 [THEN conjunct1, rule_format])
  show "k' \<noteq> k \<Longrightarrow> lru_view ops (lru_pop ops c k) k' = lru_view ops c k'"
    by (rule laws7 [THEN conjunct1, rule_format])
  show "lru_view ops (lru_clear ops c) k = None"
    by (rule laws7 [THEN conjunct2, rule_format])
qed

subsection \<open>The result cache\<close>

type_synonym row = "(string \<times> json) list"

record result_entry =
  re_rows :: "row list"
  re_inserted_at :: nat

record 'c result_cache =
  rc_inner :: 'c
  rc_ttl :: nat

definition result_cache_new :: "('c, result_entry) lru_ops \<Rightarrow> nat \<Rightarrow> nat \<Rightarrow> 'c result_cache" where
  "result_cache_new ops capacity ttl = \<lparr>rc_inner = lru_new ops (max capacity 1), rc_ttl = ttl\<rparr>"

definition get_maps ::
    "('c, result_entry) lru_ops \<Rightarrow> nat \<Rightarrow> 'c result_cache \<Rightarrow> 64 word \<Rightarrow> row list option \<times> 'c result_cache" where
  "get_maps ops now rc key =
     (case lru_get ops (rc_inner rc) key of
        (Some e, c) \<Rightarrow>
          if now - re_inserted_at e \<le> rc_ttl rc then (Some (re_rows e), rc\<lparr>rc_inner := c\<rparr>)
          else (None, rc\<lparr>rc_inner := lru_pop ops c key\<rparr>)
      | (None, c) \<Rightarrow> (None, rc\<lparr>rc_inner := c\<rparr>))"

definition insert_maps ::
    "('c, result_entry) lru_ops \<Rightarrow> nat \<Rightarrow> 'c result_cache \<Rightarrow> 64 word \<Rightarrow> row list \<Rightarrow> 'c result_cache" where
  "insert_maps ops now rc key rows =
     rc\<lparr>rc_inner := lru_put ops (rc_inner rc) key \<lparr>re_rows = rows, re_inserted_at = now\<rparr>\<rparr>"

definition invalidate_all :: "('c, result_entry) lru_ops \<Rightarrow> 'c result_cache \<Rightarrow> 'c result_cache" where
  "invalidate_all ops rc = rc\<lparr>rc_inner := lru_clear ops (rc_inner rc)\<rparr>"

text \<open>The key of a result set in \<open>SqlEngine::execute_sqlx\<close>.\<close>

definition result_key :: "string \<Rightarrow> string \<Rightarrow> string \<Rightarrow> 64 word" where
  "result_key ds fingerprint sql = feed_str (feed_str (feed_str fnv_offset ds) fingerprint) sql"

text \<open>
  \<open>SqlEngine::execute_sqlx\<close>. \<open>run\<close> is the executor; \<open>t0\<close> is the time of the lookup and \<open>t1\<close> the
  time at which its rows are inserted. Only rows are cached, never an error.
\<close>

definition execute_sqlx ::
    "('c, result_entry) lru_ops \<Rightarrow> (data_source \<Rightarrow> string \<Rightarrow> string + row list) \<Rightarrow> string \<Rightarrow> nat \<Rightarrow> nat
      \<Rightarrow> 'c result_cache \<Rightarrow> data_source \<Rightarrow> string \<Rightarrow> (string + row list) \<times> 'c result_cache" where
  "execute_sqlx ops run fingerprint t0 t1 rc ds sql =
     (let key = result_key (ds_name ds) fingerprint sql in
      case get_maps ops t0 rc key of
        (Some rows, rc1) \<Rightarrow> (Inr rows, rc1)
      | (None, rc1) \<Rightarrow>
          (case run ds sql of
             Inr maps \<Rightarrow> (Inr maps, insert_maps ops t1 rc1 key maps)
           | Inl e \<Rightarrow> (Inl e, rc1)))"

subsection \<open>The plan cache of the engine\<close>

record 'c sql_engine =
  en_generator :: sql_generator
  en_plan_cache :: 'c
  en_policy_fingerprint :: string

definition engine_new :: "('c, generated_sql) lru_ops \<Rightarrow> dialect \<Rightarrow> 'c sql_engine" where
  "engine_new ops d =
     \<lparr>en_generator = generator_new d, en_plan_cache = lru_new ops 512, en_policy_fingerprint = []\<rparr>"

definition engine_register_model :: "'c sql_engine \<Rightarrow> model \<Rightarrow> 'c sql_engine" where
  "engine_register_model e m = e\<lparr>en_generator := register_model (en_generator e) m\<rparr>"

definition engine_unregister_model :: "'c sql_engine \<Rightarrow> string \<Rightarrow> 'c sql_engine" where
  "engine_unregister_model e name = e\<lparr>en_generator := unregister_model (en_generator e) name\<rparr>"

definition plan_key :: "string \<Rightarrow> string \<Rightarrow> string \<Rightarrow> 64 word" where
  "plan_key dname fingerprint query_json =
     feed_str (feed_str (feed_str fnv_offset dname) fingerprint) query_json"

text \<open>\<open>to_json\<close> is \<open>serde_json::to_string\<close> of a query; serialising one does not fail.\<close>

definition engine_generate_sql ::
    "('c, generated_sql) lru_ops \<Rightarrow> serializer \<Rightarrow> (query \<Rightarrow> string) \<Rightarrow> 'c sql_engine \<Rightarrow> query
      \<Rightarrow> (gen_error + generated_sql) \<times> 'c sql_engine" where
  "engine_generate_sql ops ser to_json e q =
     (let key = plan_key (resolved_dialect_name (en_generator e) q) (en_policy_fingerprint e) (to_json q)
      in case lru_get ops (en_plan_cache e) key of
           (Some sql, c) \<Rightarrow> (Inr sql, e\<lparr>en_plan_cache := c\<rparr>)
         | (None, c) \<Rightarrow>
             (case generate ser (en_generator e) q of
                Inl err \<Rightarrow> (Inl err, e\<lparr>en_plan_cache := c\<rparr>)
              | Inr sql \<Rightarrow> (Inr sql, e\<lparr>en_plan_cache := lru_put ops c key sql\<rparr>)))"

subsection \<open>The hash\<close>

text \<open>
  Cache keys on 64-bit words: two texts that differ in exactly one byte never have the same
  hash, because each step of FNV-1a is a bijection of the running hash for a fixed byte and
  of the byte for a fixed hash.
\<close>

lemma hash_detects_one_byte:
  "hash_bytes (a @ c # b) = hash_bytes (a @ d # b) \<longleftrightarrow> c = d"
  by (simp add: hash_bytes_def feed_str_inj feed_u8_inj byte_word_inj)

text \<open>
  The keys of the plan and result caches feed their three parts without a separator, so moving
  text between neighbouring parts keeps the key, whereas \<open>hash_key\<close> ends every part with a zero
  byte.
\<close>

lemma cache_keys_are_not_separated:
  "result_key a (b @ c) sql = result_key (a @ b) c sql \<and> plan_key a (b @ c) sql = plan_key (a @ b) c sql \<and>
   hash_key [a, b, sql] = hash_bytes (a @ [CHR 0x00] @ b @ [CHR 0x00] @ sql @ [CHR 0x00])"
  by (simp add: result_key_def plan_key_def hash_key_def hash_bytes_def feed_part_def byte_word_def byte_def)

lemma lower_op_name: "trim (op_name op) = op_name op" "to_lower (op_name op) = op_name op"
proof -
  have "list_all (\<lambda>op. trim (op_name op) = op_name op \<and> to_lower (op_name op) = op_name op)
    [Eq, Neq, Gt, Gte, Lt, Lte, Like, ILike, In, NotIn, IsNull, IsNotNull, Between, NotBetween,
     Intersects, Within, Contains]" by code_simp
  then show "trim (op_name op) = op_name op" "to_lower (op_name op) = op_name op"
    by (cases op; simp only: list.pred_inject)+
qed

text \<open>
  The operator names written into cache keys are exactly what the operator parser reads:
  parsing the name of an operator gives the operator back, so different operators have
  different names.
\<close>

lemma op_name_roundtrip: "operator_parse_strict (op_name op) = Inr op"
  unfolding operator_parse_strict_def lower_op_name Let_def by (cases op) simp_all

text \<open>
  All custom aggregations are written as \<open>custom\<close>: two queries that differ only in a custom
  aggregation function have the same canonical bytes.
\<close>

lemma custom_aggregations_share_bytes:
  "canonical_query_bytes ser (query_add_measure q (measure_new f (Custom a))) =
   canonical_query_bytes ser (query_add_measure q (measure_new f (Custom b)))"
  by (simp add: canonical_query_bytes_def query_add_measure_def measure_bytes_def measure_new_def)

subsection \<open>The result cache\<close>

text \<open>The inserts since the last invalidation, latest first.\<close>

inductive cache_run ::
    "('c, result_entry) lru_ops \<Rightarrow> nat \<Rightarrow> 'c result_cache \<Rightarrow> (64 word \<times> row list \<times> nat) list \<Rightarrow> bool"
  for ops ttl where
  start: "cache_run ops ttl (result_cache_new ops capacity ttl) []"
| inserted: "cache_run ops ttl rc log \<Longrightarrow>
    cache_run ops ttl (insert_maps ops now rc key rows) ((key, rows, now) # log)"
| fetched: "cache_run ops ttl rc log \<Longrightarrow> cache_run ops ttl (snd (get_maps ops now rc key)) log"
| cleared: "cache_run ops ttl rc log \<Longrightarrow> cache_run ops ttl (invalidate_all ops rc) []"

inductive_cases cache_run_startE: "cache_run ops ttl rc []"

definition log_of :: "(64 word \<times> row list \<times> nat) list \<Rightarrow> 64 word \<Rightarrow> result_entry option" where
  "log_of log key = map_option (\<lambda>(rows, t). \<lparr>re_rows = rows, re_inserted_at = t\<rparr>) (map_of log key)"

lemma cache_run_view:
  assumes "lru_laws ops" and "cache_run ops ttl rc log"
  shows "rc_ttl rc = ttl \<and> (\<forall>k e. lru_view ops (rc_inner rc) k = Some e \<longrightarrow> log_of log k = Some e)"
  using assms(2)
proof (induction rule: cache_run.induct)
  case (start capacity)
  then show ?case by (simp add: result_cache_new_def lru_lawsD [OF assms(1)])
next
  case (inserted rc log now key rows)
  show ?case
  proof (intro conjI allI impI)
    fix k e assume e: "lru_view ops (rc_inner (insert_maps ops now rc key rows)) k = Some e"
    show "log_of ((key, rows, now) # log) k = Some e"
    proof (cases "k = key")
      case True
      then show ?thesis using e by (simp add: insert_maps_def lru_lawsD [OF assms(1)] log_of_def)
    next
      case False
      have "lru_view ops (rc_inner rc) k = Some e"
        by (rule lru_lawsD(5) [OF assms(1) False]) (use e in \<open>simp add: insert_maps_def\<close>)
      then show ?thesis using inserted False by (simp add: log_of_def)
    qed
  qed (use inserted in \<open>simp add: insert_maps_def\<close>)
next
  case (fetched rc log now key)
  obtain r c where g: "lru_get ops (rc_inner rc) key = (r, c)" by fastforce
  have view: "lru_view ops c k = lru_view ops (rc_inner rc) k" for k
    using lru_lawsD(3) [OF assms(1), of "rc_inner rc" key k] g by simp
  have pop: "lru_view ops (lru_pop ops c key) k = Some e \<Longrightarrow> lru_view ops (rc_inner rc) k = Some e" for k e
    using lru_lawsD(6,7) [OF assms(1)] view by (cases "k = key") simp_all
  have "rc_ttl (snd (get_maps ops now rc key)) = rc_ttl rc \<and>
      rc_inner (snd (get_maps ops now rc key)) \<in> {c, lru_pop ops c key}"
    by (cases r) (simp_all add: get_maps_def g)
  then have "rc_ttl (snd (get_maps ops now rc key)) = rc_ttl rc"
    "lru_view ops (rc_inner (snd (get_maps ops now rc key))) k = Some e \<Longrightarrow> lru_view ops (rc_inner rc) k = Some e" for k e
    using view [of k] pop [of k e] by auto
  then show ?case using fetched by blast
next
  case (cleared rc log)
  then show ?case by (simp add: invalidate_all_def lru_lawsD [OF assms(1)])
qed

lemma get_maps_hit:
  assumes "lru_laws ops" and "fst (get_maps ops now rc key) = Some rows"
  shows "\<exists>e. lru_view ops (rc_inner rc) key = Some e \<and> re_rows e = rows \<and> now - re_inserted_at e \<le> rc_ttl rc"
proof -
  have "fst (lru_get ops (rc_inner rc) key) = lru_view ops (rc_inner rc) key"
    by (rule lru_lawsD(2) [OF assms(1)])
  then show ?thesis using assms(2)
    by (cases "lru_get ops (rc_inner rc) key") (auto simp: get_maps_def split: option.splits if_splits)
qed

text \<open>
  C14. The result cache never serves a stale or foreign result: whatever was inserted, fetched and
  invalidated before, a hit returns the rows of the latest insert under that key since the
  last invalidation, and they are no older than the time to live.
\<close>

theorem result_cache_fresh:
  assumes "lru_laws ops" and "cache_run ops ttl rc log"
    and "fst (get_maps ops now rc key) = Some rows"
  shows "\<exists>t. map_of log key = Some (rows, t) \<and> now - t \<le> ttl"
proof -
  obtain e where e: "lru_view ops (rc_inner rc) key = Some e" "re_rows e = rows" "now - re_inserted_at e \<le> rc_ttl rc"
    using get_maps_hit [OF assms(1,3)] by blast
  then have "log_of log key = Some e" "rc_ttl rc = ttl" using cache_run_view [OF assms(1,2)] by auto
  then show ?thesis using e(2,3) by (auto simp: log_of_def)
qed

lemma get_maps_state:
  assumes "lru_laws ops"
  shows "rc_ttl (snd (get_maps ops now rc key)) = rc_ttl rc"
    and "fst (get_maps ops now rc key) = None \<Longrightarrow> lru_view ops (rc_inner (snd (get_maps ops now rc key))) key = None"
proof -
  obtain r c where g: "lru_get ops (rc_inner rc) key = (r, c)" by fastforce
  have "r = lru_view ops c key"
    using lru_lawsD(2) [OF assms, of "rc_inner rc" key] lru_lawsD(3) [OF assms, of "rc_inner rc" key key] g by simp
  moreover have "lru_view ops (lru_pop ops c key) key = None" by (rule lru_lawsD(6) [OF assms])
  ultimately show "rc_ttl (snd (get_maps ops now rc key)) = rc_ttl rc"
    "fst (get_maps ops now rc key) = None \<Longrightarrow> lru_view ops (rc_inner (snd (get_maps ops now rc key))) key = None"
    unfolding get_maps_def g by (auto split: option.splits)
qed

lemma get_maps_of_view:
  assumes "lru_laws ops"
  shows "fst (get_maps ops now rc key) =
    (case lru_view ops (rc_inner rc) key of
       Some e \<Rightarrow> if now - re_inserted_at e \<le> rc_ttl rc then Some (re_rows e) else None
     | None \<Rightarrow> None)"
proof -
  have "fst (lru_get ops (rc_inner rc) key) = lru_view ops (rc_inner rc) key"
    by (rule lru_lawsD(2) [OF assms])
  then show ?thesis
    by (cases "lru_get ops (rc_inner rc) key") (auto simp: get_maps_def split: option.splits)
qed

lemma execute_sqlx_result:
  "fst (execute_sqlx ops run fp t0 t1 rc ds sql) =
     (case fst (get_maps ops t0 rc (result_key (ds_name ds) fp sql)) of Some rows \<Rightarrow> Inr rows | None \<Rightarrow> run ds sql)"
  by (auto simp: execute_sqlx_def Let_def split: prod.splits option.splits sum.splits)

lemma execute_sqlx_state:
  assumes "fst (get_maps ops t0 rc (result_key (ds_name ds) fp sql)) = None"
  shows "snd (execute_sqlx ops run fp t0 t1 rc ds sql) =
    (let key = result_key (ds_name ds) fp sql; rc1 = snd (get_maps ops t0 rc key)
     in case run ds sql of Inr maps \<Rightarrow> insert_maps ops t1 rc1 key maps | Inl e \<Rightarrow> rc1)"
  using assms by (auto simp: execute_sqlx_def Let_def split: prod.splits sum.splits)

text \<open>
  Executing a statement again: after a call that missed the cache, a second call with the same
  datasource and text returns the first call's rows without consulting the executor as long as
  they are within the time to live, and consults it otherwise; an error is never served from
  the cache.
\<close>

lemma repeated_execution:
  assumes "lru_laws ops" and "fst (get_maps ops t0 rc (result_key (ds_name ds) fp sql)) = None"
  shows "fst (execute_sqlx ops run' fp t2 t3 (snd (execute_sqlx ops run fp t0 t1 rc ds sql)) ds sql) =
    (case run ds sql of
       Inl e \<Rightarrow> run' ds sql
     | Inr rows \<Rightarrow> if t2 - t1 \<le> rc_ttl rc then Inr rows else run' ds sql)"
proof -
  define key where "key = result_key (ds_name ds) fp sql"
  let ?rc1 = "snd (get_maps ops t0 rc key)"
  note rc1 = get_maps_state [OF assms(1), of t0 rc key]
  have "lru_view ops (rc_inner ?rc1) key = None" using rc1(2) assms(2) by (simp add: key_def)
  moreover have "lru_view ops (rc_inner (insert_maps ops t1 ?rc1 key rows)) key =
      Some \<lparr>re_rows = rows, re_inserted_at = t1\<rparr>" for rows
    using lru_lawsD(4) [OF assms(1)] by (simp add: insert_maps_def)
  moreover have "rc_ttl (insert_maps ops t1 ?rc1 key rows) = rc_ttl rc" for rows
    using rc1(1) by (simp add: insert_maps_def)
  ultimately show ?thesis
    by (simp add: execute_sqlx_result execute_sqlx_state [OF assms(2)] key_def [symmetric] Let_def
        get_maps_of_view [OF assms(1)] split: sum.split)
qed

subsection \<open>The plan cache\<close>

lemma engine_caches:
  assumes "lru_laws ops" and "engine_generate_sql ops ser to_json e q = (Inr sql, e')"
  shows "en_generator e' = en_generator e \<and> en_policy_fingerprint e' = en_policy_fingerprint e \<and>
    lru_view ops (en_plan_cache e')
      (plan_key (resolved_dialect_name (en_generator e) q) (en_policy_fingerprint e) (to_json q)) = Some sql"
proof -
  define key where "key = plan_key (resolved_dialect_name (en_generator e) q) (en_policy_fingerprint e) (to_json q)"
  obtain r c where g: "lru_get ops (en_plan_cache e) key = (r, c)" by fastforce
  have r: "r = lru_view ops (en_plan_cache e) key" and c: "lru_view ops c key = lru_view ops (en_plan_cache e) key"
    using lru_lawsD(2,3) [OF assms(1), of "en_plan_cache e" key] g by simp_all
  have put: "lru_view ops (lru_put ops c key sql) key = Some sql"
    by (rule lru_lawsD(4) [OF assms(1)])
  show ?thesis
    using assms(2) r c put unfolding engine_generate_sql_def key_def [symmetric] Let_def g
    by (auto split: option.splits sum.splits)
qed

text \<open>
  The plan cache is not invalidated: after a query was answered, registering any model (a new
  definition of the queried model, say) that keeps the dialect leaves the old statement as the
  answer to the same query.
\<close>

lemma stale_plan_after_register:
  assumes "lru_laws ops" and "engine_generate_sql ops ser to_json e q = (Inr sql, e')"
    and "resolved_dialect_name (register_model (en_generator e) m) q = resolved_dialect_name (en_generator e) q"
  shows "fst (engine_generate_sql ops ser to_json (engine_register_model e' m) q) = Inr sql"
proof -
  define key where "key = plan_key (resolved_dialect_name (en_generator e) q) (en_policy_fingerprint e) (to_json q)"
  note cached = engine_caches [OF assms(1,2), folded key_def]
  then have "fst (lru_get ops (en_plan_cache e') key) = Some sql"
    using lru_lawsD(2) [OF assms(1)] by simp
  then show ?thesis
    using cached assms(3)
    by (cases "lru_get ops (en_plan_cache e') key")
      (auto simp: engine_generate_sql_def engine_register_model_def Let_def key_def)
qed

subsection \<open>A bounded map that keeps the latest entries\<close>

definition list_lru :: "(nat \<times> (64 word \<times> 'v) list, 'v) lru_ops" where
  "list_lru =
     \<lparr>lru_new = (\<lambda>n. (n - 1, [])),
      lru_get = (\<lambda>(n, l) k. case map_of l k of
                   Some v \<Rightarrow> (Some v, (n, (k, v) # filter (\<lambda>x. fst x \<noteq> k) l)) | None \<Rightarrow> (None, (n, l))),
      lru_put = (\<lambda>(n, l) k v. (n, (k, v) # take n (filter (\<lambda>x. fst x \<noteq> k) l))),
      lru_pop = (\<lambda>(n, l) k. (n, filter (\<lambda>x. fst x \<noteq> k) l)),
      lru_clear = (\<lambda>(n, l). (n, [])),
      lru_view = (\<lambda>(n, l). map_of l)\<rparr>"

lemma map_of_filter_fst: "map_of (filter (\<lambda>x. fst x \<noteq> k) l) k' = (if k' = k then None else map_of l k')"
  by (induction l) auto

lemma map_of_take: "map_of (take n l) k = Some v \<Longrightarrow> map_of l k = Some v"
  by (induction l arbitrary: n) (auto simp: take_Cons split: nat.splits if_splits)

lemma list_lru_laws: "lru_laws list_lru"
  unfolding lru_laws_def list_lru_def
  by (auto simp: map_of_filter_fst split: option.splits) (metis map_of_filter_fst map_of_take)

theorem result_cache_fresh_witness:
  "\<exists>t. map_of [(7, [[(''n'', JNumber ''1'')]], 100 :: nat)] (7 :: 64 word) = Some ([[(''n'', JNumber ''1'')]], t) \<and> 130 - t \<le> 60"
proof (rule result_cache_fresh)
  show "lru_laws list_lru" by (rule list_lru_laws)
  show "cache_run list_lru 60
     (insert_maps list_lru 100 (result_cache_new list_lru 256 60) 7 [[(''n'', JNumber ''1'')]])
     [(7, [[(''n'', JNumber ''1'')]], 100)]"
    by (intro cache_run.intros)
  show "fst (get_maps list_lru 130
     (insert_maps list_lru 100 (result_cache_new list_lru 256 60) 7 [[(''n'', JNumber ''1'')]]) 7) =
     Some [[(''n'', JNumber ''1'')]]"
    by (simp add: get_maps_def insert_maps_def result_cache_new_def list_lru_def)
qed

definition cache_datasource :: data_source where
  "cache_datasource =
     \<lparr>ds_name = ''db'', ds_driver = ''postgres'', ds_connection_string = [], ds_description = None,
      ds_models = [], ds_pool_size = None, ds_meta = []\<rparr>"

lemma repeated_execution_witness:
  "fst (execute_sqlx list_lru (\<lambda>_ _. Inl ''connection refused'') [] 130 131
      (snd (execute_sqlx list_lru (\<lambda>_ _. Inr [[(''n'', JNumber ''1'')]]) [] 99 100
        (result_cache_new list_lru 256 60) cache_datasource ''SELECT 1''))
      cache_datasource ''SELECT 1'')
    = Inr [[(''n'', JNumber ''1'')]]"
proof -
  have "fst (get_maps list_lru 99 (result_cache_new list_lru 256 60) k) = None" for k
    by (simp add: get_maps_def result_cache_new_def list_lru_def)
  from repeated_execution [OF list_lru_laws this] show ?thesis
    by (simp add: result_cache_new_def)
qed

definition sample_engine :: "(nat \<times> (64 word \<times> generated_sql) list) sql_engine" where
  "sample_engine = engine_register_model (engine_new list_lru Postgres) sample_model"

lemma stale_plan_after_register_witness:
  "fst (engine_generate_sql list_lru (\<lambda>_. []) (\<lambda>_. ''{}'')
      (engine_register_model
         (snd (engine_generate_sql list_lru (\<lambda>_. []) (\<lambda>_. ''{}'') sample_engine (sample_query (JString ''eu''))))
         (sample_model\<lparr>mo_sql := Some ''SELECT 1''\<rparr>))
      (sample_query (JString ''eu'')))
    = generate (\<lambda>_. []) (en_generator sample_engine) (sample_query (JString ''eu''))"
proof -
  let ?q = "sample_query (JString ''eu'')" and ?g = "register_model (generator_new Postgres) sample_model"
  have gen: "en_generator sample_engine = ?g"
    by (simp add: sample_engine_def engine_register_model_def engine_new_def)
  obtain s where s: "generate (\<lambda>_. []) ?g ?q = Inr s" using sample_generate by blast
  have "fst (engine_generate_sql list_lru (\<lambda>_. []) (\<lambda>_. ''{}'') sample_engine ?q) = Inr s"
    using s by (simp add: engine_generate_sql_def gen Let_def sample_engine_def engine_register_model_def
        engine_new_def list_lru_def)
  then have "engine_generate_sql list_lru (\<lambda>_. []) (\<lambda>_. ''{}'') sample_engine ?q =
      (Inr s, snd (engine_generate_sql list_lru (\<lambda>_. []) (\<lambda>_. ''{}'') sample_engine ?q))"
    by (metis prod.collapse)
  moreover have "resolved_dialect_name (register_model (en_generator sample_engine) (sample_model\<lparr>mo_sql := Some ''SELECT 1''\<rparr>)) ?q
      = resolved_dialect_name (en_generator sample_engine) ?q"
    unfolding gen by code_simp
  ultimately show ?thesis
    using stale_plan_after_register [OF list_lru_laws] s gen by metis
qed

end
