(* ===== verification/Governance.thy ===== *)
theory Governance
  imports Security Generator "HOL-Library.Multiset"
begin

text \<open>
  \<open>crates/graphnight-runtime/src/governance.rs\<close>: the governed execution of a query and of a
  pipeline of stages, and the governed reads of the catalogue.

  What the service calls is its environment \<open>service_env\<close>: the storage backend's reads, the
  engine's statement generation (the text it yields) and the execution of a statement on a
  datasource. A run returns its result together with the effects it had, in order: the
  statements executed and the audit entries written. Elapsed times are not modelled.
\<close>

subsection \<open>Requests, outcomes, errors\<close>

datatype invalid_query =
    NoModelNamed
  | BadStatement gen_error
  | NoStages
  | DuplicateStage string
  | UnknownStage string
  | StageNotRun string
  | StageCycle "string list"
  | EmptySearch

datatype service_error =
    SvModelNotFound string
  | SvDatasourceNotFound string
  | Unauthenticated
  | PolicyViolation access_error
  | AdminRequired
  | InvalidQuery invalid_query
  | Timeout nat
  | Execution string
  | StorageFailed string
  | MaskPanicked string

record execute_options =
  eo_dry_run :: bool
  eo_explain :: bool
  eo_max_rows :: "nat option"

definition options_dry_run :: execute_options where
  "options_dry_run = \<lparr>eo_dry_run = True, eo_explain = True, eo_max_rows = None\<rparr>"

definition options_executing :: execute_options where
  "options_executing = \<lparr>eo_dry_run = False, eo_explain = False, eo_max_rows = None\<rparr>"

definition options_live :: execute_options where
  "options_live = options_executing\<lparr>eo_explain := False\<rparr>"

definition options_with_max_rows :: "execute_options \<Rightarrow> nat \<Rightarrow> execute_options" where
  "options_with_max_rows o' n = o'\<lparr>eo_max_rows := Some n\<rparr>"

definition default_max_rows :: nat where
  "default_max_rows = 10000"

record query_outcome =
  qo_data :: "json list"
  qo_columns :: "string list"
  qo_sql :: "string option"
  qo_population :: "nat option"
  qo_population_inferred :: bool
  qo_truncated :: bool
  qo_row_count :: nat
  qo_next_offset :: "nat option"
  qo_dialect :: string

record call_context =
  cc_user_id :: "string option"
  cc_tenant_id :: "string option"
  cc_is_admin :: bool
  cc_auth_required :: bool
  cc_policy :: "session_policy option"
  cc_principal_label :: "string option"

definition anonymous_context :: call_context where
  "anonymous_context = \<lparr>cc_user_id = None, cc_tenant_id = None, cc_is_admin = False,
     cc_auth_required = False, cc_policy = None, cc_principal_label = None\<rparr>"

definition context_policy :: "call_context \<Rightarrow> session_policy" where
  "context_policy ctx = unwrap_or (cc_policy ctx) session_policy_new"

definition context_principal :: "call_context \<Rightarrow> string" where
  "context_principal ctx = unwrap_or (opt_or (cc_user_id ctx) (cc_principal_label ctx)) ''anonymous''"

definition require_authenticated :: "call_context \<Rightarrow> service_error + unit" where
  "require_authenticated ctx =
     (if cc_auth_required ctx \<and> cc_user_id ctx = None then Inl Unauthenticated else Inr ())"

definition require_admin :: "call_context \<Rightarrow> service_error + unit" where
  "require_admin ctx = (if \<not> cc_is_admin ctx then Inl AdminRequired else Inr ())"

subsection \<open>The environment\<close>

record search_result =
  sr_model_name :: string
  sr_datasource :: string
  sr_score :: string
  sr_snippet :: string

datatype run_result =
    Rows "(string \<times> json) list list"
  | RunFailed string
  | TimedOut

record service_env =
  se_get_model :: "string \<Rightarrow> string option \<Rightarrow> string + model option"
  se_get_datasource :: "string \<Rightarrow> string + data_source option"
  se_list_models :: "string option \<Rightarrow> string + model list"
  se_list_datasources :: "string + data_source list"
  se_search :: "string \<Rightarrow> nat \<Rightarrow> string + search_result list"
  se_generate_sql :: "query \<Rightarrow> gen_error + string"
  se_dialect_name :: "string \<Rightarrow> string"
  se_run :: "data_source \<Rightarrow> string \<Rightarrow> nat \<Rightarrow> run_result"

record audit_note =
  an_user_id :: "string option"
  an_tenant_id :: "string option"
  an_action :: string
  an_model :: string
  an_row_count :: nat
  an_success :: bool

datatype effect = Executed data_source string | Audited audit_note

subsection \<open>Policy, row cap, masks\<close>

definition apply_policy ::
    "session_policy \<Rightarrow> query \<Rightarrow> string \<Rightarrow> string \<Rightarrow> service_error + query" where
  "apply_policy p q model_name datasource =
     rbind (map_err PolicyViolation (check_model_access p model_name)) (\<lambda>_.
     rbind (map_err PolicyViolation (check_datasource_access p datasource)) (\<lambda>_.
       Inr (apply_rls p (apply_forced_filters p q))))"

definition effective_cap :: "session_policy \<Rightarrow> nat option \<Rightarrow> nat" where
  "effective_cap p per_call =
     (let policy_cap = unwrap_or (sp_max_rows p) default_max_rows in
      case per_call of Some call_cap \<Rightarrow> min policy_cap call_cap | None \<Rightarrow> policy_cap)"

text \<open>Returns the query with its limit and the limit.\<close>

definition apply_row_cap :: "session_policy \<Rightarrow> query \<Rightarrow> nat option \<Rightarrow> query \<times> nat" where
  "apply_row_cap p q per_call =
     (let effective = effective_cap p per_call;
          q1 = q\<lparr>q_limit := Some (case q_limit q of None \<Rightarrow> effective | Some l \<Rightarrow> min l effective)\<rparr>
      in (q1, unwrap_or (q_limit q1) effective))"

text \<open>One masked column of one row, and all of them in the order of the policy.\<close>

definition mask_column ::
    "string \<times> mask_fn \<Rightarrow> (string \<times> json) list \<Rightarrow> service_error + (string \<times> json) list" where
  "mask_column m row =
     (case m of (col, f) \<Rightarrow>
        (case map_of row col of
           Some (JString v) \<Rightarrow>
             (case f v of
                Some masked \<Rightarrow> Inr (AList.update col (JString masked) row)
              | None \<Rightarrow> Inl (MaskPanicked col))
         | _ \<Rightarrow> Inr row))"

fun mask_row ::
    "(string \<times> mask_fn) list \<Rightarrow> (string \<times> json) list \<Rightarrow> service_error + (string \<times> json) list" where
  "mask_row [] row = Inr row"
| "mask_row (m # ms) row = rbind (mask_column m row) (mask_row ms)"

definition audit_entry_of :: "call_context \<Rightarrow> string \<Rightarrow> nat \<Rightarrow> bool \<Rightarrow> audit_note" where
  "audit_entry_of ctx model_name row_count success =
     \<lparr>an_user_id = cc_user_id ctx, an_tenant_id = cc_tenant_id ctx,
      an_action = unwrap_or (cc_principal_label ctx) ''query'', an_model = model_name,
      an_row_count = row_count, an_success = success\<rparr>"

subsection \<open>Executing one query\<close>

definition query_model_name :: "query \<Rightarrow> string option" where
  "query_model_name q = opt_or (q_name q) (map_option ss_model (q_source_model q))"

definition dry_run_outcome :: "string \<Rightarrow> string \<Rightarrow> query_outcome" where
  "dry_run_outcome sql dialect =
     \<lparr>qo_data = [], qo_columns = [], qo_sql = Some sql, qo_population = None,
      qo_population_inferred = False, qo_truncated = False, qo_row_count = 0,
      qo_next_offset = None, qo_dialect = dialect\<rparr>"

text \<open>The next offset is a sum of \<open>usize\<close> values, which wraps around in a release build.\<close>

definition rows_outcome ::
    "execute_options \<Rightarrow> string \<Rightarrow> string \<Rightarrow> nat \<Rightarrow> nat option \<Rightarrow> (string \<times> json) list list
      \<Rightarrow> (string \<times> json) list list \<Rightarrow> query_outcome" where
  "rows_outcome opts sql dialect limit offset rows masked =
     (let row_count = length rows; truncated = (limit \<le> row_count) in
      \<lparr>qo_data = map JObject masked,
       qo_columns = (case rows of [] \<Rightarrow> [] | r # _ \<Rightarrow> map fst r),
       qo_sql = (if eo_explain opts then Some sql else None),
       qo_population = Some (length masked),
       qo_population_inferred = True,
       qo_truncated = truncated,
       qo_row_count = row_count,
       qo_next_offset = (if truncated then Some ((unwrap_or offset 0 + row_count) mod 2 ^ 64) else None),
       qo_dialect = dialect\<rparr>)"

text \<open>Up to the statement: the model, the governed query, its limit and its text.\<close>

definition plan_query ::
    "service_env \<Rightarrow> call_context \<Rightarrow> query \<Rightarrow> execute_options
      \<Rightarrow> service_error + (string \<times> model \<times> query \<times> nat \<times> string)" where
  "plan_query env ctx q opts =
     rbind (require_authenticated ctx) (\<lambda>_.
     rbind (ok_or (InvalidQuery NoModelNamed) (query_model_name q)) (\<lambda>model_name.
     rbind (map_err StorageFailed (se_get_model env model_name None)) (\<lambda>found.
     rbind (ok_or (SvModelNotFound model_name) found) (\<lambda>m.
     let p = context_policy ctx in
     rbind (apply_policy p q model_name (mo_datasource m)) (\<lambda>q1.
     let (q2, limit) = apply_row_cap p q1 (eo_max_rows opts) in
     rbind (map_err (InvalidQuery \<circ> BadStatement) (se_generate_sql env q2)) (\<lambda>sql.
       Inr (model_name, m, q2, limit, sql)))))))"

definition execute_query ::
    "service_env \<Rightarrow> call_context \<Rightarrow> query \<Rightarrow> execute_options
      \<Rightarrow> (service_error + query_outcome) \<times> effect list" where
  "execute_query env ctx q opts =
     (case plan_query env ctx q opts of
        Inl e \<Rightarrow> (Inl e, [])
      | Inr (model_name, m, q2, limit, sql) \<Rightarrow>
          let dialect = se_dialect_name env model_name; p = context_policy ctx in
          if eo_dry_run opts then (Inr (dry_run_outcome sql dialect), [])
          else case rbind (map_err StorageFailed (se_get_datasource env (mo_datasource m)))
                     (ok_or (SvDatasourceNotFound (mo_datasource m))) of
            Inl e \<Rightarrow> (Inl e, [])
          | Inr ds \<Rightarrow>
              let secs = unwrap_or (sp_query_timeout_secs p) 300; eff = [Executed ds sql] in
              (case se_run env ds sql secs of
                 TimedOut \<Rightarrow> (Inl (Timeout secs), eff)
               | RunFailed e \<Rightarrow> (Inl (Execution e), eff)
               | Rows rows \<Rightarrow>
                   (case rmap (mask_row (sp_column_masks p)) rows of
                      Inl e \<Rightarrow> (Inl e, eff)
                    | Inr masked \<Rightarrow>
                        let out = rows_outcome opts sql dialect limit (q_offset q2) rows masked in
                        (Inr out, eff @ [Audited (audit_entry_of ctx model_name (qo_row_count out) True)]))))"

subsection \<open>Pipelines\<close>

type_synonym stage = "string \<times> query"

text \<open>One pass over the stages that still wait: the names resolved so far and the stages left.\<close>

fun topo_pass ::
    "stage list \<Rightarrow> stage list \<Rightarrow> string list \<Rightarrow> service_error + string list \<times> stage list" where
  "topo_pass stages [] resolved = Inr (resolved, [])"
| "topo_pass stages ((n, q) # rest) resolved =
     (case q_stage_ref q of
        None \<Rightarrow> topo_pass stages rest (resolved @ [n])
      | Some r \<Rightarrow>
          if r \<notin> fst ` set stages then Inl (InvalidQuery (UnknownStage r))
          else if r \<in> set resolved then topo_pass stages rest (resolved @ [n])
          else rbind (topo_pass stages rest resolved) (\<lambda>(res, waiting). Inr (res, (n, q) # waiting)))"

lemma topo_pass_length:
  "topo_pass stages rem res = Inr (res', waiting) \<Longrightarrow>
     length waiting \<le> length rem \<and> length res' + length waiting = length res + length rem"
proof (induction stages rem res arbitrary: res' waiting rule: topo_pass.induct)
  case (2 stages n q rest resolved)
  then show ?case by (fastforce simp: branch_simps split: option.splits if_splits)
qed auto

text \<open>A pass that resolves nothing leaves every stage waiting: a cycle.\<close>

function topo_loop :: "stage list \<Rightarrow> stage list \<Rightarrow> string list \<Rightarrow> service_error + string list" where
  "topo_loop stages remaining resolved =
     (if remaining = [] then Inr resolved
      else case topo_pass stages remaining resolved of
        Inl e \<Rightarrow> Inl e
      | Inr (resolved', waiting) \<Rightarrow>
          if length waiting = length remaining then Inl (InvalidQuery (StageCycle (map fst waiting)))
          else topo_loop stages waiting resolved')"
  by pat_completeness auto

termination
proof (relation "measure (\<lambda>(stages, remaining, resolved). length remaining)", goal_cases)
  case (2 stages remaining resolved p resolved' waiting)
  then show ?case using topo_pass_length [of stages remaining resolved resolved' waiting] by auto
qed simp

declare topo_loop.simps [simp del]

definition topological_order :: "stage list \<Rightarrow> service_error + string list" where
  "topological_order stages = topo_loop stages stages []"

definition stage_filter :: "string \<times> json \<Rightarrow> filter_cond option" where
  "stage_filter cv =
     (case cv of (column, v) \<Rightarrow>
        if CHR '' '' \<in> set column \<or> column = [] then None
        else Some \<lparr>fl_field = column, fl_operator = Eq, fl_value = v, fl_or = False\<rparr>)"

definition apply_stage_ref :: "query \<Rightarrow> query_outcome \<Rightarrow> query" where
  "apply_stage_ref q previous =
     (case qo_data previous of
        JObject first # _ \<Rightarrow> q\<lparr>q_filters := q_filters q @ List.map_filter stage_filter first\<rparr>
      | _ \<Rightarrow> q)"

definition stage_query ::
    "stage list \<Rightarrow> (string \<times> query_outcome) list \<Rightarrow> string \<Rightarrow> service_error + query" where
  "stage_query stages by_name name =
     (let q = the (map_of stages name) in
      rbind (case q_stage_ref q of
               None \<Rightarrow> Inr q
             | Some r \<Rightarrow>
                 rbind (ok_or (InvalidQuery (StageNotRun r)) (map_of by_name r))
                   (\<lambda>prev. Inr (apply_stage_ref q prev)))
        (\<lambda>q1. Inr (if q_name q1 = None \<and> q_source_model q1 = None then q1\<lparr>q_name := Some name\<rparr> else q1)))"

fun run_stages ::
    "service_env \<Rightarrow> call_context \<Rightarrow> stage list \<Rightarrow> execute_options \<Rightarrow> string list
      \<Rightarrow> (string \<times> query_outcome) list \<Rightarrow> (service_error + (string \<times> query_outcome) list) \<times> effect list" where
  "run_stages env ctx stages opts [] by_name = (Inr by_name, [])"
| "run_stages env ctx stages opts (name # names) by_name =
     (case stage_query stages by_name name of
        Inl e \<Rightarrow> (Inl e, [])
      | Inr q \<Rightarrow>
          (case execute_query env ctx q opts of
             (Inl e, eff) \<Rightarrow> (Inl e, eff)
           | (Inr out, eff) \<Rightarrow>
               (case run_stages env ctx stages opts names (AList.update name out by_name) of
                  (r, eff') \<Rightarrow> (r, eff @ eff'))))"

fun first_duplicate :: "string list \<Rightarrow> string set \<Rightarrow> string option" where
  "first_duplicate [] seen = None"
| "first_duplicate (n # ns) seen = (if n \<in> seen then Some n else first_duplicate ns (insert n seen))"

definition execute_multi_stage ::
    "service_env \<Rightarrow> call_context \<Rightarrow> stage list \<Rightarrow> bool
      \<Rightarrow> (service_error + query_outcome list) \<times> effect list" where
  "execute_multi_stage env ctx stages dry_run =
     (if stages = [] then (Inl (InvalidQuery NoStages), [])
      else case topological_order stages of
        Inl e \<Rightarrow> (Inl e, [])
      | Inr order \<Rightarrow>
          (case first_duplicate (map fst stages) {} of
             Some n \<Rightarrow> (Inl (InvalidQuery (DuplicateStage n)), [])
           | None \<Rightarrow>
               (case run_stages env ctx stages
                       (if dry_run then options_dry_run else options_executing) order [] of
                  (Inl e, eff) \<Rightarrow> (Inl e, eff)
                | (Inr by_name, eff) \<Rightarrow>
                    (Inr (List.map_filter (\<lambda>s. map_of by_name (fst s)) stages), eff))))"

subsection \<open>Governed reads\<close>

definition model_visible :: "session_policy \<Rightarrow> string \<Rightarrow> string \<Rightarrow> bool" where
  "model_visible p model_name datasource \<longleftrightarrow>
     is_ok (check_model_access p model_name) \<and> is_ok (check_datasource_access p datasource)"

definition visible_models ::
    "service_env \<Rightarrow> call_context \<Rightarrow> string option \<Rightarrow> service_error + model list" where
  "visible_models env ctx datasource =
     rbind (map_err StorageFailed (se_list_models env datasource)) (\<lambda>ms.
       Inr (filter (\<lambda>m. model_visible (context_policy ctx) (mo_name m) (mo_datasource m)) ms))"

definition get_model_governed ::
    "service_env \<Rightarrow> call_context \<Rightarrow> string \<Rightarrow> string option \<Rightarrow> service_error + model" where
  "get_model_governed env ctx name datasource =
     rbind (map_err PolicyViolation (check_model_access (context_policy ctx) name)) (\<lambda>_.
     rbind (map_err StorageFailed (se_get_model env name datasource)) (\<lambda>found.
     rbind (ok_or (SvModelNotFound name) found) (\<lambda>m.
     rbind (map_err PolicyViolation (check_datasource_access (context_policy ctx) (mo_datasource m)))
       (\<lambda>_. Inr m))))"

definition visible_datasources :: "service_env \<Rightarrow> call_context \<Rightarrow> service_error + data_source list" where
  "visible_datasources env ctx =
     rbind (map_err StorageFailed (se_list_datasources env)) (\<lambda>dss.
       Inr (filter (\<lambda>d. is_ok (check_datasource_access (context_policy ctx) (ds_name d))) dss))"

definition search_governed ::
    "service_env \<Rightarrow> call_context \<Rightarrow> string \<Rightarrow> nat \<Rightarrow> service_error + search_result list" where
  "search_governed env ctx text_query limit =
     rbind (require_authenticated ctx) (\<lambda>_.
       let q = trim text_query in
       if q = [] then Inl (InvalidQuery EmptySearch)
       else
         rbind (map_err StorageFailed (se_search env q (max (saturating_mul limit 8) 64))) (\<lambda>hits.
           Inr (take limit
             (filter (\<lambda>h. model_visible (context_policy ctx) (sr_model_name h) (sr_datasource h)) hits))))"

definition register_model_governed ::
    "call_context \<Rightarrow> sql_generator \<Rightarrow> model \<Rightarrow> service_error + sql_generator" where
  "register_model_governed ctx g m = rbind (require_admin ctx) (\<lambda>_. Inr (register_model g m))"

definition unregister_model_governed ::
    "call_context \<Rightarrow> sql_generator \<Rightarrow> string \<Rightarrow> service_error + sql_generator" where
  "unregister_model_governed ctx g name = rbind (require_admin ctx) (\<lambda>_. Inr (unregister_model g name))"

subsection \<open>Every executed statement is governed\<close>

definition policy_filters :: "session_policy \<Rightarrow> filter_cond list" where
  "policy_filters p = sp_forced_filters p @ (case sp_row_filter p of Some f \<Rightarrow> [f] | None \<Rightarrow> [])"

definition governed_query :: "session_policy \<Rightarrow> nat option \<Rightarrow> query \<Rightarrow> query" where
  "governed_query p per_call q =
     q\<lparr>q_filters := q_filters q @ policy_filters p,
       q_limit := Some (min (unwrap_or (q_limit q) (effective_cap p per_call)) (effective_cap p per_call))\<rparr>"

lemma apply_policy_Inr [branch_simps]:
  "apply_policy p q n d = Inr q1 \<longleftrightarrow>
     model_visible p n d \<and> q1 = q\<lparr>q_filters := q_filters q @ policy_filters p\<rparr>"
  by (auto simp: apply_policy_def branch_simps model_visible_def is_ok_iff apply_rls_eq
      apply_forced_filters_eq policy_filters_def)

lemma apply_row_cap_eq:
  "apply_row_cap p q c =
     (q\<lparr>q_limit := Some (min (unwrap_or (q_limit q) (effective_cap p c)) (effective_cap p c))\<rparr>,
      min (unwrap_or (q_limit q) (effective_cap p c)) (effective_cap p c))"
  by (simp add: apply_row_cap_def Let_def split: option.splits)

lemma plan_query_Inr:
  "plan_query env ctx q opts = Inr (n, m, q2, limit, sql) \<longleftrightarrow>
     (cc_auth_required ctx \<longrightarrow> cc_user_id ctx \<noteq> None) \<and>
     query_model_name q = Some n \<and> se_get_model env n None = Inr (Some m) \<and>
     model_visible (context_policy ctx) n (mo_datasource m) \<and>
     q2 = governed_query (context_policy ctx) (eo_max_rows opts) q \<and>
     q_limit q2 = Some limit \<and> se_generate_sql env q2 = Inr sql"
  by (auto simp: plan_query_def branch_simps Let_def apply_row_cap_eq require_authenticated_def
      governed_query_def)

lemma execute_query_Executed:
  assumes "Executed ds sql \<in> set (snd (execute_query env ctx q opts))"
  shows "\<exists>n m q2 limit. plan_query env ctx q opts = Inr (n, m, q2, limit, sql) \<and>
    \<not> eo_dry_run opts \<and> se_get_datasource env (mo_datasource m) = Inr (Some ds)"
  using assms
  by (auto simp: execute_query_def Let_def branch_simps split: sum.splits if_splits run_result.splits)

text \<open>
  C2. The governed path: whenever a statement reaches a database, the caller is authenticated if
  the deployment asks for it, the call was not a dry run, the named model exists and the policy
  allows it and its datasource, the database is that datasource, and the statement is the one
  generated from the caller's query with all forced filters and the row filter appended and its
  limit cut to the tighter of the policy cap and the call cap.
\<close>

theorem executed_statement_governed:
  assumes "Executed ds sql \<in> set (snd (execute_query env ctx q opts))"
  shows "\<exists>n m. (cc_auth_required ctx \<longrightarrow> cc_user_id ctx \<noteq> None) \<and> \<not> eo_dry_run opts \<and>
    query_model_name q = Some n \<and> se_get_model env n None = Inr (Some m) \<and>
    model_visible (context_policy ctx) n (mo_datasource m) \<and>
    se_get_datasource env (mo_datasource m) = Inr (Some ds) \<and>
    se_generate_sql env (governed_query (context_policy ctx) (eo_max_rows opts) q) = Inr sql"
  using execute_query_Executed [OF assms] unfolding plan_query_Inr by blast

subsection \<open>Masks\<close>

definition masked_value :: "(string \<times> mask_fn) list \<Rightarrow> (string \<times> json) list \<Rightarrow> string \<Rightarrow> json option" where
  "masked_value masks row c =
     (case map_of row c of
        Some (JString v) \<Rightarrow>
          (case map_of masks c of Some f \<Rightarrow> map_option JString (f v) | None \<Rightarrow> Some (JString v))
      | x \<Rightarrow> x)"

lemma mask_column_value:
  "mask_column (col, f) row = Inr row' \<Longrightarrow>
     map_of row' c = (if c = col then masked_value [(col, f)] row c else map_of row c)"
  by (auto simp: mask_column_def masked_value_def update_conv' split: option.splits json.splits)

lemma masked_value_Cons:
  "masked_value ((col, f) # ms) row c = (if c = col then masked_value [(col, f)] row c else masked_value ms row c)"
  by (auto simp: masked_value_def split: option.splits json.splits)

lemma mask_row_value:
  assumes "mask_row masks row = Inr row'" and "distinct (map fst masks)"
  shows "map_of row' c = masked_value masks row c"
  using assms
proof (induction masks arbitrary: row)
  case Nil
  then show ?case by (auto simp: masked_value_def split: option.splits json.splits)
next
  case (Cons m ms)
  obtain col f where m: "m = (col, f)" by fastforce
  from Cons.prems obtain row1 where r1: "mask_column (col, f) row = Inr row1" "mask_row ms row1 = Inr row'"
    by (auto simp: m branch_simps)
  have IH: "map_of row' c = masked_value ms row1 c"
    using Cons.IH [OF r1(2)] Cons.prems(2) by simp
  show ?case
  proof (cases "c = col")
    case True
    then have "map_of ms c = None" using Cons.prems(2) by (simp add: m map_of_eq_None_iff)
    then show ?thesis
      using IH mask_column_value [OF r1(1), of c] True masked_value_Cons [of col f ms row c] unfolding m
      by (auto simp: masked_value_def split: option.splits json.splits)
  next
    case False
    then show ?thesis
      using IH mask_column_value [OF r1(1), of c] masked_value_Cons [of col f ms row c]
      unfolding m by (simp add: masked_value_def [of ms])
  qed
qed

lemma rows_outcome_count [simp]: "qo_row_count (rows_outcome opts sql d l off rows masked) = length rows"
  by (simp add: rows_outcome_def Let_def)

lemma execute_query_InrE:
  assumes "execute_query env ctx q opts = (Inr out, eff)" and "\<not> eo_dry_run opts"
  obtains n m q2 limit sql ds rows masked where
    "plan_query env ctx q opts = Inr (n, m, q2, limit, sql)"
    "se_run env ds sql (unwrap_or (sp_query_timeout_secs (context_policy ctx)) 300) = Rows rows"
    "rmap (mask_row (sp_column_masks (context_policy ctx))) rows = Inr masked"
    "out = rows_outcome opts sql (se_dialect_name env n) limit (q_offset q2) rows masked"
    "eff = [Executed ds sql, Audited (audit_entry_of ctx n (length rows) True)]"
proof -
  from assms obtain n m q2 limit sql where plan: "plan_query env ctx q opts = Inr (n, m, q2, limit, sql)"
    by (auto simp: execute_query_def split: sum.splits)
  obtain ds rows masked where
    "se_run env ds sql (unwrap_or (sp_query_timeout_secs (context_policy ctx)) 300) = Rows rows"
    "rmap (mask_row (sp_column_masks (context_policy ctx))) rows = Inr masked"
    "out = rows_outcome opts sql (se_dialect_name env n) limit (q_offset q2) rows masked"
    "eff = [Executed ds sql, Audited (audit_entry_of ctx n (length rows) True)]"
    using assms plan
    by (auto simp: execute_query_def Let_def split: sum.splits if_splits run_result.splits)
  then show thesis by (rule that [OF plan])
qed

text \<open>
  C13. Column masks: every row of a returned result is a row the database returned in which exactly
  the masked columns holding text are replaced by their masked text; all other columns and
  values (numbers included) are passed through.
\<close>

theorem masks_applied:
  assumes "execute_query env ctx q opts = (Inr out, eff)" and "\<not> eo_dry_run opts"
    and "distinct (map fst (sp_column_masks (context_policy ctx)))"
  shows "\<exists>ds sql secs rows. Executed ds sql \<in> set eff \<and> se_run env ds sql secs = Rows rows \<and>
    list_all2 (\<lambda>v row. \<exists>row'. v = JObject row' \<and>
        (\<forall>c. map_of row' c = masked_value (sp_column_masks (context_policy ctx)) row c))
      (qo_data out) rows"
proof -
  from execute_query_InrE [OF assms(1,2)] obtain ds sql rows masked n limit and q2 :: query where run:
    "se_run env ds sql (unwrap_or (sp_query_timeout_secs (context_policy ctx)) 300) = Rows rows"
    and masked: "rmap (mask_row (sp_column_masks (context_policy ctx))) rows = Inr masked"
    and out: "out = rows_outcome opts sql (se_dialect_name env n) limit (q_offset q2) rows masked"
    and eff: "eff = [Executed ds sql, Audited (audit_entry_of ctx n (length rows) True)]"
    by metis
  have "qo_data out = map JObject masked" by (simp add: out rows_outcome_def Let_def)
  moreover have "list_all2 (\<lambda>row row'. \<forall>c. map_of row' c = masked_value (sp_column_masks (context_policy ctx)) row c) rows masked"
    using masked [unfolded rmap_Inr] by (rule list_all2_mono) (use assms(3) in \<open>auto intro: mask_row_value\<close>)
  ultimately have "list_all2 (\<lambda>v row. \<exists>row'. v = JObject row' \<and>
        (\<forall>c. map_of row' c = masked_value (sp_column_masks (context_policy ctx)) row c))
      (qo_data out) rows"
    by (auto simp: list_all2_conv_all_nth)
  then show ?thesis using run eff by auto
qed

text \<open>
  C22. The outcome counts its rows, reports truncation exactly when the page is full with respect to
  the limit that was sent, which exceeds neither the policy's cap (or the default) nor the cap
  of the call nor the caller's own limit, and only then names the offset to continue from: the caller's own
  offset plus the rows returned, in 64-bit arithmetic, so the true sum whenever that fits 64 bits.
\<close>

theorem truncation_is_honest:
  assumes "execute_query env ctx q opts = (Inr out, eff)" and "\<not> eo_dry_run opts"
    and "q_limit (governed_query (context_policy ctx) (eo_max_rows opts) q) = Some limit"
  shows "length (qo_data out) = qo_row_count out \<and> qo_truncated out = (limit \<le> qo_row_count out) \<and>
    limit \<le> unwrap_or (sp_max_rows (context_policy ctx)) default_max_rows \<and>
    limit \<le> unwrap_or (eo_max_rows opts) limit \<and> limit \<le> unwrap_or (q_limit q) limit \<and>
    qo_next_offset out =
      (if qo_truncated out then Some ((unwrap_or (q_offset q) 0 + qo_row_count out) mod 2 ^ 64) else None) \<and>
    (qo_truncated out \<and> unwrap_or (q_offset q) 0 + qo_row_count out < 2 ^ 64 \<longrightarrow>
       qo_next_offset out = Some (unwrap_or (q_offset q) 0 + qo_row_count out))"
proof -
  from execute_query_InrE [OF assms(1,2)] obtain n m q2 l sql rows masked
    where plan: "plan_query env ctx q opts = Inr (n, m, q2, l, sql)"
    and masked: "rmap (mask_row (sp_column_masks (context_policy ctx))) rows = Inr masked"
    and out: "out = rows_outcome opts sql (se_dialect_name env n) l (q_offset q2) rows masked"
    by metis
  have q2: "q2 = governed_query (context_policy ctx) (eo_max_rows opts) q" "l = limit"
    using plan assms(3) by (auto simp: plan_query_Inr)
  have "q_offset q2 = q_offset q" by (simp add: q2 governed_query_def)
  moreover have "limit \<le> unwrap_or (sp_max_rows (context_policy ctx)) default_max_rows"
    "limit \<le> unwrap_or (eo_max_rows opts) limit" "limit \<le> unwrap_or (q_limit q) limit"
    using assms(3) by (auto simp: governed_query_def effective_cap_def Let_def unwrap_or_def split: option.splits)
  ultimately show ?thesis
    using rmap_Inr_length [OF masked] by (simp add: out rows_outcome_def Let_def q2(2))
qed

text \<open>With a source model the name of a query plays no role for its statement.\<close>

lemma generate_ignores_name:
  assumes "q_source_model q = Some source"
  shows "generate ser g (q\<lparr>q_name := name\<rparr>) = generate ser g q"
proof -
  have "resolve_source g (q\<lparr>q_name := name\<rparr>) = resolve_source g q" using assms by (simp add: resolve_source_def)
  moreover have "build_logical_plan ser g (q\<lparr>q_name := name\<rparr>) d t a mode = build_logical_plan ser g q d t a mode" for d t a mode
    using assms
    by (simp add: build_logical_plan_def build_select_items_def build_where_clause_def build_joins_def build_group_by_def
        build_order_by_def Let_def)
  ultimately show ?thesis by (simp add: generate_def)
qed

text \<open>
  C23. The policy is checked on the name of a query, while its statement is generated from its source model
  when both are given. So whatever a policy denies: if the caller may ask for some model, then naming it
  beside a denied source model executes, on the datasource of the allowed one, the very statement of the
  denied model with the policy's filters, while asking for the denied model alone is refused and
  executes nothing.
\<close>

theorem source_model_escapes_policy:
  assumes "\<And>q'. se_generate_sql env q' = rbind (generate ser g q') (\<lambda>r. Inr (gs_display r))"
    and "q_name q = Some allowed" and "q_source_model q = Some source"
    and "se_get_model env allowed None = Inr (Some m)" and "se_get_datasource env (mo_datasource m) = Inr (Some ds)"
    and "model_visible (context_policy ctx) allowed (mo_datasource m)" and "require_authenticated ctx = Inr u"
    and "check_model_access (context_policy ctx) (ss_model source) = Inl denied" and "\<not> eo_dry_run opts"
    and "generate ser g (governed_query (context_policy ctx) (eo_max_rows opts) (q\<lparr>q_name := None\<rparr>)) = Inr r"
  shows "Executed ds (gs_display r) \<in> set (snd (execute_query env ctx q opts)) \<and>
    \<not> is_ok (fst (execute_query env ctx (q\<lparr>q_name := None\<rparr>) opts)) \<and>
    snd (execute_query env ctx (q\<lparr>q_name := None\<rparr>) opts) = []"
proof -
  let ?p = "context_policy ctx" and ?n = "eo_max_rows opts"
  have "governed_query ?p ?n (q\<lparr>q_name := None\<rparr>) = (governed_query ?p ?n q)\<lparr>q_name := None\<rparr>"
    and src: "q_source_model (governed_query ?p ?n q) = Some source"
    using assms(3) by (simp_all add: governed_query_def)
  with assms(1,10) have sql: "se_generate_sql env (governed_query ?p ?n q) = Inr (gs_display r)"
    by (simp add: generate_ignores_name [OF src])
  have "query_model_name q = Some allowed" using assms(2) by (simp add: query_model_name_def)
  moreover have "q_limit (governed_query ?p ?n q) = Some (min (unwrap_or (q_limit q) (effective_cap ?p ?n)) (effective_cap ?p ?n))"
    by (simp add: governed_query_def)
  ultimately obtain l where plan: "plan_query env ctx q opts = Inr (allowed, m, governed_query ?p ?n q, l, gs_display r)"
    using assms(4,6,7) sql plan_query_Inr [of env ctx q opts] by (auto simp: require_authenticated_def split: if_split_asm)
  have refused: "\<exists>e. plan_query env ctx (q\<lparr>q_name := None\<rparr>) opts = Inl e"
  proof (cases "plan_query env ctx (q\<lparr>q_name := None\<rparr>) opts")
    case (Inr x)
    then have "\<exists>d. model_visible ?p (ss_model source) d"
      using assms(3) plan_query_Inr [of env ctx "q\<lparr>q_name := None\<rparr>" opts] by (cases x) (auto simp: query_model_name_def)
    then show ?thesis using assms(8) by (auto simp: model_visible_def)
  qed simp
  have "Executed ds (gs_display r) \<in> set (snd (execute_query env ctx q opts))"
    unfolding execute_query_def plan using assms(5,9)
    by (simp add: Let_def ok_or_def split: run_result.split sum.split)
  then show ?thesis using refused by (auto simp: execute_query_def)
qed

subsection \<open>Stages in dependency order\<close>

lemma topo_pass_mset:
  "topo_pass stages rem res = Inr (res', waiting) \<Longrightarrow>
     mset res' + mset (map fst waiting) = mset res + mset (map fst rem) \<and> set waiting \<subseteq> set rem"
proof (induction stages rem res arbitrary: res' waiting rule: topo_pass.induct)
  case (2 stages n q rest resolved)
  then show ?case by (fastforce simp: branch_simps split: option.splits if_splits)
qed auto

text \<open>Every stage among the given ones that is in the order has its reference before it.\<close>

definition refs_before :: "stage list \<Rightarrow> string list \<Rightarrow> bool" where
  "refs_before stages order \<longleftrightarrow>
     (\<forall>xs n ys. order = xs @ n # ys \<longrightarrow>
        (\<exists>q. (n, q) \<in> set stages \<and> (\<forall>r. q_stage_ref q = Some r \<longrightarrow> r \<in> set xs)))"

lemma refs_before_Nil: "refs_before stages []"
  by (simp add: refs_before_def)

lemma refs_before_snoc:
  assumes "refs_before stages order" and "(n, q) \<in> set stages"
    and "\<And>r. q_stage_ref q = Some r \<Longrightarrow> r \<in> set order"
  shows "refs_before stages (order @ [n])"
  unfolding refs_before_def
proof (intro allI impI)
  fix xs m ys assume eq: "order @ [n] = xs @ m # ys"
  show "\<exists>q. (m, q) \<in> set stages \<and> (\<forall>r. q_stage_ref q = Some r \<longrightarrow> r \<in> set xs)"
  proof (cases ys rule: rev_cases)
    case Nil
    then show ?thesis using eq assms(2,3) by auto
  next
    case (snoc zs z)
    then have "order = xs @ m # zs" using eq by simp
    then show ?thesis using assms(1) unfolding refs_before_def by blast
  qed
qed

lemma topo_pass_before:
  assumes "topo_pass stages rem res = Inr (res', waiting)"
    and "refs_before stages res" and "set rem \<subseteq> set stages"
  shows "refs_before stages res'"
  using assms
proof (induction stages rem res arbitrary: res' waiting rule: topo_pass.induct)
  case (2 stages n q rest resolved)
  show ?case
  proof (cases "q_stage_ref q")
    case None
    then have "refs_before stages (resolved @ [n])" using 2(5,6) by (intro refs_before_snoc) auto
    then show ?thesis using 2(1) [OF None] 2(4,6) None by simp
  next
    case (Some r)
    then have r: "r \<in> fst ` set stages" using 2(4) by (auto split: if_splits)
    show ?thesis
    proof (cases "r \<in> set resolved")
      case True
      then have "refs_before stages (resolved @ [n])" using 2(5,6) Some by (intro refs_before_snoc) auto
      then show ?thesis using 2(2) [OF Some] r True 2(4,6) Some by simp
    next
      case False
      then obtain w where "topo_pass stages rest resolved = Inr (res', w)"
        using 2(4) Some r by (auto simp: branch_simps)
      then show ?thesis using 2(3) [OF Some] r False 2(5,6) by simp
    qed
  qed
qed auto

lemma topo_loop_spec:
  assumes "topo_loop stages rem res = Inr order" and "refs_before stages res" and "set rem \<subseteq> set stages"
  shows "mset order = mset res + mset (map fst rem) \<and> refs_before stages order"
  using assms
proof (induction stages rem res rule: topo_loop.induct)
  case (1 stages rem res)
  show ?case
  proof (cases "rem = []")
    case True
    then show ?thesis using 1(2,3) by (simp add: topo_loop.simps)
  next
    case False
    with 1(2) obtain res' w where p: "topo_pass stages rem res = Inr (res', w)"
      and l: "length w \<noteq> length rem" "topo_loop stages w res' = Inr order"
      by (subst (asm) topo_loop.simps) (auto split: sum.splits if_splits)
    have "refs_before stages res'" by (rule topo_pass_before [OF p 1(3,4)])
    moreover have "set w \<subseteq> set stages" using topo_pass_mset [OF p] 1(4) by auto
    ultimately have "mset order = mset res' + mset (map fst w) \<and> refs_before stages order"
      using 1(1) [OF False p refl] l by simp
    then show ?thesis using topo_pass_mset [OF p] by simp
  qed
qed

text \<open>A ranking of the stages shows there is no cycle.\<close>

definition acyclic_refs :: "stage list \<Rightarrow> bool" where
  "acyclic_refs stages \<longleftrightarrow> (\<exists>rank :: string \<Rightarrow> nat. \<forall>(n, q) \<in> set stages. \<forall>r. q_stage_ref q = Some r \<longrightarrow>
     r \<in> fst ` set stages \<and> rank r < rank n)"

definition refs_known :: "stage list \<Rightarrow> stage list \<Rightarrow> bool" where
  "refs_known stages rem \<longleftrightarrow> (\<forall>(n, q) \<in> set rem. \<forall>r. q_stage_ref q = Some r \<longrightarrow> r \<in> fst ` set stages)"

lemma topo_pass_ok: "refs_known stages rem \<Longrightarrow> is_ok (topo_pass stages rem res)"
proof (induction stages rem res rule: topo_pass.induct)
  case (2 stages n q rest resolved)
  then show ?case
    by (auto simp: refs_known_def is_ok_iff branch_simps split: option.splits)
qed auto

lemma subset_add_mset: "A \<subseteq># M \<Longrightarrow> A \<subseteq># add_mset x M"
  by (metis add_mset_add_single mset_subset_eq_add_left subset_mset.order_trans)

lemma topo_pass_waiting:
  "topo_pass stages rem res = Inr (res', w) \<Longrightarrow>
     mset w \<subseteq># mset rem \<and> set res \<subseteq> set res' \<and>
     (\<forall>(n, q) \<in> set w. \<exists>r. q_stage_ref q = Some r \<and> r \<notin> set res)"
proof (induction stages rem res arbitrary: res' w rule: topo_pass.induct)
  case (2 stages n q rest resolved)
  show ?case
  proof (cases "q_stage_ref q")
    case None
    then have "topo_pass stages rest (resolved @ [n]) = Inr (res', w)" using 2(4) by simp
    from 2(1) [OF None this] show ?thesis by (auto simp: subset_add_mset)
  next
    case (Some r)
    then have r: "\<not> r \<notin> fst ` set stages" using 2(4) by (auto split: if_splits)
    show ?thesis
    proof (cases "r \<in> set resolved")
      case True
      then have "topo_pass stages rest (resolved @ [n]) = Inr (res', w)" using 2(4) Some r by simp
      from 2(2) [OF Some r True this] show ?thesis by (auto simp: subset_add_mset)
    next
      case False
      then obtain w' where w: "w = (n, q) # w'" "topo_pass stages rest resolved = Inr (res', w')"
        using 2(4) Some r by (auto simp: branch_simps)
      from 2(3) [OF Some r False w(2)] show ?thesis using Some False by (auto simp: w(1))
    qed
  qed
qed auto

lemma topo_pass_progress:
  assumes "topo_pass stages rem res = Inr (res', w)" and "rem \<noteq> []"
    and rank: "\<forall>(n, q) \<in> set rem. \<forall>r. q_stage_ref q = Some r \<longrightarrow>
      r \<in> set res \<union> fst ` set rem \<and> rank r < (rank n :: nat)"
  shows "length w \<noteq> length rem"
proof
  assume "length w = length rem"
  then have "mset w = mset rem"
    using topo_pass_waiting [OF assms(1)] by (metis size_mset size_mset_mono subset_mset.less_le
        mset_subset_size nat_neq_iff)
  then have "set w = set rem" by (rule mset_eq_setD)
  obtain n q where min: "(n, q) \<in> set rem" "\<forall>x \<in> set rem. rank n \<le> rank (fst x)"
    using assms(2) ex_has_least_nat [of "\<lambda>x. x \<in> set rem" _ "\<lambda>x. rank (fst x)"]
    by (metis (no_types, lifting) hd_in_set prod.collapse)
  then obtain r where r: "q_stage_ref q = Some r" "r \<notin> set res"
    using topo_pass_waiting [OF assms(1)] \<open>set w = set rem\<close> by blast
  then have "r \<in> fst ` set rem" "rank r < rank n" using rank min(1) by auto
  then show False using min(2) by auto
qed

lemma topo_loop_ok:
  assumes "refs_known stages rem"
    and "\<forall>(n, q) \<in> set rem. \<forall>r. q_stage_ref q = Some r \<longrightarrow>
      r \<in> set res \<union> fst ` set rem \<and> rank r < (rank n :: nat)"
  shows "is_ok (topo_loop stages rem res)"
  using assms
proof (induction stages rem res rule: topo_loop.induct)
  case (1 stages rem res)
  show ?case
  proof (cases "rem = []")
    case True
    then show ?thesis by (simp add: topo_loop.simps)
  next
    case False
    obtain res' w where p: "topo_pass stages rem res = Inr (res', w)"
      using topo_pass_ok [OF 1(2), of res] by (auto simp: is_ok_iff)
    have len: "length w \<noteq> length rem" by (rule topo_pass_progress [OF p False 1(3)])
    have sub: "set w \<subseteq> set rem" using topo_pass_mset [OF p] by blast
    have "set res \<union> fst ` set rem \<subseteq> set res' \<union> fst ` set w"
    proof -
      have "set_mset (mset res' + mset (map fst w)) = set_mset (mset res + mset (map fst rem))"
        using topo_pass_mset [OF p] by simp
      then show ?thesis by simp
    qed
    then have subset: "r \<in> set res \<union> fst ` set rem \<Longrightarrow> r \<in> set res' \<union> fst ` set w" for r by blast
    have "r \<in> set res' \<union> fst ` set w \<and> rank r < rank n"
      if "(n, q) \<in> set w" "q_stage_ref q = Some r" for n q r
    proof -
      from that(1) sub have "(n, q) \<in> set rem" by blast
      with 1(3) that(2) have "r \<in> set res \<union> fst ` set rem \<and> rank r < rank n" by auto
      with subset show ?thesis by blast
    qed
    then have "\<forall>(n, q) \<in> set w. \<forall>r. q_stage_ref q = Some r \<longrightarrow>
        r \<in> set res' \<union> fst ` set w \<and> rank r < rank n" by blast
    moreover have "refs_known stages w" using 1(2) sub unfolding refs_known_def by blast
    ultimately have "is_ok (topo_loop stages w res')" by (intro 1(1) [OF False p refl len])
    then show ?thesis using False p len by (simp add: topo_loop.simps)
  qed
qed

lemma topological_order_Inr:
  "topological_order stages = Inr order \<Longrightarrow> mset order = mset (map fst stages) \<and> refs_before stages order"
  using topo_loop_spec [of stages stages "[]" order] by (simp add: topological_order_def refs_before_Nil)

text \<open>
  C7. Pipelines: the stages are ordered so that each occurs once and after the stage it refers to,
  and they are refused only when no ranking of the stages exists, that is, when a reference is
  unknown or the references form a cycle.
\<close>

theorem topological_order_correct:
  "(case topological_order stages of
      Inr order \<Rightarrow> mset order = mset (map fst stages) \<and> refs_before stages order
    | Inl e \<Rightarrow> \<not> acyclic_refs stages)"
proof (cases "topological_order stages")
  case (Inr order)
  with topological_order_Inr show ?thesis by auto
next
  case (Inl e)
  have "\<not> acyclic_refs stages"
  proof
    assume "acyclic_refs stages"
    then obtain rank :: "string \<Rightarrow> nat" where
      "\<forall>(n, q) \<in> set stages. \<forall>r. q_stage_ref q = Some r \<longrightarrow> r \<in> fst ` set stages \<and> rank r < rank n"
      unfolding acyclic_refs_def by blast
    then have "is_ok (topo_loop stages stages [])"
      by (intro topo_loop_ok [where rank = rank]) (auto simp: refs_known_def)
    then show False using Inl by (simp add: topological_order_def)
  qed
  then show ?thesis using Inl by simp
qed

subsection \<open>Pipelines are governed stage by stage\<close>

lemma run_stages_effects:
  assumes "Executed ds sql \<in> set (snd (run_stages env ctx stages opts names by_name))"
  shows "\<exists>q. Executed ds sql \<in> set (snd (execute_query env ctx q opts))"
  using assms
proof (induction env ctx stages opts names by_name rule: run_stages.induct)
  case (2 env ctx stages opts name names by_name)
  show ?case
  proof (cases "stage_query stages by_name name")
    case (Inl e)
    then show ?thesis using 2(2) by simp
  next
    case (Inr q)
    obtain r eff where ex: "execute_query env ctx q opts = (r, eff)" by fastforce
    show ?thesis
    proof (cases r)
      case (Inl e)
      then show ?thesis using 2(2) Inr ex by (intro exI [of _ q]) simp
    next
      case (Inr out)
      obtain r' eff' where
        run: "run_stages env ctx stages opts names (AList.update name out by_name) = (r', eff')" by fastforce
      have "Executed ds sql \<in> set eff \<or> Executed ds sql \<in> set eff'"
        using 2(2) \<open>stage_query stages by_name name = Inr q\<close> ex Inr run by auto
      then show ?thesis
      proof
        assume "Executed ds sql \<in> set eff"
        then show ?thesis using ex by (intro exI [of _ q]) simp
      next
        assume "Executed ds sql \<in> set eff'"
        then show ?thesis
          using 2(1) [OF \<open>stage_query stages by_name name = Inr q\<close> ex [symmetric] Inr] run by simp
      qed
    qed
  qed
qed simp

lemma run_stages_outcomes:
  assumes "run_stages env ctx stages opts names by_name = (Inr final, eff)"
  shows "dom (map_of final) = set names \<union> dom (map_of by_name) \<and>
    (\<forall>n out. map_of final n = Some out \<longrightarrow>
       map_of by_name n = Some out \<or> (\<exists>q. fst (execute_query env ctx q opts) = Inr out))"
  using assms
proof (induction names arbitrary: by_name eff)
  case (Cons name names)
  from Cons.prems obtain q out eff1 eff2 where q: "stage_query stages by_name name = Inr q"
    and ex: "execute_query env ctx q opts = (Inr out, eff1)"
    and run: "run_stages env ctx stages opts names (AList.update name out by_name) = (Inr final, eff2)"
    by (auto split: sum.splits prod.splits)
  from Cons.IH [OF run] have IH: "dom (map_of final) = set names \<union> dom (map_of (AList.update name out by_name))"
    "\<And>n o'. map_of final n = Some o' \<Longrightarrow> map_of (AList.update name out by_name) n = Some o'
       \<or> (\<exists>q. fst (execute_query env ctx q opts) = Inr o')" by blast+
  have "fst (execute_query env ctx q opts) = Inr out" by (simp add: ex)
  then show ?case using IH(1) by (auto simp: update_conv' dest!: IH(2) split: if_splits)
qed simp

lemma first_duplicate_None: "first_duplicate ns seen = None \<longleftrightarrow> distinct ns \<and> set ns \<inter> seen = {}"
  by (induction ns arbitrary: seen) auto

lemma map_filter_total:
  "(\<And>x. x \<in> set xs \<Longrightarrow> f x \<noteq> None) \<Longrightarrow> map Some (List.map_filter f xs) = map f xs"
  by (induction xs) (auto simp: List.map_filter_def)

text \<open>
  Every statement a pipeline executes is governed like a single query: no dry run executes
  anything, and each statement is the one generated from a stage's query under the policy, for
  a model the policy allows.
\<close>

lemma multi_stage_governed:
  assumes "Executed ds sql \<in> set (snd (execute_multi_stage env ctx stages dry_run))"
  shows "\<not> dry_run \<and> (\<exists>q n m. query_model_name q = Some n \<and> se_get_model env n None = Inr (Some m) \<and>
    model_visible (context_policy ctx) n (mo_datasource m) \<and>
    se_generate_sql env (governed_query (context_policy ctx) None q) = Inr sql)"
proof -
  have "\<exists>order. Executed ds sql \<in> set (snd (run_stages env ctx stages
      (if dry_run then options_dry_run else options_executing) order []))"
  proof (cases "topological_order stages")
    case (Inl e)
    then show ?thesis using assms by (simp add: execute_multi_stage_def split: if_splits)
  next
    case (Inr order)
    then show ?thesis using assms
      by (intro exI [of _ order])
        (cases "run_stages env ctx stages (if dry_run then options_dry_run else options_executing) order []";
         auto simp: execute_multi_stage_def split: if_splits sum.splits option.splits)
  qed
  with run_stages_effects obtain q where
    "Executed ds sql \<in> set (snd (execute_query env ctx q (if dry_run then options_dry_run else options_executing)))"
    by blast
  from execute_query_Executed [OF this] show ?thesis
    by (auto simp: plan_query_Inr options_dry_run_def options_executing_def split: if_splits)
qed

text \<open>
  A pipeline that succeeds has distinct stage names and yields one outcome per stage, each of
  them the result of executing a query.
\<close>

lemma multi_stage_outcomes:
  assumes "fst (execute_multi_stage env ctx stages dry_run) = Inr outs"
  shows "distinct (map fst stages) \<and> length outs = length stages \<and>
    list_all (\<lambda>out. \<exists>q. fst (execute_query env ctx q
        (if dry_run then options_dry_run else options_executing)) = Inr out) outs"
proof -
  define opts where "opts = (if dry_run then options_dry_run else options_executing)"
  obtain order final eff where order: "topological_order stages = Inr order"
    and dup: "first_duplicate (map fst stages) {} = None"
    and run: "run_stages env ctx stages opts order [] = (Inr final, eff)"
    and outs: "outs = List.map_filter (\<lambda>s. map_of final (fst s)) stages"
    using assms by (auto simp: execute_multi_stage_def opts_def split: if_splits sum.splits option.splits prod.splits)
  have "set order = fst ` set stages"
    using topological_order_Inr [OF order] by (metis mset_eq_setD set_map)
  then have dom: "dom (map_of final) = fst ` set stages"
    and final: "\<And>n out. map_of final n = Some out \<Longrightarrow> \<exists>q. fst (execute_query env ctx q opts) = Inr out"
    using run_stages_outcomes [OF run] by auto
  have "map Some outs = map (\<lambda>s. map_of final (fst s)) stages"
    unfolding outs using dom by (intro map_filter_total) force
  then have len: "length outs = length stages" and
    "\<And>i. i < length outs \<Longrightarrow> Some (outs ! i) = map_of final (fst (stages ! i))"
    by (metis length_map, metis length_map nth_map)
  then have "list_all (\<lambda>out. \<exists>q. fst (execute_query env ctx q opts) = Inr out) outs"
    using final by (auto simp: list_all_length)
  then show ?thesis using dup len by (simp add: first_duplicate_None opts_def)
qed

subsection \<open>Governed reads\<close>

text \<open>
  Search shows only what the caller may query: every hit passes the model and the datasource
  check, comes from the backend's answer to the over-fetched request, and there are at most as
  many as asked for.
\<close>

lemma search_only_visible:
  assumes "search_governed env ctx text limit = Inr hits"
  shows "length hits \<le> limit \<and> list_all (\<lambda>h. model_visible (context_policy ctx) (sr_model_name h) (sr_datasource h)) hits \<and>
    (\<exists>found. se_search env (trim text) (max (saturating_mul limit 8) 64) = Inr found \<and> set hits \<subseteq> set found)"
proof -
  let ?vis = "\<lambda>h. model_visible (context_policy ctx) (sr_model_name h) (sr_datasource h)"
  from assms obtain found where "se_search env (trim text) (max (saturating_mul limit 8) 64) = Inr found"
    and "hits = take limit (filter ?vis found)"
    by (auto simp: search_governed_def Let_def branch_simps split: if_splits)
  then show ?thesis
    by (auto simp: list_all_iff dest: in_set_takeD)
qed

text \<open>
  Listing and fetching agree: a stored model is in the caller's list exactly when fetching it
  by name is allowed.
\<close>

lemma reads_agree:
  assumes "se_list_models env d = Inr ms" and "m \<in> set ms" and "se_get_model env (mo_name m) d = Inr (Some m)"
  shows "(\<exists>vis. visible_models env ctx d = Inr vis \<and> m \<in> set vis) =
    is_ok (get_model_governed env ctx (mo_name m) d)"
proof -
  have unit: "is_ok x \<longleftrightarrow> x = Inr ()" for x :: "'e + unit" by (cases x) auto
  show ?thesis using assms
    by (auto simp: visible_models_def get_model_governed_def branch_simps is_ok_iff model_visible_def ok_or_def)
qed

subsection \<open>What the appended filters mean\<close>

text \<open>
  A where clause is a flat sequence of conditions. In SQL a conjunction binds tighter than a
  disjunction, so the clause is a disjunction of the groups between the OR separators.
\<close>

fun or_groups_from :: "filter_cond list \<Rightarrow> filter_cond list \<Rightarrow> filter_cond list list" where
  "or_groups_from g [] = [g]"
| "or_groups_from g (f # fs) =
     (if fl_or f then g # or_groups_from [f] fs else or_groups_from (g @ [f]) fs)"

fun or_groups :: "filter_cond list \<Rightarrow> filter_cond list list" where
  "or_groups [] = []"
| "or_groups (f # fs) = or_groups_from [f] fs"

definition where_holds :: "(filter_cond \<Rightarrow> bool) \<Rightarrow> filter_cond list \<Rightarrow> bool" where
  "where_holds P fs \<longleftrightarrow> fs = [] \<or> (\<exists>g \<in> set (or_groups fs). list_all P g)"

lemma render_literal_params:
  "render_values ser d LiteralMode ps vs = (map (format_value ser d) vs, ps)"
  by (induction vs) auto

lemma render_spatial_literal:
  "render_spatial ser d LiteralMode column func f ps = Inr (c, ps') \<Longrightarrow>
     render_spatial ser d LiteralMode column func f qs = Inr (c, qs)"
  by (cases "fl_value f") (auto simp: render_spatial_def branch_simps)

lemma render_comparison_literal:
  "render_comparison ser d LiteralMode column op f ps = Inr (c, ps') \<Longrightarrow>
     render_comparison ser d LiteralMode column op f qs = Inr (c, qs)"
  unfolding render_comparison_def render_literal_params
  by (cases "as_array (fl_value f)")
    (auto simp: ok_or_def Let_def split: if_splits list.splits)

lemma render_condition_literal:
  "render_condition ser g d a b LiteralMode f ps = Inr (c, ps') \<Longrightarrow>
     render_condition ser g d a b LiteralMode f qs = Inr (c, qs)"
  by (cases "spatial_function (fl_operator f)"; cases "sql_operator (fl_operator f)")
    (auto simp: render_condition_def ok_or_def intro: render_spatial_literal render_comparison_literal)

definition condition_text ::
    "serializer \<Rightarrow> sql_generator \<Rightarrow> dialect \<Rightarrow> string \<Rightarrow> string \<Rightarrow> filter_cond \<Rightarrow> string" where
  "condition_text ser g d a b f =
     (case render_condition ser g d a b LiteralMode f [] of Inr (c, _) \<Rightarrow> c | Inl _ \<Rightarrow> [])"

lemma condition_textI:
  "render_condition ser g d a b LiteralMode f ps = Inr (c, ps') \<Longrightarrow> condition_text ser g d a b f = c"
  by (simp add: condition_text_def render_condition_literal [where qs = "[]"])

lemma render_conditions_literal:
  "render_conditions ser g d a b LiteralMode False fs ps = Inr (w, ps') \<Longrightarrow>
     w = concat (map (\<lambda>f. separator False f @ condition_text ser g d a b f) fs)"
  by (induction fs arbitrary: ps w ps') (fastforce simp: branch_simps dest: condition_textI)+

lemma str_join_snoc: "g \<noteq> [] \<Longrightarrow> str_join sep (g @ [x]) = str_join sep g @ sep @ x"
  by (induction sep g rule: str_join.induct) auto

lemma or_groups_from_ne: "or_groups_from g fs \<noteq> []"
  by (induction g fs rule: or_groups_from.induct) auto

lemma or_groups_text:
  assumes "g \<noteq> []"
  shows "str_join '' OR '' (map (\<lambda>h. str_join '' AND '' (map T h)) (or_groups_from g fs)) =
    str_join '' AND '' (map T g) @ concat (map (\<lambda>f. separator False f @ T f) fs)"
  using assms
proof (induction g fs rule: or_groups_from.induct)
  case (2 g f fs)
  then show ?case
    by (simp add: separator_def str_join_snoc str_join_Cons or_groups_from_ne)
qed simp

text \<open>
  The where clause is the flat sequence of its conditions: it is the disjunction of the groups
  of conjoined conditions that lie between the filters marked OR.
\<close>

lemma where_clause_groups:
  assumes "build_where_clause ser g q d a b LiteralMode = Inr (Some w, ps)"
  shows "w = str_join '' OR '' (map (\<lambda>h. str_join '' AND '' (map (condition_text ser g d a b) h))
    (or_groups (q_filters q)))"
proof -
  obtain f fs where fs: "q_filters q = f # fs"
    using assms by (cases "q_filters q") (auto simp: build_where_clause_def)
  obtain c ps1 cs ps2 where c: "render_condition ser g d a b LiteralMode f [] = Inr (c, ps1)"
    and cs: "render_conditions ser g d a b LiteralMode False fs ps1 = Inr (cs, ps2)" and w: "w = c @ cs"
    using assms by (auto simp: build_where_clause_def fs branch_simps separator_def)
  show ?thesis
    using or_groups_text [of "[f]" "condition_text ser g d a b" fs]
    by (simp add: fs w condition_textI [OF c] render_conditions_literal [OF cs])
qed

lemma or_groups_from_append:
  assumes "list_all (\<lambda>f. \<not> fl_or f) forced"
  shows "or_groups_from g (fs @ forced) = butlast (or_groups_from g fs) @ [last (or_groups_from g fs) @ forced]"
  using assms
proof (induction g fs rule: or_groups_from.induct)
  case (1 g)
  then show ?case by (induction forced arbitrary: g) auto
next
  case (2 g f fs)
  then show ?case by (auto simp: or_groups_from_ne)
qed

lemma or_groups_from_single:
  "list_all (\<lambda>f. \<not> fl_or f) fs \<Longrightarrow> or_groups_from g fs = [g @ fs]"
  by (induction g fs rule: or_groups_from.induct) auto

lemma or_groups_from_several:
  "\<not> list_all (\<lambda>f. \<not> fl_or f) fs \<Longrightarrow> \<exists>h hs. or_groups_from g fs = h # hs \<and> hs \<noteq> [] \<and> set h \<subseteq> set g \<union> set fs"
proof (induction g fs rule: or_groups_from.induct)
  case (2 g f fs)
  show ?case
  proof (cases "fl_or f")
    case True
    then show ?thesis by (auto simp: or_groups_from_ne)
  next
    case False
    then show ?thesis using 2 by fastforce
  qed
qed simp

lemma or_groups_from_concat: "concat (or_groups_from g fs) = g @ fs"
  by (induction g fs rule: or_groups_from.induct) auto

text \<open>
  The groups of a caller's filters with the policy's behind them: the last one ends with the policy's
  filters, and there is another exactly when a filter of the caller after the first is marked OR.
\<close>

lemma governed_groups:
  assumes "list_all (\<lambda>f. \<not> fl_or f) forced" and "fs @ forced \<noteq> []"
  shows "\<exists>gs h. or_groups (fs @ forced) = gs @ [h @ forced] \<and> concat gs @ h = fs \<and>
    (gs = [] \<longleftrightarrow> list_all (\<lambda>f. \<not> fl_or f) (tl fs)) \<and> (\<forall>g \<in> set gs. g \<noteq> [])"
proof (cases fs)
  case Nil
  then obtain f rest where "forced = f # rest" using assms(2) by (cases forced) auto
  then show ?thesis using assms(1) Nil or_groups_from_single [of rest "[f]"] by (intro exI [of _ "[]"]) auto
next
  case (Cons f rest)
  let ?gs = "butlast (or_groups_from [f] rest)" and ?h = "last (or_groups_from [f] rest)"
  have all: "or_groups_from [f] rest = ?gs @ [?h]" by (simp add: or_groups_from_ne)
  have "?gs = [] \<longleftrightarrow> list_all (\<lambda>f. \<not> fl_or f) rest"
    using or_groups_from_single [of rest "[f]"] or_groups_from_several [of rest "[f]"]
    by (cases "list_all (\<lambda>f. \<not> fl_or f) rest") auto
  moreover have "concat ?gs @ ?h = f # rest"
    using or_groups_from_concat [of "[f]" rest] all by (metis concat.simps concat_append append_Nil2 append_Cons append_Nil)
  moreover have "\<forall>g \<in> set (or_groups_from g0 fs). g \<noteq> []" if "g0 \<noteq> []" for g0 fs
    using that by (induction g0 fs rule: or_groups_from.induct) auto
  then have "\<forall>g \<in> set ?gs. g \<noteq> []" using in_set_butlastD by fastforce
  ultimately show ?thesis
    using or_groups_from_append [OF assms(1), of "[f]" rest] Cons by (intro exI [of _ ?gs] exI [of _ ?h]) simp
qed

text \<open>
  C8. When the appended policy filters bind. For a policy without OR filters of its own, the condition of a
  governed query reads, with SQL's precedence, as a disjunction of groups of conjoined conditions: the
  caller's filters in order, cut at the ones marked OR, and all of the policy's filters at the end of the
  last group only. There is no other group, and so the rows must satisfy the policy's filters, exactly
  when no filter of the caller after the first is marked OR (provided the caller did not write the
  policy's filters as well).
\<close>

theorem policy_filters_hold_iff:
  assumes "apply_policy p q name datasource = Inr q'"
    and "build_where_clause ser g q' d a b LiteralMode = Inr (Some w, ps)"
    and "list_all (\<lambda>f. \<not> fl_or f) (policy_filters p)"
  shows "\<exists>gs h. w = str_join '' OR '' (map (\<lambda>h. str_join '' AND '' (map (condition_text ser g d a b) h))
        (gs @ [h @ policy_filters p])) \<and>
    concat gs @ h = q_filters q \<and> (\<forall>g \<in> set gs. g \<noteq> []) \<and>
    (gs = [] \<longleftrightarrow> list_all (\<lambda>f. \<not> fl_or f) (tl (q_filters q))) \<and>
    (\<not> set (policy_filters p) \<subseteq> set (q_filters q) \<longrightarrow>
      ((\<forall>P. (\<exists>x \<in> set (gs @ [h @ policy_filters p]). list_all P x) \<longrightarrow> list_all P (policy_filters p)) \<longleftrightarrow>
       list_all (\<lambda>f. \<not> fl_or f) (tl (q_filters q))))"
proof -
  have q': "q_filters q' = q_filters q @ policy_filters p" using assms(1) by (simp add: branch_simps)
  moreover have "q_filters q' \<noteq> []" using assms(2) by (auto simp: build_where_clause_def)
  ultimately obtain gs h where groups: "or_groups (q_filters q') = gs @ [h @ policy_filters p]"
    "concat gs @ h = q_filters q" "\<forall>g \<in> set gs. g \<noteq> []" "gs = [] \<longleftrightarrow> list_all (\<lambda>f. \<not> fl_or f) (tl (q_filters q))"
    using governed_groups [OF assms(3), of "q_filters q"] by auto
  have "(\<forall>P. (\<exists>x \<in> set (gs @ [h @ policy_filters p]). list_all P x) \<longrightarrow> list_all P (policy_filters p)) \<longleftrightarrow> gs = []"
    if new: "\<not> set (policy_filters p) \<subseteq> set (q_filters q)"
  proof (cases gs)
    case (Cons x xs)
    have "set x \<subseteq> set (concat gs @ h)" using Cons by auto
    then have "set x \<subseteq> set (q_filters q)" by (simp only: groups(2))
    then have "list_all (\<lambda>f. f \<in> set (q_filters q)) x" by (auto simp: list_all_iff)
    moreover have "\<not> list_all (\<lambda>f. f \<in> set (q_filters q)) (policy_filters p)" using new by (auto simp: list_all_iff)
    ultimately show ?thesis using Cons by auto
  qed simp
  then show ?thesis using groups where_clause_groups [OF assms(2)] by (intro exI [of _ gs] exI [of _ h]) auto
qed

subsection \<open>Examples\<close>

text \<open>A service over a registry: models and datasources are looked up by name, the engine
  yields the readable text of the generated statement.\<close>

definition catalog_env ::
    "serializer \<Rightarrow> sql_generator \<Rightarrow> data_source list \<Rightarrow> (data_source \<Rightarrow> string \<Rightarrow> nat \<Rightarrow> run_result)
      \<Rightarrow> service_env" where
  "catalog_env ser g dss run =
     \<lparr>se_get_model = (\<lambda>n d. Inr (lookup_model g n)),
      se_get_datasource = (\<lambda>n. Inr (find (\<lambda>x. ds_name x = n) dss)),
      se_list_models = (\<lambda>d. Inr (map snd (sg_models g))),
      se_list_datasources = Inr dss,
      se_search = (\<lambda>t n. Inr (take n (map (\<lambda>m. \<lparr>sr_model_name = mo_name m, sr_datasource = mo_datasource m,
                      sr_score = ''1'', sr_snippet = []\<rparr>) (map snd (sg_models g))))),
      se_generate_sql = (\<lambda>q. rbind (generate ser g q) (\<lambda>r. Inr (gs_display r))),
      se_dialect_name = (\<lambda>n. dialect_name (dialect_for g n)),
      se_run = run\<rparr>"

definition sample_datasource :: data_source where
  "sample_datasource = \<lparr>ds_name = ''main'', ds_driver = ''postgres'', ds_connection_string = ''env:DB'',
     ds_description = None, ds_models = [], ds_pool_size = None, ds_meta = []\<rparr>"

definition sample_env :: service_env where
  "sample_env = catalog_env (\<lambda>_. [])
     (with_models (generator_new Postgres) [sample_model, sample_model\<lparr>mo_name := ''salaries''\<rparr>])
     [sample_datasource]
     (\<lambda>_ _ _. Rows [[(''email'', JString ''jane@x.org''), (''n'', JNumber ''1'')]])"

definition sample_policy :: session_policy where
  "sample_policy = \<lparr>sp_forced_filters = [filter_new ''tenant'' Eq (JString ''t1'')],
     sp_allowed_models = None, sp_denied_models = Some [''salaries''],
     sp_column_masks = [(''email'', email_mask)], sp_row_filter = None, sp_max_rows = Some 5,
     sp_allowed_datasources = None, sp_query_timeout_secs = Some 3\<rparr>"

definition sample_context :: call_context where
  "sample_context = anonymous_context\<lparr>cc_auth_required := True, cc_user_id := Some ''u1'',
     cc_policy := Some sample_policy\<rparr>"

definition region_query :: query where
  "region_query = query_add_dimension (query_with_name query_new ''orders'') (dimension_new ''region'')"

definition region_sql :: "string \<Rightarrow> string" where
  "region_sql table = ''SELECT '' @ table @ ''.'' @ dquote @ ''region'' @ dquote @ '' AS '' @ dquote @ ''region'' @ dquote
     @ '' FROM '' @ dquote @ table @ dquote @ '' '' @ dquote @ table @ dquote
     @ ''  WHERE '' @ table @ ''.'' @ dquote @ ''tenant'' @ dquote @ '' = '' @ squote @ ''t1'' @ squote
     @ ''  GROUP BY '' @ table @ ''.'' @ dquote @ ''region'' @ dquote @ ''  LIMIT 5''"

definition salaries_query :: query where
  "salaries_query = query_with_source_model region_query
     \<lparr>ss_model = ''salaries'', ss_datasource = None, ss_alias = None\<rparr>"

lemma sample_policy_of: "context_policy sample_context = sample_policy"
  by (simp add: context_policy_def sample_context_def)

lemma sample_governed:
  "governed_query sample_policy None q =
     q\<lparr>q_filters := q_filters q @ [filter_new ''tenant'' Eq (JString ''t1'')],
       q_limit := Some (min (unwrap_or (q_limit q) 5) 5)\<rparr>"
  by (simp add: governed_query_def policy_filters_def sample_policy_def effective_cap_def)

lemma sample_statements:
  "se_generate_sql sample_env (region_query\<lparr>q_filters := [filter_new ''tenant'' Eq (JString ''t1'')], q_limit := Some 5\<rparr>)
     = Inr (region_sql ''orders'')"
  "se_generate_sql sample_env (salaries_query\<lparr>q_filters := [filter_new ''tenant'' Eq (JString ''t1'')], q_limit := Some 5\<rparr>)
     = Inr (region_sql ''salaries'')"
  by code_simp+

lemma sample_lookups:
  "se_get_model sample_env ''orders'' None = Inr (Some sample_model)"
  "se_get_datasource sample_env ''main'' = Inr (Some sample_datasource)"
  "se_run sample_env ds sql n = Rows [[(''email'', JString ''jane@x.org''), (''n'', JNumber ''1'')]]"
  "se_dialect_name sample_env ''orders'' = ''postgres''"
  "mo_datasource sample_model = ''main''"
  by (simp_all add: sample_env_def catalog_env_def sample_datasource_def with_models_def generator_new_def
      lookup_model_def sample_model_def dialect_for_def)

lemma sample_queries:
  "query_model_name region_query = Some ''orders''" "query_model_name salaries_query = Some ''orders''"
  "q_filters region_query = []" "q_limit region_query = None" "q_offset region_query = None"
  "q_filters salaries_query = []" "q_limit salaries_query = None"
  by (simp_all add: region_query_def salaries_query_def query_model_name_def query_add_dimension_def
      query_with_name_def query_with_source_model_def query_new_def)

lemma sample_visible: "model_visible sample_policy ''orders'' ''main''"
  by (simp add: model_visible_def check_model_access_def check_datasource_access_def sample_policy_def)

lemma sample_plans:
  "plan_query sample_env sample_context region_query options_executing =
     Inr (''orders'', sample_model, governed_query sample_policy None region_query, 5, region_sql ''orders'')"
  "plan_query sample_env sample_context salaries_query options_executing =
     Inr (''orders'', sample_model, governed_query sample_policy None salaries_query, 5, region_sql ''salaries'')"
  unfolding plan_query_Inr
  by (simp_all add: sample_policy_of sample_lookups sample_queries sample_visible options_executing_def
      sample_governed sample_statements) (simp_all add: sample_context_def)

lemma sample_mask: "mask_row [(''email'', email_mask)] [(''email'', JString ''jane@x.org''), (''n'', JNumber ''1'')] =
    Inr [(''email'', JString ''j***e@x.org''), (''n'', JNumber ''1'')]"
  by code_simp

lemma sample_run:
  "execute_query sample_env sample_context region_query options_executing =
    (Inr \<lparr>qo_data = [JObject [(''email'', JString ''j***e@x.org''), (''n'', JNumber ''1'')]],
           qo_columns = [''email'', ''n''], qo_sql = None, qo_population = Some 1,
           qo_population_inferred = True, qo_truncated = False, qo_row_count = 1,
           qo_next_offset = None, qo_dialect = ''postgres''\<rparr>,
     [Executed sample_datasource (region_sql ''orders''),
      Audited \<lparr>an_user_id = Some ''u1'', an_tenant_id = None, an_action = ''query'',
        an_model = ''orders'', an_row_count = 1, an_success = True\<rparr>])"
proof -
  have opts: "\<not> eo_dry_run options_executing" "\<not> eo_explain options_executing"
    by (simp_all add: options_executing_def)
  have masks: "sp_column_masks sample_policy = [(''email'', email_mask)]" by (simp add: sample_policy_def)
  have "q_offset (governed_query sample_policy None region_query) = None"
    by (simp add: governed_query_def sample_queries)
  then show ?thesis
    unfolding execute_query_def sample_plans
    by (simp add: opts masks sample_lookups sample_policy_of rows_outcome_def audit_entry_of_def Let_def
        ok_or_def sample_mask del: mask_row.simps) (simp add: sample_context_def anonymous_context_def)
qed

theorem source_model_escapes_policy_witness:
  "Executed sample_datasource (region_sql ''salaries'')
     \<in> set (snd (execute_query sample_env sample_context salaries_query options_executing)) \<and>
   \<not> is_ok (fst (execute_query sample_env sample_context (salaries_query\<lparr>q_name := None\<rparr>) options_executing))"
proof -
  obtain ser g where env: "\<And>q. se_generate_sql sample_env q = rbind (generate ser g q) (\<lambda>r. Inr (gs_display r))"
    unfolding sample_env_def catalog_env_def by auto
  have fields: "q_name salaries_query = Some ''orders''"
    "q_source_model salaries_query = Some \<lparr>ss_model = ''salaries'', ss_datasource = None, ss_alias = None\<rparr>"
    by (simp_all add: region_query_def salaries_query_def query_add_dimension_def query_with_name_def
        query_with_source_model_def query_new_def)
  let ?q = "governed_query sample_policy None salaries_query"
  have q: "?q = salaries_query\<lparr>q_filters := [filter_new ''tenant'' Eq (JString ''t1'')], q_limit := Some 5\<rparr>"
    by (simp add: sample_governed sample_queries)
  have "governed_query sample_policy None (salaries_query\<lparr>q_name := None\<rparr>) = ?q\<lparr>q_name := None\<rparr>"
    "q_source_model ?q = Some \<lparr>ss_model = ''salaries'', ss_datasource = None, ss_alias = None\<rparr>"
    by (simp_all add: governed_query_def fields)
  moreover obtain r where "generate ser g ?q = Inr r" "gs_display r = region_sql ''salaries''"
    using sample_statements(2) env by (auto simp: q branch_simps)
  ultimately have r: "generate ser g (governed_query (context_policy sample_context) (eo_max_rows options_executing)
      (salaries_query\<lparr>q_name := None\<rparr>)) = Inr r" "gs_display r = region_sql ''salaries''"
    by (simp_all add: generate_ignores_name sample_policy_of options_executing_def)
  have "check_model_access (context_policy sample_context)
      (ss_model \<lparr>ss_model = ''salaries'', ss_datasource = None, ss_alias = None\<rparr>) = Inl (ModelDenied ''salaries'')"
    by (simp add: sample_policy_of check_model_access_def sample_policy_def)
  moreover have "model_visible (context_policy sample_context) ''orders'' (mo_datasource sample_model)"
    "se_get_datasource sample_env (mo_datasource sample_model) = Inr (Some sample_datasource)"
    by (simp_all add: sample_policy_of sample_lookups sample_visible)
  moreover have "require_authenticated sample_context = Inr ()" "\<not> eo_dry_run options_executing"
    by (simp_all add: require_authenticated_def sample_context_def options_executing_def)
  ultimately show ?thesis
    using source_model_escapes_policy [OF env fields sample_lookups(1) _ _ _ _ _ r(1)] r(2) by simp
qed

theorem executed_statement_governed_witness:
  "\<exists>n m. cc_user_id sample_context \<noteq> None \<and> query_model_name region_query = Some n \<and>
    se_get_model sample_env n None = Inr (Some m) \<and> model_visible sample_policy n (mo_datasource m) \<and>
    se_generate_sql sample_env (governed_query sample_policy None region_query) = Inr (region_sql ''orders'')"
proof -
  have "Executed sample_datasource (region_sql ''orders'')
      \<in> set (snd (execute_query sample_env sample_context region_query options_executing))"
    by (simp add: sample_run)
  moreover have "cc_auth_required sample_context" "eo_max_rows options_executing = None"
    by (simp_all add: sample_context_def options_executing_def)
  ultimately show ?thesis
    using executed_statement_governed [of sample_datasource "region_sql ''orders''" sample_env sample_context
        region_query options_executing] unfolding sample_policy_of by auto
qed

lemma options_executing_sel:
  "eo_dry_run options_executing = False" "eo_max_rows options_executing = None"
  by (simp_all add: options_executing_def)

theorem masks_applied_witness:
  "\<exists>rows row'. se_run sample_env sample_datasource (region_sql ''orders'') 3 = Rows rows \<and>
     JObject row' \<in> set (qo_data (projr (fst (execute_query sample_env sample_context region_query options_executing)))) \<and>
     map_of row' ''email'' = Some (JString ''j***e@x.org'')"
proof -
  have "distinct (map fst (sp_column_masks (context_policy sample_context)))"
    by (simp add: sample_policy_of sample_policy_def)
  from masks_applied [OF sample_run _ this] obtain ds sql secs rows where
    "se_run sample_env ds sql secs = Rows rows"
    "list_all2 (\<lambda>v row. \<exists>row'. v = JObject row' \<and>
        (\<forall>c. map_of row' c = masked_value (sp_column_masks (context_policy sample_context)) row c))
      [JObject [(''email'', JString ''j***e@x.org''), (''n'', JNumber ''1'')]] rows"
    by (auto simp: options_executing_sel)
  then show ?thesis by (auto simp: sample_run sample_lookups)
qed

theorem truncation_is_honest_witness:
  "qo_truncated (projr (fst (execute_query sample_env sample_context region_query options_executing))) = (5 \<le> (1 :: nat))"
proof -
  have "q_limit (governed_query (context_policy sample_context) (eo_max_rows options_executing) region_query) = Some 5"
    by (simp add: sample_policy_of options_executing_sel sample_governed sample_queries)
  from truncation_is_honest [OF sample_run _ this] show ?thesis
    by (simp add: options_executing_sel sample_run)
qed

lemma sample_pipeline:
  "execute_multi_stage sample_env sample_context [(''s'', region_query)] False =
     (Inr [projr (fst (execute_query sample_env sample_context region_query options_executing))],
      snd (execute_query sample_env sample_context region_query options_executing))"
proof -
  have refs: "q_stage_ref region_query = None" "q_name region_query = Some ''orders''"
    by (simp_all add: region_query_def query_add_dimension_def query_with_name_def query_new_def)
  then have "stage_query [(''s'', region_query)] [] ''s'' = Inr region_query"
    by (simp add: stage_query_def)
  moreover have "topological_order [(''s'', region_query)] = Inr [''s'']"
    by (simp add: topological_order_def topo_loop.simps refs)
  ultimately show ?thesis
    by (simp add: execute_multi_stage_def sample_run List.map_filter_def)
qed

lemma multi_stage_governed_witness:
  "\<exists>q n m. query_model_name q = Some n \<and> se_get_model sample_env n None = Inr (Some m) \<and>
    model_visible sample_policy n (mo_datasource m) \<and>
    se_generate_sql sample_env (governed_query sample_policy None q) = Inr (region_sql ''orders'')"
proof -
  have "Executed sample_datasource (region_sql ''orders'')
      \<in> set (snd (execute_multi_stage sample_env sample_context [(''s'', region_query)] False))"
    by (simp add: sample_pipeline sample_run)
  from multi_stage_governed [OF this] show ?thesis by (simp add: sample_policy_of)
qed

lemma multi_stage_outcomes_witness:
  "length (projr (fst (execute_multi_stage sample_env sample_context [(''s'', region_query)] False))) =
     length [(''s'', region_query)]"
proof -
  have "fst (execute_multi_stage sample_env sample_context [(''s'', region_query)] False) =
      Inr [projr (fst (execute_query sample_env sample_context region_query options_executing))]"
    by (simp add: sample_pipeline)
  from multi_stage_outcomes [OF this] show ?thesis by (simp add: sample_pipeline)
qed

lemma sample_search:
  "search_governed sample_env sample_context '' eu '' 3 =
     Inr [\<lparr>sr_model_name = ''orders'', sr_datasource = ''main'', sr_score = ''1'', sr_snippet = []\<rparr>]"
proof -
  have "trim '' eu '' = ''eu''" by code_simp
  then show ?thesis
    by (simp add: search_governed_def require_authenticated_def sample_context_def anonymous_context_def
        sample_env_def catalog_env_def with_models_def generator_new_def sample_model_def saturating_mul_def
        usize_max_def context_policy_def model_visible_def check_model_access_def
        check_datasource_access_def sample_policy_def Let_def)
qed

lemma search_only_visible_witness:
  "list_all (\<lambda>h. model_visible sample_policy (sr_model_name h) (sr_datasource h))
     [\<lparr>sr_model_name = ''orders'', sr_datasource = ''main'', sr_score = ''1'', sr_snippet = []\<rparr>]"
  using search_only_visible [OF sample_search] by (simp only: sample_policy_of)

lemma reads_agree_witness:
  "(\<exists>vis. visible_models sample_env sample_context None = Inr vis \<and> sample_model \<in> set vis) =
    is_ok (get_model_governed sample_env sample_context (mo_name sample_model) None)"
proof (rule reads_agree)
  show "se_list_models sample_env None = Inr [sample_model, sample_model\<lparr>mo_name := ''salaries''\<rparr>]"
    by (simp add: sample_env_def catalog_env_def with_models_def generator_new_def sample_model_def)
  show "sample_model \<in> set [sample_model, sample_model\<lparr>mo_name := ''salaries''\<rparr>]" by simp
  show "se_get_model sample_env (mo_name sample_model) None = Inr (Some sample_model)"
    using sample_lookups(1) by (simp add: sample_model_def)
qed

lemma where_clause_groups_witness:
  "projr (build_where_clause (\<lambda>_. []) (generator_new MySql)
      (query_new\<lparr>q_filters := [filter_new ''a'' Eq JNull, filter_or (filter_new ''b'' IsNull JNull)]\<rparr>) MySql ''t'' ''t'' LiteralMode)
    = (Some (str_join '' OR '' [condition_text (\<lambda>_. []) (generator_new MySql) MySql ''t'' ''t'' (filter_new ''a'' Eq JNull),
        condition_text (\<lambda>_. []) (generator_new MySql) MySql ''t'' ''t'' (filter_or (filter_new ''b'' IsNull JNull))]), [])"
proof -
  let ?q = "query_new\<lparr>q_filters := [filter_new ''a'' Eq JNull, filter_or (filter_new ''b'' IsNull JNull)]\<rparr>"
  have "build_where_clause (\<lambda>_. []) (generator_new MySql) ?q MySql ''t'' ''t'' LiteralMode =
      Inr (Some (''t.'' @ bquote @ ''a'' @ bquote @ '' = NULL OR t.'' @ bquote @ ''b'' @ bquote @ '' IS NULL''), [])"
    by code_simp
  from this where_clause_groups [OF this] show ?thesis
    by (simp add: filter_new_def filter_or_def)
qed

theorem policy_filters_hold_iff_witness:
  "\<exists>gs h. gs \<noteq> [] \<and> (case apply_policy sample_policy
        (query_new\<lparr>q_filters := [filter_new ''a'' Eq JNull, filter_or (filter_new ''b'' IsNull JNull)]\<rparr>) ''orders'' ''main'' of
      Inr q' \<Rightarrow> build_where_clause (\<lambda>_. []) (generator_new MySql) q' MySql ''t'' ''t'' LiteralMode
    | Inl e \<Rightarrow> Inr (None, [])) =
    Inr (Some (str_join '' OR '' (map (\<lambda>h. str_join '' AND ''
      (map (condition_text (\<lambda>_. []) (generator_new MySql) MySql ''t'' ''t'') h)) (gs @ [h @ policy_filters sample_policy]))), [])"
proof -
  let ?q = "query_new\<lparr>q_filters := [filter_new ''a'' Eq JNull, filter_or (filter_new ''b'' IsNull JNull)]\<rparr>"
  have pf: "policy_filters sample_policy = [filter_new ''tenant'' Eq (JString ''t1'')]"
    by (simp add: policy_filters_def sample_policy_def)
  obtain q' where q': "apply_policy sample_policy ?q ''orders'' ''main'' = Inr q'" 
    "q' = ?q\<lparr>q_filters := q_filters ?q @ policy_filters sample_policy\<rparr>"
    by (auto simp: branch_simps model_visible_def check_model_access_def check_datasource_access_def sample_policy_def
        session_policy_new_def)
  have "case build_where_clause (\<lambda>_. []) (generator_new MySql) (?q\<lparr>q_filters := q_filters ?q @ [filter_new ''tenant'' Eq (JString ''t1'')]\<rparr>)
      MySql ''t'' ''t'' LiteralMode of Inr (Some w, []) \<Rightarrow> True | _ \<Rightarrow> False"
    by code_simp
  then obtain w where w: "build_where_clause (\<lambda>_. []) (generator_new MySql) q' MySql ''t'' ''t'' LiteralMode = Inr (Some w, [])"
    by (auto simp: q'(2) pf split: sum.splits prod.splits option.splits list.splits)
  have "list_all (\<lambda>f. \<not> fl_or f) (policy_filters sample_policy)" by (simp add: pf filter_new_def)
  from policy_filters_hold_iff [OF q'(1) w this] obtain gs h where
    "w = str_join '' OR '' (map (\<lambda>h. str_join '' AND '' (map (condition_text (\<lambda>_. []) (generator_new MySql) MySql ''t'' ''t'') h))
      (gs @ [h @ policy_filters sample_policy]))" "gs \<noteq> []"
    by (auto simp: filter_new_def filter_or_def)
  then show ?thesis using q'(1) w by auto
qed

end
