(* ===== verification/Storage.thy ===== *)
theory Storage
  imports Models
begin

text \<open>
  \<open>crates/graphnight-storage/src/backend.rs\<close> and \<open>yaml.rs\<close>: the storage backend over YAML
  files. The four in-memory maps are association lists (their order stands for the iteration
  order of the hash maps), a file is the value it encodes, absent until first written. Whether
  writing a file succeeds is the parameter \<open>wr\<close> of an operation. The read-write locks matter
  in one place: an operation that asks for a lock its own task holds for writing never
  returns, which is the value \<open>None\<close>. Scores are sums of whole weights.
\<close>

subsection \<open>Data\<close>

datatype storage_error =
    StModelNotFound string
  | StModelExists string
  | StDatasourceNotFound string
  | StDatasourceExists string
  | BackendError string
  | IoError
  | SqlError string
  | SerializationError string
  | InternalError string
  | TantivyError string
  | QueryParserError string

record memory =
  me_id :: string
  me_learning :: string
  me_linked_entities :: "string list"
  me_description :: "string option"
  me_created_at :: string
  me_updated_at :: string
  me_meta :: "(string \<times> json) list"

record memory_filter =
  mf_query :: "string option"
  mf_entity :: "string option"
  mf_limit :: "nat option"
  mf_offset :: "nat option"

record index_hit =
  ih_model_name :: string
  ih_datasource :: string
  ih_score :: nat
  ih_matched_fields :: "string list"
  ih_snippet :: string

record storage_backup =
  sb_version :: string
  sb_created_at :: string
  sb_models :: "model list"
  sb_datasources :: "data_source list"
  sb_memories :: "memory list"
  sb_datasource_priority :: "string list"

text \<open>The files of the base path.\<close>

record yaml_disk =
  yd_models :: "model list option"
  yd_datasources :: "data_source list option"
  yd_memories :: "memory list option"
  yd_priority :: "string list option"

record yaml_storage =
  ys_models :: "(string \<times> model) list"
  ys_datasources :: "(string \<times> data_source) list"
  ys_memories :: "(string \<times> memory) list"
  ys_priority :: "string list"
  ys_disk :: yaml_disk

datatype lock = ModelsLock | DatasourcesLock | MemoriesLock | PriorityLock

subsection \<open>Loading and persisting\<close>

definition yaml_new :: "yaml_disk \<Rightarrow> yaml_storage" where
  "yaml_new disk = \<lparr>ys_models = [], ys_datasources = [], ys_memories = [], ys_priority = [], ys_disk = disk\<rparr>"

definition insert_all :: "('v \<Rightarrow> string) \<Rightarrow> 'v list \<Rightarrow> (string \<times> 'v) list \<Rightarrow> (string \<times> 'v) list" where
  "insert_all key vs m = foldl (\<lambda>m v. AList.update (key v) v m) m vs"

definition yaml_load :: "yaml_storage \<Rightarrow> yaml_storage" where
  "yaml_load s =
     (let d = ys_disk s in
      s\<lparr>ys_models := (case yd_models d of Some vs \<Rightarrow> insert_all mo_name vs (ys_models s) | None \<Rightarrow> ys_models s),
        ys_datasources := (case yd_datasources d of Some vs \<Rightarrow> insert_all ds_name vs (ys_datasources s)
                             | None \<Rightarrow> ys_datasources s),
        ys_memories := (case yd_memories d of Some vs \<Rightarrow> insert_all me_id vs (ys_memories s)
                          | None \<Rightarrow> ys_memories s),
        ys_priority := (case yd_priority d of Some p \<Rightarrow> p | None \<Rightarrow> ys_priority s)\<rparr>)"

text \<open>Persisting takes the read lock first: with the write lock held it never returns.\<close>

definition persist_models ::
    "lock set \<Rightarrow> bool \<Rightarrow> yaml_storage \<Rightarrow> ((storage_error + unit) \<times> yaml_storage) option" where
  "persist_models held wr s =
     (if ModelsLock \<in> held then None
      else if wr then Some (Inr (), s\<lparr>ys_disk := (ys_disk s)\<lparr>yd_models := Some (map snd (ys_models s))\<rparr>\<rparr>)
      else Some (Inl IoError, s))"

definition persist_datasources ::
    "lock set \<Rightarrow> bool \<Rightarrow> yaml_storage \<Rightarrow> ((storage_error + unit) \<times> yaml_storage) option" where
  "persist_datasources held wr s =
     (if DatasourcesLock \<in> held then None
      else if wr then Some (Inr (), s\<lparr>ys_disk := (ys_disk s)\<lparr>yd_datasources := Some (map snd (ys_datasources s))\<rparr>\<rparr>)
      else Some (Inl IoError, s))"

definition persist_memories ::
    "lock set \<Rightarrow> bool \<Rightarrow> yaml_storage \<Rightarrow> ((storage_error + unit) \<times> yaml_storage) option" where
  "persist_memories held wr s =
     (if MemoriesLock \<in> held then None
      else if wr then Some (Inr (), s\<lparr>ys_disk := (ys_disk s)\<lparr>yd_memories := Some (map snd (ys_memories s))\<rparr>\<rparr>)
      else Some (Inl IoError, s))"

definition persist_priority ::
    "lock set \<Rightarrow> bool \<Rightarrow> yaml_storage \<Rightarrow> ((storage_error + unit) \<times> yaml_storage) option" where
  "persist_priority held wr s =
     (if PriorityLock \<in> held then None
      else if wr then Some (Inr (), s\<lparr>ys_disk := (ys_disk s)\<lparr>yd_priority := Some (ys_priority s)\<rparr>\<rparr>)
      else Some (Inl IoError, s))"

text \<open>\<open>persist().await?; Ok(v)\<close> after the write guard was dropped.\<close>

definition and_return ::
    "((storage_error + unit) \<times> yaml_storage) option \<Rightarrow> 'a \<Rightarrow> (storage_error + 'a) \<times> yaml_storage" where
  "and_return r v = (case the r of (Inl e, s) \<Rightarrow> (Inl e, s) | (Inr _, s) \<Rightarrow> (Inr v, s))"

subsection \<open>Models\<close>

definition yaml_list_models :: "yaml_storage \<Rightarrow> string option \<Rightarrow> model list" where
  "yaml_list_models s datasource =
     (let result = map snd (ys_models s) in
      case datasource of Some ds \<Rightarrow> filter (\<lambda>m. mo_datasource m = ds) result | None \<Rightarrow> result)"

definition yaml_get_model :: "yaml_storage \<Rightarrow> string \<Rightarrow> string option \<Rightarrow> model option" where
  "yaml_get_model s name datasource =
     (case map_of (ys_models s) name of
        None \<Rightarrow> None
      | Some m \<Rightarrow>
          (case datasource of
             Some ds \<Rightarrow> if mo_datasource m \<noteq> ds then None else Some m
           | None \<Rightarrow> Some m))"

definition yaml_create_model :: "bool \<Rightarrow> yaml_storage \<Rightarrow> model \<Rightarrow> (storage_error + model) \<times> yaml_storage" where
  "yaml_create_model wr s m =
     (if map_of (ys_models s) (mo_name m) \<noteq> None then (Inl (StModelExists (mo_name m)), s)
      else and_return (persist_models {} wr (s\<lparr>ys_models := AList.update (mo_name m) m (ys_models s)\<rparr>)) m)"

definition yaml_update_model ::
    "bool \<Rightarrow> yaml_storage \<Rightarrow> string \<Rightarrow> model \<Rightarrow> (storage_error + model) \<times> yaml_storage" where
  "yaml_update_model wr s name m =
     (if map_of (ys_models s) name = None then (Inl (StModelNotFound name), s)
      else and_return (persist_models {} wr (s\<lparr>ys_models := AList.update name m (ys_models s)\<rparr>)) m)"

definition yaml_delete_model ::
    "bool \<Rightarrow> yaml_storage \<Rightarrow> string \<Rightarrow> string option \<Rightarrow> (storage_error + bool) \<times> yaml_storage" where
  "yaml_delete_model wr s name datasource =
     (let exists = (case datasource of
                      Some ds \<Rightarrow> (case map_of (ys_models s) name of
                                    Some m \<Rightarrow> mo_datasource m = ds | None \<Rightarrow> False)
                    | None \<Rightarrow> map_of (ys_models s) name \<noteq> None)
      in if exists
         then and_return (persist_models {} wr (s\<lparr>ys_models := AList.delete name (ys_models s)\<rparr>)) True
         else (Inr False, s))"

subsection \<open>Datasources\<close>

definition yaml_list_datasources :: "yaml_storage \<Rightarrow> data_source list" where
  "yaml_list_datasources s = map snd (ys_datasources s)"

definition yaml_get_datasource :: "yaml_storage \<Rightarrow> string \<Rightarrow> data_source option" where
  "yaml_get_datasource s name = map_of (ys_datasources s) name"

definition yaml_create_datasource ::
    "bool \<Rightarrow> yaml_storage \<Rightarrow> data_source \<Rightarrow> (storage_error + data_source) \<times> yaml_storage" where
  "yaml_create_datasource wr s ds =
     (if map_of (ys_datasources s) (ds_name ds) \<noteq> None then (Inl (StDatasourceExists (ds_name ds)), s)
      else and_return
        (persist_datasources {} wr (s\<lparr>ys_datasources := AList.update (ds_name ds) ds (ys_datasources s)\<rparr>)) ds)"

definition yaml_update_datasource ::
    "bool \<Rightarrow> yaml_storage \<Rightarrow> string \<Rightarrow> data_source \<Rightarrow> (storage_error + data_source) \<times> yaml_storage" where
  "yaml_update_datasource wr s name ds =
     (if map_of (ys_datasources s) name = None then (Inl (StDatasourceNotFound name), s)
      else and_return
        (persist_datasources {} wr (s\<lparr>ys_datasources := AList.update name ds (ys_datasources s)\<rparr>)) ds)"

definition yaml_delete_datasource ::
    "bool \<Rightarrow> yaml_storage \<Rightarrow> string \<Rightarrow> (storage_error + bool) \<times> yaml_storage" where
  "yaml_delete_datasource wr s name =
     (if map_of (ys_datasources s) name \<noteq> None
      then and_return
        (persist_datasources {} wr (s\<lparr>ys_datasources := AList.delete name (ys_datasources s)\<rparr>)) True
      else (Inr False, s))"

definition yaml_get_datasource_priority :: "yaml_storage \<Rightarrow> string list" where
  "yaml_get_datasource_priority s = ys_priority s"

definition yaml_set_datasource_priority ::
    "bool \<Rightarrow> yaml_storage \<Rightarrow> string list \<Rightarrow> (storage_error + unit) \<times> yaml_storage" where
  "yaml_set_datasource_priority wr s p = and_return (persist_priority {} wr (s\<lparr>ys_priority := p\<rparr>)) ()"

subsection \<open>Memories\<close>

definition yaml_save_memory :: "bool \<Rightarrow> yaml_storage \<Rightarrow> memory \<Rightarrow> (storage_error + memory) \<times> yaml_storage" where
  "yaml_save_memory wr s m =
     and_return (persist_memories {} wr (s\<lparr>ys_memories := AList.update (me_id m) m (ys_memories s)\<rparr>)) m"

definition yaml_get_memory :: "yaml_storage \<Rightarrow> string \<Rightarrow> memory option" where
  "yaml_get_memory s i = map_of (ys_memories s) i"

definition yaml_list_memories :: "yaml_storage \<Rightarrow> memory_filter \<Rightarrow> memory list" where
  "yaml_list_memories s f =
     (let r0 = map snd (ys_memories s);
          r1 = (case mf_query f of
                  Some query \<Rightarrow> filter (\<lambda>m. str_contains (to_lower query) (to_lower (me_learning m))) r0
                | None \<Rightarrow> r0);
          r2 = (case mf_entity f of
                  Some entity \<Rightarrow> filter (\<lambda>m. entity \<in> set (me_linked_entities m)) r1
                | None \<Rightarrow> r1);
          r3 = (case mf_offset f of
                  Some offset \<Rightarrow> if offset < length r2 then drop offset r2 else []
                | None \<Rightarrow> r2)
      in case mf_limit f of Some limit \<Rightarrow> take limit r3 | None \<Rightarrow> r3)"

definition yaml_delete_memory :: "bool \<Rightarrow> yaml_storage \<Rightarrow> string \<Rightarrow> (storage_error + bool) \<times> yaml_storage" where
  "yaml_delete_memory wr s i =
     (if map_of (ys_memories s) i \<noteq> None
      then and_return (persist_memories {} wr (s\<lparr>ys_memories := AList.delete i (ys_memories s)\<rparr>)) True
      else (Inr False, s))"

subsection \<open>Search, backup, restore\<close>

text \<open>The matches of one model, as field texts with their weights.\<close>

definition model_matches :: "string \<Rightarrow> model \<Rightarrow> (string \<times> nat) list" where
  "model_matches q m =
     (if str_contains q (to_lower (mo_name m)) then [(''name'', 10)] else [])
     @ (case mo_description m of
          Some d \<Rightarrow> if str_contains q (to_lower d) then [(''description'', 5)] else []
        | None \<Rightarrow> [])
     @ map (\<lambda>ms. (''measure:'' @ f_expression (m_formula ms), 3))
         (filter (\<lambda>ms. str_contains q (to_lower (f_expression (m_formula ms)))) (mo_measures m))
     @ map (\<lambda>d. (''dimension:'' @ d_name d, 2))
         (filter (\<lambda>d. str_contains q (to_lower (d_name d))) (mo_dimensions m))"

definition model_hit :: "string \<Rightarrow> model \<Rightarrow> index_hit option" where
  "model_hit q m =
     (let ms = model_matches q m in
      if ms = [] then None
      else Some \<lparr>ih_model_name = mo_name m, ih_datasource = mo_datasource m,
                 ih_score = sum_list (map snd ms), ih_matched_fields = map fst ms,
                 ih_snippet = unwrap_or (mo_description m) []\<rparr>)"

text \<open>The sort is stable and descending.\<close>

definition yaml_search :: "yaml_storage \<Rightarrow> string \<Rightarrow> nat \<Rightarrow> index_hit list" where
  "yaml_search s query limit =
     take limit (rev (sort_key ih_score (rev
       (List.map_filter (model_hit (to_lower query)) (map snd (ys_models s))))))"

definition yaml_backup :: "string \<Rightarrow> yaml_storage \<Rightarrow> storage_backup" where
  "yaml_backup now s =
     \<lparr>sb_version = ''1'', sb_created_at = now, sb_models = map snd (ys_models s), sb_datasources = map snd (ys_datasources s),
      sb_memories = map snd (ys_memories s), sb_datasource_priority = ys_priority s\<rparr>"

text \<open>Each block of \<open>restore\<close> persists while its write guard is still alive.\<close>

definition yaml_restore ::
    "bool \<Rightarrow> yaml_storage \<Rightarrow> storage_backup \<Rightarrow> ((storage_error + unit) \<times> yaml_storage) option" where
  "yaml_restore wr s b =
     (if sb_version b \<noteq> ''1''
      then Some (Inl (BackendError (''Unsupported backup version: '' @ sb_version b)), s)
      else case persist_models {ModelsLock} wr (s\<lparr>ys_models := insert_all mo_name (sb_models b) []\<rparr>) of
        None \<Rightarrow> None
      | Some (Inl e, s1) \<Rightarrow> Some (Inl e, s1)
      | Some (Inr _, s1) \<Rightarrow>
          (case persist_datasources {DatasourcesLock} wr
                  (s1\<lparr>ys_datasources := insert_all ds_name (sb_datasources b) []\<rparr>) of
             None \<Rightarrow> None
           | Some (Inl e, s2) \<Rightarrow> Some (Inl e, s2)
           | Some (Inr _, s2) \<Rightarrow>
               (case persist_memories {MemoriesLock} wr
                       (s2\<lparr>ys_memories := insert_all me_id (sb_memories b) []\<rparr>) of
                  None \<Rightarrow> None
                | Some (Inl e, s3) \<Rightarrow> Some (Inl e, s3)
                | Some (Inr _, s3) \<Rightarrow>
                    persist_priority {PriorityLock} wr (s3\<lparr>ys_priority := sb_datasource_priority b\<rparr>))))"

subsection \<open>The backend as an object\<close>

text \<open>The operations of the trait that its callers use, over a state, and the YAML backend.\<close>

record 's backend =
  bk_list_models :: "'s \<Rightarrow> string option \<Rightarrow> storage_error + model list"
  bk_get_model :: "'s \<Rightarrow> string \<Rightarrow> string option \<Rightarrow> storage_error + model option"
  bk_create_model :: "'s \<Rightarrow> model \<Rightarrow> (storage_error + model) \<times> 's"
  bk_update_model :: "'s \<Rightarrow> string \<Rightarrow> model \<Rightarrow> (storage_error + model) \<times> 's"
  bk_delete_model :: "'s \<Rightarrow> string \<Rightarrow> string option \<Rightarrow> (storage_error + bool) \<times> 's"
  bk_list_datasources :: "'s \<Rightarrow> storage_error + data_source list"
  bk_get_datasource :: "'s \<Rightarrow> string \<Rightarrow> storage_error + data_source option"
  bk_create_datasource :: "'s \<Rightarrow> data_source \<Rightarrow> (storage_error + data_source) \<times> 's"
  bk_update_datasource :: "'s \<Rightarrow> string \<Rightarrow> data_source \<Rightarrow> (storage_error + data_source) \<times> 's"
  bk_delete_datasource :: "'s \<Rightarrow> string \<Rightarrow> (storage_error + bool) \<times> 's"
  bk_save_memory :: "'s \<Rightarrow> memory \<Rightarrow> (storage_error + memory) \<times> 's"
  bk_get_memory :: "'s \<Rightarrow> string \<Rightarrow> storage_error + memory option"
  bk_list_memories :: "'s \<Rightarrow> memory_filter \<Rightarrow> storage_error + memory list"
  bk_delete_memory :: "'s \<Rightarrow> string \<Rightarrow> (storage_error + bool) \<times> 's"
  bk_search :: "'s \<Rightarrow> string \<Rightarrow> nat \<Rightarrow> storage_error + index_hit list"

definition yaml_backend :: "bool \<Rightarrow> yaml_storage backend" where
  "yaml_backend wr =
     \<lparr>bk_list_models = (\<lambda>s d. Inr (yaml_list_models s d)),
      bk_get_model = (\<lambda>s n d. Inr (yaml_get_model s n d)),
      bk_create_model = yaml_create_model wr, bk_update_model = yaml_update_model wr,
      bk_delete_model = yaml_delete_model wr,
      bk_list_datasources = (\<lambda>s. Inr (yaml_list_datasources s)),
      bk_get_datasource = (\<lambda>s n. Inr (yaml_get_datasource s n)),
      bk_create_datasource = yaml_create_datasource wr, bk_update_datasource = yaml_update_datasource wr,
      bk_delete_datasource = yaml_delete_datasource wr, bk_save_memory = yaml_save_memory wr,
      bk_get_memory = (\<lambda>s i. Inr (yaml_get_memory s i)),
      bk_list_memories = (\<lambda>s f. Inr (yaml_list_memories s f)),
      bk_delete_memory = yaml_delete_memory wr,
      bk_search = (\<lambda>s q n. Inr (yaml_search s q n))\<rparr>"

subsection \<open>The contract of a store\<close>

text \<open>
  What a collection of named values owes its callers, whatever it holds: \<open>look\<close> is what it
  holds, creating refuses a taken name and otherwise adds the value under its own name, an
  update replaces an existing entry, deleting removes one and says whether it was there.
\<close>

locale named_store =
  fixes look :: "'s \<Rightarrow> string \<Rightarrow> 'v option"
    and create :: "'s \<Rightarrow> 'v \<Rightarrow> ('e + 'v) \<times> 's"
    and replace :: "'s \<Rightarrow> string \<Rightarrow> 'v \<Rightarrow> ('e + 'v) \<times> 's"
    and remove :: "'s \<Rightarrow> string \<Rightarrow> ('e + bool) \<times> 's"
    and name_of :: "'v \<Rightarrow> string"
  assumes create_free: "look s (name_of v) = None \<Longrightarrow>
      fst (create s v) = Inr v \<and> look (snd (create s v)) = (look s)(name_of v \<mapsto> v)"
    and create_taken: "look s (name_of v) \<noteq> None \<Longrightarrow>
      \<not> is_ok (fst (create s v)) \<and> snd (create s v) = s"
    and replace_found: "look s n \<noteq> None \<Longrightarrow>
      fst (replace s n v) = Inr v \<and> look (snd (replace s n v)) = (look s)(n \<mapsto> v)"
    and replace_missing: "look s n = None \<Longrightarrow>
      \<not> is_ok (fst (replace s n v)) \<and> snd (replace s n v) = s"
    and remove_spec: "fst (remove s n) = Inr (look s n \<noteq> None) \<and>
      look (snd (remove s n)) = (look s)(n := None)"
begin

lemma create_then_look: "is_ok (fst (create s v)) \<Longrightarrow> look (snd (create s v)) (name_of v) = Some v"
  using create_free create_taken by (metis fun_upd_same)

lemma create_twice: "\<not> is_ok (fst (create (snd (create s v)) v))"
  using create_free create_taken by (metis fun_upd_same option.distinct(1))

lemma create_remove:
  assumes "look s (name_of v) = None"
  shows "look (snd (remove (snd (create s v)) (name_of v))) = look s"
  using assms create_free [OF assms] remove_spec [of "snd (create s v)" "name_of v"] by auto

lemma remove_twice: "fst (remove (snd (remove s n)) n) = Inr False"
  using remove_spec [of s n] remove_spec [of "snd (remove s n)" n] by auto

lemma others_kept: "m \<noteq> name_of v \<Longrightarrow> look (snd (create s v)) m = look s m"
  "m \<noteq> n \<Longrightarrow> look (snd (replace s n v)) m = look s m"
  "m \<noteq> n \<Longrightarrow> look (snd (remove s n)) m = look s m"
  using create_free create_taken replace_found replace_missing remove_spec
  by (metis fun_upd_other)+

end

lemmas store_defs = and_return_def persist_models_def persist_datasources_def persist_memories_def
  persist_priority_def

lemma yaml_get_model_any: "yaml_get_model s n None = map_of (ys_models s) n"
  by (simp add: yaml_get_model_def split: option.split)

interpretation models_store: named_store "\<lambda>s n. yaml_get_model s n None" "yaml_create_model True"
  "yaml_update_model True" "\<lambda>s n. yaml_delete_model True s n None" mo_name
  by unfold_locales
    (auto simp: yaml_get_model_any yaml_create_model_def yaml_update_model_def yaml_delete_model_def store_defs
      update_conv' delete_conv' fun_eq_iff Let_def)

interpretation datasources_store: named_store yaml_get_datasource "yaml_create_datasource True"
  "yaml_update_datasource True" "yaml_delete_datasource True" ds_name
  by unfold_locales
    (auto simp: yaml_get_datasource_def yaml_create_datasource_def yaml_update_datasource_def
      yaml_delete_datasource_def store_defs update_conv' delete_conv' fun_eq_iff)

text \<open>
  A model is created once: when its name is free, \<open>create_model\<close> stores it, looking it up gives it
  back, creating it again is refused, and deleting it restores every lookup; when the name is
  taken, creating is refused with the name and changes nothing.
\<close>

lemma model_store_contract:
  "(case yaml_get_model s (mo_name m) None of
      None \<Rightarrow>
        (case yaml_create_model True s m of
           (r, s1) \<Rightarrow> r = Inr m \<and> yaml_get_model s1 (mo_name m) None = Some m \<and>
             \<not> is_ok (fst (yaml_create_model True s1 m)) \<and>
             (\<forall>n. yaml_get_model (snd (yaml_delete_model True s1 (mo_name m) None)) n None = yaml_get_model s n None))
    | Some old \<Rightarrow> yaml_create_model True s m = (Inl (StModelExists (mo_name m)), s))"
proof (cases "yaml_get_model s (mo_name m) None")
  case None
  obtain r s1 where c: "yaml_create_model True s m = (r, s1)" by fastforce
  have "r = Inr m" "yaml_get_model s1 (mo_name m) None = Some m"
    using models_store.create_free [OF None] c by (auto simp: fun_eq_iff)
  moreover have "\<not> is_ok (fst (yaml_create_model True s1 m))"
    using models_store.create_twice [of s m] c by simp
  moreover have "yaml_get_model (snd (yaml_delete_model True s1 (mo_name m) None)) n None = yaml_get_model s n None" for n
    using fun_cong [OF models_store.create_remove [OF None], of n] c by simp
  ultimately show ?thesis using None c by simp
next
  case (Some old)
  then show ?thesis by (simp add: yaml_create_model_def yaml_get_model_any)
qed

subsection \<open>Reloading\<close>

definition empty_disk :: yaml_disk where
  "empty_disk = \<lparr>yd_models = None, yd_datasources = None, yd_memories = None, yd_priority = None\<rparr>"

text \<open>The states a program reaches from an empty directory when every write succeeds and
  updates keep names.\<close>

inductive yaml_reachable :: "yaml_storage \<Rightarrow> bool" where
  opened: "yaml_reachable (yaml_new empty_disk)"
| model_created: "yaml_reachable s \<Longrightarrow> yaml_reachable (snd (yaml_create_model True s m))"
| model_updated: "yaml_reachable s \<Longrightarrow> yaml_reachable (snd (yaml_update_model True s (mo_name m) m))"
| model_deleted: "yaml_reachable s \<Longrightarrow> yaml_reachable (snd (yaml_delete_model True s n d))"
| ds_created: "yaml_reachable s \<Longrightarrow> yaml_reachable (snd (yaml_create_datasource True s ds))"
| ds_updated: "yaml_reachable s \<Longrightarrow> yaml_reachable (snd (yaml_update_datasource True s (ds_name ds) ds))"
| ds_deleted: "yaml_reachable s \<Longrightarrow> yaml_reachable (snd (yaml_delete_datasource True s n))"
| memory_saved: "yaml_reachable s \<Longrightarrow> yaml_reachable (snd (yaml_save_memory True s mem))"
| memory_deleted: "yaml_reachable s \<Longrightarrow> yaml_reachable (snd (yaml_delete_memory True s i))"
| priority_set: "yaml_reachable s \<Longrightarrow> yaml_reachable (snd (yaml_set_datasource_priority True s p))"

definition store_ok :: "('v \<Rightarrow> string) \<Rightarrow> (string \<times> 'v) list \<Rightarrow> 'v list option \<Rightarrow> bool" where
  "store_ok key xs file \<longleftrightarrow> distinct (map fst xs) \<and> (\<forall>(k, v) \<in> set xs. k = key v) \<and>
     (file = Some (map snd xs) \<or> (file = None \<and> xs = []))"

lemma update_new: "k \<notin> fst ` set xs \<Longrightarrow> AList.update k v xs = xs @ [(k, v)]"
  by (induction xs) auto

lemma set_update_subset: "set (AList.update k v xs) \<subseteq> insert (k, v) (set xs)"
  by (induction xs) auto

lemma set_delete_subset: "set (AList.delete k xs) \<subseteq> set xs"
  by (auto simp: AList.delete_eq)

lemma store_ok_update:
  "store_ok key xs f \<Longrightarrow> store_ok key (AList.update (key v) v xs) (Some (map snd (AList.update (key v) v xs)))"
  using set_update_subset [of "key v" v xs] by (fastforce simp: store_ok_def distinct_update)

lemma store_ok_delete:
  "store_ok key xs f \<Longrightarrow> store_ok key (AList.delete k xs) (Some (map snd (AList.delete k xs)))"
  using set_delete_subset [of k xs] by (auto simp: store_ok_def AList.delete_eq distinct_map_filter)

lemma insert_all_append:
  "distinct (map fst (ys @ xs)) \<Longrightarrow> \<forall>(k, v) \<in> set xs. k = key v \<Longrightarrow> insert_all key (map snd xs) ys = ys @ xs"
  unfolding insert_all_def by (induction xs arbitrary: ys) (auto simp: update_new)

lemma store_ok_reload:
  "store_ok key xs f \<Longrightarrow> (case f of Some vs \<Rightarrow> insert_all key vs [] | None \<Rightarrow> []) = xs"
  using insert_all_append [of "[]" xs key] by (auto simp: store_ok_def)

definition yaml_inv :: "yaml_storage \<Rightarrow> bool" where
  "yaml_inv s \<longleftrightarrow>
     store_ok mo_name (ys_models s) (yd_models (ys_disk s)) \<and>
     store_ok ds_name (ys_datasources s) (yd_datasources (ys_disk s)) \<and>
     store_ok me_id (ys_memories s) (yd_memories (ys_disk s)) \<and>
     (yd_priority (ys_disk s) = Some (ys_priority s) \<or> (yd_priority (ys_disk s) = None \<and> ys_priority s = []))"

lemma yaml_reachable_inv: "yaml_reachable s \<Longrightarrow> yaml_inv s"
proof (induction rule: yaml_reachable.induct)
  case opened
  then show ?case by (simp add: yaml_inv_def yaml_new_def empty_disk_def store_ok_def)
qed (auto simp: yaml_inv_def yaml_create_model_def yaml_update_model_def yaml_delete_model_def
    yaml_create_datasource_def yaml_update_datasource_def yaml_delete_datasource_def yaml_save_memory_def
    yaml_delete_memory_def yaml_set_datasource_priority_def store_defs Let_def
    intro: store_ok_update store_ok_delete split: option.splits)

lemma yaml_inv_reload:
  assumes "yaml_inv s"
  shows "yaml_load (yaml_new (ys_disk s)) = s"
proof -
  note inv = assms [unfolded yaml_inv_def]
  have "(case yd_priority (ys_disk s) of Some p \<Rightarrow> p | None \<Rightarrow> []) = ys_priority s" using inv by auto
  moreover have "(case yd_models (ys_disk s) of Some vs \<Rightarrow> insert_all mo_name vs [] | None \<Rightarrow> []) = ys_models s"
    "(case yd_datasources (ys_disk s) of Some vs \<Rightarrow> insert_all ds_name vs [] | None \<Rightarrow> []) = ys_datasources s"
    "(case yd_memories (ys_disk s) of Some vs \<Rightarrow> insert_all me_id vs [] | None \<Rightarrow> []) = ys_memories s"
    using inv by (intro store_ok_reload; simp)+
  ultimately show ?thesis
    by (cases s) (auto simp: yaml_load_def yaml_new_def Let_def split: option.splits)
qed

text \<open>The same with updates that may rename: the value is then kept under its old name.\<close>

inductive yaml_written :: "yaml_storage \<Rightarrow> bool" where
  new: "yaml_written (yaml_new empty_disk)"
| create_model: "yaml_written s \<Longrightarrow> yaml_written (snd (yaml_create_model True s m))"
| update_model: "yaml_written s \<Longrightarrow> yaml_written (snd (yaml_update_model True s n m))"
| delete_model: "yaml_written s \<Longrightarrow> yaml_written (snd (yaml_delete_model True s n d))"
| create_datasource: "yaml_written s \<Longrightarrow> yaml_written (snd (yaml_create_datasource True s ds))"
| update_datasource: "yaml_written s \<Longrightarrow> yaml_written (snd (yaml_update_datasource True s n ds))"
| delete_datasource: "yaml_written s \<Longrightarrow> yaml_written (snd (yaml_delete_datasource True s n))"
| save_memory: "yaml_written s \<Longrightarrow> yaml_written (snd (yaml_save_memory True s mem))"
| delete_memory: "yaml_written s \<Longrightarrow> yaml_written (snd (yaml_delete_memory True s i))"
| set_priority: "yaml_written s \<Longrightarrow> yaml_written (snd (yaml_set_datasource_priority True s p))"

lemma yaml_reachable_written: "yaml_reachable s \<Longrightarrow> yaml_written s"
  by (induction rule: yaml_reachable.induct) (rule yaml_written.intros; assumption?)+

definition store_kept :: "(string \<times> 'v) list \<Rightarrow> 'v list option \<Rightarrow> bool" where
  "store_kept xs file \<longleftrightarrow> distinct (map fst xs) \<and> (file = Some (map snd xs) \<or> (file = None \<and> xs = []))"

lemma store_kept_written:
  "store_kept xs f \<Longrightarrow> store_kept (AList.update k v xs) (Some (map snd (AList.update k v xs)))"
  "store_kept xs f \<Longrightarrow> store_kept (AList.delete k xs) (Some (map snd (AList.delete k xs)))"
  by (simp_all add: store_kept_def distinct_update AList.delete_eq distinct_map_filter)

lemma insert_all_own_keys:
  "\<forall>(k, v) \<in> set ys. k = key v \<Longrightarrow> \<forall>(k, v) \<in> set (insert_all key vs ys). k = key v"
proof (induction vs arbitrary: ys)
  case (Cons v vs)
  have "\<forall>(k, v) \<in> set (AList.update (key v) v ys). k = key v"
    using Cons.prems set_update_subset [of "key v" v ys] by auto
  from Cons.IH [OF this] show ?case by (simp add: insert_all_def)
qed (simp add: insert_all_def)

text \<open>What is read back from the file is the map exactly when everything stands under its own name.\<close>

lemma store_kept_reload:
  assumes "store_kept xs f"
  shows "map_of (case f of Some vs \<Rightarrow> insert_all key vs [] | None \<Rightarrow> []) = map_of xs \<longleftrightarrow>
    (\<forall>k v. map_of xs k = Some v \<longrightarrow> key v = k)"
proof
  assume eq: "map_of (case f of Some vs \<Rightarrow> insert_all key vs [] | None \<Rightarrow> []) = map_of xs"
  have "\<forall>(k, v) \<in> set (case f of Some vs \<Rightarrow> insert_all key vs [] | None \<Rightarrow> []). k = key v"
    using insert_all_own_keys [of "[]" key] by (cases f) auto
  then show "\<forall>k v. map_of xs k = Some v \<longrightarrow> key v = k"
    unfolding eq [symmetric] by (fastforce dest: map_of_SomeD)
next
  assume "\<forall>k v. map_of xs k = Some v \<longrightarrow> key v = k"
  then have "store_ok key xs f" using assms by (auto simp: store_ok_def store_kept_def)
  from store_ok_reload [OF this] show "map_of (case f of Some vs \<Rightarrow> insert_all key vs [] | None \<Rightarrow> []) = map_of xs"
    by simp
qed

lemma yaml_written_inv:
  "yaml_written s \<Longrightarrow>
     store_kept (ys_models s) (yd_models (ys_disk s)) \<and> store_kept (ys_datasources s) (yd_datasources (ys_disk s)) \<and>
     store_ok me_id (ys_memories s) (yd_memories (ys_disk s)) \<and>
     (yd_priority (ys_disk s) = Some (ys_priority s) \<or> (yd_priority (ys_disk s) = None \<and> ys_priority s = []))"
proof (induction rule: yaml_written.induct)
  case new
  then show ?case by (simp add: yaml_new_def empty_disk_def store_ok_def store_kept_def)
qed (auto simp: yaml_create_model_def yaml_update_model_def yaml_delete_model_def
    yaml_create_datasource_def yaml_update_datasource_def yaml_delete_datasource_def yaml_save_memory_def
    yaml_delete_memory_def yaml_set_datasource_priority_def store_defs Let_def
    intro: store_kept_written store_ok_update store_ok_delete split: option.splits)

lemma yaml_load_new:
  "ys_models (yaml_load (yaml_new d)) = (case yd_models d of Some vs \<Rightarrow> insert_all mo_name vs [] | None \<Rightarrow> [])"
  "ys_datasources (yaml_load (yaml_new d)) = (case yd_datasources d of Some vs \<Rightarrow> insert_all ds_name vs [] | None \<Rightarrow> [])"
  "ys_memories (yaml_load (yaml_new d)) = (case yd_memories d of Some vs \<Rightarrow> insert_all me_id vs [] | None \<Rightarrow> [])"
  "ys_priority (yaml_load (yaml_new d)) = (case yd_priority d of Some p \<Rightarrow> p | None \<Rightarrow> [])"
  by (auto simp: yaml_load_def yaml_new_def Let_def split: option.split)

text \<open>
  C16. Take any state that is reached from an empty directory by writes that succeed, and let a fresh process
  load the files. It has the same memories and the same priorities, and it has the same models (the same
  datasources) by name exactly when each of them is stored under its own name, which they are whenever
  no update renamed anything.
\<close>

theorem yaml_reload:
  assumes "yaml_written s"
  shows "map_of (ys_memories (yaml_load (yaml_new (ys_disk s)))) = map_of (ys_memories s) \<and>
    ys_priority (yaml_load (yaml_new (ys_disk s))) = ys_priority s \<and>
    (map_of (ys_models (yaml_load (yaml_new (ys_disk s)))) = map_of (ys_models s) \<longleftrightarrow>
      (\<forall>n m. yaml_get_model s n None = Some m \<longrightarrow> mo_name m = n)) \<and>
    (map_of (ys_datasources (yaml_load (yaml_new (ys_disk s)))) = map_of (ys_datasources s) \<longleftrightarrow>
      (\<forall>n d. yaml_get_datasource s n = Some d \<longrightarrow> ds_name d = n)) \<and>
    (yaml_reachable s \<longrightarrow> (\<forall>n m. yaml_get_model s n None = Some m \<longrightarrow> mo_name m = n) \<and>
      (\<forall>n d. yaml_get_datasource s n = Some d \<longrightarrow> ds_name d = n))"
proof -
  note inv = yaml_written_inv [OF assms]
  have "ys_memories (yaml_load (yaml_new (ys_disk s))) = ys_memories s"
    unfolding yaml_load_new by (rule store_ok_reload) (use inv in blast)
  moreover have "ys_priority (yaml_load (yaml_new (ys_disk s))) = ys_priority s"
    using inv by (auto simp: yaml_load_new)
  moreover have "(\<forall>n m. map_of (ys_models s) n = Some m \<longrightarrow> mo_name m = n) \<and>
      (\<forall>n d. map_of (ys_datasources s) n = Some d \<longrightarrow> ds_name d = n)" if "yaml_reachable s"
    using yaml_reachable_inv [OF that] by (fastforce simp: yaml_inv_def store_ok_def dest: map_of_SomeD)
  ultimately show ?thesis
    using store_kept_reload [of "ys_models s" _ mo_name] store_kept_reload [of "ys_datasources s" _ ds_name] inv
    by (simp add: yaml_load_new yaml_get_model_any yaml_get_datasource_def)
qed

lemma insert_all_keys: "fst ` set (insert_all key vs xs) = fst ` set xs \<union> key ` set vs"
  unfolding insert_all_def by (induction vs arbitrary: xs) (auto simp: dom_update)

lemma map_of_in_update: "v \<in> snd ` set (AList.update k v xs)"
  by (induction xs) force+

text \<open>
  An update whose new value carries another name stores it under the old name; after a reload the
  files give a model under the new name.
\<close>

lemma update_can_rename:
  assumes "yaml_get_model s n None \<noteq> None" and "mo_name m \<noteq> n"
  shows "yaml_get_model (snd (yaml_update_model True s n m)) n None = Some m \<and>
    yaml_get_model (yaml_load (yaml_new (ys_disk (snd (yaml_update_model True s n m))))) (mo_name m) None \<noteq> None"
proof -
  let ?s = "snd (yaml_update_model True s n m)"
  have d: "yd_models (ys_disk ?s) = Some (map snd (AList.update n m (ys_models s)))"
    using assms by (auto simp: yaml_get_model_any yaml_update_model_def store_defs)
  have "mo_name m \<in> fst ` set (insert_all mo_name (map snd (AList.update n m (ys_models s))) [])"
    using map_of_in_update [of m n "ys_models s"] by (force simp: insert_all_keys)
  then show ?thesis using assms d
    by (auto simp: yaml_get_model_any yaml_load_def yaml_new_def Let_def map_of_eq_None_iff
        models_store.replace_found [simplified yaml_get_model_any])
qed

definition storage_example :: "yaml_storage \<times> model" where
  "storage_example =
     (let m = \<lparr>mo_name = ''orders'', mo_datasource = ''db'', mo_description = None, mo_measures = [],
               mo_dimensions = [], mo_time_dimensions = [], mo_joins = [], mo_sql = None, mo_meta = []\<rparr>
      in (snd (yaml_create_model True (yaml_new empty_disk) m), m\<lparr>mo_name := ''sales''\<rparr>))"

lemma storage_example_get:
  "yaml_get_model (fst storage_example) ''orders'' None \<noteq> None"
  "yaml_get_model (fst storage_example) (mo_name (snd storage_example)) None = None"
  "mo_name (snd storage_example) = ''sales''"
  by code_simp+

lemma update_can_rename_witness:
  "yaml_get_model (snd (yaml_update_model True (fst storage_example) ''orders'' (snd storage_example))) ''orders'' None
     = Some (snd storage_example)"
  using update_can_rename [of "fst storage_example" "''orders''" "snd storage_example"] storage_example_get by simp

theorem yaml_reload_witness:
  "map_of (ys_models (yaml_load (yaml_new (ys_disk (fst storage_example))))) = map_of (ys_models (fst storage_example)) \<and>
   map_of (ys_models (yaml_load (yaml_new (ys_disk
       (snd (yaml_update_model True (fst storage_example) ''orders'' (snd storage_example))))))) \<noteq>
     map_of (ys_models (snd (yaml_update_model True (fst storage_example) ''orders'' (snd storage_example))))"
proof -
  have written: "yaml_written (fst storage_example)" "yaml_reachable (fst storage_example)"
    by (auto simp: storage_example_def Let_def intro: yaml_written.intros yaml_reachable.intros)
  let ?s = "snd (yaml_update_model True (fst storage_example) ''orders'' (snd storage_example))"
  have "yaml_get_model ?s ''orders'' None = Some (snd storage_example)"
    using update_can_rename [of "fst storage_example" "''orders''" "snd storage_example"] storage_example_get by simp
  then have "\<not> (\<forall>n m. yaml_get_model ?s n None = Some m \<longrightarrow> mo_name m = n)" using storage_example_get(3) by force
  then show ?thesis using yaml_reload [OF written(1)] yaml_reload [OF yaml_written.update_model [OF written(1)]] written(2)
    by simp
qed

text \<open>
  When the write of the file fails, creating a model reports the error but the model stays in the
  memory map, and is visible to readers, while the file is unchanged.
\<close>

lemma failed_write_keeps_memory:
  assumes "yaml_get_model s (mo_name m) None = None"
  shows "fst (yaml_create_model False s m) = Inl IoError \<and>
    yaml_get_model (snd (yaml_create_model False s m)) (mo_name m) None = Some m \<and>
    ys_disk (snd (yaml_create_model False s m)) = ys_disk s"
  using assms by (simp add: yaml_create_model_def yaml_get_model_any store_defs update_conv')

lemma failed_write_keeps_memory_witness:
  "fst (yaml_create_model False (fst storage_example) (snd storage_example)) = Inl IoError"
  using failed_write_keeps_memory [of "fst storage_example" "snd storage_example"] storage_example_get by simp

text \<open>
  Restoring a backup of the supported version never returns: \<open>persist_models\<close> asks for the read lock
  that the restoring task itself holds for writing. Another version is refused without a change.
\<close>

lemma restore_never_returns:
  "yaml_restore wr s b =
     (if sb_version b = ''1'' then None
      else Some (Inl (BackendError (''Unsupported backup version: '' @ sb_version b)), s))"
  by (simp add: yaml_restore_def persist_models_def)

subsection \<open>Search and lists\<close>

lemma yaml_search_take:
  "yaml_search s q limit =
     take limit (rev (sort_key ih_score (rev (List.map_filter (model_hit (to_lower q)) (map snd (ys_models s))))))"
  by (simp add: yaml_search_def)

lemma sorted_rev_take: "sorted (rev xs) \<Longrightarrow> sorted (rev (take n xs))"
  by (metis rev_take sorted_wrt_drop)

lemma length_map_filter_le: "length (List.map_filter f xs) \<le> length xs"
  by (induction xs) (auto simp: List.map_filter_simps split: option.splits)

text \<open>
  A search returns at most \<open>limit\<close> hits in descending score, each one the hit of a stored model, and
  with room for all models exactly the hits of the matching ones.
\<close>

lemma search_ranked:
  "length (yaml_search s q limit) \<le> limit \<and>
   sorted (rev (map ih_score (yaml_search s q limit))) \<and>
   Some ` set (yaml_search s q limit) \<subseteq> model_hit (to_lower q) ` snd ` set (ys_models s) \<and>
   Some ` set (yaml_search s q (length (ys_models s))) = model_hit (to_lower q) ` snd ` set (ys_models s) - {None}"
proof -
  let ?hits = "List.map_filter (model_hit (to_lower q)) (map snd (ys_models s))"
  have all: "Some ` set ?hits = model_hit (to_lower q) ` snd ` set (ys_models s) - {None}"
    unfolding set_map_filter
    by (auto simp: image_iff) (metis option.exhaust snd_conv)+
  have "sorted (rev (take limit (rev (map ih_score (sort_key ih_score (rev ?hits))))))"
    by (rule sorted_rev_take) simp
  moreover have "Some ` set (yaml_search s q limit) \<subseteq> Some ` set ?hits"
    using set_take_subset by (fastforce simp: yaml_search_def)
  moreover have "set (yaml_search s q (length (ys_models s))) = set ?hits"
    using length_map_filter_le [of "model_hit (to_lower q)" "map snd (ys_models s)"]
    by (simp add: yaml_search_def)
  ultimately show ?thesis
    unfolding all by (simp add: yaml_search_def rev_map take_map all) blast
qed

text \<open>
  Listing memories filters by text and by entity, then skips \<open>offset\<close> and keeps \<open>limit\<close> of them.
\<close>

lemma list_memories_window:
  "yaml_list_memories s f =
     (let matching = filter (\<lambda>m. (case mf_query f of Some q \<Rightarrow> str_contains (to_lower q) (to_lower (me_learning m)) | None \<Rightarrow> True)
            \<and> (case mf_entity f of Some e \<Rightarrow> e \<in> set (me_linked_entities m) | None \<Rightarrow> True)) (map snd (ys_memories s));
          rest = drop (unwrap_or (mf_offset f) 0) matching
      in take (unwrap_or (mf_limit f) (length rest)) rest)"
  by (auto simp: yaml_list_memories_def Let_def conj_commute split: option.splits)

end
