(* ===== verification/Sql_Storage.thy ===== *)
theory Sql_Storage
  imports Storage Security
begin

text \<open>
  The storage backends over a database (\<open>crates/graphnight-storage/src/sqlite.rs\<close>, \<open>postgres.rs\<close>). SQLite
  keeps maps of models and datasources in memory in front of its tables, PostgreSQL asks its tables
  every time.

  The database is a parameter: what it answers to a statement with its bound values. Statements are
  written with single spaces. A stored value is its JSON text, and reading it back is a parameter too.
\<close>

subsection \<open>The database\<close>

datatype db_value = DbText string | DbInt int

record 'v codec =
  co_text :: "'v \<Rightarrow> string"
  co_read :: "string \<Rightarrow> string + 'v"

record 'd meta_lib =
  md_execute :: "string \<Rightarrow> db_value list \<Rightarrow> 'd \<Rightarrow> (string + nat) \<times> 'd"
  md_fetch :: "string \<Rightarrow> db_value list \<Rightarrow> 'd \<Rightarrow> string + (string \<Rightarrow> string) list"
  md_models :: "model codec"
  md_datasources :: "data_source codec"
  md_memories :: "memory codec"
  md_names :: "string list codec"

definition db_execute ::
    "'d meta_lib \<Rightarrow> string \<Rightarrow> db_value list \<Rightarrow> 'd \<Rightarrow> (storage_error + nat) \<times> 'd" where
  "db_execute lib sql binds d = (case md_execute lib sql binds d of (r, d') \<Rightarrow> (map_err SqlError r, d'))"

definition db_fetch ::
    "'d meta_lib \<Rightarrow> string \<Rightarrow> db_value list \<Rightarrow> 'd \<Rightarrow> storage_error + (string \<Rightarrow> string) list" where
  "db_fetch lib sql binds d = map_err SqlError (md_fetch lib sql binds d)"

text \<open>The column \<open>data\<close> of every row, of the first row, decoded.\<close>

definition decode :: "'v codec \<Rightarrow> (string \<Rightarrow> string) \<Rightarrow> storage_error + 'v" where
  "decode c row = map_err SerializationError (co_read c (row ''data''))"

definition fetch_all ::
    "'d meta_lib \<Rightarrow> 'v codec \<Rightarrow> string \<Rightarrow> db_value list \<Rightarrow> 'd \<Rightarrow> storage_error + 'v list" where
  "fetch_all lib c sql binds d = rbind (db_fetch lib sql binds d) (rmap (decode c))"

definition fetch_optional ::
    "'d meta_lib \<Rightarrow> 'v codec \<Rightarrow> string \<Rightarrow> db_value list \<Rightarrow> 'd \<Rightarrow> storage_error + 'v option" where
  "fetch_optional lib c sql binds d =
     rbind (db_fetch lib sql binds d) (\<lambda>rows.
       case rows of [] \<Rightarrow> Inr None | row # _ \<Rightarrow> rbind (decode c row) (\<lambda>v. Inr (Some v)))"

text \<open>\<open>usize as i64\<close>\<close>

definition as_i64 :: "nat \<Rightarrow> int" where
  "as_i64 n = (let i = int n mod 2 ^ 64 in if i < 2 ^ 63 then i else i - 2 ^ 64)"

definition model_key :: "string \<Rightarrow> string option \<Rightarrow> string" where
  "model_key name datasource = (case datasource of Some ds \<Rightarrow> ds @ ''.'' @ name | None \<Rightarrow> name)"

text \<open>Statements one after the other until one fails.\<close>

fun execute_each :: "'d meta_lib \<Rightarrow> string list \<Rightarrow> 'd \<Rightarrow> (storage_error + unit) \<times> 'd" where
  "execute_each lib [] d = (Inr (), d)"
| "execute_each lib (sql # rest) d =
     (case db_execute lib sql [] d of
        (Inl e, d') \<Rightarrow> (Inl e, d')
      | (Inr _, d') \<Rightarrow> execute_each lib rest d')"

subsection \<open>SQLite\<close>

record 'd sqlite_storage =
  sq_pool :: 'd
  sq_models :: "(string \<times> model) list"
  sq_datasources :: "(string \<times> data_source) list"

definition sqlite_schema :: "string list" where
  "sqlite_schema =
     [''CREATE TABLE IF NOT EXISTS models ( key TEXT PRIMARY KEY, name TEXT NOT NULL, datasource TEXT NOT NULL, data TEXT NOT NULL )'',
      ''CREATE TABLE IF NOT EXISTS datasources ( name TEXT PRIMARY KEY, data TEXT NOT NULL )'',
      ''CREATE TABLE IF NOT EXISTS memories ( id TEXT PRIMARY KEY, data TEXT NOT NULL, created_at TEXT NOT NULL DEFAULT (datetime('' @ squote @ ''now'' @ squote @ '')) )'',
      ''CREATE TABLE IF NOT EXISTS config ( key TEXT PRIMARY KEY, value TEXT NOT NULL )'']"

definition warm_cache :: "'d meta_lib \<Rightarrow> 'd \<Rightarrow> storage_error + 'd sqlite_storage" where
  "warm_cache lib d =
     rbind (fetch_all lib (md_models lib) ''SELECT data FROM models'' [] d) (\<lambda>ms.
     rbind (fetch_all lib (md_datasources lib) ''SELECT data FROM datasources'' [] d) (\<lambda>dss.
       Inr \<lparr>sq_pool = d, sq_models = insert_all mo_name ms [], sq_datasources = insert_all ds_name dss []\<rparr>))"

definition sqlite_new :: "'d meta_lib \<Rightarrow> 'd \<Rightarrow> storage_error + 'd sqlite_storage" where
  "sqlite_new lib d =
     (case execute_each lib sqlite_schema d of
        (Inl e, _) \<Rightarrow> Inl e
      | (Inr _, d') \<Rightarrow> warm_cache lib d')"

text \<open>What a statement leaves of the pool, and the value on success.\<close>

definition sqlite_write ::
    "'d meta_lib \<Rightarrow> string \<Rightarrow> db_value list \<Rightarrow> 'd sqlite_storage \<Rightarrow> 'a \<Rightarrow> (storage_error + 'a) \<times> 'd sqlite_storage" where
  "sqlite_write lib sql binds s v =
     (case db_execute lib sql binds (sq_pool s) of
        (r, d) \<Rightarrow> (rbind r (\<lambda>_. Inr v), s\<lparr>sq_pool := d\<rparr>))"

definition sqlite_list_models :: "'d sqlite_storage \<Rightarrow> string option \<Rightarrow> model list" where
  "sqlite_list_models s datasource =
     (case datasource of
        Some ds \<Rightarrow> filter (\<lambda>m. mo_datasource m = ds) (map snd (sq_models s))
      | None \<Rightarrow> map snd (sq_models s))"

definition sqlite_get_model :: "'d sqlite_storage \<Rightarrow> string \<Rightarrow> string option \<Rightarrow> model option" where
  "sqlite_get_model s name datasource = map_of (sq_models s) (model_key name datasource)"

definition sqlite_create_model ::
    "'d meta_lib \<Rightarrow> 'd sqlite_storage \<Rightarrow> model \<Rightarrow> (storage_error + model) \<times> 'd sqlite_storage" where
  "sqlite_create_model lib s m =
     (let key = model_key (mo_name m) (Some (mo_datasource m)) in
      if map_of (sq_models s) key \<noteq> None then (Inl (StModelExists key), s)
      else sqlite_write lib ''INSERT INTO models (key, name, datasource, data) VALUES (?, ?, ?, ?)''
             [DbText key, DbText (mo_name m), DbText (mo_datasource m), DbText (co_text (md_models lib) m)]
             (s\<lparr>sq_models := AList.update key m (sq_models s)\<rparr>) m)"

definition sqlite_update_model ::
    "'d meta_lib \<Rightarrow> 'd sqlite_storage \<Rightarrow> string \<Rightarrow> model \<Rightarrow> (storage_error + model) \<times> 'd sqlite_storage" where
  "sqlite_update_model lib s name m =
     (let key = model_key name (Some (mo_datasource m)) in
      if map_of (sq_models s) key = None then (Inl (StModelNotFound key), s)
      else sqlite_write lib ''UPDATE models SET data = ? WHERE key = ?''
             [DbText (co_text (md_models lib) m), DbText key]
             (s\<lparr>sq_models := AList.update key m (sq_models s)\<rparr>) m)"

definition sqlite_delete_model ::
    "'d meta_lib \<Rightarrow> 'd sqlite_storage \<Rightarrow> string \<Rightarrow> string option \<Rightarrow> (storage_error + bool) \<times> 'd sqlite_storage" where
  "sqlite_delete_model lib s name datasource =
     (let key = model_key name datasource in
      if map_of (sq_models s) key \<noteq> None
      then sqlite_write lib ''DELETE FROM models WHERE key = ?'' [DbText key]
             (s\<lparr>sq_models := AList.delete key (sq_models s)\<rparr>) True
      else (Inr False, s))"

definition sqlite_list_datasources :: "'d sqlite_storage \<Rightarrow> data_source list" where
  "sqlite_list_datasources s = map snd (sq_datasources s)"

definition sqlite_get_datasource :: "'d sqlite_storage \<Rightarrow> string \<Rightarrow> data_source option" where
  "sqlite_get_datasource s name = map_of (sq_datasources s) name"

definition sqlite_create_datasource ::
    "'d meta_lib \<Rightarrow> 'd sqlite_storage \<Rightarrow> data_source \<Rightarrow> (storage_error + data_source) \<times> 'd sqlite_storage" where
  "sqlite_create_datasource lib s ds =
     (if map_of (sq_datasources s) (ds_name ds) \<noteq> None then (Inl (StDatasourceExists (ds_name ds)), s)
      else sqlite_write lib ''INSERT INTO datasources (name, data) VALUES (?, ?)''
             [DbText (ds_name ds), DbText (co_text (md_datasources lib) ds)]
             (s\<lparr>sq_datasources := AList.update (ds_name ds) ds (sq_datasources s)\<rparr>) ds)"

definition sqlite_update_datasource ::
    "'d meta_lib \<Rightarrow> 'd sqlite_storage \<Rightarrow> string \<Rightarrow> data_source \<Rightarrow> (storage_error + data_source) \<times> 'd sqlite_storage" where
  "sqlite_update_datasource lib s name ds =
     (if map_of (sq_datasources s) name = None then (Inl (StDatasourceNotFound name), s)
      else sqlite_write lib ''UPDATE datasources SET data = ? WHERE name = ?''
             [DbText (co_text (md_datasources lib) ds), DbText name]
             (s\<lparr>sq_datasources := AList.update name ds (sq_datasources s)\<rparr>) ds)"

definition sqlite_delete_datasource ::
    "'d meta_lib \<Rightarrow> 'd sqlite_storage \<Rightarrow> string \<Rightarrow> (storage_error + bool) \<times> 'd sqlite_storage" where
  "sqlite_delete_datasource lib s name =
     (if map_of (sq_datasources s) name \<noteq> None
      then sqlite_write lib ''DELETE FROM datasources WHERE name = ?'' [DbText name]
             (s\<lparr>sq_datasources := AList.delete name (sq_datasources s)\<rparr>) True
      else (Inr False, s))"

definition sqlite_get_datasource_priority :: "'d meta_lib \<Rightarrow> 'd sqlite_storage \<Rightarrow> storage_error + string list" where
  "sqlite_get_datasource_priority lib s =
     rbind (db_fetch lib (''SELECT value FROM config WHERE key = '' @ squote @ ''datasource_priority'' @ squote) [] (sq_pool s))
       (\<lambda>rows. case rows of
          [] \<Rightarrow> Inr []
        | row # _ \<Rightarrow> map_err SerializationError (co_read (md_names lib) (row ''value'')))"

definition sqlite_set_datasource_priority ::
    "'d meta_lib \<Rightarrow> 'd sqlite_storage \<Rightarrow> string list \<Rightarrow> (storage_error + unit) \<times> 'd sqlite_storage" where
  "sqlite_set_datasource_priority lib s p =
     sqlite_write lib (''INSERT INTO config (key, value) VALUES ('' @ squote @ ''datasource_priority'' @ squote
         @ '', ?) ON CONFLICT(key) DO UPDATE SET value = ?'')
       [DbText (co_text (md_names lib) p), DbText (co_text (md_names lib) p)] s ()"

definition sqlite_save_memory ::
    "'d meta_lib \<Rightarrow> 'd sqlite_storage \<Rightarrow> memory \<Rightarrow> (storage_error + memory) \<times> 'd sqlite_storage" where
  "sqlite_save_memory lib s m =
     sqlite_write lib ''INSERT INTO memories (id, data) VALUES (?, ?) ON CONFLICT(id) DO UPDATE SET data = ?''
       [DbText (me_id m), DbText (co_text (md_memories lib) m), DbText (co_text (md_memories lib) m)] s m"

definition sqlite_get_memory :: "'d meta_lib \<Rightarrow> 'd sqlite_storage \<Rightarrow> string \<Rightarrow> storage_error + memory option" where
  "sqlite_get_memory lib s i =
     fetch_optional lib (md_memories lib) ''SELECT data FROM memories WHERE id = ?'' [DbText i] (sq_pool s)"

definition sqlite_memories_sql :: "memory_filter \<Rightarrow> string" where
  "sqlite_memories_sql f =
     ''SELECT data FROM memories''
     @ (if mf_entity f \<noteq> None then '' WHERE data LIKE ?'' else [])
     @ '' ORDER BY created_at DESC''
     @ (case mf_limit f of Some n \<Rightarrow> '' LIMIT '' @ nat_str n | None \<Rightarrow> [])
     @ (case mf_offset f of Some n \<Rightarrow> '' OFFSET '' @ nat_str n | None \<Rightarrow> [])"

text \<open>The text of the query is sought among the rows that the statement left.\<close>

definition learning_matches :: "memory_filter \<Rightarrow> memory \<Rightarrow> bool" where
  "learning_matches f m =
     (case mf_query f of Some q \<Rightarrow> str_contains (to_lower q) (to_lower (me_learning m)) | None \<Rightarrow> True)"

definition like_pattern :: "string \<Rightarrow> string" where
  "like_pattern s = ''%'' @ s @ ''%''"

definition sqlite_list_memories ::
    "'d meta_lib \<Rightarrow> 'd sqlite_storage \<Rightarrow> memory_filter \<Rightarrow> storage_error + memory list" where
  "sqlite_list_memories lib s f =
     rbind (fetch_all lib (md_memories lib) (sqlite_memories_sql f)
              (case mf_entity f of Some entity \<Rightarrow> [DbText (like_pattern entity)] | None \<Rightarrow> []) (sq_pool s))
       (\<lambda>ms. Inr (filter (learning_matches f) ms))"

definition sqlite_delete_memory ::
    "'d meta_lib \<Rightarrow> 'd sqlite_storage \<Rightarrow> string \<Rightarrow> (storage_error + bool) \<times> 'd sqlite_storage" where
  "sqlite_delete_memory lib s i =
     (case db_execute lib ''DELETE FROM memories WHERE id = ?'' [DbText i] (sq_pool s) of
        (r, d) \<Rightarrow> (rbind r (\<lambda>n. Inr (0 < n)), s\<lparr>sq_pool := d\<rparr>))"

text \<open>One row of a search; its score is one, no fields are named.\<close>

definition row_hit :: "'d meta_lib \<Rightarrow> (string \<Rightarrow> string) \<Rightarrow> storage_error + index_hit" where
  "row_hit lib row =
     rbind (decode (md_models lib) row) (\<lambda>m.
       Inr \<lparr>ih_model_name = row ''name'', ih_datasource = row ''datasource'', ih_score = 1, ih_matched_fields = [],
            ih_snippet = unwrap_or (mo_description m) []\<rparr>)"

definition sqlite_search :: "'d meta_lib \<Rightarrow> 'd sqlite_storage \<Rightarrow> string \<Rightarrow> nat \<Rightarrow> storage_error + index_hit list" where
  "sqlite_search lib s q limit =
     (let term' = like_pattern (to_lower q) in
      rbind (db_fetch lib ''SELECT name, datasource, data FROM models WHERE name LIKE ? OR data LIKE ? LIMIT ?''
               [DbText term', DbText term', DbInt (as_i64 limit)] (sq_pool s)) (rmap (row_hit lib)))"

definition sqlite_backend :: "'d meta_lib \<Rightarrow> 'd sqlite_storage backend" where
  "sqlite_backend lib =
     \<lparr>bk_list_models = (\<lambda>s d. Inr (sqlite_list_models s d)),
      bk_get_model = (\<lambda>s n d. Inr (sqlite_get_model s n d)),
      bk_create_model = sqlite_create_model lib, bk_update_model = sqlite_update_model lib,
      bk_delete_model = sqlite_delete_model lib,
      bk_list_datasources = (\<lambda>s. Inr (sqlite_list_datasources s)),
      bk_get_datasource = (\<lambda>s n. Inr (sqlite_get_datasource s n)),
      bk_create_datasource = sqlite_create_datasource lib, bk_update_datasource = sqlite_update_datasource lib,
      bk_delete_datasource = sqlite_delete_datasource lib, bk_save_memory = sqlite_save_memory lib,
      bk_get_memory = sqlite_get_memory lib, bk_list_memories = sqlite_list_memories lib,
      bk_delete_memory = sqlite_delete_memory lib, bk_search = sqlite_search lib\<rparr>"

subsection \<open>PostgreSQL\<close>

datatype url_error = NoMetadataUrl | UrlSecret secret_error

definition resolve_url :: "env \<Rightarrow> string option \<Rightarrow> url_error + string" where
  "resolve_url env path =
     rbind (case Option.bind (map_option trim path) (\<lambda>p. if p = [] then None else Some p) of
              Some p \<Rightarrow> Inr p
            | None \<Rightarrow> ok_or NoMetadataUrl (env ''GRAPHNIGHT_METADATA_DATABASE_URL''))
       (\<lambda>raw. map_err UrlSecret (resolve_connection_string env raw))"

definition pg_schema :: "string list" where
  "pg_schema =
     [''CREATE TABLE IF NOT EXISTS models ( key TEXT PRIMARY KEY, name TEXT NOT NULL, datasource TEXT NOT NULL, data JSONB NOT NULL )'',
      ''CREATE INDEX IF NOT EXISTS idx_models_datasource ON models (datasource)'',
      ''CREATE TABLE IF NOT EXISTS datasources ( name TEXT PRIMARY KEY, data JSONB NOT NULL )'',
      ''CREATE TABLE IF NOT EXISTS memories ( id TEXT PRIMARY KEY, data JSONB NOT NULL, created_at TIMESTAMPTZ NOT NULL DEFAULT NOW() )'',
      ''CREATE TABLE IF NOT EXISTS config ( key TEXT PRIMARY KEY, value JSONB NOT NULL )'']"

definition pg_storage_new :: "'d meta_lib \<Rightarrow> 'd \<Rightarrow> storage_error + 'd" where
  "pg_storage_new lib d = (case execute_each lib pg_schema d of (r, d') \<Rightarrow> rbind r (\<lambda>_. Inr d'))"

text \<open>A statement that has to touch a row, and one that tells whether it did.\<close>

definition pg_write ::
    "'d meta_lib \<Rightarrow> string \<Rightarrow> db_value list \<Rightarrow> 'd \<Rightarrow> storage_error \<Rightarrow> 'a \<Rightarrow> (storage_error + 'a) \<times> 'd" where
  "pg_write lib sql binds d untouched v =
     (case db_execute lib sql binds d of (r, d') \<Rightarrow> (rbind r (\<lambda>n. if n = 0 then Inl untouched else Inr v), d'))"

definition pg_delete :: "'d meta_lib \<Rightarrow> string \<Rightarrow> db_value list \<Rightarrow> 'd \<Rightarrow> (storage_error + bool) \<times> 'd" where
  "pg_delete lib sql binds d =
     (case db_execute lib sql binds d of (r, d') \<Rightarrow> (rbind r (\<lambda>n. Inr (0 < n)), d'))"

definition pg_list_models :: "'d meta_lib \<Rightarrow> 'd \<Rightarrow> string option \<Rightarrow> storage_error + model list" where
  "pg_list_models lib d datasource =
     (case datasource of
        Some ds \<Rightarrow> fetch_all lib (md_models lib) ''SELECT data FROM models WHERE datasource = $1 ORDER BY name'' [DbText ds] d
      | None \<Rightarrow> fetch_all lib (md_models lib) ''SELECT data FROM models ORDER BY name'' [] d)"

definition pg_get_model :: "'d meta_lib \<Rightarrow> 'd \<Rightarrow> string \<Rightarrow> string option \<Rightarrow> storage_error + model option" where
  "pg_get_model lib d name datasource =
     (case datasource of
        Some ds \<Rightarrow> fetch_optional lib (md_models lib) ''SELECT data FROM models WHERE key = $1''
                     [DbText (model_key name (Some ds))] d
      | None \<Rightarrow> fetch_optional lib (md_models lib) ''SELECT data FROM models WHERE name = $1 ORDER BY datasource LIMIT 1''
                     [DbText name] d)"

definition pg_create_model :: "'d meta_lib \<Rightarrow> 'd \<Rightarrow> model \<Rightarrow> (storage_error + model) \<times> 'd" where
  "pg_create_model lib d m =
     (let key = model_key (mo_name m) (Some (mo_datasource m)) in
      pg_write lib ''INSERT INTO models (key, name, datasource, data) VALUES ($1, $2, $3, $4) ON CONFLICT (key) DO NOTHING''
        [DbText key, DbText (mo_name m), DbText (mo_datasource m), DbText (co_text (md_models lib) m)] d
        (StModelExists key) m)"

definition pg_update_model :: "'d meta_lib \<Rightarrow> 'd \<Rightarrow> string \<Rightarrow> model \<Rightarrow> (storage_error + model) \<times> 'd" where
  "pg_update_model lib d name m =
     (let key = model_key name (Some (mo_datasource m)) in
      pg_write lib ''UPDATE models SET data = $1, name = $2, datasource = $3 WHERE key = $4''
        [DbText (co_text (md_models lib) m), DbText (mo_name m), DbText (mo_datasource m), DbText key] d
        (StModelNotFound key) m)"

definition pg_delete_model :: "'d meta_lib \<Rightarrow> 'd \<Rightarrow> string \<Rightarrow> string option \<Rightarrow> (storage_error + bool) \<times> 'd" where
  "pg_delete_model lib d name datasource =
     (case datasource of
        Some ds \<Rightarrow> pg_delete lib ''DELETE FROM models WHERE key = $1'' [DbText (model_key name (Some ds))] d
      | None \<Rightarrow> pg_delete lib ''DELETE FROM models WHERE name = $1'' [DbText name] d)"

definition pg_list_datasources :: "'d meta_lib \<Rightarrow> 'd \<Rightarrow> storage_error + data_source list" where
  "pg_list_datasources lib d = fetch_all lib (md_datasources lib) ''SELECT data FROM datasources ORDER BY name'' [] d"

definition pg_get_datasource :: "'d meta_lib \<Rightarrow> 'd \<Rightarrow> string \<Rightarrow> storage_error + data_source option" where
  "pg_get_datasource lib d name =
     fetch_optional lib (md_datasources lib) ''SELECT data FROM datasources WHERE name = $1'' [DbText name] d"

definition pg_create_datasource :: "'d meta_lib \<Rightarrow> 'd \<Rightarrow> data_source \<Rightarrow> (storage_error + data_source) \<times> 'd" where
  "pg_create_datasource lib d ds =
     pg_write lib ''INSERT INTO datasources (name, data) VALUES ($1, $2) ON CONFLICT (name) DO NOTHING''
       [DbText (ds_name ds), DbText (co_text (md_datasources lib) ds)] d (StDatasourceExists (ds_name ds)) ds"

definition pg_update_datasource ::
    "'d meta_lib \<Rightarrow> 'd \<Rightarrow> string \<Rightarrow> data_source \<Rightarrow> (storage_error + data_source) \<times> 'd" where
  "pg_update_datasource lib d name ds =
     pg_write lib ''UPDATE datasources SET data = $1 WHERE name = $2''
       [DbText (co_text (md_datasources lib) ds), DbText name] d (StDatasourceNotFound name) ds"

definition pg_delete_datasource :: "'d meta_lib \<Rightarrow> 'd \<Rightarrow> string \<Rightarrow> (storage_error + bool) \<times> 'd" where
  "pg_delete_datasource lib d name = pg_delete lib ''DELETE FROM datasources WHERE name = $1'' [DbText name] d"

definition pg_get_datasource_priority :: "'d meta_lib \<Rightarrow> 'd \<Rightarrow> storage_error + string list" where
  "pg_get_datasource_priority lib d =
     rbind (db_fetch lib (''SELECT value FROM config WHERE key = '' @ squote @ ''datasource_priority'' @ squote) [] d)
       (\<lambda>rows. case rows of
          [] \<Rightarrow> Inr []
        | row # _ \<Rightarrow> map_err SerializationError (co_read (md_names lib) (row ''value'')))"

definition pg_set_datasource_priority :: "'d meta_lib \<Rightarrow> 'd \<Rightarrow> string list \<Rightarrow> (storage_error + unit) \<times> 'd" where
  "pg_set_datasource_priority lib d p =
     (case db_execute lib (''INSERT INTO config (key, value) VALUES ('' @ squote @ ''datasource_priority'' @ squote
             @ '', $1) ON CONFLICT (key) DO UPDATE SET value = EXCLUDED.value'')
           [DbText (co_text (md_names lib) p)] d of
        (r, d') \<Rightarrow> (rbind r (\<lambda>_. Inr ()), d'))"

definition pg_save_memory :: "'d meta_lib \<Rightarrow> 'd \<Rightarrow> memory \<Rightarrow> (storage_error + memory) \<times> 'd" where
  "pg_save_memory lib d m =
     (case db_execute lib ''INSERT INTO memories (id, data, created_at) VALUES ($1, $2, $3) ON CONFLICT (id) DO UPDATE SET data = EXCLUDED.data''
           [DbText (me_id m), DbText (co_text (md_memories lib) m), DbText (me_created_at m)] d of
        (r, d') \<Rightarrow> (rbind r (\<lambda>_. Inr m), d'))"

definition pg_get_memory :: "'d meta_lib \<Rightarrow> 'd \<Rightarrow> string \<Rightarrow> storage_error + memory option" where
  "pg_get_memory lib d i =
     fetch_optional lib (md_memories lib) ''SELECT data FROM memories WHERE id = $1'' [DbText i] d"

definition pg_list_memories :: "'d meta_lib \<Rightarrow> 'd \<Rightarrow> memory_filter \<Rightarrow> storage_error + memory list" where
  "pg_list_memories lib d f =
     (let window = [DbInt (as_i64 (unwrap_or (mf_limit f) 1000)), DbInt (as_i64 (unwrap_or (mf_offset f) 0))] in
      rbind (case mf_entity f of
               Some entity \<Rightarrow> fetch_all lib (md_memories lib)
                 ''SELECT data FROM memories WHERE data::text ILIKE $1 ORDER BY created_at DESC LIMIT $2 OFFSET $3''
                 (DbText (like_pattern entity) # window) d
             | None \<Rightarrow> fetch_all lib (md_memories lib)
                 ''SELECT data FROM memories ORDER BY created_at DESC LIMIT $1 OFFSET $2'' window d)
        (\<lambda>ms. Inr (filter (learning_matches f) ms)))"

definition pg_delete_memory :: "'d meta_lib \<Rightarrow> 'd \<Rightarrow> string \<Rightarrow> (storage_error + bool) \<times> 'd" where
  "pg_delete_memory lib d i = pg_delete lib ''DELETE FROM memories WHERE id = $1'' [DbText i] d"

definition pg_search :: "'d meta_lib \<Rightarrow> 'd \<Rightarrow> string \<Rightarrow> nat \<Rightarrow> storage_error + index_hit list" where
  "pg_search lib d q limit =
     rbind (db_fetch lib ''SELECT name, datasource, data FROM models WHERE name ILIKE $1 OR data::text ILIKE $1 ORDER BY name LIMIT $2''
              [DbText (like_pattern q), DbInt (as_i64 limit)] d) (rmap (row_hit lib))"

definition pg_backend :: "'d meta_lib \<Rightarrow> 'd backend" where
  "pg_backend lib =
     \<lparr>bk_list_models = pg_list_models lib, bk_get_model = pg_get_model lib,
      bk_create_model = pg_create_model lib, bk_update_model = pg_update_model lib,
      bk_delete_model = pg_delete_model lib, bk_list_datasources = pg_list_datasources lib,
      bk_get_datasource = pg_get_datasource lib, bk_create_datasource = pg_create_datasource lib,
      bk_update_datasource = pg_update_datasource lib, bk_delete_datasource = pg_delete_datasource lib,
      bk_save_memory = pg_save_memory lib, bk_get_memory = pg_get_memory lib,
      bk_list_memories = pg_list_memories lib, bk_delete_memory = pg_delete_memory lib, bk_search = pg_search lib\<rparr>"

subsection \<open>Keys\<close>

lemma model_key_longer: "model_key name (Some ds) \<noteq> name"
proof -
  have "length (model_key name (Some ds)) > length name" by (simp add: model_key_def)
  then show ?thesis by auto
qed

text \<open>Different models can have the same key, so one of them is refused as existing.\<close>

lemma model_keys_collide: "model_key ''c'' (Some ''a.b'') = model_key ''b.c'' (Some ''a'')"
  by (simp add: model_key_def)

text \<open>Datasources without a dot keep the keys of their models apart.\<close>

lemma model_key_inj:
  assumes "CHR ''.'' \<notin> set ds" and "CHR ''.'' \<notin> set ds'" and "model_key n (Some ds) = model_key n' (Some ds')"
  shows "n = n' \<and> ds = ds'"
proof -
  have key: "model_key k (Some d) = d @ CHR ''.'' # k" for k d by (simp add: model_key_def)
  have "split_once (CHR ''.'') (ds @ CHR ''.'' # n) = Some (ds, n)"
    and "split_once (CHR ''.'') (ds' @ CHR ''.'' # n') = Some (ds', n')"
    using assms(1,2) by (simp_all only: split_once_Some) simp_all
  then show ?thesis using assms(3) unfolding key by (metis option.inject prod.inject)
qed

subsection \<open>Models in SQLite\<close>

lemma sqlite_write_parts:
  "sqlite_write lib sql binds s v = (Inr w, s') \<Longrightarrow> w = v \<and> sq_models s' = sq_models s \<and> sq_datasources s' = sq_datasources s"
  by (auto simp: sqlite_write_def branch_simps split: prod.splits)

text \<open>
  A model that was created is found under its datasource and name, but not under its name alone,
  which is how every caller asks: there the answer stays what it was.
\<close>

lemma sqlite_created:
  assumes "sqlite_create_model lib s m = (Inr m', s')"
  shows "sqlite_get_model s' (mo_name m) (Some (mo_datasource m)) = Some m"
    and "sqlite_get_model s' (mo_name m) None = sqlite_get_model s (mo_name m) None"
proof -
  let ?key = "model_key (mo_name m) (Some (mo_datasource m))"
  have "sq_models s' = AList.update ?key m (sq_models s)"
    using assms by (auto simp: sqlite_create_model_def Let_def dest!: sqlite_write_parts split: if_split_asm)
  then show "sqlite_get_model s' (mo_name m) (Some (mo_datasource m)) = Some m"
    and "sqlite_get_model s' (mo_name m) None = sqlite_get_model s (mo_name m) None"
    using model_key_longer [of "mo_name m" "mo_datasource m"]
    by (simp_all add: sqlite_get_model_def update_conv') (simp_all add: model_key_def)
qed

text \<open>After a start the maps are keyed by the name alone.\<close>

lemma insert_all_found: "map_of (insert_all key vs xs) k = Some v \<Longrightarrow> map_of xs k = Some v \<or> key v = k"
  unfolding insert_all_def
proof (induction vs arbitrary: xs)
  case (Cons a vs)
  from Cons.prems Cons.IH [of "AList.update (key a) a xs"] show ?case by (auto simp: update_conv' split: if_split_asm)
qed simp

lemma sqlite_loaded_names:
  assumes "sqlite_new lib d = Inr s" and "map_of (sq_models s) k = Some m"
  shows "mo_name m = k"
  using assms insert_all_found [of mo_name _ "[]" k m]
  by (auto simp: sqlite_new_def warm_cache_def branch_simps split: prod.splits sum.splits)

end
