(* ===== verification/Tantivy.thy ===== *)
theory Tantivy
  imports Storage Complex_Main
begin

text \<open>
  The storage backend with a full-text index (\<open>crates/graphnight-storage/src/tantivy.rs\<close>): the maps and
  files of the YAML backend, and an index of the models beside them. The search library is a parameter.

  \<open>index_model_sync\<close> and \<open>load\<close> wait for their locks with \<open>blocking_write\<close>, which panics on a thread that
  runs asynchronous tasks. Whether the caller is on such a thread is the parameter \<open>rt\<close> of an
  operation, and a panic is the value \<open>None\<close>.
\<close>

subsection \<open>The search library\<close>

record index_doc =
  ix_model_name :: string
  ix_datasource :: string
  ix_description :: string
  ix_measures :: string
  ix_dimensions :: string
  ix_time_dimensions :: string
  ix_content :: string

text \<open>The directory \<open>tantivy_index\<close> below the base path.\<close>

datatype 'i index_dir = NoDirectory | EmptyDirectory | IndexThere 'i

text \<open>Creating an index in a directory, adding a document with the commit, readers, queries, the best hits.\<close>

record ('i, 'r, 'q, 'a) index_lib =
  il_create :: "'i index_dir \<Rightarrow> string + 'i"
  il_add :: "'i \<Rightarrow> index_doc \<Rightarrow> string + 'i"
  il_reader :: "'i \<Rightarrow> string + 'r"
  il_parse :: "'i \<Rightarrow> string \<Rightarrow> string + 'q"
  il_top :: "'r \<Rightarrow> 'q \<Rightarrow> nat \<Rightarrow> string + (rat \<times> 'a) list"
  il_doc :: "'r \<Rightarrow> 'a \<Rightarrow> string + index_doc"

record 'i tantivy_disk =
  td_files :: yaml_disk
  td_index :: "'i index_dir"

text \<open>The maps with their files are those of the YAML backend.\<close>

record 'i tantivy_storage =
  tv_base :: yaml_storage
  tv_index :: 'i

definition left_on_disk :: "'i tantivy_storage \<Rightarrow> 'i tantivy_disk" where
  "left_on_disk s = \<lparr>td_files = ys_disk (tv_base s), td_index = IndexThere (tv_index s)\<rparr>"

subsection \<open>Indexing\<close>

definition document_of :: "model \<Rightarrow> index_doc" where
  "document_of m =
     (let description = unwrap_or (mo_description m) [];
          measures = str_join '' '' (map (\<lambda>x. f_expression (m_formula x)) (mo_measures m));
          dimensions = str_join '' '' (map d_name (mo_dimensions m));
          time_dims = str_join '' '' (map td_dimension (mo_time_dimensions m))
      in \<lparr>ix_model_name = mo_name m, ix_datasource = mo_datasource m, ix_description = description,
          ix_measures = measures, ix_dimensions = dimensions, ix_time_dimensions = time_dims,
          ix_content = mo_name m @ '' '' @ description @ '' '' @ measures @ '' '' @ dimensions @ '' '' @ time_dims\<rparr>)"

definition index_model_sync ::
    "('i, 'r, 'q, 'a) index_lib \<Rightarrow> bool \<Rightarrow> model \<Rightarrow> 'i \<Rightarrow> (storage_error + 'i) option" where
  "index_model_sync lib rt m i = (if rt then None else Some (map_err TantivyError (il_add lib i (document_of m))))"

fun index_all :: "('i, 'r, 'q, 'a) index_lib \<Rightarrow> bool \<Rightarrow> model list \<Rightarrow> 'i \<Rightarrow> (storage_error + 'i) option" where
  "index_all lib rt [] i = Some (Inr i)"
| "index_all lib rt (m # ms) i =
     (case index_model_sync lib rt m i of
        None \<Rightarrow> None
      | Some (Inl e) \<Rightarrow> Some (Inl e)
      | Some (Inr i') \<Rightarrow> index_all lib rt ms i')"

text \<open>Every file that is there takes the lock of its map; only the models are indexed.\<close>

definition tantivy_load ::
    "('i, 'r, 'q, 'a) index_lib \<Rightarrow> bool \<Rightarrow> 'i tantivy_storage \<Rightarrow> (storage_error + 'i tantivy_storage) option" where
  "tantivy_load lib rt s =
     (let d = ys_disk (tv_base s) in
      if rt \<and> yd_models d \<noteq> None then None
      else case (case yd_models d of None \<Rightarrow> Some (Inr (tv_index s)) | Some ms \<Rightarrow> index_all lib rt ms (tv_index s)) of
        None \<Rightarrow> None
      | Some (Inl e) \<Rightarrow> Some (Inl e)
      | Some (Inr i) \<Rightarrow>
          if rt \<and> (yd_datasources d \<noteq> None \<or> yd_memories d \<noteq> None \<or> yd_priority d \<noteq> None) then None
          else Some (Inr \<lparr>tv_base = yaml_load (tv_base s), tv_index = i\<rparr>))"

definition tantivy_new ::
    "('i, 'r, 'q, 'a) index_lib \<Rightarrow> bool \<Rightarrow> 'i tantivy_disk \<Rightarrow> (storage_error + 'i tantivy_storage) option" where
  "tantivy_new lib rt disk =
     (case map_err TantivyError (il_create lib (td_index disk)) of
        Inl e \<Rightarrow> Some (Inl e)
      | Inr i \<Rightarrow> tantivy_load lib rt \<lparr>tv_base = yaml_new (td_files disk), tv_index = i\<rparr>)"

subsection \<open>Operations\<close>

text \<open>What the code has in common with the YAML backend, and what it indexes first.\<close>

definition on_base ::
    "(yaml_storage \<Rightarrow> 'b \<times> yaml_storage) \<Rightarrow> 'i tantivy_storage \<Rightarrow> 'b \<times> 'i tantivy_storage" where
  "on_base f s = (case f (tv_base s) of (r, b) \<Rightarrow> (r, s\<lparr>tv_base := b\<rparr>))"

definition index_then ::
    "('i, 'r, 'q, 'a) index_lib \<Rightarrow> bool \<Rightarrow> model \<Rightarrow> 'i tantivy_storage
      \<Rightarrow> (yaml_storage \<Rightarrow> (storage_error + 'b) \<times> yaml_storage) \<Rightarrow> ((storage_error + 'b) \<times> 'i tantivy_storage) option" where
  "index_then lib rt m s f =
     map_option (\<lambda>r. case r of Inl e \<Rightarrow> (Inl e, s) | Inr i \<Rightarrow> on_base f (s\<lparr>tv_index := i\<rparr>))
       (index_model_sync lib rt m (tv_index s))"

definition tantivy_list_models :: "'i tantivy_storage \<Rightarrow> string option \<Rightarrow> model list" where
  "tantivy_list_models s = yaml_list_models (tv_base s)"

definition tantivy_get_model :: "'i tantivy_storage \<Rightarrow> string \<Rightarrow> string option \<Rightarrow> model option" where
  "tantivy_get_model s = yaml_get_model (tv_base s)"

definition tantivy_create_model ::
    "('i, 'r, 'q, 'a) index_lib \<Rightarrow> bool \<Rightarrow> bool \<Rightarrow> 'i tantivy_storage \<Rightarrow> model
      \<Rightarrow> ((storage_error + model) \<times> 'i tantivy_storage) option" where
  "tantivy_create_model lib rt wr s m =
     (if map_of (ys_models (tv_base s)) (mo_name m) \<noteq> None then Some (Inl (StModelExists (mo_name m)), s)
      else index_then lib rt m s
        (\<lambda>b. and_return (persist_models {} wr (b\<lparr>ys_models := AList.update (mo_name m) m (ys_models b)\<rparr>)) m))"

definition tantivy_update_model ::
    "('i, 'r, 'q, 'a) index_lib \<Rightarrow> bool \<Rightarrow> bool \<Rightarrow> 'i tantivy_storage \<Rightarrow> string \<Rightarrow> model
      \<Rightarrow> ((storage_error + model) \<times> 'i tantivy_storage) option" where
  "tantivy_update_model lib rt wr s name m =
     (if map_of (ys_models (tv_base s)) name = None then Some (Inl (StModelNotFound name), s)
      else index_then lib rt m s
        (\<lambda>b. and_return (persist_models {} wr (b\<lparr>ys_models := AList.update name m (ys_models b)\<rparr>)) m))"

definition tantivy_delete_model ::
    "bool \<Rightarrow> 'i tantivy_storage \<Rightarrow> string \<Rightarrow> string option \<Rightarrow> (storage_error + bool) \<times> 'i tantivy_storage" where
  "tantivy_delete_model wr s name datasource = on_base (\<lambda>b. yaml_delete_model wr b name datasource) s"

definition tantivy_list_datasources :: "'i tantivy_storage \<Rightarrow> data_source list" where
  "tantivy_list_datasources s = yaml_list_datasources (tv_base s)"

definition tantivy_get_datasource :: "'i tantivy_storage \<Rightarrow> string \<Rightarrow> data_source option" where
  "tantivy_get_datasource s = yaml_get_datasource (tv_base s)"

definition tantivy_create_datasource ::
    "bool \<Rightarrow> 'i tantivy_storage \<Rightarrow> data_source \<Rightarrow> (storage_error + data_source) \<times> 'i tantivy_storage" where
  "tantivy_create_datasource wr s ds = on_base (\<lambda>b. yaml_create_datasource wr b ds) s"

definition tantivy_update_datasource ::
    "bool \<Rightarrow> 'i tantivy_storage \<Rightarrow> string \<Rightarrow> data_source \<Rightarrow> (storage_error + data_source) \<times> 'i tantivy_storage" where
  "tantivy_update_datasource wr s name ds = on_base (\<lambda>b. yaml_update_datasource wr b name ds) s"

definition tantivy_delete_datasource ::
    "bool \<Rightarrow> 'i tantivy_storage \<Rightarrow> string \<Rightarrow> (storage_error + bool) \<times> 'i tantivy_storage" where
  "tantivy_delete_datasource wr s name = on_base (\<lambda>b. yaml_delete_datasource wr b name) s"

definition tantivy_get_datasource_priority :: "'i tantivy_storage \<Rightarrow> string list" where
  "tantivy_get_datasource_priority s = yaml_get_datasource_priority (tv_base s)"

definition tantivy_set_datasource_priority ::
    "bool \<Rightarrow> 'i tantivy_storage \<Rightarrow> string list \<Rightarrow> (storage_error + unit) \<times> 'i tantivy_storage" where
  "tantivy_set_datasource_priority wr s p = on_base (\<lambda>b. yaml_set_datasource_priority wr b p) s"

definition tantivy_save_memory ::
    "bool \<Rightarrow> 'i tantivy_storage \<Rightarrow> memory \<Rightarrow> (storage_error + memory) \<times> 'i tantivy_storage" where
  "tantivy_save_memory wr s m = on_base (\<lambda>b. yaml_save_memory wr b m) s"

definition tantivy_get_memory :: "'i tantivy_storage \<Rightarrow> string \<Rightarrow> memory option" where
  "tantivy_get_memory s = yaml_get_memory (tv_base s)"

definition tantivy_list_memories :: "'i tantivy_storage \<Rightarrow> memory_filter \<Rightarrow> memory list" where
  "tantivy_list_memories s = yaml_list_memories (tv_base s)"

definition tantivy_delete_memory ::
    "bool \<Rightarrow> 'i tantivy_storage \<Rightarrow> string \<Rightarrow> (storage_error + bool) \<times> 'i tantivy_storage" where
  "tantivy_delete_memory wr s i = on_base (\<lambda>b. yaml_delete_memory wr b i) s"

definition tantivy_index_model ::
    "('i, 'r, 'q, 'a) index_lib \<Rightarrow> bool \<Rightarrow> 'i tantivy_storage \<Rightarrow> model
      \<Rightarrow> ((storage_error + unit) \<times> 'i tantivy_storage) option" where
  "tantivy_index_model lib rt s m = index_then lib rt m s (\<lambda>b. (Inr (), b))"

text \<open>A hit of the index, whose score is a float. The collector of the best hits panics on a limit of zero.\<close>

record text_hit =
  th_model_name :: string
  th_datasource :: string
  th_score :: rat
  th_matched_fields :: "string list"
  th_snippet :: string

definition text_hit_of :: "rat \<Rightarrow> index_doc \<Rightarrow> text_hit" where
  "text_hit_of score d =
     \<lparr>th_model_name = ix_model_name d, th_datasource = ix_datasource d, th_score = score,
      th_matched_fields = [''content''], th_snippet = ix_description d\<rparr>"

definition tantivy_search ::
    "('i, 'r, 'q, 'a) index_lib \<Rightarrow> 'i tantivy_storage \<Rightarrow> string \<Rightarrow> nat \<Rightarrow> (storage_error + text_hit list) option" where
  "tantivy_search lib s query limit =
     (case il_reader lib (tv_index s) of
        Inl e \<Rightarrow> Some (Inl (InternalError (''Failed to create reader: '' @ e)))
      | Inr r \<Rightarrow>
          (case map_err QueryParserError (il_parse lib (tv_index s) query) of
             Inl e \<Rightarrow> Some (Inl e)
           | Inr q \<Rightarrow>
               if limit = 0 then None
               else Some (rbind (map_err TantivyError (il_top lib r q limit))
                 (rmap (\<lambda>(score, address). rbind (map_err TantivyError (il_doc lib r address)) (\<lambda>d.
                    Inr (text_hit_of score d)))))))"

subsection \<open>What the index adds to the YAML backend\<close>

text \<open>
  The library refuses to create an index where there is no directory and where there is an index already.
  So the backend opens only over an empty directory that somebody made by hand, once: neither on a
  fresh base path nor on what an earlier run has left.
\<close>

lemma tantivy_opens_once:
  assumes "\<exists>e. il_create lib NoDirectory = Inl e" and "\<And>i. \<exists>e. il_create lib (IndexThere i) = Inl e"
  shows "td_index disk \<noteq> EmptyDirectory \<Longrightarrow> \<exists>e. tantivy_new lib rt disk = Some (Inl (TantivyError e))"
    and "\<exists>e. tantivy_new lib rt (left_on_disk s) = Some (Inl (TantivyError e))"
proof -
  show refused: "\<exists>e. tantivy_new lib rt disk = Some (Inl (TantivyError e))" if "td_index disk \<noteq> EmptyDirectory" for disk
  proof -
    have "\<exists>e. il_create lib (td_index disk) = Inl e"
    proof (cases "td_index disk")
      case (IndexThere i)
      with assms(2) [of i] show ?thesis by simp
    qed (use that assms(1) in simp_all)
    then show ?thesis by (auto simp: tantivy_new_def)
  qed
  show "\<exists>e. tantivy_new lib rt (left_on_disk s) = Some (Inl (TantivyError e))"
    by (rule refused) (simp add: left_on_disk_def)
qed

text \<open>On a thread that runs asynchronous tasks, which is where the trait is called, no model is ever stored.\<close>

lemma tantivy_writes_panic:
  "tantivy_create_model lib True wr s m =
     (if tantivy_get_model s (mo_name m) None = None then None else Some (Inl (StModelExists (mo_name m)), s))"
  "tantivy_update_model lib True wr s n m =
     (if tantivy_get_model s n None = None then Some (Inl (StModelNotFound n), s) else None)"
  "tantivy_index_model lib True s m = None"
  by (simp_all add: tantivy_create_model_def tantivy_update_model_def tantivy_index_model_def tantivy_get_model_def
      yaml_get_model_any index_then_def index_model_sync_def)

text \<open>Elsewhere an operation on models that the index does not refuse is that of the YAML backend.\<close>

lemma index_then_Some:
  "index_then lib rt m s f = Some (r, s') \<Longrightarrow>
     \<not> rt \<and> ((\<exists>e. r = Inl (TantivyError e) \<and> s' = s) \<or>
       (\<exists>i b. il_add lib (tv_index s) (document_of m) = Inr i \<and> f (tv_base s) = (r, b) \<and> s' = \<lparr>tv_base = b, tv_index = i\<rparr>))"
  by (cases "il_add lib (tv_index s) (document_of m)")
    (auto simp: index_then_def index_model_sync_def on_base_def split: if_split_asm prod.splits)

lemma tantivy_refines_yaml:
  assumes "\<And>e. r \<noteq> Inl (TantivyError e)"
  shows "tantivy_create_model lib rt wr s m = Some (r, s') \<Longrightarrow> yaml_create_model wr (tv_base s) m = (r, tv_base s')"
    and "tantivy_update_model lib rt wr s n m = Some (r, s') \<Longrightarrow> yaml_update_model wr (tv_base s) n m = (r, tv_base s')"
  using assms
  by (auto simp: tantivy_create_model_def tantivy_update_model_def yaml_create_model_def yaml_update_model_def
      split: if_split_asm dest!: index_then_Some)

subsection \<open>What is indexed\<close>

inductive tantivy_reachable :: "('i, 'r, 'q, 'a) index_lib \<Rightarrow> 'i tantivy_storage \<Rightarrow> bool" for lib where
  opened: "tantivy_new lib rt disk = Some (Inr s) \<Longrightarrow> tantivy_reachable lib s"
| created: "tantivy_reachable lib s \<Longrightarrow> tantivy_create_model lib rt wr s m = Some (r, s') \<Longrightarrow> tantivy_reachable lib s'"
| updated: "tantivy_reachable lib s \<Longrightarrow> tantivy_update_model lib rt wr s n m = Some (r, s') \<Longrightarrow> tantivy_reachable lib s'"
| deleted: "tantivy_reachable lib s \<Longrightarrow> tantivy_reachable lib (snd (tantivy_delete_model wr s n d))"
| indexed: "tantivy_reachable lib s \<Longrightarrow> tantivy_index_model lib rt s m = Some (r, s') \<Longrightarrow> tantivy_reachable lib s'"

definition index_complete :: "('i \<Rightarrow> index_doc set) \<Rightarrow> 'i tantivy_storage \<Rightarrow> bool" where
  "index_complete docs s \<longleftrightarrow> document_of ` snd ` set (ys_models (tv_base s)) \<subseteq> docs (tv_index s)"

lemma index_all_docs:
  assumes "\<And>i d i'. il_add lib i d = Inr i' \<Longrightarrow> docs i' = insert d (docs i)"
  shows "index_all lib rt ms i = Some (Inr i') \<Longrightarrow> docs i' = document_of ` set ms \<union> docs i"
proof (induction ms arbitrary: i)
  case (Cons m ms)
  then obtain j where "il_add lib i (document_of m) = Inr j" "index_all lib rt ms j = Some (Inr i')"
    by (auto simp: index_model_sync_def branch_simps split: option.splits sum.splits if_split_asm)
  then show ?case using Cons.IH assms by auto
qed simp

lemma set_insert_all: "set (insert_all key vs xs) \<subseteq> set xs \<union> (\<lambda>v. (key v, v)) ` set vs"
proof (induction vs arbitrary: xs)
  case (Cons v vs)
  have "set (insert_all key (v # vs) xs) \<subseteq> set (AList.update (key v) v xs) \<union> (\<lambda>v. (key v, v)) ` set vs"
    using Cons.IH by (simp add: insert_all_def)
  then show ?case using set_update_subset [of "key v" v xs] by auto
qed (simp add: insert_all_def)

lemma persist_models_map:
  "and_return (persist_models {} wr b) v = (r, b') \<Longrightarrow> ys_models b' = ys_models b"
  by (auto simp: and_return_def persist_models_def split: if_split_asm)

lemma index_complete_update:
  assumes "index_complete docs s" and "docs i = insert (document_of m) (docs (tv_index s))"
    and "ys_models b = AList.update k m (ys_models (tv_base s))"
  shows "index_complete docs \<lparr>tv_base = b, tv_index = i\<rparr>"
proof -
  have "snd ` set (ys_models b) \<subseteq> insert m (snd ` set (ys_models (tv_base s)))"
    using set_update_subset [of k m] assms(3) by force
  then show ?thesis using assms(1,2) unfolding index_complete_def by auto
qed

text \<open>
  While an added document stays in the index, the index has a document of every stored model as it is
  now, whatever was created, updated and deleted, and whether or not the files could be written.
\<close>

lemma tantivy_index_complete:
  assumes "\<And>i d i'. il_add lib i d = Inr i' \<Longrightarrow> docs i' = insert d (docs i)"
    and "tantivy_reachable lib s"
  shows "index_complete docs s"
  using assms(2)
proof induction
  case (opened rt disk s)
  then obtain i where i: "tantivy_load lib rt \<lparr>tv_base = yaml_new (td_files disk), tv_index = i\<rparr> = Some (Inr s)"
    by (auto simp: tantivy_new_def split: sum.splits)
  show ?case
  proof (cases "yd_models (td_files disk)")
    case None
    then show ?thesis using i
      by (auto simp: tantivy_load_def index_complete_def yaml_load_def yaml_new_def Let_def split: if_split_asm)
  next
    case (Some ms)
    with i obtain i' where i': "index_all lib rt ms i = Some (Inr i')"
      and s: "s = \<lparr>tv_base = yaml_load (yaml_new (td_files disk)), tv_index = i'\<rparr>"
      by (auto simp: tantivy_load_def yaml_new_def Let_def split: if_split_asm option.splits sum.splits)
    have "snd ` set (insert_all mo_name ms []) \<subseteq> set ms" using set_insert_all [of mo_name ms "[]"] by auto
    moreover have "docs i' = document_of ` set ms \<union> docs i" by (rule index_all_docs [OF assms(1) i'])
    ultimately show ?thesis using Some
      by (auto simp: s index_complete_def yaml_load_def yaml_new_def Let_def)
  qed
next
  case (created s rt wr m r s')
  then show ?case
    by (auto simp: tantivy_create_model_def split: if_split_asm dest!: index_then_Some persist_models_map
        intro!: index_complete_update assms(1))
next
  case (updated s rt wr n m r s')
  then show ?case
    by (auto simp: tantivy_update_model_def split: if_split_asm dest!: index_then_Some persist_models_map
        intro!: index_complete_update assms(1))
next
  case (deleted s wr n d)
  obtain r b where b: "yaml_delete_model wr (tv_base s) n d = (r, b)" by fastforce
  have "set (ys_models b) \<subseteq> set (ys_models (tv_base s))"
    using b set_delete_subset [of n "ys_models (tv_base s)"]
    by (auto simp: yaml_delete_model_def Let_def split: if_split_asm dest!: persist_models_map)
  then show ?case using deleted.IH by (auto simp: tantivy_delete_model_def on_base_def b index_complete_def)
next
  case (indexed s rt m r s')
  then have "s' = s \<or> (\<exists>i. il_add lib (tv_index s) (document_of m) = Inr i \<and> s' = \<lparr>tv_base = tv_base s, tv_index = i\<rparr>)"
    by (auto simp: tantivy_index_model_def dest!: index_then_Some)
  then show ?case using indexed.IH by (fastforce simp: index_complete_def dest: assms(1))
qed

text \<open>Nothing takes a document out again: a deleted model is still found, under its old description.\<close>

lemma deleted_model_still_indexed:
  assumes "\<And>i d i'. il_add lib i d = Inr i' \<Longrightarrow> docs i' = insert d (docs i)"
    and "tantivy_reachable lib s" and "tantivy_get_model s n None = Some m"
  shows "fst (tantivy_delete_model True s n None) = Inr True"
    and "tantivy_get_model (snd (tantivy_delete_model True s n None)) n None = None"
    and "document_of m \<in> docs (tv_index (snd (tantivy_delete_model True s n None)))"
proof -
  have m: "map_of (ys_models (tv_base s)) n = Some m"
    using assms(3) by (simp add: tantivy_get_model_def yaml_get_model_any)
  have del: "fst (yaml_delete_model True (tv_base s) n None) = Inr True"
    "yaml_get_model (snd (yaml_delete_model True (tv_base s) n None)) n None = None"
    using models_store.remove_spec [of "tv_base s" n] m by (auto simp: yaml_get_model_any)
  then show "fst (tantivy_delete_model True s n None) = Inr True"
    "tantivy_get_model (snd (tantivy_delete_model True s n None)) n None = None"
    by (simp_all add: tantivy_delete_model_def on_base_def tantivy_get_model_def split_def)
  have "document_of m \<in> docs (tv_index s)"
    using tantivy_index_complete [OF assms(1,2)] map_of_SomeD [OF m] by (force simp: index_complete_def)
  then show "document_of m \<in> docs (tv_index (snd (tantivy_delete_model True s n None)))"
    by (simp add: tantivy_delete_model_def on_base_def split_def)
qed

end
