(* ===== verification/Numbers.thy ===== *)
theory Numbers
  imports GN_Prelude Complex_Main
begin

text \<open>
  Numbers in text as Rust's standard library reads them: \<open>i64\<close> (\<open>str::parse\<close> and \<open>to_string\<close>)
  and \<open>f64\<close>. A float is a rational number, an infinity or not a number; reading a decimal
  keeps its exact value within the range of \<open>f64\<close> (the rounding to the nearest float is not
  modelled), and becomes an infinity or zero where the nearest float is one.
\<close>

subsection \<open>Integers\<close>

definition all_digits :: "string \<Rightarrow> bool" where
  "all_digits s \<longleftrightarrow> s \<noteq> [] \<and> list_all is_ascii_digit s"

definition nat_of_digits :: "string \<Rightarrow> nat" where
  "nat_of_digits s = foldl (\<lambda>n c. 10 * n + (byte c - 48)) 0 s"

text \<open>An optional sign: whether it is a minus, and the rest.\<close>

definition split_sign :: "string \<Rightarrow> bool \<times> string" where
  "split_sign s =
     (case s of
        [] \<Rightarrow> (False, [])
      | c # r \<Rightarrow> if c = CHR ''-'' then (True, r) else if c = CHR ''+'' then (False, r) else (False, s))"

definition parse_i64 :: "string \<Rightarrow> int option" where
  "parse_i64 s =
     (case split_sign s of (neg, d) \<Rightarrow>
        if all_digits d then
          let n = nat_of_digits d in
          if neg then if n \<le> 2 ^ 63 then Some (- int n) else None
          else if n < 2 ^ 63 then Some (int n) else None
        else None)"

definition int_str :: "int \<Rightarrow> string" where
  "int_str i = (if i < 0 then CHR ''-'' # nat_str (nat (- i)) else nat_str (nat i))"

subsection \<open>Floats\<close>

datatype f64 = Finite rat | Infinite bool | NaN

text \<open>Beyond these bounds the nearest float is an infinity, or zero.\<close>

definition f64_of_rat :: "rat \<Rightarrow> f64" where
  "f64_of_rat x =
     (if 2 ^ 1024 - 2 ^ 970 \<le> \<bar>x\<bar> then Infinite (x < 0)
      else if \<bar>x\<bar> \<le> 1 / 2 ^ 1075 then Finite 0
      else Finite x)"

definition parse_mantissa :: "string \<Rightarrow> rat option" where
  "parse_mantissa m =
     (case split_once (CHR ''.'') m of
        None \<Rightarrow> if all_digits m then Some (of_nat (nat_of_digits m)) else None
      | Some (a, b) \<Rightarrow>
          if all_digits (a @ b) then Some (of_nat (nat_of_digits (a @ b)) / 10 ^ length b) else None)"

definition parse_exponent :: "string \<Rightarrow> rat option" where
  "parse_exponent e =
     (case split_sign e of (neg, d) \<Rightarrow>
        if all_digits d then Some (if neg then 1 / 10 ^ nat_of_digits d else 10 ^ nat_of_digits d)
        else None)"

definition parse_decimal :: "string \<Rightarrow> rat option" where
  "parse_decimal l =
     (case split_once (CHR ''e'') l of
        None \<Rightarrow> parse_mantissa l
      | Some (m, e) \<Rightarrow>
          Option.bind (parse_mantissa m) (\<lambda>x. map_option (\<lambda>y. x * y) (parse_exponent e)))"

definition parse_f64 :: "string \<Rightarrow> f64 option" where
  "parse_f64 s =
     (case split_sign s of (neg, r) \<Rightarrow>
        let l = to_lower r in
        if l = ''inf'' \<or> l = ''infinity'' then Some (Infinite neg)
        else if l = ''nan'' then Some NaN
        else map_option (\<lambda>x. f64_of_rat (if neg then - x else x)) (parse_decimal l))"

subsection \<open>Printed integers are read back\<close>

lemma byte_digit_char: "d < 10 \<Longrightarrow> byte (digit_char d) = 48 + d"
  by (simp add: digit_char_def byte_def)

lemma nat_of_digits_snoc: "nat_of_digits (s @ [c]) = 10 * nat_of_digits s + (byte c - 48)"
  by (simp add: nat_of_digits_def)

lemma nat_of_digits_nat_str: "nat_of_digits (nat_str n) = n"
proof (induction n rule: nat_str.induct)
  case (1 n)
  show ?case
  proof (cases "n < 10")
    case True
    then show ?thesis by (subst nat_str.simps) (simp add: nat_of_digits_def byte_digit_char)
  next
    case False
    then show ?thesis
      using 1 by (subst nat_str.simps) (simp add: nat_of_digits_snoc byte_digit_char)
  qed
qed

lemma all_digits_nat_str: "all_digits (nat_str n)"
  using nat_str_digits by (auto simp: all_digits_def list_all_iff)

lemma digit_not_sign: "is_ascii_digit c \<Longrightarrow> c \<noteq> CHR ''-'' \<and> c \<noteq> CHR ''+''"
  by (auto simp: is_ascii_digit_def byte_def)

lemma split_sign_digits: "all_digits s \<Longrightarrow> split_sign s = (False, s)"
  by (cases s) (auto simp: split_sign_def all_digits_def dest: digit_not_sign)

lemma parse_i64_int_str:
  assumes "- (2 ^ 63) \<le> i" and "i < 2 ^ 63"
  shows "parse_i64 (int_str i) = Some i"
proof (cases "i < 0")
  case True
  then have "nat (- i) \<le> 2 ^ 63" using assms(1) by simp
  then show ?thesis
    using True by (simp add: parse_i64_def int_str_def split_sign_def all_digits_nat_str nat_of_digits_nat_str)
next
  case False
  then have "nat i < 2 ^ 63" using assms(2) by simp
  then show ?thesis
    using False by (simp add: parse_i64_def int_str_def split_sign_digits all_digits_nat_str nat_of_digits_nat_str)
qed

lemma parse_i64_bounds: "parse_i64 s = Some i \<Longrightarrow> - (2 ^ 63) \<le> i \<and> i < 2 ^ 63"
  by (auto simp: parse_i64_def Let_def split: prod.splits if_splits)

subsection \<open>Floats within the range\<close>

lemma f64_of_rat_near_one:
  assumes "1 / 8 \<le> \<bar>x\<bar>" and "\<bar>x\<bar> \<le> 8"
  shows "f64_of_rat x = Finite x"
proof -
  have big: "(8 :: rat) < 2 ^ (n + 54) - 2 ^ n" for n
  proof -
    have "(1 :: rat) \<le> 2 ^ n" by simp
    then have "1 * (2 ^ 54 - 1) \<le> 2 ^ n * (2 ^ 54 - 1 :: rat)" by (rule mult_right_mono) simp
    from less_le_trans [OF _ this, of 8] have "(8 :: rat) < 2 ^ n * (2 ^ 54 - 1)" by simp
    then show ?thesis by (simp only: power_add right_diff_distrib mult_1_right)
  qed
  have small: "(1 :: rat) / 2 ^ (n + 4) < 1 / 8" for n
  proof -
    have "(1 :: rat) \<le> 2 ^ n" by simp
    then have "1 * 2 ^ 4 \<le> 2 ^ n * (2 ^ 4 :: rat)" by (rule mult_right_mono) simp
    from less_le_trans [OF _ this, of 8] have "(8 :: rat) < 2 ^ n * 2 ^ 4" by simp
    then show ?thesis by (simp only: power_add) (rule frac_less2; simp)
  qed
  have "(1024 :: nat) = 970 + 54" "(1075 :: nat) = 1071 + 4" by simp_all
  then have "\<not> 2 ^ 1024 - 2 ^ 970 \<le> \<bar>x\<bar>" "\<not> \<bar>x\<bar> \<le> 1 / 2 ^ 1075"
    using big [of 970] small [of 1071] assms by (metis leD order_le_less_trans, metis leD order_less_le_trans)
  then show ?thesis unfolding f64_of_rat_def by (simp only: if_False)
qed

end
