(* ===== verification/Executor.thy ===== *)
theory Executor
  imports Generator Security Numbers "HOL-Library.AList" "HOL-Library.Word"
begin

unbundle bit_operations_syntax

text \<open>
  Statements on databases (\<open>crates/graphnight-sql/src/executor.rs\<close>): the pools of connections, kept
  by the name of the datasource and opened at the first use; the dispatch on the driver; the values
  bound to a statement; and the cells of an answer as JSON.

  The drivers (\<open>sqlx\<close>, \<open>duckdb\<close>) are the record \<open>sql_lib\<close>: \<open>'p\<close> is a pool or a connection, \<open>'k\<close>
  what a row holds in a column. A stream of rows is the list of what it yields until it ends.
\<close>

subsection \<open>Drivers\<close>

text \<open>What is bound to a placeholder, and the same for DuckDB.\<close>

datatype bind =
    BindNull
  | BindBool bool
  | BindInt int
  | BindFloat f64
  | BindText string

datatype duck_type =
    DNull | DBoolean | DTinyInt | DSmallInt | DInt | DBigInt | DHugeInt
  | DUTinyInt | DUSmallInt | DUInt | DUBigInt | DUHugeInt
  | DFloat | DDouble | DDecimal | DTimestamp | DDate32 | DTime64 | DText | DEnum | DBlob | DGeometry
  | DOther string

text \<open>
  \<open>row.try_get::<Option<T>, _>(name)\<close>: \<open>None\<close> where the column does not decode as \<open>T\<close>,
  \<open>Some None\<close> for a SQL NULL. Decimals, times and identifiers come as the text the code formats.
\<close>

record 'k cell_decoders =
  dc_string :: "'k \<Rightarrow> string option option"
  dc_i64 :: "'k \<Rightarrow> int option option"
  dc_i32 :: "'k \<Rightarrow> int option option"
  dc_i16 :: "'k \<Rightarrow> int option option"
  dc_f64 :: "'k \<Rightarrow> f64 option option"
  dc_f32 :: "'k \<Rightarrow> f64 option option"
  dc_bool :: "'k \<Rightarrow> bool option option"
  dc_json :: "'k \<Rightarrow> json option option"
  dc_datetime :: "'k \<Rightarrow> string option option"
  dc_uuid :: "'k \<Rightarrow> string option option"
  dc_decimal :: "'k \<Rightarrow> string option option"
  dc_naive_datetime :: "'k \<Rightarrow> string option option"
  dc_naive_date :: "'k \<Rightarrow> string option option"

text \<open>\<open>row.get::<_, T>(idx)\<close> of DuckDB, the integer types at the width of the column type.\<close>

record 'k duck_getters =
  dg_type :: "'k \<Rightarrow> string + duck_type"
  dg_bool :: "'k \<Rightarrow> string + bool"
  dg_int :: "duck_type \<Rightarrow> 'k \<Rightarrow> string + int"
  dg_float :: "duck_type \<Rightarrow> 'k \<Rightarrow> string + f64"
  dg_text :: "duck_type \<Rightarrow> 'k \<Rightarrow> string + string"
  dg_bytes :: "'k \<Rightarrow> string + 8 word list"

text \<open>The columns of a row in order, and the lookup of a column by its name.\<close>

record 'k sql_row =
  sr_columns :: "string list"
  sr_cell :: "string \<Rightarrow> 'k"

record ('p, 'k) sql_lib =
  sl_duckdb :: bool
  sl_connect :: "dialect \<Rightarrow> string \<Rightarrow> nat \<Rightarrow> string + 'p"
  sl_acquire :: "'p \<Rightarrow> string + unit"
  sl_add :: "dialect \<Rightarrow> bind \<Rightarrow> string + unit"
  sl_fetch :: "'p \<Rightarrow> string list \<Rightarrow> string \<Rightarrow> bind list \<Rightarrow> (string + 'k sql_row) list"
  sl_close :: "'p \<Rightarrow> 'p"
  sl_open_in_memory :: "string + 'p"
  sl_open :: "string \<Rightarrow> string + 'p"
  sl_duck_query :: "'p \<Rightarrow> string \<Rightarrow> bind list \<Rightarrow> string + string list \<times> 'k list list"
  sl_decoders :: "dialect \<Rightarrow> 'k cell_decoders"
  sl_getters :: "'k duck_getters"
  sl_float_text :: "rat \<Rightarrow> string"
  sl_json_from_str :: "string \<Rightarrow> json option"

datatype exec_error =
    SecretMissing secret_error
  | LibraryError string
  | CannotBind string
  | UnsupportedColumn dialect string
  | UnsupportedDriver string
  | UnsupportedIntrospection string

fun lib_result :: "string + 'a \<Rightarrow> exec_error + 'a" where
  "lib_result (Inl e) = Inl (LibraryError e)"
| "lib_result (Inr x) = Inr x"

subsection \<open>The connection manager\<close>

record 'p connection_manager =
  cm_pg_pools :: "(string \<times> 'p) list"
  cm_mysql_pools :: "(string \<times> 'p) list"
  cm_sqlite_pools :: "(string \<times> 'p) list"
  cm_duckdb_conns :: "(string \<times> 'p) list"
  cm_statement_timeout :: nat

text \<open>The timeout is in milliseconds.\<close>

definition connection_manager_new :: "'p connection_manager" where
  "connection_manager_new =
     \<lparr>cm_pg_pools = [], cm_mysql_pools = [], cm_sqlite_pools = [], cm_duckdb_conns = [],
      cm_statement_timeout = 300 * 1000\<rparr>"

definition with_statement_timeout :: "nat \<Rightarrow> 'p connection_manager \<Rightarrow> 'p connection_manager" where
  "with_statement_timeout timeout cm = cm\<lparr>cm_statement_timeout := timeout\<rparr>"

definition resolved_connection_string :: "env \<Rightarrow> data_source \<Rightarrow> exec_error + string" where
  "resolved_connection_string env ds =
     (case resolve_connection_string env (ds_connection_string ds) of
        Inl e \<Rightarrow> Inl (SecretMissing e)
      | Inr conn \<Rightarrow> Inr conn)"

text \<open>A pool that is there is taken; otherwise one is opened and kept under the name.\<close>

definition get_pg_pool ::
    "env \<Rightarrow> ('p, 'k) sql_lib \<Rightarrow> data_source \<Rightarrow> 'p connection_manager
      \<Rightarrow> (exec_error + 'p) \<times> 'p connection_manager" where
  "get_pg_pool env lib ds cm =
     (case map_of (cm_pg_pools cm) (ds_name ds) of
        Some pool \<Rightarrow> (Inr pool, cm)
      | None \<Rightarrow>
          (case rbind (resolved_connection_string env ds) (\<lambda>conn.
                  lib_result (sl_connect lib Postgres conn (unwrap_or (ds_pool_size ds) 10))) of
             Inl e \<Rightarrow> (Inl e, cm)
           | Inr pool \<Rightarrow> (Inr pool, cm\<lparr>cm_pg_pools := AList.update (ds_name ds) pool (cm_pg_pools cm)\<rparr>)))"

definition get_mysql_pool ::
    "env \<Rightarrow> ('p, 'k) sql_lib \<Rightarrow> data_source \<Rightarrow> 'p connection_manager
      \<Rightarrow> (exec_error + 'p) \<times> 'p connection_manager" where
  "get_mysql_pool env lib ds cm =
     (case map_of (cm_mysql_pools cm) (ds_name ds) of
        Some pool \<Rightarrow> (Inr pool, cm)
      | None \<Rightarrow>
          (case rbind (resolved_connection_string env ds) (\<lambda>conn.
                  lib_result (sl_connect lib MySql conn (unwrap_or (ds_pool_size ds) 10))) of
             Inl e \<Rightarrow> (Inl e, cm)
           | Inr pool \<Rightarrow> (Inr pool, cm\<lparr>cm_mysql_pools := AList.update (ds_name ds) pool (cm_mysql_pools cm)\<rparr>)))"

definition get_sqlite_pool ::
    "env \<Rightarrow> ('p, 'k) sql_lib \<Rightarrow> data_source \<Rightarrow> 'p connection_manager
      \<Rightarrow> (exec_error + 'p) \<times> 'p connection_manager" where
  "get_sqlite_pool env lib ds cm =
     (case map_of (cm_sqlite_pools cm) (ds_name ds) of
        Some pool \<Rightarrow> (Inr pool, cm)
      | None \<Rightarrow>
          (case rbind (resolved_connection_string env ds) (\<lambda>conn. lib_result (sl_connect lib Sqlite conn 1)) of
             Inl e \<Rightarrow> (Inl e, cm)
           | Inr pool \<Rightarrow> (Inr pool, cm\<lparr>cm_sqlite_pools := AList.update (ds_name ds) pool (cm_sqlite_pools cm)\<rparr>)))"

function trim_start_matches :: "string \<Rightarrow> string \<Rightarrow> string" where
  "trim_start_matches p s =
     (case strip_prefix p s of
        Some r \<Rightarrow> if p = [] then s else trim_start_matches p r
      | None \<Rightarrow> s)"
  by pat_completeness auto

termination
proof (relation "measure (length \<circ> snd)")
  fix p s r :: string
  assume "strip_prefix p s = Some r" "p \<noteq> []"
  then show "((p, r), p, s) \<in> measure (length \<circ> snd)" by (auto simp: strip_prefix_eq)
qed simp

declare trim_start_matches.simps [simp del]

definition open_duckdb :: "('p, 'k) sql_lib \<Rightarrow> string \<Rightarrow> exec_error + 'p" where
  "open_duckdb lib conn_str =
     (if conn_str = [] \<or> conn_str = '':memory:'' then lib_result (sl_open_in_memory lib)
      else lib_result (sl_open lib (trim_start_matches ''duckdb://'' conn_str)))"

definition get_duckdb_conn ::
    "env \<Rightarrow> ('p, 'k) sql_lib \<Rightarrow> data_source \<Rightarrow> 'p connection_manager
      \<Rightarrow> (exec_error + 'p) \<times> 'p connection_manager" where
  "get_duckdb_conn env lib ds cm =
     (case map_of (cm_duckdb_conns cm) (ds_name ds) of
        Some conn \<Rightarrow> (Inr conn, cm)
      | None \<Rightarrow>
          (case rbind (resolved_connection_string env ds) (open_duckdb lib) of
             Inl e \<Rightarrow> (Inl e, cm)
           | Inr conn \<Rightarrow> (Inr conn, cm\<lparr>cm_duckdb_conns := AList.update (ds_name ds) conn (cm_duckdb_conns cm)\<rparr>)))"

record pool_counts =
  pc_postgres :: nat
  pc_mysql :: nat
  pc_sqlite :: nat
  pc_duckdb :: nat

definition pool_counts_of :: "'p connection_manager \<Rightarrow> pool_counts" where
  "pool_counts_of cm =
     \<lparr>pc_postgres = length (cm_pg_pools cm), pc_mysql = length (cm_mysql_pools cm),
      pc_sqlite = length (cm_sqlite_pools cm), pc_duckdb = length (cm_duckdb_conns cm)\<rparr>"

text \<open>Every handle of a closed pool is closed, the ones that stay in the map as well.\<close>

definition close_all :: "('p, 'k) sql_lib \<Rightarrow> 'p connection_manager \<Rightarrow> 'p connection_manager" where
  "close_all lib cm =
     (let cm = cm\<lparr>cm_pg_pools := map (\<lambda>(name, pool). (name, sl_close lib pool)) (cm_pg_pools cm)\<rparr>
      in if sl_duckdb lib then cm\<lparr>cm_duckdb_conns := []\<rparr> else cm)"

subsection \<open>Bound values\<close>

text \<open>An integer of JSON that fits \<open>i64\<close>; \<open>-0\<close> is read as a float.\<close>

fun number_i64 :: "string \<Rightarrow> int option" where
  "number_i64 [] = None"
| "number_i64 (c # d) =
     (if c = CHR ''-'' then
        if all_digits d \<and> 0 < nat_of_digits d \<and> nat_of_digits d \<le> 2 ^ 63 then Some (- int (nat_of_digits d)) else None
      else if all_digits (c # d) \<and> nat_of_digits (c # d) < 2 ^ 63 then Some (int (nat_of_digits (c # d)))
      else None)"

definition number_u64 :: "string \<Rightarrow> nat option" where
  "number_u64 s = (if all_digits s \<and> nat_of_digits s < 2 ^ 64 then Some (nat_of_digits s) else None)"

text \<open>\<open>u.and_then(|u| i64::try_from(u).ok())\<close>\<close>

definition wide_value :: "string \<Rightarrow> int option" where
  "wide_value s = Option.bind (number_u64 s) (\<lambda>u. if u < 2 ^ 63 then Some (int u) else None)"

text \<open>\<open>add_param_fn!\<close>: the native scalar that stands for a value.\<close>

fun param_bind :: "(json \<Rightarrow> string) \<Rightarrow> json \<Rightarrow> bind" where
  "param_bind ser JNull = BindNull"
| "param_bind ser (JBool b) = BindBool b"
| "param_bind ser (JNumber n) =
     (case number_i64 n of
        Some i \<Rightarrow> BindInt i
      | None \<Rightarrow>
          (case wide_value n of
             Some w \<Rightarrow> BindInt w
           | None \<Rightarrow> BindFloat (unwrap_or (parse_f64 n) NaN)))"
| "param_bind ser (JString s) = BindText s"
| "param_bind ser (JArray vs) = BindText (ser (JArray vs))"
| "param_bind ser (JObject m) = BindText (ser (JObject m))"

definition add_param ::
    "('p, 'k) sql_lib \<Rightarrow> (json \<Rightarrow> string) \<Rightarrow> dialect \<Rightarrow> json \<Rightarrow> exec_error + bind" where
  "add_param lib ser d value =
     (case sl_add lib d (param_bind ser value) of
        Inl e \<Rightarrow> Inl (CannotBind e)
      | Inr _ \<Rightarrow> Inr (param_bind ser value))"

fun json_to_duckdb_value :: "(json \<Rightarrow> string) \<Rightarrow> json \<Rightarrow> bind" where
  "json_to_duckdb_value ser JNull = BindNull"
| "json_to_duckdb_value ser (JBool b) = BindBool b"
| "json_to_duckdb_value ser (JNumber n) =
     (case number_i64 n of
        Some i \<Rightarrow> BindInt i
      | None \<Rightarrow> BindFloat (unwrap_or (parse_f64 n) NaN))"
| "json_to_duckdb_value ser (JString s) = BindText s"
| "json_to_duckdb_value ser (JArray vs) = BindText (ser (JArray vs))"
| "json_to_duckdb_value ser (JObject m) = BindText (ser (JObject m))"

subsection \<open>Cells as JSON\<close>

text \<open>What a decoder answers, with the rendering of a value that is present; the decoders one after the other.\<close>

definition attempt :: "('a \<Rightarrow> json) \<Rightarrow> 'a option option \<Rightarrow> json option" where
  "attempt f r = map_option (\<lambda>v. case v of Some x \<Rightarrow> f x | None \<Rightarrow> JNull) r"

fun first_some :: "'a option list \<Rightarrow> 'a option" where
  "first_some [] = None"
| "first_some (Some x # rs) = Some x"
| "first_some (None # rs) = first_some rs"

definition json_i64 :: "int \<Rightarrow> json" where
  "json_i64 i = JNumber (int_str i)"

text \<open>\<open>serde_json::Number::from_f64\<close> knows finite numbers only.\<close>

fun json_f64 :: "(rat \<Rightarrow> string) \<Rightarrow> f64 \<Rightarrow> json" where
  "json_f64 float_text (Finite x) = JNumber (float_text x)"
| "json_f64 float_text (Infinite neg) = JNull"
| "json_f64 float_text NaN = JNull"

definition common_value_to_json :: "(rat \<Rightarrow> string) \<Rightarrow> 'k cell_decoders \<Rightarrow> 'k \<Rightarrow> json option" where
  "common_value_to_json float_text dc k =
     first_some
       [attempt JString (dc_string dc k), attempt json_i64 (dc_i64 dc k), attempt json_i64 (dc_i32 dc k),
        attempt json_i64 (dc_i16 dc k), attempt (json_f64 float_text) (dc_f64 dc k),
        attempt (json_f64 float_text) (dc_f32 dc k), attempt JBool (dc_bool dc k),
        attempt id (dc_json dc k), attempt JString (dc_datetime dc k), attempt JString (dc_uuid dc k)]"

definition decimal_to_json :: "('p, 'k) sql_lib \<Rightarrow> string \<Rightarrow> json" where
  "decimal_to_json lib d = (case sl_json_from_str lib d of Some v \<Rightarrow> v | None \<Rightarrow> JString d)"

definition pg_value_to_json :: "('p, 'k) sql_lib \<Rightarrow> 'k \<Rightarrow> string \<Rightarrow> exec_error + json" where
  "pg_value_to_json lib k name =
     (let dc = sl_decoders lib Postgres in
      ok_or (UnsupportedColumn Postgres name)
        (first_some
           [common_value_to_json (sl_float_text lib) dc k, attempt (decimal_to_json lib) (dc_decimal dc k),
            attempt JString (dc_naive_datetime dc k), attempt JString (dc_naive_date dc k)]))"

definition mysql_value_to_json :: "('p, 'k) sql_lib \<Rightarrow> 'k \<Rightarrow> string \<Rightarrow> exec_error + json" where
  "mysql_value_to_json lib k name =
     (let dc = sl_decoders lib MySql in
      ok_or (UnsupportedColumn MySql name)
        (first_some
           [common_value_to_json (sl_float_text lib) dc k, attempt (decimal_to_json lib) (dc_decimal dc k),
            attempt JString (dc_naive_datetime dc k), attempt JString (dc_naive_date dc k)]))"

definition sqlite_value_to_json :: "('p, 'k) sql_lib \<Rightarrow> 'k \<Rightarrow> string \<Rightarrow> exec_error + json" where
  "sqlite_value_to_json lib k name =
     (let dc = sl_decoders lib Sqlite in
      ok_or (UnsupportedColumn Sqlite name)
        (first_some [common_value_to_json (sl_float_text lib) dc k, attempt JString (dc_naive_date dc k)]))"

text \<open>A row becomes a map; the driver looks a column up by its name.\<close>

definition row_to_map :: "('k \<Rightarrow> string \<Rightarrow> exec_error + json) \<Rightarrow> 'k sql_row \<Rightarrow> exec_error + (string \<times> json) list" where
  "row_to_map decode row =
     foldl (\<lambda>acc name. rbind acc (\<lambda>m. rbind (decode (sr_cell row name) name) (\<lambda>v. Inr (AList.update name v m))))
       (Inr []) (sr_columns row)"

subsection \<open>DuckDB cells\<close>

definition hex_digits :: string where
  "hex_digits = ''0123456789abcdef''"

definition hex_encode :: "8 word list \<Rightarrow> string" where
  "hex_encode bytes =
     concat (map (\<lambda>b. [hex_digits ! unat (drop_bit 4 b), hex_digits ! unat (b AND 0x0f)]) bytes)"

definition hugeint_json :: "int \<Rightarrow> json" where
  "hugeint_json n = (if - (2 ^ 63) \<le> n \<and> n < 2 ^ 63 then JNumber (int_str n) else JString (int_str n))"

definition uhugeint_json :: "int \<Rightarrow> json" where
  "uhugeint_json n = (if 0 \<le> n \<and> n < 2 ^ 64 then JNumber (int_str n) else JString (int_str n))"

definition duckdb_value_to_json :: "('p, 'k) sql_lib \<Rightarrow> 'k \<Rightarrow> string \<Rightarrow> exec_error + json" where
  "duckdb_value_to_json lib k name =
     (let g = sl_getters lib;
          get_int = (\<lambda>t f. rbind (lib_result (dg_int g t k)) (\<lambda>i. Inr (f i)));
          get_float = (\<lambda>t. rbind (lib_result (dg_float g t k)) (\<lambda>x. Inr (json_f64 (sl_float_text lib) x)));
          get_text = (\<lambda>t f. rbind (lib_result (dg_text g t k)) (\<lambda>s. Inr (f s)));
          get_bytes = rbind (lib_result (dg_bytes g k)) (\<lambda>bs. Inr (JString (hex_encode bs)))
      in rbind (lib_result (dg_type g k)) (\<lambda>t.
        case t of
          DNull \<Rightarrow> Inr JNull
        | DBoolean \<Rightarrow> rbind (lib_result (dg_bool g k)) (\<lambda>b. Inr (JBool b))
        | DHugeInt \<Rightarrow> get_int t hugeint_json
        | DUHugeInt \<Rightarrow> get_int t uhugeint_json
        | DFloat \<Rightarrow> get_float t
        | DDouble \<Rightarrow> get_float t
        | DDecimal \<Rightarrow> get_text t (decimal_to_json lib)
        | DTimestamp \<Rightarrow> get_text t JString
        | DDate32 \<Rightarrow> get_text t JString
        | DTime64 \<Rightarrow> get_text t JString
        | DText \<Rightarrow> get_text t JString
        | DEnum \<Rightarrow> get_text t JString
        | DBlob \<Rightarrow> get_bytes
        | DGeometry \<Rightarrow> get_bytes
        | DOther _ \<Rightarrow> Inl (UnsupportedColumn DuckDb name)
        | _ \<Rightarrow> get_int t json_i64))"

definition run_duckdb_query ::
    "('p, 'k) sql_lib \<Rightarrow> (json \<Rightarrow> string) \<Rightarrow> 'p \<Rightarrow> string \<Rightarrow> json list \<Rightarrow> exec_error + (string \<times> json) list list" where
  "run_duckdb_query lib ser conn sql params =
     rbind (lib_result (sl_duck_query lib conn sql (map (json_to_duckdb_value ser) params))) (\<lambda>(names, rows).
       rmap (\<lambda>row. foldl (\<lambda>acc (name, k). rbind acc (\<lambda>m.
                       rbind (duckdb_value_to_json lib k name) (\<lambda>v. Inr (AList.update name v m))))
                     (Inr []) (zip names row)) rows)"

subsection \<open>Running a statement\<close>

text \<open>A stream ends at its first error.\<close>

fun yield_rows :: "('k sql_row \<Rightarrow> exec_error + 'r) \<Rightarrow> (string + 'k sql_row) list \<Rightarrow> (exec_error + 'r) list" where
  "yield_rows f [] = []"
| "yield_rows f (Inl e # items) = [Inl (LibraryError e)]"
| "yield_rows f (Inr row # items) =
     (case f row of Inl e \<Rightarrow> [Inl e] | Inr r \<Rightarrow> Inr r # yield_rows f items)"

text \<open>One of the pooled drivers: the pool, a connection, the arguments, the rows.\<close>

definition stream_on_pool ::
    "('p, 'k) sql_lib \<Rightarrow> (json \<Rightarrow> string) \<Rightarrow> dialect \<Rightarrow> exec_error + 'p \<Rightarrow> string list \<Rightarrow> string \<Rightarrow> json list
      \<Rightarrow> ('k \<Rightarrow> string \<Rightarrow> exec_error + json) \<Rightarrow> (exec_error + (string \<times> json) list) list" where
  "stream_on_pool lib ser d pool sts sql params decode =
     (case rbind pool (\<lambda>p.
             rbind (if d = Sqlite then Inr () else lib_result (sl_acquire lib p)) (\<lambda>_.
               rbind (rmap (add_param lib ser d) params) (\<lambda>args. Inr (p, args)))) of
        Inl e \<Rightarrow> [Inl e]
      | Inr (p, args) \<Rightarrow> yield_rows (row_to_map decode) (sl_fetch lib p sts sql args))"

definition execute_stream ::
    "env \<Rightarrow> ('p, 'k) sql_lib \<Rightarrow> (json \<Rightarrow> string) \<Rightarrow> data_source \<Rightarrow> generated_sql \<Rightarrow> 'p connection_manager
      \<Rightarrow> (exec_error + (string \<times> json) list) list \<times> 'p connection_manager" where
  "execute_stream env lib ser ds g cm =
     (let driver = ds_driver ds; sql = gs_sql g; params = gs_params g; ms = nat_str (cm_statement_timeout cm) in
      if driver = ''postgres'' \<or> driver = ''postgresql'' \<or> driver = ''pg'' then
        (case get_pg_pool env lib ds cm of (pool, cm) \<Rightarrow>
           (stream_on_pool lib ser Postgres pool [''SET statement_timeout = '' @ ms] sql params (pg_value_to_json lib), cm))
      else if driver = ''mysql'' \<or> driver = ''mariadb'' then
        (case get_mysql_pool env lib ds cm of (pool, cm) \<Rightarrow>
           (stream_on_pool lib ser MySql pool [''SET SESSION max_execution_time = '' @ ms] sql params (mysql_value_to_json lib), cm))
      else if driver = ''sqlite'' \<or> driver = ''sqlite3'' then
        (case get_sqlite_pool env lib ds cm of (pool, cm) \<Rightarrow>
           (stream_on_pool lib ser Sqlite pool [] sql params (sqlite_value_to_json lib), cm))
      else if driver = ''duckdb'' \<and> sl_duckdb lib then
        (case get_duckdb_conn env lib ds cm of (conn, cm) \<Rightarrow>
           (case rbind conn (\<lambda>c. run_duckdb_query lib ser c sql params) of
              Inl e \<Rightarrow> ([Inl e], cm)
            | Inr rows \<Rightarrow> (map Inr rows, cm)))
      else ([Inl (UnsupportedDriver driver)], cm))"

text \<open>\<open>rows.push(item?)\<close> until the stream ends.\<close>

definition execute_streaming_collect ::
    "env \<Rightarrow> ('p, 'k) sql_lib \<Rightarrow> (json \<Rightarrow> string) \<Rightarrow> data_source \<Rightarrow> generated_sql \<Rightarrow> 'p connection_manager
      \<Rightarrow> (exec_error + (string \<times> json) list list) \<times> 'p connection_manager" where
  "execute_streaming_collect env lib ser ds g cm =
     (case execute_stream env lib ser ds g cm of (items, cm) \<Rightarrow> (rmap id items, cm))"

definition execute_literal ::
    "env \<Rightarrow> ('p, 'k) sql_lib \<Rightarrow> (json \<Rightarrow> string) \<Rightarrow> data_source \<Rightarrow> string \<Rightarrow> 'p connection_manager
      \<Rightarrow> (exec_error + (string \<times> json) list list) \<times> 'p connection_manager" where
  "execute_literal env lib ser ds sql cm = execute_streaming_collect env lib ser ds (generated_literal sql) cm"

subsection \<open>A pool stays\<close>

text \<open>What the four lookups promise: a pool that is there is taken, and nothing is replaced.\<close>

locale pool_lookup =
  fixes get :: "env \<Rightarrow> data_source \<Rightarrow> 'p connection_manager \<Rightarrow> (exec_error + 'p) \<times> 'p connection_manager"
    and pools :: "'p connection_manager \<Rightarrow> (string \<times> 'p) list"
  assumes hit: "map_of (pools cm) (ds_name ds) = Some p \<Longrightarrow> get env ds cm = (Inr p, cm)"
    and miss: "map_of (pools cm) (ds_name ds) = None \<Longrightarrow> get env ds cm = (r, cm') \<Longrightarrow>
      (case r of Inl e \<Rightarrow> cm' = cm | Inr p \<Rightarrow> pools cm' = AList.update (ds_name ds) p (pools cm))"
begin

lemma kept: "map_of (pools cm) n = Some p \<Longrightarrow> map_of (pools (snd (get env ds cm))) n = Some p"
  using hit [of cm ds _ env] miss [of cm ds env]
  by (cases "get env ds cm"; cases "map_of (pools cm) (ds_name ds)"; cases "fst (get env ds cm)")
    (auto simp: update_conv')

lemma used: "get env ds cm = (Inr p, cm') \<Longrightarrow> map_of (pools cm') (ds_name ds) = Some p"
  using hit [of cm ds _ env] miss [of cm ds env "Inr p" cm']
  by (cases "map_of (pools cm) (ds_name ds)") (auto simp: update_conv')

lemma counted: "length (pools (snd (get env ds cm))) \<le> Suc (length (pools cm))"
proof (cases "map_of (pools cm) (ds_name ds)")
  case None
  have "length (AList.update n p ps) \<le> Suc (length ps)" for n p and ps :: "(string \<times> 'p) list"
    by (induction ps) auto
  then show ?thesis
    using miss [OF None, of env "fst (get env ds cm)" "snd (get env ds cm)"] by (auto split: sum.splits)
qed (simp add: hit)

end

interpretation pg: pool_lookup "\<lambda>env. get_pg_pool env lib" cm_pg_pools for lib
  by unfold_locales (auto simp: get_pg_pool_def split: sum.splits)

interpretation mysql: pool_lookup "\<lambda>env. get_mysql_pool env lib" cm_mysql_pools for lib
  by unfold_locales (auto simp: get_mysql_pool_def split: sum.splits)

interpretation sqlite: pool_lookup "\<lambda>env. get_sqlite_pool env lib" cm_sqlite_pools for lib
  by unfold_locales (auto simp: get_sqlite_pool_def split: sum.splits)

interpretation duck: pool_lookup "\<lambda>env. get_duckdb_conn env lib" cm_duckdb_conns for lib
  by unfold_locales (auto simp: get_duckdb_conn_def split: sum.splits)

text \<open>The driver a statement runs on, and the pools of that driver.\<close>

definition executor_driver :: "('p, 'k) sql_lib \<Rightarrow> string \<Rightarrow> dialect option" where
  "executor_driver lib driver =
     (if driver = ''postgres'' \<or> driver = ''postgresql'' \<or> driver = ''pg'' then Some Postgres
      else if driver = ''mysql'' \<or> driver = ''mariadb'' then Some MySql
      else if driver = ''sqlite'' \<or> driver = ''sqlite3'' then Some Sqlite
      else if driver = ''duckdb'' \<and> sl_duckdb lib then Some DuckDb
      else None)"

fun pools_of :: "dialect \<Rightarrow> 'p connection_manager \<Rightarrow> (string \<times> 'p) list" where
  "pools_of Postgres cm = cm_pg_pools cm"
| "pools_of MySql cm = cm_mysql_pools cm"
| "pools_of Sqlite cm = cm_sqlite_pools cm"
| "pools_of DuckDb cm = cm_duckdb_conns cm"

text \<open>What a statement does with the pool it was given.\<close>

fun stream_with ::
    "('p, 'k) sql_lib \<Rightarrow> (json \<Rightarrow> string) \<Rightarrow> dialect \<Rightarrow> string \<Rightarrow> generated_sql \<Rightarrow> exec_error + 'p
      \<Rightarrow> (exec_error + (string \<times> json) list) list" where
  "stream_with lib ser Postgres ms g pool =
     stream_on_pool lib ser Postgres pool [''SET statement_timeout = '' @ ms] (gs_sql g) (gs_params g) (pg_value_to_json lib)"
| "stream_with lib ser MySql ms g pool =
     stream_on_pool lib ser MySql pool [''SET SESSION max_execution_time = '' @ ms] (gs_sql g) (gs_params g) (mysql_value_to_json lib)"
| "stream_with lib ser Sqlite ms g pool =
     stream_on_pool lib ser Sqlite pool [] (gs_sql g) (gs_params g) (sqlite_value_to_json lib)"
| "stream_with lib ser DuckDb ms g pool =
     (case rbind pool (\<lambda>c. run_duckdb_query lib ser c (gs_sql g) (gs_params g)) of
        Inl e \<Rightarrow> [Inl e] | Inr rows \<Rightarrow> map Inr rows)"

fun get_pool :: "env \<Rightarrow> ('p, 'k) sql_lib \<Rightarrow> dialect \<Rightarrow> data_source \<Rightarrow> 'p connection_manager
    \<Rightarrow> (exec_error + 'p) \<times> 'p connection_manager" where
  "get_pool env lib Postgres = get_pg_pool env lib"
| "get_pool env lib MySql = get_mysql_pool env lib"
| "get_pool env lib Sqlite = get_sqlite_pool env lib"
| "get_pool env lib DuckDb = get_duckdb_conn env lib"

lemma execute_stream_dispatch:
  "execute_stream env lib ser ds g cm =
     (case executor_driver lib (ds_driver ds) of
        None \<Rightarrow> ([Inl (UnsupportedDriver (ds_driver ds))], cm)
      | Some d \<Rightarrow> (case get_pool env lib d ds cm of (pool, cm') \<Rightarrow>
          (stream_with lib ser d (nat_str (cm_statement_timeout cm)) g pool, cm')))"
  by (auto simp: execute_stream_def executor_driver_def Let_def split: prod.splits sum.splits)

lemma get_pool_hit:
  "map_of (pools_of d cm) (ds_name ds) = Some p \<Longrightarrow> get_pool env lib d ds cm = (Inr p, cm)"
  by (cases d) (simp_all add: pg.hit mysql.hit sqlite.hit duck.hit)

lemma get_pool_used:
  "get_pool env lib d ds cm = (Inr p, cm') \<Longrightarrow> map_of (pools_of d cm') (ds_name ds) = Some p"
  by (cases d) (auto dest: pg.used mysql.used sqlite.used duck.used)

lemma get_pool_other:
  "d' \<noteq> d \<Longrightarrow> pools_of d (snd (get_pool env lib d' ds cm)) = pools_of d cm"
  by (cases d; cases d')
    (auto simp: get_pg_pool_def get_mysql_pool_def get_sqlite_pool_def get_duckdb_conn_def
       split: option.split sum.split)

lemma get_pool_kept:
  assumes "map_of (pools_of d cm) n = Some p"
  shows "map_of (pools_of d (snd (get_pool env lib d' ds cm))) n = Some p"
proof (cases "d' = d")
  case True
  then show ?thesis using assms by (cases d) (simp_all add: pg.kept mysql.kept sqlite.kept duck.kept)
qed (simp add: assms get_pool_other)

lemma get_pool_timeout: "cm_statement_timeout (snd (get_pool env lib d ds cm)) = cm_statement_timeout cm"
  by (cases d)
    (auto simp: get_pg_pool_def get_mysql_pool_def get_sqlite_pool_def get_duckdb_conn_def
       split: option.split sum.split)

text \<open>The manager after a history of statements, each in the environment of its time.\<close>

definition manager_after ::
    "('p, 'k) sql_lib \<Rightarrow> (json \<Rightarrow> string) \<Rightarrow> (env \<times> data_source \<times> generated_sql) list
      \<Rightarrow> 'p connection_manager \<Rightarrow> 'p connection_manager" where
  "manager_after lib ser history cm =
     foldl (\<lambda>cm (env, ds, g). snd (execute_stream env lib ser ds g cm)) cm history"

lemma execute_stream_kept:
  "map_of (pools_of d cm) n = Some p \<Longrightarrow> map_of (pools_of d (snd (execute_stream env lib ser ds g cm))) n = Some p"
  by (auto simp: execute_stream_dispatch split: option.split prod.split)
    (metis get_pool_kept snd_conv)

lemma manager_after_kept:
  "map_of (pools_of d cm) n = Some p \<Longrightarrow> map_of (pools_of d (manager_after lib ser history cm)) n = Some p"
  by (induction history arbitrary: cm) (auto simp: manager_after_def execute_stream_kept)

lemma execute_stream_timeout:
  "cm_statement_timeout (snd (execute_stream env lib ser ds g cm)) = cm_statement_timeout cm"
  by (auto simp: execute_stream_dispatch split: option.split prod.split) (metis get_pool_timeout snd_conv)

lemma manager_after_timeout:
  "cm_statement_timeout (manager_after lib ser history cm) = cm_statement_timeout cm"
  by (induction history arbitrary: cm) (auto simp: manager_after_def execute_stream_timeout)

text \<open>
  C29. Once a pool was opened for a datasource, every later statement on a datasource of that name and
  driver runs on that pool, whatever ran in between: the connection string, the secret it
  refers to and the pool size no longer matter.
\<close>

theorem first_pool_serves_forever:
  assumes "executor_driver lib (ds_driver ds) = Some d" and "get_pool env0 lib d ds cm = (Inr p, cm0)"
    and "executor_driver lib (ds_driver ds') = Some d" and "ds_name ds' = ds_name ds"
  shows "execute_stream env lib ser ds' g (manager_after lib ser history cm0) =
    (stream_with lib ser d (nat_str (cm_statement_timeout cm)) g (Inr p), manager_after lib ser history cm0)"
proof -
  have "map_of (pools_of d (manager_after lib ser history cm0)) (ds_name ds') = Some p"
    using manager_after_kept [OF get_pool_used [OF assms(2)]] assms(4) by simp
  moreover have "cm_statement_timeout cm0 = cm_statement_timeout cm"
    using get_pool_timeout [of env0 lib d ds cm] assms(2) by simp
  ultimately show ?thesis
    by (simp add: execute_stream_dispatch assms(3) get_pool_hit manager_after_timeout)
qed

text \<open>Closing everything leaves the closed pools in place, and they are handed out again.\<close>

lemma closed_pools_are_handed_out:
  assumes "map_of (cm_pg_pools cm) (ds_name ds) = Some p"
  shows "get_pg_pool env lib ds (close_all lib cm) = (Inr (sl_close lib p), close_all lib cm)"
  using assms by (intro pg.hit) (simp add: close_all_def Let_def map_of_map)

lemma close_all_leaves_mysql_and_sqlite:
  "cm_mysql_pools (close_all lib cm) = cm_mysql_pools cm" "cm_sqlite_pools (close_all lib cm) = cm_sqlite_pools cm"
  by (simp_all add: close_all_def Let_def)

text \<open>A driver name that is run is one the dialects know, but not every name they take is run.\<close>

lemma executor_driver_dialect: "executor_driver lib name = Some d \<Longrightarrow> get_dialect name = d"
proof -
  have "get_dialect ''postgres'' = Postgres" "get_dialect ''postgresql'' = Postgres" "get_dialect ''pg'' = Postgres"
    "get_dialect ''mysql'' = MySql" "get_dialect ''mariadb'' = MySql" "get_dialect ''sqlite'' = Sqlite"
    "get_dialect ''sqlite3'' = Sqlite" "get_dialect ''duckdb'' = DuckDb" by code_simp+
  then show "executor_driver lib name = Some d \<Longrightarrow> get_dialect name = d"
    by (auto simp: executor_driver_def split: if_split_asm)
qed

lemma generated_but_not_run: "get_dialect ''PostgreSQL'' = Postgres \<and> executor_driver lib ''PostgreSQL'' = None"
proof -
  have "get_dialect ''PostgreSQL'' = Postgres" by code_simp
  then show ?thesis by (simp add: executor_driver_def)
qed

subsection \<open>Bound values\<close>

lemma wide_value_is_i64:
  assumes "wide_value n = Some w"
  shows "number_i64 n = Some w"
proof -
  from assms have n: "all_digits n" "nat_of_digits n < 2 ^ 63" "w = int (nat_of_digits n)"
    by (auto simp: wide_value_def number_u64_def split: bind_splits if_split_asm)
  then obtain c d where s: "n = c # d" by (cases n) (auto simp: all_digits_def)
  then have "c \<noteq> CHR ''-''" using n(1) digit_not_sign by (auto simp: all_digits_def)
  with n s show ?thesis by simp
qed

text \<open>
  The branch that widens an unsigned integer is never taken, so that every driver is bound the
  same value: a number is an integer exactly when it fits 64 bits with a sign, and a float otherwise.
\<close>

lemma drivers_bind_the_same:
  "param_bind ser v = json_to_duckdb_value ser v"
  by (cases v) (auto split: option.splits dest: wide_value_is_i64)

text \<open>A text is bound as it is, not in the quotes of its JSON form; an integer beyond the range as a float.\<close>

lemma number_i64_int_str:
  assumes "- (2 ^ 63) \<le> i" and "i < 2 ^ 63"
  shows "number_i64 (int_str i) = Some i"
proof (cases "i < 0")
  case True
  then have "nat (- i) \<le> 2 ^ 63" using assms(1) by simp
  then show ?thesis using True by (simp add: int_str_def all_digits_nat_str nat_of_digits_nat_str)
next
  case False
  then have small: "nat i < 2 ^ 63" using assms(2) by simp
  obtain c d where s: "nat_str (nat i) = c # d"
    using all_digits_nat_str [of "nat i"] by (cases "nat_str (nat i)") (auto simp: all_digits_def)
  then have "c \<noteq> CHR ''-''"
    using all_digits_nat_str [of "nat i"] digit_not_sign by (auto simp: all_digits_def)
  moreover have "all_digits (c # d)" "nat_of_digits (c # d) = nat i"
    using all_digits_nat_str nat_of_digits_nat_str by (metis s)+
  ultimately show ?thesis using False small by (simp add: int_str_def s)
qed

lemma bound_integer:
  "- (2 ^ 63) \<le> i \<Longrightarrow> i < 2 ^ 63 \<Longrightarrow> param_bind ser (json_i64 i) = BindInt i"
  by (simp add: json_i64_def number_i64_int_str)

subsection \<open>Nulls\<close>

lemma first_some_append: "first_some (xs @ ys) = (case first_some xs of Some x \<Rightarrow> Some x | None \<Rightarrow> first_some ys)"
  by (induction xs rule: first_some.induct) auto

lemma first_some_Some: "first_some xs = Some x \<Longrightarrow> Some x \<in> set xs"
  by (induction xs rule: first_some.induct) auto

lemma json_f64_JNull: "json_f64 t x = JNull \<longleftrightarrow> (\<forall>r. x \<noteq> Finite r)"
  by (cases x) auto

fun value_to_json :: "('p, 'k) sql_lib \<Rightarrow> dialect \<Rightarrow> 'k \<Rightarrow> string \<Rightarrow> exec_error + json" where
  "value_to_json lib Postgres = pg_value_to_json lib"
| "value_to_json lib MySql = mysql_value_to_json lib"
| "value_to_json lib Sqlite = sqlite_value_to_json lib"
| "value_to_json lib DuckDb = duckdb_value_to_json lib"

text \<open>
  What \<open>sqlx\<close> documents of a null: it decodes as \<open>None\<close> of any type, and no other cell does.
\<close>

definition nulls_reported :: "'k cell_decoders \<Rightarrow> ('k \<Rightarrow> bool) \<Rightarrow> bool" where
  "nulls_reported dc is_null \<longleftrightarrow>
     (\<forall>k. is_null k \<longrightarrow> dc_string dc k = Some None) \<and>
     (\<forall>k. \<not> is_null k \<longrightarrow>
        dc_string dc k \<noteq> Some None \<and> dc_i64 dc k \<noteq> Some None \<and> dc_i32 dc k \<noteq> Some None \<and> dc_i16 dc k \<noteq> Some None \<and>
        dc_f64 dc k \<noteq> Some None \<and> dc_f32 dc k \<noteq> Some None \<and> dc_bool dc k \<noteq> Some None \<and> dc_json dc k \<noteq> Some None \<and>
        dc_datetime dc k \<noteq> Some None \<and> dc_uuid dc k \<noteq> Some None \<and> dc_decimal dc k \<noteq> Some None \<and>
        dc_naive_datetime dc k \<noteq> Some None \<and> dc_naive_date dc k \<noteq> Some None)"

text \<open>A float without a number in JSON, or the JSON value null.\<close>

definition unprintable :: "'k cell_decoders \<Rightarrow> 'k \<Rightarrow> bool" where
  "unprintable dc k \<longleftrightarrow>
     (\<exists>x. (dc_f64 dc k = Some (Some x) \<or> dc_f32 dc k = Some (Some x)) \<and> (\<forall>r. x \<noteq> Finite r)) \<or>
     dc_json dc k = Some (Some JNull)"

lemma attempt_JNull:
  "attempt f r = Some JNull \<longleftrightarrow> r = Some None \<or> (\<exists>x. r = Some (Some x) \<and> f x = JNull)"
  by (auto simp: attempt_def split: option.splits)

lemma common_value_JNull:
  assumes "nulls_reported dc is_null" and "common_value_to_json t dc k = Some JNull"
  shows "is_null k \<or> unprintable dc k"
proof (rule ccontr)
  assume n: "\<not> (is_null k \<or> unprintable dc k)"
  have "\<forall>r \<in> set
       [attempt JString (dc_string dc k), attempt json_i64 (dc_i64 dc k), attempt json_i64 (dc_i32 dc k),
        attempt json_i64 (dc_i16 dc k), attempt (json_f64 t) (dc_f64 dc k),
        attempt (json_f64 t) (dc_f32 dc k), attempt JBool (dc_bool dc k),
        attempt id (dc_json dc k), attempt JString (dc_datetime dc k), attempt JString (dc_uuid dc k)]. r \<noteq> Some JNull"
    using assms(1) n
    by (simp add: nulls_reported_def unprintable_def attempt_JNull json_i64_def json_f64_JNull) blast
  then show False using first_some_Some [of _ JNull] assms(2) unfolding common_value_to_json_def by blast
qed

lemma first_some_Cons: "first_some (r # rs) = (case r of Some x \<Rightarrow> Some x | None \<Rightarrow> first_some rs)"
  by (cases r) auto

lemmas value_decoders = pg_value_to_json_def mysql_value_to_json_def sqlite_value_to_json_def

text \<open>
  What \<open>serde_json\<close> and \<open>rust_decimal\<close> document: the value null is read from its word only, and a decimal
  is printed with digits, a sign and a point.
\<close>

definition null_word_only :: "('p, 'k) sql_lib \<Rightarrow> bool" where
  "null_word_only lib \<longleftrightarrow> (\<forall>s. sl_json_from_str lib s = Some JNull \<longrightarrow> trim s = ''null'')"

definition decimals_plain :: "'k cell_decoders \<Rightarrow> bool" where
  "decimals_plain dc \<longleftrightarrow>
     (\<forall>k s. dc_decimal dc k = Some (Some s) \<longrightarrow> list_all (\<lambda>c. is_ascii_digit c \<or> c \<in> set ''-.'') s)"

lemma decimal_not_null:
  assumes "null_word_only lib" and "decimals_plain dc" and "dc_decimal dc k = Some (Some s)"
  shows "decimal_to_json lib s \<noteq> JNull"
proof
  assume "decimal_to_json lib s = JNull"
  then have "sl_json_from_str lib s = Some JNull" by (auto simp: decimal_to_json_def split: option.splits)
  then have "CHR ''n'' \<in> set s" using assms(1) set_trim [of s] by (auto simp: null_word_only_def)
  then have "is_ascii_digit (CHR ''n'') \<or> CHR ''n'' \<in> set ''-.''"
    using assms(2,3) by (auto simp: decimals_plain_def list_all_iff)
  then show False by (simp add: is_ascii_digit_def byte_def)
qed

text \<open>
  C30. Over drivers that tell nulls apart and print decimals as numbers, and a JSON reader that reads null
  from its word only, a pooled driver answers a SQL null as null, and of the other cells only floats
  that are not finite and the JSON value null: everything else is a value or an error.
\<close>

theorem null_is_not_a_fallback:
  assumes "nulls_reported (sl_decoders lib d) is_null" and "d \<noteq> DuckDb"
    and "null_word_only lib" and "decimals_plain (sl_decoders lib d)"
  shows "(is_null k \<longrightarrow> value_to_json lib d k name = Inr JNull) \<and>
    (value_to_json lib d k name = Inr JNull \<longrightarrow> is_null k \<or> unprintable (sl_decoders lib d) k)"
proof -
  let ?dc = "sl_decoders lib d"
  have "is_null k \<Longrightarrow> common_value_to_json t ?dc k = Some JNull" for t
    using assms(1) by (simp add: nulls_reported_def common_value_to_json_def attempt_def)
  then have 1: "is_null k \<Longrightarrow> value_to_json lib d k name = Inr JNull"
    using assms(2) by (cases d) (simp_all add: value_decoders Let_def ok_or_def)
  have dec: "dc_decimal ?dc k = Some (Some s) \<Longrightarrow> decimal_to_json lib s \<noteq> JNull" for s
    using decimal_not_null [OF assms(3,4)] by blast
  have no: "\<not> is_null k \<Longrightarrow> dc_decimal ?dc k \<noteq> Some None \<and> dc_naive_datetime ?dc k \<noteq> Some None \<and>
      dc_naive_date ?dc k \<noteq> Some None"
    using assms(1) by (simp add: nulls_reported_def)
  have 2: "is_null k \<or> unprintable ?dc k" if v: "value_to_json lib d k name = Inr JNull"
  proof (rule ccontr)
    assume n: "\<not> (is_null k \<or> unprintable ?dc k)"
    then have "common_value_to_json t ?dc k \<noteq> Some JNull" for t
      using common_value_JNull [OF assms(1)] by blast
    with v n no dec assms(2) show False
      by (cases d)
        (auto simp: value_decoders Let_def ok_or_Inr attempt_JNull eq_commute [of "Some JNull"] dest!: first_some_Some)
  qed
  show ?thesis using 1 2 by blast
qed

subsection \<open>Streams\<close>

text \<open>The rows before the first error.\<close>

lemma yield_rows_shape:
  "\<exists>rows. yield_rows f items = map Inr rows \<or> (\<exists>e. yield_rows f items = map Inr rows @ [Inl e])"
proof (induction f items rule: yield_rows.induct)
  case (2 f e items)
  then show ?case by (intro exI [of _ "[]"]) simp
next
  case (3 f row items)
  show ?case
  proof (cases "f row")
    case (Inl e)
    then show ?thesis by (intro exI [of _ "[]"]) simp
  next
    case (Inr r)
    from "3.IH" [OF this] obtain rows where
      "yield_rows f items = map Inr rows \<or> (\<exists>e. yield_rows f items = map Inr rows @ [Inl e])" by blast
    with Inr show ?thesis by (intro exI [of _ "r # rows"]) auto
  qed
qed simp

lemma rmap_id_rows: "rmap id (map Inr rows) = Inr rows"
  by (induction rows) auto

lemma rmap_id_error: "rmap id (map Inr rows @ [Inl e]) = Inl e"
  by (induction rows) auto

lemma stream_with_shape:
  "\<exists>rows. stream_with lib ser d ms g pool = map Inr rows \<or>
     (\<exists>e. stream_with lib ser d ms g pool = map Inr rows @ [Inl e] \<and> (d = DuckDb \<longrightarrow> rows = []))"
proof (cases "d = DuckDb")
  case True
  show ?thesis
  proof (cases "rbind pool (\<lambda>c. run_duckdb_query lib ser c (gs_sql g) (gs_params g))")
    case (Inl e)
    then show ?thesis using True by (intro exI [of _ "[]"]) simp
  next
    case (Inr rows)
    then show ?thesis using True by (intro exI [of _ rows]) simp
  qed
next
  case False
  have "\<exists>rows. stream_on_pool lib ser d' pool sts sql params decode = map Inr rows \<or>
      (\<exists>e. stream_on_pool lib ser d' pool sts sql params decode = map Inr rows @ [Inl e])"
    for d' sts sql params decode
    using yield_rows_shape by (fastforce simp: stream_on_pool_def split: sum.split prod.split intro: exI [of _ "[]"])
  with False show ?thesis by (cases d) auto
qed

text \<open>
  A stream is rows and then at most one error, after which it ends; collecting it gives the rows,
  or the error and no row; a statement on DuckDB that fails has yielded no row.
\<close>

lemma stream_ends_at_error:
  assumes "execute_stream env lib ser ds g cm = (items, cm')"
  shows "(\<exists>rows. items = map Inr rows \<and> execute_streaming_collect env lib ser ds g cm = (Inr rows, cm')) \<or>
    (\<exists>rows e. items = map Inr rows @ [Inl e] \<and> execute_streaming_collect env lib ser ds g cm = (Inl e, cm') \<and>
      (executor_driver lib (ds_driver ds) = Some DuckDb \<longrightarrow> rows = []))"
proof -
  have "\<exists>rows. items = map Inr rows \<or>
      (\<exists>e. items = map Inr rows @ [Inl e] \<and> (executor_driver lib (ds_driver ds) = Some DuckDb \<longrightarrow> rows = []))"
  proof (cases "executor_driver lib (ds_driver ds)")
    case None
    then show ?thesis using assms by (intro exI [of _ "[]"]) (auto simp: execute_stream_dispatch)
  next
    case (Some d)
    then show ?thesis
      using assms stream_with_shape by (fastforce simp: execute_stream_dispatch split: prod.splits)
  qed
  then show ?thesis
    using assms by (auto simp: execute_streaming_collect_def rmap_id_rows rmap_id_error)
qed

subsection \<open>Bytes as text\<close>

fun hex_decode :: "string \<Rightarrow> 8 word list option" where
  "hex_decode [] = Some []"
| "hex_decode [c] = None"
| "hex_decode (c # d # s) =
     (if c \<in> set hex_digits \<and> d \<in> set hex_digits
      then map_option ((#) (of_nat (16 * length (takeWhile (\<lambda>x. x \<noteq> c) hex_digits)
                                      + length (takeWhile (\<lambda>x. x \<noteq> d) hex_digits)))) (hex_decode s)
      else None)"

lemma hex_digit_index:
  "i < 16 \<Longrightarrow> hex_digits ! i \<in> set hex_digits \<and> length (takeWhile (\<lambda>x. x \<noteq> hex_digits ! i) hex_digits) = i"
proof -
  have "\<forall>i \<in> set [0..<16]. hex_digits ! i \<in> set hex_digits \<and>
      length (takeWhile (\<lambda>x. x \<noteq> hex_digits ! i) hex_digits) = i" by code_simp
  then show "i < 16 \<Longrightarrow> ?thesis" by simp
qed

lemma byte_halves:
  fixes b :: "8 word"
  shows "unat (drop_bit 4 b) = unat b div 16" and "unat (b AND 0x0f) = unat b mod 16"
proof -
  show "unat (drop_bit 4 b) = unat b div 16" by (simp only: unat_drop_bit_eq) (simp add: drop_bit_eq_div)
  have "(0x0f :: 8 word) = mask 4" by (simp add: mask_eq_exp_minus_1)
  then show "unat (b AND 0x0f) = unat b mod 16"
    by (simp only: take_bit_eq_mask [symmetric] unsigned_take_bit_eq) (simp add: take_bit_eq_mod)
qed

text \<open>Every byte is two digits, and the bytes can be read back.\<close>

lemma hex_roundtrip: "hex_decode (hex_encode bytes) = Some bytes \<and> length (hex_encode bytes) = 2 * length bytes"
proof (induction bytes)
  case (Cons b bytes)
  have "unat b < 256" using unsigned_less [of b] by simp
  then have "unat (drop_bit 4 b) < 16" "unat (b AND 0x0f) < 16" by (simp_all add: byte_halves)
  then have "hex_decode (hex_encode (b # bytes)) =
      map_option ((#) (of_nat (16 * unat (drop_bit 4 b) + unat (b AND 0x0f)))) (hex_decode (hex_encode bytes))"
    by (simp add: hex_encode_def hex_digit_index)
  also have "16 * unat (drop_bit 4 b) + unat (b AND 0x0f) = unat b" by (simp add: byte_halves)
  finally show ?case using Cons by (simp add: hex_encode_def)
qed (simp add: hex_encode_def)

subsection \<open>An example\<close>

text \<open>A driver whose pool is the connection string, and whose only row tells it.\<close>

definition sample_decoders :: "json cell_decoders" where
  "sample_decoders =
     \<lparr>dc_string = (\<lambda>k. case k of JString s \<Rightarrow> Some (Some s) | JNull \<Rightarrow> Some None | _ \<Rightarrow> None),
      dc_i64 = (\<lambda>_. None), dc_i32 = (\<lambda>_. None), dc_i16 = (\<lambda>_. None), dc_f64 = (\<lambda>_. None), dc_f32 = (\<lambda>_. None),
      dc_bool = (\<lambda>k. case k of JBool b \<Rightarrow> Some (Some b) | _ \<Rightarrow> None), dc_json = (\<lambda>_. None), dc_datetime = (\<lambda>_. None),
      dc_uuid = (\<lambda>_. None), dc_decimal = (\<lambda>_. None), dc_naive_datetime = (\<lambda>_. None), dc_naive_date = (\<lambda>_. None)\<rparr>"

definition sample_sql_lib :: "(string, json) sql_lib" where
  "sample_sql_lib =
     \<lparr>sl_duckdb = False, sl_connect = (\<lambda>_ conn _. Inr conn), sl_acquire = (\<lambda>_. Inr ()), sl_add = (\<lambda>_ _. Inr ()),
      sl_fetch = (\<lambda>pool _ _ _. [Inr \<lparr>sr_columns = [''v''], sr_cell = (\<lambda>_. JString pool)\<rparr>]),
      sl_close = id, sl_open_in_memory = Inl [], sl_open = (\<lambda>_. Inl []), sl_duck_query = (\<lambda>_ _ _. Inl []),
      sl_decoders = (\<lambda>_. sample_decoders),
      sl_getters = \<lparr>dg_type = (\<lambda>_. Inr DNull), dg_bool = (\<lambda>_. Inl []), dg_int = (\<lambda>_ _. Inl []),
        dg_float = (\<lambda>_ _. Inl []), dg_text = (\<lambda>_ _. Inl []), dg_bytes = (\<lambda>_. Inl [])\<rparr>,
      sl_float_text = (\<lambda>_. []), sl_json_from_str = (\<lambda>_. None)\<rparr>"

definition sample_source :: "string \<Rightarrow> data_source" where
  "sample_source conn =
     \<lparr>ds_name = ''main'', ds_driver = ''postgres'', ds_connection_string = conn, ds_description = None,
      ds_models = [], ds_pool_size = None, ds_meta = []\<rparr>"

theorem first_pool_serves_forever_witness:
  "fst (execute_stream Map.empty sample_sql_lib (\<lambda>_. []) (sample_source ''new'') (generated_literal ''SELECT 1'')
      (manager_after sample_sql_lib (\<lambda>_. []) []
        (snd (get_pool Map.empty sample_sql_lib Postgres (sample_source ''old'') connection_manager_new))))
     = [Inr [(''v'', JString ''old'')]]"
proof -
  have 1: "executor_driver sample_sql_lib (ds_driver (sample_source c)) = Some Postgres" for c
    by (simp add: executor_driver_def sample_source_def)
  have 2: "get_pool Map.empty sample_sql_lib Postgres (sample_source ''old'') connection_manager_new =
      (Inr ''old'', snd (get_pool Map.empty sample_sql_lib Postgres (sample_source ''old'') connection_manager_new))"
    by (simp add: get_pg_pool_def connection_manager_new_def resolved_connection_string_def resolve_connection_string_def
        env_secret_var_name_def sample_source_def sample_sql_lib_def)
  have 3: "ds_name (sample_source ''new'') = ds_name (sample_source ''old'')" by (simp add: sample_source_def)
  have "stream_with sample_sql_lib ser Postgres ms (generated_literal ''SELECT 1'') (Inr ''old'')
      = [Inr [(''v'', JString ''old'')]]" for ser ms
    by (simp add: stream_on_pool_def generated_literal_def sample_sql_lib_def row_to_map_def pg_value_to_json_def
        common_value_to_json_def sample_decoders_def attempt_def ok_or_def)
  then show ?thesis by (simp only: first_pool_serves_forever [OF 1 2 1 3] fst_conv)
qed

text \<open>Decimals beside texts, and a reader of the scalars null and true and of natural numbers.\<close>

definition scalar_json :: "string \<Rightarrow> json option" where
  "scalar_json s =
     (let w = trim s in
      if w = ''null'' then Some JNull else if w = ''true'' then Some (JBool True)
      else if all_digits w then Some (JNumber w) else None)"

definition decimal_sql_lib :: "(string, json) sql_lib" where
  "decimal_sql_lib = sample_sql_lib
     \<lparr>sl_decoders := (\<lambda>_. sample_decoders\<lparr>dc_decimal := (\<lambda>k. case k of
          JNumber s \<Rightarrow> if list_all (\<lambda>c. is_ascii_digit c \<or> c \<in> set ''-.'') s then Some (Some s) else None
        | _ \<Rightarrow> None)\<rparr>),
      sl_json_from_str := scalar_json\<rparr>"

lemma decimal_sql_lib_ok:
  "nulls_reported (sl_decoders decimal_sql_lib d) (\<lambda>k. k = JNull)" "null_word_only decimal_sql_lib"
  "decimals_plain (sl_decoders decimal_sql_lib d)"
  by (auto simp: nulls_reported_def null_word_only_def decimals_plain_def decimal_sql_lib_def sample_decoders_def
      scalar_json_def Let_def split: json.splits if_splits)

theorem null_is_not_a_fallback_witness:
  "value_to_json decimal_sql_lib Postgres JNull ''v'' = Inr JNull \<and>
   value_to_json decimal_sql_lib Postgres (JNumber ''12.50'') ''v'' \<noteq> Inr JNull"
proof -
  have "\<not> unprintable (sl_decoders decimal_sql_lib Postgres) (JNumber ''12.50'')"
    by (simp add: unprintable_def decimal_sql_lib_def sample_decoders_def)
  then show ?thesis
    using null_is_not_a_fallback [OF decimal_sql_lib_ok(1) _ decimal_sql_lib_ok(2,3), of Postgres] by auto
qed

end
