(* ===== verification/Json_Objects.thy ===== *)
theory Json_Objects
  imports Models Numbers
begin

text \<open>
  Building and reading JSON objects as the crates do with \<open>serde_json\<close>: an object is a map whose
  entries are kept in the order of the keys, \<open>json!\<close> inserts its entries from left to right, and
  \<open>value["key"]\<close> on anything without the key is \<open>null\<close>.
\<close>

fun object_insert :: "string \<Rightarrow> json \<Rightarrow> (string \<times> json) list \<Rightarrow> (string \<times> json) list" where
  "object_insert k v [] = [(k, v)]"
| "object_insert k v ((k', v') # m) =
     (if k = k' then (k, v) # m else if k < k' then (k, v) # (k', v') # m
      else (k', v') # object_insert k v m)"

definition json_object :: "(string \<times> json) list \<Rightarrow> json" where
  "json_object es = JObject (foldl (\<lambda>m (k, v). object_insert k v m) [] es)"

text \<open>\<open>value["key"]\<close>, \<open>value["key"] = v\<close> on an object, \<open>value.get(0)\<close>.\<close>

fun json_index :: "json \<Rightarrow> string \<Rightarrow> json" where
  "json_index (JObject m) k = unwrap_or (map_of m k) JNull"
| "json_index _ k = JNull"

fun json_set :: "string \<Rightarrow> json \<Rightarrow> json \<Rightarrow> json" where
  "json_set k v (JObject m) = JObject (object_insert k v m)"
| "json_set k v j = j"

fun json_first :: "json \<Rightarrow> json option" where
  "json_first (JArray (v # vs)) = Some v"
| "json_first _ = None"

fun as_u64 :: "json \<Rightarrow> nat option" where
  "as_u64 (JNumber s) = (if all_digits s \<and> nat_of_digits s < 2 ^ 64 then Some (nat_of_digits s) else None)"
| "as_u64 _ = None"

definition json_nat :: "nat \<Rightarrow> json" where
  "json_nat n = JNumber (nat_str n)"

definition json_opt :: "string option \<Rightarrow> json" where
  "json_opt s = (case s of None \<Rightarrow> JNull | Some t \<Rightarrow> JString t)"

subsection \<open>Lookups\<close>

lemma map_of_object_insert [simp]: "map_of (object_insert k v m) = (map_of m)(k \<mapsto> v)"
  by (induction m) (auto simp: fun_eq_iff)

lemma fst_object_insert: "fst ` set (object_insert k v m) = insert k (fst ` set m)"
  by (induction k v m rule: object_insert.induct) (simp_all add: insert_commute)

lemma sorted_object_insert:
  "sorted_wrt (<) (map fst m) \<Longrightarrow> sorted_wrt (<) (map fst (object_insert k v m))"
proof (induction m)
  case (Cons e m)
  obtain k' v' where e: "e = (k', v')" by fastforce
  have "\<forall>y \<in> fst ` set m. k' < y" using Cons.prems by (simp add: e)
  then show ?case
    using Cons by (auto simp: e fst_object_insert intro: order.strict_trans)
qed simp

lemma map_of_object_inserts:
  "map_of (foldl (\<lambda>m (k, v). object_insert k v m) m es) = map_of m ++ map_of (rev es)"
  by (induction es arbitrary: m) (auto simp: map_add_def fun_eq_iff split: option.split)

lemma json_index_object [simp]: "json_index (json_object es) k = unwrap_or (map_of (rev es) k) JNull"
  by (simp add: json_object_def map_of_object_inserts)

lemma json_index_set [simp]:
  "json_index (json_set k v (JObject m)) k' = (if k = k' then v else json_index (JObject m) k')"
  by simp

lemma json_index_set_object [simp]:
  "json_index (json_set k v (json_object es)) k' = (if k = k' then v else json_index (json_object es) k')"
  by (simp add: json_object_def)

lemma as_u64_json_nat [simp]: "as_u64 (json_nat n) = (if n < 2 ^ 64 then Some n else None)"
  by (simp add: json_nat_def all_digits_nat_str nat_of_digits_nat_str)

lemma json_object_sorted: "\<exists>m. json_object es = JObject m \<and> sorted_wrt (<) (map fst m)"
proof -
  have "sorted_wrt (<) (map fst m) \<Longrightarrow>
      sorted_wrt (<) (map fst (foldl (\<lambda>m (k, v). object_insert k v m) m es))" for m
    by (induction es arbitrary: m) (auto simp: sorted_object_insert)
  then show ?thesis by (simp add: json_object_def)
qed

end
