(* ===== verification/Introspection.thy ===== *)
theory Introspection
  imports Executor Json_Objects
begin

text \<open>
  Reading the catalogue of a database and inferring models from its tables
  (\<open>crates/graphnight-sql/src/introspection.rs\<close>): the statements that list tables, columns, primary keys
  and foreign keys of each driver, what is taken from their rows, and the model of a table: names in
  snake case, columns sorted by their type into measures, dimensions and time dimensions, foreign
  keys as joins. Letters are ASCII.

  An operation that runs statements takes \<open>run\<close>, which is \<open>self.executor.execute_literal(ds, _)\<close> on
  the state of the executor.
\<close>

subsection \<open>Statements in sequence\<close>

type_synonym ('s, 'a) run = "'s \<Rightarrow> (exec_error + 'a) \<times> 's"
type_synonym 's runner = "string \<Rightarrow> ('s, (string \<times> json) list list) run"

definition run_bind :: "('s, 'a) run \<Rightarrow> ('a \<Rightarrow> ('s, 'b) run) \<Rightarrow> ('s, 'b) run" where
  "run_bind m f s = (case m s of (Inl e, s) \<Rightarrow> (Inl e, s) | (Inr x, s) \<Rightarrow> f x s)"

definition run_return :: "'a \<Rightarrow> ('s, 'a) run" where
  "run_return x s = (Inr x, s)"

fun run_each :: "('a \<Rightarrow> ('s, 'b) run) \<Rightarrow> 'a list \<Rightarrow> ('s, 'b list) run" where
  "run_each f [] = run_return []"
| "run_each f (x # xs) = run_bind (f x) (\<lambda>y. run_bind (run_each f xs) (\<lambda>ys. run_return (y # ys)))"

subsection \<open>Tables\<close>

record column_info =
  ci_name :: string
  ci_data_type :: string
  ci_udt_name :: "string option"
  ci_is_nullable :: bool
  ci_is_primary_key :: bool
  ci_default :: "string option"

record foreign_key_info =
  fk_column :: string
  fk_referenced_table :: string
  fk_referenced_column :: string

record table_info =
  ta_name :: string
  ta_columns :: "column_info list"
  ta_primary_keys :: "string list"
  ta_foreign_keys :: "foreign_key_info list"

subsection \<open>Rows of the catalogue\<close>

record introspection_config =
  ic_include_views :: bool
  ic_schema_filter :: "string option"
  ic_table_filter :: "string list option"

definition sql_lines :: "string list \<Rightarrow> string" where
  "sql_lines ls = str_join [CHR 0x0A] ls"

definition quoted_text :: "string \<Rightarrow> string" where
  "quoted_text t = squote @ t @ squote"

definition table_list :: "string list \<Rightarrow> string" where
  "table_list tables = str_join '','' (map quoted_text tables)"

text \<open>\<open>row.get(key).and_then(|v| v.as_str())\<close>, and a flag of SQLite, which is one or not.\<close>

definition row_text :: "(string \<times> json) list \<Rightarrow> string \<Rightarrow> string option" where
  "row_text row key = Option.bind (map_of row key) as_str"

fun as_i64 :: "json \<Rightarrow> int option" where
  "as_i64 (JNumber n) = number_i64 n"
| "as_i64 _ = None"

definition row_flag :: "(string \<times> json) list \<Rightarrow> string \<Rightarrow> bool" where
  "row_flag row key \<longleftrightarrow> unwrap_or (Option.bind (map_of row key) as_i64) 0 = 1"

definition texts_of :: "string \<Rightarrow> (string \<times> json) list list \<Rightarrow> string list" where
  "texts_of key rows = List.map_filter (\<lambda>row. row_text row key) rows"

definition foreign_key_of :: "string \<Rightarrow> string \<Rightarrow> string \<Rightarrow> (string \<times> json) list \<Rightarrow> foreign_key_info option" where
  "foreign_key_of column table key row =
     (case (row_text row column, row_text row table, row_text row key) of
        (Some c, Some t, Some k) \<Rightarrow>
          Some \<lparr>fk_column = c, fk_referenced_table = t, fk_referenced_column = k\<rparr>
      | _ \<Rightarrow> None)"

definition table_of ::
    "(string \<Rightarrow> ('s, column_info list) run) \<Rightarrow> (string \<Rightarrow> ('s, string list) run)
      \<Rightarrow> (string \<Rightarrow> ('s, foreign_key_info list) run) \<Rightarrow> string \<Rightarrow> ('s, table_info) run" where
  "table_of columns primary_keys foreign_keys name =
     run_bind (columns name) (\<lambda>cs. run_bind (primary_keys name) (\<lambda>pks. run_bind (foreign_keys name) (\<lambda>fks.
       run_return \<lparr>ta_name = name, ta_columns = cs, ta_primary_keys = pks, ta_foreign_keys = fks\<rparr>)))"

subsection \<open>PostgreSQL\<close>

definition postgres_tables_sql :: "string \<Rightarrow> string list option \<Rightarrow> string" where
  "postgres_tables_sql schema table_filter =
     sql_lines
       [''SELECT table_name FROM information_schema.tables '',
        ''                WHERE table_schema = '' @ quoted_text schema @ '' AND table_type = '' @ quoted_text ''BASE TABLE'' @
          (case table_filter of Some tables \<Rightarrow> '' AND table_name IN ('' @ table_list tables @ '')'' | None \<Rightarrow> []),
        ''                ORDER BY table_name'']"

text \<open>The name of the underlying type stands for a type the catalogue calls user-defined.\<close>

definition postgres_column :: "(string \<times> json) list \<Rightarrow> column_info" where
  "postgres_column row =
     (let reported = unwrap_or (row_text row ''data_type'') []; udt = row_text row ''udt_name'' in
      \<lparr>ci_name = unwrap_or (row_text row ''column_name'') [],
       ci_data_type = (case udt of
                         Some u \<Rightarrow> if reported = ''USER-DEFINED'' \<and> u \<noteq> [] then u else reported
                       | None \<Rightarrow> reported),
       ci_udt_name = udt,
       ci_is_nullable = unwrap_or (map_option (\<lambda>s. s = ''YES'') (row_text row ''is_nullable'')) True,
       ci_is_primary_key = False,
       ci_default = row_text row ''column_default''\<rparr>)"

definition get_postgres_columns :: "'s runner \<Rightarrow> string \<Rightarrow> string \<Rightarrow> ('s, column_info list) run" where
  "get_postgres_columns run schema table =
     run_bind (run (sql_lines
       [''SELECT column_name, data_type, udt_name, is_nullable, column_default'',
        ''            FROM information_schema.columns'',
        ''            WHERE table_schema = '' @ quoted_text schema @ '' AND table_name = '' @ quoted_text table,
        ''            ORDER BY ordinal_position'']))
       (\<lambda>rows. run_return (map postgres_column rows))"

definition get_postgres_primary_keys :: "'s runner \<Rightarrow> string \<Rightarrow> string \<Rightarrow> ('s, string list) run" where
  "get_postgres_primary_keys run schema table =
     run_bind (run (sql_lines
       [''SELECT kcu.column_name'',
        ''            FROM information_schema.table_constraints tc'',
        ''            JOIN information_schema.key_column_usage kcu'',
        ''                ON tc.constraint_name = kcu.constraint_name'',
        ''                AND tc.table_schema = kcu.table_schema'',
        ''            WHERE tc.table_schema = '' @ quoted_text schema @ '' '',
        ''                AND tc.table_name = '' @ quoted_text table,
        ''                AND tc.constraint_type = '' @ quoted_text ''PRIMARY KEY'',
        ''            ORDER BY kcu.ordinal_position'']))
       (\<lambda>rows. run_return (texts_of ''column_name'' rows))"

definition get_postgres_foreign_keys :: "'s runner \<Rightarrow> string \<Rightarrow> string \<Rightarrow> ('s, foreign_key_info list) run" where
  "get_postgres_foreign_keys run schema table =
     run_bind (run (sql_lines
       [''SELECT'',
        ''                kcu.column_name,'',
        ''                ccu.table_name AS foreign_table_name,'',
        ''                ccu.column_name AS foreign_column_name'',
        ''            FROM information_schema.table_constraints tc'',
        ''            JOIN information_schema.key_column_usage kcu'',
        ''                ON tc.constraint_name = kcu.constraint_name'',
        ''                AND tc.table_schema = kcu.table_schema'',
        ''            JOIN information_schema.constraint_column_usage ccu'',
        ''                ON ccu.constraint_name = tc.constraint_name'',
        ''                AND ccu.table_schema = tc.table_schema'',
        ''            WHERE tc.table_schema = '' @ quoted_text schema,
        ''                AND tc.table_name = '' @ quoted_text table,
        ''                AND tc.constraint_type = '' @ quoted_text ''FOREIGN KEY'']))
       (\<lambda>rows. run_return
          (List.map_filter (foreign_key_of ''column_name'' ''foreign_table_name'' ''foreign_column_name'') rows))"

definition introspect_postgres :: "'s runner \<Rightarrow> introspection_config \<Rightarrow> ('s, table_info list) run" where
  "introspect_postgres run config =
     (let schema = unwrap_or (ic_schema_filter config) ''public'' in
      run_bind (run (postgres_tables_sql schema (ic_table_filter config))) (\<lambda>rows.
        run_each
          (table_of (get_postgres_columns run schema) (get_postgres_primary_keys run schema)
             (get_postgres_foreign_keys run schema))
          (texts_of ''table_name'' rows)))"

subsection \<open>MySQL\<close>

definition schema_clause :: "string \<Rightarrow> string" where
  "schema_clause schema = (if schema = [] then [] else ''AND table_schema = '' @ quoted_text schema)"

definition mysql_tables_sql :: "string \<Rightarrow> string list option \<Rightarrow> string" where
  "mysql_tables_sql schema table_filter =
     sql_lines
       [''SELECT table_name FROM information_schema.tables '',
        ''                WHERE table_type = '' @ quoted_text ''BASE TABLE'' @ '' '' @ schema_clause schema @
          (case table_filter of Some tables \<Rightarrow> '' AND table_name IN ('' @ table_list tables @ '')'' | None \<Rightarrow> []),
        ''                ORDER BY table_name'']"

definition mysql_column :: "(string \<times> json) list \<Rightarrow> column_info" where
  "mysql_column row =
     \<lparr>ci_name = unwrap_or (row_text row ''column_name'') [],
      ci_data_type = unwrap_or (row_text row ''data_type'') [],
      ci_udt_name = None,
      ci_is_nullable = unwrap_or (map_option (\<lambda>s. s = ''YES'') (row_text row ''is_nullable'')) True,
      ci_is_primary_key = False,
      ci_default = row_text row ''column_default''\<rparr>"

definition get_mysql_columns :: "'s runner \<Rightarrow> string \<Rightarrow> string \<Rightarrow> ('s, column_info list) run" where
  "get_mysql_columns run schema table =
     run_bind (run (sql_lines
       [''SELECT column_name, data_type, is_nullable, column_default'',
        ''            FROM information_schema.columns'',
        ''            WHERE table_name = '' @ quoted_text table @ '' '' @ schema_clause schema,
        ''            ORDER BY ordinal_position'']))
       (\<lambda>rows. run_return (map mysql_column rows))"

definition get_mysql_primary_keys :: "'s runner \<Rightarrow> string \<Rightarrow> string \<Rightarrow> ('s, string list) run" where
  "get_mysql_primary_keys run schema table =
     run_bind (run (sql_lines
       [''SELECT column_name'',
        ''            FROM information_schema.key_column_usage'',
        ''            WHERE table_name = '' @ quoted_text table @ '' '',
        ''                AND constraint_name = '' @ quoted_text ''PRIMARY'',
        ''                '' @ schema_clause schema,
        ''            ORDER BY ordinal_position'']))
       (\<lambda>rows. run_return (texts_of ''column_name'' rows))"

definition get_mysql_foreign_keys :: "'s runner \<Rightarrow> string \<Rightarrow> string \<Rightarrow> ('s, foreign_key_info list) run" where
  "get_mysql_foreign_keys run schema table =
     run_bind (run (sql_lines
       [''SELECT'',
        ''                kcu.column_name,'',
        ''                kcu.referenced_table_name,'',
        ''                kcu.referenced_column_name'',
        ''            FROM information_schema.key_column_usage kcu'',
        ''            JOIN information_schema.table_constraints tc'',
        ''                ON kcu.constraint_name = tc.constraint_name'',
        ''                AND kcu.table_schema = tc.table_schema'',
        ''            WHERE kcu.table_name = '' @ quoted_text table,
        ''                AND tc.constraint_type = '' @ quoted_text ''FOREIGN KEY'',
        ''                '' @ schema_clause schema]))
       (\<lambda>rows. run_return
          (List.map_filter (foreign_key_of ''column_name'' ''referenced_table_name'' ''referenced_column_name'') rows))"

definition introspect_mysql :: "'s runner \<Rightarrow> introspection_config \<Rightarrow> ('s, table_info list) run" where
  "introspect_mysql run config =
     (let schema = unwrap_or (ic_schema_filter config) [] in
      run_bind (run (mysql_tables_sql schema (ic_table_filter config))) (\<lambda>rows.
        run_each
          (table_of (get_mysql_columns run schema) (get_mysql_primary_keys run schema) (get_mysql_foreign_keys run schema))
          (texts_of ''table_name'' rows)))"

subsection \<open>SQLite\<close>

definition sqlite_tables_sql :: "string list option \<Rightarrow> string" where
  "sqlite_tables_sql table_filter =
     (case table_filter of
        Some tables \<Rightarrow>
          sql_lines
            [''SELECT name FROM sqlite_master '',
             ''                WHERE type = '' @ quoted_text ''table'' @ '' AND name IN ('' @ table_list tables @ '')'',
             ''                ORDER BY name'']
      | None \<Rightarrow> ''SELECT name FROM sqlite_master WHERE type = '' @ quoted_text ''table'' @ '' ORDER BY name'')"

definition sqlite_column :: "(string \<times> json) list \<Rightarrow> column_info" where
  "sqlite_column row =
     \<lparr>ci_name = unwrap_or (row_text row ''name'') [],
      ci_data_type = unwrap_or (row_text row ''type'') [],
      ci_udt_name = None,
      ci_is_nullable = (\<not> row_flag row ''notnull''),
      ci_is_primary_key = row_flag row ''pk'',
      ci_default = row_text row ''dflt_value''\<rparr>"

definition get_sqlite_columns :: "'s runner \<Rightarrow> string \<Rightarrow> ('s, column_info list) run" where
  "get_sqlite_columns run table =
     run_bind (run (''PRAGMA table_info('' @ table @ '')'')) (\<lambda>rows. run_return (map sqlite_column rows))"

definition get_sqlite_primary_keys :: "'s runner \<Rightarrow> string \<Rightarrow> ('s, string list) run" where
  "get_sqlite_primary_keys run table =
     run_bind (run (''PRAGMA table_info('' @ table @ '')''))
       (\<lambda>rows. run_return (texts_of ''name'' (filter (\<lambda>row. row_flag row ''pk'') rows)))"

definition get_sqlite_foreign_keys :: "'s runner \<Rightarrow> string \<Rightarrow> ('s, foreign_key_info list) run" where
  "get_sqlite_foreign_keys run table =
     run_bind (run (''PRAGMA foreign_key_list('' @ table @ '')''))
       (\<lambda>rows. run_return (List.map_filter (foreign_key_of ''from'' ''table'' ''to'') rows))"

definition introspect_sqlite :: "'s runner \<Rightarrow> introspection_config \<Rightarrow> ('s, table_info list) run" where
  "introspect_sqlite run config =
     run_bind (run (sqlite_tables_sql (ic_table_filter config))) (\<lambda>rows.
       run_each
         (table_of (get_sqlite_columns run) (get_sqlite_primary_keys run) (get_sqlite_foreign_keys run))
         (filter (\<lambda>name. \<not> starts_with ''sqlite_'' name) (texts_of ''name'' rows)))"

subsection \<open>The driver of the datasource\<close>

definition introspect_with :: "'s runner \<Rightarrow> string \<Rightarrow> introspection_config \<Rightarrow> ('s, table_info list) run" where
  "introspect_with run driver config =
     (if driver = ''postgres'' \<or> driver = ''postgresql'' \<or> driver = ''pg'' then introspect_postgres run config
      else if driver = ''mysql'' \<or> driver = ''mariadb'' then introspect_mysql run config
      else if driver = ''sqlite'' \<or> driver = ''sqlite3'' then introspect_sqlite run config
      else (\<lambda>s. (Inl (UnsupportedIntrospection driver), s)))"

definition introspect ::
    "env \<Rightarrow> ('p, 'k) sql_lib \<Rightarrow> (json \<Rightarrow> string) \<Rightarrow> data_source \<Rightarrow> introspection_config
      \<Rightarrow> ('p connection_manager, table_info list) run" where
  "introspect env lib ser ds config = introspect_with (execute_literal env lib ser ds) (ds_driver ds) config"

subsection \<open>Names and types\<close>

fun snake_from :: "bool \<Rightarrow> bool \<Rightarrow> string \<Rightarrow> string" where
  "snake_from first prev_upper [] = []"
| "snake_from first prev_upper (c # cs) =
     (if is_ascii_upper c
      then (if \<not> first \<and> \<not> prev_upper then ''_'' else []) @ lower_char c # snake_from False True cs
      else c # snake_from False False cs)"

definition to_snake_case :: "string \<Rightarrow> string" where
  "to_snake_case s = snake_from True False s"

fun capitalized :: "string \<Rightarrow> string" where
  "capitalized [] = []"
| "capitalized (c # cs) = upper_char c # cs"

definition to_title_case :: "string \<Rightarrow> string" where
  "to_title_case s = str_join '' '' (map capitalized (split_on (CHR ''_'') s))"

definition is_numeric_type :: "string \<Rightarrow> bool" where
  "is_numeric_type t \<longleftrightarrow> t \<in> set
     [''integer'', ''int'', ''bigint'', ''smallint'', ''tinyint'', ''mediumint'', ''decimal'', ''numeric'', ''float'',
      ''double'', ''real'', ''double precision'', ''money'', ''serial'', ''bigserial'', ''smallserial'']"

definition is_temporal_type :: "string \<Rightarrow> bool" where
  "is_temporal_type t \<longleftrightarrow> t \<in> set
     [''date'', ''time'', ''timestamp'', ''timestamptz'', ''timestamp with time zone'',
      ''timestamp without time zone'', ''datetime'', ''year'']"

definition is_geometry_type :: "string \<Rightarrow> bool" where
  "is_geometry_type t \<longleftrightarrow>
     (let base = to_lower (trim (hd (split_on (CHR ''('') t))) in base = ''geometry'' \<or> base = ''geography'')"

subsection \<open>The inferred model\<close>

definition column_is_temporal :: "column_info \<Rightarrow> bool" where
  "column_is_temporal c \<longleftrightarrow> \<not> ci_is_primary_key c \<and> is_temporal_type (to_lower (ci_data_type c))"

definition column_is_numeric :: "column_info \<Rightarrow> bool" where
  "column_is_numeric c \<longleftrightarrow> \<not> ci_is_primary_key c \<and> \<not> is_temporal_type (to_lower (ci_data_type c)) \<and>
     is_numeric_type (to_lower (ci_data_type c))"

definition labelled_dimension :: "column_info \<Rightarrow> dimension" where
  "labelled_dimension c = \<lparr>d_name = ci_name c, d_label = Some (to_title_case (ci_name c))\<rparr>"

text \<open>The loop over the columns, with the three lists it pushes to.\<close>

fun infer_columns ::
    "column_info list \<Rightarrow> measure list \<Rightarrow> dimension list \<Rightarrow> time_dimension list
      \<Rightarrow> measure list \<times> dimension list \<times> time_dimension list" where
  "infer_columns [] ms ds ts = (ms, ds, ts)"
| "infer_columns (c # cs) ms ds ts =
     (if ci_is_primary_key c then infer_columns cs ms (ds @ [labelled_dimension c]) ts
      else
        let t = to_lower (ci_data_type c) in
        if is_temporal_type t then
          infer_columns cs ms (ds @ [labelled_dimension c])
            (ts @ [\<lparr>td_dimension = ci_name c, td_granularity = Day, td_label = Some (to_title_case (ci_name c))\<rparr>])
        else if is_numeric_type t then
          infer_columns cs (ms @ [\<lparr>m_formula = formula_new (ci_name c), m_aggregation = Sum\<rparr>])
            (ds @ [labelled_dimension c]) ts
        else infer_columns cs ms (ds @ [labelled_dimension c]) ts)"

definition infer_join :: "string \<Rightarrow> table_info list \<Rightarrow> foreign_key_info \<Rightarrow> join_def option" where
  "infer_join model_name all_tables fk =
     (if \<exists>t \<in> set all_tables. ta_name t = fk_referenced_table fk
      then Some \<lparr>jn_name = model_name @ ''_to_'' @ to_snake_case (fk_referenced_table fk),
                 jn_model = to_snake_case (fk_referenced_table fk), jn_type = Left,
                 jn_on = [(fk_column fk, fk_referenced_column fk)],
                 jn_alias = Some (to_snake_case (fk_referenced_table fk))\<rparr>
      else None)"

definition column_is_geometry :: "column_info \<Rightarrow> bool" where
  "column_is_geometry c \<longleftrightarrow> is_geometry_type (unwrap_or (ci_udt_name c) (ci_data_type c))"

definition infer_model_from_table :: "table_info \<Rightarrow> string \<Rightarrow> table_info list \<Rightarrow> model" where
  "infer_model_from_table table datasource all_tables =
     (let name = to_snake_case (ta_name table);
          (ms, ds, ts) = infer_columns (ta_columns table) [] [] [];
          m = \<lparr>mo_name = name, mo_datasource = datasource,
               mo_description = Some (''Auto-generated from table '' @ ta_name table),
               mo_measures = ms, mo_dimensions = ds, mo_time_dimensions = ts,
               mo_joins = List.map_filter (infer_join name all_tables) (ta_foreign_keys table),
               mo_sql = None, mo_meta = []\<rparr>
      in foldl (\<lambda>m c. if column_is_geometry c then mark_geometry_column m (ci_name c) else m) m (ta_columns table))"

subsection \<open>What is inferred\<close>

lemma infer_columns_eq:
  "infer_columns cs ms ds ts =
     (ms @ map (\<lambda>c. \<lparr>m_formula = formula_new (ci_name c), m_aggregation = Sum\<rparr>) (filter column_is_numeric cs),
      ds @ map labelled_dimension cs,
      ts @ map (\<lambda>c. \<lparr>td_dimension = ci_name c, td_granularity = Day, td_label = Some (to_title_case (ci_name c))\<rparr>)
             (filter column_is_temporal cs))"
  by (induction cs ms ds ts rule: infer_columns.induct)
    (auto simp: Let_def column_is_numeric_def column_is_temporal_def)

lemma mark_geometry_column_fields [simp]:
  "mo_name (mark_geometry_column m c) = mo_name m" "mo_datasource (mark_geometry_column m c) = mo_datasource m"
  "mo_measures (mark_geometry_column m c) = mo_measures m" "mo_dimensions (mark_geometry_column m c) = mo_dimensions m"
  "mo_time_dimensions (mark_geometry_column m c) = mo_time_dimensions m" "mo_joins (mark_geometry_column m c) = mo_joins m"
  by (simp_all add: mark_geometry_column_def Let_def)

lemma mark_all_fields [simp]:
  fixes cs m
  defines "m' \<equiv> foldl (\<lambda>m c. if column_is_geometry c then mark_geometry_column m (ci_name c) else m) m cs"
  shows "mo_name m' = mo_name m" "mo_datasource m' = mo_datasource m" "mo_measures m' = mo_measures m"
    "mo_dimensions m' = mo_dimensions m" "mo_time_dimensions m' = mo_time_dimensions m" "mo_joins m' = mo_joins m"
  unfolding m'_def by (induction cs arbitrary: m) simp_all

lemma mark_all_geometry:
  "is_geometry_column (foldl (\<lambda>m c. if column_is_geometry c then mark_geometry_column m (ci_name c) else m) m cs) n \<longleftrightarrow>
     is_geometry_column m n \<or> (\<exists>c \<in> set cs. column_is_geometry c \<and> ci_name c = n)"
proof (induction cs arbitrary: m)
  case (Cons c cs)
  then show ?case using mark_geometry_column_spec [of m "ci_name c" n] by auto
qed simp

lemma inferred_fields:
  "mo_name (infer_model_from_table t ds tables) = to_snake_case (ta_name t)"
  "mo_datasource (infer_model_from_table t ds tables) = ds"
  "mo_measures (infer_model_from_table t ds tables) =
     map (\<lambda>c. \<lparr>m_formula = formula_new (ci_name c), m_aggregation = Sum\<rparr>) (filter column_is_numeric (ta_columns t))"
  "mo_dimensions (infer_model_from_table t ds tables) = map labelled_dimension (ta_columns t)"
  "mo_time_dimensions (infer_model_from_table t ds tables) =
     map (\<lambda>c. \<lparr>td_dimension = ci_name c, td_granularity = Day, td_label = Some (to_title_case (ci_name c))\<rparr>)
       (filter column_is_temporal (ta_columns t))"
  "mo_joins (infer_model_from_table t ds tables) =
     List.map_filter (infer_join (to_snake_case (ta_name t)) tables) (ta_foreign_keys t)"
  by (simp_all add: infer_model_from_table_def infer_columns_eq Let_def)

lemma no_meta_no_geometry: "mo_meta m = [] \<Longrightarrow> \<not> is_geometry_column m n"
  by (simp add: is_geometry_column_def geometry_array_def)

lemma inferred_geometry:
  "is_geometry_column (infer_model_from_table t ds tables) n \<longleftrightarrow>
     (\<exists>c \<in> set (ta_columns t). column_is_geometry c \<and> ci_name c = n)"
  by (simp add: infer_model_from_table_def infer_columns_eq mark_all_geometry no_meta_no_geometry Let_def)

lemma inferred_joins:
  "List.map_filter (infer_join name tables) fks =
     map (\<lambda>fk. \<lparr>jn_name = name @ ''_to_'' @ to_snake_case (fk_referenced_table fk),
          jn_model = to_snake_case (fk_referenced_table fk), jn_type = Left,
          jn_on = [(fk_column fk, fk_referenced_column fk)], jn_alias = Some (to_snake_case (fk_referenced_table fk))\<rparr>)
       (filter (\<lambda>fk. fk_referenced_table fk \<in> ta_name ` set tables) fks)"
  by (induction fks) (auto simp: infer_join_def List.map_filter_simps image_iff eq_commute)

lemma inferred_join_model:
  "j \<in> set (List.map_filter (infer_join name tables) fks) \<Longrightarrow>
     \<exists>t \<in> set tables. jn_model j = to_snake_case (ta_name t)"
  by (auto simp: List.map_filter_def infer_join_def split: if_split_asm) metis

text \<open>
  C31. The inferred model, field by field. Every column is a dimension with a title as its label, in order;
  the numeric columns that are no key are measures, each the sum of the bare column; the temporal ones
  that are no key are time dimensions by day; exactly the columns of a spatial type are marked as
  geometry. A foreign key becomes a join exactly when the table it refers to is among the tables: a
  left join on its pair of columns, to the name of the model inferred from a table there.
\<close>

theorem inferred_model_spec:
  "mo_name (infer_model_from_table table ds tables) = to_snake_case (ta_name table) \<and>
    mo_datasource (infer_model_from_table table ds tables) = ds \<and>
    mo_dimensions (infer_model_from_table table ds tables) =
      map (\<lambda>c. \<lparr>d_name = ci_name c, d_label = Some (to_title_case (ci_name c))\<rparr>) (ta_columns table) \<and>
    mo_measures (infer_model_from_table table ds tables) =
      map (\<lambda>c. \<lparr>m_formula = formula_new (ci_name c), m_aggregation = Sum\<rparr>)
        (filter column_is_numeric (ta_columns table)) \<and>
    mo_time_dimensions (infer_model_from_table table ds tables) =
      map (\<lambda>c. \<lparr>td_dimension = ci_name c, td_granularity = Day, td_label = Some (to_title_case (ci_name c))\<rparr>)
        (filter column_is_temporal (ta_columns table)) \<and>
    {n. is_geometry_column (infer_model_from_table table ds tables) n} =
      ci_name ` {c. c \<in> set (ta_columns table) \<and> column_is_geometry c} \<and>
    mo_joins (infer_model_from_table table ds tables) =
      map (\<lambda>fk. \<lparr>jn_name = to_snake_case (ta_name table) @ ''_to_'' @ to_snake_case (fk_referenced_table fk),
          jn_model = to_snake_case (fk_referenced_table fk), jn_type = Left,
          jn_on = [(fk_column fk, fk_referenced_column fk)], jn_alias = Some (to_snake_case (fk_referenced_table fk))\<rparr>)
        (filter (\<lambda>fk. fk_referenced_table fk \<in> ta_name ` set tables) (ta_foreign_keys table)) \<and>
    jn_model ` set (mo_joins (infer_model_from_table table ds tables))
      \<subseteq> (\<lambda>t. mo_name (infer_model_from_table t ds tables)) ` set tables"
proof (intro conjI)
  show "{n. is_geometry_column (infer_model_from_table table ds tables) n} =
      ci_name ` {c. c \<in> set (ta_columns table) \<and> column_is_geometry c}"
    by (auto simp: inferred_geometry)
  show "jn_model ` set (mo_joins (infer_model_from_table table ds tables))
      \<subseteq> (\<lambda>t. mo_name (infer_model_from_table t ds tables)) ` set tables"
    by (auto simp: inferred_fields dest: inferred_join_model)
qed (simp_all add: inferred_fields labelled_dimension_def inferred_joins)

text \<open>Different tables can yield the same name, and then one model replaces the other.\<close>

lemma snake_names_collide: "to_snake_case ''OrderItems'' = to_snake_case ''order_items''"
  by code_simp

lemma snake_case_idempotent: "to_snake_case (to_snake_case s) = to_snake_case s"
proof -
  have low: "\<not> is_ascii_upper (lower_char c)" for c
    by (auto simp: lower_char_def char_class_defs)
  have line: "\<not> is_ascii_upper (CHR ''_'')" by code_simp
  have "\<forall>c \<in> set (snake_from f p s). \<not> is_ascii_upper c" for f p s
  proof (induction s arbitrary: f p)
    case (Cons c s)
    show ?case using Cons.IH [of False True] Cons.IH [of False False] low [of c] line by (auto simp del: split_paired_All)
  qed simp
  moreover have "\<forall>c \<in> set s. \<not> is_ascii_upper c \<Longrightarrow> snake_from f p s = s" for f p s
    by (induction s arbitrary: f p) auto
  ultimately show ?thesis by (simp add: to_snake_case_def)
qed

text \<open>A numeric type with a precision is not recognised.\<close>

lemma precision_hides_numbers: "is_numeric_type ''decimal'' \<and> \<not> is_numeric_type ''decimal(10,2)''"
  by (simp add: is_numeric_type_def)

lemma numeric_not_temporal: "is_numeric_type t \<Longrightarrow> \<not> is_temporal_type t"
  by (auto simp: is_numeric_type_def is_temporal_type_def)

subsection \<open>What is read from the catalogue\<close>

lemma run_bind_Inr:
  "run_bind m f s = (Inr y, s') \<longleftrightarrow> (\<exists>x s1. m s = (Inr x, s1) \<and> f x s1 = (Inr y, s'))"
  by (auto simp: run_bind_def split: prod.splits sum.splits)

lemma run_return_Inr: "run_return x s = (Inr y, s') \<longleftrightarrow> y = x \<and> s' = s"
  by (auto simp: run_return_def)

lemmas run_simps = run_bind_Inr run_return_Inr

lemma run_each_Inr:
  "run_each f xs s = (Inr ys, s') \<Longrightarrow> list_all2 (\<lambda>x y. \<exists>s s'. f x s = (Inr y, s')) xs ys"
  by (induction xs arbitrary: ys s s') (auto simp: run_simps)

lemma run_each_all:
  assumes "run_each f xs s = (Inr ys, s')" and "\<And>x y s s'. x \<in> set xs \<Longrightarrow> f x s = (Inr y, s') \<Longrightarrow> P y"
  shows "\<forall>y \<in> set ys. P y"
  using run_each_Inr [OF assms(1)] assms(2)
  by (auto simp: list_all2_conv_all_nth all_set_conv_all_nth) (metis nth_mem)

lemma run_each_map:
  assumes "run_each f xs s = (Inr ys, s')" and "\<And>x y s s'. f x s = (Inr y, s') \<Longrightarrow> g y = x"
  shows "map g ys = xs"
  using run_each_Inr [OF assms(1)] assms(2) by (force simp: list_all2_conv_all_nth intro!: nth_equalityI)

lemma table_of_name: "table_of cs pks fks name s = (Inr t, s') \<Longrightarrow> ta_name t = name"
  by (auto simp: table_of_def run_simps)

lemma table_of_columns:
  "table_of cs pks fks name s = (Inr t, s') \<Longrightarrow> \<exists>s1. cs name s = (Inr (ta_columns t), s1)"
  by (auto simp: table_of_def run_simps)

text \<open>The tables are the ones the listing names, in its order.\<close>

lemma introspect_postgres_names:
  assumes "introspect_postgres run config s = (Inr tables, s')"
  shows "\<exists>rows s1. run (postgres_tables_sql (unwrap_or (ic_schema_filter config) ''public'') (ic_table_filter config)) s
      = (Inr rows, s1) \<and> map ta_name tables = texts_of ''table_name'' rows"
proof -
  from assms obtain rows s1 where
    "run (postgres_tables_sql (unwrap_or (ic_schema_filter config) ''public'') (ic_table_filter config)) s = (Inr rows, s1)"
    and e: "run_each (table_of (get_postgres_columns run (unwrap_or (ic_schema_filter config) ''public''))
        (get_postgres_primary_keys run (unwrap_or (ic_schema_filter config) ''public''))
        (get_postgres_foreign_keys run (unwrap_or (ic_schema_filter config) ''public'')))
      (texts_of ''table_name'' rows) s1 = (Inr tables, s')"
    by (auto simp: introspect_postgres_def Let_def run_bind_Inr)
  moreover from e have "map ta_name tables = texts_of ''table_name'' rows" by (rule run_each_map) (rule table_of_name)
  ultimately show ?thesis by blast
qed

text \<open>The tables SQLite keeps for itself are left out.\<close>

lemma introspect_sqlite_hides_internal:
  assumes "introspect_sqlite run config s = (Inr tables, s')" and "t \<in> set tables"
  shows "\<not> starts_with ''sqlite_'' (ta_name t)"
proof -
  obtain names s1 where e: "run_each (table_of (get_sqlite_columns run) (get_sqlite_primary_keys run) (get_sqlite_foreign_keys run))
      (filter (\<lambda>n. \<not> starts_with ''sqlite_'' n) names) s1 = (Inr tables, s')"
    using assms(1) by (auto simp: introspect_sqlite_def run_bind_Inr)
  then have "map ta_name tables = filter (\<lambda>n. \<not> starts_with ''sqlite_'' n) names"
    by (rule run_each_map) (rule table_of_name)
  then have "ta_name t \<in> set (filter (\<lambda>n. \<not> starts_with ''sqlite_'' n) names)"
    using assms(2) by (metis imageI list.set_map)
  then show ?thesis by simp
qed

definition server_driver :: "string \<Rightarrow> bool" where
  "server_driver d \<longleftrightarrow> d \<in> {''postgres'', ''postgresql'', ''pg'', ''mysql'', ''mariadb''}"

lemma no_key_is_marked:
  assumes "introspect_with run driver config s = (Inr tables, s')" and "server_driver driver"
  shows "\<forall>t \<in> set tables. \<forall>c \<in> set (ta_columns t). \<not> ci_is_primary_key c"
proof -
  have each: "\<forall>t \<in> set tables. \<forall>c \<in> set (ta_columns t). \<not> ci_is_primary_key c"
    if "run_each (table_of columns pks fks) names s1 = (Inr tables, s2)"
      and "\<And>name s cs s'. columns name s = (Inr cs, s') \<Longrightarrow> \<forall>c \<in> set cs. \<not> ci_is_primary_key c"
    for columns pks fks names s1 s2
    using that(1) by (rule run_each_all) (meson table_of_columns that(2))
  have pg: "get_postgres_columns run schema name s = (Inr cs, s') \<Longrightarrow> \<forall>c \<in> set cs. \<not> ci_is_primary_key c" for schema name s cs s'
    by (auto simp: get_postgres_columns_def run_simps postgres_column_def Let_def)
  have my: "get_mysql_columns run schema name s = (Inr cs, s') \<Longrightarrow> \<forall>c \<in> set cs. \<not> ci_is_primary_key c" for schema name s cs s'
    by (auto simp: get_mysql_columns_def run_simps mysql_column_def)
  have "introspect_postgres run config s = (Inr tables, s') \<or> introspect_mysql run config s = (Inr tables, s')"
    using assms by (auto simp: introspect_with_def server_driver_def)
  then show ?thesis unfolding introspect_postgres_def introspect_mysql_def Let_def run_bind_Inr
    by (elim disjE exE conjE) (erule each, rule pg, assumption, erule each, rule my, assumption)
qed

text \<open>
  On PostgreSQL and MySQL a key of a table is never marked on its columns, so that the model inferred
  from an introspected table sums every numeric column, the identifiers included.
\<close>

lemma catalogue_keys_become_measures:
  assumes "introspect env lib ser ds config cm = (Inr tables, cm')" and "server_driver (ds_driver ds)"
    and "t \<in> set tables"
  shows "map (f_expression \<circ> m_formula) (mo_measures (infer_model_from_table t (ds_name ds) tables)) =
    map ci_name (filter (\<lambda>c. is_numeric_type (to_lower (ci_data_type c))) (ta_columns t))"
proof -
  have "\<forall>c \<in> set (ta_columns t). \<not> ci_is_primary_key c"
    using no_key_is_marked [OF assms(1) [unfolded introspect_def] assms(2)] assms(3) by blast
  then have "filter column_is_numeric (ta_columns t) =
      filter (\<lambda>c. is_numeric_type (to_lower (ci_data_type c))) (ta_columns t)"
    by (auto simp: column_is_numeric_def intro!: filter_cong dest: numeric_not_temporal)
  then show ?thesis by (simp add: inferred_fields formula_new_def)
qed

text \<open>A second column of a key of SQLite is not a key here.\<close>

lemma composite_keys_are_cut:
  "map ci_is_primary_key (map (\<lambda>n. sqlite_column [(''name'', JString ''c''), (''pk'', JNumber n)]) [''0'', ''1'', ''2''])
     = [False, True, False]"
  by (simp add: sqlite_column_def row_flag_def all_digits_def nat_of_digits_def char_class_defs)

text \<open>Names of a filter are not escaped: one name can be the text of two.\<close>

lemma filter_names_not_escaped:
  "table_list [''a'' @ squote @ '','' @ squote @ ''b''] = table_list [''a'', ''b'']"
  by (simp add: table_list_def quoted_text_def)

text \<open>DuckDB runs statements, but is not introspected.\<close>

lemma duckdb_not_introspected:
  "ds_driver ds = ''duckdb'' \<Longrightarrow> introspect env lib ser ds config cm = (Inl (UnsupportedIntrospection ''duckdb''), cm)"
  by (simp add: introspect_def introspect_with_def)

subsection \<open>An example\<close>

text \<open>A catalogue with one table, whose identifier is an integer.\<close>

definition sample_catalogue :: "(string, json) sql_lib" where
  "sample_catalogue = sample_sql_lib
     \<lparr>sl_fetch := (\<lambda>_ _ sql _.
        if starts_with ''SELECT table_name'' sql
        then [Inr \<lparr>sr_columns = [''table_name''], sr_cell = (\<lambda>_. JString ''orders'')\<rparr>]
        else if starts_with ''SELECT column_name'' sql
        then [Inr \<lparr>sr_columns = [''column_name'', ''data_type''],
                   sr_cell = (\<lambda>c. if c = ''column_name'' then JString ''id'' else JString ''integer'')\<rparr>]
        else if starts_with ''SELECT kcu.column_name'' sql \<and> str_contains ''PRIMARY KEY'' sql
        then [Inr \<lparr>sr_columns = [''column_name''], sr_cell = (\<lambda>_. JString ''id'')\<rparr>]
        else [])\<rparr>"

definition sample_manager :: "string connection_manager" where
  "sample_manager =
     \<lparr>cm_pg_pools = [], cm_mysql_pools = [], cm_sqlite_pools = [], cm_duckdb_conns = [], cm_statement_timeout = 1\<rparr>"

definition sample_table :: table_info where
  "sample_table =
     \<lparr>ta_name = ''orders'',
      ta_columns = [\<lparr>ci_name = ''id'', ci_data_type = ''integer'', ci_udt_name = None, ci_is_nullable = True,
                     ci_is_primary_key = False, ci_default = None\<rparr>],
      ta_primary_keys = [''id''], ta_foreign_keys = []\<rparr>"

lemma sample_introspected:
  "introspect Map.empty sample_catalogue (\<lambda>_. []) (sample_source ''pg'')
     \<lparr>ic_include_views = False, ic_schema_filter = None, ic_table_filter = None\<rparr> sample_manager =
   (Inr [sample_table], sample_manager\<lparr>cm_pg_pools := [(''main'', ''pg'')]\<rparr>)"
  by code_simp

lemma catalogue_keys_become_measures_witness:
  "''id'' \<in> set (ta_primary_keys sample_table) \<and>
   map (f_expression \<circ> m_formula) (mo_measures (infer_model_from_table sample_table ''main'' [sample_table])) = [''id'']"
proof -
  have "server_driver (ds_driver (sample_source ''pg''))" by (simp add: server_driver_def sample_source_def)
  moreover have "ds_name (sample_source ''pg'') = ''main''" by (simp add: sample_source_def)
  moreover have "filter (\<lambda>c. is_numeric_type (to_lower (ci_data_type c))) (ta_columns sample_table) = ta_columns sample_table"
    by code_simp
  ultimately show ?thesis
    using catalogue_keys_become_measures [OF sample_introspected] by (simp add: sample_table_def)
qed

end
