(* ===== verification/Engine.thy ===== *)
theory Engine
  imports Cache Introspection
begin

text \<open>
  \<open>SqlEngine\<close> (\<open>crates/graphnight-sql/src/lib.rs\<close>) as its callers see it: the generator with the plan
  cache (\<open>Cache.sql_engine\<close>), the result cache and the connection manager of the executor are one
  state, and a statement that is not answered from the cache runs on a pool. Metrics and tracing
  spans are left out.

  \<open>engine_lib\<close> is what the engine is built on: the maps behind the caches, the serializers, the
  database drivers, the environment that holds secrets, and the clock, read when a result is looked
  up and when rows are put in.
\<close>

subsection \<open>The engine and what it is built on\<close>

record ('c, 'r, 'p) engine_state =
  es_engine :: "'c sql_engine"
  es_results :: "'r result_cache"
  es_connections :: "'p connection_manager"

record ('c, 'r, 'p, 'k) engine_lib =
  el_plans :: "('c, generated_sql) lru_ops"
  el_results :: "('r, result_entry) lru_ops"
  el_serializer :: serializer
  el_query_json :: "query \<Rightarrow> string"
  el_json_text :: "json \<Rightarrow> string"
  el_drivers :: "('p, 'k) sql_lib"
  el_error_text :: "exec_error \<Rightarrow> string"

text \<open>The times of the lookup and of the insert in the result cache, in nanoseconds as in theory \<open>Cache\<close>.\<close>

record moment =
  at_env :: env
  at_lookup :: nat
  at_insert :: nat

text \<open>\<open>Duration::from_secs\<close>; the evaluation of examples leaves it as it is.\<close>

definition from_secs :: "nat \<Rightarrow> nat" where
  "from_secs n = n * 10 ^ 9"

declare from_secs_def [code del]

definition sql_engine_new ::
    "('c, 'r, 'p, 'k) engine_lib \<Rightarrow> dialect \<Rightarrow> 'p connection_manager \<Rightarrow> ('c, 'r, 'p) engine_state" where
  "sql_engine_new lib d cm =
     \<lparr>es_engine = engine_new (el_plans lib) d, es_results = result_cache_new (el_results lib) 256 (from_secs 60),
      es_connections = cm\<rparr>"

definition engine_with_models :: "model list \<Rightarrow> ('c, 'r, 'p) engine_state \<Rightarrow> ('c, 'r, 'p) engine_state" where
  "engine_with_models ms st =
     st\<lparr>es_engine := (es_engine st)\<lparr>en_generator := with_models (en_generator (es_engine st)) ms\<rparr>\<rparr>"

definition engine_with_datasources :: "data_source list \<Rightarrow> ('c, 'r, 'p) engine_state \<Rightarrow> ('c, 'r, 'p) engine_state" where
  "engine_with_datasources dss st =
     st\<lparr>es_engine := (es_engine st)\<lparr>en_generator := with_datasources (en_generator (es_engine st)) dss\<rparr>\<rparr>"

definition with_policy_fingerprint :: "string \<Rightarrow> ('c, 'r, 'p) engine_state \<Rightarrow> ('c, 'r, 'p) engine_state" where
  "with_policy_fingerprint fp st = st\<lparr>es_engine := (es_engine st)\<lparr>en_policy_fingerprint := fp\<rparr>\<rparr>"

definition dialect_name_for_model :: "('c, 'r, 'p) engine_state \<Rightarrow> string \<Rightarrow> string" where
  "dialect_name_for_model st name = dialect_name (dialect_for (en_generator (es_engine st)) name)"

definition invalidate_result_cache ::
    "('c, 'r, 'p, 'k) engine_lib \<Rightarrow> ('c, 'r, 'p) engine_state \<Rightarrow> ('c, 'r, 'p) engine_state" where
  "invalidate_result_cache lib st = st\<lparr>es_results := invalidate_all (el_results lib) (es_results st)\<rparr>"

text \<open>
  A generated statement read as text is its display form, with the values written out (\<open>Deref\<close> and
  \<open>Display\<close> of \<open>GeneratedSql\<close>): that is what callers hand on, and the parameters stay behind.
\<close>

definition generate_sql_text ::
    "('c, 'r, 'p, 'k) engine_lib \<Rightarrow> ('c, 'r, 'p) engine_state \<Rightarrow> query
      \<Rightarrow> (gen_error + string) \<times> ('c, 'r, 'p) engine_state" where
  "generate_sql_text lib st q =
     (case engine_generate_sql (el_plans lib) (el_serializer lib) (el_query_json lib) (es_engine st) q of
        (r, e) \<Rightarrow> (rbind r (\<lambda>g. Inr (gs_display g)), st\<lparr>es_engine := e\<rparr>))"

text \<open>\<open>execute_sqlx\<close> over the executor: the cache first, then a pool; rows are kept, errors are not.\<close>

definition engine_execute_sqlx ::
    "('c, 'r, 'p, 'k) engine_lib \<Rightarrow> moment \<Rightarrow> ('c, 'r, 'p) engine_state \<Rightarrow> data_source \<Rightarrow> string
      \<Rightarrow> (string + row list) \<times> ('c, 'r, 'p) engine_state" where
  "engine_execute_sqlx lib now st ds sql =
     (let key = result_key (ds_name ds) (en_policy_fingerprint (es_engine st)) sql in
      case get_maps (el_results lib) (at_lookup now) (es_results st) key of
        (Some rows, rc) \<Rightarrow> (Inr rows, st\<lparr>es_results := rc\<rparr>)
      | (None, rc) \<Rightarrow>
          (case execute_literal (at_env now) (el_drivers lib) (el_json_text lib) ds sql (es_connections st) of
             (Inr rows, cm) \<Rightarrow>
               (Inr rows, st\<lparr>es_results := insert_maps (el_results lib) (at_insert now) rc key rows, es_connections := cm\<rparr>)
           | (Inl e, cm) \<Rightarrow> (Inl (el_error_text lib e), st\<lparr>es_results := rc, es_connections := cm\<rparr>)))"

definition engine_introspect ::
    "('c, 'r, 'p, 'k) engine_lib \<Rightarrow> moment \<Rightarrow> ('c, 'r, 'p) engine_state \<Rightarrow> data_source \<Rightarrow> introspection_config
      \<Rightarrow> (exec_error + table_info list) \<times> ('c, 'r, 'p) engine_state" where
  "engine_introspect lib now st ds config =
     (case introspect (at_env now) (el_drivers lib) (el_json_text lib) ds config (es_connections st) of
        (r, cm) \<Rightarrow> (r, st\<lparr>es_connections := cm\<rparr>))"

subsection \<open>The engine refines the execution over a fixed executor\<close>

text \<open>
  What the executor answers in a given state of the pools.
\<close>

definition runs_as ::
    "('c, 'r, 'p, 'k) engine_lib \<Rightarrow> moment \<Rightarrow> 'p connection_manager \<Rightarrow> data_source \<Rightarrow> string \<Rightarrow> string + row list" where
  "runs_as lib now cm ds sql =
     map_err (el_error_text lib) (fst (execute_literal (at_env now) (el_drivers lib) (el_json_text lib) ds sql cm))"

text \<open>
  Forgetting the pools, the engine is the cached execution of \<open>Cache\<close> over what the executor answers.
\<close>

lemma engine_execute_refines:
  "engine_execute_sqlx lib now st ds sql = (r, st') \<Longrightarrow>
     (r, es_results st') = execute_sqlx (el_results lib) (runs_as lib now (es_connections st))
       (en_policy_fingerprint (es_engine st)) (at_lookup now) (at_insert now) (es_results st) ds sql"
  by (auto simp: engine_execute_sqlx_def execute_sqlx_def runs_as_def Let_def split: prod.splits option.splits sum.splits)

lemma engine_execute_keeps:
  "engine_execute_sqlx lib now st ds sql = (r, st') \<Longrightarrow> es_engine st' = es_engine st"
  by (auto simp: engine_execute_sqlx_def Let_def split: prod.splits option.splits sum.splits)

lemma generate_text_keeps:
  "generate_sql_text lib st q = (r, st') \<Longrightarrow>
     en_generator (es_engine st') = en_generator (es_engine st) \<and>
     en_policy_fingerprint (es_engine st') = en_policy_fingerprint (es_engine st) \<and>
     es_results st' = es_results st \<and> es_connections st' = es_connections st"
  by (auto simp: generate_sql_text_def engine_generate_sql_def Let_def split: prod.splits option.splits sum.splits)

lemma introspect_keeps:
  "engine_introspect lib now st ds config = (r, st') \<Longrightarrow>
     es_engine st' = es_engine st \<and> es_results st' = es_results st"
  by (auto simp: engine_introspect_def split: prod.splits)

lemma engine_execute_connections:
  assumes "map_of (pools_of d (es_connections st)) n = Some p" and "engine_execute_sqlx lib now st ds sql = (r, st')"
  shows "map_of (pools_of d (es_connections st')) n = Some p"
proof -
  let ?run = "execute_literal (at_env now) (el_drivers lib) (el_json_text lib) ds sql (es_connections st)"
  obtain items cm where
    "execute_stream (at_env now) (el_drivers lib) (el_json_text lib) ds (generated_literal sql) (es_connections st) = (items, cm)"
    by fastforce
  then have "map_of (pools_of d (snd ?run)) n = Some p"
    using execute_stream_kept [OF assms(1), of "at_env now" "el_drivers lib" "el_json_text lib" ds "generated_literal sql"]
    by (simp add: execute_literal_def execute_streaming_collect_def)
  then show ?thesis
    using assms by (auto simp: engine_execute_sqlx_def Let_def split: prod.splits option.splits sum.splits)
qed

text \<open>
  With a pool open for the name, the connection string of a datasource plays no role.
\<close>

lemma answers_by_name:
  assumes "map_of (pools_of d (es_connections st)) (ds_name ds) = Some p"
    and "executor_driver (el_drivers lib) (ds_driver ds) = Some d"
    and "executor_driver (el_drivers lib) (ds_driver ds') = Some d" and "ds_name ds' = ds_name ds"
  shows "engine_execute_sqlx lib (now\<lparr>at_env := env'\<rparr>) st ds' sql = engine_execute_sqlx lib now st ds sql"
proof -
  have "execute_literal env'' (el_drivers lib) (el_json_text lib) ds' sql (es_connections st) =
      execute_literal (at_env now) (el_drivers lib) (el_json_text lib) ds sql (es_connections st)" for env''
    using assms
    by (simp add: execute_literal_def execute_streaming_collect_def execute_stream_dispatch get_pool_hit)
  then show ?thesis
    by (simp add: engine_execute_sqlx_def assms(4) cong: option.case_cong prod.case_cong sum.case_cong)
qed

end
