(* ===== verification/Auth.thy ===== *)
theory Auth
  imports Security Fnv
begin

unbundle bit_operations_syntax

text \<open>
  \<open>crates/graphnight-server/src/auth_config.rs\<close> and \<open>oidc.rs\<close>: who a request comes from. API
  keys and admin users are read from the environment; a bearer token that looks like a JWT is
  validated against the issuer's key set, which is cached; the identity yields the default
  policy. The JWT library and the HTTP client are parameters (\<open>jwt_lib\<close>, \<open>fetch\<close>), time is a
  number of seconds. A map of headers gives the text of a header, absent when it is missing or
  not text.
\<close>

subsection \<open>Configuration\<close>

record identity =
  id_user_id :: string
  id_is_admin :: bool
  id_tenant_id :: "string option"

record oidc_settings =
  os_issuer :: string
  os_audience :: "string option"
  os_client_id :: "string option"
  os_admin_claim :: string
  os_admin_values :: "string list"
  os_tenant_claim :: string

record auth_config =
  ac_api_keys :: "(string \<times> string) list"
  ac_admin_users :: "string set"
  ac_auth_required :: bool
  ac_oidc :: "oidc_settings option"

definition env_flag :: "env \<Rightarrow> string \<Rightarrow> bool" where
  "env_flag env name =
     (case env name of Some v \<Rightarrow> v = ''1'' \<or> eq_ignore_case v ''true'' | None \<Rightarrow> False)"

definition env_text :: "env \<Rightarrow> string \<Rightarrow> string option" where
  "env_text env name =
     Option.bind (env name) (\<lambda>s. if trim s \<noteq> [] then Some (trim s) else None)"

definition trim_end_slashes :: "string \<Rightarrow> string" where
  "trim_end_slashes s = rev (dropWhile (\<lambda>c. c = CHR ''/'') (rev s))"

definition nonblank_parts :: "string \<Rightarrow> string list" where
  "nonblank_parts s = filter (\<lambda>p. p \<noteq> []) (map trim (split_on (CHR '','') s))"

definition oidc_settings_from_env :: "env \<Rightarrow> oidc_settings option" where
  "oidc_settings_from_env env =
     Option.bind (env ''GRAPHNIGHT_OIDC_ISSUER'') (\<lambda>raw.
       let issuer = trim_end_slashes (trim raw) in
       if issuer = [] then None
       else Some
         \<lparr>os_issuer = issuer,
          os_audience = env_text env ''GRAPHNIGHT_OIDC_AUDIENCE'',
          os_client_id = env_text env ''GRAPHNIGHT_OIDC_CLIENT_ID'',
          os_admin_claim = unwrap_or (env_text env ''GRAPHNIGHT_OIDC_ADMIN_CLAIM'') ''roles'',
          os_admin_values =
            (case env ''GRAPHNIGHT_OIDC_ADMIN_VALUES'' of
               Some s \<Rightarrow> if nonblank_parts s \<noteq> [] then nonblank_parts s else [''admin'']
             | None \<Rightarrow> [''admin'']),
          os_tenant_claim = unwrap_or (env_text env ''GRAPHNIGHT_OIDC_TENANT_CLAIM'') ''tenant_id''\<rparr>)"

definition expected_audiences :: "oidc_settings \<Rightarrow> string list" where
  "expected_audiences s =
     (let out = (case os_audience s of Some a \<Rightarrow> [a] | None \<Rightarrow> [])
      in case os_client_id s of
           Some c \<Rightarrow> if c \<notin> set out then out @ [c] else out
         | None \<Rightarrow> out)"

text \<open>One part of a key list: the pair before and after the first colon.\<close>

fun insert_key_pairs :: "string list \<Rightarrow> (string \<times> string) list \<Rightarrow> (string \<times> string) list" where
  "insert_key_pairs [] out = out"
| "insert_key_pairs (p # ps) out =
     (let part = trim p in
      if part = [] then insert_key_pairs ps out
      else case split_once (CHR '':'') part of
        Some (user, key) \<Rightarrow> insert_key_pairs ps (AList.update (trim user) (trim key) out)
      | None \<Rightarrow> insert_key_pairs ps out)"

definition parse_key_pairs :: "string option \<Rightarrow> (string \<times> string) list \<Rightarrow> (string \<times> string) list" where
  "parse_key_pairs raw out =
     (case raw of None \<Rightarrow> out | Some s \<Rightarrow> insert_key_pairs (split_on (CHR '','') s) out)"

fun insert_admins :: "string list \<Rightarrow> string set \<Rightarrow> string set" where
  "insert_admins [] out = out"
| "insert_admins (p # ps) out =
     (let part = trim p in
      if part = [] then insert_admins ps out
      else case split_once (CHR '':'') part of
        Some (user, _) \<Rightarrow> insert_admins ps (insert (trim user) out)
      | None \<Rightarrow> insert_admins ps out)"

text \<open>\<open>client_ok\<close>: building the HTTP client of the validator succeeds.\<close>

definition auth_config_from_env :: "bool \<Rightarrow> env \<Rightarrow> auth_config" where
  "auth_config_from_env client_ok env =
     (let dev_open = env_flag env ''GRAPHNIGHT_DEV_OPEN'';
          force_required = env_flag env ''GRAPHNIGHT_AUTH_REQUIRED'';
          api_keys = parse_key_pairs (env ''GRAPHNIGHT_ADMIN_KEYS'')
                       (parse_key_pairs (env ''GRAPHNIGHT_API_KEYS'') []);
          admin_users = (case env ''GRAPHNIGHT_ADMIN_KEYS'' of
                           Some admin_keys \<Rightarrow> insert_admins (split_on (CHR '','') admin_keys) {}
                         | None \<Rightarrow> {});
          oidc = (case oidc_settings_from_env env of
                    Some settings \<Rightarrow> if client_ok then Some settings else None
                  | None \<Rightarrow> None);
          auth_required = (if dev_open then False else force_required \<or> api_keys \<noteq> [] \<or> oidc \<noteq> None)
      in \<lparr>ac_api_keys = api_keys, ac_admin_users = admin_users,
          ac_auth_required = auth_required, ac_oidc = oidc\<rparr>)"

subsection \<open>API keys\<close>

text \<open>The differences of all bytes are collected in one byte.\<close>

definition secrets_equal :: "string \<Rightarrow> string \<Rightarrow> bool" where
  "secrets_equal a b =
     (if length a \<noteq> length b then False
      else foldl (\<lambda>acc (x, y). acc OR (byte_word x XOR byte_word y)) 0 (zip a b) = 0)"

fun find_user :: "(string \<times> string) list \<Rightarrow> string \<Rightarrow> string option" where
  "find_user [] key = None"
| "find_user ((user_id, secret) # keys) key =
     (if secrets_equal secret key then Some user_id else find_user keys key)"

definition authenticate :: "auth_config \<Rightarrow> string option \<Rightarrow> string option \<Rightarrow> identity option" where
  "authenticate ac raw_key tenant_id =
     Option.bind raw_key (\<lambda>raw.
       let key = trim raw in
       if key = [] then None
       else map_option
         (\<lambda>user. \<lparr>id_user_id = user, id_is_admin = (user \<in> ac_admin_users ac), id_tenant_id = tenant_id\<rparr>)
         (find_user (ac_api_keys ac) key))"

type_synonym headers = "string \<Rightarrow> string option"

definition extract_api_key :: "headers \<Rightarrow> string option" where
  "extract_api_key hs =
     (case Option.bind (hs ''authorization'') (\<lambda>v.
             let value = trim v in
             case strip_prefix ''Bearer '' value of
               Some token \<Rightarrow> Some (trim token)
             | None \<Rightarrow> map_option trim (strip_prefix ''bearer '' value)) of
        Some token \<Rightarrow> Some token
      | None \<Rightarrow> map_option trim (hs ''x-api-key''))"

definition extract_tenant :: "headers \<Rightarrow> string option" where
  "extract_tenant hs =
     Option.bind (hs ''x-tenant-id'') (\<lambda>s. if trim s \<noteq> [] then Some (trim s) else None)"

subsection \<open>Claims\<close>

type_synonym claims = "(string \<times> json) list"

definition claim_matches_admin :: "claims \<Rightarrow> string \<Rightarrow> string list \<Rightarrow> bool" where
  "claim_matches_admin extra claim admin_values =
     (case map_of extra claim of
        None \<Rightarrow> False
      | Some (JString s) \<Rightarrow> list_ex (\<lambda>n. eq_ignore_case s n) admin_values
      | Some (JArray items) \<Rightarrow>
          list_ex (\<lambda>item. case as_str item of
                     Some s \<Rightarrow> list_ex (\<lambda>n. eq_ignore_case s n) admin_values
                   | None \<Rightarrow> False) items
      | Some (JBool b) \<Rightarrow> b \<and> (claim = ''admin'' \<or> claim = ''is_admin'')
      | Some _ \<Rightarrow> False)"

definition string_claim :: "claims \<Rightarrow> string \<Rightarrow> string option" where
  "string_claim extra name =
     Option.bind
       (case map_of extra name of
          Some (JString s) \<Rightarrow> Some (trim s)
        | Some (JNumber n) \<Rightarrow> Some n
        | _ \<Rightarrow> None)
       (\<lambda>s. if s \<noteq> [] then Some s else None)"

definition tenant_of_claims :: "claims \<Rightarrow> string \<Rightarrow> string option" where
  "tenant_of_claims extra tenant_claim =
     (case string_claim extra tenant_claim of
        Some v \<Rightarrow> Some v
      | None \<Rightarrow> if tenant_claim = ''tenant_id'' then string_claim extra ''org_id'' else None)"

definition looks_like_jwt :: "string \<Rightarrow> bool" where
  "looks_like_jwt raw =
     (let token = trim raw in
      if token = [] then False else length (filter (\<lambda>b. b = CHR ''.'') token) = 2)"

subsection \<open>The key set of the issuer\<close>

datatype jwt_alg =
  HS256 | HS384 | HS512 | RS256 | RS384 | RS512 | ES256 | ES384 | PS256 | PS384 | PS512 | EdDSA

text \<open>A key may say which algorithm it is for, perhaps one that is not a signature algorithm.\<close>

datatype key_algorithm = Signs jwt_alg | OtherKeyAlgorithm

fun key_algorithm_to_jwt :: "key_algorithm \<Rightarrow> jwt_alg option" where
  "key_algorithm_to_jwt (Signs a) = Some a"
| "key_algorithm_to_jwt OtherKeyAlgorithm = None"

record 'k jwk =
  jwk_kid :: "string option"
  jwk_algorithm :: "key_algorithm option"
  jwk_key :: 'k

text \<open>
  The JWT library: the header of a token (algorithm and key id), whether a key can be loaded,
  and the decoding of a token with a key, an algorithm, an issuer and, if they are to be
  checked, audiences: the subject and the other claims.
\<close>

record 'k jwt_lib =
  jl_header :: "string \<Rightarrow> string + jwt_alg \<times> string option"
  jl_loads :: "'k \<Rightarrow> bool"
  jl_decode :: "'k \<Rightarrow> jwt_alg \<Rightarrow> string \<Rightarrow> string list option \<Rightarrow> string \<Rightarrow> string + string \<times> claims"

type_synonym 'k jwks_cache = "('k jwk list \<times> nat) option"

definition jwks_ttl :: nat where
  "jwks_ttl = 3600"

definition get_jwks ::
    "(nat \<Rightarrow> string + 'k jwk list) \<Rightarrow> nat \<Rightarrow> bool \<Rightarrow> 'k jwks_cache \<Rightarrow> (string + 'k jwk list) \<times> 'k jwks_cache" where
  "get_jwks fetch now force cache =
     (let fetched = (case fetch now of
                       Inl e \<Rightarrow> (Inl e, cache)
                     | Inr keys \<Rightarrow> (Inr keys, Some (keys, now)))
      in if force then fetched
         else case cache of
           Some (keys, fetched_at) \<Rightarrow> if now - fetched_at < jwks_ttl then (Inr keys, cache) else fetched
         | None \<Rightarrow> fetched)"

definition candidate_keys :: "'k jwk list \<Rightarrow> string option \<Rightarrow> 'k jwk list" where
  "candidate_keys keys kid =
     (case kid of
        Some i \<Rightarrow> (case find (\<lambda>k. jwk_kid k = Some i) keys of Some k \<Rightarrow> [k] | None \<Rightarrow> [])
      | None \<Rightarrow> if length keys = 1 then [keys ! 0] else keys)"

definition key_usable :: "'k jwt_lib \<Rightarrow> jwt_alg \<Rightarrow> 'k jwk \<Rightarrow> bool" where
  "key_usable lib alg k \<longleftrightarrow>
     (case Option.bind (jwk_algorithm k) key_algorithm_to_jwt of
        Some mapped \<Rightarrow> mapped = alg
      | None \<Rightarrow> True) \<and> jl_loads lib (jwk_key k)"

definition find_decoding_key :: "'k jwt_lib \<Rightarrow> 'k jwk list \<Rightarrow> string option \<Rightarrow> jwt_alg \<Rightarrow> 'k jwk option" where
  "find_decoding_key lib keys kid alg = find (key_usable lib alg) (candidate_keys keys kid)"

text \<open>\<open>t0\<close> and \<open>t1\<close> are the times of the lookup and of the forced refresh.\<close>

definition decoding_key_from_jwks ::
    "'k jwt_lib \<Rightarrow> (nat \<Rightarrow> string + 'k jwk list) \<Rightarrow> nat \<Rightarrow> nat \<Rightarrow> string option \<Rightarrow> jwt_alg \<Rightarrow> 'k jwks_cache
      \<Rightarrow> (string + 'k jwk) \<times> 'k jwks_cache" where
  "decoding_key_from_jwks lib fetch t0 t1 kid alg cache =
     (case get_jwks fetch t0 False cache of
        (Inl e, cache1) \<Rightarrow> (Inl e, cache1)
      | (Inr keys, cache1) \<Rightarrow>
          (case find_decoding_key lib keys kid alg of
             Some k \<Rightarrow> (Inr k, cache1)
           | None \<Rightarrow>
               (case get_jwks fetch t1 True cache1 of
                  (Inl e, cache2) \<Rightarrow> (Inl e, cache2)
                | (Inr keys2, cache2) \<Rightarrow>
                    (ok_or ''No JWKS key'' (find_decoding_key lib keys2 kid alg), cache2))))"

definition oidc_validate ::
    "'k jwt_lib \<Rightarrow> (nat \<Rightarrow> string + 'k jwk list) \<Rightarrow> nat \<Rightarrow> nat \<Rightarrow> oidc_settings \<Rightarrow> string \<Rightarrow> 'k jwks_cache
      \<Rightarrow> (string + identity) \<times> 'k jwks_cache" where
  "oidc_validate lib fetch t0 t1 s token cache =
     (case jl_header lib token of
        Inl e \<Rightarrow> (Inl e, cache)
      | Inr (alg, kid) \<Rightarrow>
          (case decoding_key_from_jwks lib fetch t0 t1 kid alg cache of
             (Inl e, cache1) \<Rightarrow> (Inl e, cache1)
           | (Inr k, cache1) \<Rightarrow>
               let audiences = expected_audiences s in
               (case jl_decode lib (jwk_key k) alg (os_issuer s)
                       (if audiences = [] then None else Some audiences) token of
                  Inl e \<Rightarrow> (Inl e, cache1)
                | Inr (sub, extra) \<Rightarrow>
                    if trim sub = [] then (Inl ''JWT missing sub'', cache1)
                    else (Inr \<lparr>id_user_id = sub,
                               id_is_admin = claim_matches_admin extra (os_admin_claim s) (os_admin_values s),
                               id_tenant_id = tenant_of_claims extra (os_tenant_claim s)\<rparr>, cache1))))"

subsection \<open>Resolving a request\<close>

definition resolve_identity ::
    "'k jwt_lib \<Rightarrow> (nat \<Rightarrow> string + 'k jwk list) \<Rightarrow> nat \<Rightarrow> nat \<Rightarrow> auth_config \<Rightarrow> string option \<Rightarrow> string option
      \<Rightarrow> 'k jwks_cache \<Rightarrow> identity option \<times> 'k jwks_cache" where
  "resolve_identity lib fetch t0 t1 ac raw_token tenant_hint cache =
     (case map_option trim raw_token of
        None \<Rightarrow> (None, cache)
      | Some token \<Rightarrow>
          if token = [] then (None, cache)
          else if looks_like_jwt token then
            (case ac_oidc ac of
               Some s \<Rightarrow>
                 (case oidc_validate lib fetch t0 t1 s token cache of
                    (Inr i, cache1) \<Rightarrow>
                      (Some (if id_tenant_id i = None then i\<lparr>id_tenant_id := tenant_hint\<rparr> else i), cache1)
                  | (Inl _, cache1) \<Rightarrow> (authenticate ac (Some token) tenant_hint, cache1))
             | None \<Rightarrow> (authenticate ac (Some token) tenant_hint, cache))
          else (authenticate ac (Some token) tenant_hint, cache))"

definition default_policy :: "identity option \<Rightarrow> session_policy" where
  "default_policy i =
     (case Option.bind i id_tenant_id of
        Some tenant \<Rightarrow>
          with_forced_filter session_policy_new (filter_new ''tenant_id'' Eq (JString tenant))
      | None \<Rightarrow> session_policy_new)"

subsection \<open>Keys\<close>

lemma fold_differences:
  "foldl (\<lambda>acc (x, y). acc OR (byte_word x XOR byte_word y)) acc ps = 0 \<longleftrightarrow>
     acc = 0 \<and> (\<forall>(x, y) \<in> set ps. x = y)"
  by (induction ps arbitrary: acc) (auto simp: or_zero_iff xor_zero_iff byte_word_inj)

lemma secrets_equal_iff: "secrets_equal a b \<longleftrightarrow> a = b"
proof (cases "length a = length b")
  case True
  then have "(\<forall>(x, y) \<in> set (zip a b). x = y) \<longleftrightarrow> a = b"
    by (induction a b rule: list_induct2) auto
  then show ?thesis using True by (simp add: secrets_equal_def fold_differences)
qed (auto simp: secrets_equal_def)

lemma find_user_Some: "find_user keys key = Some u \<Longrightarrow> (u, key) \<in> set keys"
  by (induction keys key rule: find_user.induct) (auto simp: secrets_equal_iff split: if_splits)

lemma find_user_None: "find_user keys key = None \<longleftrightarrow> key \<notin> snd ` set keys"
  by (induction keys key rule: find_user.induct) (auto simp: secrets_equal_iff)

lemma authenticate_Some:
  "authenticate ac (Some raw) hint = Some i \<longleftrightarrow>
     trim raw \<noteq> [] \<and>
     (\<exists>u. find_user (ac_api_keys ac) (trim raw) = Some u \<and>
        i = \<lparr>id_user_id = u, id_is_admin = (u \<in> ac_admin_users ac), id_tenant_id = hint\<rparr>)"
  by (auto simp: authenticate_def Let_def)

text \<open>
  API keys: an identity is given exactly for a non-blank key that some user has, as that user, an
  administrator exactly when listed as one, with the tenant the caller named; comparing the
  collected differences of the bytes is comparing the keys.
\<close>

lemma authenticate_spec:
  "case authenticate ac (Some raw) hint of
     Some i \<Rightarrow> trim raw \<noteq> [] \<and> (id_user_id i, trim raw) \<in> set (ac_api_keys ac) \<and>
       id_is_admin i = (id_user_id i \<in> ac_admin_users ac) \<and> id_tenant_id i = hint
   | None \<Rightarrow> trim raw = [] \<or> trim raw \<notin> snd ` set (ac_api_keys ac)"
  by (auto simp: authenticate_def Let_def find_user_None[symmetric] split: option.split dest: find_user_Some)

subsection \<open>Key lists\<close>

text \<open>The pairs a key list in the environment holds.\<close>

definition key_pairs :: "env \<Rightarrow> string \<Rightarrow> (string \<times> string) list" where
  "key_pairs env name =
     (case env name of
        None \<Rightarrow> []
      | Some s \<Rightarrow> List.map_filter (\<lambda>p. map_option (\<lambda>(u, k). (trim u, trim k)) (split_once (CHR '':'') (trim p)))
                  (split_on (CHR '','') s))"

definition pairs_of :: "string list \<Rightarrow> (string \<times> string) list" where
  "pairs_of ps = List.map_filter (\<lambda>p. map_option (\<lambda>(u, k). (trim u, trim k)) (split_once (CHR '':'') (trim p))) ps"

lemma split_once_Nil [simp]: "split_once c [] = None"
  by (simp add: split_once_None)

lemma insert_key_pairs_conv:
  "insert_key_pairs ps out = foldl (\<lambda>m (u, k). AList.update u k m) out (pairs_of ps)"
  by (induction ps out rule: insert_key_pairs.induct)
    (auto simp: pairs_of_def List.map_filter_simps Let_def split: option.splits)

lemma insert_admins_conv: "insert_admins ps out = out \<union> fst ` set (pairs_of ps)"
  by (induction ps out rule: insert_admins.induct)
    (auto simp: pairs_of_def List.map_filter_simps Let_def split: option.splits)

lemma parse_key_pairs_conv:
  "parse_key_pairs (env name) out = foldl (\<lambda>m (u, k). AList.update u k m) out (key_pairs env name)"
  by (simp add: parse_key_pairs_def key_pairs_def insert_key_pairs_conv pairs_of_def split: option.split)

lemma updates_map_of:
  "map_of (foldl (\<lambda>m (u, k). AList.update u k m) out ps) = map_of out ++ map_of (rev ps)"
  by (induction ps arbitrary: out) (auto simp: update_conv' map_add_def fun_eq_iff split: option.splits)

lemma updates_distinct:
  "distinct (map fst out) \<Longrightarrow> distinct (map fst (foldl (\<lambda>m (u, k). AList.update u k m) out ps))"
  by (induction ps arbitrary: out) (auto simp: distinct_update)

lemma updates_Nil: "foldl (\<lambda>m (u, k). AList.update u k m) out ps = [] \<longleftrightarrow> out = [] \<and> ps = []"
proof (induction ps arbitrary: out)
  case (Cons p ps)
  have "AList.update (fst p) (snd p) out \<noteq> []" by (cases out) auto
  then show ?case using Cons by (simp add: case_prod_beta)
qed simp

lemma config_fields:
  "ac_api_keys (auth_config_from_env ok env) =
     foldl (\<lambda>m (u, k). AList.update u k m) []
       (key_pairs env ''GRAPHNIGHT_API_KEYS'' @ key_pairs env ''GRAPHNIGHT_ADMIN_KEYS'')"
  "ac_admin_users (auth_config_from_env ok env) = fst ` set (key_pairs env ''GRAPHNIGHT_ADMIN_KEYS'')"
  by (simp_all add: auth_config_from_env_def Let_def parse_key_pairs_conv insert_admins_conv pairs_of_def
      key_pairs_def split: option.split)

text \<open>
  C19. Nobody becomes an administrator with a key from \<open>GRAPHNIGHT_API_KEYS\<close>: a key that yields an
  administrator stands next to that user in \<open>GRAPHNIGHT_ADMIN_KEYS\<close>, whatever the other list
  says about the user.
\<close>

theorem admin_needs_admin_key:
  assumes "authenticate (auth_config_from_env client_ok env) (Some raw) hint = Some i" and "id_is_admin i"
  shows "(id_user_id i, trim raw) \<in> set (key_pairs env ''GRAPHNIGHT_ADMIN_KEYS'')"
proof -
  let ?ac = "auth_config_from_env client_ok env"
  let ?admin = "key_pairs env ''GRAPHNIGHT_ADMIN_KEYS''"
  obtain u where u: "find_user (ac_api_keys ?ac) (trim raw) = Some u" "u \<in> ac_admin_users ?ac" "id_user_id i = u"
    using assms by (auto simp: authenticate_Some)
  have "distinct (map fst (ac_api_keys ?ac))"
    unfolding config_fields by (rule updates_distinct) simp
  then have "map_of (ac_api_keys ?ac) u = Some (trim raw)"
    using find_user_Some [OF u(1)] by simp
  moreover have "u \<in> fst ` set (rev ?admin)" using u(2) by (simp add: config_fields)
  then obtain k where "map_of (rev ?admin) u = Some k"
    by (metis map_of_eq_None_iff not_None_eq)
  ultimately have "map_of (rev ?admin) u = Some (trim raw)"
    by (simp add: config_fields updates_map_of map_add_def split: option.splits)
  then show ?thesis using u(3) by (auto dest: map_of_SomeD)
qed

text \<open>
  When the server asks for authentication: unless development mode is on, exactly when it is
  forced, a key list holds at least one pair with a colon, or an issuer is configured and its
  client could be built. Key lists without a colon and an issuer whose client fails leave the
  server open.
\<close>

lemma auth_required_iff:
  "ac_auth_required (auth_config_from_env client_ok env) \<longleftrightarrow>
     \<not> env_flag env ''GRAPHNIGHT_DEV_OPEN'' \<and>
     (env_flag env ''GRAPHNIGHT_AUTH_REQUIRED'' \<or>
      key_pairs env ''GRAPHNIGHT_API_KEYS'' \<noteq> [] \<or> key_pairs env ''GRAPHNIGHT_ADMIN_KEYS'' \<noteq> [] \<or>
      (client_ok \<and> oidc_settings_from_env env \<noteq> None))"
  by (auto simp: auth_config_from_env_def Let_def parse_key_pairs_conv updates_Nil foldl_append [symmetric]
      simp del: foldl_append split: option.splits)

subsection \<open>Validated tokens\<close>

definition jwks_cache_ok :: "(nat \<Rightarrow> string + 'k jwk list) \<Rightarrow> 'k jwks_cache \<Rightarrow> bool" where
  "jwks_cache_ok fetch cache \<longleftrightarrow> (\<forall>keys t. cache = Some (keys, t) \<longrightarrow> fetch t = Inr keys)"

lemma get_jwks_ok:
  assumes "get_jwks fetch now force cache = (r, cache')" and "jwks_cache_ok fetch cache"
  shows "jwks_cache_ok fetch cache'"
    and "r = Inr keys \<Longrightarrow> \<exists>t. fetch t = Inr keys \<and> (t = now \<or> now - t < jwks_ttl)"
  using assms by (auto simp: get_jwks_def jwks_cache_ok_def Let_def split: if_splits option.splits sum.splits)

lemma find_decoding_key_sound:
  "find_decoding_key lib keys kid alg = Some k \<Longrightarrow>
     k \<in> set keys \<and> key_usable lib alg k \<and> (\<forall>i. kid = Some i \<longrightarrow> jwk_kid k = Some i)"
  by (auto simp: find_decoding_key_def candidate_keys_def find_Some_iff split: option.splits if_splits)

lemma decoding_key_ok:
  assumes "decoding_key_from_jwks lib fetch t0 t1 kid alg cache = (r, cache')" and "jwks_cache_ok fetch cache"
  shows "jwks_cache_ok fetch cache'"
    and "r = Inr k \<Longrightarrow> \<exists>keys t. fetch t = Inr keys \<and> (t = t0 \<or> t = t1 \<or> t0 - t < jwks_ttl) \<and>
      find_decoding_key lib keys kid alg = Some k"
proof -
  obtain r0 c0 where g0: "get_jwks fetch t0 False cache = (r0, c0)" by fastforce
  obtain r1 c1 where g1: "get_jwks fetch t1 True c0 = (r1, c1)" by fastforce
  note ok0 = get_jwks_ok [OF g0 assms(2)]
  note ok1 = get_jwks_ok [OF g1 ok0(1)]
  have forced: "r1 = fetch t1" using g1 by (auto simp: get_jwks_def Let_def split: sum.splits)
  show "jwks_cache_ok fetch cache'"
    using assms(1) ok0(1) ok1(1) by (auto simp: decoding_key_from_jwks_def g0 g1 split: sum.splits option.splits)
  show "\<exists>keys t. fetch t = Inr keys \<and> (t = t0 \<or> t = t1 \<or> t0 - t < jwks_ttl) \<and>
      find_decoding_key lib keys kid alg = Some k" if "r = Inr k"
    using assms(1) that ok0(2) forced
    by (auto simp: decoding_key_from_jwks_def g0 g1 ok_or_Inr split: sum.splits option.splits)
qed

text \<open>
  C26. A validated token: its key comes from a key set of the issuer that was fetched for this call or
  less than an hour before, carries the token's key id, and does not announce another
  algorithm; the token was decoded with that key for the configured issuer and audiences; the
  subject is not blank, and administration and tenant are what the claims say. The cache still
  holds only fetched sets.
\<close>

theorem validated_identity:
  assumes "oidc_validate lib fetch t0 t1 s token cache = (Inr i, cache')" and "jwks_cache_ok fetch cache"
  shows "jwks_cache_ok fetch cache' \<and>
    (\<exists>alg kid keys t k extra.
       jl_header lib token = Inr (alg, kid) \<and>
       fetch t = Inr keys \<and> (t = t0 \<or> t = t1 \<or> t0 - t < jwks_ttl) \<and>
       k \<in> set keys \<and> key_usable lib alg k \<and> (kid = None \<or> jwk_kid k = kid) \<and>
       jl_decode lib (jwk_key k) alg (os_issuer s)
         (if expected_audiences s = [] then None else Some (expected_audiences s)) token = Inr (id_user_id i, extra) \<and>
       trim (id_user_id i) \<noteq> [] \<and>
       id_is_admin i = claim_matches_admin extra (os_admin_claim s) (os_admin_values s) \<and>
       id_tenant_id i = tenant_of_claims extra (os_tenant_claim s))"
proof -
  obtain alg kid where h: "jl_header lib token = Inr (alg, kid)"
    using assms(1) by (auto simp: oidc_validate_def split: sum.splits)
  obtain r c where d: "decoding_key_from_jwks lib fetch t0 t1 kid alg cache = (r, c)" by fastforce
  obtain k where k: "r = Inr k" using assms(1) by (auto simp: oidc_validate_def h d split: sum.splits)
  note ok = decoding_key_ok [OF d assms(2)]
  obtain keys t where keys: "fetch t = Inr keys" "t = t0 \<or> t = t1 \<or> t0 - t < jwks_ttl"
      "find_decoding_key lib keys kid alg = Some k"
    using ok(2) [OF k] by blast
  note sound = find_decoding_key_sound [OF keys(3)]
  obtain sub extra where
    "jl_decode lib (jwk_key k) alg (os_issuer s)
       (if expected_audiences s = [] then None else Some (expected_audiences s)) token = Inr (sub, extra)"
    "trim sub \<noteq> []" "c = cache'"
    "i = \<lparr>id_user_id = sub, id_is_admin = claim_matches_admin extra (os_admin_claim s) (os_admin_values s),
          id_tenant_id = tenant_of_claims extra (os_tenant_claim s)\<rparr>"
    using assms(1) by (auto simp: oidc_validate_def h d k Let_def split: sum.splits if_splits)
  moreover have "kid = None \<or> jwk_kid k = kid" using sound by (cases kid) auto
  ultimately show ?thesis
    using h keys(1,2) sound ok(1)
    by (intro conjI exI [of _ alg] exI [of _ kid] exI [of _ keys] exI [of _ t] exI [of _ k] exI [of _ extra]) simp_all
qed

text \<open>
  The tenant filter of a caller with an API key is whatever the caller's own header says: the
  named tenant's filter when there is one, and no filter at all when there is none.
\<close>

lemma api_key_tenant_from_header:
  assumes "fst (resolve_identity lib fetch t0 t1 ac (Some token) hint cache) = Some i" and "\<not> looks_like_jwt token"
  shows "sp_forced_filters (default_policy (Some i)) =
    (case hint of Some tenant \<Rightarrow> [filter_new ''tenant_id'' Eq (JString tenant)] | None \<Rightarrow> [])"
proof -
  have "\<not> looks_like_jwt (trim token)" using assms(2) by (simp add: looks_like_jwt_def)
  then have "authenticate ac (Some (trim token)) hint = Some i"
    using assms(1) by (auto simp: resolve_identity_def split: if_splits)
  then show ?thesis
    by (auto simp: authenticate_Some default_policy_def with_forced_filter_def session_policy_new_def
        split: option.split)
qed

subsection \<open>An example configuration\<close>

definition sample_env :: env where
  "sample_env =
     [''GRAPHNIGHT_API_KEYS'' \<mapsto> ''alice:k1, root:old'', ''GRAPHNIGHT_ADMIN_KEYS'' \<mapsto> ''root:s3cret'']"

lemma sample_authenticates:
  "authenticate (auth_config_from_env True sample_env) (Some '' s3cret '') None =
     Some \<lparr>id_user_id = ''root'', id_is_admin = True, id_tenant_id = None\<rparr>"
  by code_simp

theorem admin_needs_admin_key_witness:
  "(''root'', ''s3cret'') \<in> set (key_pairs sample_env ''GRAPHNIGHT_ADMIN_KEYS'')"
proof -
  have "trim '' s3cret '' = ''s3cret''" by code_simp
  then show ?thesis using admin_needs_admin_key [OF sample_authenticates] by simp
qed

lemma auth_required_iff_witness:
  "ac_auth_required (auth_config_from_env True sample_env) \<and>
   \<not> ac_auth_required (auth_config_from_env True (sample_env(''GRAPHNIGHT_DEV_OPEN'' \<mapsto> ''1'')))"
proof -
  have "\<not> env_flag sample_env ''GRAPHNIGHT_DEV_OPEN''"
    and "env_flag (sample_env(''GRAPHNIGHT_DEV_OPEN'' \<mapsto> ''1'')) ''GRAPHNIGHT_DEV_OPEN''"
    and "key_pairs sample_env ''GRAPHNIGHT_API_KEYS'' \<noteq> []" by code_simp+
  then show ?thesis by (simp add: auth_required_iff)
qed
definition sample_lib :: "nat jwt_lib" where
  "sample_lib =
     \<lparr>jl_header = (\<lambda>_. Inr (RS256, Some ''k'')), jl_loads = (\<lambda>_. True),
      jl_decode = (\<lambda>_ _ _ _ _. Inr (''alice'', [(''roles'', JArray [JString ''Admin''])]))\<rparr>"

definition sample_oidc :: oidc_settings where
  "sample_oidc =
     \<lparr>os_issuer = ''https://idp'', os_audience = None, os_client_id = None, os_admin_claim = ''roles'',
      os_admin_values = [''admin''], os_tenant_claim = ''tenant_id''\<rparr>"

definition sample_jwks :: "nat jwk list" where
  "sample_jwks = [\<lparr>jwk_kid = Some ''k'', jwk_algorithm = Some (Signs RS256), jwk_key = 7\<rparr>]"

lemma sample_validates:
  "oidc_validate sample_lib (\<lambda>_. Inr sample_jwks) 10 11 sample_oidc ''a.b.c'' None =
     (Inr \<lparr>id_user_id = ''alice'', id_is_admin = True, id_tenant_id = None\<rparr>, Some (sample_jwks, 10))"
  by code_simp

theorem validated_identity_witness:
  "jwks_cache_ok (\<lambda>_. Inr sample_jwks) (Some (sample_jwks, 10))"
  using validated_identity [OF sample_validates] by (simp add: jwks_cache_ok_def)

lemma sample_resolves:
  "fst (resolve_identity sample_lib (\<lambda>_. Inl []) 0 0 (auth_config_from_env True sample_env) (Some ''k1'') (Some ''acme'') None)
     = Some \<lparr>id_user_id = ''alice'', id_is_admin = False, id_tenant_id = Some ''acme''\<rparr>"
  by code_simp

lemma api_key_tenant_from_header_witness:
  "sp_forced_filters (default_policy (Some \<lparr>id_user_id = ''alice'', id_is_admin = False, id_tenant_id = Some ''acme''\<rparr>))
     = [filter_new ''tenant_id'' Eq (JString ''acme'')]"
proof -
  have "\<not> looks_like_jwt ''k1''" by code_simp
  from api_key_tenant_from_header [OF sample_resolves this] show ?thesis by simp
qed

end
