(* ===== verification/Rate_Limit.thy ===== *)
theory Rate_Limit
  imports Auth Numbers
begin

text \<open>
  \<open>crates/graphnight-server/src/rate_limit.rs\<close>: a token bucket per API key or client address. A
  bucket holds at most as many tokens as are added in a second; a request takes one. Floats are
  their exact values (theory \<open>Numbers\<close>) and times are rational seconds; the bucket of a key is
  made when the key is first seen and never dropped.
\<close>

subsection \<open>Buckets\<close>

record bucket =
  bk_tokens :: rat
  bk_last_refill :: rat

record rate_limit_state =
  rl_rps :: rat
  rl_buckets :: "(string \<times> bucket) list"

definition rate_limit_from_env :: "env \<Rightarrow> rate_limit_state option" where
  "rate_limit_from_env env =
     Option.bind (env ''GRAPHNIGHT_RATE_LIMIT_RPS'') (\<lambda>raw.
       let trimmed = trim raw in
       if trimmed = [] \<or> trimmed = ''0'' then None
       else case parse_f64 trimmed of
         Some (Finite rps) \<Rightarrow> if 0 < rps then Some \<lparr>rl_rps = rps, rl_buckets = []\<rparr> else None
       | _ \<Rightarrow> None)"

text \<open>The tokens of a key at a time: of its bucket refilled, or of a new one.\<close>

definition refilled :: "rate_limit_state \<Rightarrow> string \<Rightarrow> rat \<Rightarrow> rat" where
  "refilled st key now =
     (let b = unwrap_or (map_of (rl_buckets st) key) \<lparr>bk_tokens = rl_rps st, bk_last_refill = now\<rparr>;
          elapsed = max 0 (now - bk_last_refill b)
      in min (bk_tokens b + elapsed * rl_rps st) (rl_rps st))"

definition wait_secs :: "rat \<Rightarrow> rat \<Rightarrow> nat" where
  "wait_secs need rps = min (nat (max \<lceil>need / rps\<rceil> 1)) (2 ^ 64 - 1)"

definition try_acquire ::
    "rat \<Rightarrow> string \<Rightarrow> rate_limit_state \<Rightarrow> (nat + unit) \<times> rate_limit_state" where
  "try_acquire now key st =
     (let tokens = refilled st key now;
          put = (\<lambda>t. st\<lparr>rl_buckets := AList.update key \<lparr>bk_tokens = t, bk_last_refill = now\<rparr> (rl_buckets st)\<rparr>)
      in if 1 \<le> tokens then (Inr (), put (tokens - 1))
         else (Inl (wait_secs (1 - tokens) (rl_rps st)), put tokens))"

subsection \<open>The middleware\<close>

definition simple_hash :: "string \<Rightarrow> 64 word" where
  "simple_hash s = feed_str 0xcbf29ce484222325 s"

text \<open>\<open>peer\<close> is the printed address of the connection, when it is known.\<close>

definition client_key :: "headers \<Rightarrow> string option \<Rightarrow> string" where
  "client_key hs peer =
     (case extract_api_key hs of
        Some api_key \<Rightarrow> ''key:'' @ nat_str (unat (simple_hash api_key))
      | None \<Rightarrow>
          (case Option.bind (hs ''x-forwarded-for'') (\<lambda>s.
                  let fwd = trim (hd (split_on (CHR '','') s)) in if fwd \<noteq> [] then Some fwd else None) of
             Some fwd \<Rightarrow> ''ip:'' @ fwd
           | None \<Rightarrow> (case peer of Some addr \<Rightarrow> ''ip:'' @ addr | None \<Rightarrow> ''ip:unknown'')))"

text \<open>\<open>Inr\<close>: the request is passed on; \<open>Inl\<close>: it is answered 429 with the seconds to wait.\<close>

definition rate_limit_middleware ::
    "rat \<Rightarrow> string \<Rightarrow> headers \<Rightarrow> string option \<Rightarrow> rate_limit_state option
      \<Rightarrow> (nat + unit) \<times> rate_limit_state option" where
  "rate_limit_middleware now path hs peer state =
     (case state of
        None \<Rightarrow> (Inr (), None)
      | Some limiter \<Rightarrow>
          if path = ''/health'' \<or> path = ''/metrics'' then (Inr (), Some limiter)
          else case try_acquire now (client_key hs peer) limiter of
            (r, limiter1) \<Rightarrow> (r, Some limiter1))"

subsection \<open>How many requests pass\<close>

text \<open>A sequence of requests of times and keys: the results.\<close>

fun acquire_run :: "rate_limit_state \<Rightarrow> (rat \<times> string) list \<Rightarrow> (nat + unit) list" where
  "acquire_run st [] = []"
| "acquire_run st ((now, key) # calls) =
     (case try_acquire now key st of (r, st1) \<Rightarrow> r # acquire_run st1 calls)"

definition passed :: "rate_limit_state \<Rightarrow> string \<Rightarrow> (rat \<times> string) list \<Rightarrow> nat" where
  "passed st key calls =
     length (filter (\<lambda>(c, r). snd c = key \<and> is_ok r) (zip calls (acquire_run st calls)))"

lemma refilled_le: "refilled st key now \<le> rl_rps st"
  by (simp add: refilled_def Let_def)

lemma refilled_later:
  assumes "0 < rl_rps st" and "t \<le> t'"
  shows "refilled st key t' \<le> refilled st key t + (t' - t) * rl_rps st"
proof (cases "map_of (rl_buckets st) key")
  case None
  then show ?thesis using assms by (simp add: refilled_def)
next
  case (Some b)
  have "max 0 (t' - bk_last_refill b) \<le> max 0 (t - bk_last_refill b) + (t' - t)" using assms(2) by simp
  then have "max 0 (t' - bk_last_refill b) * rl_rps st \<le> (max 0 (t - bk_last_refill b) + (t' - t)) * rl_rps st"
    using assms(1) by (intro mult_right_mono) simp_all
  moreover have "0 \<le> (t' - t) * rl_rps st" using assms by simp
  ultimately show ?thesis using Some by (simp add: refilled_def Let_def distrib_right min_def)
qed

lemma try_acquire_state:
  assumes "try_acquire now key st = (r, st1)"
  shows "rl_rps st1 = rl_rps st"
    and "k \<noteq> key \<Longrightarrow> refilled st1 k t = refilled st k t"
    and "refilled st1 key t = min (refilled st key now - of_bool (is_ok r) + max 0 (t - now) * rl_rps st) (rl_rps st)"
    and "is_ok r \<longleftrightarrow> 1 \<le> refilled st key now"
  using assms by (auto simp: try_acquire_def Let_def refilled_def [of st1] refilled_def [of st k] update_conv' split: if_splits)

text \<open>No bucket is overdrawn; the empty map of a new limiter is such a state.\<close>

definition buckets_ok :: "rate_limit_state \<Rightarrow> bool" where
  "buckets_ok st \<longleftrightarrow> 0 < rl_rps st \<and> (\<forall>key b. map_of (rl_buckets st) key = Some b \<longrightarrow> 0 \<le> bk_tokens b)"

lemma refilled_nonneg: "buckets_ok st \<Longrightarrow> 0 \<le> refilled st key t"
  by (cases "map_of (rl_buckets st) key") (auto simp: buckets_ok_def refilled_def Let_def min_def)

lemma try_acquire_ok:
  assumes "buckets_ok st" and "try_acquire now key st = (r, st1)"
  shows "buckets_ok st1"
  using assms refilled_nonneg [OF assms(1), of key now]
  by (auto simp: buckets_ok_def try_acquire_def Let_def update_conv' split: if_splits)

lemma passed_Nil [simp]: "passed st key [] = 0"
  by (simp add: passed_def)

lemma passed_Cons:
  "try_acquire t k st = (r, st1) \<Longrightarrow>
     passed st key ((t, k) # calls) = of_bool (k = key \<and> is_ok r) + passed st1 key calls"
  by (simp add: passed_def)

lemma passed_bound:
  assumes "buckets_ok st" and "sorted (t0 # map fst calls)"
  shows "of_nat (passed st key calls) \<le> refilled st key t0 + (last (t0 # map fst calls) - t0) * rl_rps st"
  using assms
proof (induction calls arbitrary: st t0)
  case Nil
  then show ?case using refilled_nonneg by simp
next
  case (Cons c calls)
  obtain t k where c: "c = (t, k)" by fastforce
  obtain r st1 where a: "try_acquire t k st = (r, st1)" by fastforce
  note st1 = try_acquire_state [OF a]
  have rps: "0 < rl_rps st" using Cons.prems(1) by (simp add: buckets_ok_def)
  have IH: "of_nat (passed st1 key calls) \<le> refilled st1 key t + (last (t # map fst calls) - t) * rl_rps st"
    using Cons.IH [OF try_acquire_ok [OF Cons.prems(1) a], of t] Cons.prems(2) st1(1) by (simp add: c)
  have "refilled st1 key t + of_bool (k = key \<and> is_ok r) \<le> refilled st key t"
    using st1(2) [of key t] st1(3) [of t] by (cases "k = key") auto
  moreover have "refilled st key t \<le> refilled st key t0 + (t - t0) * rl_rps st"
    using refilled_later [OF rps, of t0 t key] Cons.prems(2) by (simp add: c)
  ultimately have "of_nat (passed st key (c # calls)) \<le>
      refilled st key t0 + (t - t0) * rl_rps st + (last (t # map fst calls) - t) * rl_rps st"
    using IH by (simp add: c passed_Cons [OF a])
  then show ?case by (simp add: c algebra_simps)
qed

lemma rate_limit_from_env_ok: "rate_limit_from_env env = Some st \<Longrightarrow> buckets_ok st \<and> rl_buckets st = []"
  by (auto simp: rate_limit_from_env_def Let_def buckets_ok_def bind_eq_Some_conv split: if_splits option.splits f64.splits)

text \<open>
  C20. The rate limit: in any sequence of requests in the order of time, by any clients, at most \<open>rps\<close>
  requests of a client pass at once and \<open>rps\<close> more per second of the sequence.
\<close>

theorem requests_bounded:
  assumes "rate_limit_from_env env = Some st" and "sorted (map fst ((t, k) # calls))"
  shows "of_nat (passed st key ((t, k) # calls)) \<le> rl_rps st * (1 + (last (map fst ((t, k) # calls)) - t))"
proof -
  have ok: "buckets_ok st" using rate_limit_from_env_ok [OF assms(1)] by simp
  have "of_nat (passed st key ((t, k) # calls)) \<le>
      refilled st key t + (last (t # map fst ((t, k) # calls)) - t) * rl_rps st"
    by (rule passed_bound [OF ok]) (use assms(2) in simp)
  then show ?thesis using refilled_le [of st key t] by (simp add: algebra_simps)
qed

text \<open>
  A rate below one request a second, which the environment accepts, lets no request pass, ever: the
  bucket's capacity is the rate, so it never holds a whole token.
\<close>

lemma fractional_rate_blocks:
  assumes "rate_limit_from_env env = Some st" and "rl_rps st < 1"
  shows "passed st key calls = 0"
proof -
  have "rl_rps st < 1 \<Longrightarrow> passed st key calls = 0" for st
  proof (induction calls arbitrary: st)
    case (Cons c calls)
    obtain t k where c: "c = (t, k)" by fastforce
    obtain r st1 where a: "try_acquire t k st = (r, st1)" by fastforce
    have "\<not> is_ok r"
      using try_acquire_state(4) [OF a] refilled_le [of st k t] Cons.prems by linarith
    then show ?case
      using Cons try_acquire_state(1) [OF a] by (simp add: c passed_Cons [OF a])
  qed simp
  then show ?thesis using assms(2) by simp
qed

text \<open>The limiter after a sequence of requests.\<close>

fun acquire_end :: "rate_limit_state \<Rightarrow> (rat \<times> string) list \<Rightarrow> rate_limit_state" where
  "acquire_end st [] = st"
| "acquire_end st ((now, key) # calls) = acquire_end (snd (try_acquire now key st)) calls"

lemma acquire_end_rps: "rl_rps (acquire_end st calls) = rl_rps st"
  by (induction st calls rule: acquire_end.induct) (auto simp: try_acquire_state(1) [OF surjective_pairing])

lemma acquire_end_ok: "buckets_ok st \<Longrightarrow> buckets_ok (acquire_end st calls)"
  by (induction st calls rule: acquire_end.induct) (auto intro: try_acquire_ok [OF _ surjective_pairing])

lemma acquire_end_others:
  "\<forall>c \<in> set calls. snd c \<noteq> key \<Longrightarrow> refilled (acquire_end st calls) key later = refilled st key later"
  by (induction st calls rule: acquire_end.induct) (auto simp: try_acquire_state(2) [OF surjective_pairing])

text \<open>At a rate of at least one a second, a refused client is always told to wait one second.\<close>

lemma refused_waits_one:
  assumes "buckets_ok st" and "1 \<le> rl_rps st" and "try_acquire now key st = (Inl w, st1)"
  shows "w = 1"
proof -
  have w: "w = wait_secs (1 - refilled st key now) (rl_rps st)" "refilled st key now < 1"
    using assms(3) by (auto simp: try_acquire_def Let_def split: if_splits)
  have "(1 - refilled st key now) / rl_rps st \<le> 1"
    using refilled_nonneg [OF assms(1), of key now] assms(2) by (simp add: divide_le_eq)
  then have "\<lceil>(1 - refilled st key now) / rl_rps st\<rceil> \<le> 1" by (simp add: ceiling_le_one)
  then show ?thesis by (simp add: w(1) wait_secs_def max_def)
qed

text \<open>
  C27. The promised delay. Whatever was requested before, a client that is told to wait and sends nothing
  while the others go on passes once the seconds are over exactly if the configured rate is at
  least one request a second. At a lower rate, which the environment accepts, it is refused again.
\<close>

theorem retry_after_suffices:
  assumes "rate_limit_from_env env = Some st" and "try_acquire now key (acquire_end st before) = (Inl w, st1)"
    and "\<forall>c \<in> set meanwhile. snd c \<noteq> key" and "now + of_nat w \<le> later"
  shows "is_ok (fst (try_acquire later key (acquire_end st1 meanwhile))) \<longleftrightarrow> 1 \<le> rl_rps st"
proof -
  let ?s = "acquire_end st before"
  have ok: "buckets_ok ?s" using rate_limit_from_env_ok [OF assms(1)] by (simp add: acquire_end_ok)
  have "is_ok (fst (try_acquire later key (acquire_end st1 meanwhile))) \<longleftrightarrow> 1 \<le> refilled st1 key later"
    by (simp add: try_acquire_def Let_def acquire_end_others [OF assms(3)])
  also have "refilled st1 key later = min (refilled ?s key now + max 0 (later - now) * rl_rps st) (rl_rps st)"
    using try_acquire_state(3) [OF assms(2)] by (simp add: acquire_end_rps)
  also have "1 \<le> \<dots> \<longleftrightarrow> 1 \<le> rl_rps st"
  proof
    assume rps: "1 \<le> rl_rps st"
    have "w = 1" using refused_waits_one [OF ok _ assms(2)] rps by (simp add: acquire_end_rps)
    then have "1 * 1 \<le> max 0 (later - now) * rl_rps st" using assms(4) rps by (intro mult_mono) simp_all
    then show "1 \<le> min (refilled ?s key now + max 0 (later - now) * rl_rps st) (rl_rps st)"
      using refilled_nonneg [OF ok, of key now] rps by simp
  qed simp
  finally show ?thesis .
qed

lemma acquire_run_new_keys:
  assumes "1 \<le> rl_rps st" and "distinct (map snd calls)" and "\<forall>c \<in> set calls. map_of (rl_buckets st) (snd c) = None"
  shows "list_all is_ok (acquire_run st calls)"
  using assms
proof (induction calls arbitrary: st)
  case (Cons c calls)
  obtain t k where c: "c = (t, k)" by fastforce
  obtain r st1 where a: "try_acquire t k st = (r, st1)" by fastforce
  have "refilled st k t = rl_rps st" using Cons.prems(3) by (simp add: c refilled_def Let_def)
  then have r: "is_ok r" using try_acquire_state(4) [OF a] Cons.prems(1) by simp
  have "map_of (rl_buckets st1) k' = None" if "k' \<noteq> k" "map_of (rl_buckets st) k' = None" for k'
    using a that by (auto simp: try_acquire_def Let_def update_conv' split: if_splits)
  then have "\<forall>c' \<in> set calls. map_of (rl_buckets st1) (snd c') = None"
    using Cons.prems(2,3) unfolding c by (metis image_eqI list.set_intros(2) distinct.simps(2) list.simps(9) set_map snd_conv)
  then have "list_all is_ok (acquire_run st1 calls)"
    using Cons.IH [of st1] Cons.prems(1,2) try_acquire_state(1) [OF a] by simp
  then show ?case using r by (simp add: c a)
qed simp

lemma client_key_forwarded:
  assumes "trim a = a" and "a \<noteq> []" and "CHR '','' \<notin> set a"
  shows "client_key [''x-forwarded-for'' \<mapsto> a] peer = ''ip:'' @ a"
  using assms by (simp add: client_key_def extract_api_key_def split_on_no_sep)

text \<open>
  The limit binds only clients that keep their address: without an API key, requests that each
  name a new address in \<open>x-forwarded-for\<close> all pass, at any speed.
\<close>

lemma forwarded_addresses_pass:
  assumes "rate_limit_from_env env = Some st" and "1 \<le> rl_rps st" and "distinct (map snd calls)"
    and "\<forall>c \<in> set calls. trim (snd c) = snd c \<and> snd c \<noteq> [] \<and> CHR '','' \<notin> set (snd c)"
  shows "list_all is_ok
    (acquire_run st (map (\<lambda>(t, a). (t, client_key [''x-forwarded-for'' \<mapsto> a] peer)) calls))"
proof (rule acquire_run_new_keys)
  have keys: "map (\<lambda>(t, a). (t, client_key [''x-forwarded-for'' \<mapsto> a] peer)) calls = map (\<lambda>(t, a). (t, ''ip:'' @ a)) calls"
    using assms(4) client_key_forwarded by (auto simp del: append.simps)
  have "map snd (map (\<lambda>(t, a). (t, ''ip:'' @ a)) calls) = map (\<lambda>a. ''ip:'' @ a) (map snd calls)"
    by (simp add: case_prod_beta comp_def)
  then show "distinct (map snd (map (\<lambda>(t, a). (t, client_key [''x-forwarded-for'' \<mapsto> a] peer)) calls))"
    using assms(3) by (simp only: keys) (simp add: distinct_map inj_on_def)
  show "\<forall>c \<in> set (map (\<lambda>(t, a). (t, client_key [''x-forwarded-for'' \<mapsto> a] peer)) calls). map_of (rl_buckets st) (snd c) = None"
    using rate_limit_from_env_ok [OF assms(1)] by simp
qed (rule assms(2))

subsection \<open>An example limiter\<close>

definition sample_limiter :: rate_limit_state where
  "sample_limiter = \<lparr>rl_rps = 2, rl_buckets = []\<rparr>"

lemma sample_limiter_env:
  "rate_limit_from_env [''GRAPHNIGHT_RATE_LIMIT_RPS'' \<mapsto> ''2''] = Some sample_limiter"
  "rate_limit_from_env [''GRAPHNIGHT_RATE_LIMIT_RPS'' \<mapsto> ''.5''] = Some \<lparr>rl_rps = 1 / 2, rl_buckets = []\<rparr>"
proof -
  have "parse_decimal ''2'' = Some 2" "parse_decimal ''.5'' = Some (1 / 2)" by code_simp+
  moreover have "trim ''2'' = ''2''" "trim ''.5'' = ''.5''" "to_lower ''2'' = ''2''" "to_lower ''.5'' = ''.5''"
    by code_simp+
  ultimately show "rate_limit_from_env [''GRAPHNIGHT_RATE_LIMIT_RPS'' \<mapsto> ''2''] = Some sample_limiter"
    "rate_limit_from_env [''GRAPHNIGHT_RATE_LIMIT_RPS'' \<mapsto> ''.5''] = Some \<lparr>rl_rps = 1 / 2, rl_buckets = []\<rparr>"
    by (simp_all add: rate_limit_from_env_def Let_def parse_f64_def split_sign_def f64_of_rat_def sample_limiter_def)
qed

theorem requests_bounded_witness:
  "of_nat (passed sample_limiter ''a'' [(0, ''a''), (0, ''a''), (0, ''a''), (1/2, ''a'')]) \<le> (3 :: rat)"
  using requests_bounded [OF sample_limiter_env(1), of 0 "''a''" "[(0, ''a''), (0, ''a''), (1/2, ''a'')]" "''a''"]
  by (simp add: sample_limiter_def)

lemma fractional_rate_blocks_witness:
  "passed \<lparr>rl_rps = 1 / 2, rl_buckets = []\<rparr> ''a'' [(0, ''a''), (100, ''a'')] = 0"
  by (rule fractional_rate_blocks [OF sample_limiter_env(2)]) simp

lemma sample_rejected:
  "try_acquire 0 ''a'' (acquire_end sample_limiter [(0, ''a''), (0, ''a'')]) =
     (Inl 1, \<lparr>rl_rps = 2, rl_buckets = [(''a'', \<lparr>bk_tokens = 0, bk_last_refill = 0\<rparr>)]\<rparr>)"
proof -
  have "\<lceil>1 / 2 :: rat\<rceil> = 1" by (rule ceiling_unique) simp_all
  then show ?thesis by (simp add: try_acquire_def refilled_def sample_limiter_def wait_secs_def unwrap_or_def)
qed

theorem retry_after_suffices_witness:
  "is_ok (fst (try_acquire 1 ''a'' (acquire_end \<lparr>rl_rps = 2, rl_buckets = [(''a'', \<lparr>bk_tokens = 0, bk_last_refill = 0\<rparr>)]\<rparr>
     [(1 / 2, ''b'')])))"
  by (subst retry_after_suffices [OF sample_limiter_env(1) sample_rejected]) (simp_all add: sample_limiter_def)

lemma forwarded_addresses_pass_witness:
  "list_all is_ok (acquire_run sample_limiter
     (map (\<lambda>(t, a). (t, client_key [''x-forwarded-for'' \<mapsto> a] None)) [(0, ''x''), (0, ''y''), (0, ''z'')]))"
proof -
  have "trim ''x'' = ''x''" "trim ''y'' = ''y''" "trim ''z'' = ''z''" by code_simp+
  then show ?thesis
    by (intro forwarded_addresses_pass [OF sample_limiter_env(1)]) (simp_all add: sample_limiter_def)
qed

end
