(* ===== verification/Llm.thy ===== *)
theory Llm
  imports Json_Objects Security
begin

text \<open>
  \<open>crates/graphnight-runtime/src/llm.rs\<close>: messages and replies, the two wire formats (Anthropic
  and OpenAI-compatible), and the request loop with its retries.

  The transport is a parameter: what the \<open>n\<close>-th request of a completion gets. So are the printing
  and parsing of JSON text (\<open>serde_json\<close>). A temperature is the JSON number it is sent as. Token
  counts are unbounded numbers.
\<close>

subsection \<open>Messages and replies\<close>

record tool_call =
  tc_id :: string
  tc_name :: string
  tc_arguments :: json

datatype chat_message =
    SystemMsg string
  | UserMsg string
  | AssistantMsg "string option" "tool_call list"
  | ToolMsg string string "string + string"

definition tool_result :: "tool_call \<Rightarrow> string + string \<Rightarrow> chat_message" where
  "tool_result call content = ToolMsg (tc_id call) (tc_name call) content"

fun is_tool_result :: "chat_message \<Rightarrow> bool" where
  "is_tool_result (ToolMsg _ _ _) = True"
| "is_tool_result _ = False"

record tool_definition =
  tdf_name :: string
  tdf_description :: string
  tdf_input_schema :: json

record usage =
  us_input_tokens :: nat
  us_output_tokens :: nat

definition usage_total :: "usage \<Rightarrow> nat" where
  "usage_total u = us_input_tokens u + us_output_tokens u"

definition usage_merge :: "usage \<Rightarrow> usage \<Rightarrow> usage" where
  "usage_merge u v =
     \<lparr>us_input_tokens = us_input_tokens u + us_input_tokens v,
      us_output_tokens = us_output_tokens u + us_output_tokens v\<rparr>"

datatype llm_stop = EndTurn | MaxTokens | ToolUse | StopSequence | LlmStopError

record llm_response =
  lr_content :: "string option"
  lr_tool_calls :: "tool_call list"
  lr_usage :: usage
  lr_stop_reason :: llm_stop
  lr_model :: string

definition response_text :: "string \<Rightarrow> llm_response" where
  "response_text content =
     \<lparr>lr_content = Some content, lr_tool_calls = [],
      lr_usage = \<lparr>us_input_tokens = 0, us_output_tokens = 0\<rparr>, lr_stop_reason = EndTurn, lr_model = []\<rparr>"

definition is_final :: "llm_response \<Rightarrow> bool" where
  "is_final r \<longleftrightarrow> lr_tool_calls r = [] \<and> lr_stop_reason r = EndTurn"

record completion_request =
  cr_model :: string
  cr_messages :: "chat_message list"
  cr_tools :: "tool_definition list"
  cr_max_tokens :: nat
  cr_temperature :: "json option"
  cr_system :: "string option"

datatype llm_error =
    NotConfigured
  | Provider string
  | LlmTimeout nat
  | RateLimited nat
  | Unauthorized
  | ContextTooLong nat nat
  | MalformedResponse string
  | LlmInvalid string

fun llm_error_text :: "llm_error \<Rightarrow> string" where
  "llm_error_text NotConfigured = ''no LLM provider is configured''"
| "llm_error_text (Provider e) = ''LLM request failed: '' @ e"
| "llm_error_text (LlmTimeout s) = ''LLM request timed out after '' @ nat_str s @ ''s''"
| "llm_error_text (RateLimited s) = ''rate limited; retry after '' @ nat_str s @ ''s''"
| "llm_error_text Unauthorized = ''authentication failed: check the configured API key''"
| "llm_error_text (ContextTooLong requested limit) =
     ''context length exceeded ('' @ nat_str requested @ '' tokens, limit '' @ nat_str limit @ '')''"
| "llm_error_text (MalformedResponse e) = ''LLM response could not be parsed: '' @ e"
| "llm_error_text (LlmInvalid e) = e"

text \<open>The default window of \<open>LlmProvider\<close>, which no provider overrides.\<close>

definition context_window :: nat where
  "context_window = 128000"

subsection \<open>The Anthropic format\<close>

definition text_block :: "string \<Rightarrow> json" where
  "text_block t = json_object [(''type'', JString ''text''), (''text'', JString t)]"

definition tool_use_block :: "tool_call \<Rightarrow> json" where
  "tool_use_block tc =
     json_object [(''type'', JString ''tool_use''), (''id'', JString (tc_id tc)),
       (''name'', JString (tc_name tc)), (''input'', tc_arguments tc)]"

definition assistant_blocks :: "string option \<Rightarrow> tool_call list \<Rightarrow> json list" where
  "assistant_blocks content calls =
     (case content of Some t \<Rightarrow> if t \<noteq> [] then [text_block t] else [] | None \<Rightarrow> [])
     @ map tool_use_block calls"

text \<open>System messages travel out of band.\<close>

fun anthropic_message :: "chat_message \<Rightarrow> json list" where
  "anthropic_message (SystemMsg content) = []"
| "anthropic_message (UserMsg content) =
     [json_object [(''role'', JString ''user''), (''content'', JArray [text_block content])]]"
| "anthropic_message (AssistantMsg content calls) =
     [json_object [(''role'', JString ''assistant''), (''content'', JArray (assistant_blocks content calls))]]"
| "anthropic_message (ToolMsg call_id name content) =
     [json_object [(''role'', JString ''user''),
       (''content'', JArray [json_object
          [(''type'', JString ''tool_result''), (''tool_use_id'', JString call_id),
           (''content'', JString (case content of Inr v \<Rightarrow> v | Inl e \<Rightarrow> e)),
           (''is_error'', JBool (\<not> is_ok content))]])]]"

definition anthropic_body :: "completion_request \<Rightarrow> json" where
  "anthropic_body req =
     (let body = json_object
            [(''model'', JString (cr_model req)), (''max_tokens'', json_nat (cr_max_tokens req)),
             (''messages'', JArray (concat (map anthropic_message (cr_messages req))))];
          body = (case cr_temperature req of Some t \<Rightarrow> json_set ''temperature'' t body | None \<Rightarrow> body);
          body = (case cr_system req of Some s \<Rightarrow> json_set ''system'' (JString s) body | None \<Rightarrow> body)
      in if cr_tools req \<noteq> []
         then json_set ''tools'' (JArray (map (\<lambda>t. json_object
                [(''name'', JString (tdf_name t)), (''description'', JString (tdf_description t)),
                 (''input_schema'', tdf_input_schema t)]) (cr_tools req))) body
         else body)"

definition str_or_empty :: "json \<Rightarrow> string" where
  "str_or_empty j = unwrap_or (as_str j) []"

text \<open>One block of a reply: the text so far and the calls so far.\<close>

definition anthropic_block :: "string \<times> tool_call list \<Rightarrow> json \<Rightarrow> string \<times> tool_call list" where
  "anthropic_block acc block =
     (case acc of (content, calls) \<Rightarrow>
        if as_str (json_index block ''type'') = Some ''text''
        then (case as_str (json_index block ''text'') of
                Some t \<Rightarrow> (content @ t, calls)
              | None \<Rightarrow> (content, calls))
        else if as_str (json_index block ''type'') = Some ''tool_use''
        then (content, calls @ [\<lparr>tc_id = str_or_empty (json_index block ''id''),
                                 tc_name = str_or_empty (json_index block ''name''),
                                 tc_arguments = json_index block ''input''\<rparr>])
        else (content, calls))"

definition anthropic_stop :: "json \<Rightarrow> llm_stop" where
  "anthropic_stop j =
     (let s = as_str j in
      if s = Some ''tool_use'' then ToolUse
      else if s = Some ''max_tokens'' then MaxTokens
      else if s = Some ''stop_sequence'' then StopSequence
      else EndTurn)"

definition u64_or_zero :: "json \<Rightarrow> nat" where
  "u64_or_zero j = unwrap_or (as_u64 j) 0"

definition parse_anthropic_response :: "json \<Rightarrow> llm_error + llm_response" where
  "parse_anthropic_response j =
     (case foldl anthropic_block ([], []) (unwrap_or (as_array (json_index j ''content'')) []) of
        (content, calls) \<Rightarrow>
          Inr \<lparr>lr_content = (if content = [] then None else Some content),
               lr_tool_calls = calls,
               lr_usage =
                 \<lparr>us_input_tokens = u64_or_zero (json_index (json_index j ''usage'') ''input_tokens''),
                  us_output_tokens = u64_or_zero (json_index (json_index j ''usage'') ''output_tokens'')\<rparr>,
               lr_stop_reason = anthropic_stop (json_index j ''stop_reason''),
               lr_model = str_or_empty (json_index j ''model'')\<rparr>)"

subsection \<open>The OpenAI-compatible format\<close>

type_synonym printer = "json \<Rightarrow> string"
type_synonym reader = "string \<Rightarrow> string + json"

definition openai_tool_call :: "printer \<Rightarrow> tool_call \<Rightarrow> json" where
  "openai_tool_call pr tc =
     json_object [(''id'', JString (tc_id tc)), (''type'', JString ''function''),
       (''function'', json_object [(''name'', JString (tc_name tc)),
          (''arguments'', JString (pr (tc_arguments tc)))])]"

definition role_message :: "string \<Rightarrow> string \<Rightarrow> json" where
  "role_message role content = json_object [(''role'', JString role), (''content'', JString content)]"

fun openai_message :: "printer \<Rightarrow> chat_message \<Rightarrow> json" where
  "openai_message pr (SystemMsg content) = role_message ''system'' content"
| "openai_message pr (UserMsg content) = role_message ''user'' content"
| "openai_message pr (AssistantMsg content calls) =
     (let entry = role_message ''assistant'' (unwrap_or content []) in
      if calls \<noteq> [] then json_set ''tool_calls'' (JArray (map (openai_tool_call pr) calls)) entry else entry)"
| "openai_message pr (ToolMsg call_id name content) =
     json_object [(''role'', JString ''tool''), (''tool_call_id'', JString call_id),
       (''content'', JString (case content of Inr v \<Rightarrow> v | Inl e \<Rightarrow> e))]"

definition openai_body :: "printer \<Rightarrow> bool \<Rightarrow> completion_request \<Rightarrow> json" where
  "openai_body pr supports_tool_choice req =
     (let messages = (case cr_system req of Some s \<Rightarrow> [role_message ''system'' s] | None \<Rightarrow> [])
            @ map (openai_message pr) (cr_messages req);
          body = json_object [(''model'', JString (cr_model req)), (''messages'', JArray messages),
                   (''max_tokens'', json_nat (cr_max_tokens req))];
          body = (case cr_temperature req of Some t \<Rightarrow> json_set ''temperature'' t body | None \<Rightarrow> body)
      in if cr_tools req \<noteq> []
         then let body = json_set ''tools'' (JArray (map (\<lambda>t. json_object
                     [(''type'', JString ''function''),
                      (''function'', json_object [(''name'', JString (tdf_name t)),
                         (''description'', JString (tdf_description t)),
                         (''parameters'', tdf_input_schema t)])]) (cr_tools req))) body
              in if supports_tool_choice then json_set ''tool_choice'' (JString ''auto'') body else body
         else body)"

definition openai_arguments :: "reader \<Rightarrow> json \<Rightarrow> json" where
  "openai_arguments rd j =
     (case as_str j of
        None \<Rightarrow> json_object []
      | Some s \<Rightarrow>
          if s = [] then json_object []
          else (case rd s of Inr v \<Rightarrow> v | Inl _ \<Rightarrow> json_object []))"

definition openai_parse_call :: "reader \<Rightarrow> json \<Rightarrow> tool_call" where
  "openai_parse_call rd tc =
     (let function = json_index tc ''function'' in
      \<lparr>tc_id = str_or_empty (json_index tc ''id''),
       tc_name = str_or_empty (json_index function ''name''),
       tc_arguments = openai_arguments rd (json_index function ''arguments'')\<rparr>)"

definition openai_stop :: "json \<Rightarrow> llm_stop" where
  "openai_stop j =
     (let s = as_str j in
      if s = Some ''tool_calls'' \<or> s = Some ''function_call'' then ToolUse
      else if s = Some ''length'' then MaxTokens
      else EndTurn)"

definition parse_openai_response :: "reader \<Rightarrow> json \<Rightarrow> llm_error + llm_response" where
  "parse_openai_response rd j =
     rbind (ok_or (MalformedResponse ''response has no choices'') (json_first (json_index j ''choices'')))
       (\<lambda>choice.
          let message = json_index choice ''message'' in
          Inr \<lparr>lr_content = as_str (json_index message ''content''),
               lr_tool_calls =
                 map (openai_parse_call rd) (unwrap_or (as_array (json_index message ''tool_calls'')) []),
               lr_usage =
                 \<lparr>us_input_tokens = u64_or_zero (json_index (json_index j ''usage'') ''prompt_tokens''),
                  us_output_tokens = u64_or_zero (json_index (json_index j ''usage'') ''completion_tokens'')\<rparr>,
               lr_stop_reason = openai_stop (json_index choice ''finish_reason''),
               lr_model = str_or_empty (json_index j ''model'')\<rparr>)"

subsection \<open>Requests and retries\<close>

text \<open>What one request got: nothing in time, no connection, or a status and a body.\<close>

datatype http_result = HttpTimeout | HttpError string | HttpReply nat string

definition ellipsis :: string where
  "ellipsis = [CHR 0xE2, CHR 0x80, CHR 0xA6]"

text \<open>The \<open>while\<close> loop of \<open>truncate\<close>: back to a boundary of characters.\<close>

fun boundary_before :: "string \<Rightarrow> nat \<Rightarrow> nat" where
  "boundary_before s 0 = 0"
| "boundary_before s (Suc n) = (if is_char_boundary s (Suc n) then Suc n else boundary_before s n)"

definition truncate :: "string \<Rightarrow> nat \<Rightarrow> string" where
  "truncate s n = (if length s \<le> n then s else take (boundary_before s n) s @ ellipsis)"

definition http_failure :: "nat \<Rightarrow> string \<Rightarrow> llm_error" where
  "http_failure status text = Provider (''HTTP '' @ nat_str status @ '': '' @ truncate text 400)"

text \<open>The pauses (in milliseconds) and the result of a completion, from its \<open>attempt\<close>-th request on.\<close>

function anthropic_complete ::
    "reader \<Rightarrow> nat \<Rightarrow> nat \<Rightarrow> completion_request \<Rightarrow> (nat \<Rightarrow> http_result) \<Rightarrow> nat
      \<Rightarrow> nat list \<times> (llm_error + llm_response)" where
  "anthropic_complete rd max_retries timeout_secs req send attempt =
     (case send attempt of
        HttpTimeout \<Rightarrow> ([], Inl (LlmTimeout timeout_secs))
      | HttpError e \<Rightarrow> ([], Inl (Provider e))
      | HttpReply status text \<Rightarrow>
          if 200 \<le> status \<and> status < 300
          then ([], rbind (map_err MalformedResponse (rd text)) parse_anthropic_response)
          else if status = 401 \<or> status = 403 then ([], Inl Unauthorized)
          else if status = 429 then
            if max_retries \<le> attempt then ([], Inl (RateLimited 0))
            else (case anthropic_complete rd max_retries timeout_secs req send (attempt + 1) of
                    (pauses, result) \<Rightarrow> (500 * (attempt + 1) # pauses, result))
          else if status = 400 \<and> (str_contains ''max_tokens'' text \<or> str_contains ''context'' text)
          then ([], Inl (ContextTooLong (cr_max_tokens req) context_window))
          else if 500 \<le> status \<and> status < 600 \<and> attempt < max_retries
          then (case anthropic_complete rd max_retries timeout_secs req send (attempt + 1) of
                  (pauses, result) \<Rightarrow> (500 * (attempt + 1) # pauses, result))
          else ([], Inl (http_failure status text)))"
  by pat_completeness auto

termination
  by (relation "measure (\<lambda>(rd, max_retries, timeout_secs, req, send, attempt). max_retries - attempt)") auto

declare anthropic_complete.simps [simp del]

function openai_complete ::
    "reader \<Rightarrow> nat \<Rightarrow> nat \<Rightarrow> (nat \<Rightarrow> http_result) \<Rightarrow> nat \<Rightarrow> nat list \<times> (llm_error + llm_response)" where
  "openai_complete rd max_retries timeout_secs send attempt =
     (case send attempt of
        HttpTimeout \<Rightarrow> ([], Inl (LlmTimeout timeout_secs))
      | HttpError e \<Rightarrow> ([], Inl (Provider e))
      | HttpReply status text \<Rightarrow>
          if 200 \<le> status \<and> status < 300
          then ([], rbind (map_err MalformedResponse (rd text)) (parse_openai_response rd))
          else if status = 401 \<or> status = 403 then ([], Inl Unauthorized)
          else if status = 429 then
            if max_retries \<le> attempt then ([], Inl (RateLimited 0))
            else (case openai_complete rd max_retries timeout_secs send (attempt + 1) of
                    (pauses, result) \<Rightarrow> (500 * (attempt + 1) # pauses, result))
          else if 500 \<le> status \<and> status < 600 \<and> attempt < max_retries
          then (case openai_complete rd max_retries timeout_secs send (attempt + 1) of
                  (pauses, result) \<Rightarrow> (500 * (attempt + 1) # pauses, result))
          else ([], Inl (http_failure status text)))"
  by pat_completeness auto

termination
  by (relation "measure (\<lambda>(rd, max_retries, timeout_secs, send, attempt). max_retries - attempt)") auto

declare openai_complete.simps [simp del]

subsection \<open>The wire formats keep tool calls\<close>

lemma anthropic_text_block:
  "anthropic_block (c, calls) (text_block t) = (c @ t, calls)"
  by (simp add: anthropic_block_def text_block_def)

lemma anthropic_use_block:
  "anthropic_block (c, calls) (tool_use_block tc) = (c, calls @ [tc])"
  by (simp add: anthropic_block_def tool_use_block_def str_or_empty_def)

lemma anthropic_use_blocks:
  "foldl anthropic_block (c, calls) (map tool_use_block tcs) = (c, calls @ tcs)"
  by (induction tcs arbitrary: calls) (simp_all add: anthropic_use_block)

text \<open>
  An assistant turn sent back to Anthropic is the turn that came: read as a reply, the message the
  client writes has the same tool calls, identifiers and arguments included, and the same text.
\<close>

lemma anthropic_turn_roundtrip:
  "\<exists>turn r. anthropic_message (AssistantMsg content calls) = [turn] \<and>
     parse_anthropic_response turn = Inr r \<and> lr_tool_calls r = calls \<and>
     lr_content r = (if content = Some [] then None else content)"
  by (cases content)
    (simp_all add: parse_anthropic_response_def assistant_blocks_def anthropic_use_blocks anthropic_text_block)

text \<open>
  So it is for the OpenAI-compatible format, where the arguments travel as JSON text: if the text of
  each call's arguments is read back as it was printed, the calls are the same, in order.
\<close>

lemma openai_turn_roundtrip:
  assumes "\<And>tc. tc \<in> set calls \<Longrightarrow> pr (tc_arguments tc) \<noteq> [] \<and> rd (pr (tc_arguments tc)) = Inr (tc_arguments tc)"
  shows "\<exists>r. parse_openai_response rd (json_object [(''choices'', JArray
      [json_object [(''message'', openai_message pr (AssistantMsg content calls))]])]) = Inr r \<and>
    lr_tool_calls r = calls \<and> lr_content r = Some (unwrap_or content [])"
proof -
  have "map (openai_parse_call rd) (map (openai_tool_call pr) calls) = calls"
    using assms unfolding map_map
    by (intro map_idI) (auto simp: openai_parse_call_def openai_tool_call_def openai_arguments_def str_or_empty_def)
  then show ?thesis
    by (simp add: parse_openai_response_def ok_or_def role_message_def Let_def)
qed

subsection \<open>Retries\<close>

text \<open>A loop that asks again while a reply asks for it and attempts are left.\<close>

locale retry_loop =
  fixes run :: "nat \<Rightarrow> nat list \<times> 'r" and again :: "nat \<Rightarrow> bool" and verdict :: "nat \<Rightarrow> 'r" and limit :: nat
  assumes step: "run n =
    (if again n \<and> n < limit then (case run (n + 1) of (pauses, r) \<Rightarrow> (500 * (n + 1) # pauses, r))
     else ([], verdict n))"
begin

lemma run_from:
  assumes "n \<le> limit"
  shows "\<exists>m. n \<le> m \<and> m \<le> limit \<and> (\<forall>k. n \<le> k \<and> k < m \<longrightarrow> again k) \<and> (m = limit \<or> \<not> again m) \<and>
    run n = (map (\<lambda>k. 500 * (k + 1)) [n..<m], verdict m)"
  using assms
proof (induction "limit - n" arbitrary: n rule: less_induct)
  case less
  show ?case
  proof (cases "again n \<and> n < limit")
    case True
    then have n: "n < limit" by simp
    then obtain m where m: "n + 1 \<le> m" "m \<le> limit" "\<forall>k. n + 1 \<le> k \<and> k < m \<longrightarrow> again k"
        "m = limit \<or> \<not> again m" "run (n + 1) = (map (\<lambda>k. 500 * (k + 1)) [n + 1..<m], verdict m)"
      using less.hyps [of "n + 1"] by (metis Suc_eq_plus1 diff_less_mono2 lessI less_eq_Suc_le)
    have "\<forall>k. n \<le> k \<and> k < m \<longrightarrow> again k"
      using m(3) True by (metis Suc_eq_plus1 le_neq_implies_less less_eq_Suc_le)
    moreover have "run n = (map (\<lambda>k. 500 * (k + 1)) [n..<m], verdict m)"
      using step [of n] True m(1,5) by (simp add: upt_conv_Cons)
    ultimately show ?thesis using m n by (intro exI [of _ m]) auto
  next
    case False
    then show ?thesis using step [of n] less.prems by (intro exI [of _ n]) auto
  qed
qed

lemma run_start:
  "\<exists>m \<le> limit. (\<forall>k < m. again k) \<and> (m = limit \<or> \<not> again m) \<and>
    run 0 = (map (\<lambda>k. 500 * (k + 1)) [0..<m], verdict m)"
  using run_from [of 0] by auto

end

text \<open>Replies that make the clients ask again: too many requests, and failures of the server.\<close>

fun retryable :: "http_result \<Rightarrow> bool" where
  "retryable (HttpReply status text) \<longleftrightarrow> status = 429 \<or> (500 \<le> status \<and> status < 600)"
| "retryable _ \<longleftrightarrow> False"

text \<open>What a completion makes of the last reply it asks for.\<close>

fun anthropic_verdict :: "reader \<Rightarrow> nat \<Rightarrow> completion_request \<Rightarrow> http_result \<Rightarrow> llm_error + llm_response" where
  "anthropic_verdict rd secs req HttpTimeout = Inl (LlmTimeout secs)"
| "anthropic_verdict rd secs req (HttpError e) = Inl (Provider e)"
| "anthropic_verdict rd secs req (HttpReply status text) =
     (if status \<in> {200..<300} then rbind (map_err MalformedResponse (rd text)) parse_anthropic_response
      else if status \<in> {401, 403} then Inl Unauthorized
      else if status = 429 then Inl (RateLimited 0)
      else if status = 400 \<and> (str_contains ''max_tokens'' text \<or> str_contains ''context'' text)
      then Inl (ContextTooLong (cr_max_tokens req) context_window)
      else Inl (http_failure status text))"

fun openai_verdict :: "reader \<Rightarrow> nat \<Rightarrow> http_result \<Rightarrow> llm_error + llm_response" where
  "openai_verdict rd secs HttpTimeout = Inl (LlmTimeout secs)"
| "openai_verdict rd secs (HttpError e) = Inl (Provider e)"
| "openai_verdict rd secs (HttpReply status text) =
     (if status \<in> {200..<300} then rbind (map_err MalformedResponse (rd text)) (parse_openai_response rd)
      else if status \<in> {401, 403} then Inl Unauthorized
      else if status = 429 then Inl (RateLimited 0)
      else Inl (http_failure status text))"

interpretation anthropic_retries: retry_loop "anthropic_complete rd limit secs req send"
    "\<lambda>k. retryable (send k)" "\<lambda>k. anthropic_verdict rd secs req (send k)" limit
  for rd limit secs req send
proof unfold_locales
  show "anthropic_complete rd limit secs req send n =
    (if retryable (send n) \<and> n < limit
     then (case anthropic_complete rd limit secs req send (n + 1) of (pauses, r) \<Rightarrow> (500 * (n + 1) # pauses, r))
     else ([], anthropic_verdict rd secs req (send n)))" for n
    by (subst anthropic_complete.simps) (auto split: http_result.split)
qed

interpretation openai_retries: retry_loop "openai_complete rd limit secs send"
    "\<lambda>k. retryable (send k)" "\<lambda>k. openai_verdict rd secs (send k)" limit
  for rd limit secs send
proof unfold_locales
  show "openai_complete rd limit secs send n =
    (if retryable (send n) \<and> n < limit
     then (case openai_complete rd limit secs send (n + 1) of (pauses, r) \<Rightarrow> (500 * (n + 1) # pauses, r))
     else ([], openai_verdict rd secs (send n)))" for n
    by (subst openai_complete.simps) (auto split: http_result.split)
qed

text \<open>
  C25. A completion of either client asks again only after 429 or a failure of the server, at most as
  often as configured, pauses half a second longer each time, and answers what the last reply says.
\<close>

theorem completion_retries:
  "(\<exists>m \<le> limit. (\<forall>k < m. retryable (send k)) \<and> (m = limit \<or> \<not> retryable (send m)) \<and>
     anthropic_complete rd limit secs req send 0 =
       (map (\<lambda>k. 500 * (k + 1)) [0..<m], anthropic_verdict rd secs req (send m))) \<and>
   (\<exists>m \<le> limit. (\<forall>k < m. retryable (send k)) \<and> (m = limit \<or> \<not> retryable (send m)) \<and>
     openai_complete rd limit secs send 0 =
       (map (\<lambda>k. 500 * (k + 1)) [0..<m], openai_verdict rd secs (send m)))"
  using anthropic_retries.run_start openai_retries.run_start by blast

theorem completion_retries_witness:
  "fst (openai_complete (\<lambda>_. Inl []) 2 30 (\<lambda>k. if k = 0 then HttpReply 429 [] else HttpReply 401 []) 0) = [500]"
proof -
  let ?send = "\<lambda>k :: nat. if k = 0 then HttpReply 429 [] else HttpReply 401 []"
  obtain m where m: "m \<le> 2" "\<forall>k < m. retryable (?send k)" "m = 2 \<or> \<not> retryable (?send m)"
    "openai_complete (\<lambda>_. Inl []) 2 30 ?send 0 = (map (\<lambda>k. 500 * (k + 1)) [0..<m], openai_verdict (\<lambda>_. Inl []) 30 (?send m))"
    using completion_retries [of 2 ?send "\<lambda>_. Inl []" 30 undefined] by blast
  have "m \<noteq> 0" using m(3) by (cases m) simp_all
  moreover have "m \<noteq> 2"
  proof
    assume "m = 2"
    then have "retryable (?send 1)" using m(2) by (metis one_less_numeral_iff semiring_norm(76))
    then show False by simp
  qed
  ultimately have "m = 1" using m(1) by simp
  then show ?thesis using m(4) by simp
qed

subsection \<open>Truncated text\<close>

lemma boundary_before_spec:
  "boundary_before s n \<le> n \<and> is_char_boundary s (boundary_before s n)"
  by (induction n) (auto simp: is_char_boundary_def)

text \<open>The numbers in the error for a context that is too long are the cap on the reply and a
  constant: the error can say that 1 token exceeds 128000.\<close>

lemma context_error_text:
  assumes "send 0 = HttpReply 400 text" and "str_contains ''context'' text"
  shows "anthropic_complete rd limit secs req send 0 = ([], Inl (ContextTooLong (cr_max_tokens req) 128000))"
  using assms by (subst anthropic_complete.simps) (simp add: context_window_def)

lemma malformed_arguments_dropped:
  assumes "rd args = Inl e"
  shows "tc_arguments (openai_parse_call rd (json_object [(''function'', json_object
    [(''name'', JString name), (''arguments'', JString args)])])) = json_object []"
  using assms by (simp add: openai_parse_call_def openai_arguments_def Let_def)

text \<open>A text cut to \<open>n\<close> bytes stays within them, the ellipsis aside, and ends between characters.\<close>

lemma truncate_spec:
  "truncate s n = s \<and> length s \<le> n \<or>
   (\<exists>k \<le> n. n < length s \<and> is_char_boundary s k \<and> truncate s n = take k s @ ellipsis)"
  using boundary_before_spec [of s n] by (auto simp: truncate_def not_le)

lemma openai_turn_roundtrip_witness:
  "\<exists>r. parse_openai_response (\<lambda>_. Inr JNull) (json_object [(''choices'', JArray
      [json_object [(''message'', openai_message (\<lambda>_. ''null'')
         (AssistantMsg None [\<lparr>tc_id = ''c1'', tc_name = ''list_models'', tc_arguments = JNull\<rparr>]))]])]) = Inr r \<and>
    lr_tool_calls r = [\<lparr>tc_id = ''c1'', tc_name = ''list_models'', tc_arguments = JNull\<rparr>] \<and>
    lr_content r = Some (unwrap_or None [])"
  by (rule openai_turn_roundtrip) auto

end
