(* ===== verification/Tool_Error.thy ===== *)
theory Tool_Error
  imports Json_Objects
begin

text \<open>
  The errors tools report (\<open>ToolError\<close> in \<open>crates/graphnight-runtime/src/tools.rs\<close>): a stable code,
  a message, and a hint for the next step. Messages quote text with Rust's \<open>{:?}\<close>, whose
  escapes are modelled for ASCII; bytes beyond ASCII are copied.
\<close>

record tool_error =
  te_code :: string
  te_message :: string
  te_hint :: "string option"

definition tool_error_new :: "string \<Rightarrow> string \<Rightarrow> tool_error" where
  "tool_error_new code message = \<lparr>te_code = code, te_message = message, te_hint = None\<rparr>"

definition with_hint :: "tool_error \<Rightarrow> string \<Rightarrow> tool_error" where
  "with_hint e hint = e\<lparr>te_hint := Some hint\<rparr>"

definition tool_error_json :: "tool_error \<Rightarrow> json" where
  "tool_error_json e =
     json_object ([(''code'', JString (te_code e)), (''message'', JString (te_message e))]
       @ (case te_hint e of Some h \<Rightarrow> [(''hint'', JString h)] | None \<Rightarrow> []))"

text \<open>\<open>Display\<close>.\<close>

definition tool_error_text :: "tool_error \<Rightarrow> string" where
  "tool_error_text e =
     (case te_hint e of
        Some h \<Rightarrow> te_message e @ '' ['' @ te_code e @ ''] ('' @ h @ '')''
      | None \<Rightarrow> te_message e @ '' ['' @ te_code e @ '']'')"

subsection \<open>Quoted text\<close>

definition hex_digit :: "nat \<Rightarrow> char" where
  "hex_digit n = (if n < 10 then char_of (48 + n) else char_of (87 + n))"

definition debug_char :: "char \<Rightarrow> string" where
  "debug_char c =
     (if c = CHR 0x22 then backslash @ dquote
      else if c = CHR 0x5C then backslash @ backslash
      else if c = CHR 0x0A then backslash @ ''n''
      else if c = CHR 0x0D then backslash @ ''r''
      else if c = CHR 0x09 then backslash @ ''t''
      else if c = CHR 0x00 then backslash @ ''0''
      else if byte c < 16 then backslash @ ''u{'' @ [hex_digit (byte c)] @ ''}''
      else if byte c < 32 \<or> byte c = 127
        then backslash @ ''u{'' @ [hex_digit (byte c div 16), hex_digit (byte c mod 16)] @ ''}''
      else [c])"

definition debug_str :: "string \<Rightarrow> string" where
  "debug_str s = dquote @ concat (map debug_char s) @ dquote"

end
