(* ===== verification/Agent.thy ===== *)
theory Agent
  imports Llm Tool_Error Governance
begin

text \<open>
  \<open>crates/graphnight-runtime/src/agent.rs\<close>: the bounded loop that asks a language model, executes
  the tools it calls and feeds the results back.

  What the loop talks to is its environment \<open>agent_env\<close>: the model, the tool catalogue, the clock
  and the printing of JSON. Each is asked with the number of times it was asked before, so it may
  answer differently every time. The clock gives nanoseconds since the start of the run. Token
  counts are unbounded numbers.
\<close>

subsection \<open>Budgets and stop reasons\<close>

record agent_budget =
  ab_max_steps :: nat
  ab_max_tokens :: nat
  ab_max_duration :: nat
  ab_max_output_tokens :: nat
  ab_max_repeat_calls :: nat
  ab_max_consecutive_errors :: nat

definition budget_default :: agent_budget where
  "budget_default =
     \<lparr>ab_max_steps = 12, ab_max_tokens = 200000, ab_max_duration = 120 * 10 ^ 9,
      ab_max_output_tokens = 4096, ab_max_repeat_calls = 2, ab_max_consecutive_errors = 3\<rparr>"

definition budget_interactive :: agent_budget where
  "budget_interactive =
     budget_default\<lparr>ab_max_steps := 8, ab_max_tokens := 100000, ab_max_duration := 60 * 10 ^ 9\<rparr>"

datatype agent_stop =
    Completed
  | MaxSteps
  | TokenBudget
  | AgentTimeout
  | RepeatedCalls
  | ConsecutiveErrors
  | Truncated
  | ProviderError string

definition is_success :: "agent_stop \<Rightarrow> bool" where
  "is_success r \<longleftrightarrow> r = Completed"

fun agent_stop_str :: "agent_stop \<Rightarrow> string" where
  "agent_stop_str Completed = ''completed''"
| "agent_stop_str MaxSteps = ''max_steps''"
| "agent_stop_str TokenBudget = ''token_budget''"
| "agent_stop_str AgentTimeout = ''timeout''"
| "agent_stop_str RepeatedCalls = ''repeated_calls''"
| "agent_stop_str ConsecutiveErrors = ''consecutive_errors''"
| "agent_stop_str Truncated = ''truncated''"
| "agent_stop_str (ProviderError _) = ''provider_error''"

text \<open>Seconds without decimals: to the nearest, ties to even.\<close>

definition secs_text :: "nat \<Rightarrow> string" where
  "secs_text ns =
     (let q = ns div 10 ^ 9; r = ns mod 10 ^ 9 in
      nat_str (if 5 * 10 ^ 8 < r \<or> (r = 5 * 10 ^ 8 \<and> odd q) then q + 1 else q))"

fun notice :: "agent_stop \<Rightarrow> nat \<Rightarrow> nat \<Rightarrow> nat \<Rightarrow> string" where
  "notice Completed steps tokens elapsed = ''Completed.''"
| "notice MaxSteps steps tokens elapsed =
     ''Stopped after '' @ nat_str steps @ '' steps without a final answer.''"
| "notice TokenBudget steps tokens elapsed = ''Stopped after using '' @ nat_str tokens @ '' tokens.''"
| "notice AgentTimeout steps tokens elapsed = ''Stopped after '' @ secs_text elapsed @ ''s.''"
| "notice RepeatedCalls steps tokens elapsed = ''Stopped because the agent repeated the same call.''"
| "notice ConsecutiveErrors steps tokens elapsed = ''Stopped after repeated tool failures.''"
| "notice Truncated steps tokens elapsed = ''The response was cut off before it finished.''"
| "notice (ProviderError e) steps tokens elapsed = ''Model call failed: '' @ e"

record step_record =
  sr_step :: nat
  sr_tool :: string
  sr_arguments :: json
  sr_result :: "tool_error + json"
  sr_duration_ms :: nat

definition step_record_json :: "step_record \<Rightarrow> json" where
  "step_record_json s =
     json_object [(''step'', json_nat (sr_step s)), (''tool'', JString (sr_tool s)),
       (''arguments'', sr_arguments s), (''ok'', JBool (is_ok (sr_result s))),
       (''result'', case sr_result s of Inr v \<Rightarrow> v | Inl e \<Rightarrow> tool_error_json e),
       (''duration_ms'', json_nat (sr_duration_ms s))]"

record agent_run =
  ar_answer :: "string option"
  ar_stop_reason :: agent_stop
  ar_steps :: "step_record list"
  ar_usage :: usage
  ar_elapsed :: nat
  ar_tools_used :: "string list"

definition agent_run_json :: "agent_run \<Rightarrow> json" where
  "agent_run_json r =
     json_object [(''answer'', json_opt (ar_answer r)),
       (''stop_reason'', JString (agent_stop_str (ar_stop_reason r))),
       (''completed'', JBool (is_success (ar_stop_reason r))),
       (''usage'', json_object
          [(''input_tokens'', json_nat (us_input_tokens (ar_usage r))),
           (''output_tokens'', json_nat (us_output_tokens (ar_usage r))),
           (''total'', json_nat (usage_total (ar_usage r)))]),
       (''elapsed_ms'', json_nat (ar_elapsed r div 10 ^ 6)),
       (''tools_used'', JArray (map JString (ar_tools_used r))),
       (''steps'', JArray (map step_record_json (ar_steps r)))]"

definition stop_notice :: "agent_run \<Rightarrow> string option" where
  "stop_notice r =
     (if is_success (ar_stop_reason r) then None
      else Some (notice (ar_stop_reason r) (length (ar_steps r)) (usage_total (ar_usage r)) (ar_elapsed r)))"

subsection \<open>The loop\<close>

datatype llm_outcome = CallTimedOut | CallFailed llm_error | Replied llm_response

record agent_env =
  ae_model :: string
  ae_tools :: "tool_definition list"
  ae_system :: string
  ae_complete :: "nat \<Rightarrow> completion_request \<Rightarrow> llm_outcome"
  ae_call :: "nat \<Rightarrow> string \<Rightarrow> json \<Rightarrow> tool_error + json"
  ae_elapsed :: "nat \<Rightarrow> nat"
  ae_json_text :: "json \<Rightarrow> string"

text \<open>The variables of a run, and how often the model, the tools and the clock were asked.\<close>

record agent_state =
  as_messages :: "chat_message list"
  as_usage :: usage
  as_steps :: "step_record list"
  as_tools_used :: "string list"
  as_call_counts :: "(string \<times> nat) list"
  as_consecutive_errors :: nat
  as_completions :: nat
  as_calls :: nat
  as_reads :: nat

definition agent_start :: "string \<Rightarrow> agent_state" where
  "agent_start question =
     \<lparr>as_messages = [UserMsg question], as_usage = \<lparr>us_input_tokens = 0, us_output_tokens = 0\<rparr>,
      as_steps = [], as_tools_used = [], as_call_counts = [], as_consecutive_errors = 0,
      as_completions = 0, as_calls = 0, as_reads = 0\<rparr>"

definition finish :: "agent_env \<Rightarrow> string option \<Rightarrow> agent_stop \<Rightarrow> agent_state \<Rightarrow> agent_run" where
  "finish env answer stop st =
     (let elapsed = ae_elapsed env (as_reads st) in
      \<lparr>ar_answer =
         (case answer of
            Some body \<Rightarrow>
              if is_success stop then Some body
              else Some (body @ (if trim body \<noteq> [] then newline @ newline else [])
                         @ notice stop (length (as_steps st)) (usage_total (as_usage st)) elapsed)
          | None \<Rightarrow> None),
       ar_stop_reason = stop, ar_steps = as_steps st, ar_usage = as_usage st,
       ar_elapsed = elapsed, ar_tools_used = as_tools_used st\<rparr>)"

definition agent_request :: "agent_env \<Rightarrow> agent_budget \<Rightarrow> chat_message list \<Rightarrow> completion_request" where
  "agent_request env b messages =
     \<lparr>cr_model = ae_model env, cr_messages = messages, cr_tools = ae_tools env,
      cr_max_tokens = ab_max_output_tokens b, cr_temperature = None, cr_system = Some (ae_system env)\<rparr>"

definition fingerprint :: "agent_env \<Rightarrow> string \<Rightarrow> json \<Rightarrow> string" where
  "fingerprint env name args = name @ '':'' @ ae_json_text env args"

definition use_tool :: "string \<Rightarrow> string list \<Rightarrow> string list" where
  "use_tool name used = (if name \<notin> set used then used @ [name] else used)"

definition push_step :: "nat \<Rightarrow> tool_call \<Rightarrow> tool_error + json \<Rightarrow> nat \<Rightarrow> agent_state \<Rightarrow> agent_state" where
  "push_step step call result duration st =
     st\<lparr>as_steps := as_steps st @
          [\<lparr>sr_step = step, sr_tool = tc_name call, sr_arguments = tc_arguments call, sr_result = result,
           sr_duration_ms = duration\<rparr>],
        as_tools_used := use_tool (tc_name call) (as_tools_used st)\<rparr>"

text \<open>The tool calls of one reply: the reason to stop, if there is one, and the state.\<close>

fun run_calls ::
    "agent_env \<Rightarrow> agent_budget \<Rightarrow> nat \<Rightarrow> tool_call list \<Rightarrow> agent_state \<Rightarrow> agent_stop option \<times> agent_state" where
  "run_calls env b step [] st = (None, st)"
| "run_calls env b step (call # calls) st =
     (let elapsed = ae_elapsed env (as_reads st); st = st\<lparr>as_reads := as_reads st + 1\<rparr> in
      if ab_max_duration b \<le> elapsed then (Some AgentTimeout, st)
      else
        let fp = fingerprint env (tc_name call) (tc_arguments call);
            seen = unwrap_or (map_of (as_call_counts st) fp) 0 + 1;
            st = st\<lparr>as_call_counts := AList.update fp seen (as_call_counts st)\<rparr>
        in if ab_max_repeat_calls b < seen then (Some RepeatedCalls, st)
           else
             let result = ae_call env (as_calls st) (tc_name call) (tc_arguments call);
                 duration = (ae_elapsed env (as_reads st + 1) - ae_elapsed env (as_reads st)) div 10 ^ 6;
                 errors = (if is_ok result then 0 else as_consecutive_errors st + 1);
                 st = st\<lparr>as_calls := as_calls st + 1, as_reads := as_reads st + 2, as_consecutive_errors := errors\<rparr>
             in if ab_max_consecutive_errors b < errors
                then (Some ConsecutiveErrors, push_step step call result duration st)
                else
                  let content = (case result of
                                   Inr v \<Rightarrow> Inr (ae_json_text env v)
                                 | Inl e \<Rightarrow> Inl (ae_json_text env (tool_error_json e)));
                      st = st\<lparr>as_messages := as_messages st @ [tool_result call content]\<rparr>
                  in run_calls env b step calls (push_step step call result duration st))"

function agent_loop :: "agent_env \<Rightarrow> agent_budget \<Rightarrow> nat \<Rightarrow> agent_state \<Rightarrow> agent_run \<times> agent_state" where
  "agent_loop env b step st =
     (if ab_max_steps b \<le> step then (finish env None MaxSteps st, st)
      else if ab_max_tokens b \<le> usage_total (as_usage st) then (finish env None TokenBudget st, st)
      else
        let elapsed = ae_elapsed env (as_reads st); st1 = st\<lparr>as_reads := as_reads st + 1\<rparr> in
        if ab_max_duration b \<le> elapsed then (finish env None AgentTimeout st1, st1)
        else
          let outcome = ae_complete env (as_completions st1) (agent_request env b (as_messages st1));
              st2 = st1\<lparr>as_reads := as_reads st1 + 1, as_completions := as_completions st1 + 1\<rparr>
          in case outcome of
               CallTimedOut \<Rightarrow> (finish env None AgentTimeout st2, st2)
             | CallFailed (LlmTimeout _) \<Rightarrow> (finish env None AgentTimeout st2, st2)
             | CallFailed e \<Rightarrow> (finish env None (ProviderError (llm_error_text e)) st2, st2)
             | Replied r \<Rightarrow>
                 let st3 = st2\<lparr>as_usage := usage_merge (as_usage st2) (lr_usage r)\<rparr> in
                 if lr_stop_reason r = MaxTokens then (finish env (lr_content r) Truncated st3, st3)
                 else if lr_tool_calls r = [] then (finish env (lr_content r) Completed st3, st3)
                 else
                   let st4 = st3\<lparr>as_messages :=
                               as_messages st3 @ [AssistantMsg (lr_content r) (lr_tool_calls r)]\<rparr>
                   in case run_calls env b step (lr_tool_calls r) st4 of
                        (Some stop, st5) \<Rightarrow> (finish env None stop st5, st5)
                      | (None, st5) \<Rightarrow> agent_loop env b (step + 1) st5)"
  by pat_completeness auto

termination
  by (relation "measure (\<lambda>(env, b, step, st). ab_max_steps b - step)") auto

declare agent_loop.simps [simp del]

definition run_agent :: "agent_env \<Rightarrow> agent_budget \<Rightarrow> string \<Rightarrow> agent_run" where
  "run_agent env b question = fst (agent_loop env b 0 (agent_start question))"

text \<open>\<open>audit_run\<close>: the entries written, each with its error code.\<close>

definition audit_run :: "call_context \<Rightarrow> agent_run \<Rightarrow> (audit_note \<times> string option) list" where
  "audit_run ctx r =
     map (\<lambda>s. (audit_entry_of ctx (sr_tool s) 0 (is_ok (sr_result s)),
               case sr_result s of Inl e \<Rightarrow> Some (te_code e) | Inr _ \<Rightarrow> None)) (ar_steps r)"

subsection \<open>The invariant of a run\<close>

definition executed :: "agent_env \<Rightarrow> string \<Rightarrow> step_record list \<Rightarrow> nat" where
  "executed env fp steps =
     length (filter (\<lambda>s. fingerprint env (sr_tool s) (sr_arguments s) = fp) steps)"

text \<open>No more than \<open>n\<close> steps in a row failed.\<close>

definition failures_within :: "nat \<Rightarrow> step_record list \<Rightarrow> bool" where
  "failures_within n steps \<longleftrightarrow>
     (\<forall>xs ys zs. steps = xs @ ys @ zs \<longrightarrow> list_all (\<lambda>s. \<not> is_ok (sr_result s)) ys \<longrightarrow> length ys \<le> n)"

definition trailing_failures :: "step_record list \<Rightarrow> nat" where
  "trailing_failures steps = length (takeWhile (\<lambda>s. \<not> is_ok (sr_result s)) (rev steps))"

definition first_uses :: "step_record list \<Rightarrow> string list" where
  "first_uses steps = rev (remdups (rev (map sr_tool steps)))"

text \<open>What holds of the record whenever a run stops.\<close>

definition record_ok :: "agent_env \<Rightarrow> agent_budget \<Rightarrow> agent_state \<Rightarrow> bool" where
  "record_ok env b st \<longleftrightarrow>
     (\<forall>fp. executed env fp (as_steps st) \<le> ab_max_repeat_calls b) \<and>
     failures_within (ab_max_consecutive_errors b + 1) (as_steps st) \<and>
     as_tools_used st = first_uses (as_steps st)"

text \<open>What holds while it goes on.\<close>

definition running_ok :: "agent_env \<Rightarrow> agent_budget \<Rightarrow> agent_state \<Rightarrow> bool" where
  "running_ok env b st \<longleftrightarrow>
     record_ok env b st \<and>
     (\<forall>fp. executed env fp (as_steps st) = unwrap_or (map_of (as_call_counts st) fp) 0) \<and>
     failures_within (ab_max_consecutive_errors b) (as_steps st) \<and>
     as_consecutive_errors st = trailing_failures (as_steps st)"

lemma executed_snoc:
  "executed env fp (steps @ [s]) = executed env fp steps + of_bool (fingerprint env (sr_tool s) (sr_arguments s) = fp)"
  by (simp add: executed_def)

lemma first_uses_snoc: "first_uses (steps @ [s]) = use_tool (sr_tool s) (first_uses steps)"
  by (auto simp: first_uses_def use_tool_def)

lemma trailing_failures_snoc:
  "trailing_failures (steps @ [s]) = (if is_ok (sr_result s) then 0 else trailing_failures steps + 1)"
  by (simp add: trailing_failures_def)

lemma failures_within_mono: "failures_within m steps \<Longrightarrow> m \<le> n \<Longrightarrow> failures_within n steps"
  unfolding failures_within_def by (blast intro: le_trans)

lemma failures_within_trailing:
  assumes "failures_within n steps"
  shows "trailing_failures steps \<le> n"
proof -
  let ?P = "\<lambda>s. \<not> is_ok (sr_result s)"
  have "steps = rev (dropWhile ?P (rev steps)) @ rev (takeWhile ?P (rev steps)) @ []"
    by (metis append_Nil2 rev_append rev_rev_ident takeWhile_dropWhile_id)
  moreover have "list_all ?P (rev (takeWhile ?P (rev steps)))"
    by (auto simp: list_all_iff dest: set_takeWhileD)
  ultimately have "length (rev (takeWhile ?P (rev steps))) \<le> n"
    using assms unfolding failures_within_def by blast
  then show ?thesis by (simp add: trailing_failures_def)
qed

lemma trailing_failures_suffix:
  "steps = xs @ ys \<Longrightarrow> list_all (\<lambda>s. \<not> is_ok (sr_result s)) ys \<Longrightarrow> length ys \<le> trailing_failures steps"
  by (simp add: trailing_failures_def takeWhile_append list_all_iff)

lemma failures_within_snoc:
  assumes "failures_within n steps" and "trailing_failures (steps @ [s]) \<le> n"
  shows "failures_within n (steps @ [s])"
  unfolding failures_within_def
proof (intro allI impI)
  fix xs ys zs
  assume eq: "steps @ [s] = xs @ ys @ zs" and fail: "list_all (\<lambda>s. \<not> is_ok (sr_result s)) ys"
  show "length ys \<le> n"
  proof (cases zs rule: rev_exhaust)
    case Nil
    then show ?thesis using trailing_failures_suffix [of "steps @ [s]" xs ys] eq fail assms(2) by simp
  next
    case (snoc zs' z)
    then have "steps = xs @ ys @ zs'" using eq by simp
    then show ?thesis using assms(1) fail unfolding failures_within_def by blast
  qed
qed

lemma push_step_sel [simp]:
  "as_steps (push_step step call r d st) =
     as_steps st @ [\<lparr>sr_step = step, sr_tool = tc_name call, sr_arguments = tc_arguments call,
       sr_result = r, sr_duration_ms = d\<rparr>]"
  "as_tools_used (push_step step call r d st) = use_tool (tc_name call) (as_tools_used st)"
  "as_call_counts (push_step step call r d st) = as_call_counts st"
  "as_consecutive_errors (push_step step call r d st) = as_consecutive_errors st"
  "as_usage (push_step step call r d st) = as_usage st"
  "as_completions (push_step step call r d st) = as_completions st"
  by (simp_all add: push_step_def)

lemma running_ok_step:
  assumes "running_ok env b st"
    and "seen = unwrap_or (map_of (as_call_counts st) (fingerprint env (tc_name call) (tc_arguments call))) 0 + 1"
    and "seen \<le> ab_max_repeat_calls b"
    and "as_call_counts st' = AList.update (fingerprint env (tc_name call) (tc_arguments call)) seen (as_call_counts st)"
    and "as_consecutive_errors st' = (if is_ok r then 0 else as_consecutive_errors st + 1)"
    and "as_steps st' = as_steps st" and "as_tools_used st' = as_tools_used st"
  shows "record_ok env b (push_step step call r d st')"
    and "as_consecutive_errors st' \<le> ab_max_consecutive_errors b \<Longrightarrow> running_ok env b (push_step step call r d st')"
proof -
  let ?s = "\<lparr>sr_step = step, sr_tool = tc_name call, sr_arguments = tc_arguments call,
       sr_result = r, sr_duration_ms = d\<rparr>"
  note inv = assms(1) [unfolded running_ok_def record_ok_def]
  have counts: "executed env fp (as_steps st @ [?s]) = unwrap_or (map_of (as_call_counts st') fp) 0"
    "executed env fp (as_steps st @ [?s]) \<le> ab_max_repeat_calls b" for fp
    using inv assms(2,3) by (auto simp: executed_snoc assms(4) update_conv')
  have ce: "trailing_failures (as_steps st @ [?s]) = as_consecutive_errors st'"
    using inv assms(5) by (simp add: trailing_failures_snoc)
  have "as_consecutive_errors st \<le> ab_max_consecutive_errors b"
    using inv failures_within_trailing by fastforce
  then have "trailing_failures (as_steps st @ [?s]) \<le> ab_max_consecutive_errors b + 1" using ce assms(5) by simp
  then have weak: "failures_within (ab_max_consecutive_errors b + 1) (as_steps st @ [?s])"
    using inv failures_within_snoc by blast
  show "record_ok env b (push_step step call r d st')"
    using weak counts(2) inv by (simp add: record_ok_def assms(6,7) first_uses_snoc)
  then show "running_ok env b (push_step step call r d st')" if "as_consecutive_errors st' \<le> ab_max_consecutive_errors b"
    using that counts(1) ce inv failures_within_snoc [of "ab_max_consecutive_errors b" "as_steps st" ?s]
    by (simp add: running_ok_def assms(6))
qed

lemma run_calls_ok:
  assumes "running_ok env b st" and "run_calls env b step calls st = (stop, st')"
  shows "record_ok env b st' \<and> (stop = None \<longrightarrow> running_ok env b st') \<and>
    as_completions st' = as_completions st \<and> as_usage st' = as_usage st"
  using assms
proof (induction calls arbitrary: st stop st')
  case Nil
  then show ?case by (simp add: running_ok_def)
next
  case (Cons call calls)
  let ?fp = "fingerprint env (tc_name call) (tc_arguments call)"
  define st1 where "st1 = st\<lparr>as_reads := as_reads st + 1\<rparr>"
  define seen where "seen = unwrap_or (map_of (as_call_counts st1) ?fp) 0 + 1"
  define st2 where "st2 = st1\<lparr>as_call_counts := AList.update ?fp seen (as_call_counts st1)\<rparr>"
  define result where "result = ae_call env (as_calls st2) (tc_name call) (tc_arguments call)"
  define errors where "errors = (if is_ok result then 0 else as_consecutive_errors st2 + 1)"
  define duration where
    "duration = (ae_elapsed env (as_reads st2 + 1) - ae_elapsed env (as_reads st2)) div 10 ^ 6"
  define st3 where
    "st3 = st2\<lparr>as_calls := as_calls st2 + 1, as_reads := as_reads st2 + 2, as_consecutive_errors := errors\<rparr>"
  define st4 where "st4 = st3\<lparr>as_messages := as_messages st3 @ [tool_result call
    (case result of Inr v \<Rightarrow> Inr (ae_json_text env v) | Inl e \<Rightarrow> Inl (ae_json_text env (tool_error_json e)))]\<rparr>"
  note defs = st1_def seen_def st2_def result_def errors_def duration_def st3_def st4_def
  have run: "(if ab_max_duration b \<le> ae_elapsed env (as_reads st) then (Some AgentTimeout, st1)
      else if ab_max_repeat_calls b < seen then (Some RepeatedCalls, st2)
      else if ab_max_consecutive_errors b < errors then (Some ConsecutiveErrors, push_step step call result duration st3)
      else run_calls env b step calls (push_step step call result duration st4)) = (stop, st')"
    using Cons.prems(2) by (simp only: run_calls.simps Let_def defs)
  have kept: "as_completions st4 = as_completions st" "as_usage st4 = as_usage st"
    "as_completions st3 = as_completions st" "as_usage st3 = as_usage st"
    by (simp_all add: st1_def st2_def st3_def st4_def)
  have seen: "seen = unwrap_or (map_of (as_call_counts st) ?fp) 0 + 1" by (simp add: seen_def st1_def)
  have sel3: "as_call_counts st3 = AList.update ?fp seen (as_call_counts st)"
    "as_consecutive_errors st3 = (if is_ok result then 0 else as_consecutive_errors st + 1)"
    "as_steps st3 = as_steps st" "as_tools_used st3 = as_tools_used st"
    by (simp_all add: st3_def errors_def st2_def st1_def)
  have sel4: "as_call_counts st4 = AList.update ?fp seen (as_call_counts st)"
    "as_consecutive_errors st4 = (if is_ok result then 0 else as_consecutive_errors st + 1)"
    "as_steps st4 = as_steps st" "as_tools_used st4 = as_tools_used st"
    by (simp_all add: st4_def sel3)
  have errors: "as_consecutive_errors st4 = errors" by (simp add: st4_def st3_def)
  have rec: "record_ok env b st" using Cons.prems(1) by (simp add: running_ok_def)
  note step3 = running_ok_step [OF Cons.prems(1) seen _ sel3, of step]
  note step4 = running_ok_step [OF Cons.prems(1) seen _ sel4, of step]
  consider (time) "stop = Some AgentTimeout" "st' = st1" | (repeat) "stop = Some RepeatedCalls" "st' = st2"
    | (errors) "\<not> ab_max_repeat_calls b < seen" "stop = Some ConsecutiveErrors" "st' = push_step step call result duration st3"
    | (go) "\<not> ab_max_duration b \<le> ae_elapsed env (as_reads st)" "\<not> ab_max_repeat_calls b < seen"
        "\<not> ab_max_consecutive_errors b < errors"
        "run_calls env b step calls (push_step step call result duration st4) = (stop, st')"
    using run by (metis Pair_inject)
  then show ?case
  proof cases
    case time
    then show ?thesis using rec by (simp add: st1_def record_ok_def)
  next
    case repeat
    then show ?thesis using rec by (simp add: st1_def st2_def record_ok_def)
  next
    case errors
    then show ?thesis using step3(1) kept by simp
  next
    case go
    then have "running_ok env b (push_step step call result duration st4)"
      using step4(2) errors by simp
    from Cons.IH [OF this go(4)] show ?thesis using kept by simp
  qed
qed

lemma run_calls_stop:
  "run_calls env b step calls st = (Some stop, st') \<Longrightarrow> stop \<in> {AgentTimeout, RepeatedCalls, ConsecutiveErrors}"
  by (induction env b step calls st rule: run_calls.induct) (auto simp: Let_def split: if_splits)

lemma finish_sel [simp]:
  "ar_steps (finish env a stop st) = as_steps st" "ar_tools_used (finish env a stop st) = as_tools_used st"
  "ar_usage (finish env a stop st) = as_usage st" "ar_stop_reason (finish env a stop st) = stop"
  by (simp_all add: finish_def Let_def)

text \<open>One round of the loop, by what ends it.\<close>

lemma agent_loop_cases:
  assumes "agent_loop env b step st = (r, st')"
  obtains (bound) stop where "r = finish env None stop st'" "stop \<noteq> Completed" "stop \<noteq> Truncated"
      "as_steps st' = as_steps st" "as_tools_used st' = as_tools_used st" "as_usage st' = as_usage st"
      "as_completions st' = as_completions st \<or> step < ab_max_steps b \<and> as_completions st' = as_completions st + 1"
  | (answer) reply stop where "r = finish env (lr_content reply) stop st'"
      "ae_complete env (as_completions st) (agent_request env b (as_messages st)) = Replied reply"
      "lr_stop_reason reply = MaxTokens \<and> stop = Truncated \<or>
       lr_stop_reason reply \<noteq> MaxTokens \<and> lr_tool_calls reply = [] \<and> stop = Completed"
      "as_steps st' = as_steps st" "as_tools_used st' = as_tools_used st"
      "as_usage st' = usage_merge (as_usage st) (lr_usage reply)"
      "usage_total (as_usage st) < ab_max_tokens b"
      "step < ab_max_steps b" "as_completions st' = as_completions st + 1"
  | (tools) reply st4 stop st5 where
      "ae_complete env (as_completions st) (agent_request env b (as_messages st)) = Replied reply"
      "step < ab_max_steps b" "usage_total (as_usage st) < ab_max_tokens b"
      "as_steps st4 = as_steps st" "as_tools_used st4 = as_tools_used st" "as_call_counts st4 = as_call_counts st"
      "as_consecutive_errors st4 = as_consecutive_errors st" "as_completions st4 = as_completions st + 1"
      "as_usage st4 = usage_merge (as_usage st) (lr_usage reply)"
      "run_calls env b step (lr_tool_calls reply) st4 = (stop, st5)"
      "case stop of Some s \<Rightarrow> r = finish env None s st5 \<and> st' = st5
        | None \<Rightarrow> agent_loop env b (step + 1) st5 = (r, st')"
proof -
  define st1 where "st1 = st\<lparr>as_reads := as_reads st + 1\<rparr>"
  define st2 where "st2 = st1\<lparr>as_reads := as_reads st1 + 1, as_completions := as_completions st1 + 1\<rparr>"
  have sel: "as_completions st1 = as_completions st" "as_messages st1 = as_messages st"
    by (simp_all add: st1_def)
  note loop = assms [unfolded agent_loop.simps [of env b step st] Let_def, folded st1_def, folded st2_def, unfolded sel]
  show thesis
  proof (cases "ab_max_steps b \<le> step \<or> ab_max_tokens b \<le> usage_total (as_usage st) \<or>
      ab_max_duration b \<le> ae_elapsed env (as_reads st)")
    case True
    then show thesis using loop by (intro bound [of "ar_stop_reason r"]) (auto simp: st1_def split: if_splits)
  next
    case False
    then have f: "(ab_max_steps b \<le> step) = False" "(ab_max_tokens b \<le> usage_total (as_usage st)) = False"
      "(ab_max_duration b \<le> ae_elapsed env (as_reads st)) = False" by simp_all
    note go = loop [unfolded f if_False]
    show thesis
    proof (cases "ae_complete env (as_completions st) (agent_request env b (as_messages st))")
      case (Replied reply)
      define st3 where "st3 = st2\<lparr>as_usage := usage_merge (as_usage st2) (lr_usage reply)\<rparr>"
      define st4 where
        "st4 = st3\<lparr>as_messages := as_messages st3 @ [AssistantMsg (lr_content reply) (lr_tool_calls reply)]\<rparr>"
      obtain stop st5 where run: "run_calls env b step (lr_tool_calls reply) st4 = (stop, st5)" by fastforce
      note go3 = go [unfolded Replied llm_outcome.case, folded st3_def, folded st4_def, unfolded run prod.case]
      show thesis
      proof (cases "lr_stop_reason reply = MaxTokens \<or> lr_tool_calls reply = []")
        case True
        then show thesis
          using go3 False Replied
          by (intro answer [of reply "if lr_stop_reason reply = MaxTokens then Truncated else Completed"])
            (auto simp: st3_def st2_def st1_def split: if_splits)
      next
        case calls: False
        show thesis
          by (rule tools [OF Replied _ _ _ _ _ _ _ _ run])
            (use False calls go3 in \<open>auto simp: st4_def st3_def st2_def st1_def split: option.splits\<close>)
      qed
    next
      case CallTimedOut
      then show thesis using go False by (intro bound [of AgentTimeout]) (auto simp: st2_def st1_def)
    next
      case (CallFailed e)
      then show thesis using go False by (intro bound [of "ar_stop_reason r"]) (auto simp: st2_def st1_def split: llm_error.splits)
    qed
  qed
qed

lemma running_ok_cong:
  assumes "as_steps st' = as_steps st" and "as_tools_used st' = as_tools_used st"
    and "as_call_counts st' = as_call_counts st" and "as_consecutive_errors st' = as_consecutive_errors st"
  shows "running_ok env b st' = running_ok env b st"
  unfolding running_ok_def record_ok_def assms ..

lemma agent_loop_record:
  assumes "running_ok env b st" and "as_completions st = step" and "step \<le> ab_max_steps b"
    and "agent_loop env b step st = (r, st')"
  shows "record_ok env b st' \<and> as_completions st' \<le> ab_max_steps b \<and>
    ar_steps r = as_steps st' \<and> ar_tools_used r = as_tools_used st' \<and> ar_usage r = as_usage st'"
  using assms
proof (induction "ab_max_steps b - step" arbitrary: step st rule: less_induct)
  case less
  have rec: "record_ok env b st" using less.prems(1) by (simp add: running_ok_def)
  from less.prems(4) show ?case
  proof (cases rule: agent_loop_cases)
    case (tools reply st4 stop st5)
    have "running_ok env b st4" using less.prems(1) running_ok_cong [OF tools(4-7)] by simp
    note calls = run_calls_ok [OF this tools(10)]
    show ?thesis
    proof (cases stop)
      case None
      then show ?thesis
        using less.hyps [of "step + 1" st5] calls tools(2,8,11) less.prems(2) by simp
    next
      case (Some s)
      then show ?thesis using calls tools(2,8,11) less.prems(2) by simp
    qed
  qed (use rec less.prems(2,3) in \<open>auto simp: record_ok_def\<close>)
qed

lemma running_ok_start: "running_ok env b (agent_start q)"
  by (simp add: running_ok_def record_ok_def agent_start_def executed_def failures_within_def
      trailing_failures_def first_uses_def)

text \<open>
  C10. The bounds of a run, whatever the model, the tools and the clock do: at most \<open>max_steps\<close> replies are
  asked for, no call is executed with the same name and arguments more than \<open>max_repeat_calls\<close> times,
  no more than one failure beyond \<open>max_consecutive_errors\<close> comes in a row, and the tools used are those
  of the steps, each once, in the order of their first use.
\<close>

theorem agent_bounds:
  "(case agent_loop env b 0 (agent_start question) of (r, st) \<Rightarrow>
      as_completions st \<le> ab_max_steps b \<and>
      executed env fp (ar_steps r) \<le> ab_max_repeat_calls b \<and>
      failures_within (ab_max_consecutive_errors b + 1) (ar_steps r) \<and>
      ar_tools_used r = first_uses (ar_steps r))"
proof -
  obtain r st where l: "agent_loop env b 0 (agent_start question) = (r, st)" by fastforce
  have "as_completions (agent_start question) = 0" by (simp add: agent_start_def)
  from agent_loop_record [OF running_ok_start this _ l] show ?thesis by (simp add: l record_ok_def)
qed

lemma agent_loop_tokens:
  assumes "\<And>n req reply. ae_complete env n req = Replied reply \<Longrightarrow> usage_total (lr_usage reply) \<le> u"
    and "usage_total (as_usage st) \<le> ab_max_tokens b + u"
    and "running_ok env b st" and "agent_loop env b step st = (r, st')"
  shows "usage_total (as_usage st') \<le> ab_max_tokens b + u \<and> ar_usage r = as_usage st'"
  using assms(2-4)
proof (induction "ab_max_steps b - step" arbitrary: step st rule: less_induct)
  case less
  from less.prems(3) show ?case
  proof (cases rule: agent_loop_cases)
    case (answer reply stop)
    then show ?thesis using assms(1) [OF answer(2)] by (simp add: usage_total_def usage_merge_def)
  next
    case (tools reply st4 stop st5)
    have "running_ok env b st4" using less.prems(2) running_ok_cong [OF tools(4-7)] by simp
    note calls = run_calls_ok [OF this tools(10)]
    have "usage_total (as_usage st5) \<le> ab_max_tokens b + u"
      using calls tools(3,9) assms(1) [OF tools(1)] by (simp add: usage_total_def usage_merge_def)
    then show ?thesis
      using less.hyps [of "step + 1" st5] calls tools(2,11) by (cases stop) auto
  qed (use less.prems in auto)
qed

text \<open>
  The token bound: if no reply uses more than \<open>u\<close> tokens, a run uses less than its budget and one
  reply more.
\<close>

lemma tokens_bounded:
  assumes "\<And>n req reply. ae_complete env n req = Replied reply \<Longrightarrow> usage_total (lr_usage reply) \<le> u"
  shows "usage_total (ar_usage (run_agent env b question)) \<le> ab_max_tokens b + u"
proof -
  obtain r st' where l: "agent_loop env b 0 (agent_start question) = (r, st')" by fastforce
  have "usage_total (as_usage (agent_start question)) \<le> ab_max_tokens b + u"
    by (simp add: agent_start_def usage_total_def)
  from agent_loop_tokens [OF assms this running_ok_start l] show ?thesis by (simp add: run_agent_def l)
qed

lemma agent_loop_answer:
  assumes "agent_loop env b step st = (r, st')"
  shows "ar_stop_reason r \<noteq> Completed \<and> ar_stop_reason r \<noteq> Truncated \<and> ar_answer r = None \<or>
    (\<exists>n req reply. ae_complete env n req = Replied reply \<and>
       (ar_stop_reason r = Completed \<and> lr_stop_reason reply \<noteq> MaxTokens \<and> lr_tool_calls reply = [] \<and>
          ar_answer r = lr_content reply \<or>
        ar_stop_reason r = Truncated \<and> lr_stop_reason reply = MaxTokens \<and>
          ar_answer r = map_option (\<lambda>body. body @ (if trim body \<noteq> [] then newline @ newline else [])
            @ ''The response was cut off before it finished.'') (lr_content reply)))"
  using assms
proof (induction "ab_max_steps b - step" arbitrary: step st rule: less_induct)
  case less
  from less.prems show ?case
  proof (cases rule: agent_loop_cases)
    case (bound stop)
    then show ?thesis by (simp add: finish_def Let_def)
  next
    case (answer reply stop)
    have "ar_answer r = lr_content reply" if "stop = Completed"
      using that answer(1) by (simp add: finish_def Let_def is_success_def split: option.split)
    moreover have "ar_answer r = map_option (\<lambda>body. body @ (if trim body \<noteq> [] then newline @ newline else [])
        @ ''The response was cut off before it finished.'') (lr_content reply)" if "stop = Truncated"
      using that answer(1) by (simp add: finish_def Let_def is_success_def split: option.split)
    ultimately show ?thesis
      using answer(3) by (intro disjI2 exI [of _ "as_completions st"] exI [of _ "agent_request env b (as_messages st)"] exI [of _ reply])
        (auto simp: answer(2) arg_cong [OF answer(1), of ar_stop_reason])
  next
    case (tools reply st4 stop st5)
    show ?thesis
    proof (cases stop)
      case None
      then show ?thesis using less.hyps [of "step + 1" st5] tools(2,11) by simp
    next
      case (Some s)
      then show ?thesis using run_calls_stop [of env b step _ st4 s st5] tools(10,11)
        by (auto simp: finish_def Let_def)
    qed
  qed
qed

text \<open>
  A run never makes an answer up: it is complete only with the content of a reply that calls no tool
  and was not cut off, a cut-off reply is marked as such in its text, and any other run has no answer.
\<close>

lemma answers_are_honest:
  "ar_stop_reason (run_agent env b question) \<noteq> Completed \<and> ar_stop_reason (run_agent env b question) \<noteq> Truncated \<and>
     ar_answer (run_agent env b question) = None \<or>
   (\<exists>n req reply. ae_complete env n req = Replied reply \<and>
      (ar_stop_reason (run_agent env b question) = Completed \<and> lr_stop_reason reply \<noteq> MaxTokens \<and>
         lr_tool_calls reply = [] \<and> ar_answer (run_agent env b question) = lr_content reply \<or>
       ar_stop_reason (run_agent env b question) = Truncated \<and> lr_stop_reason reply = MaxTokens \<and>
         ar_answer (run_agent env b question) =
           map_option (\<lambda>body. body @ (if trim body \<noteq> [] then newline @ newline else [])
             @ ''The response was cut off before it finished.'') (lr_content reply)))"
proof -
  obtain r st' where l: "agent_loop env b 0 (agent_start question) = (r, st')" by fastforce
  show ?thesis using agent_loop_answer [OF l] unfolding run_agent_def l fst_conv .
qed

text \<open>A reply that the provider marks as failed, without tool calls, completes the run.\<close>

lemma failed_reply_completes:
  assumes "ae_complete env 0 (agent_request env b [UserMsg question]) = Replied reply"
    and "lr_stop_reason reply = LlmStopError" and "lr_tool_calls reply = []"
    and "0 < ab_max_steps b" and "0 < ab_max_tokens b" and "ae_elapsed env 0 < ab_max_duration b"
  shows "ar_stop_reason (run_agent env b question) = Completed"
  using assms by (simp add: run_agent_def agent_loop.simps [of env b 0] agent_start_def usage_total_def Let_def)

lemma tokens_bounded_witness:
  "usage_total (ar_usage (run_agent
     \<lparr>ae_model = [], ae_tools = [], ae_system = [], ae_complete = (\<lambda>n _. Replied \<lparr>lr_content = None, lr_tool_calls = [\<lparr>tc_id = [], tc_name = ''t'', tc_arguments = JNull\<rparr>],
        lr_usage = \<lparr>us_input_tokens = 7, us_output_tokens = 3\<rparr>, lr_stop_reason = ToolUse, lr_model = []\<rparr>),
      ae_call = (\<lambda>_ _ _. Inr JNull), ae_elapsed = (\<lambda>n. n), ae_json_text = (\<lambda>_. [])\<rparr>
     (budget_default\<lparr>ab_max_tokens := 15\<rparr>) ''q'')) \<le> 25"
proof -
  note bound = tokens_bounded [of
    "\<lparr>ae_model = [], ae_tools = [], ae_system = [], ae_complete = (\<lambda>n _. Replied \<lparr>lr_content = None, lr_tool_calls = [\<lparr>tc_id = [], tc_name = ''t'', tc_arguments = JNull\<rparr>],
        lr_usage = \<lparr>us_input_tokens = 7, us_output_tokens = 3\<rparr>, lr_stop_reason = ToolUse, lr_model = []\<rparr>),
      ae_call = (\<lambda>_ _ _. Inr JNull), ae_elapsed = (\<lambda>n. n), ae_json_text = (\<lambda>_. [])\<rparr>" 10
    "budget_default\<lparr>ab_max_tokens := 15\<rparr>" "''q''"]
  then show ?thesis by (auto simp: usage_total_def)
qed

subsection \<open>Conversations\<close>

text \<open>The calls that still wait for their results, or nothing when the messages break the
  protocol: a result answers the first waiting call, and nothing else may come between.\<close>

fun waiting_calls :: "tool_call list \<Rightarrow> chat_message list \<Rightarrow> tool_call list option" where
  "waiting_calls w [] = Some w"
| "waiting_calls w (ToolMsg i name r # ms) =
     (case w of
        [] \<Rightarrow> None
      | tc # rest \<Rightarrow> if i = tc_id tc \<and> name = tc_name tc then waiting_calls rest ms else None)"
| "waiting_calls w (AssistantMsg c calls # ms) = (if w = [] then waiting_calls calls ms else None)"
| "waiting_calls w (UserMsg c # ms) = (if w = [] then waiting_calls [] ms else None)"
| "waiting_calls w (SystemMsg c # ms) = (if w = [] then waiting_calls [] ms else None)"

definition well_paired :: "chat_message list \<Rightarrow> bool" where
  "well_paired ms \<longleftrightarrow> waiting_calls [] ms = Some []"

lemma waiting_calls_append:
  "waiting_calls w (ms @ ms') = Option.bind (waiting_calls w ms) (\<lambda>w'. waiting_calls w' ms')"
  by (induction w ms rule: waiting_calls.induct) (auto split: list.split)

lemma push_step_messages [simp]: "as_messages (push_step step call result d st) = as_messages st"
  by (simp add: push_step_def)

lemma run_calls_answers:
  assumes "waiting_calls [] (as_messages st) = Some calls" and "run_calls env b step calls st = (None, st')"
  shows "well_paired (as_messages st')"
  using assms
proof (induction env b step calls st rule: run_calls.induct)
  case (1 env b step st)
  then show ?case by (simp add: well_paired_def)
next
  case (2 env b step call calls st)
  then show ?case
    by (auto simp: Let_def waiting_calls_append tool_result_def split: if_splits)
qed

lemma run_calls_env:
  "run_calls (env\<lparr>ae_complete := f\<rparr>) b step calls st = run_calls env b step calls st"
  by (induction env b step calls st rule: run_calls.induct) (simp_all add: Let_def fingerprint_def cong: sum.case_cong)

lemma finish_env: "finish (env\<lparr>ae_complete := f\<rparr>) a stop st = finish env a stop st"
  by (simp add: finish_def Let_def)

lemma agent_loop_paired:
  assumes "\<And>n req. well_paired (cr_messages req) \<Longrightarrow> f n req = ae_complete env n req"
    and "well_paired (as_messages st)"
  shows "agent_loop (env\<lparr>ae_complete := f\<rparr>) b step st = agent_loop env b step st"
  using assms(2)
proof (induction "ab_max_steps b - step" arbitrary: step st rule: less_induct)
  case less
  let ?env = "env\<lparr>ae_complete := f\<rparr>"
  have req: "agent_request ?env b ms = agent_request env b ms" for ms by (simp add: agent_request_def)
  have same: "f n (agent_request env b (as_messages st)) = ae_complete env n (agent_request env b (as_messages st))" for n
    using less.prems assms(1) by (simp add: agent_request_def)
  note loops = agent_loop.simps [of ?env b step st] agent_loop.simps [of env b step st]
  show ?case
  proof (cases "ae_complete env (as_completions st) (agent_request env b (as_messages st))")
    case (Replied r)
    define st4 where "st4 = st\<lparr>as_reads := as_reads st + 2, as_completions := as_completions st + 1,
      as_usage := usage_merge (as_usage st) (lr_usage r),
      as_messages := as_messages st @ [AssistantMsg (lr_content r) (lr_tool_calls r)]\<rparr>"
    obtain stop st5 where run: "run_calls env b step (lr_tool_calls r) st4 = (stop, st5)" by fastforce
    have "waiting_calls [] (as_messages st4) = Some (lr_tool_calls r)"
      using less.prems by (simp add: st4_def waiting_calls_append well_paired_def)
    then have rec: "agent_loop ?env b (step + 1) st5 = agent_loop env b (step + 1) st5"
      if "stop = None" "step < ab_max_steps b"
      using that run run_calls_answers less.hyps by simp
    show ?thesis
      using rec run unfolding loops
      by (simp add: Let_def finish_env run_calls_env req same Replied st4_def split: option.split)
  next
    case CallTimedOut
    then show ?thesis unfolding loops by (simp add: Let_def finish_env req same)
  next
    case (CallFailed e)
    then show ?thesis unfolding loops by (simp add: Let_def finish_env req same split: llm_error.split)
  qed
qed

text \<open>
  C24. What the model is sent: at every request, each tool call of each earlier reply is followed by its own
  result, in order and with nothing in between. Whatever the model would say to any other list of
  messages never matters.
\<close>

theorem conversations_answered:
  "run_agent (env\<lparr>ae_complete := (\<lambda>n req. if well_paired (cr_messages req) then ae_complete env n req
     else other n req)\<rparr>) b question = run_agent env b question"
  unfolding run_agent_def
  by (subst agent_loop_paired) (simp_all add: well_paired_def agent_start_def)

end
