(* ===== verification/Suggest.thy ===== *)
theory Suggest
  imports Tool_Error Numbers
begin

text \<open>
  \<open>crates/graphnight-runtime/src/suggest.rs\<close>: the shorthand agents write queries in, the errors that
  name the nearest real field, and the worked examples. The printing of a float in JSON is a
  parameter. A string's characters are its UTF-8 sequences.
\<close>

subsection \<open>Tool queries\<close>

record tool_query =
  tq_name :: "string option"
  tq_measures :: "string list"
  tq_dimensions :: "string list"
  tq_time_dimensions :: "string list"
  tq_filters :: "string list"
  tq_order :: "string list"
  tq_limit :: "nat option"
  tq_offset :: "nat option"
  tq_stage_ref :: "string option"

subsection \<open>Measures and time dimensions\<close>

definition tool_aggregation :: "string \<Rightarrow> aggregation_type option" where
  "tool_aggregation s =
     (if s = ''sum'' then Some Sum
      else if s = ''avg'' \<or> s = ''average'' \<or> s = ''mean'' then Some Avg
      else if s = ''count'' then Some Count
      else if s = ''min'' then Some Min
      else if s = ''max'' then Some Max
      else if s = ''count_distinct'' \<or> s = ''countdistinct'' \<or> s = ''distinct'' then Some CountDistinct
      else None)"

definition parse_measure :: "string \<Rightarrow> tool_error + measure" where
  "parse_measure input =
     (let spec = trim input in
      if spec = [] then
        Inl (with_hint (tool_error_new ''INVALID_MEASURE'' ''measure spec is empty'')
          ''Use '<column>:<aggregation>', e.g. revenue:sum or *:count.'')
      else if spec = ''*'' then
        Inr \<lparr>m_formula = \<lparr>f_expression = ''*'', f_label = Some ''row_count'', f_format = None\<rparr>,
             m_aggregation = Count\<rparr>
      else case rsplit_once (CHR '':'') spec of
        None \<Rightarrow>
          Inl (with_hint (tool_error_new ''INVALID_MEASURE''
                (''measure '' @ debug_str spec @ '' is missing an aggregation''))
              (''Use '<column>:<aggregation>'. Valid aggregations: ''
               @ ''sum, avg, count, min, max, count_distinct.''))
      | Some (expression, aggregation) \<Rightarrow>
          if trim expression = [] then
            Inl (with_hint (tool_error_new ''INVALID_MEASURE'' (''measure '' @ debug_str spec @ '' has no column''))
              ''Use '<column>:<aggregation>', e.g. revenue:sum.'')
          else
            let other = to_lower (trim aggregation) in
            case tool_aggregation other of
              None \<Rightarrow>
                Inl (with_hint (tool_error_new ''UNKNOWN_AGGREGATION'' (''unknown aggregation '' @ debug_str other))
                  (''Valid aggregations: sum, avg, count, min, max, count_distinct. ''
                   @ ''Or use '*' alone to count rows.''))
            | Some a \<Rightarrow>
                Inr \<lparr>m_formula = \<lparr>f_expression = trim expression, f_label = Some (sql_function a),
                       f_format = None\<rparr>, m_aggregation = a\<rparr>)"

definition tool_granularity :: "string \<Rightarrow> time_granularity option" where
  "tool_granularity s =
     (if s = ''second'' \<or> s = ''sec'' then Some Second
      else if s = ''minute'' \<or> s = ''min'' then Some Minute
      else if s = ''hour'' \<or> s = ''hr'' then Some Hour
      else if s = ''day'' then Some Day
      else if s = ''week'' \<or> s = ''wk'' then Some Week
      else if s = ''month'' \<or> s = ''mo'' then Some Month
      else if s = ''quarter'' \<or> s = ''qtr'' then Some Quarter
      else if s = ''year'' \<or> s = ''yr'' then Some Year
      else None)"

definition parse_time_dimension :: "string \<Rightarrow> tool_error + time_dimension" where
  "parse_time_dimension spec =
     (case split_once (CHR ''@'') spec of
        None \<Rightarrow>
          Inl (with_hint (tool_error_new ''INVALID_TIME_DIMENSION''
                (''time dimension '' @ debug_str spec @ '' is missing a granularity''))
              (''Use 'column@granularity', e.g. created_at@month. Valid granularities: ''
               @ ''second, minute, hour, day, week, month, quarter, year.''))
      | Some (dimension, granularity) \<Rightarrow>
          let other = to_lower (trim granularity) in
          case tool_granularity other of
            None \<Rightarrow>
              Inl (with_hint (tool_error_new ''UNKNOWN_GRANULARITY'' (''unknown granularity '' @ debug_str other))
                ''Valid granularities: second, minute, hour, day, week, month, quarter, year.'')
          | Some g \<Rightarrow> Inr \<lparr>td_dimension = trim dimension, td_granularity = g, td_label = None\<rparr>)"

subsection \<open>Filters\<close>

datatype tool_operator = Operator filter_operator | NotLike | UnknownOperator

definition tool_operator_of :: "string \<Rightarrow> tool_operator" where
  "tool_operator_of s =
     (if s = ''eq'' \<or> s = ''='' then Operator Eq
      else if s = ''neq'' \<or> s = ''!='' \<or> s = ''ne'' then Operator Neq
      else if s = ''gt'' \<or> s = ''>'' then Operator Gt
      else if s = ''gte'' \<or> s = ''>='' \<or> s = ''ge'' then Operator Gte
      else if s = ''lt'' \<or> s = ''<'' then Operator Lt
      else if s = ''lte'' \<or> s = ''<='' \<or> s = ''le'' then Operator Lte
      else if s = ''like'' then Operator Like
      else if s = ''ilike'' then Operator ILike
      else if s = ''not_like'' \<or> s = ''nlike'' then NotLike
      else if s = ''in'' then Operator In
      else if s = ''not_in'' \<or> s = ''nin'' then Operator NotIn
      else if s = ''is_null'' \<or> s = ''isnull'' then Operator IsNull
      else if s = ''is_not_null'' \<or> s = ''isnotnull'' then Operator IsNotNull
      else if s = ''between'' then Operator Between
      else if s = ''not_between'' \<or> s = ''notbetween'' then Operator NotBetween
      else UnknownOperator)"

type_synonym float_text = "rat \<Rightarrow> string"

definition parse_scalar :: "float_text \<Rightarrow> string \<Rightarrow> json" where
  "parse_scalar ft input =
     (let s = trim input in
      if s = [] then JString []
      else case parse_i64 s of
        Some i \<Rightarrow> JNumber (int_str i)
      | None \<Rightarrow>
          (case parse_f64 s of
             Some (Finite x) \<Rightarrow> JNumber (ft x)
           | Some _ \<Rightarrow> JNull
           | None \<Rightarrow>
               let l = to_lower s in
               if l = ''true'' then JBool True
               else if l = ''false'' then JBool False
               else if l = ''null'' \<or> l = ''none'' then JNull
               else JString s))"

definition unquoted :: "string \<Rightarrow> string" where
  "unquoted raw = unwrap_or (Option.bind (strip_prefix squote raw) (strip_suffix squote)) raw"

definition coerce_value :: "float_text \<Rightarrow> filter_operator \<Rightarrow> string \<Rightarrow> json" where
  "coerce_value ft op raw_value =
     (let raw = trim raw_value; value = unquoted raw in
      if op = IsNull \<or> op = IsNotNull then JNull
      else if needs_two_values op then
        (case unwrap_or (split_once (CHR '','') value) (value, []) of
           (a, b) \<Rightarrow> JArray [parse_scalar ft a, parse_scalar ft b])
      else if op = In \<or> op = NotIn then
        JArray (filter (\<lambda>v. v \<noteq> JNull) (map (\<lambda>s. parse_scalar ft (trim s)) (split_on (CHR '','') value)))
      else parse_scalar ft value)"

text \<open>\<open>spec.splitn(3, ':')\<close>, a missing part being empty.\<close>

definition filter_parts :: "string \<Rightarrow> string \<times> string \<times> string" where
  "filter_parts spec =
     (case split_once (CHR '':'') spec of
        None \<Rightarrow> (spec, [], [])
      | Some (a, rest) \<Rightarrow>
          (case split_once (CHR '':'') rest of
             None \<Rightarrow> (a, rest, [])
           | Some (b, c) \<Rightarrow> (a, b, c)))"

definition parse_filter :: "float_text \<Rightarrow> string \<Rightarrow> tool_error + filter_cond" where
  "parse_filter ft spec =
     (case filter_parts spec of
        (field_part, operator_part, raw_value) \<Rightarrow>
          let field = trim field_part; operator = trim operator_part in
          if field = [] then
            Inl (with_hint (tool_error_new ''INVALID_FILTER'' (''filter '' @ debug_str spec @ '' has no field''))
              ''Use 'field:operator:value', e.g. status:eq:completed.'')
          else if operator = [] then
            Inl (with_hint (tool_error_new ''INVALID_FILTER'' (''filter '' @ debug_str spec @ '' is missing an operator''))
              (''Use 'field:operator:value'. Valid operators: eq, neq, gt, gte, lt, lte, ''
               @ ''in, not_in, like, ilike, not_like, is_null, is_not_null, between, not_between.''))
          else
            let name = to_lower operator in
            case tool_operator_of name of
              NotLike \<Rightarrow>
                Inl (with_hint (tool_error_new ''UNKNOWN_OPERATOR'' ''not_like is not supported'')
                  (''Use 'ilike' with a leading '%' to express a negated match, ''
                   @ ''e.g. status:ilike:'%draft%' negated via neq.''))
            | UnknownOperator \<Rightarrow>
                Inl (with_hint (tool_error_new ''UNKNOWN_OPERATOR'' (''unknown filter operator '' @ debug_str name))
                  (''Valid operators: eq, neq, gt, gte, lt, lte, in, not_in, like, ilike, ''
                   @ ''is_null, is_not_null, between, not_between.''))
            | Operator op \<Rightarrow>
                if needs_value op \<and> raw_value = [] then
                  Inl (with_hint (tool_error_new ''INVALID_FILTER'' (''filter '' @ debug_str spec @ '' needs a value''))
                    (name @ '' requires a value, e.g. '' @ field @ '':'' @ name @ '':some_value''))
                else Inr \<lparr>fl_field = field, fl_operator = op, fl_value = coerce_value ft op raw_value, fl_or = False\<rparr>)"

subsection \<open>Queries\<close>

definition parse_dimension :: "string \<Rightarrow> tool_error + dimension" where
  "parse_dimension d =
     (let name = trim d in
      if name = [] then Inl (tool_error_new ''INVALID_DIMENSION'' ''dimension name is empty'')
      else Inr \<lparr>d_name = name, d_label = None\<rparr>)"

definition parse_order :: "string \<Rightarrow> tool_error + order_by" where
  "parse_order input =
     (let o' = trim input;
          invalid = Inl (with_hint (tool_error_new ''INVALID_ORDER'' (''order '' @ debug_str o' @ '' needs a direction''))
                      ''Use 'field:asc' or 'field:desc'.'');
          finish = (\<lambda>field descending.
            if trim field = [] then Inl (tool_error_new ''INVALID_ORDER'' (''order '' @ debug_str o' @ '' has no field''))
            else Inr \<lparr>ob_field = trim field, ob_descending = descending\<rparr>)
      in case rsplit_once (CHR '':'') o' of
           Some (f, d) \<Rightarrow>
             if eq_ignore_case d ''desc'' then finish f True
             else if eq_ignore_case d ''asc'' then finish f False
             else invalid
         | None \<Rightarrow> invalid)"

definition nonblank :: "string option \<Rightarrow> string option" where
  "nonblank s = (case s of Some n \<Rightarrow> if trim n \<noteq> [] then Some n else None | None \<Rightarrow> None)"

definition to_core_query :: "float_text \<Rightarrow> tool_query \<Rightarrow> tool_error + query" where
  "to_core_query ft input =
     rbind (rmap parse_measure (tq_measures input)) (\<lambda>measures.
     rbind (rmap parse_dimension (tq_dimensions input)) (\<lambda>dimensions.
     rbind (rmap parse_time_dimension (tq_time_dimensions input)) (\<lambda>time_dimensions.
     rbind (rmap (parse_filter ft) (tq_filters input)) (\<lambda>filters.
     rbind (rmap parse_order (tq_order input)) (\<lambda>order.
     if measures = [] \<and> dimensions = [] \<and> time_dimensions = [] then
       Inl (with_hint (tool_error_new ''EMPTY_QUERY'' ''query selects nothing'')
         (''Add at least one measure (e.g. '' @ dquote @ ''revenue:sum'' @ dquote @ '') or dimension (e.g. ''
          @ dquote @ ''status'' @ dquote @ '').''))
     else
       rbind (ok_or (with_hint (tool_error_new ''MISSING_MODEL'' ''query does not name a model'')
                (''Set `name` to the model to query, e.g. '' @ dquote @ ''orders'' @ dquote @ ''.''))
              (nonblank (tq_name input)))
         (\<lambda>model.
            Inr \<lparr>q_name = Some model, q_source_model = None, q_measures = measures,
                 q_dimensions = dimensions, q_time_dimensions = time_dimensions, q_filters = filters,
                 q_order = order, q_limit = tq_limit input, q_offset = tq_offset input,
                 q_whole_periods_only = None, q_distinct_dimension_values = None,
                 q_stage_ref = tq_stage_ref input\<rparr>))))))"

subsection \<open>Suggestions\<close>

definition field_names :: "model \<Rightarrow> string list" where
  "field_names m =
     map (f_expression \<circ> m_formula) (mo_measures m) @ map d_name (mo_dimensions m)
     @ map td_dimension (mo_time_dimensions m)"

definition is_continuation :: "char \<Rightarrow> bool" where
  "is_continuation c \<longleftrightarrow> 128 \<le> byte c \<and> byte c < 192"

text \<open>\<open>s.chars()\<close>: the sequences of a string of UTF-8.\<close>

fun chars_of :: "string \<Rightarrow> string list" where
  "chars_of [] = []"
| "chars_of (c # cs) =
     (case chars_of cs of
        [] \<Rightarrow> [[c]]
      | w # ws \<Rightarrow> if is_continuation (hd w) then (c # w) # ws else [c] # w # ws)"

text \<open>The inner loop, over the second string: \<open>prev\<close> from position \<open>j - 1\<close> on, and \<open>curr[j - 1]\<close>.\<close>

fun row_loop :: "'a \<Rightarrow> 'a list \<Rightarrow> nat list \<Rightarrow> nat \<Rightarrow> nat list" where
  "row_loop x (y # ys) (diagonal # up # prev) left =
     (let cost = (if x \<noteq> y then 1 else 0);
          c = min (min (up + 1) (left + 1)) (diagonal + cost)
      in c # row_loop x ys (up # prev) c)"
| "row_loop x _ _ left = []"

text \<open>The outer loop, over the first string: its rest, the position and the row before.\<close>

fun row_sweep :: "'a list \<Rightarrow> 'a list \<Rightarrow> nat \<Rightarrow> nat list \<Rightarrow> nat list" where
  "row_sweep [] ys i prev = prev"
| "row_sweep (x # xs) ys i prev = row_sweep xs ys (i + 1) (i # row_loop x ys prev i)"

definition edit_distance :: "string \<Rightarrow> string \<Rightarrow> nat" where
  "edit_distance s t =
     (let a = chars_of (to_lower s); b = chars_of (to_lower t) in
      if a = [] then length b
      else if b = [] then length a
      else row_sweep a b 1 [0..<length b + 1] ! length b)"

definition near_miss :: "string \<Rightarrow> string \<Rightarrow> bool" where
  "near_miss field k \<longleftrightarrow>
     edit_distance field k \<le> max (max (length field) (length k) div 2) 1 \<or>
     str_contains (to_lower field) (to_lower k) \<or> str_contains (to_lower k) (to_lower field)"

definition closest_matches :: "string \<Rightarrow> string list \<Rightarrow> nat \<Rightarrow> string list" where
  "closest_matches field known limit =
     map snd (take limit (sort (map (\<lambda>k. (edit_distance field k, k)) (filter (near_miss field) known))))"

definition unknown_field_error :: "string \<Rightarrow> string list \<Rightarrow> string \<Rightarrow> tool_error" where
  "unknown_field_error field known role =
     (let suggestions = closest_matches field known 3;
          hint = (if known = [] then ''Call get_model to see this model's fields.''
                  else if suggestions = []
                  then ''Valid '' @ role @ ''s on this model: '' @ str_join '', '' known @ ''.''
                  else ''Did you mean: '' @ str_join '', '' suggestions @ ''?'')
      in with_hint (tool_error_new ''UNKNOWN_FIELD'' (''unknown '' @ role @ '' '' @ debug_str field))
           (hint @ (if known \<noteq> [] then '' All fields: '' @ str_join '', '' known @ ''.'' else [])))"

subsection \<open>Worked examples\<close>

definition example :: "string \<Rightarrow> (string \<times> json) list \<Rightarrow> json" where
  "example description query =
     json_object [(''description'', JString description), (''query'', json_object query)]"

definition first_expression :: "model \<Rightarrow> string" where
  "first_expression m = (case mo_measures m of ms # _ \<Rightarrow> f_expression (m_formula ms) | [] \<Rightarrow> ''*'')"

definition total_spec :: "measure \<Rightarrow> string" where
  "total_spec ms =
     (let agg = to_lower (sql_function (m_aggregation ms));
          agg = (if agg = ''count(distinct '' then ''count_distinct'' else agg);
          column = f_expression (m_formula ms)
      in if column = ''*'' then ''*'' else column @ '':'' @ agg)"

definition example_queries :: "model \<Rightarrow> json list" where
  "example_queries m =
     (case mo_measures m of
        ms # _ \<Rightarrow> [example (''Total '' @ mo_name m @ '' across all rows'')
                    [(''name'', JString (mo_name m)), (''measures'', JArray [JString (total_spec ms)])]]
      | [] \<Rightarrow> [])
     @ (case mo_dimensions m of
          d1 # _ \<Rightarrow> [example (mo_name m @ '' broken down by '' @ d_name d1)
                      [(''name'', JString (mo_name m)), (''measures'', JArray [JString (first_expression m)]),
                       (''dimensions'', JArray [JString (d_name d1)]),
                       (''order'', JArray [JString (d_name d1 @ '':desc'')])]]
        | [] \<Rightarrow> [])
     @ (case mo_time_dimensions m of
          td # _ \<Rightarrow> [example (mo_name m @ '' over time by month'')
                      [(''name'', JString (mo_name m)), (''measures'', JArray [JString (first_expression m)]),
                       (''time_dimensions'', JArray [JString (td_dimension td @ ''@month'')]),
                       (''order'', JArray [JString (td_dimension td @ '':asc'')])]]
        | [] \<Rightarrow> [])
     @ (case mo_dimensions m of
          d1 # _ \<Rightarrow> [example (''Filter '' @ mo_name m @ '' by '' @ d_name d1)
                      [(''name'', JString (mo_name m)), (''measures'', JArray [JString ''*:count'']),
                       (''filters'', JArray [JString (d_name d1 @ '':eq:<value>'')]),
                       (''dimensions'', JArray [JString (d_name d1)])]]
        | [] \<Rightarrow> [])"

subsection \<open>The distance of two strings\<close>

text \<open>One edit: a character added, removed or replaced.\<close>

inductive one_edit :: "'a list \<Rightarrow> 'a list \<Rightarrow> bool" where
  edit_insert: "one_edit (u @ v) (u @ c # v)"
| edit_remove: "one_edit (u @ c # v) (u @ v)"
| edit_replace: "one_edit (u @ c # v) (u @ d # v)"

text \<open>The distance by recursion on the strings.\<close>

fun lev :: "'a list \<Rightarrow> 'a list \<Rightarrow> nat" where
  "lev [] ys = length ys"
| "lev xs [] = length xs"
| "lev (x # xs) (y # ys) =
     min (min (lev xs (y # ys) + 1) (lev (x # xs) ys + 1)) (lev xs ys + (if x \<noteq> y then 1 else 0))"

lemma lev_Nil2 [simp]: "lev xs [] = length xs"
  by (cases xs) auto

lemma lev_grow: "lev (x # xs) ys \<le> lev xs ys + 1" "lev xs (y # ys) \<le> lev xs ys + 1"
  by (cases ys; simp) (cases xs; simp)

lemma lev_shrink: "lev xs ys \<le> lev (x # xs) ys + 1"
proof (induction ys arbitrary: xs)
  case (Cons y ys)
  have "lev xs (y # ys) \<le> lev xs ys + 1" by (rule lev_grow)
  then show ?case using Cons.IH [of xs] by (simp add: min_def)
qed simp

lemma lev_replace: "lev (c # v) ys \<le> lev (d # v) ys + 1"
proof (induction ys)
  case (Cons y ys)
  then show ?case by (simp add: min_def)
qed simp

lemma lev_same_head:
  assumes "\<And>zs. lev p zs \<le> lev q zs + 1"
  shows "lev (x # p) zs \<le> lev (x # q) zs + 1"
proof (induction zs)
  case Nil
  then show ?case using assms [of "[]"] by simp
next
  case (Cons z zs)
  then show ?case using assms [of "z # zs"] assms [of zs] by (simp add: min_def)
qed

lemma lev_same_start:
  assumes "\<And>zs. lev p zs \<le> lev q zs + 1"
  shows "lev (u @ p) zs \<le> lev (u @ q) zs + 1"
proof (induction u arbitrary: zs)
  case (Cons a u)
  then show ?case using lev_same_head [of "u @ p" "u @ q" a zs] by simp
qed (use assms in simp)

lemma lev_one_edit: "one_edit xs ys \<Longrightarrow> lev xs zs \<le> lev ys zs + 1"
  by (induction rule: one_edit.induct) (intro lev_same_start lev_grow lev_shrink lev_replace)+

lemma lev_refl [simp]: "lev xs xs = 0"
  by (induction xs) auto

lemma lev_edits_mono: "(one_edit ^^ n) xs ys \<Longrightarrow> lev xs zs \<le> lev ys zs + n"
proof (induction n arbitrary: xs)
  case (Suc n)
  then obtain ws where "one_edit xs ws" "(one_edit ^^ n) ws ys" by (metis relpowp_Suc_E2)
  then show ?case using Suc.IH lev_one_edit [of xs ws zs] by fastforce
qed simp

lemma lev_edits: "(one_edit ^^ n) xs ys \<Longrightarrow> lev xs ys \<le> n"
  using lev_edits_mono [of n xs ys ys] by simp

lemma one_edit_Cons: "one_edit xs ys \<Longrightarrow> one_edit (x # xs) (x # ys)"
  by (induction rule: one_edit.induct) (metis append_Cons one_edit.intros)+

lemma edits_Cons: "(one_edit ^^ n) xs ys \<Longrightarrow> (one_edit ^^ n) (x # xs) (x # ys)"
  by (induction n arbitrary: ys) (auto intro: one_edit_Cons)

lemma edits_after: "one_edit xs ws \<Longrightarrow> (one_edit ^^ n) ws ys \<Longrightarrow> (one_edit ^^ (n + 1)) xs ys"
  by (simp add: relpowp_commute) (metis relpowp_Suc_I2 relpowp.simps(2))

lemma one_edit_first:
  "one_edit xs (x # xs)" "one_edit (x # xs) xs" "one_edit (x # xs) (y # xs)"
  using edit_insert [of "[]"] edit_remove [of "[]"] edit_replace [of "[]"] by simp_all

lemma edits_lev: "(one_edit ^^ lev xs ys) xs ys"
proof (induction xs ys rule: lev.induct)
  case (1 ys)
  show ?case
    by (induction ys) (auto intro: relcomppI one_edit_first)
next
  case (2 x xs)
  have "(one_edit ^^ length zs) zs []" for zs :: "'a list"
    by (induction zs) (auto intro: one_edit_first edits_after [simplified])
  from this [of "x # xs"] show ?case by (simp del: relpowp.simps)
next
  case (3 x xs y ys)
  note step1 = edits_after [OF one_edit_first(2) 3(1)]
  have step2: "(one_edit ^^ (lev (x # xs) ys + 1)) (x # xs) (y # ys)"
    using 3(2) one_edit_first(1) [of ys y] by (auto simp: relcompp_apply)
  have step3: "(one_edit ^^ (lev xs ys + (if x \<noteq> y then 1 else 0))) (x # xs) (y # ys)"
    using edits_Cons [OF 3(3), of x] one_edit_first(3) [of x ys y] by (auto intro: relcomppI)
  show ?case using step1 step2 step3 by (simp add: min_def)
qed

lemma lev_least: "lev xs ys = (LEAST n. (one_edit ^^ n) xs ys)"
  using edits_lev lev_edits by (metis (mono_tags, lifting) LeastI Least_le antisym)

lemma one_edit_rev: "one_edit xs ys \<Longrightarrow> one_edit (rev xs) (rev ys)"
proof (induction rule: one_edit.induct)
  case (edit_insert u v c)
  then show ?case using one_edit.edit_insert [of "rev v" "rev u" c] by simp
next
  case (edit_remove u c v)
  then show ?case using one_edit.edit_remove [of "rev v" c "rev u"] by simp
next
  case (edit_replace u c v d)
  then show ?case using one_edit.edit_replace [of "rev v" c "rev u" d] by simp
qed

lemma edits_rev: "(one_edit ^^ n) xs ys \<longleftrightarrow> (one_edit ^^ n) (rev xs) (rev ys)"
proof -
  have "(one_edit ^^ n) xs ys \<Longrightarrow> (one_edit ^^ n) (rev xs) (rev ys)" for xs ys :: "'a list"
    by (induction n arbitrary: ys) (auto intro: one_edit_rev)
  from this this [of "rev xs" "rev ys"] show ?thesis by auto
qed

lemma lev_rev: "lev (rev xs) (rev ys) = lev xs ys"
  unfolding lev_least by (subst edits_rev) simp

text \<open>A row of the table holds the distances of the characters read so far to the prefixes.\<close>

definition row_ok :: "'a list \<Rightarrow> 'a list \<Rightarrow> nat list \<Rightarrow> bool" where
  "row_ok xs ys row \<longleftrightarrow> row = map (\<lambda>j. lev (rev xs) (rev (take j ys))) [0..<length ys + 1]"

lemma row_loop_spec:
  assumes "prev = map (\<lambda>j. lev (rev xs) (rev (us @ take j ys))) [0..<length ys + 1]"
    and "left = lev (x # rev xs) (rev us)"
  shows "row_loop x ys prev left = map (\<lambda>j. lev (x # rev xs) (rev (us @ take (j + 1) ys))) [0..<length ys]"
  using assms
proof (induction ys arbitrary: prev left us)
  case Nil
  then show ?case by simp
next
  case (Cons y ys)
  let ?prev = "map (\<lambda>j. lev (rev xs) (rev ((us @ [y]) @ take j ys))) [0..<length ys + 1]"
  have "prev = map (\<lambda>j. lev (rev xs) (rev (us @ take j (y # ys)))) [0..<Suc (length ys + 1)]"
    using Cons.prems(1) by simp
  then have prev: "prev = lev (rev xs) (rev us) # ?prev" unfolding map_upt_Suc by simp
  have hd: "?prev = lev (rev xs) (y # rev us) # tl ?prev" by (simp add: upt_conv_Cons del: upt_Suc)
  let ?c = "lev (x # rev xs) (y # rev us)"
  have "row_loop x (y # ys) prev left = ?c # row_loop x ys ?prev ?c"
    unfolding prev by (subst (1 2) hd) (simp add: Cons.prems(2) Let_def del: upt_Suc flip: hd)
  then show ?case
    using Cons.IH [of ?prev "us @ [y]" ?c] by (simp add: map_upt_Suc del: upt_Suc)
qed

lemma row_sweep_spec:
  assumes "row_ok us ys prev" and "i = length us + 1"
  shows "row_ok (us @ xs) ys (row_sweep xs ys i prev)"
  using assms
proof (induction xs arbitrary: us i prev)
  case (Cons x xs)
  have "row_loop x ys prev i = map (\<lambda>j. lev (x # rev us) (rev (take (j + 1) ys))) [0..<length ys]"
    using row_loop_spec [of prev us "[]" ys i x] Cons.prems by (simp add: row_ok_def)
  then have "row_ok (us @ [x]) ys (i # row_loop x ys prev i)"
    using Cons.prems(2) by (simp add: row_ok_def map_upt_Suc del: upt_Suc)
  then show ?case using Cons.IH [of "us @ [x]" _ "i + 1"] Cons.prems(2) by simp
qed simp

text \<open>
  C18. The distance behind the suggestions is what it is called: for all strings, the two-row loop computes
  the least number of characters to add, remove or replace, letters compared without case.
\<close>

theorem edit_distance_least:
  "edit_distance s t =
     (LEAST n. (one_edit ^^ n) (chars_of (to_lower s)) (chars_of (to_lower t)))"
proof -
  define a b where "a = chars_of (to_lower s)" and "b = chars_of (to_lower t)"
  have start: "row_ok [] b [0..<length b + 1]"
    by (auto simp: row_ok_def intro!: nth_equalityI simp del: upt_Suc)
  have "row_sweep a b 1 [0..<length b + 1] ! length b = lev (rev a) (rev b)"
    using row_sweep_spec [OF start, of 1 a] by (simp add: row_ok_def del: upt_Suc)
  then have "edit_distance s t = lev (rev a) (rev b)"
    unfolding edit_distance_def Let_def by (fold a_def b_def) auto
  then show ?thesis using lev_rev [of a b] lev_least [of a b] by (simp only: a_def b_def)
qed

subsection \<open>Suggestions\<close>

lemma set_closest_matches:
  "set (closest_matches field known n) \<subseteq> {k \<in> set known. near_miss field k}"
  by (auto simp: closest_matches_def dest!: in_set_takeD)

definition rank :: "string \<Rightarrow> string \<Rightarrow> nat \<times> string" where
  "rank field k = (edit_distance field k, k)"

lemma closest_ranks:
  "map (rank field) (closest_matches field known n) =
     take n (sort (map (rank field) (filter (near_miss field) known)))"
proof -
  have "map (rank field) (map snd ps) = ps" if "set ps \<subseteq> range (rank field)" for ps
    using that by (induction ps) (auto simp: rank_def)
  moreover have "(\<lambda>k. (edit_distance field k, k)) = rank field" by (simp add: fun_eq_iff rank_def)
  moreover have "set (take n (sort (map (rank field) ks))) \<subseteq> range (rank field)" for ks
    using set_take_subset [of n "sort (map (rank field) ks)"] by (simp add: image_subset_iff) blast
  ultimately show ?thesis unfolding closest_matches_def by presburger
qed

lemma sorted_take_drop:
  "sorted xs \<Longrightarrow> x \<in> set (take n xs) \<Longrightarrow> y \<in> set (drop n xs) \<Longrightarrow> x \<le> (y :: 'a :: linorder)"
  by (metis append_take_drop_id sorted_append)

text \<open>
  Suggestions are the nearest fields: a field that is near enough but not suggested is no nearer than
  any suggested one, and of two at the same distance the one that sorts first is suggested.
\<close>

lemma closest_first:
  assumes "k \<in> set known" and "near_miss field k" and "k \<notin> set (closest_matches field known n)"
    and "r \<in> set (closest_matches field known n)"
  shows "edit_distance field r < edit_distance field k \<or>
    edit_distance field r = edit_distance field k \<and> r < k"
proof -
  let ?xs = "sort (map (rank field) (filter (near_miss field) known))"
  have r: "rank field r \<in> set (take n ?xs)" using assms(4) by (simp flip: closest_ranks)
  have "rank field k \<notin> set (take n ?xs)" using assms(3) by (auto simp: rank_def simp flip: closest_ranks)
  moreover have "rank field k \<in> set ?xs" using assms(1,2) by simp
  ultimately have "rank field k \<in> set (drop n ?xs)" by (metis Un_iff append_take_drop_id set_append)
  from sorted_take_drop [OF sorted_sort r this] have "rank field r \<le> rank field k" .
  moreover have "r \<noteq> k" using assms(3,4) by auto
  ultimately show ?thesis by (auto simp: rank_def less_eq_prod_def)
qed

subsection \<open>Shorthand\<close>

lemma parse_filter_parts:
  assumes "CHR '':'' \<notin> set f" and "CHR '':'' \<notin> set name" and "trim f \<noteq> []" and "trim name \<noteq> []"
    and "tool_operator_of (to_lower (trim name)) = Operator op" and "v \<noteq> []"
  shows "parse_filter ft (f @ '':'' @ name @ '':'' @ v) =
    Inr \<lparr>fl_field = trim f, fl_operator = op, fl_value = coerce_value ft op v, fl_or = False\<rparr>"
proof -
  have "split_once (CHR '':'') (f @ CHR '':'' # name @ CHR '':'' # v) = Some (f, name @ CHR '':'' # v)"
    "split_once (CHR '':'') (name @ CHR '':'' # v) = Some (name, v)"
    using assms by (simp_all add: split_once_Some)
  then show ?thesis using assms by (simp add: parse_filter_def filter_parts_def Let_def)
qed

lemma eq_name: "trim ''eq'' = ''eq''" "to_lower ''eq'' = ''eq''" "tool_operator_of ''eq'' = Operator Eq"
  by code_simp+

text \<open>
  Values of filters may hold colons: only the first two are structural, the field is kept, and the
  value is what remains, typed.
\<close>

lemma filter_shorthand:
  assumes "CHR '':'' \<notin> set field" and "trim field = field" and "field \<noteq> []" and "v \<noteq> []"
  shows "parse_filter ft (field @ '':eq:'' @ v) =
      Inr \<lparr>fl_field = field, fl_operator = Eq, fl_value = parse_scalar ft (unquoted (trim v)), fl_or = False\<rparr>"
  using parse_filter_parts [of field "''eq''" Eq v ft] assms
  by (simp add: eq_name coerce_value_def needs_two_values_def)

text \<open>What a query read from shorthand is made of.\<close>

text \<open>
  A query accepted from shorthand says what was written: the model is the one named and no other
  source, something is selected, and every measure, dimension, filter and order is the one written at
  its place, no filter being joined with OR.
\<close>

lemma core_query_spec:
  assumes "to_core_query ft input = Inr q"
  shows "q_source_model q = None \<and> q_name q = tq_name input \<and> (\<exists>n. q_name q = Some n \<and> trim n \<noteq> []) \<and>
    (q_measures q \<noteq> [] \<or> q_dimensions q \<noteq> [] \<or> q_time_dimensions q \<noteq> []) \<and>
    list_all2 (\<lambda>s m. parse_measure s = Inr m) (tq_measures input) (q_measures q) \<and>
    list_all2 (\<lambda>s d. d_name d = trim s \<and> trim s \<noteq> []) (tq_dimensions input) (q_dimensions q) \<and>
    list_all2 (\<lambda>s t. parse_time_dimension s = Inr t) (tq_time_dimensions input) (q_time_dimensions q) \<and>
    list_all2 (\<lambda>s f. parse_filter ft s = Inr f \<and> \<not> fl_or f) (tq_filters input) (q_filters q) \<and>
    list_all2 (\<lambda>s o'. parse_order s = Inr o') (tq_order input) (q_order q) \<and>
    q_limit q = tq_limit input \<and> q_offset q = tq_offset input \<and> q_stage_ref q = tq_stage_ref input"
proof -
  have dim: "parse_dimension s = Inr d \<Longrightarrow> d_name d = trim s \<and> trim s \<noteq> []" for s d
    by (auto simp: parse_dimension_def Let_def split: if_splits)
  have fil: "parse_filter ft s = Inr f \<Longrightarrow> \<not> fl_or f" for s f
    by (auto simp: parse_filter_def Let_def split: prod.splits if_splits tool_operator.splits)
  have name: "nonblank x = Some n \<longleftrightarrow> x = Some n \<and> trim n \<noteq> []" for x n
    by (auto simp: nonblank_def split: option.split)
  show ?thesis
    using assms
    by (auto simp: to_core_query_def rmap_Inr name branch_simps dim fil elim!: list_all2_mono split: if_splits)
qed

subsection \<open>Worked examples\<close>

lemma hd_trim: "trim s \<noteq> [] \<Longrightarrow> \<not> is_space (hd (trim s))"
proof -
  assume ne: "trim s \<noteq> []"
  let ?t = "dropWhile is_space s"
  have "trim_end ?t = take (length (trim_end ?t)) ?t"
    by (simp add: trim_end_def) (metis append_eq_conv_conj length_rev rev_append rev_rev_ident takeWhile_dropWhile_id)
  then have "hd (trim s) = hd ?t" using ne by (metis hd_take length_greater_0_conv trim_def trim_start_def)
  moreover have "?t \<noteq> []" using ne by (metis trim_def trim_start_def trim_end_def dropWhile.simps(1) rev.simps(1))
  ultimately show ?thesis using hd_dropWhile by metis
qed

definition custom :: "aggregation_type \<Rightarrow> bool" where
  "custom a \<longleftrightarrow> (case a of Custom _ \<Rightarrow> True | _ \<Rightarrow> False)"

lemma aggregation_names:
  "to_lower ''SUM'' = ''sum''" "to_lower ''AVG'' = ''avg''" "to_lower ''COUNT'' = ''count''"
  "to_lower ''MIN'' = ''min''" "to_lower ''MAX'' = ''max''" "to_lower ''COUNT(DISTINCT '' = ''count(distinct ''"
  "trim ''sum'' = ''sum''" "trim ''avg'' = ''avg''" "trim ''count'' = ''count''"
  "trim ''min'' = ''min''" "trim ''max'' = ''max''" "trim ''count_distinct'' = ''count_distinct''"
  "tool_aggregation (to_lower ''sum'') = Some Sum" "tool_aggregation (to_lower ''avg'') = Some Avg"
  "tool_aggregation (to_lower ''count'') = Some Count" "tool_aggregation (to_lower ''min'') = Some Min"
  "tool_aggregation (to_lower ''max'') = Some Max"
  "tool_aggregation (to_lower ''count_distinct'') = Some CountDistinct"
  "is_space (CHR ''m'') = False" "is_space (CHR ''g'') = False" "is_space (CHR ''t'') = False"
  "is_space (CHR ''n'') = False" "is_space (CHR ''x'') = False"
  by code_simp+

lemma aggregation_spec_names:
  assumes "\<not> custom (m_aggregation ms)" and "f_expression (m_formula ms) \<noteq> ''*''"
  shows "\<exists>name. total_spec ms = f_expression (m_formula ms) @ '':'' @ name \<and>
    CHR '':'' \<notin> set name \<and> name \<noteq> [] \<and> \<not> is_space (last name) \<and>
    tool_aggregation (to_lower (trim name)) = Some (m_aggregation ms)"
proof (cases "m_aggregation ms")
  case (Custom c)
  then show ?thesis using assms(1) by (simp add: custom_def)
qed (use assms(2) in \<open>simp_all add: total_spec_def aggregation_names\<close>)

definition example_measure :: "json \<Rightarrow> string option" where
  "example_measure ex = Option.bind (json_first (json_index (json_index ex ''query'') ''measures'')) as_str"

text \<open>
  The worked examples of a model: the first is a query the parser accepts, for the measure it is made
  from, unless that measure's aggregation is custom; the second, which breaks the model down, names
  the measure without an aggregation, and the parser refuses it.
\<close>

lemma example_measures:
  assumes "mo_measures m = ms # rest" and "mo_dimensions m = d # ds"
    and "f_expression (m_formula ms) = e" and "trim e = e" and "e \<noteq> []"
  shows "\<exists>total breakdown.
     example_measure (example_queries m ! 0) = Some total \<and>
     example_measure (example_queries m ! 1) = Some breakdown \<and>
     (\<not> custom (m_aggregation ms) \<longrightarrow>
        (\<exists>ms'. parse_measure total = Inr ms' \<and> f_expression (m_formula ms') = e \<and>
           m_aggregation ms' = (if e = ''*'' then Count else m_aggregation ms))) \<and>
     (CHR '':'' \<notin> set e \<and> e \<noteq> ''*'' \<longrightarrow> \<not> is_ok (parse_measure breakdown))"
proof -
  have total: "example_measure (example_queries m ! 0) = Some (total_spec ms)"
    and breakdown: "example_measure (example_queries m ! 1) = Some e"
    using assms(1-3) by (simp_all add: example_queries_def example_measure_def example_def first_expression_def)
  have "\<exists>ms'. parse_measure (total_spec ms) = Inr ms' \<and> f_expression (m_formula ms') = e \<and>
      m_aggregation ms' = (if e = ''*'' then Count else m_aggregation ms)" if "\<not> custom (m_aggregation ms)"
  proof (cases "e = ''*''")
    case True
    then have "total_spec ms = ''*''" using assms(3) by (simp add: total_spec_def)
    moreover have "trim ''*'' = ''*''" by code_simp
    ultimately show ?thesis using True by (simp add: parse_measure_def)
  next
    case False
    note nc = that
    from False obtain name where name: "total_spec ms = e @ '':'' @ name" "CHR '':'' \<notin> set name" "name \<noteq> []"
        "\<not> is_space (last name)" "tool_aggregation (to_lower (trim name)) = Some (m_aggregation ms)"
      using aggregation_spec_names [OF nc] assms(3) by auto
    have "\<not> is_space (hd e)" using assms(4,5) hd_trim by metis
    then have "trim (total_spec ms) = total_spec ms"
      using name assms(5) by (intro trim_id) auto
    moreover have "rsplit_once (CHR '':'') (total_spec ms) = Some (e, name)"
      using name by (simp add: rsplit_once_Some)
    moreover have "total_spec ms \<noteq> [] \<and> total_spec ms \<noteq> ''*''"
      using name(1) assms(5) by (cases e) auto
    ultimately show ?thesis
      using name(5) False assms(4,5) by (simp add: parse_measure_def)
  qed
  moreover have "\<not> is_ok (parse_measure e)" if "CHR '':'' \<notin> set e \<and> e \<noteq> ''*''"
    using that assms(4,5) by (auto simp: parse_measure_def Let_def rsplit_once_None [THEN iffD2])
  ultimately show ?thesis using total breakdown by blast
qed

lemmas scalar_simps =
  parse_scalar_def unquoted_def trim_defs is_space_def byte_def parse_i64_def split_sign_def all_digits_def
  is_ascii_digit_def nat_of_digits_def int_str_def nat_str.simps parse_f64_def parse_decimal_def
  parse_mantissa_def is_ascii_upper_def split_once_def strip_suffix_def unwrap_or_def

lemma quoted_numbers:
  "parse_scalar ft (unquoted (squote @ ''007'' @ squote)) = JNumber ''7''"
  "parse_scalar ft (unquoted (squote @ ''null'' @ squote)) = JNull"
  "parse_scalar ft (unquoted ''NaN'') = JNull"
proof -
  have "to_lower ''NaN'' = ''nan''" by code_simp
  then show "parse_scalar ft (unquoted ''NaN'') = JNull" by (simp add: scalar_simps)
qed (simp_all add: scalar_simps case_defs digit_char_eqs)

lemma quoted_list:
  "coerce_value ft In (squote @ ''a'' @ squote @ '','' @ squote @ ''b'' @ squote) =
     JArray [JString (''a'' @ squote), JString (squote @ ''b'')]"
  by (simp add: scalar_simps case_defs coerce_value_def needs_two_values_def)

lemma closest_first_witness:
  "edit_distance ''Revenu'' ''revenue'' < edit_distance ''Revenu'' ''revenues'' \<or>
   edit_distance ''Revenu'' ''revenue'' = edit_distance ''Revenu'' ''revenues'' \<and> ''revenue'' < ''revenues''"
proof (rule closest_first [of "''revenues''" "[''status'', ''revenues'', ''revenue'']" "''Revenu''" 1 "''revenue''"])
  show "near_miss ''Revenu'' ''revenues''" by code_simp
  show "''revenues'' \<notin> set (closest_matches ''Revenu'' [''status'', ''revenues'', ''revenue''] 1)" by code_simp
  show "''revenue'' \<in> set (closest_matches ''Revenu'' [''status'', ''revenues'', ''revenue''] 1)" by code_simp
qed simp

lemma filter_shorthand_witness:
  "parse_filter (\<lambda>_. []) (''note'' @ '':eq:'' @ ''a:b'') =
     Inr \<lparr>fl_field = ''note'', fl_operator = Eq, fl_value = parse_scalar (\<lambda>_. []) (unquoted (trim ''a:b'')), fl_or = False\<rparr>"
  by (rule filter_shorthand) (simp_all, code_simp)

definition sample_tool_query :: tool_query where
  "sample_tool_query =
     \<lparr>tq_name = Some ''orders'', tq_measures = [''revenue:sum''], tq_dimensions = ['' status''],
      tq_time_dimensions = [''created_at@month''], tq_filters = [''note:eq:a:b''], tq_order = [''status:desc''],
      tq_limit = Some 5, tq_offset = None, tq_stage_ref = None\<rparr>"

definition sample_core_query :: query where
  "sample_core_query =
     \<lparr>q_name = Some ''orders'', q_source_model = None,
      q_measures = [\<lparr>m_formula = \<lparr>f_expression = ''revenue'', f_label = Some ''SUM'', f_format = None\<rparr>,
                      m_aggregation = Sum\<rparr>],
      q_dimensions = [\<lparr>d_name = ''status'', d_label = None\<rparr>],
      q_time_dimensions = [\<lparr>td_dimension = ''created_at'', td_granularity = Month, td_label = None\<rparr>],
      q_filters = [\<lparr>fl_field = ''note'', fl_operator = Eq, fl_value = JString ''a:b'', fl_or = False\<rparr>],
      q_order = [\<lparr>ob_field = ''status'', ob_descending = True\<rparr>], q_limit = Some 5, q_offset = None,
      q_whole_periods_only = None, q_distinct_dimension_values = None, q_stage_ref = None\<rparr>"

lemma sample_scalar: "parse_scalar ft (unquoted (trim ''a:b'')) = JString ''a:b''"
  by (simp add: scalar_simps case_defs)

lemma sample_filter:
  "parse_filter ft ''note:eq:a:b'' = Inr \<lparr>fl_field = ''note'', fl_operator = Eq, fl_value = JString ''a:b'', fl_or = False\<rparr>"
proof -
  have n: "trim ''note'' = ''note''" by code_simp
  show ?thesis
    using parse_filter_parts [of "''note''" "''eq''" Eq "''a:b''" ft]
    by (simp add: n eq_name coerce_value_def needs_two_values_def sample_scalar)
qed

lemma sample_converts: "to_core_query ft sample_tool_query = Inr sample_core_query"
proof -
  have "parse_measure ''revenue:sum'' = Inr \<lparr>m_formula = \<lparr>f_expression = ''revenue'', f_label = Some ''SUM'', f_format = None\<rparr>,
      m_aggregation = Sum\<rparr>"
    "parse_dimension '' status'' = Inr \<lparr>d_name = ''status'', d_label = None\<rparr>"
    "parse_time_dimension ''created_at@month'' = Inr \<lparr>td_dimension = ''created_at'', td_granularity = Month, td_label = None\<rparr>"
    "parse_order ''status:desc'' = Inr \<lparr>ob_field = ''status'', ob_descending = True\<rparr>"
    "nonblank (Some ''orders'') = Some ''orders''"
    by code_simp+
  then show ?thesis
    by (simp add: to_core_query_def sample_tool_query_def sample_core_query_def sample_filter ok_or_def)
qed

lemma core_query_spec_witness:
  "q_source_model sample_core_query = None \<and> q_name sample_core_query = Some ''orders'' \<and>
    list_all2 (\<lambda>s m. parse_measure s = Inr m) [''revenue:sum''] (q_measures sample_core_query)"
  using core_query_spec [OF sample_converts] by (simp add: sample_tool_query_def)

definition sample_model :: model where
  "sample_model =
     \<lparr>mo_name = ''orders'', mo_datasource = ''warehouse'', mo_description = None,
      mo_measures = [\<lparr>m_formula = \<lparr>f_expression = ''revenue'', f_label = None, f_format = None\<rparr>, m_aggregation = Sum\<rparr>],
      mo_dimensions = [\<lparr>d_name = ''status'', d_label = None\<rparr>], mo_time_dimensions = [], mo_joins = [],
      mo_sql = None, mo_meta = []\<rparr>"

lemma example_measures_witness:
  "\<exists>total breakdown. example_measure (example_queries sample_model ! 0) = Some total \<and>
     example_measure (example_queries sample_model ! 1) = Some breakdown \<and>
     is_ok (parse_measure total) \<and> \<not> is_ok (parse_measure breakdown)"
proof -
  have t: "trim ''revenue'' = ''revenue''" by code_simp
  have "mo_measures sample_model =
      \<lparr>m_formula = \<lparr>f_expression = ''revenue'', f_label = None, f_format = None\<rparr>, m_aggregation = Sum\<rparr> # []"
    "mo_dimensions sample_model = \<lparr>d_name = ''status'', d_label = None\<rparr> # []"
    by (simp_all add: sample_model_def)
  from example_measures [OF this _ t] show ?thesis by (fastforce simp: custom_def)
qed

end
