(* ===== verification/Memory.thy ===== *)
theory Memory
  imports Governance Storage Json_Objects
begin

text \<open>
  \<open>crates/graphnight-runtime/src/memory.rs\<close>: what agents remember, as a typed view of the stored
  rows; whose memories a caller sees, and in which order.

  Importances and scores are rational numbers (the rounding to \<open>f32\<close> is not modelled); the
  printing of a number in JSON, the age of a time stamp in days, and the fresh identifier and time
  of a new record are parameters.
\<close>

datatype memory_kind = Learning | Fact | Episode | Decision | MemoryError

definition memory_kind_parse :: "string option \<Rightarrow> memory_kind" where
  "memory_kind_parse s =
     (let k = to_lower (unwrap_or s []) in
      if k = ''fact'' then Fact
      else if k = ''episode'' then Episode
      else if k = ''decision'' then Decision
      else if k = ''error'' then MemoryError
      else Learning)"

fun memory_kind_str :: "memory_kind \<Rightarrow> string" where
  "memory_kind_str Learning = ''learning''"
| "memory_kind_str Fact = ''fact''"
| "memory_kind_str Episode = ''episode''"
| "memory_kind_str Decision = ''decision''"
| "memory_kind_str MemoryError = ''error''"

datatype memory_scope = GlobalScope | TenantScope string | UserScope string

fun memory_scope_str :: "memory_scope \<Rightarrow> string" where
  "memory_scope_str GlobalScope = ''global''"
| "memory_scope_str (TenantScope _) = ''tenant''"
| "memory_scope_str (UserScope _) = ''user''"

fun visible_to :: "memory_scope \<Rightarrow> call_context \<Rightarrow> bool" where
  "visible_to GlobalScope ctx = True"
| "visible_to (TenantScope t) ctx = (cc_tenant_id ctx = Some t)"
| "visible_to (UserScope u) ctx = (cc_user_id ctx = Some u)"

record memory_record =
  mr_id :: string
  mr_text :: string
  mr_linked_entities :: "string list"
  mr_kind :: memory_kind
  mr_importance :: rat
  mr_scope :: memory_scope
  mr_description :: "string option"
  mr_created_at :: string
  mr_updated_at :: string

definition meta_kind :: string where "meta_kind = ''gn_kind''"
definition meta_importance :: string where "meta_importance = ''gn_importance''"
definition meta_scope :: string where "meta_scope = ''gn_scope''"
definition meta_scope_id :: string where "meta_scope_id = ''gn_scope_id''"

lemmas meta_defs = meta_kind_def meta_importance_def meta_scope_def meta_scope_id_def

text \<open>\<open>meta.get(key).and_then(|v| v.as_str())\<close>, and \<open>as_f64\<close>: a number of JSON is finite.\<close>

definition meta_str :: "(string \<times> json) list \<Rightarrow> string \<Rightarrow> string option" where
  "meta_str meta key = Option.bind (map_of meta key) as_str"

fun as_f64 :: "json \<Rightarrow> rat option" where
  "as_f64 (JNumber s) = (case parse_f64 s of Some (Finite x) \<Rightarrow> Some x | _ \<Rightarrow> None)"
| "as_f64 _ = None"

definition record_from_storage :: "memory \<Rightarrow> memory_record" where
  "record_from_storage m =
     (let scope_id = unwrap_or (meta_str (me_meta m) meta_scope_id) [];
          tag = meta_str (me_meta m) meta_scope
      in \<lparr>mr_id = me_id m, mr_text = me_learning m, mr_linked_entities = me_linked_entities m,
          mr_kind = memory_kind_parse (meta_str (me_meta m) meta_kind),
          mr_importance = unwrap_or (Option.bind (map_of (me_meta m) meta_importance) as_f64) (1 / 2),
          mr_scope = (if tag = Some ''tenant'' then TenantScope scope_id
                      else if tag = Some ''user'' then UserScope scope_id
                      else GlobalScope),
          mr_description = me_description m, mr_created_at = me_created_at m,
          mr_updated_at = me_updated_at m\<rparr>)"

definition record_to_storage :: "(rat \<Rightarrow> string) \<Rightarrow> memory_record \<Rightarrow> memory" where
  "record_to_storage ft r =
     \<lparr>me_id = mr_id r, me_learning = mr_text r, me_linked_entities = mr_linked_entities r,
      me_description = mr_description r, me_created_at = mr_created_at r, me_updated_at = mr_updated_at r,
      me_meta =
        (let m1 = [(meta_kind, JString (memory_kind_str (mr_kind r)))];
             m2 = AList.update meta_importance (JNumber (ft (mr_importance r))) m1;
             m3 = AList.update meta_scope (JString (memory_scope_str (mr_scope r))) m2
         in case mr_scope r of
              GlobalScope \<Rightarrow> m3
            | TenantScope t \<Rightarrow> AList.update meta_scope_id (JString t) m3
            | UserScope u \<Rightarrow> AList.update meta_scope_id (JString u) m3)\<rparr>"

definition clamp_unit :: "rat \<Rightarrow> rat" where
  "clamp_unit x = (if x < 0 then 0 else if 1 < x then 1 else x)"

definition own_scope :: "call_context \<Rightarrow> memory_scope" where
  "own_scope ctx =
     (case cc_user_id ctx of
        Some u \<Rightarrow> UserScope u
      | None \<Rightarrow> (case cc_tenant_id ctx of Some t \<Rightarrow> TenantScope t | None \<Rightarrow> GlobalScope))"

text \<open>An empty text is refused (\<open>None\<close>, the error being \<open>memory text must not be empty\<close>).\<close>

definition record_from_agent_input ::
    "string \<Rightarrow> string \<Rightarrow> string \<Rightarrow> string list \<Rightarrow> string option \<Rightarrow> rat option \<Rightarrow> string option
      \<Rightarrow> call_context \<Rightarrow> memory_record option" where
  "record_from_agent_input new_id now text entities kind importance description ctx =
     (let t = trim text in
      if t = [] then None
      else Some \<lparr>mr_id = new_id, mr_text = t, mr_linked_entities = filter (\<lambda>e. trim e \<noteq> []) entities,
             mr_kind = memory_kind_parse kind,
             mr_importance = clamp_unit (unwrap_or importance (1 / 2)),
             mr_scope = own_scope ctx, mr_description = description,
             mr_created_at = now, mr_updated_at = now\<rparr>)"

subsection \<open>Ranking\<close>

definition rank_score :: "(string \<Rightarrow> nat) \<Rightarrow> string list \<Rightarrow> memory_record \<Rightarrow> rat" where
  "rank_score age terms r =
     (let haystack = to_lower (mr_text r @ '' '' @ str_join '' '' (mr_linked_entities r));
          hits = length (filter (\<lambda>t. str_contains (to_lower t) haystack) terms)
      in mr_importance r
         + (if terms \<noteq> [] then of_nat hits / of_nat (length terms) * 2 else 0)
         + 1 / (1 + of_nat (age (mr_created_at r))))"

text \<open>\<open>split_whitespace\<close>\<close>

fun split_whitespace :: "string \<Rightarrow> string list" where
  "split_whitespace [] = []"
| "split_whitespace (c # cs) =
     (if is_space c then split_whitespace cs
      else (case cs of
              [] \<Rightarrow> [[c]]
            | d # _ \<Rightarrow>
                if is_space d then [c] # split_whitespace cs
                else (case split_whitespace cs of [] \<Rightarrow> [[c]] | w # ws \<Rightarrow> (c # w) # ws)))"

definition query_terms :: "string option \<Rightarrow> string list" where
  "query_terms q = (case q of None \<Rightarrow> [] | Some s \<Rightarrow> split_whitespace (to_lower s))"

definition ranked :: "(string \<Rightarrow> nat) \<Rightarrow> memory_record list \<Rightarrow> call_context \<Rightarrow> string option \<Rightarrow> memory_record list" where
  "ranked age records ctx q =
     sort_key (\<lambda>r. - rank_score age (query_terms q) r) (filter (\<lambda>r. visible_to (mr_scope r) ctx) records)"

text \<open>The time stamps are kept in the form they are printed in.\<close>

definition memory_record_json :: "(rat \<Rightarrow> string) \<Rightarrow> memory_record \<Rightarrow> json" where
  "memory_record_json ft r =
     json_object [(''id'', JString (mr_id r)), (''text'', JString (mr_text r)),
       (''kind'', JString (memory_kind_str (mr_kind r))),
       (''linked_entities'', JArray (map JString (mr_linked_entities r))),
       (''importance'', JNumber (ft (mr_importance r))),
       (''scope'', JString (memory_scope_str (mr_scope r))),
       (''description'', json_opt (mr_description r)),
       (''created_at'', JString (mr_created_at r)), (''updated_at'', JString (mr_updated_at r))]"

subsection \<open>Rows and records\<close>

lemma memory_kind_parse_str [simp]: "memory_kind_parse (Some (memory_kind_str k)) = k"
  by (cases k; simp; code_simp)

text \<open>
  A remembered record survives its row: read back from the stored shape, every field is the one
  written, if its importance is read back as printed.
\<close>

lemma memory_roundtrip:
  assumes "parse_f64 (ft (mr_importance r)) = Some (Finite (mr_importance r))"
  shows "record_from_storage (record_to_storage ft r) = r"
  using assms
  by (cases "mr_scope r")
    (simp_all add: record_from_storage_def record_to_storage_def meta_str_def meta_defs Let_def)

lemma memory_roundtrip_witness:
  "record_from_storage (record_to_storage (\<lambda>_. ''0.5'')
     \<lparr>mr_id = ''m1'', mr_text = ''net of refunds'', mr_linked_entities = [''revenue''], mr_kind = Fact,
      mr_importance = 1 / 2, mr_scope = UserScope ''u1'', mr_description = None, mr_created_at = [],
      mr_updated_at = []\<rparr>) =
   \<lparr>mr_id = ''m1'', mr_text = ''net of refunds'', mr_linked_entities = [''revenue''], mr_kind = Fact,
    mr_importance = 1 / 2, mr_scope = UserScope ''u1'', mr_description = None, mr_created_at = [],
    mr_updated_at = []\<rparr>"
proof (rule memory_roundtrip)
  have l: "to_lower ''0.5'' = ''0.5''" by code_simp
  have d: "split_sign ''0.5'' = (False, ''0.5'')" by code_simp
  have "parse_mantissa ''0.5'' = Some (1 / 2)"
    by (simp add: parse_mantissa_def split_once_def all_digits_def is_ascii_digit_def byte_def nat_of_digits_def)
  then have "parse_decimal ''0.5'' = Some (1 / 2)" by (simp add: parse_decimal_def split_once_def)
  then have "parse_f64 ''0.5'' = Some (f64_of_rat (1 / 2))" by (simp add: parse_f64_def d l Let_def)
  also have "f64_of_rat (1 / 2) = Finite (1 / 2)" by (rule f64_of_rat_near_one) simp_all
  finally show "parse_f64 ((\<lambda>_. ''0.5'') (mr_importance \<lparr>mr_id = ''m1'', mr_text = ''net of refunds'',
      mr_linked_entities = [''revenue''], mr_kind = Fact, mr_importance = 1 / 2, mr_scope = UserScope ''u1'',
      mr_description = None, mr_created_at = [], mr_updated_at = []\<rparr>)) =
    Some (Finite (mr_importance \<lparr>mr_id = ''m1'', mr_text = ''net of refunds'',
      mr_linked_entities = [''revenue''], mr_kind = Fact, mr_importance = 1 / 2, mr_scope = UserScope ''u1'',
      mr_description = None, mr_created_at = [], mr_updated_at = []\<rparr>))" by simp
qed

subsection \<open>Whose memories\<close>

lemma set_ranked: "set (ranked age rs ctx q) = {r \<in> set rs. visible_to (mr_scope r) ctx}"
  by (auto simp: ranked_def)

lemma memory_roundtrip_scope:
  "mr_scope (record_from_storage (record_to_storage ft r)) = mr_scope r"
  "mr_id (record_from_storage (record_to_storage ft r)) = mr_id r"
  "mr_text (record_from_storage (record_to_storage ft r)) = mr_text r"
  by (cases "mr_scope r"; simp add: record_from_storage_def record_to_storage_def meta_str_def meta_defs Let_def)+

text \<open>
  C28. Who sees a memory, from the call that stores it to the ranking: let the row that is written for the
  input of an agent be among the rows that the storage returns to a reader. Then it is ranked, with
  its identifier and text, exactly for callers with the same user identifier if it was stored by a
  user (the tenant does not matter), of the same tenant if by a tenant without a user, and for
  everybody if by nobody in particular. Which rows the storage returns is not part of this.
\<close>

theorem memory_isolation:
  assumes "record_from_agent_input new_id now text entities kind importance description owner = Some r"
    and "record_to_storage ft r \<in> set rows"
  shows "(\<exists>r' \<in> set (ranked age (map record_from_storage rows) reader q).
      r' = record_from_storage (record_to_storage ft r) \<and> mr_id r' = new_id \<and> mr_text r' = trim text) \<longleftrightarrow>
    (case cc_user_id owner of
       Some u \<Rightarrow> cc_user_id reader = Some u
     | None \<Rightarrow> (case cc_tenant_id owner of Some t \<Rightarrow> cc_tenant_id reader = Some t | None \<Rightarrow> True))"
proof -
  have r: "mr_scope r = own_scope owner" "mr_id r = new_id" "mr_text r = trim text"
    using assms(1) by (auto simp: record_from_agent_input_def Let_def split: if_splits)
  moreover have "record_from_storage (record_to_storage ft r) \<in> record_from_storage ` set rows" using assms(2) by blast
  ultimately show ?thesis by (simp add: set_ranked memory_roundtrip_scope own_scope_def split: option.split)
qed

text \<open>
  A memory that holds every term of the query comes before any that holds none, whatever their ages
  and importances.
\<close>

lemma memory_ranking:
  assumes "0 \<le> mr_importance r" and "mr_importance s \<le> 1" and "query_terms q \<noteq> []"
    and "\<forall>t \<in> set (query_terms q). str_contains (to_lower t)
      (to_lower (mr_text r @ '' '' @ str_join '' '' (mr_linked_entities r)))"
    and "\<forall>t \<in> set (query_terms q). \<not> str_contains (to_lower t)
      (to_lower (mr_text s @ '' '' @ str_join '' '' (mr_linked_entities s)))"
    and "ranked age rs ctx q = xs @ s # ys"
  shows "r \<notin> set ys"
proof
  assume r: "r \<in> set ys"
  have "sorted (map (\<lambda>r. - rank_score age (query_terms q) r) (xs @ s # ys))"
    unfolding assms(6) [symmetric] by (simp add: ranked_def)
  then have "rank_score age (query_terms q) r \<le> rank_score age (query_terms q) s"
    using r by (auto simp: sorted_append)
  moreover have "rank_score age (query_terms q) s \<le> 2"
  proof -
    have "filter (\<lambda>t. str_contains (to_lower t) (to_lower (mr_text s @ '' '' @ str_join '' '' (mr_linked_entities s))))
        (query_terms q) = []"
      using assms(5) by (simp add: filter_empty_conv)
    moreover have "(1 :: rat) / (1 + of_nat n) \<le> 1" for n by simp
    ultimately have "rank_score age (query_terms q) s \<le> mr_importance s + 0 + 1"
      unfolding rank_score_def Let_def by (intro add_mono) simp_all
    then show ?thesis using assms(2) by simp
  qed
  moreover have "2 < rank_score age (query_terms q) r"
  proof -
    have "filter (\<lambda>t. str_contains (to_lower t) (to_lower (mr_text r @ '' '' @ str_join '' '' (mr_linked_entities r))))
        (query_terms q) = query_terms q"
      using assms(4) by simp
    moreover have "(0 :: rat) < 1 / (1 + of_nat n)" for n by (simp add: add_pos_nonneg)
    ultimately show ?thesis using assms(1,3) unfolding rank_score_def Let_def by (simp add: add_nonneg_pos add_pos_nonneg)
  qed
  ultimately show False by simp
qed

subsection \<open>Examples\<close>

definition caller :: "string \<Rightarrow> string \<Rightarrow> call_context" where
  "caller user tenant = anonymous_context\<lparr>cc_user_id := Some user, cc_tenant_id := Some tenant\<rparr>"

lemma sample_trims: "trim ''net of refunds'' = ''net of refunds''" "to_lower ''fact'' = ''fact''"
  by code_simp+

definition sample_record :: memory_record where
  "sample_record =
     \<lparr>mr_id = ''m1'', mr_text = ''net of refunds'', mr_linked_entities = [], mr_kind = Fact, mr_importance = 1 / 2,
      mr_scope = UserScope ''u1'', mr_description = None, mr_created_at = ''now'', mr_updated_at = ''now''\<rparr>"

definition sample_row :: memory where
  "sample_row = record_to_storage (\<lambda>_. ''0.5'') sample_record"

lemma sample_remembered:
  "record_from_agent_input ''m1'' ''now'' ''net of refunds'' [] (Some ''fact'') None None (caller ''u1'' ''t1'') = Some sample_record"
  by (simp add: record_from_agent_input_def sample_record_def memory_kind_parse_def sample_trims clamp_unit_def
      own_scope_def caller_def)

theorem memory_isolation_witness:
  "record_from_storage (record_to_storage (\<lambda>_. ''0.5'') sample_record)
     \<in> set (ranked (\<lambda>_. 0) (map record_from_storage [record_to_storage (\<lambda>_. ''0.5'') sample_record]) (caller ''u1'' ''t2'') None) \<and>
   record_from_storage (record_to_storage (\<lambda>_. ''0.5'') sample_record)
     \<notin> set (ranked (\<lambda>_. 0) (map record_from_storage [record_to_storage (\<lambda>_. ''0.5'') sample_record]) (caller ''u2'' ''t1'') None)"
proof -
  have row: "record_to_storage (\<lambda>_. ''0.5'') sample_record \<in> set [record_to_storage (\<lambda>_. ''0.5'') sample_record]" by simp
  have ids: "mr_id (record_from_storage (record_to_storage ft sample_record)) = ''m1''"
    "mr_text (record_from_storage (record_to_storage ft sample_record)) = trim ''net of refunds''" for ft
    by (simp_all add: memory_roundtrip_scope sample_record_def sample_trims)
  have owner: "cc_user_id (caller ''u1'' ''t1'') = Some ''u1''" by (simp add: caller_def)
  note isolation = memory_isolation [OF sample_remembered row, of "\<lambda>_. 0" _ None, unfolded owner option.case]
  have "cc_user_id (caller ''u1'' ''t2'') = Some ''u1''" "cc_user_id (caller ''u2'' ''t1'') \<noteq> Some ''u1''"
    by (simp_all add: caller_def)
  then show ?thesis using isolation [of "caller ''u1'' ''t2''"] isolation [of "caller ''u2'' ''t1''"] ids by blast
qed

definition remark :: "string \<Rightarrow> string \<Rightarrow> rat \<Rightarrow> memory_record" where
  "remark i text importance =
     \<lparr>mr_id = i, mr_text = text, mr_linked_entities = [], mr_kind = Learning, mr_importance = importance,
      mr_scope = GlobalScope, mr_description = None, mr_created_at = [], mr_updated_at = []\<rparr>"

lemma memory_ranking_witness:
  "\<exists>xs ys. ranked (\<lambda>_. 0) [remark ''low'' ''a note'' (9 / 10), remark ''high'' ''net Revenue'' (1 / 5)]
       anonymous_context (Some ''revenue'') = xs @ remark ''low'' ''a note'' (9 / 10) # ys \<and>
     remark ''high'' ''net Revenue'' (1 / 5) \<notin> set ys"
proof -
  have terms: "query_terms (Some ''revenue'') = [''revenue'']" by code_simp
  have high: "str_contains (to_lower ''revenue'') (to_lower ''net Revenue '')" by code_simp
  have low: "\<not> str_contains (to_lower ''revenue'') (to_lower ''a note '')" by code_simp
  have r: "ranked (\<lambda>_. 0) [remark ''low'' ''a note'' (9 / 10), remark ''high'' ''net Revenue'' (1 / 5)]
      anonymous_context (Some ''revenue'') =
    [remark ''high'' ''net Revenue'' (1 / 5)] @ remark ''low'' ''a note'' (9 / 10) # []"
    using high low by (simp add: ranked_def terms rank_score_def remark_def)
  have "remark ''high'' ''net Revenue'' (1 / 5) \<notin> set []"
    by (rule memory_ranking [OF _ _ _ _ _ r]) (use terms high low in \<open>simp_all add: remark_def\<close>)
  then show ?thesis using r by blast
qed

end
