(* ===== verification/Tool_Types.thy ===== *)
theory Tool_Types
  imports Suggest Memory
begin

text \<open>
  The tool catalogue of \<open>crates/graphnight-runtime/src/tools.rs\<close>: the inputs of the tools, the
  table of tools with its mutation gate, and what the tools work on.

  The storage is any implementation of the trait \<open>StorageBackend\<close>, given by its operations on a
  state; the SQL engine is its registry of models and what it makes of a query. Parameters are the
  derived decoders and schemas of the inputs, the wording of the errors of the service and of the
  storage, the printing of floats, fresh identifiers and the clock. No embedder is configured,
  which is the default.
\<close>

subsection \<open>Inputs\<close>

record search_models_input =
  si_q :: string
  si_limit :: "nat option"
  si_datasource :: "string option"

record get_model_input =
  gi_name :: string
  gi_datasource :: "string option"

record run_query_input =
  ri_query :: tool_query
  ri_dry_run :: "bool option"
  ri_explain :: "bool option"
  ri_max_rows :: "nat option"

record multi_stage_input =
  mi_stages :: "tool_query list"
  mi_dry_run :: "bool option"

record recall_input =
  rc_query :: "string option"
  rc_entity :: "string option"
  rc_limit :: "nat option"

record remember_input =
  re_text :: string
  re_linked_entities :: "string list"
  re_kind :: "string option"
  re_importance :: "rat option"
  re_description :: "string option"

record measure_input =
  mi_formula :: string
  mi_aggregation :: string
  mi_label :: "string option"
  mi_format :: "string option"

record dimension_input =
  di_name :: string
  di_label :: "string option"

record time_dimension_input =
  ti_dimension :: string
  ti_granularity :: string
  ti_label :: "string option"

record create_model_input =
  cm_name :: string
  cm_datasource :: string
  cm_description :: "string option"
  cm_measures :: "measure_input list"
  cm_dimensions :: "dimension_input list"
  cm_time_dimensions :: "time_dimension_input list"
  cm_base_table :: "string option"
  cm_sql :: "string option"

record update_model_input =
  um_name :: string
  um_description :: "string option"
  um_measures :: "measure_input list option"
  um_dimensions :: "dimension_input list option"
  um_time_dimensions :: "time_dimension_input list option"
  um_base_table :: "string option"
  um_sql :: "string option"

record delete_model_input =
  dm_name :: string
  dm_datasource :: "string option"

record create_datasource_input =
  cd_name :: string
  cd_driver :: string
  cd_connection_string :: string
  cd_description :: "string option"
  cd_pool_size :: "nat option"

record update_datasource_input =
  ud_name :: string
  ud_description :: "string option"
  ud_connection_string :: "string option"
  ud_pool_size :: "nat option"

subsection \<open>The table of tools\<close>

record tool_spec =
  ts_name :: string
  ts_mutating :: bool
  ts_description :: string

definition builtin_tools :: "tool_spec list" where
  "builtin_tools =
  [ \<lparr>ts_name = ''get_capabilities'', ts_mutating = False,
      ts_description = ''Describe this server: supported SQL dialects, aggregations, time granularities, filter ''
        @ ''operators, formula functions and row limits. Call this first if unsure what is ''
        @ ''supported.''\<rparr>,
   \<lparr>ts_name = ''search_models'', ts_mutating = False,
      ts_description = ''Search models by intent, e.g. ''
        @ dquote
        @ ''monthly revenue by store''
        @ dquote
        @ ''. Returns ranked model names with matching fields and snippets. Start here when the ''
        @ ''model name is unknown.''\<rparr>,
   \<lparr>ts_name = ''list_models'', ts_mutating = False,
      ts_description = ''List the semantic models this caller may query. Use when you know the domain but not ''
        @ ''the model name.''\<rparr>,
   \<lparr>ts_name = ''get_model'', ts_mutating = False,
      ts_description = ''Get a model's full schema: measures with formulas and aggregations, dimensions, time ''
        @ ''dimensions, joins, plus worked example queries. Always call this before run_query so ''
        @ ''you use real field names.''\<rparr>,
   \<lparr>ts_name = ''validate_query'', ts_mutating = False,
      ts_description = ''Validate and compile a query without executing it. Returns precise errors and ''
        @ ''did-you-mean suggestions. Cheaper than run_query; use it to check a query first.''\<rparr>,
   \<lparr>ts_name = ''run_query'', ts_mutating = False,
      ts_description = ''Run a governed semantic query and return rows. Subject to the caller's row limit, ''
        @ ''forced filters, row-level security and column masks. Set dry_run=true to compile ''
        @ ''without executing.''\<rparr>,
   \<lparr>ts_name = ''multi_stage_query'', ts_mutating = False,
      ts_description = ''Run an ordered pipeline of queries as a DAG, where a stage may filter on a previous ''
        @ ''stage's output via stage_ref. Use for cohort and funnel analyses.''\<rparr>,
   \<lparr>ts_name = ''recall_memories'', ts_mutating = False,
      ts_description = ''Recall stored learnings and facts relevant to a query, ranked by relevance, recency and ''
        @ ''importance. Call before answering from memory.''\<rparr>,
   \<lparr>ts_name = ''remember'', ts_mutating = False,
      ts_description = ''Store a durable learning, fact or episode with its linked entities, so future sessions ''
        @ ''can recall it.''\<rparr>,
   \<lparr>ts_name = ''tools_list'', ts_mutating = False,
      ts_description = ''List the tools available to this caller, with descriptions and JSON Schemas.''\<rparr>,
   \<lparr>ts_name = ''create_model'', ts_mutating = True,
      ts_description = ''Define a new semantic model: its measures, dimensions and time dimensions over a ''
        @ ''datasource. Only available when the operator has enabled semantic layer mutations.''\<rparr>,
   \<lparr>ts_name = ''update_model'', ts_mutating = True,
      ts_description = ''Change an existing model's measures, dimensions or SQL. Only fields you supply are ''
        @ ''changed. Only available when the operator has enabled semantic layer mutations.''\<rparr>,
   \<lparr>ts_name = ''delete_model'', ts_mutating = True,
      ts_description = ''Delete a semantic model. This cannot be undone. Only available when the operator has ''
        @ ''enabled semantic layer mutations.''\<rparr>,
   \<lparr>ts_name = ''create_datasource'', ts_mutating = True,
      ts_description = ''Register a new datasource connection. The connection string is stored but never ''
        @ ''returned. Only available when the operator has enabled semantic layer mutations.''\<rparr>,
   \<lparr>ts_name = ''update_datasource'', ts_mutating = True,
      ts_description = ''Update a datasource's description, connection string or pool size. Only available when ''
        @ ''the operator has enabled semantic layer mutations.''\<rparr>,
   \<lparr>ts_name = ''delete_datasource'', ts_mutating = True,
      ts_description = ''Delete a datasource. Every model on it becomes unqueryable. Only available when the ''
        @ ''operator has enabled semantic layer mutations.''\<rparr>]"

text \<open>The catalogue's own settings; the tools themselves are always the built-in ones.\<close>

record tool_catalog =
  ct_allow_mutations :: bool
  ct_default_max_rows :: nat

definition catalog_new :: tool_catalog where
  "catalog_new = \<lparr>ct_allow_mutations = False, ct_default_max_rows = 500\<rparr>"

definition with_mutations :: "tool_catalog \<Rightarrow> bool \<Rightarrow> tool_catalog" where
  "with_mutations c allow = c\<lparr>ct_allow_mutations := allow\<rparr>"

definition with_default_max_rows :: "tool_catalog \<Rightarrow> nat \<Rightarrow> tool_catalog" where
  "with_default_max_rows c n = c\<lparr>ct_default_max_rows := n\<rparr>"

definition catalog_specs :: "tool_catalog \<Rightarrow> tool_spec list" where
  "catalog_specs c = filter (\<lambda>s. ct_allow_mutations c \<or> \<not> ts_mutating s) builtin_tools"

definition catalog_get :: "tool_catalog \<Rightarrow> string \<Rightarrow> tool_spec option" where
  "catalog_get c name =
     (case find (\<lambda>s. ts_name s = name) builtin_tools of
        Some s \<Rightarrow> if ct_allow_mutations c \<or> \<not> ts_mutating s then Some s else None
      | None \<Rightarrow> None)"

subsection \<open>What the tools work on\<close>

record decoders =
  dc_list_models :: "json \<Rightarrow> string + string option"
  dc_search_models :: "json \<Rightarrow> string + search_models_input"
  dc_get_model :: "json \<Rightarrow> string + get_model_input"
  dc_validate_query :: "json \<Rightarrow> string + tool_query"
  dc_run_query :: "json \<Rightarrow> string + run_query_input"
  dc_multi_stage :: "json \<Rightarrow> string + multi_stage_input"
  dc_recall :: "json \<Rightarrow> string + recall_input"
  dc_remember :: "json \<Rightarrow> string + remember_input"
  dc_create_model :: "json \<Rightarrow> string + create_model_input"
  dc_update_model :: "json \<Rightarrow> string + update_model_input"
  dc_delete_model :: "json \<Rightarrow> string + delete_model_input"
  dc_create_datasource :: "json \<Rightarrow> string + create_datasource_input"
  dc_update_datasource :: "json \<Rightarrow> string + update_datasource_input"
  dc_delete_datasource :: "json \<Rightarrow> string + string"

record 's tool_env =
  tl_backend :: "'s backend"
  tl_generate :: "sql_generator \<Rightarrow> query \<Rightarrow> gen_error + string"
  tl_run :: "data_source \<Rightarrow> string \<Rightarrow> nat \<Rightarrow> run_result"
  tl_elapsed_ms :: nat
  tl_service_text :: "service_error \<Rightarrow> string"
  tl_query_text :: "invalid_query \<Rightarrow> string"
  tl_storage_text :: "storage_error \<Rightarrow> string"
  tl_float :: "rat \<Rightarrow> string"
  tl_age :: "string \<Rightarrow> nat"
  tl_new_id :: string
  tl_now :: string
  tl_version :: string
  tl_schema :: "string \<Rightarrow> json"
  tl_decode :: decoders

record 's tool_state =
  sv_store :: 's
  sv_engine :: sql_generator

text \<open>The query service over a state: reads go to the storage, statements to the engine.\<close>

definition service_of :: "'s tool_env \<Rightarrow> 's tool_state \<Rightarrow> service_env" where
  "service_of env sv =
     (let bk = tl_backend env; s = sv_store sv in
      \<lparr>se_get_model = (\<lambda>n d. map_err (tl_storage_text env) (bk_get_model bk s n d)),
       se_get_datasource = (\<lambda>n. map_err (tl_storage_text env) (bk_get_datasource bk s n)),
       se_list_models = (\<lambda>d. map_err (tl_storage_text env) (bk_list_models bk s d)),
       se_list_datasources = map_err (tl_storage_text env) (bk_list_datasources bk s),
       se_search = (\<lambda>q n. map_err (tl_storage_text env) (rbind (bk_search bk s q n)
          (\<lambda>hits. Inr (map (\<lambda>h. \<lparr>sr_model_name = ih_model_name h, sr_datasource = ih_datasource h,
             sr_score = tl_float env (of_nat (ih_score h)), sr_snippet = ih_snippet h\<rparr>) hits)))),
       se_generate_sql = tl_generate env (sv_engine sv),
       se_dialect_name = (\<lambda>n. dialect_name (dialect_for (sv_engine sv) n)),
       se_run = tl_run env\<rparr>)"

subsection \<open>Errors\<close>

text \<open>\<open>ToolError::from\<close>. A mask that panics ends the call without a value; its error stands for
  the panic.\<close>

fun tool_error_code :: "service_error \<Rightarrow> string" where
  "tool_error_code (SvModelNotFound _) = ''MODEL_NOT_FOUND''"
| "tool_error_code (SvDatasourceNotFound _) = ''DATASOURCE_NOT_FOUND''"
| "tool_error_code Unauthenticated = ''UNAUTHENTICATED''"
| "tool_error_code (PolicyViolation _) = ''POLICY_VIOLATION''"
| "tool_error_code AdminRequired = ''POLICY_VIOLATION''"
| "tool_error_code (InvalidQuery _) = ''INVALID_QUERY''"
| "tool_error_code (Timeout _) = ''TIMEOUT''"
| "tool_error_code (Execution _) = ''EXECUTION_FAILED''"
| "tool_error_code (StorageFailed _) = ''STORAGE_ERROR''"
| "tool_error_code (MaskPanicked _) = ''PANIC''"

definition denied_hint :: string where
  "denied_hint = ''This caller is not permitted to access that model or datasource. ''
     @ ''Do not retry; report the restriction.''"

fun tool_error_hint :: "'s tool_env \<Rightarrow> service_error \<Rightarrow> string option" where
  "tool_error_hint env (SvModelNotFound m) =
     Some (''Call search_models to find the right model, or list_models to see all available models. Unknown model: '' @ m)"
| "tool_error_hint env (SvDatasourceNotFound d) =
     Some (''Call list_datasources to see registered datasources. Missing: '' @ d)"
| "tool_error_hint env Unauthenticated =
     Some (''No valid credentials were presented. This is not a permissions ''
       @ ''problem and retrying will not help; obtain an API key first.'')"
| "tool_error_hint env (PolicyViolation _) = Some denied_hint"
| "tool_error_hint env AdminRequired = Some denied_hint"
| "tool_error_hint env (InvalidQuery q) = Some (tl_query_text env q)"
| "tool_error_hint env (Timeout s) =
     Some (''Query exceeded '' @ nat_str s @ ''s. Narrow the time range or add filters, then retry once.'')"
| "tool_error_hint env (Execution x) = Some x"
| "tool_error_hint env (StorageFailed _) = None"
| "tool_error_hint env (MaskPanicked _) = None"

definition tool_error_of :: "'s tool_env \<Rightarrow> service_error \<Rightarrow> tool_error" where
  "tool_error_of env e =
     \<lparr>te_code = tool_error_code e, te_message = tl_service_text env e, te_hint = tool_error_hint env e\<rparr>"

definition unknown_tool :: "string \<Rightarrow> tool_error" where
  "unknown_tool name =
     \<lparr>te_code = ''UNKNOWN_TOOL'', te_message = ''unknown tool: '' @ name,
      te_hint = Some (''Unknown tool '' @ name @ ''. Call tools_list to see available tools.'')\<rparr>"

definition invalid_argument :: "string \<Rightarrow> tool_error" where
  "invalid_argument x = \<lparr>te_code = ''INVALID_ARGUMENT'', te_message = x, te_hint = Some x\<rparr>"

definition explain_query_error :: "'s tool_env \<Rightarrow> service_error \<Rightarrow> tool_error" where
  "explain_query_error env e =
     (let err = tool_error_of env e in
      if te_code err = ''INVALID_QUERY'' \<and>
         (case te_hint err of Some h \<Rightarrow> str_contains ''Model not found'' h | None \<Rightarrow> False)
      then err\<lparr>te_code := ''MODEL_NOT_FOUND''\<rparr> else err)"

definition explain_model_error ::
    "'s tool_env \<Rightarrow> 's tool_state \<Rightarrow> call_context \<Rightarrow> service_error \<Rightarrow> string \<Rightarrow> tool_error" where
  "explain_model_error env sv ctx e requested =
     (let err = tool_error_of env e in
      if te_code err = ''MODEL_NOT_FOUND'' then
        let available = (case visible_models (service_of env sv) ctx None of
                           Inr ms \<Rightarrow> map mo_name ms | Inl _ \<Rightarrow> [])
        in with_hint err
             (if available = []
              then ''No models are visible to this caller. Check the spelling of '' @ debug_str requested @ ''.''
              else ''Available models: '' @ str_join '', '' available @ ''. Call get_model with one of these names.'')
      else if te_code err = ''POLICY_VIOLATION'' then
        with_hint err (''This caller is not permitted to access that model. ''
          @ ''Do not retry with variations; report the restriction.'')
      else err)"

definition parse_args :: "('a \<Rightarrow> string + 'b) \<Rightarrow> 'a \<Rightarrow> tool_error + 'b" where
  "parse_args dec args =
     map_err (\<lambda>e. with_hint (tool_error_new ''INVALID_ARGUMENT'' (''could not parse arguments: '' @ e))
       ''Check the tool's inputSchema for required fields and types.'') (dec args)"

definition storage_failed :: "'s tool_env \<Rightarrow> string \<Rightarrow> storage_error + 'a \<Rightarrow> tool_error + 'a" where
  "storage_failed env code r = map_err (\<lambda>e. tool_error_new code (tl_storage_text env e)) r"

end
