(* ===== verification/Tool_Queries.thy ===== *)
theory Tool_Queries
  imports Tool_Types
begin

text \<open>
  The tools that read (\<open>crates/graphnight-runtime/src/tools.rs\<close>): capabilities, the models, queries
  and memories. They change nothing; those that execute statements also return the effects.
\<close>

definition json_strings :: "string list \<Rightarrow> json" where
  "json_strings xs = JArray (map JString xs)"

definition json_nat_opt :: "nat option \<Rightarrow> json" where
  "json_nat_opt n = (case n of Some k \<Rightarrow> json_nat k | None \<Rightarrow> JNull)"

definition json_strings_opt :: "string list option \<Rightarrow> json" where
  "json_strings_opt xs = (case xs of Some ys \<Rightarrow> json_strings ys | None \<Rightarrow> JNull)"

subsection \<open>Capabilities and descriptors\<close>

definition tool_capabilities :: "'s tool_env \<Rightarrow> tool_catalog \<Rightarrow> call_context \<Rightarrow> json" where
  "tool_capabilities env c ctx =
     (let p = context_policy ctx in
      json_object
       [(''server'', JString ''graphnight''),
        (''version'', JString (tl_version env)),
        (''sql_dialects'', json_strings [''postgres'', ''mysql'', ''sqlite'', ''duckdb'']),
        (''aggregations'', json_strings [''sum'', ''avg'', ''count'', ''min'', ''max'', ''count_distinct'']),
        (''time_granularities'',
           json_strings [''second'', ''minute'', ''hour'', ''day'', ''week'', ''month'', ''quarter'', ''year'']),
        (''filter_operators'',
           json_strings [''eq'', ''neq'', ''gt'', ''gte'', ''lt'', ''lte'', ''in'', ''not_in'', ''like'', ''ilike'',
             ''not_like'', ''is_null'', ''is_not_null'', ''between'']),
        (''formula_functions'',
           json_strings [''time_shift(measure, -1, '' @ squote @ ''month'' @ squote @ '')'',
             ''ratio(numerator, denominator)'', ''pct_change(measure)'', ''running_total(measure)'']),
        (''measure_shorthand'', json_object
           [(''description'', JString (''A measure is '' @ squote @ ''<column>:<aggregation>'' @ squote @ '', or ''
               @ squote @ ''*'' @ squote @ '' for row counts'')),
            (''examples'', json_strings [''revenue:sum'', ''amount_usd:sum'', ''*:count'', ''customer_id:count_distinct''])]),
        (''query_shorthand'', json_object
           [(''time_dimensions'', JString ''column@granularity, e.g. created_at@month''),
            (''filters'', JString ''field:operator:value, e.g. status:eq:completed''),
            (''order'', JString ''field:asc | field:desc'')]),
        (''limits'', json_object
           [(''default_max_rows'', json_nat (ct_default_max_rows c)),
            (''policy_max_rows'', json_nat_opt (sp_max_rows p)),
            (''query_timeout_secs'', json_nat_opt (sp_query_timeout_secs p))]),
        (''governance'', json_object
           [(''row_level_security'', JBool (sp_row_filter p \<noteq> None)),
            (''forced_filters'', json_nat (length (sp_forced_filters p))),
            (''column_masks'', json_nat (length (sp_column_masks p))),
            (''allowed_models'', json_strings_opt (sp_allowed_models p)),
            (''allowed_datasources'', json_strings_opt (sp_allowed_datasources p))]),
        (''mutations_enabled'', JBool (ct_allow_mutations c)),
        (''recommended_flow'',
           json_strings [''get_capabilities'', ''search_models'', ''get_model'', ''validate_query'', ''run_query''])])"

definition mcp_descriptors :: "'s tool_env \<Rightarrow> tool_catalog \<Rightarrow> json list" where
  "mcp_descriptors env c =
     map (\<lambda>s. json_object [(''name'', JString (ts_name s)), (''description'', JString (ts_description s)),
       (''inputSchema'', tl_schema env (ts_name s))]) (catalog_specs c)"

definition tool_list :: "'s tool_env \<Rightarrow> tool_catalog \<Rightarrow> json" where
  "tool_list env c = json_object [(''tools'', JArray (mcp_descriptors env c))]"

subsection \<open>Models\<close>

definition model_entry :: "model \<Rightarrow> json" where
  "model_entry m =
     json_object [(''name'', JString (mo_name m)), (''datasource'', JString (mo_datasource m)),
       (''description'', json_opt (mo_description m)),
       (''measure_count'', json_nat (length (mo_measures m))),
       (''dimension_count'', json_nat (length (mo_dimensions m)))]"

definition tool_list_models ::
    "'s tool_env \<Rightarrow> 's tool_state \<Rightarrow> call_context \<Rightarrow> string option \<Rightarrow> tool_error + json" where
  "tool_list_models env sv ctx datasource =
     rbind (map_err (tool_error_of env) (visible_models (service_of env sv) ctx datasource)) (\<lambda>models.
       Inr (json_object
         [(''models'', JArray (map model_entry models)), (''total'', json_nat (length models)),
          (''next_step'', JString ''Call get_model with a name to see its full schema and example queries.'')]))"

text \<open>One result of a search, if the caller may see the model of the hit.\<close>

definition search_entry ::
    "'s tool_env \<Rightarrow> 's tool_state \<Rightarrow> call_context \<Rightarrow> index_hit list \<Rightarrow> index_hit \<Rightarrow> json option" where
  "search_entry env sv ctx lexical h =
     (case get_model_governed (service_of env sv) ctx (ih_model_name h) None of
        Inl _ \<Rightarrow> None
      | Inr m \<Rightarrow>
          let hit = the (map_of (rev (map (\<lambda>x. (ih_model_name x, x)) lexical)) (ih_model_name h)) in
          Some (json_object
            [(''model'', JString (ih_model_name h)), (''datasource'', JString (mo_datasource m)),
             (''score'', JNumber (tl_float env (of_nat (ih_score h)))),
             (''matched_fields'', json_strings (ih_matched_fields hit)),
             (''snippet'', JString (ih_snippet hit)), (''retrieval'', JString ''lexical'')]))"

definition tool_search_models ::
    "'s tool_env \<Rightarrow> 's tool_state \<Rightarrow> call_context \<Rightarrow> search_models_input \<Rightarrow> tool_error + json" where
  "tool_search_models env sv ctx input =
     (let limit = unwrap_or (si_limit input) 10; pool = max (saturating_mul limit 4) 20 in
      rbind (storage_failed env ''SEARCH_FAILED'' (bk_search (tl_backend env) (sv_store sv) (si_q input) pool))
        (\<lambda>lexical.
           let results = take limit (List.map_filter (search_entry env sv ctx lexical) lexical) in
           Inr (json_object
             [(''results'', JArray results), (''count'', json_nat (length results)),
              (''retrieval'', JString ''lexical''),
              (''next_step'', JString ''Call get_model with the best match to see its fields before querying.'')])))"

definition measure_entry :: "measure \<Rightarrow> json" where
  "measure_entry m =
     json_object [(''formula'', JString (f_expression (m_formula m))),
       (''aggregation'', JString (sql_function (m_aggregation m))),
       (''label'', json_opt (f_label (m_formula m))), (''format'', json_opt (f_format (m_formula m)))]"

definition tool_get_model ::
    "'s tool_env \<Rightarrow> 's tool_state \<Rightarrow> call_context \<Rightarrow> get_model_input \<Rightarrow> tool_error + json" where
  "tool_get_model env sv ctx input =
     (case get_model_governed (service_of env sv) ctx (gi_name input) (gi_datasource input) of
        Inl e \<Rightarrow> Inl (explain_model_error env sv ctx e (gi_name input))
      | Inr m \<Rightarrow>
          Inr (json_object
            [(''name'', JString (mo_name m)), (''datasource'', JString (mo_datasource m)),
             (''description'', json_opt (mo_description m)),
             (''measures'', JArray (map measure_entry (mo_measures m))),
             (''dimensions'', JArray (map (\<lambda>d. json_object [(''name'', JString (d_name d)),
                (''label'', json_opt (d_label d))]) (mo_dimensions m))),
             (''time_dimensions'', JArray (map (\<lambda>t. json_object [(''dimension'', JString (td_dimension t)),
                (''granularity'', JString (date_trunc_unit (td_granularity t))),
                (''label'', json_opt (td_label t))]) (mo_time_dimensions m))),
             (''joins'', JArray (map (\<lambda>j. json_object [(''name'', JString (jn_name j)),
                (''model'', JString (jn_model j)), (''join_type'', JString (sql_keyword (jn_type j))),
                (''alias'', JString (unwrap_or (jn_alias j) (jn_name j)))]) (mo_joins m))),
             (''example_queries'', JArray (example_queries m)),
             (''next_step'', JString (''Use one of example_queries as a template; ''
                @ ''call validate_query before run_query.''))]))"

subsection \<open>Queries\<close>

fun first_unknown :: "string list \<Rightarrow> string list \<Rightarrow> string option" where
  "first_unknown known [] = None"
| "first_unknown known (f # fs) = (if f \<in> set known then first_unknown known fs else Some f)"

definition check_known :: "string list \<Rightarrow> query \<Rightarrow> tool_error + unit" where
  "check_known known q =
     (case first_unknown known (map fl_field (q_filters q)) of
        Some f \<Rightarrow> Inl (unknown_field_error f known ''filter'')
      | None \<Rightarrow>
          (case first_unknown known (map d_name (q_dimensions q)) of
             Some d \<Rightarrow> Inl (unknown_field_error d known ''dimension'')
           | None \<Rightarrow> Inr ()))"

definition check_fields ::
    "'s tool_env \<Rightarrow> 's tool_state \<Rightarrow> call_context \<Rightarrow> query \<Rightarrow> tool_error + unit" where
  "check_fields env sv ctx q =
     (case query_model_name q of
        None \<Rightarrow> Inr ()
      | Some model_name \<Rightarrow>
          (case get_model_governed (service_of env sv) ctx model_name None of
             Inl e \<Rightarrow> Inl (explain_model_error env sv ctx e model_name)
           | Inr m \<Rightarrow>
               let cap = unwrap_or (sp_max_rows (context_policy ctx)) default_max_rows;
                   known = field_names m
               in case q_limit q of
                    Some limit \<Rightarrow>
                      if cap < limit then
                        Inl (with_hint (tool_error_new ''ROW_LIMIT_EXCEEDED''
                               (''requested limit '' @ nat_str limit @ '' exceeds the permitted maximum '' @ nat_str cap))
                             (''Use limit: '' @ nat_str cap @ '' or lower. The cap is enforced server-side regardless.''))
                      else check_known known q
                  | None \<Rightarrow> check_known known q))"

datatype compiled = CompiledOk string string | CompiledInvalid tool_error

definition compile_query ::
    "'s tool_env \<Rightarrow> 's tool_state \<Rightarrow> call_context \<Rightarrow> tool_query \<Rightarrow> compiled" where
  "compile_query env sv ctx input =
     (case to_core_query (tl_float env) input of
        Inl e \<Rightarrow> CompiledInvalid e
      | Inr core \<Rightarrow>
          (case check_fields env sv ctx core of
             Inl e \<Rightarrow> CompiledInvalid e
           | Inr _ \<Rightarrow>
               (case fst (execute_query (service_of env sv) ctx core options_dry_run) of
                  Inr out \<Rightarrow> CompiledOk (unwrap_or (qo_sql out) []) (qo_dialect out)
                | Inl e \<Rightarrow> CompiledInvalid (tool_error_of env e))))"

definition tool_validate_query ::
    "'s tool_env \<Rightarrow> 's tool_state \<Rightarrow> call_context \<Rightarrow> tool_query \<Rightarrow> json" where
  "tool_validate_query env sv ctx input =
     (case compile_query env sv ctx input of
        CompiledOk sql dialect \<Rightarrow>
          json_object [(''valid'', JBool True), (''dialect'', JString dialect), (''sql'', JString sql),
            (''note'', JString ''Not executed. Call run_query to fetch rows.'')]
      | CompiledInvalid e \<Rightarrow> json_object [(''valid'', JBool False), (''error'', tool_error_json e)])"

definition run_options :: "tool_catalog \<Rightarrow> run_query_input \<Rightarrow> execute_options" where
  "run_options c input =
     (let dry_run = unwrap_or (ri_dry_run input) False in
      \<lparr>eo_dry_run = dry_run, eo_explain = (unwrap_or (ri_explain input) False \<or> dry_run),
       eo_max_rows = Some (unwrap_or (ri_max_rows input) (ct_default_max_rows c mod 2 ^ 32))\<rparr>)"

definition tool_run_query ::
    "'s tool_env \<Rightarrow> tool_catalog \<Rightarrow> 's tool_state \<Rightarrow> call_context \<Rightarrow> run_query_input
      \<Rightarrow> (tool_error + json) \<times> effect list" where
  "tool_run_query env c sv ctx input =
     (case rbind (to_core_query (tl_float env) (ri_query input))
             (\<lambda>core. rbind (check_fields env sv ctx core) (\<lambda>_. Inr core)) of
        Inl e \<Rightarrow> (Inl e, [])
      | Inr core \<Rightarrow>
          (case execute_query (service_of env sv) ctx core (run_options c input) of
             (Inl e, eff) \<Rightarrow> (Inl (explain_query_error env e), eff)
           | (Inr out, eff) \<Rightarrow>
               (Inr (json_object
                  [(''columns'', json_strings (qo_columns out)), (''rows'', JArray (qo_data out)),
                   (''row_count'', json_nat (qo_row_count out)), (''truncated'', JBool (qo_truncated out)),
                   (''next_offset'', json_nat_opt (qo_next_offset out)), (''dialect'', JString (qo_dialect out)),
                   (''sql'', json_opt (qo_sql out)), (''execution_time_ms'', json_nat (tl_elapsed_ms env))]), eff)))"

definition stage_entry :: "nat \<times> query_outcome \<Rightarrow> json" where
  "stage_entry io =
     (case io of (i, out) \<Rightarrow>
        json_object [(''stage'', json_nat i), (''columns'', json_strings (qo_columns out)),
          (''rows'', JArray (qo_data out)), (''row_count'', json_nat (qo_row_count out)),
          (''sql'', json_opt (qo_sql out)), (''dialect'', JString (qo_dialect out))])"

definition tool_multi_stage ::
    "'s tool_env \<Rightarrow> 's tool_state \<Rightarrow> call_context \<Rightarrow> multi_stage_input
      \<Rightarrow> (tool_error + json) \<times> effect list" where
  "tool_multi_stage env sv ctx input =
     (case rmap (to_core_query (tl_float env)) (mi_stages input) of
        Inl e \<Rightarrow> (Inl e, [])
      | Inr cores \<Rightarrow>
          let stages = map (\<lambda>(i, q). (''stage_'' @ nat_str i, q)) (enumerate 0 cores);
              dry_run = unwrap_or (mi_dry_run input) False
          in case execute_multi_stage (service_of env sv) ctx stages dry_run of
               (Inl e, eff) \<Rightarrow> (Inl (tool_error_of env e), eff)
             | (Inr outs, eff) \<Rightarrow>
                 (Inr (json_object [(''stages'', JArray (map stage_entry (enumerate 0 outs))),
                    (''dry_run'', JBool dry_run)]), eff))"

subsection \<open>Memories\<close>

definition recall_filter :: "recall_input \<Rightarrow> memory_filter" where
  "recall_filter input =
     \<lparr>mf_query = rc_query input, mf_entity = rc_entity input,
      mf_limit = Some (max (saturating_mul (unwrap_or (rc_limit input) 10) 4) 20), mf_offset = None\<rparr>"

definition recalled ::
    "'s tool_env \<Rightarrow> 's tool_state \<Rightarrow> call_context \<Rightarrow> recall_input \<Rightarrow> tool_error + memory_record list" where
  "recalled env sv ctx input =
     rbind (storage_failed env ''MEMORY_READ_FAILED''
              (bk_list_memories (tl_backend env) (sv_store sv) (recall_filter input))) (\<lambda>rows.
       Inr (take (unwrap_or (rc_limit input) 10)
         (ranked (tl_age env) (map record_from_storage rows) ctx (rc_query input))))"

definition tool_recall ::
    "'s tool_env \<Rightarrow> 's tool_state \<Rightarrow> call_context \<Rightarrow> recall_input \<Rightarrow> tool_error + json" where
  "tool_recall env sv ctx input =
     rbind (recalled env sv ctx input) (\<lambda>visible.
       Inr (json_object [(''memories'', JArray (map (memory_record_json (tl_float env)) visible)),
         (''count'', json_nat (length visible))]))"

end
