(* ===== verification/Tools.thy ===== *)
theory Tools
  imports Tool_Queries
begin

text \<open>
  The tools that write (\<open>crates/graphnight-runtime/src/tools.rs\<close>) and the dispatch of calls. A call
  returns its result, the state after it and the effects of the statements it executed.
\<close>

subsection \<open>Building models\<close>

definition build_measure :: "measure_input \<Rightarrow> tool_error + measure" where
  "build_measure input =
     (let s = to_lower (mi_aggregation input);
          built = (\<lambda>a. Inr \<lparr>m_formula = \<lparr>f_expression = mi_formula input, f_label = mi_label input,
                               f_format = mi_format input\<rparr>, m_aggregation = a\<rparr>)
      in if s = ''sum'' then built Sum
         else if s = ''avg'' \<or> s = ''average'' then built Avg
         else if s = ''count'' then built Count
         else if s = ''min'' then built Min
         else if s = ''max'' then built Max
         else if s = ''count_distinct'' \<or> s = ''countdistinct'' then built CountDistinct
         else Inl (with_hint (tool_error_new ''UNKNOWN_AGGREGATION'' (''unknown aggregation: '' @ s))
                ''Use one of: sum, avg, count, min, max, count_distinct.''))"

definition build_time_dimension :: "time_dimension_input \<Rightarrow> tool_error + time_dimension" where
  "build_time_dimension input =
     (let s = to_lower (ti_granularity input);
          built = (\<lambda>g. Inr \<lparr>td_dimension = ti_dimension input, td_granularity = g, td_label = ti_label input\<rparr>)
      in if s = ''second'' then built Second
         else if s = ''minute'' then built Minute
         else if s = ''hour'' then built Hour
         else if s = ''day'' then built Day
         else if s = ''week'' then built Week
         else if s = ''month'' then built Month
         else if s = ''quarter'' then built Quarter
         else if s = ''year'' then built Year
         else Inl (with_hint (tool_error_new ''UNKNOWN_GRANULARITY'' (''unknown time granularity: '' @ s))
                ''Use one of: second, minute, hour, day, week, month, quarter, year.''))"

definition build_dimension :: "dimension_input \<Rightarrow> dimension" where
  "build_dimension input = \<lparr>d_name = di_name input, d_label = di_label input\<rparr>"

definition select_all :: "string \<Rightarrow> string" where
  "select_all t = ''SELECT * FROM '' @ t"

type_synonym 's tool_outcome = "(tool_error + json) \<times> 's tool_state"

text \<open>Store, then tell the engine: what happens after the storage accepted a model.\<close>

definition register_saved ::
    "'s tool_env \<Rightarrow> call_context \<Rightarrow> string \<Rightarrow> 's tool_state \<Rightarrow> model \<Rightarrow> 's tool_outcome" where
  "register_saved env ctx done sv saved =
     (case register_model_governed ctx (sv_engine sv) saved of
        Inl e \<Rightarrow> (Inl (tool_error_new ''MODEL_REGISTER_FAILED'' (tl_service_text env e)), sv)
      | Inr g \<Rightarrow> (Inr (json_object [(''name'', JString (mo_name saved)), (done, JBool True)]), sv\<lparr>sv_engine := g\<rparr>))"

subsection \<open>Remembering\<close>

definition tool_remember ::
    "'s tool_env \<Rightarrow> 's tool_state \<Rightarrow> call_context \<Rightarrow> remember_input \<Rightarrow> 's tool_outcome" where
  "tool_remember env sv ctx input =
     (case require_authenticated ctx of
        Inl e \<Rightarrow> (Inl (tool_error_of env e), sv)
      | Inr _ \<Rightarrow>
          (case record_from_agent_input (tl_new_id env) (tl_now env) (re_text input) (re_linked_entities input)
                  (re_kind input) (re_importance input) (re_description input) ctx of
             None \<Rightarrow> (Inl (invalid_argument ''memory text must not be empty''), sv)
           | Some r \<Rightarrow>
               (case bk_save_memory (tl_backend env) (sv_store sv) (record_to_storage (tl_float env) r) of
                  (Inl e, s) \<Rightarrow> (Inl (tool_error_new ''MEMORY_WRITE_FAILED'' (tl_storage_text env e)), sv\<lparr>sv_store := s\<rparr>)
                | (Inr saved, s) \<Rightarrow>
                    (Inr (json_object [(''id'', JString (me_id saved)), (''stored'', JBool True)]),
                     sv\<lparr>sv_store := s\<rparr>))))"

subsection \<open>Changing models\<close>

definition input_model :: "create_model_input \<Rightarrow> measure list \<Rightarrow> time_dimension list \<Rightarrow> model" where
  "input_model input ms tds =
     \<lparr>mo_name = cm_name input, mo_datasource = cm_datasource input, mo_description = cm_description input,
      mo_measures = ms, mo_dimensions = map build_dimension (cm_dimensions input),
      mo_time_dimensions = tds, mo_joins = [],
      mo_sql = opt_or (cm_sql input) (map_option select_all (cm_base_table input)), mo_meta = []\<rparr>"

definition tool_create_model ::
    "'s tool_env \<Rightarrow> 's tool_state \<Rightarrow> call_context \<Rightarrow> create_model_input \<Rightarrow> 's tool_outcome" where
  "tool_create_model env sv ctx input =
     (case rbind (map_err (tool_error_of env) (require_admin ctx)) (\<lambda>_.
           if cm_measures input = [] \<and> cm_dimensions input = [] then
             Inl (with_hint (tool_error_new ''EMPTY_MODEL'' ''a model needs at least one measure or dimension'')
               (''Add a measure (e.g. {formula: '' @ dquote @ ''amount'' @ dquote @ '', aggregation: ''
                @ dquote @ ''sum'' @ dquote @ ''}) or a dimension.''))
           else
             rbind (rmap build_measure (cm_measures input)) (\<lambda>ms.
             rbind (rmap build_time_dimension (cm_time_dimensions input)) (\<lambda>tds.
               Inr (input_model input ms tds)))) of
        Inl e \<Rightarrow> (Inl e, sv)
      | Inr m \<Rightarrow>
          (case bk_create_model (tl_backend env) (sv_store sv) m of
             (Inl e, s) \<Rightarrow> (Inl (tool_error_new ''MODEL_CREATE_FAILED'' (tl_storage_text env e)), sv\<lparr>sv_store := s\<rparr>)
           | (Inr saved, s) \<Rightarrow> register_saved env ctx ''created'' (sv\<lparr>sv_store := s\<rparr>) saved))"

definition updated_model :: "update_model_input \<Rightarrow> model \<Rightarrow> tool_error + model" where
  "updated_model input m =
     (let m1 = (case um_description input of Some d \<Rightarrow> m\<lparr>mo_description := Some d\<rparr> | None \<Rightarrow> m) in
      rbind (case um_measures input of
               Some ms \<Rightarrow> rbind (rmap build_measure ms) (\<lambda>ms'. Inr (m1\<lparr>mo_measures := ms'\<rparr>))
             | None \<Rightarrow> Inr m1) (\<lambda>m2.
      let m3 = (case um_dimensions input of
                  Some ds \<Rightarrow> m2\<lparr>mo_dimensions := map build_dimension ds\<rparr> | None \<Rightarrow> m2) in
      rbind (case um_time_dimensions input of
               Some ts \<Rightarrow> rbind (rmap build_time_dimension ts) (\<lambda>tds. Inr (m3\<lparr>mo_time_dimensions := tds\<rparr>))
             | None \<Rightarrow> Inr m3) (\<lambda>m4.
        Inr (case um_sql input of
               Some sql \<Rightarrow> m4\<lparr>mo_sql := Some sql\<rparr>
             | None \<Rightarrow> (case um_base_table input of
                          Some t \<Rightarrow> m4\<lparr>mo_sql := Some (select_all t)\<rparr> | None \<Rightarrow> m4)))))"

definition no_model_named :: "string \<Rightarrow> tool_error" where
  "no_model_named name =
     with_hint (tool_error_new ''MODEL_NOT_FOUND'' (''no model named '' @ name)) ''Call list_models to see what exists.''"

definition tool_update_model ::
    "'s tool_env \<Rightarrow> 's tool_state \<Rightarrow> call_context \<Rightarrow> update_model_input \<Rightarrow> 's tool_outcome" where
  "tool_update_model env sv ctx input =
     (case rbind (map_err (tool_error_of env) (require_admin ctx)) (\<lambda>_.
           rbind (storage_failed env ''MODEL_NOT_FOUND''
                    (bk_get_model (tl_backend env) (sv_store sv) (um_name input) None)) (\<lambda>found.
           rbind (ok_or (no_model_named (um_name input)) found) (updated_model input))) of
        Inl e \<Rightarrow> (Inl e, sv)
      | Inr m \<Rightarrow>
          (case bk_update_model (tl_backend env) (sv_store sv) (um_name input) m of
             (Inl e, s) \<Rightarrow> (Inl (tool_error_new ''MODEL_UPDATE_FAILED'' (tl_storage_text env e)), sv\<lparr>sv_store := s\<rparr>)
           | (Inr saved, s) \<Rightarrow> register_saved env ctx ''updated'' (sv\<lparr>sv_store := s\<rparr>) saved))"

definition tool_delete_model ::
    "'s tool_env \<Rightarrow> 's tool_state \<Rightarrow> call_context \<Rightarrow> delete_model_input \<Rightarrow> 's tool_outcome" where
  "tool_delete_model env sv ctx input =
     (case require_admin ctx of
        Inl e \<Rightarrow> (Inl (tool_error_of env e), sv)
      | Inr _ \<Rightarrow>
          (case bk_delete_model (tl_backend env) (sv_store sv) (dm_name input) (dm_datasource input) of
             (Inl e, s) \<Rightarrow> (Inl (tool_error_new ''MODEL_DELETE_FAILED'' (tl_storage_text env e)), sv\<lparr>sv_store := s\<rparr>)
           | (Inr deleted, s) \<Rightarrow>
               let sv' = sv\<lparr>sv_store := s\<rparr> in
               if \<not> deleted then (Inl (no_model_named (dm_name input)), sv')
               else (case unregister_model_governed ctx (sv_engine sv') (dm_name input) of
                       Inl e \<Rightarrow> (Inl (tool_error_new ''MODEL_UNREGISTER_FAILED'' (tl_service_text env e)), sv')
                     | Inr g \<Rightarrow> (Inr (json_object [(''name'', JString (dm_name input)), (''deleted'', JBool True)]),
                                 sv'\<lparr>sv_engine := g\<rparr>))))"

subsection \<open>Changing datasources\<close>

definition tool_create_datasource ::
    "'s tool_env \<Rightarrow> 's tool_state \<Rightarrow> call_context \<Rightarrow> create_datasource_input \<Rightarrow> 's tool_outcome" where
  "tool_create_datasource env sv ctx input =
     (case require_admin ctx of
        Inl e \<Rightarrow> (Inl (tool_error_of env e), sv)
      | Inr _ \<Rightarrow>
          (case bk_create_datasource (tl_backend env) (sv_store sv)
                  \<lparr>ds_name = cd_name input, ds_driver = cd_driver input,
                   ds_connection_string = cd_connection_string input, ds_description = cd_description input,
                   ds_models = [], ds_pool_size = cd_pool_size input, ds_meta = []\<rparr> of
             (Inl e, s) \<Rightarrow> (Inl (tool_error_new ''DATASOURCE_CREATE_FAILED'' (tl_storage_text env e)), sv\<lparr>sv_store := s\<rparr>)
           | (Inr saved, s) \<Rightarrow>
               (Inr (json_object [(''name'', JString (ds_name saved)), (''driver'', JString (ds_driver saved)),
                  (''pool_size'', json_nat_opt (ds_pool_size saved)), (''created'', JBool True)]),
                sv\<lparr>sv_store := s\<rparr>)))"

definition updated_datasource :: "update_datasource_input \<Rightarrow> data_source \<Rightarrow> data_source" where
  "updated_datasource input ds =
     (let d1 = (case ud_description input of Some d \<Rightarrow> ds\<lparr>ds_description := Some d\<rparr> | None \<Rightarrow> ds);
          d2 = (case ud_connection_string input of Some c \<Rightarrow> d1\<lparr>ds_connection_string := c\<rparr> | None \<Rightarrow> d1)
      in case ud_pool_size input of Some p \<Rightarrow> d2\<lparr>ds_pool_size := Some p\<rparr> | None \<Rightarrow> d2)"

definition no_datasource_named :: "string \<Rightarrow> tool_error" where
  "no_datasource_named name = tool_error_new ''DATASOURCE_NOT_FOUND'' (''no datasource named '' @ name)"

definition tool_update_datasource ::
    "'s tool_env \<Rightarrow> 's tool_state \<Rightarrow> call_context \<Rightarrow> update_datasource_input \<Rightarrow> 's tool_outcome" where
  "tool_update_datasource env sv ctx input =
     (case rbind (map_err (tool_error_of env) (require_admin ctx)) (\<lambda>_.
           rbind (storage_failed env ''DATASOURCE_READ_FAILED''
                    (bk_get_datasource (tl_backend env) (sv_store sv) (ud_name input)))
                 (ok_or (no_datasource_named (ud_name input)))) of
        Inl e \<Rightarrow> (Inl e, sv)
      | Inr ds \<Rightarrow>
          (case bk_update_datasource (tl_backend env) (sv_store sv) (ud_name input) (updated_datasource input ds) of
             (Inl e, s) \<Rightarrow> (Inl (tool_error_new ''DATASOURCE_UPDATE_FAILED'' (tl_storage_text env e)), sv\<lparr>sv_store := s\<rparr>)
           | (Inr _, s) \<Rightarrow>
               (Inr (json_object [(''name'', JString (ud_name input)), (''updated'', JBool True)]),
                sv\<lparr>sv_store := s\<rparr>)))"

definition tool_delete_datasource ::
    "'s tool_env \<Rightarrow> 's tool_state \<Rightarrow> call_context \<Rightarrow> string \<Rightarrow> 's tool_outcome" where
  "tool_delete_datasource env sv ctx name =
     (case rbind (map_err (tool_error_of env) (require_admin ctx)) (\<lambda>_.
           rbind (storage_failed env ''DATASOURCE_DELETE_FAILED''
                    (bk_list_models (tl_backend env) (sv_store sv) None)) (\<lambda>models.
           let orphans = map mo_name (filter (\<lambda>m. mo_datasource m = name) models) in
           if orphans \<noteq> [] then
             Inl (with_hint (tool_error_new ''DATASOURCE_IN_USE''
                    (nat_str (length orphans) @ '' model(s) still read from '' @ name @ '': '' @ str_join '', '' orphans))
                  ''Delete or repoint those models first, so you do not strand them.'')
           else Inr ())) of
        Inl e \<Rightarrow> (Inl e, sv)
      | Inr _ \<Rightarrow>
          (case bk_delete_datasource (tl_backend env) (sv_store sv) name of
             (Inl e, s) \<Rightarrow> (Inl (tool_error_new ''DATASOURCE_DELETE_FAILED'' (tl_storage_text env e)), sv\<lparr>sv_store := s\<rparr>)
           | (Inr deleted, s) \<Rightarrow>
               (if \<not> deleted then Inl (no_datasource_named name)
                else Inr (json_object [(''name'', JString name), (''deleted'', JBool True)]),
                sv\<lparr>sv_store := s\<rparr>)))"

subsection \<open>Calls\<close>

text \<open>A tool that reads, and one that writes, on its decoded arguments.\<close>

definition reads ::
    "'s tool_state \<Rightarrow> tool_error + 'i \<Rightarrow> ('i \<Rightarrow> (tool_error + json) \<times> effect list)
      \<Rightarrow> (tool_error + json) \<times> 's tool_state \<times> effect list" where
  "reads sv args f =
     (case args of
        Inl e \<Rightarrow> (Inl e, sv, [])
      | Inr i \<Rightarrow> (case f i of (r, eff) \<Rightarrow> (r, sv, eff)))"

definition writes ::
    "'s tool_state \<Rightarrow> tool_error + 'i \<Rightarrow> ('i \<Rightarrow> 's tool_outcome)
      \<Rightarrow> (tool_error + json) \<times> 's tool_state \<times> effect list" where
  "writes sv args f =
     (case args of
        Inl e \<Rightarrow> (Inl e, sv, [])
      | Inr i \<Rightarrow> (case f i of (r, sv') \<Rightarrow> (r, sv', [])))"

definition tool_dispatch ::
    "'s tool_env \<Rightarrow> tool_catalog \<Rightarrow> 's tool_state \<Rightarrow> call_context \<Rightarrow> string \<Rightarrow> json
      \<Rightarrow> (tool_error + json) \<times> 's tool_state \<times> effect list" where
  "tool_dispatch env c sv ctx name args =
     (let dc = tl_decode env in
      if name = ''get_capabilities'' then (Inr (tool_capabilities env c ctx), sv, [])
      else if name = ''tools_list'' then (Inr (tool_list env c), sv, [])
      else if name = ''list_models'' then
        reads sv (parse_args (dc_list_models dc) args) (\<lambda>i. (tool_list_models env sv ctx i, []))
      else if name = ''search_models'' then
        reads sv (parse_args (dc_search_models dc) args) (\<lambda>i. (tool_search_models env sv ctx i, []))
      else if name = ''get_model'' then
        reads sv (parse_args (dc_get_model dc) args) (\<lambda>i. (tool_get_model env sv ctx i, []))
      else if name = ''validate_query'' then
        reads sv (parse_args (dc_validate_query dc) args) (\<lambda>i. (Inr (tool_validate_query env sv ctx i), []))
      else if name = ''run_query'' then
        reads sv (parse_args (dc_run_query dc) args) (tool_run_query env c sv ctx)
      else if name = ''multi_stage_query'' then
        reads sv (parse_args (dc_multi_stage dc) args) (tool_multi_stage env sv ctx)
      else if name = ''recall_memories'' then
        reads sv (parse_args (dc_recall dc) args) (\<lambda>i. (tool_recall env sv ctx i, []))
      else if name = ''remember'' then
        writes sv (parse_args (dc_remember dc) args) (tool_remember env sv ctx)
      else if name = ''create_model'' then
        writes sv (parse_args (dc_create_model dc) args) (tool_create_model env sv ctx)
      else if name = ''update_model'' then
        writes sv (parse_args (dc_update_model dc) args) (tool_update_model env sv ctx)
      else if name = ''delete_model'' then
        writes sv (parse_args (dc_delete_model dc) args) (tool_delete_model env sv ctx)
      else if name = ''create_datasource'' then
        writes sv (parse_args (dc_create_datasource dc) args) (tool_create_datasource env sv ctx)
      else if name = ''update_datasource'' then
        writes sv (parse_args (dc_update_datasource dc) args) (tool_update_datasource env sv ctx)
      else if name = ''delete_datasource'' then
        writes sv (parse_args (dc_delete_datasource dc) args) (tool_delete_datasource env sv ctx)
      else (Inl (unknown_tool name), sv, []))"

definition catalog_call ::
    "'s tool_env \<Rightarrow> tool_catalog \<Rightarrow> 's tool_state \<Rightarrow> call_context \<Rightarrow> string \<Rightarrow> json
      \<Rightarrow> (tool_error + json) \<times> 's tool_state \<times> effect list" where
  "catalog_call env c sv ctx name args =
     (case catalog_get c name of
        None \<Rightarrow> (Inl (unknown_tool name), sv, [])
      | Some spec \<Rightarrow>
          if ts_mutating spec \<and> \<not> ct_allow_mutations c then
            (Inl (with_hint (tool_error_new ''MUTATIONS_DISABLED'' (''Tool '' @ name @ '' is disabled on this server''))
               (''Model and datasource mutations are disabled for agents by default. ''
                @ ''Ask an administrator to enable them if truly required.'')), sv, [])
          else tool_dispatch env c sv ctx name (if args = JNull then json_object [] else args))"

end
