(* ===== verification/Tool_Safety.thy ===== *)
theory Tool_Safety
  imports Tools
begin

text \<open>
  What the tools guarantee: who may change what, that storage, files and engine agree after every call
  (locale \<open>tool_invariant\<close>, interpreted for the YAML backend), what the changing tools achieve, and
  what queries and recalls reveal.
\<close>

subsection \<open>Who may change what\<close>

lemma register_saved_store [simp]: "sv_store (snd (register_saved env ctx d sv m)) = sv_store sv"
  by (auto simp: register_saved_def split: sum.split)

lemma not_admin_rejected:
  assumes "\<not> cc_is_admin ctx"
  shows "snd (tool_create_model env sv ctx i1) = sv" "snd (tool_update_model env sv ctx i2) = sv"
    "snd (tool_delete_model env sv ctx i3) = sv" "snd (tool_create_datasource env sv ctx i4) = sv"
    "snd (tool_update_datasource env sv ctx i5) = sv" "snd (tool_delete_datasource env sv ctx i6) = sv"
  using assms
  by (simp_all add: require_admin_def tool_create_model_def tool_update_model_def tool_delete_model_def
      tool_create_datasource_def tool_update_datasource_def tool_delete_datasource_def)

lemma reads_state [simp]: "fst (snd (reads sv args f)) = sv"
  by (auto simp: reads_def split: sum.split prod.split)

lemma writes_state:
  "fst (snd (writes sv args f)) = (case args of Inl _ \<Rightarrow> sv | Inr i \<Rightarrow> snd (f i))"
  by (auto simp: writes_def split: sum.split prod.split)

lemma writes_quiet [simp]: "snd (snd (writes sv args f)) = []"
  by (auto simp: writes_def split: sum.split prod.split)

definition mutating_tools :: "string list" where
  "mutating_tools =
     [''create_model'', ''update_model'', ''delete_model'', ''create_datasource'', ''update_datasource'',
      ''delete_datasource'']"

lemma builtin_mutating: "list_all (\<lambda>s. ts_mutating s \<longleftrightarrow> ts_name s \<in> set mutating_tools) builtin_tools"
  by code_simp

lemma catalog_get_spec:
  "catalog_get c name = Some spec \<Longrightarrow>
     ts_name spec = name \<and> spec \<in> set builtin_tools \<and>
     (ts_mutating spec \<longleftrightarrow> name \<in> set mutating_tools) \<and> (ts_mutating spec \<longrightarrow> ct_allow_mutations c)"
  using builtin_mutating
  by (auto simp: catalog_get_def find_Some_iff list_all_iff split: option.splits if_splits)

lemma remember_state:
  "snd (tool_remember env sv ctx input) \<noteq> sv \<Longrightarrow> cc_auth_required ctx \<longrightarrow> cc_user_id ctx \<noteq> None"
  by (auto simp: tool_remember_def require_authenticated_def split: if_splits)

lemma dispatch_state:
  assumes "fst (snd (tool_dispatch env c sv ctx name args)) \<noteq> sv"
  shows "name = ''remember'' \<and> (cc_auth_required ctx \<longrightarrow> cc_user_id ctx \<noteq> None) \<or>
    cc_is_admin ctx \<and> name \<in> set mutating_tools"
proof (cases "name = ''remember''")
  case True
  then show ?thesis
    using assms remember_state [of env sv ctx]
    by (simp add: tool_dispatch_def Let_def writes_state split: sum.splits)
next
  case False
  have "name \<in> set mutating_tools"
  proof (rule ccontr)
    assume no: "name \<notin> set mutating_tools"
    then have "name \<noteq> ''create_model''" "name \<noteq> ''update_model''" "name \<noteq> ''delete_model''"
      "name \<noteq> ''create_datasource''" "name \<noteq> ''update_datasource''" "name \<noteq> ''delete_datasource''"
      by (auto simp: mutating_tools_def)
    then have "fst (snd (tool_dispatch env c sv ctx name args)) = sv"
      unfolding tool_dispatch_def Let_def using False by (simp only: if_False if_distrib [of "\<lambda>x. fst (snd x)"] reads_state fst_conv snd_conv if_cancel)
    then show False using assms by simp
  qed
  moreover have "cc_is_admin ctx"
  proof (rule ccontr)
    assume "\<not> cc_is_admin ctx"
    note rejected = not_admin_rejected [OF this, of env sv]
    have "fst (snd (writes sv a f)) = sv" if "\<And>i. snd (f i) = sv" for a f
      using that by (simp add: writes_state split: sum.split)
    note quiet = this [OF rejected(1)] this [OF rejected(2)] this [OF rejected(3)] this [OF rejected(4)]
      this [OF rejected(5)] this [OF rejected(6)]
    have "fst (snd (tool_dispatch env c sv ctx name args)) = sv"
      unfolding tool_dispatch_def Let_def using False
      by (simp only: if_False if_distrib [of "\<lambda>x. fst (snd x)"] reads_state quiet fst_conv snd_conv if_cancel)
    then show False using assms by simp
  qed
  ultimately show ?thesis by simp
qed


subsection \<open>Storage, files and engine agree\<close>

text \<open>What every writing tool keeps, every call keeps.\<close>

locale tool_invariant =
  fixes env :: "'s tool_env" and ctx :: call_context and P :: "'s tool_state \<Rightarrow> bool"
  assumes remember: "P sv \<Longrightarrow> P (snd (tool_remember env sv ctx i0))"
    and create_model: "P sv \<Longrightarrow> P (snd (tool_create_model env sv ctx i1))"
    and update_model: "P sv \<Longrightarrow> P (snd (tool_update_model env sv ctx i2))"
    and delete_model: "P sv \<Longrightarrow> P (snd (tool_delete_model env sv ctx i3))"
    and create_datasource: "P sv \<Longrightarrow> P (snd (tool_create_datasource env sv ctx i4))"
    and update_datasource: "P sv \<Longrightarrow> P (snd (tool_update_datasource env sv ctx i5))"
    and delete_datasource: "P sv \<Longrightarrow> P (snd (tool_delete_datasource env sv ctx i6))"
begin

lemma writes_keep: "P sv \<Longrightarrow> (\<And>i. P (snd (f i))) \<Longrightarrow> P (fst (snd (writes sv a f)))"
  by (simp add: writes_state split: sum.split)

lemma dispatch_keeps: "P sv \<Longrightarrow> P (fst (snd (tool_dispatch env c sv ctx name args)))"
  unfolding tool_dispatch_def Let_def if_distrib [of "\<lambda>x. P (fst (snd x))"]
  by (simp only: reads_state fst_conv snd_conv writes_keep remember create_model update_model delete_model
      create_datasource update_datasource delete_datasource if_cancel if_True)

lemma call_keeps: "P sv \<Longrightarrow> P (fst (snd (catalog_call env c sv ctx name args)))"
  by (auto simp: catalog_call_def dispatch_keeps split: option.split)

end

definition in_sync :: "yaml_storage tool_state \<Rightarrow> bool" where
  "in_sync sv \<longleftrightarrow> yaml_inv (sv_store sv) \<and>
     (\<forall>n. lookup_model (sv_engine sv) n = map_of (ys_models (sv_store sv)) n)"

lemma sync_save: "in_sync sv \<Longrightarrow> in_sync (sv\<lparr>sv_store := snd (yaml_save_memory True (sv_store sv) m)\<rparr>)"
  by (auto simp: in_sync_def yaml_inv_def yaml_save_memory_def store_defs intro: store_ok_update)

lemma sync_datasources:
  "in_sync sv \<Longrightarrow> in_sync (sv\<lparr>sv_store := snd (yaml_create_datasource True (sv_store sv) d)\<rparr>)"
  "in_sync sv \<Longrightarrow> ds_name d = n \<Longrightarrow> in_sync (sv\<lparr>sv_store := snd (yaml_update_datasource True (sv_store sv) n d)\<rparr>)"
  "in_sync sv \<Longrightarrow> in_sync (sv\<lparr>sv_store := snd (yaml_delete_datasource True (sv_store sv) n)\<rparr>)"
  by (auto simp: in_sync_def yaml_inv_def yaml_create_datasource_def yaml_update_datasource_def
      yaml_delete_datasource_def store_defs intro: store_ok_update store_ok_delete)

lemma sync_create:
  "in_sync sv \<Longrightarrow> yaml_create_model True (sv_store sv) m = (Inr saved, s) \<Longrightarrow>
     saved = m \<and> in_sync (sv\<lparr>sv_store := s, sv_engine := register_model (sv_engine sv) m\<rparr>)"
  "yaml_create_model True (sv_store sv) m = (Inl e, s) \<Longrightarrow> s = sv_store sv"
  by (auto simp: in_sync_def yaml_inv_def yaml_create_model_def store_defs register_model_def lookup_model_def
      update_conv' intro: store_ok_update split: if_splits)

lemma sync_update:
  "in_sync sv \<Longrightarrow> mo_name m = n \<Longrightarrow> yaml_update_model True (sv_store sv) n m = (Inr saved, s) \<Longrightarrow>
     saved = m \<and> in_sync (sv\<lparr>sv_store := s, sv_engine := register_model (sv_engine sv) m\<rparr>)"
  "yaml_update_model True (sv_store sv) n m = (Inl e, s) \<Longrightarrow> s = sv_store sv"
  by (auto simp: in_sync_def yaml_inv_def yaml_update_model_def store_defs register_model_def lookup_model_def
      update_conv' intro: store_ok_update split: if_splits)

lemma sync_delete:
  "in_sync sv \<Longrightarrow> yaml_delete_model True (sv_store sv) n d = (Inr True, s) \<Longrightarrow>
     in_sync (sv\<lparr>sv_store := s, sv_engine := unregister_model (sv_engine sv) n\<rparr>)"
  "yaml_delete_model True (sv_store sv) n d = (r, s) \<Longrightarrow> r \<noteq> Inr True \<Longrightarrow> s = sv_store sv"
  by (auto simp: in_sync_def yaml_inv_def yaml_delete_model_def store_defs unregister_model_def lookup_model_def
      delete_conv' Let_def intro: store_ok_delete split: if_splits option.splits)

lemma register_saved_admin:
  "cc_is_admin ctx \<Longrightarrow> snd (register_saved env ctx d sv m) = sv\<lparr>sv_engine := register_model (sv_engine sv) m\<rparr>"
  by (simp add: register_saved_def register_model_governed_def require_admin_def)

lemma updated_model_name: "updated_model input m = Inr m' \<Longrightarrow> mo_name m' = mo_name m"
  by (auto simp: updated_model_def Let_def branch_simps split: option.splits)

lemma sync_keyed: "in_sync sv \<Longrightarrow> yaml_get_model (sv_store sv) n None = Some m \<Longrightarrow> mo_name m = n"
  by (auto simp: in_sync_def yaml_inv_def yaml_get_model_def store_ok_def split: option.splits dest: map_of_SomeD)

lemma sync_keyed_datasource: "in_sync sv \<Longrightarrow> yaml_get_datasource (sv_store sv) n = Some d \<Longrightarrow> ds_name d = n"
  by (auto simp: in_sync_def yaml_inv_def yaml_get_datasource_def store_ok_def dest: map_of_SomeD)

lemma updated_datasource_name [simp]: "ds_name (updated_datasource input ds) = ds_name ds"
  by (simp add: updated_datasource_def Let_def split: option.split)

abbreviation on_yaml :: "yaml_storage tool_env \<Rightarrow> yaml_storage tool_env" where
  "on_yaml env \<equiv> env\<lparr>tl_backend := yaml_backend True\<rparr>"

text \<open>The ways a change can end: nothing touched, the storage refused, or stored and made known.\<close>

lemma create_model_ends:
  "snd (tool_create_model env sv ctx input) = sv \<or>
   (\<exists>m e s. bk_create_model (tl_backend env) (sv_store sv) m = (Inl e, s) \<and>
      snd (tool_create_model env sv ctx input) = sv\<lparr>sv_store := s\<rparr>) \<or>
   (\<exists>m saved s. bk_create_model (tl_backend env) (sv_store sv) m = (Inr saved, s) \<and>
      snd (tool_create_model env sv ctx input) =
        sv\<lparr>sv_store := s, sv_engine := register_model (sv_engine sv) saved\<rparr>)"
  by (cases "cc_is_admin ctx")
    (fastforce simp: tool_create_model_def require_admin_def register_saved_def register_model_governed_def
      split: sum.split prod.split)+

lemma update_model_ends:
  "snd (tool_update_model env sv ctx input) = sv \<or>
   (\<exists>m e s. bk_update_model (tl_backend env) (sv_store sv) (um_name input) m = (Inl e, s) \<and>
      snd (tool_update_model env sv ctx input) = sv\<lparr>sv_store := s\<rparr>) \<or>
   (\<exists>m0 m saved s. bk_get_model (tl_backend env) (sv_store sv) (um_name input) None = Inr (Some m0) \<and>
      updated_model input m0 = Inr m \<and>
      bk_update_model (tl_backend env) (sv_store sv) (um_name input) m = (Inr saved, s) \<and>
      snd (tool_update_model env sv ctx input) =
        sv\<lparr>sv_store := s, sv_engine := register_model (sv_engine sv) saved\<rparr>)"
proof (cases "\<exists>m0 m. cc_is_admin ctx \<and> updated_model input m0 = Inr m \<and>
    bk_get_model (tl_backend env) (sv_store sv) (um_name input) None = Inr (Some m0)")
  case True
  then obtain m0 m where found: "cc_is_admin ctx" "updated_model input m0 = Inr m"
    "bk_get_model (tl_backend env) (sv_store sv) (um_name input) None = Inr (Some m0)"
    by blast
  obtain r s where upd: "bk_update_model (tl_backend env) (sv_store sv) (um_name input) m = (r, s)"
    by fastforce
  show ?thesis
  proof (cases r)
    case (Inl e)
    then have "snd (tool_update_model env sv ctx input) = sv\<lparr>sv_store := s\<rparr>"
      using found upd by (simp add: tool_update_model_def require_admin_def storage_failed_def ok_or_def)
    then show ?thesis using upd Inl by blast
  next
    case (Inr saved)
    then have "snd (tool_update_model env sv ctx input) =
        sv\<lparr>sv_store := s, sv_engine := register_model (sv_engine sv) saved\<rparr>"
      using found upd
      by (simp add: tool_update_model_def require_admin_def storage_failed_def ok_or_def register_saved_def
          register_model_governed_def)
    then show ?thesis using upd Inr found by blast
  qed
next
  case False
  then have "snd (tool_update_model env sv ctx input) = sv"
    by (cases "cc_is_admin ctx"; cases "bk_get_model (tl_backend env) (sv_store sv) (um_name input) None")
      (auto simp: tool_update_model_def require_admin_def storage_failed_def ok_or_def branch_simps split: sum.split option.splits)
  then show ?thesis by blast
qed

lemma delete_model_ends:
  "snd (tool_delete_model env sv ctx input) = sv \<or>
   (\<exists>r s. bk_delete_model (tl_backend env) (sv_store sv) (dm_name input) (dm_datasource input) = (r, s) \<and>
      r \<noteq> Inr True \<and> snd (tool_delete_model env sv ctx input) = sv\<lparr>sv_store := s\<rparr>) \<or>
   (\<exists>s. bk_delete_model (tl_backend env) (sv_store sv) (dm_name input) (dm_datasource input) = (Inr True, s) \<and>
      snd (tool_delete_model env sv ctx input) =
        sv\<lparr>sv_store := s, sv_engine := unregister_model (sv_engine sv) (dm_name input)\<rparr>)"
  by (cases "cc_is_admin ctx")
    (auto simp: tool_delete_model_def require_admin_def unregister_model_governed_def Let_def
      split: sum.split prod.split)

lemma sync_updated:
  assumes "in_sync sv" "yaml_get_model (sv_store sv) n None = Some m0" "updated_model input m0 = Inr m"
    "yaml_update_model True (sv_store sv) n m = (Inr saved, s)"
  shows "in_sync (sv\<lparr>sv_store := s, sv_engine := register_model (sv_engine sv) saved\<rparr>)"
  using sync_update(1) [of sv m n saved s] sync_keyed [of sv n m0] updated_model_name [of input m0 m] assms by auto

interpretation yaml_sync: tool_invariant "on_yaml env" ctx in_sync for env ctx
proof unfold_locales
  fix sv :: "yaml_storage tool_state" and i0 i1 i2 i3 i4 i5 i6
  assume sync: "in_sync sv"
  show "in_sync (snd (tool_remember (on_yaml env) sv ctx i0))"
    using sync_save [OF sync] sync
    by (auto simp: tool_remember_def yaml_backend_def split: sum.split option.split prod.split) (metis snd_conv)+
  show "in_sync (snd (tool_create_model (on_yaml env) sv ctx i1))"
    using create_model_ends [of "on_yaml env" sv ctx i1] sync
    by (elim disjE exE conjE) (auto simp: yaml_backend_def dest: sync_create(1) [OF sync] sync_create(2))
  show "in_sync (snd (tool_update_model (on_yaml env) sv ctx i2))"
    using update_model_ends [of "on_yaml env" sv ctx i2] sync
    by (elim disjE exE conjE) (auto simp: yaml_backend_def intro: sync_updated [OF sync] dest: sync_update(2))
  show "in_sync (snd (tool_delete_model (on_yaml env) sv ctx i3))"
    using delete_model_ends [of "on_yaml env" sv ctx i3] sync
    by (elim disjE exE conjE) (auto simp: yaml_backend_def dest: sync_delete(1) [OF sync] sync_delete(2))
  show "in_sync (snd (tool_create_datasource (on_yaml env) sv ctx i4))"
    using sync sync_datasources(1) [OF sync]
    by (auto simp: tool_create_datasource_def yaml_backend_def split: sum.split prod.split) (metis snd_conv)+
  show "in_sync (snd (tool_update_datasource (on_yaml env) sv ctx i5))"
    using sync sync_datasources(2) [OF sync] sync_keyed_datasource [OF sync]
    by (auto simp: tool_update_datasource_def yaml_backend_def storage_failed_def branch_simps
        split: sum.split prod.split) (metis snd_conv updated_datasource_name)+
  show "in_sync (snd (tool_delete_datasource (on_yaml env) sv ctx i6))"
    using sync sync_datasources(3) [OF sync]
    by (auto simp: tool_delete_datasource_def yaml_backend_def split: sum.split prod.split) (metis snd_conv)+
qed


subsection \<open>What the changes achieve\<close>

text \<open>
  A model reported as created was built from the input by an administrator, its name was free, and
  it is what both the storage and the engine find under that name afterwards; no other model is
  touched.
\<close>

lemma created_model_is_known:
  assumes "tool_create_model (on_yaml env) sv ctx input = (Inr out, sv')"
  shows "\<exists>ms tds. cc_is_admin ctx \<and> (cm_measures input \<noteq> [] \<or> cm_dimensions input \<noteq> []) \<and>
    rmap build_measure (cm_measures input) = Inr ms \<and>
    rmap build_time_dimension (cm_time_dimensions input) = Inr tds \<and>
    yaml_get_model (sv_store sv) (cm_name input) None = None \<and>
    yaml_get_model (sv_store sv') (cm_name input) None = Some (input_model input ms tds) \<and>
    (\<forall>n. lookup_model (sv_engine sv') n =
       (if n = cm_name input then Some (input_model input ms tds) else lookup_model (sv_engine sv) n)) \<and>
    (\<forall>n. n \<noteq> cm_name input \<longrightarrow> map_of (ys_models (sv_store sv')) n = map_of (ys_models (sv_store sv)) n)"
  using assms
  by (cases "cc_is_admin ctx")
    (auto simp: tool_create_model_def require_admin_def register_saved_def register_model_governed_def branch_simps
      yaml_backend_def yaml_create_model_def yaml_get_model_def store_defs register_model_def lookup_model_def
      update_conv' input_model_def split: sum.splits prod.splits if_splits option.splits)

text \<open>
  A datasource reported as deleted was there, is gone, and no stored model reads from it; models and
  the other datasources stay.
\<close>

lemma deleted_datasource_unused:
  assumes "tool_delete_datasource (on_yaml env) sv ctx name = (Inr out, sv')"
  shows "cc_is_admin ctx \<and> (\<forall>m \<in> snd ` set (ys_models (sv_store sv')). mo_datasource m \<noteq> name) \<and>
    yaml_get_datasource (sv_store sv) name \<noteq> None \<and>
    map_of (ys_datasources (sv_store sv')) = (map_of (ys_datasources (sv_store sv)))(name := None) \<and>
    ys_models (sv_store sv') = ys_models (sv_store sv) \<and> sv_engine sv' = sv_engine sv"
  using assms
  by (cases "cc_is_admin ctx")
    (auto simp: tool_delete_datasource_def require_admin_def yaml_backend_def yaml_list_models_def
      yaml_delete_datasource_def yaml_get_datasource_def storage_failed_def store_defs Let_def filter_empty_conv
      delete_conv' fun_upd_def split: if_splits option.splits)

subsection \<open>What callers get to see\<close>

text \<open>
  The answers of the tools that set a connection string do not depend on it.
\<close>

lemma connection_strings_stay_inside:
  "fst (tool_create_datasource (on_yaml env) sv ctx (i\<lparr>cd_connection_string := a\<rparr>)) =
   fst (tool_create_datasource (on_yaml env) sv ctx (i\<lparr>cd_connection_string := b\<rparr>)) \<and>
   fst (tool_update_datasource (on_yaml env) sv ctx (u\<lparr>ud_connection_string := c\<rparr>)) =
   fst (tool_update_datasource (on_yaml env) sv ctx (u\<lparr>ud_connection_string := d\<rparr>))"
  by (auto simp: tool_create_datasource_def tool_update_datasource_def yaml_backend_def yaml_create_datasource_def
      yaml_update_datasource_def store_defs storage_failed_def updated_datasource_def Let_def
      split: sum.split option.split prod.split if_splits)

lemma core_query_plain:
  assumes "to_core_query ft input = Inr q"
  shows "q_source_model q = None" "q_name q = tq_name input" "query_model_name q = q_name q"
    "list_all (\<lambda>f. \<not> fl_or f) (q_filters q)"
proof -
  have "\<not> fl_or f" if "parse_filter ft s = Inr f" for s f
    using that by (auto simp: parse_filter_def Let_def split: prod.splits if_splits tool_operator.splits)
  then have "list_all (\<lambda>f. \<not> fl_or f) fs" if "rmap (parse_filter ft) ss = Inr fs" for ss fs
    using that by (fastforce simp: rmap_Inr list_all2_conv_all_nth list_all_length)
  moreover have "nonblank x = Some n \<longleftrightarrow> x = Some n \<and> trim n \<noteq> []" for x n
    by (auto simp: nonblank_def split: option.split)
  ultimately show "q_source_model q = None" "q_name q = tq_name input" "query_model_name q = q_name q"
    "list_all (\<lambda>f. \<not> fl_or f) (q_filters q)"
    using assms by (auto simp: to_core_query_def branch_simps query_model_name_def split: if_splits)
qed

lemma where_holds_plain:
  "list_all (\<lambda>f. \<not> fl_or f) fs \<Longrightarrow> where_holds P fs \<longleftrightarrow> list_all P fs"
  by (cases fs) (auto simp: where_holds_def or_groups_from_single)

lemma first_unknown_None: "first_unknown known fs = None \<longleftrightarrow> set fs \<subseteq> set known"
  by (induction fs) auto

lemma check_known_Inr:
  "check_known known q = Inr u \<longleftrightarrow> set (map fl_field (q_filters q)) \<union> set (map d_name (q_dimensions q)) \<subseteq> set known"
  using first_unknown_None [of known "map fl_field (q_filters q)"] first_unknown_None [of known "map d_name (q_dimensions q)"]
  by (auto simp: check_known_def split: option.split)

lemma check_fields_Inr:
  assumes "check_fields env sv ctx q = Inr u" and "query_model_name q = Some n"
  shows "\<exists>m. get_model_governed (service_of env sv) ctx n None = Inr m \<and>
    set (map fl_field (q_filters q)) \<union> set (map d_name (q_dimensions q)) \<subseteq> set (field_names m)"
  using assms by (auto simp: check_fields_def Let_def check_known_Inr split: sum.splits option.splits if_splits)

lemma get_model_governed_Inr:
  "get_model_governed env ctx n d = Inr m \<longleftrightarrow>
     se_get_model env n d = Inr (Some m) \<and> model_visible (context_policy ctx) n (mo_datasource m)"
  by (cases "check_model_access (context_policy ctx) n"; cases "se_get_model env n d";
      cases "check_datasource_access (context_policy ctx) (mo_datasource m)")
    (auto simp: get_model_governed_def model_visible_def branch_simps ok_or_def split: option.split)

lemma service_of_simps [simp]:
  "se_get_model (service_of env sv) n d = map_err (tl_storage_text env) (bk_get_model (tl_backend env) (sv_store sv) n d)"
  "se_get_datasource (service_of env sv) n =
     map_err (tl_storage_text env) (bk_get_datasource (tl_backend env) (sv_store sv) n)"
  "se_generate_sql (service_of env sv) = tl_generate env (sv_engine sv)"
  by (simp_all add: service_of_def Let_def)

text \<open>
  C3. What an agent's query executes: the model is the one the query names, exists, and is allowed with its
  datasource; every field of a filter and every dimension is one of its fields (measures, time
  dimensions and orders are not checked); the limit is at most the one asked for or the default; and
  the query's filters, none of which an agent can mark OR, are followed by the policy's, so that,
  for a policy without OR filters of its own, every row satisfies them all.
\<close>

theorem run_query_governed:
  assumes "Executed ds sql \<in> set (snd (tool_run_query env c sv ctx input))"
  shows "\<exists>core n m q. to_core_query (tl_float env) (ri_query input) = Inr core \<and>
    tq_name (ri_query input) = Some n \<and> ri_dry_run input \<noteq> Some True \<and>
    bk_get_model (tl_backend env) (sv_store sv) n None = Inr (Some m) \<and>
    bk_get_datasource (tl_backend env) (sv_store sv) (mo_datasource m) = Inr (Some ds) \<and>
    model_visible (context_policy ctx) n (mo_datasource m) \<and>
    fl_field ` set (q_filters core) \<union> d_name ` set (q_dimensions core) \<subseteq> set (field_names m) \<and>
    tl_generate env (sv_engine sv) q = Inr sql \<and> query_model_name q = Some n \<and>
    (\<exists>l \<le> unwrap_or (ri_max_rows input) (ct_default_max_rows c). q_limit q = Some l) \<and>
    q_filters q = q_filters core @ policy_filters (context_policy ctx) \<and> list_all (\<lambda>f. \<not> fl_or f) (q_filters core) \<and>
    (list_all (\<lambda>f. \<not> fl_or f) (policy_filters (context_policy ctx)) \<longrightarrow>
      (\<forall>P. where_holds P (q_filters q) \<longleftrightarrow> list_all P (q_filters core) \<and> list_all P (policy_filters (context_policy ctx))))"
proof -
  obtain core u where core: "to_core_query (tl_float env) (ri_query input) = Inr core"
      "check_fields env sv ctx core = Inr u"
    and run: "Executed ds sql \<in> set (snd (execute_query (service_of env sv) ctx core (run_options c input)))"
    using assms(1) by (auto simp: tool_run_query_def branch_simps split: sum.splits prod.splits)
  note plain = core_query_plain [OF core(1)]
  obtain n m q limit where plan: "plan_query (service_of env sv) ctx core (run_options c input) = Inr (n, m, q, limit, sql)"
    and live: "\<not> eo_dry_run (run_options c input)"
    and ds: "bk_get_datasource (tl_backend env) (sv_store sv) (mo_datasource m) = Inr (Some ds)"
    using execute_query_Executed [OF run] by (auto simp: branch_simps)
  note facts = plan [unfolded plan_query_Inr]
  have n: "query_model_name core = Some n" using facts by simp
  obtain m' where m': "get_model_governed (service_of env sv) ctx n None = Inr m'"
    "set (map fl_field (q_filters core)) \<union> set (map d_name (q_dimensions core)) \<subseteq> set (field_names m')"
    using check_fields_Inr [OF core(2) n] by blast
  have "m' = m" using m'(1) facts by (simp add: get_model_governed_Inr)
  have q: "q = governed_query (context_policy ctx) (eo_max_rows (run_options c input)) core" using facts by simp
  have "the (q_limit q) \<le> effective_cap (context_policy ctx) (eo_max_rows (run_options c input))"
    by (simp add: q governed_query_def)
  also have "\<dots> \<le> unwrap_or (ri_max_rows input) (ct_default_max_rows c mod 2 ^ 32)"
    by (simp add: effective_cap_def run_options_def Let_def split: option.split)
  also have "\<dots> \<le> unwrap_or (ri_max_rows input) (ct_default_max_rows c)"
    by (cases "ri_max_rows input") simp_all
  finally have limit: "\<exists>l \<le> unwrap_or (ri_max_rows input) (ct_default_max_rows c). q_limit q = Some l"
    by (simp add: q governed_query_def)
  have filters: "q_filters q = q_filters core @ policy_filters (context_policy ctx)" by (simp add: q governed_query_def)
  have holds: "where_holds P (q_filters q) \<longleftrightarrow> list_all P (q_filters core) \<and> list_all P (policy_filters (context_policy ctx))"
    if "list_all (\<lambda>f. \<not> fl_or f) (policy_filters (context_policy ctx))" for P
    using where_holds_plain [of "q_filters q" P] plain(4) that by (simp add: filters)
  have "query_model_name q = Some n" using n by (simp add: q governed_query_def query_model_name_def)
  moreover have "ri_dry_run input \<noteq> Some True" using live by (auto simp: run_options_def Let_def)
  moreover have "tq_name (ri_query input) = Some n" using plain n by simp
  ultimately show ?thesis
    using core(1) m'(2) facts ds limit holds filters plain(4) unfolding \<open>m' = m\<close>
    by - (rule exI [of _ core], rule exI [of _ n], rule exI [of _ m], rule exI [of _ q], auto simp: branch_simps)
qed

lemma get_model_denied:
  "check_model_access (context_policy ctx) n = Inl e \<Longrightarrow>
     get_model_governed env ctx n d = Inl (PolicyViolation e)"
  by (simp add: get_model_governed_def)

lemma explain_denied:
  "explain_model_error env sv ctx (PolicyViolation e) n = explain_model_error env sv' ctx (PolicyViolation e) n"
  by (simp add: explain_model_error_def tool_error_of_def Let_def)

lemma check_fields_denied:
  assumes "check_model_access (context_policy ctx) n = Inl e" "query_model_name q = Some n"
  shows "\<exists>x. \<forall>sv. check_fields env sv ctx q = Inl x"
  using assms explain_denied [of env _ ctx e n]
  by (intro exI [of _ "explain_model_error env undefined ctx (PolicyViolation e) n"])
    (simp add: check_fields_def get_model_denied)

text \<open>
  A caller who is denied a model learns nothing about it from asking for it, validating a query over it
  or running one: the answers are the same in every state of the server, whether the model exists
  or not.
\<close>

lemma denied_model_opaque:
  assumes "check_model_access (context_policy ctx) n = Inl e"
    and "gi_name input = n" and "tq_name (ri_query run) = Some n"
  shows "tool_get_model env sv ctx input = tool_get_model env sv' ctx input \<and>
    tool_validate_query env sv ctx (ri_query run) = tool_validate_query env sv' ctx (ri_query run) \<and>
    tool_run_query env c sv ctx run = tool_run_query env c sv' ctx run"
proof (cases "to_core_query (tl_float env) (ri_query run)")
  case (Inl x)
  then show ?thesis
    using assms explain_denied [of env sv ctx e n sv']
    by (simp add: tool_get_model_def get_model_denied tool_validate_query_def compile_query_def tool_run_query_def)
next
  case (Inr core)
  have "query_model_name core = Some n" using core_query_plain(2,3) [OF Inr] assms(3) by simp
  from check_fields_denied [OF assms(1) this, of env]
  obtain x where x: "\<And>sv. check_fields env sv ctx core = Inl x" by blast
  show ?thesis
    using assms Inr x explain_denied [of env sv ctx e n sv']
    by (simp add: tool_get_model_def get_model_denied tool_validate_query_def compile_query_def tool_run_query_def)
qed

text \<open>
  Executing a query looks the model up before it asks the policy: a caller who is denied a model can
  tell whether it exists, which asking for the model itself does not reveal.
\<close>

lemma execution_reveals_models:
  assumes "query_model_name q = Some n" and "cc_auth_required ctx \<longrightarrow> cc_user_id ctx \<noteq> None"
    and "check_model_access (context_policy ctx) n = Inl e"
  shows "fst (execute_query env ctx q opts) =
    Inl (case se_get_model env n None of
           Inl x \<Rightarrow> StorageFailed x
         | Inr None \<Rightarrow> SvModelNotFound n
         | Inr (Some m) \<Rightarrow> PolicyViolation e)"
  using assms
  by (auto simp: execute_query_def plan_query_def require_authenticated_def apply_policy_def ok_or_def branch_simps
      split: sum.splits option.splits)

text \<open>
  A user who recalls memories gets at most as many as asked for, all of them stored, and none that
  belongs to another user or another tenant.
\<close>

lemma recall_isolated:
  assumes "tool_recall env sv ctx input = Inr out" and "cc_user_id ctx = Some u"
  shows "\<exists>rows rs. bk_list_memories (tl_backend env) (sv_store sv) (recall_filter input) = Inr rows \<and>
    out = json_object [(''memories'', JArray (map (memory_record_json (tl_float env)) rs)),
      (''count'', json_nat (length rs))] \<and>
    length rs \<le> unwrap_or (rc_limit input) 10 \<and> set rs \<subseteq> record_from_storage ` set rows \<and>
    (\<forall>r \<in> set rs. mr_scope r = GlobalScope \<or> mr_scope r = UserScope u \<or>
       (\<exists>t. cc_tenant_id ctx = Some t \<and> mr_scope r = TenantScope t))"
proof -
  obtain rows where rows: "bk_list_memories (tl_backend env) (sv_store sv) (recall_filter input) = Inr rows"
    and out: "out = json_object [(''memories'', JArray (map (memory_record_json (tl_float env))
        (take (unwrap_or (rc_limit input) 10) (ranked (tl_age env) (map record_from_storage rows) ctx (rc_query input))))),
      (''count'', json_nat (length (take (unwrap_or (rc_limit input) 10)
        (ranked (tl_age env) (map record_from_storage rows) ctx (rc_query input)))))]"
    using assms(1) by (auto simp: tool_recall_def recalled_def storage_failed_def branch_simps)
  define rs where "rs = take (unwrap_or (rc_limit input) 10) (ranked (tl_age env) (map record_from_storage rows) ctx (rc_query input))"
  have sub: "set rs \<subseteq> {r \<in> record_from_storage ` set rows. visible_to (mr_scope r) ctx}"
    using set_take_subset [of _ "ranked (tl_age env) (map record_from_storage rows) ctx (rc_query input)"]
    unfolding rs_def set_ranked by simp
  have vis: "visible_to s ctx \<Longrightarrow> s = GlobalScope \<or> s = UserScope u \<or> (\<exists>t. cc_tenant_id ctx = Some t \<and> s = TenantScope t)" for s
    using assms(2) by (cases s) auto
  have "length rs \<le> unwrap_or (rc_limit input) 10" by (simp add: rs_def)
  then show ?thesis using rows out [folded rs_def] sub vis by blast
qed

lemma recall_can_starve:
  assumes "bk_list_memories (tl_backend env) (sv_store sv) (recall_filter input) = Inr rows"
    and "\<forall>m \<in> set rows. \<not> visible_to (mr_scope (record_from_storage m)) ctx"
  shows "recalled env sv ctx input = Inr []"
  using assms by (simp add: recalled_def storage_failed_def ranked_def)

text \<open>\<open>tool_capabilities\<close> lists \<open>not_like\<close> among the filter operators; the shorthand refuses it.\<close>

lemma advertised_operator_refused: "\<not> is_ok (parse_filter ft ''name:not_like:x'')"
  by code_simp

subsection \<open>A sample server\<close>

definition sample_create_input :: create_model_input where
  "sample_create_input =
     \<lparr>cm_name = ''orders'', cm_datasource = ''main'', cm_description = None,
      cm_measures = [\<lparr>mi_formula = ''revenue'', mi_aggregation = ''SUM'', mi_label = None, mi_format = None\<rparr>],
      cm_dimensions = [\<lparr>di_name = ''region'', di_label = None\<rparr>], cm_time_dimensions = [],
      cm_base_table = Some ''orders'', cm_sql = None\<rparr>"

definition no_decoders :: decoders where
  "no_decoders =
     \<lparr>dc_list_models = (\<lambda>_. Inl []), dc_search_models = (\<lambda>_. Inl []), dc_get_model = (\<lambda>_. Inl []),
      dc_validate_query = (\<lambda>_. Inl []), dc_run_query = (\<lambda>_. Inl []), dc_multi_stage = (\<lambda>_. Inl []),
      dc_recall = (\<lambda>_. Inl []), dc_remember = (\<lambda>_. Inl []), dc_create_model = (\<lambda>_. Inl []),
      dc_update_model = (\<lambda>_. Inl []), dc_delete_model = (\<lambda>_. Inl []), dc_create_datasource = (\<lambda>_. Inl []),
      dc_update_datasource = (\<lambda>_. Inl []), dc_delete_datasource = (\<lambda>_. Inl [])\<rparr>"

definition sample_tools :: "yaml_storage tool_env" where
  "sample_tools =
     \<lparr>tl_backend = yaml_backend True,
      tl_generate = (\<lambda>g q. rbind (generate (\<lambda>_. []) g q) (\<lambda>r. Inr (gs_display r))),
      tl_run = (\<lambda>_ _ _. Rows []), tl_elapsed_ms = 0, tl_service_text = (\<lambda>_. []), tl_query_text = (\<lambda>_. []),
      tl_storage_text = (\<lambda>_. []), tl_float = (\<lambda>_. ''0''), tl_age = (\<lambda>_. 0), tl_new_id = ''m1'', tl_now = ''now'',
      tl_version = ''1'', tl_schema = (\<lambda>_. JNull),
      tl_decode = no_decoders\<lparr>dc_create_model := (\<lambda>_. Inr sample_create_input)\<rparr>\<rparr>"

definition sample_store :: yaml_storage where
  "sample_store = snd (yaml_save_memory True (snd (yaml_create_datasource True (yaml_new empty_disk) sample_datasource)) sample_row)"

definition sample_state :: "yaml_storage tool_state" where
  "sample_state = \<lparr>sv_store = sample_store, sv_engine = generator_new Postgres\<rparr>"

definition admin_context :: call_context where
  "admin_context = anonymous_context\<lparr>cc_is_admin := True\<rparr>"

lemma sample_in_sync: "in_sync sample_state"
  by (simp add: in_sync_def sample_state_def sample_store_def yaml_inv_def yaml_save_memory_def yaml_create_datasource_def
      store_defs yaml_new_def empty_disk_def store_ok_def lookup_model_def generator_new_def)

lemma sample_created:
  "map fst (ys_models (sv_store (fst (snd (catalog_call sample_tools (with_mutations catalog_new True) sample_state
     admin_context ''create_model'' JNull))))) = [''orders'']"
  by code_simp



lemma on_yaml_sample: "on_yaml sample_tools = sample_tools"
  by (simp add: sample_tools_def)

lemma sample_create_ok: "is_ok (fst (tool_create_model sample_tools sample_state admin_context sample_create_input))"
  by code_simp

lemma created_model_is_known_witness:
  "yaml_get_model (sv_store (snd (tool_create_model sample_tools sample_state admin_context sample_create_input)))
     (cm_name sample_create_input) None \<noteq> None"
proof -
  obtain out sv' where "tool_create_model sample_tools sample_state admin_context sample_create_input = (Inr out, sv')"
    using sample_create_ok by (cases "tool_create_model sample_tools sample_state admin_context sample_create_input")
      (auto simp: is_ok_iff)
  with created_model_is_known [of sample_tools sample_state admin_context sample_create_input out sv']
  show ?thesis by (auto simp: on_yaml_sample)
qed

lemma sample_delete_ok: "is_ok (fst (tool_delete_datasource sample_tools sample_state admin_context ''main''))"
  by code_simp

lemma deleted_datasource_unused_witness:
  "yaml_get_datasource (sv_store sample_state) ''main'' \<noteq> None \<and>
   map_of (ys_datasources (sv_store (snd (tool_delete_datasource sample_tools sample_state admin_context ''main'')))) ''main'' = None"
proof -
  obtain out sv' where "tool_delete_datasource sample_tools sample_state admin_context ''main'' = (Inr out, sv')"
    using sample_delete_ok by (cases "tool_delete_datasource sample_tools sample_state admin_context ''main''")
      (auto simp: is_ok_iff)
  with deleted_datasource_unused [of sample_tools sample_state admin_context "''main''" out sv']
  show ?thesis by (auto simp: on_yaml_sample)
qed

definition sample_run_input :: run_query_input where
  "sample_run_input =
     \<lparr>ri_query = \<lparr>tq_name = Some ''orders'', tq_measures = [], tq_dimensions = [''region''], tq_time_dimensions = [],
        tq_filters = [], tq_order = [], tq_limit = None, tq_offset = None, tq_stage_ref = None\<rparr>,
      ri_dry_run = None, ri_explain = None, ri_max_rows = None\<rparr>"

definition sample_ready :: "yaml_storage tool_state" where
  "sample_ready = snd (tool_create_model sample_tools sample_state admin_context sample_create_input)"

definition sample_core :: query where
  "sample_core = query_add_dimension (query_with_name query_new ''orders'') \<lparr>d_name = ''region'', d_label = None\<rparr>"

lemma sample_core: "to_core_query (tl_float sample_tools) (ri_query sample_run_input) = Inr sample_core"
  by code_simp

lemma sample_fields: "check_fields sample_tools sample_ready sample_context sample_core = Inr ()"
  by code_simp

lemma sample_run_options:
  "run_options catalog_new sample_run_input = \<lparr>eo_dry_run = False, eo_explain = False, eo_max_rows = Some 500\<rparr>"
  by (simp add: run_options_def sample_run_input_def catalog_new_def)

lemma sample_executes:
  "\<exists>ds sql. Executed ds sql \<in> set (snd (tool_run_query sample_tools catalog_new sample_ready sample_context sample_run_input))"
proof -
  have "list_ex (\<lambda>e. case e of Executed d s \<Rightarrow> True | _ \<Rightarrow> False)
     (snd (execute_query (service_of sample_tools sample_ready) sample_context sample_core
        \<lparr>eo_dry_run = False, eo_explain = False, eo_max_rows = Some 500\<rparr>))"
    by code_simp
  then obtain ds sql where "Executed ds sql \<in> set (snd (execute_query (service_of sample_tools sample_ready)
      sample_context sample_core \<lparr>eo_dry_run = False, eo_explain = False, eo_max_rows = Some 500\<rparr>))"
    unfolding list_ex_iff by (metis (no_types, lifting) effect.exhaust effect.simps(6))
  moreover have "snd (tool_run_query sample_tools catalog_new sample_ready sample_context sample_run_input) =
      snd (execute_query (service_of sample_tools sample_ready) sample_context sample_core
        \<lparr>eo_dry_run = False, eo_explain = False, eo_max_rows = Some 500\<rparr>)"
    by (simp add: tool_run_query_def sample_core sample_fields sample_run_options split: sum.split prod.split)
  ultimately show ?thesis by auto
qed

theorem run_query_governed_witness:
  "\<exists>sql q l. tl_generate sample_tools (sv_engine sample_ready) q = Inr sql \<and> q_limit q = Some l \<and> l \<le> 500 \<and>
    (\<forall>P. where_holds P (q_filters q) \<longrightarrow> P (filter_new ''tenant'' Eq (JString ''t1'')))"
proof -
  obtain ds sql where run:
    "Executed ds sql \<in> set (snd (tool_run_query sample_tools catalog_new sample_ready sample_context sample_run_input))"
    using sample_executes by blast
  have filters: "policy_filters (context_policy sample_context) = [filter_new ''tenant'' Eq (JString ''t1'')]"
    by (simp add: sample_policy_of policy_filters_def sample_policy_def)
  have cap: "unwrap_or (ri_max_rows sample_run_input) (ct_default_max_rows catalog_new) = 500"
    by (simp add: sample_run_input_def catalog_new_def)
  have plain: "list_all (\<lambda>f. \<not> fl_or f) (policy_filters (context_policy sample_context))"
    by (simp add: filters filter_new_def)
  obtain core :: query and q l where q: "tl_generate sample_tools (sv_engine sample_ready) q = Inr sql"
    "l \<le> 500" "q_limit q = Some l"
    "\<And>P. where_holds P (q_filters q) \<longleftrightarrow> list_all P (q_filters core) \<and> list_all P (policy_filters (context_policy sample_context))"
    using run_query_governed [OF run, unfolded cap] plain by blast
  show ?thesis by (rule exI [of _ sql], rule exI [of _ q], rule exI [of _ l]) (use q in \<open>auto simp: filters\<close>)
qed

lemma denied_model_opaque_witness:
  "tool_run_query sample_tools catalog_new sample_ready
     (anonymous_context\<lparr>cc_policy := Some (sample_policy\<lparr>sp_denied_models := Some [''orders'']\<rparr>)\<rparr>) sample_run_input =
   tool_run_query sample_tools catalog_new sample_state
     (anonymous_context\<lparr>cc_policy := Some (sample_policy\<lparr>sp_denied_models := Some [''orders'']\<rparr>)\<rparr>) sample_run_input"
proof -
  have "check_model_access (context_policy (anonymous_context\<lparr>cc_policy := Some (sample_policy\<lparr>sp_denied_models := Some [''orders'']\<rparr>)\<rparr>))
      ''orders'' = Inl (ModelDenied ''orders'')"
    by code_simp
  from denied_model_opaque [OF this, of "\<lparr>gi_name = ''orders'', gi_datasource = None\<rparr>" sample_run_input sample_tools sample_ready sample_state catalog_new]
  show ?thesis by (simp add: sample_run_input_def)
qed

lemma recall_isolated_witness:
  "\<exists>rs. tool_recall sample_tools sample_state (caller ''u2'' ''t1'') \<lparr>rc_query = None, rc_entity = None, rc_limit = None\<rparr> =
     Inr (json_object [(''memories'', JArray (map (memory_record_json (tl_float sample_tools)) rs)),
      (''count'', json_nat (length rs))]) \<and> length rs \<le> 10"
proof -
  obtain out where "tool_recall sample_tools sample_state (caller ''u2'' ''t1'')
      \<lparr>rc_query = None, rc_entity = None, rc_limit = None\<rparr> = Inr out"
    by (simp add: tool_recall_def recalled_def storage_failed_def sample_tools_def yaml_backend_def)
  from recall_isolated [OF this, of "''u2''"] this show ?thesis by (auto simp: caller_def)
qed

end
