(* ===== verification/Hybrid.thy ===== *)
theory Hybrid
  imports Tool_Safety "HOL-Library.Multiset" "HOL-Library.Word"
begin

text \<open>
  Hybrid retrieval (\<open>crates/graphnight-runtime/src/embedding.rs\<close> and the search of \<open>tools.rs\<close>): vectors of
  texts beside the lexical search, fused by rank, with a cache of the vectors of model documents.

  Floats are exact rationals; the square root, which fingerprint a text gets, and what an embedding
  provider answers are parameters. Where the code sorts the entries of a hash map, the order of equal
  scores is that of the association list.
\<close>

type_synonym vector = "rat list"

datatype embedding_error =
    EmbNotConfigured
  | EmbProvider string
  | EmbDimensionMismatch nat nat
  | EmbInputTooLong nat
  | EmbInvalid string

fun embedding_error_text :: "embedding_error \<Rightarrow> string" where
  "embedding_error_text EmbNotConfigured = ''embedding provider is not configured''"
| "embedding_error_text (EmbProvider s) = ''embedding request failed: '' @ s"
| "embedding_error_text (EmbDimensionMismatch expected actual) =
     ''embedding dimension mismatch: expected '' @ nat_str expected @ '', got '' @ nat_str actual"
| "embedding_error_text (EmbInputTooLong n) =
     ''text exceeds the embedder'' @ squote @ ''s input limit ('' @ nat_str n @ '' bytes)''"
| "embedding_error_text (EmbInvalid s) = s"

subsection \<open>Texts, similarity, fusion\<close>

fun value_to_text :: "json \<Rightarrow> string" where
  "value_to_text (JString s) = s"
| "value_to_text JNull = []"
| "value_to_text (JBool b) = (if b then ''true'' else ''false'')"
| "value_to_text (JNumber n) = n"
| "value_to_text (JArray items) = str_join '' '' (map value_to_text items)"
| "value_to_text (JObject m) =
     str_join '' '' (map (\<lambda>(k, v). let t = value_to_text v in if t = [] then k else k @ '' '' @ t) m)"

definition f32_epsilon :: rat where
  "f32_epsilon = 1 / 2 ^ 23"

definition cosine_similarity :: "(rat \<Rightarrow> rat) \<Rightarrow> vector \<Rightarrow> vector \<Rightarrow> rat" where
  "cosine_similarity fsqrt a b =
     (if length a \<noteq> length b \<or> a = [] then 0
      else let dot = sum_list (map (\<lambda>(x, y). x * y) (zip a b));
               norm_a = sum_list (map (\<lambda>x. x * x) a); norm_b = sum_list (map (\<lambda>y. y * y) b)
           in if norm_a \<le> f32_epsilon \<or> norm_b \<le> f32_epsilon then 0 else dot / (fsqrt norm_a * fsqrt norm_b))"

text \<open>Every entry of a ranked list adds to the score of its identifier.\<close>

fun rank_scores :: "rat \<Rightarrow> rat \<Rightarrow> nat \<Rightarrow> (string \<times> rat) list \<Rightarrow> (string \<times> rat) list \<Rightarrow> (string \<times> rat) list" where
  "rank_scores k weight pos [] scores = scores"
| "rank_scores k weight pos ((i, _) # rl) scores =
     rank_scores k weight (pos + 1) rl
       (AList.update i (unwrap_or (map_of scores i) 0 + weight / (k + of_nat pos + 1)) scores)"

definition reciprocal_rank_fusion ::
    "(string \<times> rat) list \<Rightarrow> (string \<times> rat) list \<Rightarrow> rat \<Rightarrow> rat \<Rightarrow> rat \<Rightarrow> (string \<times> rat) list" where
  "reciprocal_rank_fusion lexical dense k weight_lexical weight_dense =
     sort_key (\<lambda>x. - snd x) (rank_scores k weight_dense 0 dense (rank_scores k weight_lexical 0 lexical []))"

definition clamp01 :: "rat \<Rightarrow> rat" where
  "clamp01 x = max 0 (min 1 x)"

definition blend_scores :: "rat option \<Rightarrow> rat option \<Rightarrow> rat \<Rightarrow> rat \<Rightarrow> rat" where
  "blend_scores lexical dense weight_lexical weight_dense =
     clamp01 (unwrap_or lexical 0) * weight_lexical + clamp01 (unwrap_or dense 0) * weight_dense"

text \<open>One text, the last of the vectors; a JSON value by its text.\<close>

definition embed_one :: "(string list \<Rightarrow> embedding_error + vector list) \<Rightarrow> string \<Rightarrow> embedding_error + vector" where
  "embed_one provider text = rbind (provider [text]) (\<lambda>vs. Inr (if vs = [] then [] else last vs))"

definition embed_json :: "(string list \<Rightarrow> embedding_error + vector list) \<Rightarrow> json \<Rightarrow> embedding_error + vector" where
  "embed_json provider v = embed_one provider (value_to_text v)"

subsection \<open>The OpenAI-compatible provider\<close>

record embedding_provider =
  ep_api_key :: "string option"
  ep_base_url :: string
  ep_model :: string
  ep_dimensions :: nat
  ep_max_inputs :: nat

definition embedding_provider_new ::
    "string \<Rightarrow> string option \<Rightarrow> string \<Rightarrow> nat \<Rightarrow> embedding_error + embedding_provider" where
  "embedding_provider_new base_url key model dimensions =
     (if dimensions = 0 then Inl (EmbInvalid ''embedding dimensions must be greater than zero'')
      else Inr \<lparr>ep_api_key = key, ep_base_url = rev (dropWhile (\<lambda>c. c = CHR ''/'') (rev base_url)), ep_model = model,
                ep_dimensions = dimensions, ep_max_inputs = 64\<rparr>)"

definition with_max_inputs :: "nat \<Rightarrow> embedding_provider \<Rightarrow> embedding_provider" where
  "with_max_inputs n p = p\<lparr>ep_max_inputs := max n 1\<rparr>"

definition embedding_endpoint :: "embedding_provider \<Rightarrow> string" where
  "embedding_endpoint p = ep_base_url p @ ''/embeddings''"

definition max_input_bytes :: nat where
  "max_input_bytes = 100000"

text \<open>One item of the answer, put in the place that it names.\<close>

definition place_item ::
    "(json \<Rightarrow> rat option) \<Rightarrow> nat \<Rightarrow> json \<Rightarrow> vector option list \<Rightarrow> embedding_error + vector option list" where
  "place_item read_f64 dimensions item out =
     (let idx = unwrap_or (as_u64 (json_index item ''index'')) 0 in
      if length out \<le> idx then Inl (EmbProvider (''response index '' @ nat_str idx @ '' is out of range for ''
             @ nat_str (length out) @ '' inputs''))
      else (case json_index item ''embedding'' of
              JArray vs \<Rightarrow>
                let floats = map (\<lambda>v. unwrap_or (read_f64 v) 0) vs in
                if length floats \<noteq> dimensions then Inl (EmbDimensionMismatch dimensions (length floats))
                else Inr (out[idx := Some floats])
            | _ \<Rightarrow> Inl (EmbProvider (''response item has no '' @ bquote @ ''embedding'' @ bquote @ '' array''))))"

fun place_items ::
    "(json \<Rightarrow> rat option) \<Rightarrow> nat \<Rightarrow> json list \<Rightarrow> vector option list \<Rightarrow> embedding_error + vector option list" where
  "place_items read_f64 dimensions [] out = Inr out"
| "place_items read_f64 dimensions (item # items) out =
     rbind (place_item read_f64 dimensions item out) (place_items read_f64 dimensions items)"

definition all_placed :: "vector option list \<Rightarrow> embedding_error + vector list" where
  "all_placed out = rmap (\<lambda>(i, v). ok_or (EmbProvider (''response omitted input '' @ nat_str i)) v) (enumerate 0 out)"

text \<open>The exchange: the request to the endpoint with the key; the status, the text, and the text read as JSON
  of the answer. How a status is printed is a parameter.\<close>

definition embed ::
    "(string \<Rightarrow> string option \<Rightarrow> json \<Rightarrow> string + nat \<times> string \<times> (string + json)) \<Rightarrow> (nat \<Rightarrow> string)
      \<Rightarrow> (json \<Rightarrow> rat option) \<Rightarrow> embedding_provider \<Rightarrow> string list \<Rightarrow> embedding_error + vector list" where
  "embed exchange status_line read_f64 p texts =
     (if texts = [] then Inr []
      else if ep_max_inputs p < length texts then
        Inl (EmbInvalid (nat_str (length texts) @ '' inputs exceeds the batch limit of '' @ nat_str (ep_max_inputs p)))
      else case find (\<lambda>n. max_input_bytes < n) (map length texts) of
        Some n \<Rightarrow> Inl (EmbInputTooLong n)
      | None \<Rightarrow>
          rbind (map_err EmbProvider (exchange (embedding_endpoint p) (ep_api_key p)
                   (json_object [(''model'', JString (ep_model p)), (''input'', json_strings texts)])))
            (\<lambda>(status, body, parsed).
               if \<not> (200 \<le> status \<and> status < 300) 
               then Inl (EmbProvider (''embedding endpoint returned '' @ status_line status @ '': '' @ concat (take 200 (chars_of body))))
               else rbind (map_err EmbProvider parsed) (\<lambda>payload.
                 case json_index payload ''data'' of
                       JArray items \<Rightarrow>
                         rbind (place_items read_f64 (ep_dimensions p) items (replicate (length texts) None)) all_placed
                     | _ \<Rightarrow> Inl (EmbProvider (''response has no '' @ bquote @ ''data'' @ bquote @ '' array'')))))"

subsection \<open>The cache of model documents\<close>

definition model_document :: "model \<Rightarrow> string" where
  "model_document m =
     str_join '' '' ([mo_name m] @ (case mo_description m of Some d \<Rightarrow> [d] | None \<Rightarrow> [])
       @ map (\<lambda>x. f_expression (m_formula x)) (mo_measures m) @ map d_name (mo_dimensions m)
       @ map td_dimension (mo_time_dimensions m) @ map jn_name (mo_joins m))"

type_synonym embed_cache = "(string \<times> 64 word \<times> vector) list"

definition cached_vector :: "(string \<Rightarrow> 64 word) \<Rightarrow> embed_cache \<Rightarrow> model \<times> string \<Rightarrow> vector option" where
  "cached_vector hash cache = (\<lambda>(m, text).
     case map_of cache (mo_name m) of
       Some (h, v) \<Rightarrow> if h = hash text then Some v else None
     | None \<Rightarrow> None)"

text \<open>The fresh vectors go to the open places in order; a place that stays open is the empty vector.\<close>

fun fill :: "vector option list \<Rightarrow> vector list \<Rightarrow> vector list" where
  "fill [] fresh = []"
| "fill (Some v # out) fresh = v # fill out fresh"
| "fill (None # out) (v # fresh) = v # fill out fresh"
| "fill (None # out) [] = [] # fill out []"

definition embed_or_cached ::
    "(string list \<Rightarrow> embedding_error + vector list) \<Rightarrow> (string \<Rightarrow> 64 word) \<Rightarrow> model list \<Rightarrow> string list \<Rightarrow> embed_cache \<Rightarrow> (tool_error + vector list) \<times> embed_cache" where
  "embed_or_cached provider hash models texts cache =
     (let entries = zip models texts;
          out = map (cached_vector hash cache) entries;
          missing = filter (\<lambda>e. cached_vector hash cache e = None) entries
      in if missing = [] then (Inr (fill out []), cache)
         else (case provider (map snd missing) of
                 Inl e \<Rightarrow> (Inl (tool_error_new ''EMBEDDING_FAILED'' (embedding_error_text e)), cache)
               | Inr fresh \<Rightarrow>
                   if length fresh \<noteq> length missing
                   then (Inl (tool_error_new ''EMBEDDING_FAILED''
                           (''embedder returned '' @ nat_str (length fresh) @ '' vectors for ''
                            @ nat_str (length missing) @ '' inputs'')), cache)
                   else (Inr (fill out fresh),
                         foldl (\<lambda>c ((m, text), v). AList.update (mo_name m) (hash text, v) c) cache (zip missing fresh))))"

text \<open>\<open>NullEmbedder\<close>\<close>

definition null_embed :: "string list \<Rightarrow> embedding_error + vector list" where
  "null_embed texts = Inl EmbNotConfigured"

subsection \<open>The search\<close>

record embedder =
  eb_provider :: "string list \<Rightarrow> embedding_error + vector list"
  eb_hash :: "string \<Rightarrow> 64 word"
  eb_root :: "rat \<Rightarrow> rat"

definition dense_candidates ::
    "'s tool_env \<Rightarrow> 's tool_state \<Rightarrow> call_context \<Rightarrow> embedder option \<Rightarrow> string \<Rightarrow> nat \<Rightarrow> embed_cache
      \<Rightarrow> (tool_error + (string \<times> rat) list) \<times> embed_cache" where
  "dense_candidates env sv ctx provider q pool cache =
     (case provider of
        None \<Rightarrow> (Inr [], cache)
      | Some eb \<Rightarrow>
          (case map_err (\<lambda>e. tool_error_new ''SEARCH_FAILED'' (tl_service_text env e))
                  (visible_models (service_of env sv) ctx None) of
             Inl e \<Rightarrow> (Inl e, cache)
           | Inr models \<Rightarrow>
               if models = [] then (Inr [], cache)
               else (case map_err (\<lambda>e. tool_error_new ''EMBEDDING_FAILED'' (embedding_error_text e)) (embed_one (eb_provider eb) q) of
                       Inl e \<Rightarrow> (Inl e, cache)
                     | Inr query_vec \<Rightarrow>
                         (case embed_or_cached (eb_provider eb) (eb_hash eb) models
                                 (map model_document models) cache of
                            (Inl e, cache') \<Rightarrow> (Inl e, cache')
                          | (Inr vectors, cache') \<Rightarrow>
                              (Inr (take pool (sort_key (\<lambda>x. - snd x)
                                 (map (\<lambda>(m, v). (mo_name m, cosine_similarity (eb_root eb) query_vec v)) (zip models vectors)))),
                               cache')))))"

definition hybrid_entry ::
    "'s tool_env \<Rightarrow> 's tool_state \<Rightarrow> call_context \<Rightarrow> index_hit list \<Rightarrow> (string \<times> rat) list \<Rightarrow> string \<times> rat \<Rightarrow> json option" where
  "hybrid_entry env sv ctx lexical dense = (\<lambda>(name, score).
     case get_model_governed (service_of env sv) ctx name None of
       Inl _ \<Rightarrow> None
     | Inr m \<Rightarrow>
         let hit = map_of (rev (map (\<lambda>x. (ih_model_name x, x)) lexical)) name in
         Some (json_object
           [(''model'', JString name), (''datasource'', JString (mo_datasource m)),
            (''score'', JNumber (tl_float env score)),
            (''matched_fields'', json_strings (case hit of Some h \<Rightarrow> ih_matched_fields h | None \<Rightarrow> [])),
            (''snippet'', JString (case hit of Some h \<Rightarrow> ih_snippet h | None \<Rightarrow> unwrap_or (mo_description m) [])),
            (''retrieval'', JString
               (if hit \<noteq> None then (if name \<in> fst ` set dense then ''hybrid'' else ''lexical'') else ''semantic''))]))"

definition tool_search_hybrid ::
    "'s tool_env \<Rightarrow> 's tool_state \<Rightarrow> call_context \<Rightarrow> embedder option \<Rightarrow> search_models_input \<Rightarrow> embed_cache
      \<Rightarrow> (tool_error + json) \<times> embed_cache" where
  "tool_search_hybrid env sv ctx provider input cache =
     (let limit = unwrap_or (si_limit input) 10; pool = max (saturating_mul limit 4) 20 in
      case storage_failed env ''SEARCH_FAILED'' (bk_search (tl_backend env) (sv_store sv) (si_q input) pool) of
        Inl e \<Rightarrow> (Inl e, cache)
      | Inr lexical \<Rightarrow>
          let lexical_ranked = map (\<lambda>h. (ih_model_name h, of_nat (ih_score h))) lexical;
              (answer, cache') = dense_candidates env sv ctx provider (si_q input) pool cache;
              dense = (case answer of Inl _ \<Rightarrow> [] | Inr rl \<Rightarrow> rl);
              fused = (if dense = [] then lexical_ranked else reciprocal_rank_fusion lexical_ranked dense 60 1 1);
              results = take limit (List.map_filter (hybrid_entry env sv ctx lexical dense) fused)
          in (Inr (json_object
                [(''results'', JArray results), (''count'', json_nat (length results)),
                 (''retrieval'', JString (if dense = [] then ''lexical'' else ''hybrid'')),
                 (''next_step'', JString ''Call get_model with the best match to see its fields before querying.'')]),
              cache'))"

subsection \<open>Fusion\<close>

text \<open>What a ranked list gives to an identifier: the weight over the rank, for every place it stands at.\<close>

definition places_score :: "rat \<Rightarrow> rat \<Rightarrow> nat \<Rightarrow> (string \<times> rat) list \<Rightarrow> string \<Rightarrow> rat" where
  "places_score k weight pos rl i =
     sum_list (map (\<lambda>(n, j, _). if j = i then weight / (k + of_nat n + 1) else 0) (enumerate pos rl))"

lemma places_score_Cons:
  "places_score k w r ((j, s) # rl) i = (if j = i then w / (k + of_nat r + 1) else 0) + places_score k w (r + 1) rl i"
  by (simp add: places_score_def)

lemma places_score_absent: "i \<notin> fst ` set rl \<Longrightarrow> places_score k w r rl i = 0"
  by (induction rl arbitrary: r) (auto simp: places_score_Cons, simp add: places_score_def)

lemma map_of_rank_scores:
  "map_of (rank_scores k w r rl scores) i =
     (if i \<in> fst ` set rl \<or> map_of scores i \<noteq> None
      then Some (unwrap_or (map_of scores i) 0 + places_score k w r rl i) else None)"
proof (induction k w r rl scores rule: rank_scores.induct)
  case (1 k w r scores)
  then show ?case by (auto simp: places_score_def unwrap_or_def)
next
  case (2 k w r j s rl scores)
  then show ?case
    by (auto simp: update_conv' places_score_Cons places_score_absent unwrap_or_def split: option.splits)
qed

lemma distinct_rank_scores: "distinct (map fst scores) \<Longrightarrow> distinct (map fst (rank_scores k w r rl scores))"
  by (induction k w r rl scores rule: rank_scores.induct) (simp_all add: distinct_update)

text \<open>
  The fused list holds every identifier of either list once, by falling score, and its score is what the
  places in the two lists give: nothing that one of the searches found is lost.
\<close>

lemma fusion_spec:
  "distinct (map fst (reciprocal_rank_fusion lexical dense k wl wd)) \<and>
   sorted (map (\<lambda>x. - snd x) (reciprocal_rank_fusion lexical dense k wl wd)) \<and>
   map_of (reciprocal_rank_fusion lexical dense k wl wd) i =
     (if i \<in> fst ` set lexical \<union> fst ` set dense
      then Some (places_score k wl 0 lexical i + places_score k wd 0 dense i) else None)"
proof -
  let ?scores = "rank_scores k wd 0 dense (rank_scores k wl 0 lexical [])"
  let ?fused = "reciprocal_rank_fusion lexical dense k wl wd"
  have d: "distinct (map fst ?scores)" by (simp add: distinct_rank_scores)
  have same: "mset ?fused = mset ?scores" by (simp add: reciprocal_rank_fusion_def)
  then have d': "distinct (map fst ?fused)" using d by (metis mset_map mset_eq_imp_distinct_iff)
  have "map_of ?fused = map_of ?scores"
    using d d' same by (metis map_of_inject_set set_mset_mset)
  moreover have "map_of ?scores i = (if i \<in> fst ` set lexical \<union> fst ` set dense
      then Some (places_score k wl 0 lexical i + places_score k wd 0 dense i) else None)"
    by (auto simp: map_of_rank_scores unwrap_or_def places_score_absent)
  ultimately show ?thesis using d' by (simp add: reciprocal_rank_fusion_def)
qed

subsection \<open>The answer of a provider\<close>

text \<open>What an item says.\<close>

definition item_index :: "json \<Rightarrow> nat" where
  "item_index item = unwrap_or (as_u64 (json_index item ''index'')) 0"

definition item_vector :: "(json \<Rightarrow> rat option) \<Rightarrow> json \<Rightarrow> vector" where
  "item_vector read_f64 item =
     (case json_index item ''embedding'' of JArray vs \<Rightarrow> map (\<lambda>v. unwrap_or (read_f64 v) 0) vs | _ \<Rightarrow> [])"

lemma place_item_Inr:
  "place_item read_f64 n item out = Inr out' \<Longrightarrow>
     item_index item < length out \<and> length (item_vector read_f64 item) = n \<and>
     out' = out[item_index item := Some (item_vector read_f64 item)]"
  by (auto simp: place_item_def item_index_def item_vector_def Let_def split: if_split_asm json.splits)

lemma place_items_Inr:
  assumes "place_items read_f64 n items out = Inr out'" and "i < length out" and "out' ! i = Some v"
  shows "length out' = length out \<and>
    (out ! i = Some v \<or> (\<exists>item \<in> set items. item_index item = i \<and> v = item_vector read_f64 item \<and> length v = n))"
  using assms
proof (induction read_f64 n items out arbitrary: out' rule: place_items.induct)
  case (2 read_f64 n item items out)
  then obtain mid where mid: "place_item read_f64 n item out = Inr mid" "place_items read_f64 n items mid = Inr out'"
    by (auto simp: branch_simps)
  from place_item_Inr [OF mid(1)] have "length mid = length out"
    and "mid ! i = (if i = item_index item then Some (item_vector read_f64 item) else out ! i)"
    and "length (item_vector read_f64 item) = n"
    using "2.prems"(2) by auto
  with "2.IH" [OF mid(1,2)] "2.prems"(2,3) show ?case by (auto split: if_split_asm)
qed simp

lemma place_items_length: "place_items read_f64 n items out = Inr out' \<Longrightarrow> length out' = length out"
proof (induction read_f64 n items out arbitrary: out' rule: place_items.induct)
  case (2 read_f64 n item items out)
  then obtain mid where "place_item read_f64 n item out = Inr mid" "place_items read_f64 n items mid = Inr out'"
    by (auto simp: branch_simps)
  with "2.IH" place_item_Inr show ?case by fastforce
qed simp

lemma all_placed_Inr: "all_placed out = Inr vs \<Longrightarrow> length vs = length out \<and> (\<forall>i < length out. out ! i = Some (vs ! i))"
  unfolding all_placed_def rmap_Inr
  by (auto simp: list_all2_conv_all_nth nth_enumerate_eq ok_or_def split: option.splits)

text \<open>
  A provider's answer is one vector per text, each of the configured dimension and named by its index in
  the answer, whatever order the items come in.
\<close>

lemma embed_in_order:
  assumes "embed exchange status_line read_f64 p texts = Inr vs" and "i < length texts"
  shows "length vs = length texts" and "length (vs ! i) = ep_dimensions p"
    and "\<exists>status body payload items item. exchange (embedding_endpoint p) (ep_api_key p)
        (json_object [(''model'', JString (ep_model p)), (''input'', json_strings texts)]) = Inr (status, body, Inr payload) \<and>
      json_index payload ''data'' = JArray items \<and> item \<in> set items \<and> item_index item = i \<and> vs ! i = item_vector read_f64 item"
proof -
  have data: "\<exists>items. j = JArray items \<and> rbind (f items) g = Inr vs"
    if "(case j of JArray items \<Rightarrow> rbind (f items) g | _ \<Rightarrow> Inl e) = Inr vs" for j f g and e :: embedding_error
    using that by (cases j) auto
  have "texts \<noteq> []" using assms(2) by auto
  with assms(1) obtain status body payload where
    x: "exchange (embedding_endpoint p) (ep_api_key p)
        (json_object [(''model'', JString (ep_model p)), (''input'', json_strings texts)]) = Inr (status, body, Inr payload)"
    and read: "(case json_index payload ''data'' of
        JArray items \<Rightarrow> rbind (place_items read_f64 (ep_dimensions p) items (replicate (length texts) None)) all_placed
      | _ \<Rightarrow> Inl (EmbProvider (''response has no '' @ bquote @ ''data'' @ bquote @ '' array''))) = Inr vs"
    by (auto simp: embed_def branch_simps simp del: json_index_object split: if_split_asm option.splits)
  from data [OF read] obtain items out where
    d: "json_index payload ''data'' = JArray items"
    and placed: "place_items read_f64 (ep_dimensions p) items (replicate (length texts) None) = Inr out" "all_placed out = Inr vs"
    by (auto simp: branch_simps)
  from place_items_length [OF placed(1)] all_placed_Inr [OF placed(2)]
  have len: "length vs = length texts" and nth: "out ! i = Some (vs ! i)" using assms(2) by auto
  from place_items_Inr [OF placed(1) _ nth] assms(2) obtain item where
    "item \<in> set items" "item_index item = i" "vs ! i = item_vector read_f64 item" "length (vs ! i) = ep_dimensions p"
    by auto
  with len x d show "length vs = length texts" "length (vs ! i) = ep_dimensions p"
    "\<exists>status body payload items item. exchange (embedding_endpoint p) (ep_api_key p)
        (json_object [(''model'', JString (ep_model p)), (''input'', json_strings texts)]) = Inr (status, body, Inr payload) \<and>
      json_index payload ''data'' = JArray items \<and> item \<in> set items \<and> item_index item = i \<and> vs ! i = item_vector read_f64 item"
    by blast+
qed

subsection \<open>The cache\<close>

text \<open>
  A provider that gives a text the same vector \<open>vec\<close> whenever it answers; it may refuse any batch, as the ones
  of the program do with batches that are too large, texts that are too long and failing requests.
\<close>

definition answers_with :: "(string \<Rightarrow> vector) \<Rightarrow> (string list \<Rightarrow> embedding_error + vector list) \<Rightarrow> bool" where
  "answers_with vec provider \<longleftrightarrow> (\<forall>ts vs. provider ts = Inr vs \<longrightarrow> vs = map vec ts)"

text \<open>The cache after a sequence of searches over the models of the time, and the documents met on the way.\<close>

fun searched ::
    "(string \<Rightarrow> 64 word) \<Rightarrow> ((string list \<Rightarrow> embedding_error + vector list) \<times> model list) list \<Rightarrow> embed_cache \<Rightarrow> embed_cache" where
  "searched hash [] cache = cache"
| "searched hash ((provider, ms) # runs) cache =
     searched hash runs (snd (embed_or_cached provider hash ms (map model_document ms) cache))"

definition documents :: "model list \<Rightarrow> (string \<times> string) set" where
  "documents ms = (\<lambda>m. (mo_name m, model_document m)) ` set ms"

text \<open>Every cached vector is the one of a document of its model, kept under the fingerprint of that document.\<close>

definition cache_from :: "(string \<Rightarrow> vector) \<Rightarrow> (string \<Rightarrow> 64 word) \<Rightarrow> (string \<times> string) set \<Rightarrow> embed_cache \<Rightarrow> bool" where
  "cache_from vec hash D cache \<longleftrightarrow>
     (\<forall>name h v. map_of cache name = Some (h, v) \<longrightarrow> (\<exists>d. (name, d) \<in> D \<and> hash d = h \<and> v = vec d))"

lemma cache_from_mono: "cache_from vec hash D cache \<Longrightarrow> D \<subseteq> E \<Longrightarrow> cache_from vec hash E cache"
  unfolding cache_from_def by blast

lemma cache_from_inserts:
  assumes "\<forall>(m, d) \<in> set es. (mo_name m, d) \<in> D" and "cache_from vec hash D cache"
  shows "cache_from vec hash D (foldl (\<lambda>c ((m, text), v). AList.update (mo_name m) (hash text, v) c) cache (zip es (map (vec \<circ> snd) es)))"
  using assms
proof (induction es arbitrary: cache)
  case (Cons e es)
  obtain m doc where e: "e = (m, doc)" by fastforce
  have "cache_from vec hash D (AList.update (mo_name m) (hash doc, vec doc) cache)"
    using Cons.prems unfolding e by (auto simp: cache_from_def update_conv')
  then show ?case using Cons by (simp add: e)
qed simp

lemma fill_length: "length (fill out fresh) = length out"
  by (induction out fresh rule: fill.induct) auto

lemma fill_missing:
  assumes "i < length es"
  shows "fill (map f es) (map (vec \<circ> snd) (filter (\<lambda>e. f e = None) es)) ! i =
    (case f (es ! i) of Some v \<Rightarrow> v | None \<Rightarrow> vec (snd (es ! i)))"
  using assms
proof (induction es arbitrary: i)
  case (Cons e es)
  then show ?case by (cases "f e"; cases i) (auto split: option.split)
qed simp

text \<open>One search: either the provider refused the documents that are not cached, and the cache stays, or each
  vector is the cached one or that of the document.\<close>

lemma embed_or_cached_answer:
  assumes "answers_with vec provider"
    and "embed_or_cached provider hash ms (map model_document ms) cache = (r, cache')"
  shows "(case r of
      Inl e \<Rightarrow> cache' = cache \<and> (\<exists>batch err. set batch \<subseteq> model_document ` set ms \<and> provider batch = Inl err)
    | Inr vs \<Rightarrow> length vs = length ms \<and>
        (\<forall>i < length ms. vs ! i = (case cached_vector hash cache (ms ! i, model_document (ms ! i)) of
           Some v \<Rightarrow> v | None \<Rightarrow> vec (model_document (ms ! i)))))"
    and "cache_from vec hash D cache \<Longrightarrow> cache_from vec hash (D \<union> documents ms) cache'"
proof -
  let ?f = "cached_vector hash cache"
  define es where "es = zip ms (map model_document ms)"
  define missing where "missing = filter (\<lambda>e. ?f e = None) es"
  define filled where "filled = fill (map ?f es) (map (vec \<circ> snd) missing)"
  have len: "length es = length ms" by (simp add: es_def)
  have es: "es ! i = (ms ! i, model_document (ms ! i))" if "i < length ms" for i using that by (simp add: es_def)
  have inD: "\<forall>(m, d) \<in> set missing. (mo_name m, d) \<in> D \<union> documents ms" for D
    by (auto simp: missing_def es_def documents_def set_zip)
  have docs: "set (map snd missing) \<subseteq> model_document ` set ms" by (auto simp: missing_def es_def set_zip)
  have nth: "filled ! i = (case ?f (ms ! i, model_document (ms ! i)) of Some v \<Rightarrow> v | None \<Rightarrow> vec (model_document (ms ! i)))"
    if "i < length ms" for i
    using fill_missing [of i es ?f vec] that by (simp only: len es snd_conv filled_def missing_def)
  have filled: "length filled = length ms" by (simp add: filled_def fill_length len)
  have run: "(r, cache') =
      (if missing = [] then (Inr (fill (map ?f es) []), cache)
       else (case provider (map snd missing) of
               Inl e \<Rightarrow> (Inl (tool_error_new ''EMBEDDING_FAILED'' (embedding_error_text e)), cache)
             | Inr fresh \<Rightarrow>
                 if length fresh \<noteq> length missing
                 then (Inl (tool_error_new ''EMBEDDING_FAILED''
                         (''embedder returned '' @ nat_str (length fresh) @ '' vectors for ''
                          @ nat_str (length missing) @ '' inputs'')), cache)
                 else (Inr (fill (map ?f es) fresh),
                       foldl (\<lambda>c ((m, text), v). AList.update (mo_name m) (hash text, v) c) cache (zip missing fresh))))"
    unfolding assms(2) [symmetric] embed_or_cached_def Let_def es_def missing_def ..
  have "(r = Inr filled \<and> cache' = cache) \<or>
      (\<exists>e err. r = Inl e \<and> provider (map snd missing) = Inl err \<and> cache' = cache) \<or>
      (r = Inr filled \<and> cache' =
        foldl (\<lambda>c ((m, text), v). AList.update (mo_name m) (hash text, v) c) cache (zip missing (map (vec \<circ> snd) missing)))"
  proof (cases "missing = []")
    case True
    then have "(r, cache') = (Inr filled, cache)" using run by (simp add: filled_def)
    then show ?thesis by simp
  next
    case False
    show ?thesis
    proof (cases "provider (map snd missing)")
      case (Inl e)
      then show ?thesis using run False by simp
    next
      case (Inr vs)
      then have "vs = map vec (map snd missing)" using assms(1) unfolding answers_with_def by blast
      then have "vs = map (vec \<circ> snd) missing" by simp
      with Inr run False have "(r, cache') = (Inr filled,
          foldl (\<lambda>c ((m, text), v). AList.update (mo_name m) (hash text, v) c) cache (zip missing (map (vec \<circ> snd) missing)))"
        by (simp only: filled_def sum.case if_False length_map simp_thms)
      then show ?thesis by simp
    qed
  qed
  note cases = this
  show "case r of
      Inl e \<Rightarrow> cache' = cache \<and> (\<exists>batch err. set batch \<subseteq> model_document ` set ms \<and> provider batch = Inl err)
    | Inr vs \<Rightarrow> length vs = length ms \<and>
        (\<forall>i < length ms. vs ! i = (case cached_vector hash cache (ms ! i, model_document (ms ! i)) of
           Some v \<Rightarrow> v | None \<Rightarrow> vec (model_document (ms ! i))))"
    using cases
  proof (elim disjE conjE exE)
    fix e err assume "r = Inl e" "provider (map snd missing) = Inl err" "cache' = cache"
    then show ?thesis using docs by (simp only: sum.case) blast
  qed (simp_all add: filled nth)
  show "cache_from vec hash (D \<union> documents ms) cache'" if "cache_from vec hash D cache"
    using cases cache_from_inserts [OF inD cache_from_mono [OF that Un_upper1]] cache_from_mono [OF that Un_upper1] by blast
qed

lemma searched_cache:
  assumes "\<forall>(provider, ms) \<in> set runs. answers_with vec provider" and "cache_from vec hash D cache"
  shows "cache_from vec hash (D \<union> (\<Union>(provider, ms) \<in> set runs. documents ms)) (searched hash runs cache)"
  using assms
proof (induction runs arbitrary: D cache)
  case (Cons run runs)
  obtain provider ms where run: "run = (provider, ms)" by fastforce
  obtain r c where c: "embed_or_cached provider hash ms (map model_document ms) cache = (r, c)" by fastforce
  have "cache_from vec hash (D \<union> documents ms) c"
    using embed_or_cached_answer(2) [OF _ c] Cons.prems by (simp add: run)
  then show ?case using Cons.IH [of "D \<union> documents ms" c] Cons.prems(1) by (simp add: run c Un_assoc)
qed simp

text \<open>
  C35. The cache of model documents, after any sequence of searches, over a service that gives a text the same
  vector whenever it answers. A search that gets vectors gets one per model: that of the model's
  document as it is now, unless an earlier document of a model of that name differs from it and has the
  same 64-bit fingerprint, and then that one's. Otherwise a batch of documents was refused, and the cache is as before.
\<close>

theorem cached_embeddings_exact:
  assumes "answers_with vec provider" and "\<forall>(p, ms) \<in> set runs. answers_with vec p"
    and "embed_or_cached provider hash models (map model_document models) (searched hash runs []) = (r, cache')"
  shows "(case r of
      Inl e \<Rightarrow> cache' = searched hash runs [] \<and>
        (\<exists>batch err. set batch \<subseteq> model_document ` set models \<and> provider batch = Inl err)
    | Inr vs \<Rightarrow> length vs = length models \<and>
        (\<forall>i < length models. vs ! i = vec (model_document (models ! i)) \<or>
          (\<exists>(p, ms) \<in> set runs. \<exists>m \<in> set ms. mo_name m = mo_name (models ! i) \<and>
             model_document m \<noteq> model_document (models ! i) \<and>
             hash (model_document m) = hash (model_document (models ! i)) \<and> vs ! i = vec (model_document m))))"
proof -
  let ?c = "searched hash runs []"
  have c: "cache_from vec hash (\<Union>(p, ms) \<in> set runs. documents ms) ?c"
    using searched_cache [OF assms(2), of hash "{}" "[]"] by (simp add: cache_from_def)
  have hit: "\<exists>(p, ms) \<in> set runs. \<exists>m' \<in> set ms. mo_name m' = mo_name m \<and>
      hash (model_document m') = hash (model_document m) \<and> v = vec (model_document m')"
    if "cached_vector hash ?c (m, model_document m) = Some v" for m v
  proof -
    have "map_of ?c (mo_name m) = Some (hash (model_document m), v)"
      using that by (auto simp: cached_vector_def split: option.splits if_split_asm)
    with c show ?thesis unfolding cache_from_def documents_def by fastforce
  qed
  show ?thesis
  proof (cases r)
    case (Inl e)
    then show ?thesis using embed_or_cached_answer(1) [OF assms(1,3)] by simp
  next
    case (Inr vs)
    have vs: "length vs = length models" "\<And>i. i < length models \<Longrightarrow>
        vs ! i = (case cached_vector hash ?c (models ! i, model_document (models ! i)) of
          Some v \<Rightarrow> v | None \<Rightarrow> vec (model_document (models ! i)))"
      using embed_or_cached_answer(1) [OF assms(1,3)] Inr by auto
    have "vs ! i = vec (model_document (models ! i)) \<or>
        (\<exists>(p, ms) \<in> set runs. \<exists>m \<in> set ms. mo_name m = mo_name (models ! i) \<and>
           model_document m \<noteq> model_document (models ! i) \<and>
           hash (model_document m) = hash (model_document (models ! i)) \<and> vs ! i = vec (model_document m))"
      if "i < length models" for i
    proof (cases "cached_vector hash ?c (models ! i, model_document (models ! i))")
      case None
      then show ?thesis using vs(2) [OF that] by simp
    next
      case (Some v)
      then have "vs ! i = v" using vs(2) [OF that] by simp
      with hit [OF Some] show ?thesis by (fastforce simp: case_prod_beta)
    qed
    then show ?thesis using vs(1) Inr by simp
  qed
qed

text \<open>The OpenAI-compatible provider over an endpoint that embeds a single text by its length.\<close>

definition length_exchange :: "string \<Rightarrow> string option \<Rightarrow> json \<Rightarrow> string + nat \<times> string \<times> (string + json)" where
  "length_exchange url key request =
     (case json_index request ''input'' of
        JArray [JString t] \<Rightarrow>
          Inr (200, [], Inr (json_object [(''data'', JArray [json_object
            [(''embedding'', JArray [JString t]), (''index'', json_nat 0)]])]))
      | _ \<Rightarrow> Inl ''one text at a time'')"

fun text_length :: "json \<Rightarrow> rat option" where
  "text_length (JString t) = Some (of_nat (length t))"
| "text_length _ = None"

definition length_provider :: "string list \<Rightarrow> embedding_error + vector list" where
  "length_provider = embed length_exchange nat_str text_length
     \<lparr>ep_api_key = None, ep_base_url = ''http://localhost'', ep_model = ''m'', ep_dimensions = 1, ep_max_inputs = 64\<rparr>"

lemma length_exchange_inputs:
  "length_exchange url key (json_object [(''model'', JString m), (''input'', json_strings ts)]) =
     (case ts of
        [t] \<Rightarrow> Inr (200, [], Inr (json_object [(''data'', JArray [json_object
            [(''embedding'', JArray [JString t]), (''index'', json_nat 0)]])]))
      | _ \<Rightarrow> Inl ''one text at a time'')"
  by (simp add: length_exchange_def json_strings_def unwrap_or_def split: list.split)

lemma length_provider_one: "length t \<le> 100000 \<Longrightarrow> length_provider [t] = Inr [[of_nat (length t)]]"
  by (simp add: length_provider_def embed_def length_exchange_inputs max_input_bytes_def place_item_def unwrap_or_def
      json_nat_def all_digits_nat_str nat_of_digits_nat_str all_placed_def ok_or_def Let_def)

lemma length_provider_answers: "answers_with (\<lambda>t. [of_nat (length t)]) length_provider"
  unfolding answers_with_def
proof (intro allI impI)
  fix ts vs assume a: "length_provider ts = Inr vs"
  consider "ts = []" | t where "ts = [t]" | t u us where "ts = t # u # us" by (metis list.exhaust)
  then show "vs = map (\<lambda>t. [of_nat (length t)]) ts"
  proof cases
    case (2 t)
    have "length t \<le> 100000"
      using a by (auto simp: 2 length_provider_def embed_def max_input_bytes_def split: if_split_asm)
    then show ?thesis using a length_provider_one by (simp add: 2)
  qed (use a in \<open>auto simp: length_provider_def embed_def length_exchange_inputs split: if_split_asm option.splits\<close>)
qed

theorem cached_embeddings_exact_witness:
  "\<exists>cache'. embed_or_cached length_provider (of_nat \<circ> length) [sample_model] (map model_document [sample_model])
      (searched (of_nat \<circ> length) [(length_provider, [sample_model\<lparr>mo_description := Some ''old''\<rparr>])] []) =
    (Inr [[of_nat (length (model_document sample_model))]], cache')"
proof -
  let ?old = "sample_model\<lparr>mo_description := Some ''old''\<rparr>"
  let ?hash = "of_nat \<circ> length :: string \<Rightarrow> 64 word"
  have docs: "model_document ?old = ''orders old region''" "model_document sample_model = ''orders region''"
    by (simp_all add: model_document_def sample_model_def dimension_new_def)
  have old: "snd (embed_or_cached length_provider ?hash [?old] (map model_document [?old]) []) =
      [(''orders'', 17, [17])]"
    by (simp add: embed_or_cached_def cached_vector_def docs length_provider_one Let_def) (simp add: sample_model_def)
  have run: "embed_or_cached length_provider ?hash [sample_model] (map model_document [sample_model])
      (searched ?hash [(length_provider, [?old])] []) = (Inr [[13]], [(''orders'', 13, [13])])"
    unfolding searched.simps old
    by (simp add: embed_or_cached_def cached_vector_def docs length_provider_one Let_def) (simp add: sample_model_def)
  have "\<forall>(p, ms) \<in> set [(length_provider, [?old])]. answers_with (\<lambda>t. [of_nat (length t)]) p"
    by (simp add: length_provider_answers)
  from cached_embeddings_exact [OF length_provider_answers this run] show ?thesis
    unfolding run by (simp add: docs)
qed

subsection \<open>Degrading to the lexical search\<close>

lemma hybrid_entry_lexical:
  assumes "h \<in> set lexical"
  shows "hybrid_entry env sv ctx lexical [] (ih_model_name h, of_nat (ih_score h)) = search_entry env sv ctx lexical h"
proof -
  have "map_of (rev (map (\<lambda>x. (ih_model_name x, x)) lexical)) (ih_model_name h) \<noteq> None"
    using assms by (auto simp: map_of_eq_None_iff image_iff)
  then show ?thesis by (auto simp: hybrid_entry_def search_entry_def Let_def split: sum.split)
qed

lemma map_filter_cong': "(\<And>x. x \<in> set xs \<Longrightarrow> f (g x) = h x) \<Longrightarrow> List.map_filter f (map g xs) = List.map_filter h xs"
  by (induction xs) (auto simp: List.map_filter_simps split: option.split)

lemma search_without_dense:
  assumes "\<And>pool. fst (dense_candidates env sv ctx provider (si_q input) pool cache) = Inr [] \<or>
      \<not> is_ok (fst (dense_candidates env sv ctx provider (si_q input) pool cache))"
    and "\<And>pool. snd (dense_candidates env sv ctx provider (si_q input) pool cache) = cache"
  shows "tool_search_hybrid env sv ctx provider input cache = (tool_search_models env sv ctx input, cache)"
proof -
  let ?pool = "max (saturating_mul (unwrap_or (si_limit input) 10) 4) 20"
  have entries: "List.map_filter (hybrid_entry env sv ctx lexical []) (map (\<lambda>h. (ih_model_name h, of_nat (ih_score h))) lexical) =
      List.map_filter (search_entry env sv ctx lexical) lexical" for lexical
    by (rule map_filter_cong') (rule hybrid_entry_lexical)
  obtain r where "dense_candidates env sv ctx provider (si_q input) ?pool cache = (r, cache)" "r = Inr [] \<or> \<not> is_ok r"
    using assms [of ?pool] by (metis prod.collapse)
  then show ?thesis
    by (auto simp: tool_search_hybrid_def tool_search_models_def Let_def entries is_ok_iff split: sum.split)
qed

text \<open>
  Without an embedding provider, and with one that fails on the query, the search answers exactly
  what the lexical search answers, and leaves the cache alone.
\<close>

lemma hybrid_degrades_to_lexical:
  assumes "\<And>eb. provider = Some eb \<Longrightarrow> \<exists>e. eb_provider eb [si_q input] = Inl e"
  shows "tool_search_hybrid env sv ctx provider input cache = (tool_search_models env sv ctx input, cache)"
proof (rule search_without_dense)
  have "\<exists>r. dense_candidates env sv ctx provider (si_q input) pool cache = (r, cache) \<and> (r = Inr [] \<or> \<not> is_ok r)" for pool
    using assms by (cases provider) (fastforce simp: dense_candidates_def embed_one_def split: sum.split)+
  then show "fst (dense_candidates env sv ctx provider (si_q input) pool cache) = Inr [] \<or>
      \<not> is_ok (fst (dense_candidates env sv ctx provider (si_q input) pool cache))"
    "snd (dense_candidates env sv ctx provider (si_q input) pool cache) = cache" for pool
    by (fastforce dest: spec [of _ pool])+
qed

text \<open>
  The documents of models are sent in one batch, which a provider refuses when it is larger than its
  limit. While more models than that are without a cached vector, every search is the lexical one
  and caches nothing, so the next search finds the same: the search never becomes a hybrid one.
\<close>

lemma large_catalogue_stays_lexical:
  assumes "provider = Some \<lparr>eb_provider = embed exchange status_line read_f64 p, eb_hash = hash, eb_root = fsqrt\<rparr>"
    and "visible_models (service_of env sv) ctx None = Inr models"
    and "ep_max_inputs p < length (filter (\<lambda>e. cached_vector hash cache e = None) (zip models (map model_document models)))"
  shows "tool_search_hybrid env sv ctx provider input cache = (tool_search_models env sv ctx input, cache)"
proof (rule search_without_dense)
  let ?missing = "filter (\<lambda>e. cached_vector hash cache e = None) (zip models (map model_document models))"
  have "\<exists>e. embed_or_cached (embed exchange status_line read_f64 p) hash models (map model_document models) cache = (Inl e, cache)"
    using assms(3) by (cases "?missing = []") (auto simp: embed_or_cached_def Let_def embed_def)
  then have "\<exists>r. dense_candidates env sv ctx provider (si_q input) pool cache = (r, cache) \<and> (r = Inr [] \<or> \<not> is_ok r)" for pool
    by (auto simp: dense_candidates_def assms(1,2) split: sum.split)
  then show "fst (dense_candidates env sv ctx provider (si_q input) pool cache) = Inr [] \<or>
      \<not> is_ok (fst (dense_candidates env sv ctx provider (si_q input) pool cache))"
    "snd (dense_candidates env sv ctx provider (si_q input) pool cache) = cache" for pool
    by (fastforce dest: spec [of _ pool])+
qed

definition two_models :: "yaml_storage tool_state" where
  "two_models = sample_ready\<lparr>sv_store :=
     snd (yaml_create_model True (sv_store sample_ready) (sample_model\<lparr>mo_name := ''second''\<rparr>))\<rparr>"

definition small_embedder :: embedder where
  "small_embedder =
     \<lparr>eb_provider = embed (\<lambda>_ _ _. Inl ''refused'') nat_str (\<lambda>_. None)
        (with_max_inputs 1 \<lparr>ep_api_key = None, ep_base_url = ''http://localhost'', ep_model = ''m'',
           ep_dimensions = 2, ep_max_inputs = 64\<rparr>),
      eb_hash = of_nat \<circ> length, eb_root = id\<rparr>"

lemma large_catalogue_stays_lexical_witness:
  "tool_search_hybrid sample_tools two_models admin_context (Some small_embedder)
      \<lparr>si_q = ''orders'', si_limit = None, si_datasource = None\<rparr> [] =
   (tool_search_models sample_tools two_models admin_context
      \<lparr>si_q = ''orders'', si_limit = None, si_datasource = None\<rparr>, [])"
proof -
  have "case visible_models (service_of sample_tools two_models) admin_context None of
      Inr (m # m' # ms) \<Rightarrow> True | _ \<Rightarrow> False"
    by code_simp
  then obtain models where v: "visible_models (service_of sample_tools two_models) admin_context None = Inr models"
      "1 < length models"
    by (auto split: sum.splits list.splits)
  show ?thesis unfolding small_embedder_def
    by (rule large_catalogue_stays_lexical [OF refl v(1)])
      (use v(2) in \<open>simp add: cached_vector_def with_max_inputs_def split_def\<close>)
qed

end
