(* ===== verification/Mcp.thy ===== *)
theory Mcp
  imports Tool_Safety
begin

text \<open>
  The MCP server (\<open>crates/graphnight-runtime/src/mcp.rs\<close>): JSON-RPC requests, one per line, and their
  dispatch to the tools. Parsing and printing of JSON are parameters.
\<close>

subsection \<open>Requests and responses\<close>

record rpc_request =
  rq_id :: "json option"
  rq_method :: string
  rq_params :: json

record rpc_error =
  rpe_code :: int
  rpe_message :: string
  rpe_data :: "json option"

record rpc_response =
  rp_id :: json
  rp_result :: "json option"
  rp_error :: "rpc_error option"

definition rpc_error_new :: "int \<Rightarrow> string \<Rightarrow> rpc_error" where
  "rpc_error_new code message = \<lparr>rpe_code = code, rpe_message = message, rpe_data = None\<rparr>"

definition with_data :: "rpc_error \<Rightarrow> json \<Rightarrow> rpc_error" where
  "with_data e d = e\<lparr>rpe_data := Some d\<rparr>"

definition rpc_error_json :: "rpc_error \<Rightarrow> json" where
  "rpc_error_json e =
     json_object [(''code'', JNumber (Numbers.int_str (rpe_code e))), (''message'', JString (rpe_message e)),
       (''data'', unwrap_or (rpe_data e) JNull)]"

definition rpc_ok :: "json \<Rightarrow> json \<Rightarrow> rpc_response" where
  "rpc_ok i result = \<lparr>rp_id = i, rp_result = Some result, rp_error = None\<rparr>"

definition rpc_failed :: "json \<Rightarrow> rpc_error \<Rightarrow> rpc_response" where
  "rpc_failed i e = \<lparr>rp_id = i, rp_result = None, rp_error = Some e\<rparr>"

definition null_id :: "rpc_error \<Rightarrow> rpc_response" where
  "null_id e = rpc_failed JNull e"

definition rpc_response_json :: "rpc_response \<Rightarrow> json" where
  "rpc_response_json r =
     (let out = json_object [(''jsonrpc'', JString ''2.0''), (''id'', rp_id r)];
          out1 = (case rp_result r of Some x \<Rightarrow> json_set ''result'' x out | None \<Rightarrow> out)
      in case rp_error r of Some e \<Rightarrow> json_set ''error'' (rpc_error_json e) out1 | None \<Rightarrow> out1)"

definition rpc_parse_error :: int where "rpc_parse_error = - 32700"
definition invalid_request :: int where "invalid_request = - 32600"
definition method_not_found :: int where "method_not_found = - 32601"
definition invalid_params :: int where "invalid_params = - 32602"

fun is_object :: "json \<Rightarrow> bool" where
  "is_object (JObject _) = True"
| "is_object _ = False"

text \<open>A request is never absent: \<open>parse_request\<close> answers \<open>Ok(Some(..))\<close> or an error.\<close>

definition parse_request :: "(string \<Rightarrow> string + json) \<Rightarrow> string \<Rightarrow> rpc_error + rpc_request" where
  "parse_request read_json line =
     (case read_json (trim line) of
        Inl e \<Rightarrow> Inl (rpc_error_new rpc_parse_error (''invalid JSON: '' @ e))
      | Inr v \<Rightarrow>
          if \<not> is_object v then Inl (rpc_error_new invalid_request ''request must be a JSON object'')
          else if json_index v ''jsonrpc'' \<noteq> JString ''2.0'' then
            Inl (rpc_error_new invalid_request (''jsonrpc must be exactly '' @ dquote @ ''2.0'' @ dquote))
          else (case as_str (json_index v ''method'') of
                  None \<Rightarrow> Inl (rpc_error_new invalid_request (''request is missing '' @ [CHR 0x60] @ ''method'' @ [CHR 0x60]))
                | Some m \<Rightarrow>
                    Inr \<lparr>rq_id = (if json_index v ''id'' = JNull then None else Some (json_index v ''id'')),
                         rq_method = m, rq_params = json_index v ''params''\<rparr>))"

subsection \<open>The server\<close>

record 's mcp_server =
  mc_env :: "'s tool_env"
  mc_catalog :: tool_catalog
  mc_name :: string
  mc_version :: string
  mc_read :: "string \<Rightarrow> string + json"
  mc_print :: "json \<Rightarrow> string"
  mc_pretty :: "json \<Rightarrow> string"

definition mcp_new :: "'s tool_env \<Rightarrow> tool_catalog \<Rightarrow> (string \<Rightarrow> string + json) \<Rightarrow> (json \<Rightarrow> string) \<Rightarrow> (json \<Rightarrow> string) \<Rightarrow> 's mcp_server" where
  "mcp_new env c rd pr pp =
     \<lparr>mc_env = env, mc_catalog = c, mc_name = ''graphnight'', mc_version = tl_version env,
      mc_read = rd, mc_print = pr, mc_pretty = pp\<rparr>"

definition mcp_with_mutations :: "'s mcp_server \<Rightarrow> bool \<Rightarrow> 's mcp_server" where
  "mcp_with_mutations s allow = s\<lparr>mc_catalog := with_mutations (mc_catalog s) allow\<rparr>"

definition with_identity :: "'s mcp_server \<Rightarrow> string \<Rightarrow> string \<Rightarrow> 's mcp_server" where
  "with_identity s name version = s\<lparr>mc_name := name, mc_version := version\<rparr>"

definition initialize_result :: "'s mcp_server \<Rightarrow> json" where
  "initialize_result s =
     json_object
       [(''protocolVersion'', JString ''2024-11-05''),
        (''capabilities'', json_object [(''tools'', json_object [(''listChanged'', JBool False)])]),
        (''serverInfo'', json_object [(''name'', JString (mc_name s)), (''version'', JString (mc_version s))]),
        (''instructions'', JString (''Query the semantic layer through tools. ''
          @ ''Call search_models or list_models to find a model, get_model to read ''
          @ ''its real fields, validate_query before run_query, and run_query for ''
          @ ''rows. All queries are subject to the caller's access policy.''))]"

text \<open>A failing tool is an answer, not a protocol error, and it is audited.\<close>

definition tool_content :: "'s mcp_server \<Rightarrow> json \<Rightarrow> bool \<Rightarrow> json" where
  "tool_content s j failed =
     json_object
       [(''content'', JArray [json_object [(''type'', JString ''text''), (''text'', JString (mc_pretty s j))]]),
        (''structuredContent'', j), (''isError'', JBool failed)]"

definition call_tool ::
    "'s mcp_server \<Rightarrow> 's tool_state \<Rightarrow> call_context \<Rightarrow> json \<Rightarrow> string \<Rightarrow> json
      \<Rightarrow> rpc_response \<times> 's tool_state \<times> effect list" where
  "call_tool s sv ctx i name args =
     (case catalog_call (mc_env s) (mc_catalog s) sv ctx name args of
        (Inr result, sv', eff) \<Rightarrow> (rpc_ok i (tool_content s result False), sv', eff)
      | (Inl e, sv', eff) \<Rightarrow>
          (rpc_ok i (tool_content s (tool_error_json e) True), sv',
           eff @ [Audited (audit_entry_of ctx name 0 False)]))"

definition call_arguments :: "json \<Rightarrow> json" where
  "call_arguments params =
     (case params of JObject o' \<Rightarrow> unwrap_or (map_of o' ''arguments'') (json_object []) | _ \<Rightarrow> json_object [])"

definition mcp_handle ::
    "'s mcp_server \<Rightarrow> 's tool_state \<Rightarrow> call_context \<Rightarrow> rpc_request
      \<Rightarrow> rpc_response \<times> 's tool_state \<times> effect list" where
  "mcp_handle s sv ctx req =
     (let i = unwrap_or (rq_id req) JNull; m = rq_method req; quiet = (\<lambda>r. (r, sv, [])) in
      if m = ''initialize'' then quiet (rpc_ok i (initialize_result s))
      else if m = ''ping'' then quiet (rpc_ok i (json_object []))
      else if m = ''tools/list'' then quiet (rpc_ok i (tool_list (mc_env s) (mc_catalog s)))
      else if m = ''tools/call'' then
        (let name = unwrap_or (as_str (json_index (rq_params req) ''name'')) [] in
         if name = [] then quiet (rpc_failed i (rpc_error_new invalid_params
                                    (''tools/call requires '' @ [CHR 0x60] @ ''name'' @ [CHR 0x60])))
         else call_tool s sv ctx i name (call_arguments (rq_params req)))
      else if m = ''notifications/initialized'' \<or> m = ''initialized'' then quiet (rpc_ok i (json_object []))
      else quiet (rpc_failed i (with_data (rpc_error_new method_not_found (''unknown method '' @ debug_str m))
             (json_object [(''supported'', json_strings [''initialize'', ''ping'', ''tools/list'', ''tools/call''])]))))"

definition handle_line ::
    "'s mcp_server \<Rightarrow> 's tool_state \<Rightarrow> call_context \<Rightarrow> string \<Rightarrow> string option \<times> 's tool_state \<times> effect list" where
  "handle_line s sv ctx line =
     (case parse_request (mc_read s) line of
        Inl e \<Rightarrow> (Some (mc_print s (rpc_response_json (null_id e))), sv, [])
      | Inr req \<Rightarrow>
          if rq_id req = None then (None, sv, [])
          else (case mcp_handle s sv ctx req of
                  (r, sv', eff) \<Rightarrow> (Some (mc_print s (rpc_response_json r)), sv', eff)))"

definition resolve_context :: "string option \<Rightarrow> string option \<Rightarrow> bool \<Rightarrow> bool \<Rightarrow> call_context" where
  "resolve_context user tenant admin required =
     \<lparr>cc_user_id = user, cc_tenant_id = tenant, cc_is_admin = admin, cc_auth_required = required,
      cc_policy = None, cc_principal_label = Some ''mcp:stdio''\<rparr>"

definition bearer_token :: "string option \<Rightarrow> string option" where
  "bearer_token header =
     (case header of
        None \<Rightarrow> None
      | Some h \<Rightarrow>
          (let value = trim h in
           case (case strip_prefix ''Bearer '' value of Some t \<Rightarrow> Some t | None \<Rightarrow> strip_prefix ''bearer '' value) of
             None \<Rightarrow> None
           | Some t \<Rightarrow> if trim t = [] then None else Some (trim t)))"

subsection \<open>Answers\<close>

lemma handle_answers:
  assumes "mcp_handle s sv ctx req = (r, sv', eff)"
  shows "rp_id r = unwrap_or (rq_id req) JNull" "rp_result r = None \<longleftrightarrow> rp_error r \<noteq> None"
  using assms
  by (auto simp: mcp_handle_def call_tool_def rpc_ok_def rpc_failed_def Let_def split: if_splits sum.splits prod.splits)

lemma handle_quiet:
  assumes "rq_method req \<noteq> ''tools/call''"
  shows "snd (mcp_handle s sv ctx req) = (sv, [])"
  using assms by (auto simp: mcp_handle_def Let_def)

lemma handle_call:
  assumes "rq_method req = ''tools/call''" and "as_str (json_index (rq_params req) ''name'') = Some name" and "name \<noteq> []"
  shows "mcp_handle s sv ctx req = call_tool s sv ctx (unwrap_or (rq_id req) JNull) name (call_arguments (rq_params req))"
  using assms by (simp add: mcp_handle_def Let_def)

lemma response_keys:
  "json_index (rpc_response_json r) ''id'' = rp_id r"
  "rp_error r = None \<Longrightarrow> rp_result r = Some x \<Longrightarrow> json_index (rpc_response_json r) ''result'' = x"
  by (auto simp: rpc_response_json_def Let_def json_object_def split: option.split)

text \<open>
  What a client gets for each line: a request without an identifier is neither answered nor carried
  out; a line that is no request is answered with the null identifier and changes nothing; every
  other line is answered once, under its own identifier, with either a result or an error.
\<close>

lemma mcp_line_answer:
  "(\<exists>e. parse_request (mc_read s) line = Inl e \<and>
      handle_line s sv ctx line = (Some (mc_print s (rpc_response_json (null_id e))), sv, [])) \<or>
   (\<exists>req. parse_request (mc_read s) line = Inr req \<and> rq_id req = None \<and> handle_line s sv ctx line = (None, sv, [])) \<or>
   (\<exists>req r. parse_request (mc_read s) line = Inr req \<and> rq_id req = Some (rp_id r) \<and>
      (rp_result r = None \<longleftrightarrow> rp_error r \<noteq> None) \<and> r = fst (mcp_handle s sv ctx req) \<and>
      handle_line s sv ctx line =
        (Some (mc_print s (rpc_response_json r)), snd (mcp_handle s sv ctx req)) \<and>
      json_index (rpc_response_json r) ''id'' = rp_id r)"
proof (cases "parse_request (mc_read s) line")
  case (Inl e)
  then show ?thesis by (simp add: handle_line_def)
next
  case (Inr req)
  obtain r sv' eff where h: "mcp_handle s sv ctx req = (r, sv', eff)" by (cases "mcp_handle s sv ctx req") auto
  show ?thesis
  proof (cases "rq_id req")
    case None
    then show ?thesis using Inr by (simp add: handle_line_def)
  next
    case (Some i)
    then show ?thesis using Inr h handle_answers [OF h] by (simp add: handle_line_def response_keys)
  qed
qed

text \<open>
  A tool that fails is not a protocol failure: every call of a named tool is answered with a result
  that says whether it failed and carries the tool's own answer or error, and a failure is written
  to the audit log under the tool's name.
\<close>

lemma tool_failures_are_answers:
  assumes "rq_method req = ''tools/call''" and "as_str (json_index (rq_params req) ''name'') = Some name" and "name \<noteq> []"
    and "catalog_call (mc_env s) (mc_catalog s) sv ctx name (call_arguments (rq_params req)) = (res, sv1, eff1)"
    and "mcp_handle s sv ctx req = (r, sv', eff)"
  shows "rp_error r = None \<and> sv' = sv1 \<and>
    json_index (the (rp_result r)) ''isError'' = JBool (\<not> is_ok res) \<and>
    json_index (the (rp_result r)) ''structuredContent'' = (case res of Inr j \<Rightarrow> j | Inl e \<Rightarrow> tool_error_json e) \<and>
    eff = eff1 @ (if is_ok res then [] else [Audited (audit_entry_of ctx name 0 False)])"
  using assms(4,5) unfolding handle_call [OF assms(1-3)]
  by (cases res) (auto simp: call_tool_def rpc_ok_def tool_content_def)

subsection \<open>Sessions\<close>

text \<open>A client sends lines one after the other.\<close>

fun mcp_session :: "'s mcp_server \<Rightarrow> 's tool_state \<Rightarrow> call_context \<Rightarrow> string list \<Rightarrow> string option list \<times> 's tool_state \<times> effect list" where
  "mcp_session s sv ctx [] = ([], sv, [])"
| "mcp_session s sv ctx (l # ls) =
     (case handle_line s sv ctx l of
        (r, sv1, eff1) \<Rightarrow> (case mcp_session s sv1 ctx ls of (rs, sv2, eff2) \<Rightarrow> (r # rs, sv2, eff1 @ eff2)))"

lemma call_tool_state:
  "fst (snd (call_tool s sv ctx i name args)) = fst (snd (catalog_call (mc_env s) (mc_catalog s) sv ctx name args))"
  by (auto simp: call_tool_def split: sum.split prod.split)

lemma handle_state:
  "fst (snd (mcp_handle s sv ctx req)) = sv \<or>
   (\<exists>name args. fst (snd (mcp_handle s sv ctx req)) = fst (snd (catalog_call (mc_env s) (mc_catalog s) sv ctx name args)))"
  by (auto simp: mcp_handle_def Let_def call_tool_state)

lemma handle_line_state:
  "fst (snd (handle_line s sv ctx line)) = sv \<or>
   (\<exists>name args. fst (snd (handle_line s sv ctx line)) = fst (snd (catalog_call (mc_env s) (mc_catalog s) sv ctx name args)))"
proof (cases "parse_request (mc_read s) line")
  case (Inr req)
  then show ?thesis
    using handle_state [of s sv ctx req]
    by (cases "mcp_handle s sv ctx req"; cases "rq_id req") (simp_all add: handle_line_def)
qed (simp add: handle_line_def)

lemma session_invariant:
  assumes "P sv" and "\<And>sv name args. P sv \<Longrightarrow> P (fst (snd (catalog_call (mc_env s) (mc_catalog s) sv ctx name args)))"
  shows "P (fst (snd (mcp_session s sv ctx ls)))"
  using assms(1)
proof (induction ls arbitrary: sv)
  case (Cons l ls)
  obtain r sv1 eff1 where h: "handle_line s sv ctx l = (r, sv1, eff1)" by (cases "handle_line s sv ctx l") auto
  have "P sv1"
    using handle_line_state [of s sv ctx l] Cons.prems assms(2) [of sv] by (auto simp: h)
  from Cons.IH [OF this] show ?case
    by (cases "mcp_session s sv1 ctx ls") (simp add: h)
qed simp

lemma session_in_sync:
  "mc_env s = on_yaml env \<Longrightarrow> in_sync sv \<Longrightarrow> in_sync (fst (snd (mcp_session s sv ctx ls)))"
  by (rule session_invariant) (simp_all add: yaml_sync.call_keeps)

text \<open>The models, the datasources and what the engine knows are the same.\<close>

definition same_catalog :: "yaml_storage tool_state \<Rightarrow> yaml_storage tool_state \<Rightarrow> bool" where
  "same_catalog a b \<longleftrightarrow> ys_models (sv_store b) = ys_models (sv_store a) \<and>
     ys_datasources (sv_store b) = ys_datasources (sv_store a) \<and> sv_engine b = sv_engine a"

lemma remember_same: "same_catalog sv (snd (tool_remember (on_yaml env) sv ctx i))"
  by (auto simp: tool_remember_def yaml_backend_def same_catalog_def yaml_save_memory_def store_defs
      split: sum.split option.split prod.split if_splits)

lemma call_same:
  assumes "\<not> (ct_allow_mutations c \<and> cc_is_admin ctx)"
  shows "same_catalog sv (fst (snd (catalog_call (on_yaml env) c sv ctx name args)))"
    and "cc_auth_required ctx \<Longrightarrow> cc_user_id ctx = None \<Longrightarrow> fst (snd (catalog_call (on_yaml env) c sv ctx name args)) = sv"
proof -
  let ?args = "if args = JNull then json_object [] else args"
  consider "fst (snd (catalog_call (on_yaml env) c sv ctx name args)) = sv"
    | spec where "catalog_get c name = Some spec"
      "catalog_call (on_yaml env) c sv ctx name args = tool_dispatch (on_yaml env) c sv ctx name ?args"
      "fst (snd (tool_dispatch (on_yaml env) c sv ctx name ?args)) \<noteq> sv"
  proof (cases "fst (snd (catalog_call (on_yaml env) c sv ctx name args)) = sv")
    case False
    then obtain spec where spec: "catalog_get c name = Some spec"
      by (auto simp: catalog_call_def split: option.splits)
    then have "catalog_call (on_yaml env) c sv ctx name args = tool_dispatch (on_yaml env) c sv ctx name ?args"
      using False by (auto simp: catalog_call_def)
    then show thesis using that(2) [OF spec] False by simp
  qed (rule that(1))
  note cases = this
  show "same_catalog sv (fst (snd (catalog_call (on_yaml env) c sv ctx name args)))"
  proof (cases rule: cases)
    case 1
    then show ?thesis by (simp add: same_catalog_def)
  next
    case (2 spec)
    have "name = ''remember''" using dispatch_state [OF 2(3)] catalog_get_spec [OF 2(1)] assms by auto
    moreover have "same_catalog sv (fst (snd (tool_dispatch (on_yaml env) c sv ctx ''remember'' ?args)))"
      using remember_same [of sv env ctx]
      by (simp add: tool_dispatch_def Let_def writes_state same_catalog_def split: sum.split)
    ultimately have "same_catalog sv (fst (snd (tool_dispatch (on_yaml env) c sv ctx name ?args)))" by simp
    then show ?thesis unfolding 2(2) .
  qed
  show "fst (snd (catalog_call (on_yaml env) c sv ctx name args)) = sv" if "cc_auth_required ctx" "cc_user_id ctx = None"
  proof (cases rule: cases)
    case (2 spec)
    then show ?thesis using dispatch_state [OF 2(3)] catalog_get_spec [OF 2(1)] assms that by auto
  qed
qed

text \<open>
  C5. A session without the gate or without administration: whatever lines a client sends, the models, the
  datasources and the engine stay as they are, and where callers must be authenticated, an
  anonymous client changes nothing at all.
\<close>

theorem mcp_session_gated:
  assumes "mc_env s = on_yaml env" and "\<not> (ct_allow_mutations (mc_catalog s) \<and> cc_is_admin ctx)"
    and "mcp_session s sv ctx ls = (answers, sv', eff)"
  shows "same_catalog sv sv' \<and> (cc_auth_required ctx \<and> cc_user_id ctx = None \<longrightarrow> sv' = sv)"
proof -
  have "same_catalog sv (fst (snd (mcp_session s sv ctx ls)))"
  proof (rule session_invariant)
    fix sv1 name args
    assume "same_catalog sv sv1"
    moreover have "same_catalog sv1 (fst (snd (catalog_call (mc_env s) (mc_catalog s) sv1 ctx name args)))"
      unfolding assms(1) by (rule call_same(1) [OF assms(2)])
    ultimately show "same_catalog sv (fst (snd (catalog_call (mc_env s) (mc_catalog s) sv1 ctx name args)))"
      by (simp add: same_catalog_def)
  qed (simp add: same_catalog_def)
  moreover have "fst (snd (mcp_session s sv ctx ls)) = sv" if "cc_auth_required ctx" "cc_user_id ctx = None"
    by (rule session_invariant [where P = "\<lambda>x. x = sv"]) (simp_all add: assms(1) call_same(2) [OF assms(2) that])
  ultimately show ?thesis by (auto simp: assms(3))
qed

subsection \<open>Tokens\<close>

lemma last_trim: "trim t \<noteq> [] \<Longrightarrow> \<not> is_space (last (trim t))"
  unfolding trim_def trim_end_def last_rev rev_is_Nil_conv by (rule hd_dropWhile)

lemma bearer_token_roundtrip:
  assumes "t \<noteq> []" and "trim t = t"
  shows "bearer_token (Some (''Bearer '' @ t)) = Some t"
proof -
  have "\<not> is_space (last (''Bearer '' @ t))" using last_trim [of t] assms by simp
  moreover have "\<not> is_space (hd (''Bearer '' @ t))" by (simp add: is_space_def byte_def)
  ultimately have "trim (''Bearer '' @ t) = ''Bearer '' @ t" by (intro trim_id) simp
  moreover have "strip_prefix ''Bearer '' (''Bearer '' @ t) = Some t" by (simp add: strip_prefix_eq)
  ultimately show ?thesis using assms by (simp add: bearer_token_def)
qed

subsection \<open>A sample session\<close>

definition sample_server :: "yaml_storage mcp_server" where
  "sample_server = mcp_new sample_tools catalog_new
     (\<lambda>_. Inr (json_object [(''jsonrpc'', JString ''2.0''), (''id'', JNumber ''1''), (''method'', JString ''tools/call''),
        (''params'', json_object [(''name'', JString ''create_model'')])])) (\<lambda>_. []) (\<lambda>_. [])"

theorem mcp_session_gated_witness:
  "same_catalog sample_state (fst (snd (mcp_session sample_server sample_state admin_context [''call'', ''again''])))"
proof -
  have env: "mc_env sample_server = on_yaml sample_tools" by (simp add: sample_server_def mcp_new_def on_yaml_sample)
  have gate: "\<not> (ct_allow_mutations (mc_catalog sample_server) \<and> cc_is_admin admin_context)"
    by (simp add: sample_server_def mcp_new_def catalog_new_def)
  show ?thesis
    using mcp_session_gated [OF env gate, of sample_state "[''call'', ''again'']"]
    by (cases "mcp_session sample_server sample_state admin_context [''call'', ''again'']") auto
qed

lemma tool_failures_are_answers_witness:
  "json_index (the (rp_result (fst (mcp_handle sample_server sample_state admin_context
     \<lparr>rq_id = Some (JNumber ''1''), rq_method = ''tools/call'',
      rq_params = json_object [(''name'', JString ''create_model'')]\<rparr>)))) ''isError'' = JBool True"
proof -
  let ?req = "\<lparr>rq_id = Some (JNumber ''1''), rq_method = ''tools/call'',
      rq_params = json_object [(''name'', JString ''create_model'')]\<rparr>"
  obtain res sv1 eff1 where c: "catalog_call (mc_env sample_server) (mc_catalog sample_server) sample_state admin_context
      ''create_model'' (call_arguments (rq_params ?req)) = (res, sv1, eff1)" by (metis prod_cases3)
  obtain r sv' eff where h: "mcp_handle sample_server sample_state admin_context ?req = (r, sv', eff)" by (metis prod_cases3)
  have "catalog_get catalog_new ''create_model'' = None" by code_simp
  then have "\<not> is_ok res" using c by (auto simp: catalog_call_def sample_server_def mcp_new_def)
  then show ?thesis using tool_failures_are_answers [OF _ _ _ c h] by (simp add: h)
qed

end
