(* ===== verification/Rest.thy ===== *)
theory Rest
  imports Auth Governance
begin

text \<open>
  The REST surface (\<open>crates/graphnight-server/src/rest.rs\<close>): the bodies of requests, their
  conversion to queries, the handlers, and the status of an error. The handlers build the call
  context with \<open>AppState::call_context\<close>, which the repository does not contain: it is a parameter,
  and so are the texts of errors. Elapsed times are left out.
\<close>

subsection \<open>Bodies\<close>

record rest_measure_input =
  rm_formula :: string
  rm_label :: "string option"
  rm_format :: "string option"
  rm_aggregation :: string

record rest_dimension_input =
  rd_name :: string
  rd_label :: "string option"

record rest_time_dimension_input =
  rt_dimension :: string
  rt_granularity :: string
  rt_label :: "string option"

record rest_filter_input =
  rf_field :: string
  rf_operator :: string
  rf_value :: json
  rf_or_condition :: "bool option"

record rest_order_by_input =
  ro_field :: string
  ro_descending :: "bool option"

record rest_query_input =
  rq_name :: "string option"
  rq_source_model :: "source_spec option"
  rq_measures :: "rest_measure_input list option"
  rq_dimensions :: "rest_dimension_input list option"
  rq_time_dimensions :: "rest_time_dimension_input list option"
  rq_filters :: "rest_filter_input list option"
  rq_order :: "rest_order_by_input list option"
  rq_limit :: "int option"
  rq_offset :: "int option"
  rq_whole_periods_only :: "bool option"
  rq_distinct_dimension_values :: "bool option"
  rq_stage_ref :: "string option"

record rest_stage_input =
  rs_name :: string
  rs_query :: rest_query_input

subsection \<open>Validation and conversion\<close>

type_synonym http_error = "nat \<times> string"

definition reject_bad_aggregations :: "(parse_error \<Rightarrow> string) \<Rightarrow> rest_query_input \<Rightarrow> http_error + unit" where
  "reject_bad_aggregations pe q =
     rbind (rmap (\<lambda>m. map_err (\<lambda>e. (400, pe e)) (aggregation_parse_strict (rm_aggregation m)))
       (unwrap_or (rq_measures q) [])) (\<lambda>_. Inr ())"

definition reject_bad_operators :: "(parse_error \<Rightarrow> string) \<Rightarrow> rest_query_input \<Rightarrow> http_error + unit" where
  "reject_bad_operators pe q =
     rbind (rmap (\<lambda>f. map_err (\<lambda>e. (400, pe e)) (operator_parse_strict (rf_operator f)))
       (unwrap_or (rq_filters q) [])) (\<lambda>_. Inr ())"

definition reject_bad_input :: "(parse_error \<Rightarrow> string) \<Rightarrow> rest_query_input \<Rightarrow> http_error + unit" where
  "reject_bad_input pe q = rbind (reject_bad_aggregations pe q) (\<lambda>_. reject_bad_operators pe q)"

definition rest_aggregation :: "string \<Rightarrow> aggregation_type" where
  "rest_aggregation s = (case aggregation_parse_strict s of Inr a \<Rightarrow> a | Inl _ \<Rightarrow> Sum)"

definition rest_granularity :: "string \<Rightarrow> time_granularity" where
  "rest_granularity s =
     (let u = to_upper s in
      if u = ''SECOND'' then Second
      else if u = ''MINUTE'' then Minute
      else if u = ''HOUR'' then Hour
      else if u = ''DAY'' then Day
      else if u = ''WEEK'' then Week
      else if u = ''MONTH'' then Month
      else if u = ''QUARTER'' then Quarter
      else if u = ''YEAR'' then Year
      else Day)"

definition rest_operator :: "string \<Rightarrow> filter_operator" where
  "rest_operator s = (case operator_parse_strict s of Inr op \<Rightarrow> op | Inl _ \<Rightarrow> Eq)"

text \<open>\<open>as usize\<close> on an \<open>i32\<close> extends the sign to 64 bits.\<close>

definition i32_as_usize :: "int \<Rightarrow> nat" where
  "i32_as_usize i = nat (i mod 2 ^ 64)"

definition rest_measure :: "rest_measure_input \<Rightarrow> measure" where
  "rest_measure m =
     \<lparr>m_formula = formula_with_format (formula_with_label (formula_new (rm_formula m)) (unwrap_or (rm_label m) []))
        (unwrap_or (rm_format m) []),
      m_aggregation = rest_aggregation (rm_aggregation m)\<rparr>"

definition rest_dimension :: "rest_dimension_input \<Rightarrow> dimension" where
  "rest_dimension d = dimension_with_label (dimension_new (rd_name d)) (unwrap_or (rd_label d) [])"

definition rest_time_dimension :: "rest_time_dimension_input \<Rightarrow> time_dimension" where
  "rest_time_dimension t =
     time_dimension_with_label (time_dimension_new (rt_dimension t) (rest_granularity (rt_granularity t)))
       (unwrap_or (rt_label t) [])"

definition rest_filter :: "rest_filter_input \<Rightarrow> filter_cond" where
  "rest_filter f =
     (let c = filter_new (rf_field f) (rest_operator (rf_operator f)) (rf_value f)
      in if unwrap_or (rf_or_condition f) False then filter_or c else c)"

definition rest_to_core :: "rest_query_input \<Rightarrow> query" where
  "rest_to_core v =
     \<lparr>q_name = rq_name v, q_source_model = rq_source_model v,
      q_measures = map rest_measure (unwrap_or (rq_measures v) []),
      q_dimensions = map rest_dimension (unwrap_or (rq_dimensions v) []),
      q_time_dimensions = map rest_time_dimension (unwrap_or (rq_time_dimensions v) []),
      q_filters = map rest_filter (unwrap_or (rq_filters v) []),
      q_order = map (\<lambda>x. order_by_new (ro_field x) (unwrap_or (ro_descending x) False)) (unwrap_or (rq_order v) []),
      q_limit = map_option i32_as_usize (rq_limit v), q_offset = map_option i32_as_usize (rq_offset v),
      q_whole_periods_only = rq_whole_periods_only v,
      q_distinct_dimension_values = rq_distinct_dimension_values v, q_stage_ref = rq_stage_ref v\<rparr>"

subsection \<open>Handlers\<close>

fun map_service_error :: "service_error \<Rightarrow> nat" where
  "map_service_error Unauthenticated = 401"
| "map_service_error (PolicyViolation _) = 403"
| "map_service_error AdminRequired = 403"
| "map_service_error (SvModelNotFound _) = 404"
| "map_service_error (SvDatasourceNotFound _) = 404"
| "map_service_error (InvalidQuery _) = 400"
| "map_service_error (Timeout _) = 504"
| "map_service_error (StorageFailed _) = 500"
| "map_service_error (Execution _) = 500"
| "map_service_error (MaskPanicked _) = 500"

record 'k rest_state =
  re_jwt :: "'k jwt_lib"
  re_fetch :: "nat \<Rightarrow> string + 'k jwk list"
  re_auth :: auth_config
  re_call_context :: "identity option \<Rightarrow> call_context"
  re_service :: service_env
  re_service_text :: "service_error \<Rightarrow> string"
  re_parse_text :: "parse_error \<Rightarrow> string"

text \<open>A request: its headers and the instants at which the key set is asked for and the token
  checked. The key cache is the state that survives it.\<close>

record http_request =
  hr_headers :: headers
  hr_started :: nat
  hr_checked :: nat

definition rest_context :: "'k rest_state \<Rightarrow> http_request \<Rightarrow> 'k jwks_cache \<Rightarrow> call_context \<times> 'k jwks_cache" where
  "rest_context st r cache =
     (case resolve_identity (re_jwt st) (re_fetch st) (hr_started r) (hr_checked r) (re_auth st)
             (extract_api_key (hr_headers r)) (extract_tenant (hr_headers r)) cache of
        (i, cache') \<Rightarrow> (re_call_context st i, cache'))"

definition service_failed :: "'k rest_state \<Rightarrow> service_error + 'a \<Rightarrow> http_error + 'a" where
  "service_failed st r = map_err (\<lambda>e. (map_service_error e, re_service_text st e)) r"

record rest_model_info =
  ri_name :: string
  ri_datasource :: string
  ri_description :: "string option"
  ri_measures :: "string list"
  ri_dimensions :: "string list"
  ri_time_dimensions :: "string list"

definition rest_model_info_of :: "model \<Rightarrow> rest_model_info" where
  "rest_model_info_of m =
     \<lparr>ri_name = mo_name m, ri_datasource = mo_datasource m, ri_description = mo_description m,
      ri_measures = map (\<lambda>x. f_expression (m_formula x)) (mo_measures m),
      ri_dimensions = map d_name (mo_dimensions m),
      ri_time_dimensions = map td_dimension (mo_time_dimensions m)\<rparr>"

definition rest_list_models :: "'k rest_state \<Rightarrow> http_request \<Rightarrow> 'k jwks_cache
    \<Rightarrow> (http_error + rest_model_info list) \<times> 'k jwks_cache" where
  "rest_list_models st r cache =
     (case rest_context st r cache of
        (ctx, cache') \<Rightarrow>
          (rbind (service_failed st (visible_models (re_service st) ctx None))
             (\<lambda>ms. Inr (map rest_model_info_of ms)), cache'))"

definition rest_get_model :: "'k rest_state \<Rightarrow> http_request \<Rightarrow> string \<Rightarrow> 'k jwks_cache
    \<Rightarrow> (http_error + rest_model_info) \<times> 'k jwks_cache" where
  "rest_get_model st r name cache =
     (case rest_context st r cache of
        (ctx, cache') \<Rightarrow>
          (case get_model_governed (re_service st) ctx name None of
             Inl _ \<Rightarrow> Inl (404, ''Model not found: '' @ name)
           | Inr m \<Rightarrow> Inr (rest_model_info_of m), cache'))"

record rest_datasource_info =
  rdi_name :: string
  rdi_driver :: string
  rdi_description :: "string option"
  rdi_models :: "string list"

definition rest_datasource_info_of :: "data_source \<Rightarrow> rest_datasource_info" where
  "rest_datasource_info_of d =
     \<lparr>rdi_name = ds_name d, rdi_driver = ds_driver d, rdi_description = ds_description d, rdi_models = ds_models d\<rparr>"

definition rest_list_datasources :: "'k rest_state \<Rightarrow> http_request \<Rightarrow> 'k jwks_cache
    \<Rightarrow> (http_error + rest_datasource_info list) \<times> 'k jwks_cache" where
  "rest_list_datasources st r cache =
     (case rest_context st r cache of
        (ctx, cache') \<Rightarrow>
          (rbind (service_failed st (visible_datasources (re_service st) ctx))
             (\<lambda>ds. Inr (map rest_datasource_info_of ds)), cache'))"

record rest_query_response =
  rr_data :: "json list"
  rr_columns :: "string list"
  rr_sql :: "string option"

definition rest_query :: "'k rest_state \<Rightarrow> http_request \<Rightarrow> rest_query_input \<Rightarrow> 'k jwks_cache
    \<Rightarrow> (http_error + rest_query_response) \<times> effect list \<times> 'k jwks_cache" where
  "rest_query st r input cache =
     (case rest_context st r cache of
        (ctx, cache') \<Rightarrow>
          (case reject_bad_input (re_parse_text st) input of
             Inl e \<Rightarrow> (Inl e, [], cache')
           | Inr _ \<Rightarrow>
               (case execute_query (re_service st) ctx (rest_to_core input) (options_executing\<lparr>eo_explain := True\<rparr>) of
                  (res, eff) \<Rightarrow>
                    (rbind (service_failed st res) (\<lambda>out.
                       Inr \<lparr>rr_data = qo_data out, rr_columns = qo_columns out, rr_sql = qo_sql out\<rparr>), eff, cache'))))"

record rest_stage_result =
  rsr_stage_name :: string
  rsr_data :: "(string \<times> json) list list"
  rsr_columns :: "string list"
  rsr_sql :: "string option"
  rsr_row_count :: nat
  rsr_truncated :: bool

fun row_object :: "json \<Rightarrow> (string \<times> json) list" where
  "row_object (JObject m) = m"
| "row_object v = [(''value'', v)]"

definition rest_stage_result_of :: "string list \<Rightarrow> nat \<times> query_outcome \<Rightarrow> rest_stage_result" where
  "rest_stage_result_of names io =
     (case io of (i, out) \<Rightarrow>
        \<lparr>rsr_stage_name = (if i < length names then names ! i else []), rsr_data = map row_object (qo_data out),
         rsr_columns = qo_columns out, rsr_sql = qo_sql out, rsr_row_count = qo_row_count out,
         rsr_truncated = qo_truncated out\<rparr>)"

definition header_dry_run :: "headers \<Rightarrow> bool" where
  "header_dry_run hs =
     (case hs ''x-graphnight-dry-run'' of Some v \<Rightarrow> v = ''1'' \<or> eq_ignore_case v ''true'' | None \<Rightarrow> False)"

definition rest_multi_stage_query :: "'k rest_state \<Rightarrow> http_request \<Rightarrow> rest_stage_input list \<Rightarrow> 'k jwks_cache
    \<Rightarrow> (http_error + rest_stage_result list) \<times> effect list \<times> 'k jwks_cache" where
  "rest_multi_stage_query st r stages cache =
     (case rest_context st r cache of
        (ctx, cache') \<Rightarrow>
          (case rmap (\<lambda>s. reject_bad_input (re_parse_text st) (rs_query s)) stages of
             Inl e \<Rightarrow> (Inl e, [], cache')
           | Inr _ \<Rightarrow>
               (case execute_multi_stage (re_service st) ctx (map (\<lambda>s. (rs_name s, rest_to_core (rs_query s))) stages)
                       (header_dry_run (hr_headers r)) of
                  (res, eff) \<Rightarrow>
                    (rbind (service_failed st res) (\<lambda>outs.
                       Inr (map (rest_stage_result_of (map rs_name stages)) (enumerate 0 outs))), eff, cache'))))"

definition rest_search :: "'k rest_state \<Rightarrow> http_request \<Rightarrow> string \<Rightarrow> int option \<Rightarrow> 'k jwks_cache
    \<Rightarrow> (http_error + search_result list \<times> nat) \<times> 'k jwks_cache" where
  "rest_search st r q limit cache =
     (case rest_context st r cache of
        (ctx, cache') \<Rightarrow>
          (rbind (service_failed st (search_governed (re_service st) ctx q (i32_as_usize (unwrap_or limit 10))))
             (\<lambda>hits. Inr (hits, length hits)), cache'))"

subsection \<open>What is converted is what was written\<close>

lemma reject_bad_aggregations_ok:
  "reject_bad_aggregations pe q = Inr u \<longleftrightarrow>
     list_all (\<lambda>m. is_ok (aggregation_parse_strict (rm_aggregation m))) (unwrap_or (rq_measures q) [])"
  by (auto simp: reject_bad_aggregations_def branch_simps rmap_Inr list_all_length list_all2_conv_all_nth is_ok_iff
      intro!: exI [of _ "map (\<lambda>m. projr (aggregation_parse_strict (rm_aggregation m))) (unwrap_or (rq_measures q) [])"])

lemma reject_bad_operators_ok:
  "reject_bad_operators pe q = Inr u \<longleftrightarrow>
     list_all (\<lambda>f. is_ok (operator_parse_strict (rf_operator f))) (unwrap_or (rq_filters q) [])"
  by (auto simp: reject_bad_operators_def branch_simps rmap_Inr list_all_length list_all2_conv_all_nth is_ok_iff
      intro!: exI [of _ "map (\<lambda>f. projr (operator_parse_strict (rf_operator f))) (unwrap_or (rq_filters q) [])"])

text \<open>
  A body that is accepted is converted to what it says: every aggregation and operator is the one its
  text parses to, so the silent fallbacks of the conversion are never taken, every aggregation
  renders as a plain dotted name, and a filter is joined with OR exactly when the body says so.
\<close>

lemma rest_conversion_faithful:
  assumes "reject_bad_input pe v = Inr u"
  shows "list_all2 (\<lambda>x m. aggregation_parse_strict (rm_aggregation x) = Inr (m_aggregation m) \<and>
      f_expression (m_formula m) = rm_formula x \<and>
      (m_aggregation m = CountDistinct \<or> dotted_identifier (sql_function (m_aggregation m))))
      (unwrap_or (rq_measures v) []) (q_measures (rest_to_core v)) \<and>
    list_all2 (\<lambda>x f. operator_parse_strict (rf_operator x) = Inr (fl_operator f) \<and> fl_field f = rf_field x \<and>
      fl_value f = rf_value x \<and> (fl_or f \<longleftrightarrow> rf_or_condition x = Some True))
      (unwrap_or (rq_filters v) []) (q_filters (rest_to_core v))"
proof -
  have ok: "list_all (\<lambda>m. is_ok (aggregation_parse_strict (rm_aggregation m))) (unwrap_or (rq_measures v) [])"
    "list_all (\<lambda>f. is_ok (operator_parse_strict (rf_operator f))) (unwrap_or (rq_filters v) [])"
    using assms reject_bad_aggregations_ok [of pe v] reject_bad_operators_ok [of pe v]
    by (auto simp: reject_bad_input_def branch_simps)
  have agg: "aggregation_parse_strict (rm_aggregation x) = Inr (m_aggregation (rest_measure x)) \<and>
      f_expression (m_formula (rest_measure x)) = rm_formula x \<and>
      (m_aggregation (rest_measure x) = CountDistinct \<or> dotted_identifier (sql_function (m_aggregation (rest_measure x))))"
    if "is_ok (aggregation_parse_strict (rm_aggregation x))" for x
    using that aggregation_parse_strict_safe [of "rm_aggregation x"]
    by (auto simp: is_ok_iff rest_measure_def rest_aggregation_def formula_with_format_def formula_with_label_def
        formula_new_def)
  have op: "operator_parse_strict (rf_operator x) = Inr (fl_operator (rest_filter x)) \<and> fl_field (rest_filter x) = rf_field x \<and>
      fl_value (rest_filter x) = rf_value x \<and> (fl_or (rest_filter x) \<longleftrightarrow> rf_or_condition x = Some True)"
    if "is_ok (operator_parse_strict (rf_operator x))" for x
    using that
    by (cases "rf_or_condition x")
      (auto simp: is_ok_iff rest_filter_def rest_operator_def filter_new_def filter_or_def Let_def)
  show ?thesis
    using ok agg op by (simp add: rest_to_core_def list_all2_conv_all_nth list_all_length)
qed

subsection \<open>Who reaches a database\<close>

text \<open>
  C4. From the wire to the database, whatever the parameter \<open>AppState::call_context\<close> makes of an identity: a statement
  executed for a request comes from an accepted body, under the context of the identity to which the
  request's key and token resolve; if that context demands a user it has one, its policy allows the
  named model, which is stored, with its datasource, that datasource is the database, and the statement
  is generated from the body with the filters and the row cap of that policy.
\<close>

theorem rest_statement_governed:
  assumes "Executed ds sql \<in> set eff" and "rest_query st r input cache = (res, eff, cache')"
  shows "\<exists>i ctx n m. ctx = re_call_context st i \<and>
    i = fst (resolve_identity (re_jwt st) (re_fetch st) (hr_started r) (hr_checked r) (re_auth st)
          (extract_api_key (hr_headers r)) (extract_tenant (hr_headers r)) cache) \<and>
    (cc_auth_required ctx \<longrightarrow> cc_user_id ctx \<noteq> None) \<and>
    is_ok (reject_bad_input (re_parse_text st) input) \<and>
    query_model_name (rest_to_core input) = Some n \<and>
    se_get_model (re_service st) n None = Inr (Some m) \<and> model_visible (context_policy ctx) n (mo_datasource m) \<and>
    se_get_datasource (re_service st) (mo_datasource m) = Inr (Some ds) \<and>
    se_generate_sql (re_service st) (governed_query (context_policy ctx) None (rest_to_core input)) = Inr sql"
proof -
  obtain i c where ident: "resolve_identity (re_jwt st) (re_fetch st) (hr_started r) (hr_checked r) (re_auth st)
      (extract_api_key (hr_headers r)) (extract_tenant (hr_headers r)) cache = (i, c)" by fastforce
  let ?ctx = "re_call_context st i" and ?opts = "options_executing\<lparr>eo_explain := True\<rparr>"
  have run: "Executed ds sql \<in> set (snd (execute_query (re_service st) ?ctx (rest_to_core input) ?opts))"
    and ok: "is_ok (reject_bad_input (re_parse_text st) input)"
    using assms by (auto simp: rest_query_def rest_context_def ident split: sum.splits prod.splits)
  have opts: "eo_max_rows ?opts = None" by (simp add: options_executing_def)
  obtain n m where "query_model_name (rest_to_core input) = Some n" "se_get_model (re_service st) n None = Inr (Some m)"
    "model_visible (context_policy ?ctx) n (mo_datasource m)"
    "se_get_datasource (re_service st) (mo_datasource m) = Inr (Some ds)"
    "se_generate_sql (re_service st) (governed_query (context_policy ?ctx) None (rest_to_core input)) = Inr sql"
    "cc_auth_required ?ctx \<longrightarrow> cc_user_id ?ctx \<noteq> None"
    using execute_query_Executed [OF run] unfolding plan_query_Inr opts by (auto simp: branch_simps)
  then show ?thesis using ok
    by (intro exI [of _ i] exI [of _ ?ctx]) (auto simp: ident)
qed

text \<open>Listing needs no credentials: without a policy in the anonymous context, everything is listed.\<close>

lemma rest_listing_open:
  assumes "extract_api_key (hr_headers r) = None" and "context_policy (re_call_context st None) = session_policy_new"
    and "se_list_models (re_service st) None = Inr ms"
  shows "fst (rest_list_models st r cache) = Inr (map rest_model_info_of ms)"
  using assms
  by (simp add: rest_list_models_def rest_context_def resolve_identity_def service_failed_def visible_models_def
      model_visible_def check_model_access_def check_datasource_access_def session_policy_new_def)

text \<open>A denied model and a missing one get the same answer when asked for by name.\<close>

lemma rest_get_model_opaque:
  assumes "rest_context st r cache = (ctx, cache')" and "check_model_access (context_policy ctx) name = Inl e"
  shows "fst (rest_get_model st r name cache) = Inl (404, ''Model not found: '' @ name)"
  using assms by (simp add: rest_get_model_def get_model_governed_def)

subsection \<open>Pipelines, names and numbers\<close>

text \<open>
  The results of a pipeline are listed under the caller's stage names, in the order of the body.
\<close>

lemma rest_stages_named:
  assumes "rest_multi_stage_query st r stages cache = (Inr results, eff, cache')"
  shows "map rsr_stage_name results = map rs_name stages"
proof -
  obtain ctx outs where run: "fst (execute_multi_stage (re_service st) ctx
      (map (\<lambda>s. (rs_name s, rest_to_core (rs_query s))) stages) (header_dry_run (hr_headers r))) = Inr outs"
    and res: "results = map (rest_stage_result_of (map rs_name stages)) (enumerate 0 outs)"
  proof -
    obtain ctx c where ctx: "rest_context st r cache = (ctx, c)" by fastforce
    obtain ex eff1 where ex: "execute_multi_stage (re_service st) ctx
      (map (\<lambda>s. (rs_name s, rest_to_core (rs_query s))) stages) (header_dry_run (hr_headers r)) = (ex, eff1)" by fastforce
    show thesis
      using assms that [of ctx]
      by (cases ex) (auto simp: rest_multi_stage_query_def ctx ex service_failed_def split: sum.splits)
  qed
  have "length outs = length stages" using multi_stage_outcomes [OF run] by simp
  then show ?thesis
    by (intro nth_equalityI) (simp_all add: res rest_stage_result_of_def nth_enumerate_eq)
qed

lemma unlabelled_columns_collide:
  assumes "rm_label x = None" and "measure_item g d alias base (rest_measure x) = Inr item"
  shows "si_alias item = Some []"
  using assms
  by (auto simp: measure_item_def branch_simps rest_measure_def formula_with_format_def formula_with_label_def formula_new_def)

lemma unknown_granularity_is_day: "rest_granularity ''fortnight'' = Day"
  by code_simp

lemma negative_limit_is_huge:
  assumes "- (2 ^ 31) \<le> i" and "i < 0"
  shows "i32_as_usize i = nat (2 ^ 64 + i)"
proof -
  have "i mod 2 ^ 64 = (2 ^ 64 + i) mod 2 ^ 64" by simp
  also have "\<dots> = 2 ^ 64 + i" using assms by (intro mod_pos_pos_trivial) simp_all
  finally show ?thesis by (simp add: i32_as_usize_def)
qed

subsection \<open>A sample request\<close>

definition sample_body :: rest_query_input where
  "sample_body =
     \<lparr>rq_name = Some ''orders'', rq_source_model = None,
      rq_measures = Some [\<lparr>rm_formula = ''revenue'', rm_label = Some ''Revenue'', rm_format = None, rm_aggregation = '' sum''\<rparr>],
      rq_dimensions = Some [\<lparr>rd_name = ''region'', rd_label = Some ''region''\<rparr>], rq_time_dimensions = None,
      rq_filters = Some [\<lparr>rf_field = ''region'', rf_operator = ''EQ'', rf_value = JString ''eu'', rf_or_condition = None\<rparr>],
      rq_order = None, rq_limit = Some 10, rq_offset = None, rq_whole_periods_only = None,
      rq_distinct_dimension_values = None, rq_stage_ref = None\<rparr>"

lemma rest_conversion_faithful_witness:
  "map fl_operator (q_filters (rest_to_core sample_body)) = [Eq] \<and>
   map m_aggregation (q_measures (rest_to_core sample_body)) = [Sum]"
proof -
  have ok: "reject_bad_input (\<lambda>_. []) sample_body = Inr ()" by code_simp
  have "aggregation_parse_strict '' sum'' = Inr Sum" "operator_parse_strict ''EQ'' = Inr Eq" by code_simp+
  then show ?thesis
    using rest_conversion_faithful [OF ok]
    by (auto simp: sample_body_def list_all2_Cons1)
qed

definition sample_auth :: auth_config where
  "sample_auth = \<lparr>ac_api_keys = [(''alice'', ''secret'')], ac_admin_users = {}, ac_auth_required = True, ac_oidc = None\<rparr>"

definition sample_rest :: "nat rest_state" where
  "sample_rest =
     \<lparr>re_jwt = sample_lib, re_fetch = (\<lambda>_. Inl []), re_auth = sample_auth,
      re_call_context = (\<lambda>i. sample_context\<lparr>cc_user_id := map_option id_user_id i\<rparr>),
      re_service = Governance.sample_env, re_service_text = (\<lambda>_. []), re_parse_text = (\<lambda>_. [])\<rparr>"

definition sample_request :: http_request where
  "sample_request = \<lparr>hr_headers = [''x-api-key'' \<mapsto> ''secret''], hr_started = 0, hr_checked = 0\<rparr>"

lemma sample_identity:
  "resolve_identity jwt fetch t0 t1 sample_auth (Some ''secret'') tenant cache =
     (Some \<lparr>id_user_id = ''alice'', id_is_admin = False, id_tenant_id = tenant\<rparr>, cache)"
proof -
  have "trim ''secret'' = ''secret''" "\<not> looks_like_jwt ''secret''" "find_user (ac_api_keys sample_auth) ''secret'' = Some ''alice''"
    by code_simp+
  then show ?thesis by (simp add: resolve_identity_def authenticate_def sample_auth_def)
qed

definition dry_request :: http_request where
  "dry_request = sample_request\<lparr>hr_headers := (hr_headers sample_request)(''x-graphnight-dry-run'' \<mapsto> ''true'')\<rparr>"

lemma sample_keys:
  "extract_api_key (hr_headers sample_request) = Some ''secret''" "extract_api_key (hr_headers dry_request) = Some ''secret''"
  by code_simp+

lemma sample_rest_context:
  "rest_context sample_rest sample_request cache = (sample_context\<lparr>cc_user_id := Some ''alice''\<rparr>, cache)"
  "rest_context sample_rest dry_request cache = (sample_context\<lparr>cc_user_id := Some ''alice''\<rparr>, cache)"
  by (simp_all add: rest_context_def sample_keys) (simp_all add: sample_rest_def sample_identity)

lemma sample_rest_executes:
  "list_ex (\<lambda>e. case e of Executed d s \<Rightarrow> True | _ \<Rightarrow> False)
     (snd (execute_query Governance.sample_env (sample_context\<lparr>cc_user_id := Some ''alice''\<rparr>) (rest_to_core sample_body)
        (options_executing\<lparr>eo_explain := True\<rparr>)))"
  by code_simp

theorem rest_statement_governed_witness:
  "\<exists>ds sql. Executed ds sql \<in> set (fst (snd (rest_query sample_rest sample_request sample_body None))) \<and>
     se_generate_sql Governance.sample_env (governed_query sample_policy None (rest_to_core sample_body)) = Inr sql"
proof -
  have ok: "reject_bad_input (\<lambda>_. []) sample_body = Inr ()" by code_simp
  obtain res eff cache' where q: "rest_query sample_rest sample_request sample_body None = (res, eff, cache')"
    by (metis prod_cases3)
  have "eff = snd (execute_query Governance.sample_env (sample_context\<lparr>cc_user_id := Some ''alice''\<rparr>) (rest_to_core sample_body)
        (options_executing\<lparr>eo_explain := True\<rparr>))"
    using q ok by (auto simp: rest_query_def sample_rest_context) (auto simp: sample_rest_def split: prod.splits)
  then obtain ds sql where run: "Executed ds sql \<in> set eff"
    using sample_rest_executes unfolding list_ex_iff by (metis (no_types, lifting) effect.exhaust effect.simps(6))
  from rest_statement_governed [OF run q] obtain i where
    "se_generate_sql Governance.sample_env (governed_query (context_policy (re_call_context sample_rest i)) None
       (rest_to_core sample_body)) = Inr sql"
    by (auto simp: sample_rest_def)
  moreover have "context_policy (re_call_context sample_rest i) = sample_policy"
    by (simp add: sample_rest_def context_policy_def sample_context_def)
  ultimately show ?thesis using run q by auto
qed

lemma rest_stages_named_witness:
  "\<exists>results. fst (rest_multi_stage_query sample_rest dry_request [\<lparr>rs_name = ''only'', rs_query = sample_body\<rparr>] None) = Inr results \<and>
     map rsr_stage_name results = [''only'']"
proof -
  let ?stages = "[\<lparr>rs_name = ''only'', rs_query = sample_body\<rparr>]"
  have "is_ok (fst (execute_multi_stage Governance.sample_env (sample_context\<lparr>cc_user_id := Some ''alice''\<rparr>)
      [(''only'', rest_to_core sample_body)] True))" by code_simp
  moreover have "header_dry_run (hr_headers dry_request)" by code_simp
  moreover have "reject_bad_input (\<lambda>_. []) sample_body = Inr ()" by code_simp
  moreover have "re_service sample_rest = Governance.sample_env" "re_parse_text sample_rest = (\<lambda>_. [])"
    by (simp_all add: sample_rest_def)
  moreover obtain ex eff where ex: "execute_multi_stage Governance.sample_env (sample_context\<lparr>cc_user_id := Some ''alice''\<rparr>)
      [(''only'', rest_to_core sample_body)] True = (ex, eff)" by fastforce
  ultimately obtain results where r: "rest_multi_stage_query sample_rest dry_request ?stages None = (Inr results, eff, None)"
    by (auto simp: rest_multi_stage_query_def sample_rest_context is_ok_iff service_failed_def)
  from rest_stages_named [OF this] r show ?thesis by auto
qed

end
