(* ===== verification/Graphql_Types.thy ===== *)
theory Graphql_Types
  imports Auth Governance Storage Engine
begin

text \<open>
  The GraphQL surface, first part (\<open>crates/graphnight-graphql/src/schema.rs\<close>, \<open>context.rs\<close>, \<open>auth.rs\<close>,
  \<open>directives.rs\<close>, and \<open>graphql_handler\<close> of \<open>graphnight-server/src/main.rs\<close>): the inputs and their
  conversion, the context of a request, the gates, and how the server builds a context.
\<close>

subsection \<open>Enumerations\<close>

datatype gql_aggregation = GqlSum | GqlAvg | GqlCount | GqlMin | GqlMax | GqlCountDistinct

fun gql_to_aggregation :: "gql_aggregation \<Rightarrow> aggregation_type" where
  "gql_to_aggregation GqlSum = Sum"
| "gql_to_aggregation GqlAvg = Avg"
| "gql_to_aggregation GqlCount = Count"
| "gql_to_aggregation GqlMin = Min"
| "gql_to_aggregation GqlMax = Max"
| "gql_to_aggregation GqlCountDistinct = CountDistinct"

text \<open>A custom aggregation panics.\<close>

fun aggregation_to_gql :: "aggregation_type \<Rightarrow> gql_aggregation option" where
  "aggregation_to_gql Sum = Some GqlSum"
| "aggregation_to_gql Avg = Some GqlAvg"
| "aggregation_to_gql Count = Some GqlCount"
| "aggregation_to_gql Min = Some GqlMin"
| "aggregation_to_gql Max = Some GqlMax"
| "aggregation_to_gql CountDistinct = Some GqlCountDistinct"
| "aggregation_to_gql (Custom s) = None"

datatype gql_granularity =
    GqlSecond | GqlMinute | GqlHour | GqlDay | GqlWeek | GqlMonth | GqlQuarter | GqlYear

fun gql_to_granularity :: "gql_granularity \<Rightarrow> time_granularity" where
  "gql_to_granularity GqlSecond = Second"
| "gql_to_granularity GqlMinute = Minute"
| "gql_to_granularity GqlHour = Hour"
| "gql_to_granularity GqlDay = Day"
| "gql_to_granularity GqlWeek = Week"
| "gql_to_granularity GqlMonth = Month"
| "gql_to_granularity GqlQuarter = Quarter"
| "gql_to_granularity GqlYear = Year"

fun granularity_to_gql :: "time_granularity \<Rightarrow> gql_granularity" where
  "granularity_to_gql Second = GqlSecond"
| "granularity_to_gql Minute = GqlMinute"
| "granularity_to_gql Hour = GqlHour"
| "granularity_to_gql Day = GqlDay"
| "granularity_to_gql Week = GqlWeek"
| "granularity_to_gql Month = GqlMonth"
| "granularity_to_gql Quarter = GqlQuarter"
| "granularity_to_gql Year = GqlYear"

datatype gql_operator =
    GqlEq | GqlNeq | GqlGt | GqlGte | GqlLt | GqlLte | GqlLike | GqlILike | GqlIn | GqlNotIn
  | GqlIsNull | GqlIsNotNull | GqlBetween | GqlNotBetween

fun gql_to_operator :: "gql_operator \<Rightarrow> filter_operator" where
  "gql_to_operator GqlEq = Eq"
| "gql_to_operator GqlNeq = Neq"
| "gql_to_operator GqlGt = Gt"
| "gql_to_operator GqlGte = Gte"
| "gql_to_operator GqlLt = Lt"
| "gql_to_operator GqlLte = Lte"
| "gql_to_operator GqlLike = Like"
| "gql_to_operator GqlILike = ILike"
| "gql_to_operator GqlIn = In"
| "gql_to_operator GqlNotIn = NotIn"
| "gql_to_operator GqlIsNull = IsNull"
| "gql_to_operator GqlIsNotNull = IsNotNull"
| "gql_to_operator GqlBetween = Between"
| "gql_to_operator GqlNotBetween = NotBetween"

datatype gql_join_type = GqlInner | GqlLeft | GqlRight | GqlFull

fun gql_to_join_type :: "gql_join_type \<Rightarrow> join_type" where
  "gql_to_join_type GqlInner = Inner"
| "gql_to_join_type GqlLeft = Left"
| "gql_to_join_type GqlRight = Right"
| "gql_to_join_type GqlFull = Full"

subsection \<open>Inputs\<close>

record gql_source_spec_input =
  gss_model :: string
  gss_datasource :: "string option"
  gss_alias :: "string option"

record gql_measure_input =
  gm_formula :: string
  gm_label :: "string option"
  gm_format :: "string option"
  gm_aggregation :: gql_aggregation

record gql_dimension_input =
  gd_name :: string
  gd_label :: "string option"

record gql_time_dimension_input =
  gt_dimension :: string
  gt_granularity :: gql_granularity
  gt_label :: "string option"

record gql_filter_input =
  gf_field :: string
  gf_operator :: gql_operator
  gf_value :: json
  gf_or_condition :: "bool option"

record gql_order_by_input =
  go_field :: string
  go_descending :: "bool option"

record gql_query_input =
  gq_name :: "string option"
  gq_source_model :: "gql_source_spec_input option"
  gq_measures :: "gql_measure_input list option"
  gq_dimensions :: "gql_dimension_input list option"
  gq_time_dimensions :: "gql_time_dimension_input list option"
  gq_filters :: "gql_filter_input list option"
  gq_order :: "gql_order_by_input list option"
  gq_limit :: "int option"
  gq_offset :: "int option"
  gq_whole_periods_only :: "bool option"
  gq_distinct_dimension_values :: "bool option"
  gq_stage_ref :: "string option"

record gql_join_condition_input =
  gjc_left :: string
  gjc_right :: string

record gql_join_input =
  gj_name :: string
  gj_model :: string
  gj_join_type :: gql_join_type
  gj_on :: "gql_join_condition_input list"
  gj_alias :: "string option"

record gql_create_model_input =
  gcm_name :: string
  gcm_datasource :: string
  gcm_description :: "string option"
  gcm_measures :: "gql_measure_input list"
  gcm_dimensions :: "gql_dimension_input list"
  gcm_time_dimensions :: "gql_time_dimension_input list"
  gcm_joins :: "gql_join_input list option"

record gql_update_model_input =
  gum_description :: "string option"
  gum_measures :: "gql_measure_input list option"
  gum_dimensions :: "gql_dimension_input list option"
  gum_time_dimensions :: "gql_time_dimension_input list option"
  gum_joins :: "gql_join_input list option"

record gql_create_datasource_input =
  gcd_name :: string
  gcd_driver :: string
  gcd_connection_string :: string
  gcd_description :: "string option"
  gcd_pool_size :: "int option"

record gql_update_datasource_input =
  gud_description :: "string option"
  gud_connection_string :: "string option"
  gud_pool_size :: "int option"

record gql_save_memory_input =
  gsm_learning :: string
  gsm_linked_entities :: "string list"
  gsm_id :: "string option"
  gsm_description :: "string option"

record gql_memory_filter =
  gmf_query :: "string option"
  gmf_entity :: "string option"
  gmf_limit :: "int option"
  gmf_offset :: "int option"

subsection \<open>Conversion\<close>

definition gql_source_spec :: "gql_source_spec_input \<Rightarrow> source_spec" where
  "gql_source_spec v = \<lparr>ss_model = gss_model v, ss_datasource = gss_datasource v, ss_alias = gss_alias v\<rparr>"

definition gql_measure :: "gql_measure_input \<Rightarrow> measure" where
  "gql_measure v =
     \<lparr>m_formula = \<lparr>f_expression = gm_formula v, f_label = gm_label v, f_format = gm_format v\<rparr>,
      m_aggregation = gql_to_aggregation (gm_aggregation v)\<rparr>"

definition gql_dimension :: "gql_dimension_input \<Rightarrow> dimension" where
  "gql_dimension v = \<lparr>d_name = gd_name v, d_label = gd_label v\<rparr>"

definition gql_time_dimension :: "gql_time_dimension_input \<Rightarrow> time_dimension" where
  "gql_time_dimension v =
     \<lparr>td_dimension = gt_dimension v, td_granularity = gql_to_granularity (gt_granularity v), td_label = gt_label v\<rparr>"

definition gql_filter :: "gql_filter_input \<Rightarrow> filter_cond" where
  "gql_filter v =
     \<lparr>fl_field = gf_field v, fl_operator = gql_to_operator (gf_operator v), fl_value = gf_value v,
      fl_or = unwrap_or (gf_or_condition v) False\<rparr>"

definition gql_order_by :: "gql_order_by_input \<Rightarrow> order_by" where
  "gql_order_by v = \<lparr>ob_field = go_field v, ob_descending = unwrap_or (go_descending v) False\<rparr>"

text \<open>\<open>i32 as usize\<close> extends the sign to 64 bits, \<open>i32 as u32\<close> is taken modulo.\<close>

definition as_usize :: "int \<Rightarrow> nat" where
  "as_usize i = nat (i mod 2 ^ 64)"

definition as_u32 :: "int \<Rightarrow> nat" where
  "as_u32 i = nat (i mod 2 ^ 32)"

definition gql_to_core :: "gql_query_input \<Rightarrow> query" where
  "gql_to_core v =
     \<lparr>q_name = gq_name v, q_source_model = map_option gql_source_spec (gq_source_model v),
      q_measures = map gql_measure (unwrap_or (gq_measures v) []),
      q_dimensions = map gql_dimension (unwrap_or (gq_dimensions v) []),
      q_time_dimensions = map gql_time_dimension (unwrap_or (gq_time_dimensions v) []),
      q_filters = map gql_filter (unwrap_or (gq_filters v) []),
      q_order = map gql_order_by (unwrap_or (gq_order v) []),
      q_limit = map_option as_usize (gq_limit v), q_offset = map_option as_usize (gq_offset v),
      q_whole_periods_only = gq_whole_periods_only v,
      q_distinct_dimension_values = gq_distinct_dimension_values v, q_stage_ref = gq_stage_ref v\<rparr>"

definition gql_join :: "gql_join_input \<Rightarrow> join_def" where
  "gql_join v =
     \<lparr>jn_name = gj_name v, jn_model = gj_model v, jn_type = gql_to_join_type (gj_join_type v),
      jn_on = map (\<lambda>c. (gjc_left c, gjc_right c)) (gj_on v), jn_alias = gj_alias v\<rparr>"

subsection \<open>Outputs\<close>

record gql_query_response =
  gr_data :: "json list"
  gr_columns :: "string list"
  gr_sql :: "string option"
  gr_population :: "int option"
  gr_population_inferred :: bool

record gql_model_info =
  gmi_name :: string
  gmi_datasource :: string
  gmi_description :: "string option"
  gmi_measures :: "string list"
  gmi_dimensions :: "string list"
  gmi_time_dimensions :: "string list"

record gql_datasource_info =
  gdi_name :: string
  gdi_driver :: string
  gdi_description :: "string option"
  gdi_models :: "string list"

record gql_memory =
  gme_id :: string
  gme_learning :: string
  gme_linked_entities :: "string list"
  gme_description :: "string option"
  gme_created_at :: string
  gme_updated_at :: string

record gql_ingestion_report =
  gir_models_created :: nat
  gir_models_updated :: nat
  gir_errors :: "string list"

record gql_model_change_event =
  gev_event_type :: string
  gev_model_name :: string
  gev_datasource :: string

definition gql_model_info_of :: "model \<Rightarrow> gql_model_info" where
  "gql_model_info_of m =
     \<lparr>gmi_name = mo_name m, gmi_datasource = mo_datasource m, gmi_description = mo_description m,
      gmi_measures = map (\<lambda>x. f_expression (m_formula x)) (mo_measures m),
      gmi_dimensions = map d_name (mo_dimensions m),
      gmi_time_dimensions = map td_dimension (mo_time_dimensions m)\<rparr>"

definition gql_datasource_info_of :: "data_source \<Rightarrow> gql_datasource_info" where
  "gql_datasource_info_of d =
     \<lparr>gdi_name = ds_name d, gdi_driver = ds_driver d, gdi_description = ds_description d, gdi_models = ds_models d\<rparr>"

definition gql_memory_of :: "memory \<Rightarrow> gql_memory" where
  "gql_memory_of m =
     \<lparr>gme_id = me_id m, gme_learning = me_learning m, gme_linked_entities = me_linked_entities m,
      gme_description = me_description m, gme_created_at = me_created_at m, gme_updated_at = me_updated_at m\<rparr>"

subsection \<open>The context and the gates\<close>

text \<open>\<open>GraphQLContext\<close> without the engine and the storage, which are the state; whether there is a sink.\<close>

record graphql_context =
  gc_session_policy :: "session_policy option"
  gc_user_id :: "string option"
  gc_tenant_id :: "string option"
  gc_is_admin :: bool
  gc_auth_required :: bool
  gc_audit_sink :: bool

definition graphql_context_new :: graphql_context where
  "graphql_context_new =
     \<lparr>gc_session_policy = None, gc_user_id = None, gc_tenant_id = None, gc_is_admin = False,
      gc_auth_required = False, gc_audit_sink = False\<rparr>"

definition context_with_policy :: "session_policy \<Rightarrow> graphql_context \<Rightarrow> graphql_context" where
  "context_with_policy p gc = gc\<lparr>gc_session_policy := Some p\<rparr>"

definition context_with_user :: "string \<Rightarrow> string option \<Rightarrow> graphql_context \<Rightarrow> graphql_context" where
  "context_with_user user tenant gc = gc\<lparr>gc_user_id := Some user, gc_tenant_id := tenant\<rparr>"

definition context_with_admin :: "bool \<Rightarrow> graphql_context \<Rightarrow> graphql_context" where
  "context_with_admin admin gc = gc\<lparr>gc_is_admin := admin\<rparr>"

definition context_with_auth_required :: "bool \<Rightarrow> graphql_context \<Rightarrow> graphql_context" where
  "context_with_auth_required required gc = gc\<lparr>gc_auth_required := required\<rparr>"

definition context_with_audit_sink :: "graphql_context \<Rightarrow> graphql_context" where
  "context_with_audit_sink gc = gc\<lparr>gc_audit_sink := True\<rparr>"

datatype gql_error =
    AuthenticationRequired
  | CredentialsRequired
  | AdminPrivilegesRequired
  | AccessDenied access_error
  | NameMissing
  | GqlModelNotFound string
  | GqlDatasourceNotFound string
  | GqlStorage storage_error
  | GqlStatement gen_error
  | GqlTimeout nat
  | GqlExecution string
  | GqlSecret secret_error
  | GqlIntrospection exec_error
  | GqlMaskPanicked service_error
  | GqlStages string
  | DuplicateStageName string

definition require_user :: "graphql_context \<Rightarrow> gql_error + string" where
  "require_user gc = ok_or AuthenticationRequired (gc_user_id gc)"

definition gql_require_admin :: "graphql_context \<Rightarrow> gql_error + string" where
  "gql_require_admin gc =
     (if \<not> gc_is_admin gc then Inl AdminPrivilegesRequired else ok_or AuthenticationRequired (gc_user_id gc))"

definition enforce_policy :: "graphql_context \<Rightarrow> query \<Rightarrow> string \<Rightarrow> string \<Rightarrow> gql_error + query" where
  "enforce_policy gc q model_name datasource =
     (let p = unwrap_or (gc_session_policy gc) session_policy_new in
      rbind (map_err AccessDenied (check_model_access p model_name)) (\<lambda>_.
      rbind (map_err AccessDenied (check_datasource_access p datasource)) (\<lambda>_.
        Inr (enforce_row_limit p (apply_rls p (apply_forced_filters p q))))))"

definition reject_if_auth_required :: "graphql_context \<Rightarrow> gql_error + unit" where
  "reject_if_auth_required gc =
     (if gc_auth_required gc \<and> gc_user_id gc = None then Inl CredentialsRequired else Inr ())"

definition require_admin_if_auth :: "graphql_context \<Rightarrow> gql_error + unit" where
  "require_admin_if_auth gc =
     (if \<not> gc_auth_required gc then Inr () else rbind (gql_require_admin gc) (\<lambda>_. Inr ()))"

definition require_user_if_auth :: "graphql_context \<Rightarrow> gql_error + unit" where
  "require_user_if_auth gc =
     (if \<not> gc_auth_required gc then Inr () else rbind (require_user gc) (\<lambda>_. Inr ()))"

text \<open>The directives around a resolver: only \<open>auth\<close> does something.\<close>

definition auth_directive :: "graphql_context \<Rightarrow> (gql_error + 'a) \<Rightarrow> gql_error + 'a" where
  "auth_directive gc resolve = (if gc_user_id gc = None then Inl AuthenticationRequired else resolve)"

definition rate_limit_directive :: "graphql_context \<Rightarrow> (gql_error + 'a) \<Rightarrow> gql_error + 'a" where
  "rate_limit_directive gc resolve = resolve"

definition cache_directive :: "graphql_context \<Rightarrow> (gql_error + 'a) \<Rightarrow> gql_error + 'a" where
  "cache_directive gc resolve = resolve"

subsection \<open>Contexts of the server\<close>

text \<open>
  \<open>graphql_handler\<close>: every POST carries a context of its own. The WebSocket endpoint is mounted on the
  bare schema, so its operations find the context that \<open>build_schema\<close> attached.
\<close>

definition request_context ::
    "'k jwt_lib \<Rightarrow> (nat \<Rightarrow> string + 'k jwk list) \<Rightarrow> nat \<Rightarrow> nat \<Rightarrow> auth_config \<Rightarrow> headers \<Rightarrow> 'k jwks_cache
      \<Rightarrow> graphql_context \<times> 'k jwks_cache" where
  "request_context lib fetch t0 t1 ac hs cache =
     (case resolve_identity lib fetch t0 t1 ac (extract_api_key hs) (extract_tenant hs) cache of
        (identity, cache') \<Rightarrow>
          (let gc = context_with_audit_sink (context_with_policy (default_policy identity)
                      (context_with_auth_required (ac_auth_required ac) graphql_context_new))
           in case identity of
                Some i \<Rightarrow> context_with_admin (id_is_admin i) (context_with_user (id_user_id i) (id_tenant_id i) gc)
              | None \<Rightarrow> gc,
           cache'))"

definition socket_context :: graphql_context where
  "socket_context = graphql_context_new"

end
