(* ===== verification/Graphql.thy ===== *)
theory Graphql
  imports Graphql_Types
begin

text \<open>
  The resolvers (\<open>crates/graphnight-graphql/src/resolvers.rs\<close>) over the storage backend and the engine.
  An operation returns its result, its effects (statements handed to the engine and audit entries)
  and the state after it.

  The module \<open>multistage\<close>, which \<open>lib.rs\<close> declares and \<open>multi_stage_query\<close> calls, is not in the
  repository: its \<open>execute_dag\<close> is a parameter. So are fresh identifiers, the time, the texts of
  storage errors, and whether a statement outlasts its timeout. Elapsed times are left out.
\<close>

subsection \<open>State, environment, effects\<close>

record ('s, 'c, 'r, 'p) gql_state =
  gs_store :: 's
  gs_engine :: "('c, 'r, 'p) engine_state"

record gql_audit =
  ga_user_id :: "string option"
  ga_tenant_id :: "string option"
  ga_model :: "string option"
  ga_row_count :: "nat option"
  ga_success :: bool
  ga_error :: "gql_error option"

datatype gql_effect = GqlExecuted data_source string | GqlAudited gql_audit

text \<open>A statement that is cut off was still connecting, or was running on its pool.\<close>

datatype stall = WhileConnecting | WhileRunning

record stage_input =
  sgi_query :: query
  sgi_stage_name :: string
  sgi_depends_on :: "string list"

record ('s, 'c, 'r, 'p, 'k) gql_env =
  ge_backend :: "'s backend"
  ge_engine :: "('c, 'r, 'p, 'k) engine_lib"
  ge_stall :: "data_source \<Rightarrow> string \<Rightarrow> nat \<Rightarrow> stall option"
  ge_execute_dag :: "nat \<Rightarrow> stage_input list \<Rightarrow> ('s, 'c, 'r, 'p) gql_state
    \<Rightarrow> (string + (row list \<times> string) list) \<times> gql_effect list \<times> ('s, 'c, 'r, 'p) gql_state"
  ge_storage_text :: "storage_error \<Rightarrow> string"
  ge_new_id :: string
  ge_now :: string

subsection \<open>Executing a statement within a time\<close>

definition execute_within ::
    "('s, 'c, 'r, 'p, 'k) gql_env \<Rightarrow> moment \<Rightarrow> nat \<Rightarrow> ('c, 'r, 'p) engine_state \<Rightarrow> data_source \<Rightarrow> string
      \<Rightarrow> (gql_error + row list) \<times> ('c, 'r, 'p) engine_state" where
  "execute_within env now secs en ds sql =
     (let lib = ge_engine env;
          finished = (case engine_execute_sqlx lib now en ds sql of (r, en') \<Rightarrow> (map_err GqlExecution r, en'))
      in case ge_stall env ds sql secs of
           None \<Rightarrow> finished
         | Some stalled \<Rightarrow>
             (case get_maps (el_results lib) (at_lookup now) (es_results en)
                     (result_key (ds_name ds) (en_policy_fingerprint (es_engine en)) sql) of
                (Some rows, rc) \<Rightarrow> finished
              | (None, rc) \<Rightarrow>
                  (Inl (GqlTimeout secs),
                   case stalled of
                     WhileConnecting \<Rightarrow> en\<lparr>es_results := rc\<rparr>
                   | WhileRunning \<Rightarrow> en\<lparr>es_results := rc,
                       es_connections := snd (execute_literal (at_env now) (el_drivers lib) (el_json_text lib)
                                                ds sql (es_connections en))\<rparr>)))"

subsection \<open>Queries\<close>

definition query_response :: "row list \<Rightarrow> row list \<Rightarrow> string option \<Rightarrow> gql_query_response" where
  "query_response rows masked sql =
     \<lparr>gr_data = map JObject masked, gr_columns = (case rows of [] \<Rightarrow> [] | r # _ \<Rightarrow> map fst r), gr_sql = sql,
      gr_population = None, gr_population_inferred = False\<rparr>"

definition policy_masks :: "graphql_context \<Rightarrow> (string \<times> mask_fn) list" where
  "policy_masks gc = (case gc_session_policy gc of Some p \<Rightarrow> sp_column_masks p | None \<Rightarrow> [])"

definition policy_timeout :: "graphql_context \<Rightarrow> nat" where
  "policy_timeout gc = unwrap_or (Option.bind (gc_session_policy gc) sp_query_timeout_secs) 300"

definition masked_rows :: "graphql_context \<Rightarrow> row list \<Rightarrow> gql_error + row list" where
  "masked_rows gc rows = map_err GqlMaskPanicked (rmap (mask_row (policy_masks gc)) rows)"

text \<open>The model a query names and the query under the policy.\<close>

definition gql_governed_query ::
    "('s, 'c, 'r, 'p, 'k) gql_env \<Rightarrow> graphql_context \<Rightarrow> ('s, 'c, 'r, 'p) gql_state \<Rightarrow> query \<Rightarrow> string
      \<Rightarrow> gql_error + model \<times> query" where
  "gql_governed_query env gc st q model_name =
     rbind (map_err GqlStorage (bk_get_model (ge_backend env) (gs_store st) model_name None)) (\<lambda>found.
     rbind (ok_or (GqlModelNotFound model_name) found) (\<lambda>m.
     rbind (enforce_policy gc q model_name (mo_datasource m)) (\<lambda>q'. Inr (m, q'))))"

definition stored_datasource ::
    "('s, 'c, 'r, 'p, 'k) gql_env \<Rightarrow> ('s, 'c, 'r, 'p) gql_state \<Rightarrow> string \<Rightarrow> gql_error + data_source" where
  "stored_datasource env st name =
     rbind (map_err GqlStorage (bk_get_datasource (ge_backend env) (gs_store st) name))
       (ok_or (GqlDatasourceNotFound name))"

text \<open>The result, the model the query names once that is known, the effects and the state.\<close>

definition gql_execute_query ::
    "('s, 'c, 'r, 'p, 'k) gql_env \<Rightarrow> moment \<Rightarrow> graphql_context \<Rightarrow> ('s, 'c, 'r, 'p) gql_state
      \<Rightarrow> gql_query_input \<Rightarrow> bool option
      \<Rightarrow> (gql_error + gql_query_response) \<times> string option \<times> gql_effect list \<times> ('s, 'c, 'r, 'p) gql_state" where
  "gql_execute_query env now gc st input dry_run =
     (case rbind (reject_if_auth_required gc) (\<lambda>_. ok_or NameMissing (query_model_name (gql_to_core input))) of
        Inl e \<Rightarrow> (Inl e, None, [], st)
      | Inr model_name \<Rightarrow>
          (case gql_governed_query env gc st (gql_to_core input) model_name of
             Inl e \<Rightarrow> (Inl e, Some model_name, [], st)
           | Inr (m, q) \<Rightarrow>
               if unwrap_or dry_run False then
                 (case generate_sql_text (ge_engine env) (gs_engine st) q of
                    (r, en) \<Rightarrow>
                      (rbind (map_err GqlStatement r) (\<lambda>sql. Inr (query_response [] [] (Some sql))),
                       Some model_name, [], st\<lparr>gs_engine := en\<rparr>))
               else
                 (case stored_datasource env st (mo_datasource m) of
                    Inl e \<Rightarrow> (Inl e, Some model_name, [], st)
                  | Inr ds \<Rightarrow>
                      (case generate_sql_text (ge_engine env) (gs_engine st) q of
                         (Inl e, en) \<Rightarrow> (Inl (GqlStatement e), Some model_name, [], st\<lparr>gs_engine := en\<rparr>)
                       | (Inr sql, en) \<Rightarrow>
                           (case execute_within env now (policy_timeout gc) en ds sql of
                              (r, en') \<Rightarrow>
                                (rbind r (\<lambda>rows. rbind (masked_rows gc rows) (\<lambda>masked.
                                   Inr (query_response rows masked (Some sql)))),
                                 Some model_name, [GqlExecuted ds sql], st\<lparr>gs_engine := en'\<rparr>))))))"

definition gql_audit_entry ::
    "graphql_context \<Rightarrow> string option \<Rightarrow> gql_error + gql_query_response \<Rightarrow> gql_audit" where
  "gql_audit_entry gc model_name r =
     \<lparr>ga_user_id = gc_user_id gc, ga_tenant_id = gc_tenant_id gc, ga_model = model_name,
      ga_row_count = (case r of Inr resp \<Rightarrow> Some (length (gr_data resp)) | Inl _ \<Rightarrow> None),
      ga_success = is_ok r,
      ga_error = (case r of Inr _ \<Rightarrow> None | Inl e \<Rightarrow> Some e)\<rparr>"

definition gql_query ::
    "('s, 'c, 'r, 'p, 'k) gql_env \<Rightarrow> moment \<Rightarrow> graphql_context \<Rightarrow> ('s, 'c, 'r, 'p) gql_state
      \<Rightarrow> gql_query_input \<Rightarrow> bool option
      \<Rightarrow> (gql_error + gql_query_response) \<times> gql_effect list \<times> ('s, 'c, 'r, 'p) gql_state" where
  "gql_query env now gc st input dry_run =
     (case gql_execute_query env now gc st input dry_run of
        (r, model_name, eff, st') \<Rightarrow>
          (r, if gc_audit_sink gc then eff @ [GqlAudited (gql_audit_entry gc model_name r)] else eff, st'))"

subsection \<open>Pipelines\<close>

definition auto_stage_name :: "nat \<Rightarrow> string" where
  "auto_stage_name idx = ''stage_'' @ nat_str (idx + 1)"

fun stages_from :: "nat \<Rightarrow> string set \<Rightarrow> gql_query_input list \<Rightarrow> gql_error + stage_input list" where
  "stages_from idx names [] = Inr []"
| "stages_from idx names (input # inputs) =
     (let name = auto_stage_name idx; q = gql_to_core input in
      if name \<in> names then Inl (DuplicateStageName name)
      else rbind (stages_from (idx + 1) (insert name names) inputs) (\<lambda>rest.
        Inr (\<lparr>sgi_query = q, sgi_stage_name = name,
              sgi_depends_on = (case q_stage_ref q of Some s \<Rightarrow> [s] | None \<Rightarrow> [])\<rparr> # rest)))"

definition stage_response ::
    "graphql_context \<Rightarrow> bool \<Rightarrow> row list \<times> string \<Rightarrow> gql_error + gql_query_response" where
  "stage_response gc dry = (\<lambda>(rows, sql). rbind (masked_rows gc rows) (\<lambda>masked.
     Inr (query_response rows masked (if dry then Some sql else None))))"

definition gql_multi_stage_query ::
    "('s, 'c, 'r, 'p, 'k) gql_env \<Rightarrow> graphql_context \<Rightarrow> ('s, 'c, 'r, 'p) gql_state
      \<Rightarrow> gql_query_input list \<Rightarrow> bool option
      \<Rightarrow> (gql_error + gql_query_response list) \<times> gql_effect list \<times> ('s, 'c, 'r, 'p) gql_state" where
  "gql_multi_stage_query env gc st inputs dry_run =
     (case rbind (reject_if_auth_required gc) (\<lambda>_. stages_from 0 {} inputs) of
        Inl e \<Rightarrow> (Inl e, [], st)
      | Inr stages \<Rightarrow>
          (case ge_execute_dag env (policy_timeout gc) stages st of
             (Inl e, eff, st') \<Rightarrow> (Inl (GqlStages e), eff, st')
           | (Inr results, eff, st') \<Rightarrow>
               (rmap (stage_response gc (unwrap_or dry_run False)) results, eff, st')))"

subsection \<open>Reads\<close>

definition gql_models ::
    "('s, 'c, 'r, 'p, 'k) gql_env \<Rightarrow> graphql_context \<Rightarrow> ('s, 'c, 'r, 'p) gql_state \<Rightarrow> string option
      \<Rightarrow> gql_error + gql_model_info list" where
  "gql_models env gc st datasource =
     rbind (map_err GqlStorage (bk_list_models (ge_backend env) (gs_store st) datasource))
       (\<lambda>ms. Inr (map gql_model_info_of ms))"

definition gql_model ::
    "('s, 'c, 'r, 'p, 'k) gql_env \<Rightarrow> graphql_context \<Rightarrow> ('s, 'c, 'r, 'p) gql_state \<Rightarrow> string \<Rightarrow> string option
      \<Rightarrow> gql_error + gql_model_info option" where
  "gql_model env gc st name datasource =
     rbind (map_err GqlStorage (bk_get_model (ge_backend env) (gs_store st) name datasource))
       (\<lambda>m. Inr (map_option gql_model_info_of m))"

definition gql_datasources ::
    "('s, 'c, 'r, 'p, 'k) gql_env \<Rightarrow> graphql_context \<Rightarrow> ('s, 'c, 'r, 'p) gql_state
      \<Rightarrow> gql_error + gql_datasource_info list" where
  "gql_datasources env gc st =
     rbind (map_err GqlStorage (bk_list_datasources (ge_backend env) (gs_store st)))
       (\<lambda>ds. Inr (map gql_datasource_info_of ds))"

text \<open>A result has the five fields of the storage's result.\<close>

definition gql_search ::
    "('s, 'c, 'r, 'p, 'k) gql_env \<Rightarrow> graphql_context \<Rightarrow> ('s, 'c, 'r, 'p) gql_state \<Rightarrow> string \<Rightarrow> int option
      \<Rightarrow> gql_error + index_hit list" where
  "gql_search env gc st q limit =
     map_err GqlStorage (bk_search (ge_backend env) (gs_store st) q (as_usize (unwrap_or limit 10)))"

definition gql_inspect ::
    "('s, 'c, 'r, 'p, 'k) gql_env \<Rightarrow> graphql_context \<Rightarrow> ('s, 'c, 'r, 'p) gql_state \<Rightarrow> string \<Rightarrow> string
      \<Rightarrow> gql_error + gql_model_info option" where
  "gql_inspect env gc st name datasource = gql_model env gc st name (Some datasource)"

definition gql_memories ::
    "('s, 'c, 'r, 'p, 'k) gql_env \<Rightarrow> graphql_context \<Rightarrow> ('s, 'c, 'r, 'p) gql_state \<Rightarrow> gql_memory_filter
      \<Rightarrow> gql_error + gql_memory list" where
  "gql_memories env gc st f =
     rbind (map_err GqlStorage (bk_list_memories (ge_backend env) (gs_store st)
              \<lparr>mf_query = gmf_query f, mf_entity = gmf_entity f, mf_limit = map_option as_usize (gmf_limit f),
               mf_offset = map_option as_usize (gmf_offset f)\<rparr>))
       (\<lambda>ms. Inr (map gql_memory_of ms))"

definition gql_memory_by_id ::
    "('s, 'c, 'r, 'p, 'k) gql_env \<Rightarrow> graphql_context \<Rightarrow> ('s, 'c, 'r, 'p) gql_state \<Rightarrow> string
      \<Rightarrow> gql_error + gql_memory option" where
  "gql_memory_by_id env gc st i =
     rbind (map_err GqlStorage (bk_get_memory (ge_backend env) (gs_store st) i))
       (\<lambda>m. Inr (map_option gql_memory_of m))"

subsection \<open>Changes\<close>

text \<open>What storage answers to a change: the state it leaves, the engine's results dropped on success.\<close>

definition stored ::
    "('s, 'c, 'r, 'p) gql_state \<Rightarrow> (storage_error + 'a) \<times> 's \<Rightarrow> ('c, 'r, 'p) engine_state \<Rightarrow> ('a \<Rightarrow> 'b)
      \<Rightarrow> (gql_error + 'b) \<times> ('s, 'c, 'r, 'p) gql_state" where
  "stored st answer en f =
     (case answer of
        (Inl e, s) \<Rightarrow> (Inl (GqlStorage e), st\<lparr>gs_store := s\<rparr>)
      | (Inr x, s) \<Rightarrow> (Inr (f x), st\<lparr>gs_store := s, gs_engine := en\<rparr>))"

definition gql_input_model :: "gql_create_model_input \<Rightarrow> model" where
  "gql_input_model input =
     \<lparr>mo_name = gcm_name input, mo_datasource = gcm_datasource input, mo_description = gcm_description input,
      mo_measures = map gql_measure (gcm_measures input), mo_dimensions = map gql_dimension (gcm_dimensions input),
      mo_time_dimensions = map gql_time_dimension (gcm_time_dimensions input),
      mo_joins = map gql_join (unwrap_or (gcm_joins input) []), mo_sql = None, mo_meta = []\<rparr>"

definition gql_create_model ::
    "('s, 'c, 'r, 'p, 'k) gql_env \<Rightarrow> graphql_context \<Rightarrow> ('s, 'c, 'r, 'p) gql_state \<Rightarrow> gql_create_model_input
      \<Rightarrow> (gql_error + gql_model_info) \<times> ('s, 'c, 'r, 'p) gql_state" where
  "gql_create_model env gc st input =
     (case require_admin_if_auth gc of
        Inl e \<Rightarrow> (Inl e, st)
      | Inr _ \<Rightarrow>
          stored st (bk_create_model (ge_backend env) (gs_store st) (gql_input_model input))
            (invalidate_result_cache (ge_engine env) (gs_engine st)) gql_model_info_of)"

definition gql_updated_model :: "gql_update_model_input \<Rightarrow> model \<Rightarrow> model" where
  "gql_updated_model input m =
     (let m = (case gum_description input of Some d \<Rightarrow> m\<lparr>mo_description := Some d\<rparr> | None \<Rightarrow> m);
          m = (case gum_measures input of Some ms \<Rightarrow> m\<lparr>mo_measures := map gql_measure ms\<rparr> | None \<Rightarrow> m);
          m = (case gum_dimensions input of Some ds \<Rightarrow> m\<lparr>mo_dimensions := map gql_dimension ds\<rparr> | None \<Rightarrow> m);
          m = (case gum_time_dimensions input of
                 Some ts \<Rightarrow> m\<lparr>mo_time_dimensions := map gql_time_dimension ts\<rparr> | None \<Rightarrow> m)
      in case gum_joins input of Some js \<Rightarrow> m\<lparr>mo_joins := map gql_join js\<rparr> | None \<Rightarrow> m)"

definition gql_update_model ::
    "('s, 'c, 'r, 'p, 'k) gql_env \<Rightarrow> graphql_context \<Rightarrow> ('s, 'c, 'r, 'p) gql_state \<Rightarrow> string \<Rightarrow> gql_update_model_input
      \<Rightarrow> (gql_error + gql_model_info) \<times> ('s, 'c, 'r, 'p) gql_state" where
  "gql_update_model env gc st name input =
     (case rbind (require_admin_if_auth gc) (\<lambda>_.
           rbind (map_err GqlStorage (bk_get_model (ge_backend env) (gs_store st) name None))
             (ok_or (GqlModelNotFound name))) of
        Inl e \<Rightarrow> (Inl e, st)
      | Inr m \<Rightarrow>
          stored st (bk_update_model (ge_backend env) (gs_store st) name (gql_updated_model input m))
            (invalidate_result_cache (ge_engine env) (gs_engine st)) gql_model_info_of)"

definition gql_delete_model ::
    "('s, 'c, 'r, 'p, 'k) gql_env \<Rightarrow> graphql_context \<Rightarrow> ('s, 'c, 'r, 'p) gql_state \<Rightarrow> string \<Rightarrow> string option
      \<Rightarrow> (gql_error + bool) \<times> ('s, 'c, 'r, 'p) gql_state" where
  "gql_delete_model env gc st name datasource =
     (case require_admin_if_auth gc of
        Inl e \<Rightarrow> (Inl e, st)
      | Inr _ \<Rightarrow>
          stored st (bk_delete_model (ge_backend env) (gs_store st) name datasource)
            (invalidate_result_cache (ge_engine env) (gs_engine st)) id)"

definition gql_create_datasource ::
    "('s, 'c, 'r, 'p, 'k) gql_env \<Rightarrow> moment \<Rightarrow> graphql_context \<Rightarrow> ('s, 'c, 'r, 'p) gql_state
      \<Rightarrow> gql_create_datasource_input \<Rightarrow> (gql_error + gql_datasource_info) \<times> ('s, 'c, 'r, 'p) gql_state" where
  "gql_create_datasource env now gc st input =
     (case rbind (require_admin_if_auth gc) (\<lambda>_.
           map_err GqlSecret (validate_connection_string_input (at_env now) (gcd_connection_string input))) of
        Inl e \<Rightarrow> (Inl e, st)
      | Inr _ \<Rightarrow>
          stored st (bk_create_datasource (ge_backend env) (gs_store st)
              \<lparr>ds_name = gcd_name input, ds_driver = gcd_driver input,
               ds_connection_string = gcd_connection_string input, ds_description = gcd_description input,
               ds_models = [], ds_pool_size = map_option as_u32 (gcd_pool_size input), ds_meta = []\<rparr>)
            (gs_engine st) gql_datasource_info_of)"

definition gql_updated_datasource ::
    "env \<Rightarrow> gql_update_datasource_input \<Rightarrow> data_source \<Rightarrow> gql_error + data_source" where
  "gql_updated_datasource secrets input ds =
     (let ds = (case gud_description input of Some d \<Rightarrow> ds\<lparr>ds_description := Some d\<rparr> | None \<Rightarrow> ds) in
      rbind (case gud_connection_string input of
               Some conn \<Rightarrow> rbind (map_err GqlSecret (validate_connection_string_input secrets conn))
                              (\<lambda>_. Inr (ds\<lparr>ds_connection_string := conn\<rparr>))
             | None \<Rightarrow> Inr ds)
        (\<lambda>ds. Inr (case gud_pool_size input of Some n \<Rightarrow> ds\<lparr>ds_pool_size := Some (as_u32 n)\<rparr> | None \<Rightarrow> ds)))"

definition gql_update_datasource ::
    "('s, 'c, 'r, 'p, 'k) gql_env \<Rightarrow> moment \<Rightarrow> graphql_context \<Rightarrow> ('s, 'c, 'r, 'p) gql_state \<Rightarrow> string
      \<Rightarrow> gql_update_datasource_input \<Rightarrow> (gql_error + gql_datasource_info) \<times> ('s, 'c, 'r, 'p) gql_state" where
  "gql_update_datasource env now gc st name input =
     (case rbind (require_admin_if_auth gc) (\<lambda>_. rbind (stored_datasource env st name)
             (gql_updated_datasource (at_env now) input)) of
        Inl e \<Rightarrow> (Inl e, st)
      | Inr ds \<Rightarrow>
          stored st (bk_update_datasource (ge_backend env) (gs_store st) name ds) (gs_engine st) gql_datasource_info_of)"

definition gql_save_memory ::
    "('s, 'c, 'r, 'p, 'k) gql_env \<Rightarrow> graphql_context \<Rightarrow> ('s, 'c, 'r, 'p) gql_state \<Rightarrow> gql_save_memory_input
      \<Rightarrow> (gql_error + gql_memory) \<times> ('s, 'c, 'r, 'p) gql_state" where
  "gql_save_memory env gc st input =
     (case require_user_if_auth gc of
        Inl e \<Rightarrow> (Inl e, st)
      | Inr _ \<Rightarrow>
          stored st (bk_save_memory (ge_backend env) (gs_store st)
              \<lparr>me_id = unwrap_or (gsm_id input) (ge_new_id env), me_learning = gsm_learning input,
               me_linked_entities = gsm_linked_entities input, me_description = gsm_description input,
               me_created_at = ge_now env, me_updated_at = ge_now env, me_meta = []\<rparr>)
            (gs_engine st) gql_memory_of)"

definition gql_forget_memory ::
    "('s, 'c, 'r, 'p, 'k) gql_env \<Rightarrow> graphql_context \<Rightarrow> ('s, 'c, 'r, 'p) gql_state \<Rightarrow> string
      \<Rightarrow> (gql_error + bool \<times> string) \<times> ('s, 'c, 'r, 'p) gql_state" where
  "gql_forget_memory env gc st i =
     (case require_user_if_auth gc of
        Inl e \<Rightarrow> (Inl e, st)
      | Inr _ \<Rightarrow> stored st (bk_delete_memory (ge_backend env) (gs_store st) i) (gs_engine st) (\<lambda>success. (success, i)))"

subsection \<open>Ingestion\<close>

text \<open>One table: its model replaces the stored one of that name, or is created.\<close>

definition ingest_table ::
    "('s, 'c, 'r, 'p, 'k) gql_env \<Rightarrow> string \<Rightarrow> table_info list \<Rightarrow> table_info \<Rightarrow> 's \<times> gql_ingestion_report
      \<Rightarrow> 's \<times> gql_ingestion_report" where
  "ingest_table env datasource tables t acc =
     (case acc of (s, report) \<Rightarrow>
        let m = infer_model_from_table t datasource tables; bk = ge_backend env;
            failed = (\<lambda>text. report\<lparr>gir_errors := gir_errors report @ [text]\<rparr>) in
        (case bk_get_model bk s (mo_name m) None of
           Inr (Some _) \<Rightarrow>
             (case bk_update_model bk s (mo_name m) m of
                (Inl e, s') \<Rightarrow> (s', failed (''Failed to update model '' @ mo_name m @ '': '' @ ge_storage_text env e))
              | (Inr _, s') \<Rightarrow> (s', report\<lparr>gir_models_updated := gir_models_updated report + 1\<rparr>))
         | Inr None \<Rightarrow>
             (case bk_create_model bk s m of
                (Inl e, s') \<Rightarrow> (s', failed (''Failed to create model: '' @ ge_storage_text env e))
              | (Inr _, s') \<Rightarrow> (s', report\<lparr>gir_models_created := gir_models_created report + 1\<rparr>))
         | Inl e \<Rightarrow> (s, failed (''Storage error: '' @ ge_storage_text env e))))"

definition introspection_default :: introspection_config where
  "introspection_default = \<lparr>ic_include_views = False, ic_schema_filter = None, ic_table_filter = None\<rparr>"

definition gql_ingest_models ::
    "('s, 'c, 'r, 'p, 'k) gql_env \<Rightarrow> moment \<Rightarrow> graphql_context \<Rightarrow> ('s, 'c, 'r, 'p) gql_state \<Rightarrow> string
      \<Rightarrow> (gql_error + gql_ingestion_report) \<times> ('s, 'c, 'r, 'p) gql_state" where
  "gql_ingest_models env now gc st datasource =
     (case rbind (require_admin_if_auth gc) (\<lambda>_. stored_datasource env st datasource) of
        Inl e \<Rightarrow> (Inl e, st)
      | Inr ds \<Rightarrow>
          (case engine_introspect (ge_engine env) now (gs_engine st) ds introspection_default of
             (Inl e, en) \<Rightarrow> (Inl (GqlIntrospection e), st\<lparr>gs_engine := en\<rparr>)
           | (Inr tables, en) \<Rightarrow>
               (case fold (ingest_table env datasource tables) tables
                       (gs_store st, \<lparr>gir_models_created = 0, gir_models_updated = 0, gir_errors = []\<rparr>) of
                  (s, report) \<Rightarrow>
                    (Inr report, st\<lparr>gs_store := s, gs_engine := invalidate_result_cache (ge_engine env) en\<rparr>))))"

subsection \<open>Subscriptions\<close>

definition live_interval :: "int \<Rightarrow> int" where
  "live_interval interval_ms = max interval_ms 250"

text \<open>One tick: what is yielded, if anything.\<close>

definition live_query_tick ::
    "('s, 'c, 'r, 'p, 'k) gql_env \<Rightarrow> moment \<Rightarrow> graphql_context \<Rightarrow> ('s, 'c, 'r, 'p) gql_state \<Rightarrow> gql_query_input
      \<Rightarrow> gql_query_response option \<times> gql_effect list \<times> ('s, 'c, 'r, 'p) gql_state" where
  "live_query_tick env now gc st input =
     (let q = gql_to_core input; bk = ge_backend env; s = gs_store st in
      case query_model_name q of
        None \<Rightarrow> (None, [], st)
      | Some model_name \<Rightarrow>
          (case bk_get_model bk s model_name None of
             Inr (Some m) \<Rightarrow>
               (case bk_get_datasource bk s (mo_datasource m) of
                  Inr (Some ds) \<Rightarrow>
                    (case generate_sql_text (ge_engine env) (gs_engine st) q of
                       (Inl e, en) \<Rightarrow> (None, [], st\<lparr>gs_engine := en\<rparr>)
                     | (Inr sql, en) \<Rightarrow>
                         (case engine_execute_sqlx (ge_engine env) now en ds sql of
                            (Inl e, en') \<Rightarrow> (None, [GqlExecuted ds sql], st\<lparr>gs_engine := en'\<rparr>)
                          | (Inr rows, en') \<Rightarrow>
                              (Some (query_response rows rows (Some sql)), [GqlExecuted ds sql], st\<lparr>gs_engine := en'\<rparr>)))
                | _ \<Rightarrow> (None, [], st))
           | _ \<Rightarrow> (None, [], st)))"

definition model_fingerprint :: "model list \<Rightarrow> string" where
  "model_fingerprint ms = str_join ''|'' (map (\<lambda>m. mo_name m @ '':'' @ unwrap_or (mo_description m) []) ms)"

text \<open>One tick of the change feed, which remembers the last fingerprint.\<close>

definition model_changes_tick ::
    "('s, 'c, 'r, 'p, 'k) gql_env \<Rightarrow> graphql_context \<Rightarrow> ('s, 'c, 'r, 'p) gql_state \<Rightarrow> string \<Rightarrow> string
      \<Rightarrow> gql_model_change_event list \<times> string" where
  "model_changes_tick env gc st datasource seen =
     (case bk_list_models (ge_backend env) (gs_store st) (Some datasource) of
        Inl e \<Rightarrow> ([], seen)
      | Inr ms \<Rightarrow>
          let fingerprint = model_fingerprint ms in
          if fingerprint = seen then ([], seen)
          else (if seen = [] then []
                else map (\<lambda>m. \<lparr>gev_event_type = ''updated'', gev_model_name = mo_name m,
                               gev_datasource = mo_datasource m\<rparr>) ms,
                fingerprint))"

end
