(* ===== verification/Graphql_Safety.thy ===== *)
theory Graphql_Safety
  imports Graphql
begin

text \<open>
  What the GraphQL surface guarantees, over HTTP, and where it guarantees nothing: queries under
  policy, changes behind the gates, the contexts of the WebSocket endpoint, the engine that does
  not learn of changes, and ingestion.
\<close>

subsection \<open>The policy of a query\<close>

definition gc_policy :: "graphql_context \<Rightarrow> session_policy" where
  "gc_policy gc = unwrap_or (gc_session_policy gc) session_policy_new"

text \<open>GraphQL and the governed service turn a query into the same one under the same policy.\<close>

lemma enforce_policy_Inr:
  "enforce_policy gc q n d = Inr q' \<longleftrightarrow> model_visible (gc_policy gc) n d \<and> q' = governed_query (gc_policy gc) None q"
  by (auto simp: enforce_policy_def Let_def branch_simps model_visible_def is_ok_iff gc_policy_def governed_query_def
      enforce_row_limit_eq apply_rls_eq apply_forced_filters_eq policy_filters_def row_cap_def effective_cap_def
      default_max_rows_def)

lemma gql_governed_query_Inr:
  "gql_governed_query env gc st q n = Inr (m, q') \<longleftrightarrow>
     bk_get_model (ge_backend env) (gs_store st) n None = Inr (Some m) \<and>
     model_visible (gc_policy gc) n (mo_datasource m) \<and> q' = governed_query (gc_policy gc) None q"
  by (auto simp: gql_governed_query_def branch_simps enforce_policy_Inr)

lemma stored_datasource_Inr:
  "stored_datasource env st n = Inr ds \<longleftrightarrow> bk_get_datasource (ge_backend env) (gs_store st) n = Inr (Some ds)"
  by (auto simp: stored_datasource_def branch_simps)

lemma reject_if_auth_required_Inr:
  "reject_if_auth_required gc = Inr u \<longleftrightarrow> (gc_auth_required gc \<longrightarrow> gc_user_id gc \<noteq> None)"
  by (auto simp: reject_if_auth_required_def)

lemma gql_execute_query_Executed:
  assumes "gql_execute_query env now gc st input dry = (r, out, eff, st')" and "GqlExecuted ds sql \<in> set eff"
  shows "\<exists>n m. (gc_auth_required gc \<longrightarrow> gc_user_id gc \<noteq> None) \<and> dry \<noteq> Some True \<and>
    query_model_name (gql_to_core input) = Some n \<and>
    bk_get_model (ge_backend env) (gs_store st) n None = Inr (Some m) \<and>
    model_visible (gc_policy gc) n (mo_datasource m) \<and>
    bk_get_datasource (ge_backend env) (gs_store st) (mo_datasource m) = Inr (Some ds) \<and>
    fst (generate_sql_text (ge_engine env) (gs_engine st) (governed_query (gc_policy gc) None (gql_to_core input))) = Inr sql"
  using assms
  by (auto simp: gql_execute_query_def branch_simps gql_governed_query_Inr stored_datasource_Inr
      reject_if_auth_required_Inr split: sum.splits if_split_asm prod.splits)

text \<open>
  C32. Whatever a GraphQL query hands to the engine: where the server asks for it the caller is
  authenticated, it is no dry run, the policy allows the stored model and its datasource, the
  database is that datasource, and the statement is the one for the query with all of the policy's
  filters and the row limit, exactly as over REST.
\<close>

theorem gql_query_governed:
  assumes "gql_query env now gc st input dry = (r, eff, st')" and "GqlExecuted ds sql \<in> set eff"
  shows "\<exists>n m. (gc_auth_required gc \<longrightarrow> gc_user_id gc \<noteq> None) \<and> dry \<noteq> Some True \<and>
    query_model_name (gql_to_core input) = Some n \<and>
    bk_get_model (ge_backend env) (gs_store st) n None = Inr (Some m) \<and>
    model_visible (gc_policy gc) n (mo_datasource m) \<and>
    bk_get_datasource (ge_backend env) (gs_store st) (mo_datasource m) = Inr (Some ds) \<and>
    fst (generate_sql_text (ge_engine env) (gs_engine st) (governed_query (gc_policy gc) None (gql_to_core input))) = Inr sql"
proof -
  obtain r' out eff' st'' where e: "gql_execute_query env now gc st input dry = (r', out, eff', st'')"
    by (metis prod_cases4)
  with assms have "GqlExecuted ds sql \<in> set eff'" by (auto simp: gql_query_def split: if_split_asm)
  from gql_execute_query_Executed [OF e this] show ?thesis .
qed

text \<open>Every query leaves one audit entry where there is a sink, after its statement, and it tells the outcome.\<close>

lemma gql_query_audited:
  assumes "gql_query env now gc st input dry = (r, eff, st')" and "gc_audit_sink gc"
  shows "\<exists>eff' a. eff = eff' @ [GqlAudited a] \<and> ga_success a = is_ok r \<and> ga_user_id a = gc_user_id gc"
  using assms by (auto simp: gql_query_def gql_audit_entry_def split: prod.splits)

subsection \<open>Pipelines\<close>

lemma auto_stage_name_inj [simp]: "auto_stage_name i = auto_stage_name j \<longleftrightarrow> i = j"
  by (simp add: auto_stage_name_def)

text \<open>The check for duplicate stage names never fails, and a stage is the caller's query as it is.\<close>

lemma stages_from_ok:
  "(\<forall>i \<ge> idx. auto_stage_name i \<notin> names) \<Longrightarrow>
     stages_from idx names inputs = Inr
       (map (\<lambda>(i, input). \<lparr>sgi_query = gql_to_core input, sgi_stage_name = auto_stage_name i,
          sgi_depends_on = (case gq_stage_ref input of Some s \<Rightarrow> [s] | None \<Rightarrow> [])\<rparr>) (enumerate idx inputs))"
proof (induction idx names inputs rule: stages_from.induct)
  case (2 idx names input inputs)
  have "\<forall>i \<ge> idx + 1. auto_stage_name i \<notin> insert (auto_stage_name idx) names" using "2.prems" by auto
  then show ?case using 2 by (simp add: Let_def gql_to_core_def)
qed simp

text \<open>
  A pipeline is handed on as the caller wrote it: neither models nor datasources nor filters of the
  policy play a role, and neither does the dry run.
\<close>

lemma pipelines_ignore_policy:
  assumes "gc_auth_required gc \<longrightarrow> gc_user_id gc \<noteq> None" and "gc_auth_required gc' \<longrightarrow> gc_user_id gc' \<noteq> None"
    and "policy_timeout gc = policy_timeout gc'"
  shows "snd (gql_multi_stage_query env gc st inputs dry) = snd (gql_multi_stage_query env gc' st inputs dry')"
proof -
  have "reject_if_auth_required gc = Inr ()" "reject_if_auth_required gc' = Inr ()"
    using assms(1,2) by (auto simp: reject_if_auth_required_def)
  then show ?thesis
    using assms(3)
    by (cases "stages_from 0 {} inputs")
      (auto simp: gql_multi_stage_query_def split: prod.split sum.split)
qed

subsection \<open>Live queries\<close>

text \<open>
  A live query runs for anybody and without a policy: whatever the server and the policy demand of the
  subscriber, a tick hands the statement for the bare query to the engine and yields its rows unmasked.
\<close>

lemma live_query_ungoverned:
  assumes "query_model_name (gql_to_core input) = Some n"
    and "bk_get_model (ge_backend env) (gs_store st) n None = Inr (Some m)"
    and "bk_get_datasource (ge_backend env) (gs_store st) (mo_datasource m) = Inr (Some ds)"
    and "generate_sql_text (ge_engine env) (gs_engine st) (gql_to_core input) = (Inr sql, en)"
    and "engine_execute_sqlx (ge_engine env) now en ds sql = (Inr rows, en')"
  shows "live_query_tick env now gc st input =
    (Some (query_response rows rows (Some sql)), [GqlExecuted ds sql], st\<lparr>gs_engine := en'\<rparr>)"
  using assms by (simp add: live_query_tick_def)

lemma live_interval_at_least: "250 \<le> live_interval i"
  by (simp add: live_interval_def)

subsection \<open>Requests and runs\<close>

datatype gql_request =
    AskQuery gql_query_input "bool option"
  | LiveTick gql_query_input
  | AskCreateModel gql_create_model_input
  | AskUpdateModel string gql_update_model_input
  | AskDeleteModel string "string option"
  | AskCreateDatasource gql_create_datasource_input
  | AskUpdateDatasource string gql_update_datasource_input
  | AskIngest string
  | AskSaveMemory gql_save_memory_input
  | AskForgetMemory string

text \<open>The requests that change the catalogue, and those that change memories.\<close>

fun changes_catalogue :: "gql_request \<Rightarrow> bool" where
  "changes_catalogue (AskQuery _ _) = False"
| "changes_catalogue (LiveTick _) = False"
| "changes_catalogue (AskSaveMemory _) = False"
| "changes_catalogue (AskForgetMemory _) = False"
| "changes_catalogue _ = True"

fun changes_memories :: "gql_request \<Rightarrow> bool" where
  "changes_memories (AskSaveMemory _) = True"
| "changes_memories (AskForgetMemory _) = True"
| "changes_memories _ = False"

fun gql_step ::
    "('s, 'c, 'r, 'p, 'k) gql_env \<Rightarrow> moment \<Rightarrow> graphql_context \<Rightarrow> gql_request \<Rightarrow> ('s, 'c, 'r, 'p) gql_state
      \<Rightarrow> ('s, 'c, 'r, 'p) gql_state" where
  "gql_step env now gc (AskQuery input dry) st = snd (snd (gql_query env now gc st input dry))"
| "gql_step env now gc (LiveTick input) st = snd (snd (live_query_tick env now gc st input))"
| "gql_step env now gc (AskCreateModel input) st = snd (gql_create_model env gc st input)"
| "gql_step env now gc (AskUpdateModel name input) st = snd (gql_update_model env gc st name input)"
| "gql_step env now gc (AskDeleteModel name ds) st = snd (gql_delete_model env gc st name ds)"
| "gql_step env now gc (AskCreateDatasource input) st = snd (gql_create_datasource env now gc st input)"
| "gql_step env now gc (AskUpdateDatasource name input) st = snd (gql_update_datasource env now gc st name input)"
| "gql_step env now gc (AskIngest ds) st = snd (gql_ingest_models env now gc st ds)"
| "gql_step env now gc (AskSaveMemory input) st = snd (gql_save_memory env gc st input)"
| "gql_step env now gc (AskForgetMemory i) st = snd (gql_forget_memory env gc st i)"

text \<open>Any sequence of requests, at any moments, by callers whose contexts are admitted.\<close>

inductive gql_run ::
    "('s, 'c, 'r, 'p, 'k) gql_env \<Rightarrow> (graphql_context \<Rightarrow> bool) \<Rightarrow> ('s, 'c, 'r, 'p) gql_state
      \<Rightarrow> ('s, 'c, 'r, 'p) gql_state \<Rightarrow> bool"
  for env admitted st where
  idle: "gql_run env admitted st st"
| request: "gql_run env admitted st st' \<Longrightarrow> admitted gc \<Longrightarrow> gql_run env admitted st (gql_step env now gc req st')"

inductive_cases gql_runE: "gql_run env admitted st st'"

text \<open>What every step keeps of the state, every run keeps.\<close>

lemma gql_run_keeps:
  assumes "gql_run env admitted st st'" and "\<And>now gc req s. admitted gc \<Longrightarrow> f (gql_step env now gc req s) = f s"
  shows "f st' = f st"
  using assms(1) by (induction rule: gql_run.induct) (simp_all add: assms(2))

subsection \<open>What queries and ticks leave alone\<close>

lemma execute_within_keeps:
  "execute_within env now secs en ds sql = (r, en') \<Longrightarrow> es_engine en' = es_engine en"
  by (auto simp: execute_within_def Let_def dest: engine_execute_keeps split: option.splits prod.splits stall.splits)

lemma gql_execute_query_keeps:
  assumes "gql_execute_query env now gc st input dry = (r, out, eff, st')"
  shows "gs_store st' = gs_store st \<and> en_generator (es_engine (gs_engine st')) = en_generator (es_engine (gs_engine st))"
  using assms
  by (auto simp: gql_execute_query_def dest!: generate_text_keeps execute_within_keeps
      split: sum.splits if_split_asm prod.splits)

lemma gql_query_keeps:
  "gs_store (snd (snd (gql_query env now gc st input dry))) = gs_store st"
  "en_generator (es_engine (gs_engine (snd (snd (gql_query env now gc st input dry))))) = en_generator (es_engine (gs_engine st))"
  using gql_execute_query_keeps by (fastforce simp: gql_query_def split: prod.split)+

lemma live_query_keeps:
  "gs_store (snd (snd (live_query_tick env now gc st input))) = gs_store st"
  "en_generator (es_engine (gs_engine (snd (snd (live_query_tick env now gc st input))))) =
     en_generator (es_engine (gs_engine st))"
  by (auto simp: live_query_tick_def Let_def dest!: generate_text_keeps engine_execute_keeps
      split: option.split sum.split prod.split)

lemma stored_parts:
  "gs_store (snd (stored st a en f)) = snd a"
  "gs_engine (snd (stored st a en f)) = (if is_ok (fst a) then en else gs_engine st)"
  by (cases a; cases "fst a"; simp add: stored_def)+

lemma invalidate_keeps [simp]:
  "es_engine (invalidate_result_cache lib en) = es_engine en"
  "es_connections (invalidate_result_cache lib en) = es_connections en"
  by (simp_all add: invalidate_result_cache_def)

subsection \<open>The engine does not learn of changes\<close>

lemma ingest_keeps_engine:
  "en_generator (es_engine (gs_engine (snd (gql_ingest_models env now gc st ds)))) = en_generator (es_engine (gs_engine st))"
  by (auto simp: gql_ingest_models_def dest: introspect_keeps split: sum.split prod.split)

lemma gql_step_generator:
  "en_generator (es_engine (gs_engine (gql_step env now gc req st))) = en_generator (es_engine (gs_engine st))"
proof (cases req)
  case (AskIngest ds)
  then show ?thesis by (simp add: ingest_keeps_engine)
qed (auto simp: gql_query_keeps live_query_keeps gql_create_model_def gql_update_model_def gql_delete_model_def
      gql_create_datasource_def gql_update_datasource_def gql_save_memory_def gql_forget_memory_def stored_parts
      split: sum.split)

text \<open>
  Whatever is created, changed, deleted or ingested over GraphQL, by whomever and in any order, the
  engine goes on generating statements from the models it was started with: it fails for a model it
  did not know then, and for one it knew it uses the old definition.
\<close>

lemma graphql_engine_unaware:
  assumes "gql_run env admitted st st'"
  shows "generate ser (en_generator (es_engine (gs_engine st'))) q = generate ser (en_generator (es_engine (gs_engine st))) q"
  using gql_run_keeps [of env admitted st st' "\<lambda>s. en_generator (es_engine (gs_engine s))", OF assms]
  by (simp add: gql_step_generator)

subsection \<open>Who changes what\<close>

lemma require_admin_if_auth_Inr:
  "require_admin_if_auth gc = Inr u \<longleftrightarrow> (gc_auth_required gc \<longrightarrow> gc_is_admin gc \<and> gc_user_id gc \<noteq> None)"
  by (auto simp: require_admin_if_auth_def gql_require_admin_def branch_simps split: option.splits)

lemma require_user_if_auth_Inr:
  "require_user_if_auth gc = Inr u \<longleftrightarrow> (gc_auth_required gc \<longrightarrow> gc_user_id gc \<noteq> None)"
  by (auto simp: require_user_if_auth_def require_user_def branch_simps)

lemma gate_closed:
  "\<not> (gc_auth_required gc \<longrightarrow> gc_is_admin gc \<and> gc_user_id gc \<noteq> None) \<Longrightarrow> \<exists>e. require_admin_if_auth gc = Inl e"
  "\<not> (gc_auth_required gc \<longrightarrow> gc_user_id gc \<noteq> None) \<Longrightarrow> \<exists>e. require_user_if_auth gc = Inl e"
  using require_admin_if_auth_Inr require_user_if_auth_Inr by (metis sum.exhaust)+

lemma gql_step_gated:
  assumes "gql_step env now gc req st \<noteq> st" and "changes_catalogue req"
  shows "gc_auth_required gc \<longrightarrow> gc_is_admin gc \<and> gc_user_id gc \<noteq> None"
proof (rule ccontr)
  assume "\<not> ?thesis"
  then obtain e where "require_admin_if_auth gc = Inl e" using gate_closed(1) by blast
  then have "gql_step env now gc req st = st"
    using assms(2)
    by (cases req) (simp_all add: gql_create_model_def gql_update_model_def gql_delete_model_def
        gql_create_datasource_def gql_update_datasource_def gql_ingest_models_def)
  with assms(1) show False by simp
qed

lemma gql_step_memory_gated:
  assumes "gql_step env now gc req st \<noteq> st" and "changes_memories req"
  shows "gc_auth_required gc \<longrightarrow> gc_user_id gc \<noteq> None"
proof (rule ccontr)
  assume "\<not> ?thesis"
  then obtain e where "require_user_if_auth gc = Inl e" using gate_closed(2) by blast
  then have "gql_step env now gc req st = st"
    using assms(2) by (cases req) (simp_all add: gql_save_memory_def gql_forget_memory_def)
  with assms(1) show False by simp
qed

lemma other_steps_keep_store:
  "\<not> changes_catalogue req \<Longrightarrow> \<not> changes_memories req \<Longrightarrow> gs_store (gql_step env now gc req st) = gs_store st"
  by (cases req) (simp_all add: gql_query_keeps live_query_keeps)

text \<open>Models and datasources in the YAML backend.\<close>

definition catalogue :: "yaml_storage \<Rightarrow> (string \<times> model) list \<times> (string \<times> data_source) list" where
  "catalogue s = (ys_models s, ys_datasources s)"

lemma memory_steps_keep_catalogue:
  assumes "ge_backend env = yaml_backend wr" and "changes_memories req"
  shows "catalogue (gs_store (gql_step env now gc req st)) = catalogue (gs_store st)"
  using assms
  by (cases req)
    (auto simp: gql_save_memory_def gql_forget_memory_def stored_parts catalogue_def yaml_backend_def
      yaml_save_memory_def yaml_delete_memory_def store_defs split: sum.split)

lemma gql_step_catalogue:
  assumes "ge_backend env = yaml_backend wr" and "gc_auth_required gc" and "\<not> gc_is_admin gc"
  shows "catalogue (gs_store (gql_step env now gc req st)) = catalogue (gs_store st)"
  using memory_steps_keep_catalogue [OF assms(1)] other_steps_keep_store gql_step_gated assms(2,3)
  by (metis (no_types, lifting))

subsection \<open>Over HTTP\<close>

lemma request_context_fields:
  assumes "request_context lib fetch t0 t1 ac hs cache = (gc, cache')"
  shows "gc_auth_required gc = ac_auth_required ac"
    and "gc_is_admin gc \<longleftrightarrow> (\<exists>i. fst (resolve_identity lib fetch t0 t1 ac (extract_api_key hs) (extract_tenant hs) cache) = Some i
           \<and> id_is_admin i)"
    and "gc_user_id gc = map_option id_user_id
           (fst (resolve_identity lib fetch t0 t1 ac (extract_api_key hs) (extract_tenant hs) cache))"
    and "gc_policy gc = default_policy (fst (resolve_identity lib fetch t0 t1 ac (extract_api_key hs) (extract_tenant hs) cache))"
  using assms
  by (auto simp: request_context_def context_with_admin_def context_with_user_def context_with_audit_sink_def
      context_with_policy_def context_with_auth_required_def graphql_context_new_def gc_policy_def Let_def
      split: prod.splits option.splits)

text \<open>The contexts of requests whose credentials are not an administrator's.\<close>

definition plain_request :: "'k jwt_lib \<Rightarrow> (nat \<Rightarrow> string + 'k jwk list) \<Rightarrow> auth_config \<Rightarrow> graphql_context \<Rightarrow> bool" where
  "plain_request lib fetch ac gc \<longleftrightarrow>
     (\<exists>t0 t1 hs cache cache'. request_context lib fetch t0 t1 ac hs cache = (gc, cache') \<and>
        (\<forall>i. fst (resolve_identity lib fetch t0 t1 ac (extract_api_key hs) (extract_tenant hs) cache) = Some i
           \<longrightarrow> \<not> id_is_admin i))"

text \<open>
  C33. On a server that asks for authentication, no sequence of GraphQL requests over HTTP whose credentials
  are not an administrator's changes a model or a datasource.
\<close>

theorem http_catalogue_needs_admin:
  assumes "ac_auth_required ac" and "ge_backend env = yaml_backend wr"
    and "gql_run env (plain_request lib fetch ac) st st'"
  shows "ys_models (gs_store st') = ys_models (gs_store st) \<and> ys_datasources (gs_store st') = ys_datasources (gs_store st)"
proof -
  have "catalogue (gs_store (gql_step env now gc req s)) = catalogue (gs_store s)" if "plain_request lib fetch ac gc" for now gc req s
  proof -
    from that have "gc_auth_required gc" "\<not> gc_is_admin gc"
      using request_context_fields(1,2) assms(1) unfolding plain_request_def by metis+
    then show ?thesis by (rule gql_step_catalogue [OF assms(2)])
  qed
  then have "catalogue (gs_store st') = catalogue (gs_store st)"
    by (rule gql_run_keeps [OF assms(3), of "\<lambda>s. catalogue (gs_store s)"])
  then show ?thesis by (simp add: catalogue_def)
qed

subsection \<open>Over the WebSocket\<close>

text \<open>
  C34. An operation that arrives over the WebSocket endpoint changes the catalogue and the memories exactly as
  an administrator's would, whatever the server demands and without any credential: the context of
  the schema, which such an operation finds, asks for no authentication.
\<close>

theorem socket_acts_as_admin:
  assumes "changes_catalogue req \<or> changes_memories req" and "gc_is_admin gc" and "gc_user_id gc \<noteq> None"
  shows "gql_step env now socket_context req st = gql_step env now gc req st"
proof -
  have "require_admin_if_auth socket_context = Inr ()" "require_user_if_auth socket_context = Inr ()"
    by (simp_all add: socket_context_def graphql_context_new_def require_admin_if_auth_def require_user_if_auth_def)
  moreover have "require_admin_if_auth gc = Inr ()" "require_user_if_auth gc = Inr ()"
    using assms(2,3) by (simp_all add: require_admin_if_auth_Inr require_user_if_auth_Inr)
  ultimately show ?thesis
    using assms(1)
    by (cases req) (simp_all add: gql_create_model_def gql_update_model_def gql_delete_model_def
        gql_create_datasource_def gql_update_datasource_def gql_ingest_models_def gql_save_memory_def gql_forget_memory_def)
qed

subsection \<open>A changed connection string\<close>

lemma stored_datasource_yaml:
  assumes "ge_backend env = yaml_backend wr"
  shows "stored_datasource env st n = Inr ds \<longleftrightarrow> yaml_get_datasource (gs_store st) n = Some ds"
  using assms by (simp add: stored_datasource_Inr yaml_backend_def)

lemma gql_updated_datasource_keeps:
  "gql_updated_datasource secrets input ds = Inr ds' \<Longrightarrow>
     ds_name ds' = ds_name ds \<and> ds_driver ds' = ds_driver ds \<and>
     ds_connection_string ds' = unwrap_or (gud_connection_string input) (ds_connection_string ds)"
  by (auto simp: gql_updated_datasource_def Let_def branch_simps split: option.splits)

lemma gql_update_datasource_yaml:
  assumes "ge_backend env = yaml_backend True" and "gql_update_datasource env now gc st n input = (Inr info, st')"
  shows "\<exists>ds ds'. stored_datasource env st n = Inr ds \<and> gql_updated_datasource (at_env now) input ds = Inr ds' \<and>
    stored_datasource env st' n = Inr ds' \<and> gs_engine st' = gs_engine st"
proof -
  obtain ds ds' where ds: "stored_datasource env st n = Inr ds" "gql_updated_datasource (at_env now) input ds = Inr ds'"
    and st': "snd (stored st (yaml_update_datasource True (gs_store st) n ds') (gs_engine st) gql_datasource_info_of) = st'"
    using assms by (auto simp: gql_update_datasource_def branch_simps yaml_backend_def split: sum.splits)
  have "yaml_get_datasource (gs_store st) n \<noteq> None"
    using ds(1) stored_datasource_yaml [OF assms(1)] by simp
  from datasources_store.replace_found [OF this, of ds'] have "yaml_get_datasource (gs_store st') n = Some ds'"
    using st' by (simp add: stored_parts flip: st')
  moreover have "gs_engine st' = gs_engine st" using st' by (auto simp: stored_parts split: if_splits)
  ultimately show ?thesis using ds stored_datasource_yaml [OF assms(1)] by blast
qed

text \<open>
  A connection string that is changed over GraphQL is stored but not used while a pool is open under
  the datasource's name: the same statement gets the same answer on the new datasource as on the
  old one, at any time.
\<close>

lemma rotated_connection_unused:
  assumes "ge_backend env = yaml_backend True"
    and "gql_update_datasource env now gc st n input = (Inr info, st')"
    and "stored_datasource env st n = Inr ds"
    and "executor_driver (el_drivers (ge_engine env)) (ds_driver ds) = Some d"
    and "map_of (pools_of d (es_connections (gs_engine st))) (ds_name ds) = Some p"
  shows "\<exists>ds'. stored_datasource env st' n = Inr ds' \<and>
    ds_connection_string ds' = unwrap_or (gud_connection_string input) (ds_connection_string ds) \<and>
    engine_execute_sqlx (ge_engine env) now' (gs_engine st') ds' sql =
      engine_execute_sqlx (ge_engine env) now' (gs_engine st) ds sql"
proof -
  from gql_update_datasource_yaml [OF assms(1,2)] obtain ds' where
    ds': "gql_updated_datasource (at_env now) input ds = Inr ds'" "stored_datasource env st' n = Inr ds'"
      "gs_engine st' = gs_engine st"
    using assms(3) by auto
  from gql_updated_datasource_keeps [OF ds'(1)] have k: "ds_name ds' = ds_name ds" "ds_driver ds' = ds_driver ds"
    "ds_connection_string ds' = unwrap_or (gud_connection_string input) (ds_connection_string ds)" by auto
  have "engine_execute_sqlx (ge_engine env) (now'\<lparr>at_env := at_env now'\<rparr>) (gs_engine st) ds' sql =
      engine_execute_sqlx (ge_engine env) now' (gs_engine st) ds sql"
    by (rule answers_by_name [OF assms(5,4)]) (simp_all add: k assms(4))
  then show ?thesis using ds'(2,3) k(3) by simp
qed

subsection \<open>Ingestion\<close>

definition found_models :: "yaml_storage \<Rightarrow> string \<Rightarrow> model option" where
  "found_models s n = yaml_get_model s n None"

lemma ingest_table_step:
  assumes "ge_backend env = yaml_backend True" and "ingest_table env datasource tables t (s, report) = (s', report')"
  defines "m \<equiv> infer_model_from_table t datasource tables"
  shows "found_models s' = (found_models s)(mo_name m \<mapsto> m) \<and> ys_datasources s' = ys_datasources s \<and>
    gir_errors report' = gir_errors report \<and>
    gir_models_created report' = gir_models_created report + (if found_models s (mo_name m) = None then 1 else 0) \<and>
    gir_models_updated report' = gir_models_updated report + (if found_models s (mo_name m) = None then 0 else 1)"
  using assms(2) models_store.create_free [of s m] models_store.replace_found [of s "mo_name m" m]
  by (auto simp: ingest_table_def assms(1) Let_def yaml_backend_def found_models_def fun_eq_iff m_def [symmetric]
      yaml_create_model_def yaml_update_model_def store_defs split: option.splits prod.splits sum.splits if_splits)

lemma ingest_fold:
  assumes "ge_backend env = yaml_backend True"
    and "fold (ingest_table env datasource tables) ts (s, report) = (s', report')"
  defines "model_of \<equiv> \<lambda>t. infer_model_from_table t datasource tables"
  shows "found_models s' = fold (\<lambda>t f. f(mo_name (model_of t) \<mapsto> model_of t)) ts (found_models s) \<and>
    ys_datasources s' = ys_datasources s \<and> gir_errors report' = gir_errors report \<and>
    gir_models_created report' = gir_models_created report + card (mo_name ` model_of ` set ts - dom (found_models s)) \<and>
    gir_models_created report' + gir_models_updated report' = gir_models_created report + gir_models_updated report + length ts"
  using assms(2)
proof (induction ts arbitrary: s report)
  case (Cons t ts)
  obtain s1 r1 where 1: "ingest_table env datasource tables t (s, report) = (s1, r1)" by fastforce
  have "infer_model_from_table t datasource tables = model_of t" by (simp add: model_of_def)
  note step = ingest_table_step [OF assms(1) 1, unfolded this]
  from Cons.prems 1 have "fold (ingest_table env datasource tables) ts (s1, r1) = (s', report')" by simp
  note rest = Cons.IH [OF this]
  let ?n = "mo_name (model_of t)" and ?N = "mo_name ` model_of ` set ts" and ?D = "dom (found_models s)"
  have "card (insert ?n ?N - ?D) = (if found_models s ?n = None then 1 else 0) + card (?N - insert ?n ?D)"
  proof (cases "found_models s ?n")
    case None
    then have "insert ?n ?N - ?D = insert ?n (?N - insert ?n ?D)" by auto
    then show ?thesis using None by simp
  next
    case (Some m)
    then have "insert ?n ?N - ?D = ?N - insert ?n ?D" by auto
    then show ?thesis using Some by simp
  qed
  moreover have "dom (found_models s1) = insert ?n ?D" using step by auto
  moreover have "found_models s1 = (found_models s)(?n \<mapsto> model_of t)" using step by blast
  ultimately show ?case using step rest by (cases "found_models s ?n") (auto simp del: fun_upd_apply)
qed simp

lemma fold_upd_find:
  "fold (\<lambda>t f. f(k t \<mapsto> v t)) ts f n = (case find (\<lambda>t. k t = n) (rev ts) of Some t \<Rightarrow> Some (v t) | None \<Rightarrow> f n)"
  by (induction ts rule: rev_induct) auto

text \<open>
  Over YAML storage an ingestion stores, under every name, the model inferred from the last table
  of that name and touches nothing else; it replaces what was there without a trace, reports no
  error, and counts as created the names that were free.
\<close>

lemma ingest_stores_inferred:
  assumes "ge_backend env = yaml_backend True"
    and "gql_ingest_models env now gc st datasource = (Inr report, st')"
    and "stored_datasource env st datasource = Inr ds"
    and "fst (engine_introspect (ge_engine env) now (gs_engine st) ds introspection_default) = Inr tables"
  shows "gir_errors report = [] \<and>
    gir_models_created report =
      card ((\<lambda>t. mo_name (infer_model_from_table t datasource tables)) ` set tables -
            {n. yaml_get_model (gs_store st) n None \<noteq> None}) \<and>
    gir_models_created report + gir_models_updated report = length tables \<and>
    ys_datasources (gs_store st') = ys_datasources (gs_store st) \<and>
    yaml_get_model (gs_store st') n None =
      (case find (\<lambda>t. mo_name (infer_model_from_table t datasource tables) = n) (rev tables) of
         Some t \<Rightarrow> Some (infer_model_from_table t datasource tables)
       | None \<Rightarrow> yaml_get_model (gs_store st) n None)"
proof -
  from assms(4) obtain en where en:
    "engine_introspect (ge_engine env) now (gs_engine st) ds introspection_default = (Inr tables, en)"
    by (metis prod.collapse)
  obtain s where s: "fold (ingest_table env datasource tables) tables
      (gs_store st, \<lparr>gir_models_created = 0, gir_models_updated = 0, gir_errors = []\<rparr>) = (s, report)"
    "gs_store st' = s"
    using assms(2,3) en by (auto simp: gql_ingest_models_def branch_simps split: sum.splits prod.splits)
  from ingest_fold [OF assms(1) s(1)] show ?thesis
    by (simp add: s(2) found_models_def fun_eq_iff image_image fold_upd_find dom_def cong: option.case_cong)
qed

subsection \<open>An example\<close>

text \<open>An engine over the sample database, a store that knows its datasource, and an open pool.\<close>

definition gql_engine_lib :: "(nat \<times> (64 word \<times> generated_sql) list, nat \<times> (64 word \<times> result_entry) list, string, json) engine_lib" where
  "gql_engine_lib =
     \<lparr>el_plans = list_lru, el_results = list_lru, el_serializer = (\<lambda>_. []), el_query_json = (\<lambda>_. ''{}''),
      el_json_text = (\<lambda>_. []), el_drivers = sample_catalogue, el_error_text = (\<lambda>_. ''failed'')\<rparr>"

definition sample_gql ::
    "(yaml_storage, nat \<times> (64 word \<times> generated_sql) list, nat \<times> (64 word \<times> result_entry) list, string, json) gql_env" where
  "sample_gql =
     \<lparr>ge_backend = yaml_backend True, ge_engine = gql_engine_lib, ge_stall = (\<lambda>_ _ _. None),
      ge_execute_dag = (\<lambda>_ _ st. (Inr [], [], st)), ge_storage_text = (\<lambda>_. []), ge_new_id = ''m1'', ge_now = []\<rparr>"

definition gql_store :: yaml_storage where
  "gql_store = snd (yaml_create_datasource True (yaml_new empty_disk) (sample_source ''pg''))"

definition gql_start ::
    "(yaml_storage, nat \<times> (64 word \<times> generated_sql) list, nat \<times> (64 word \<times> result_entry) list, string) gql_state" where
  "gql_start =
     \<lparr>gs_store = gql_store,
      gs_engine = sql_engine_new gql_engine_lib Postgres (sample_manager\<lparr>cm_pg_pools := [(''main'', ''pg'')]\<rparr>)\<rparr>"

text \<open>The same with a model that the engine knows, and a query for it.\<close>

definition gql_known ::
    "(yaml_storage, nat \<times> (64 word \<times> generated_sql) list, nat \<times> (64 word \<times> result_entry) list, string) gql_state" where
  "gql_known = gql_start\<lparr>gs_store := snd (yaml_create_model True gql_store sample_model),
     gs_engine := engine_with_models [sample_model] (gs_engine gql_start)\<rparr>"

definition gql_question :: gql_query_input where
  "gql_question =
     \<lparr>gq_name = Some ''orders'', gq_source_model = None,
      gq_measures = Some [\<lparr>gm_formula = ''total'', gm_label = None, gm_format = None, gm_aggregation = GqlSum\<rparr>],
      gq_dimensions = None, gq_time_dimensions = None, gq_filters = None, gq_order = None, gq_limit = Some 3,
      gq_offset = None, gq_whole_periods_only = None, gq_distinct_dimension_values = None, gq_stage_ref = None\<rparr>"

definition gql_caller :: "bool \<Rightarrow> graphql_context" where
  "gql_caller admin = context_with_admin admin (context_with_user ''ann'' None
     (context_with_policy (with_max_rows session_policy_new 5) (context_with_auth_required True graphql_context_new)))"

definition gql_moment :: moment where
  "gql_moment = \<lparr>at_env = Map.empty, at_lookup = 0, at_insert = 0\<rparr>"

definition rotation :: gql_update_datasource_input where
  "rotation = \<lparr>gud_description = None, gud_connection_string = Some ''env:NEW_DB'', gud_pool_size = None\<rparr>"

lemma rotated_connection_unused_witness:
  "\<exists>ds'. stored_datasource sample_gql (snd (gql_update_datasource sample_gql gql_moment socket_context gql_start ''main'' rotation))
       ''main'' = Inr ds' \<and> ds_connection_string ds' = ''env:NEW_DB'' \<and>
     fst (engine_execute_sqlx gql_engine_lib gql_moment
       (gs_engine (snd (gql_update_datasource sample_gql gql_moment socket_context gql_start ''main'' rotation))) ds' ''SELECT 1'')
       = fst (engine_execute_sqlx gql_engine_lib gql_moment (gs_engine gql_start) (sample_source ''pg'') ''SELECT 1'')"
proof -
  let ?u = "gql_update_datasource sample_gql gql_moment socket_context gql_start ''main'' rotation"
  have 1: "ge_backend sample_gql = yaml_backend True" "ge_engine sample_gql = gql_engine_lib"
    by (simp_all add: sample_gql_def)
  have 2: "?u = (Inr (gql_datasource_info_of (sample_source ''pg'')), snd ?u)" by code_simp
  have 3: "stored_datasource sample_gql gql_start ''main'' = Inr (sample_source ''pg'')" by code_simp
  have 4: "executor_driver (el_drivers (ge_engine sample_gql)) (ds_driver (sample_source ''pg'')) = Some Postgres" by code_simp
  have 5: "map_of (pools_of Postgres (es_connections (gs_engine gql_start))) (ds_name (sample_source ''pg'')) = Some ''pg''"
    by code_simp
  from rotated_connection_unused [OF 1(1) 2 3 4 5, where now' = gql_moment and sql = "''SELECT 1''"] show ?thesis
    by (auto simp: 1(2) rotation_def)
qed

lemma ingest_stores_inferred_witness:
  "\<exists>report st'. gql_ingest_models sample_gql gql_moment socket_context gql_start ''main'' = (Inr report, st') \<and>
     gir_models_created report + gir_models_updated report = 1 \<and>
     yaml_get_model (gs_store st') ''orders'' None = Some (infer_model_from_table sample_table ''main'' [sample_table])"
proof -
  let ?u = "gql_ingest_models sample_gql gql_moment socket_context gql_start ''main''"
  have 1: "ge_backend sample_gql = yaml_backend True" by (simp add: sample_gql_def)
  have 2: "?u = (Inr \<lparr>gir_models_created = 1, gir_models_updated = 0, gir_errors = []\<rparr>, snd ?u)" by code_simp
  have 3: "stored_datasource sample_gql gql_start ''main'' = Inr (sample_source ''pg'')" by code_simp
  have 4: "fst (engine_introspect (ge_engine sample_gql) gql_moment (gs_engine gql_start) (sample_source ''pg'')
      introspection_default) = Inr [sample_table]" by code_simp
  have "mo_name (infer_model_from_table sample_table ''main'' [sample_table]) = ''orders''" by code_simp
  with ingest_stores_inferred [OF 1 2 3 4, of "''orders''"] 2 show ?thesis
    by (intro exI [of _ "\<lparr>gir_models_created = 1, gir_models_updated = 0, gir_errors = []\<rparr>"] exI [of _ "snd ?u"]) simp
qed

lemma gql_sample_sel [simp]:
  "ge_backend sample_gql = yaml_backend True" "ge_engine sample_gql = gql_engine_lib" "ge_stall sample_gql = (\<lambda>_ _ _. None)"
  "el_plans gql_engine_lib = list_lru" "el_serializer gql_engine_lib = (\<lambda>_. [])"
  by (simp_all add: sample_gql_def gql_engine_lib_def)

lemma list_lru_empty [simp]: "lru_get list_lru (n, []) k = (None, (n, []))"
  by (simp add: list_lru_def)

definition gql_governed :: query where
  "gql_governed = query_with_limit (query_add_measure (query_with_name query_new ''orders'') (measure_simple ''total'' Sum)) 3"

lemma gql_known_text:
  "\<exists>sql. fst (generate_sql_text gql_engine_lib (gs_engine gql_known) gql_governed) = Inr sql"
proof -
  have "is_ok (generate (\<lambda>_. []) (en_generator (es_engine (gs_engine gql_known))) gql_governed)" by code_simp
  moreover have "en_plan_cache (es_engine (gs_engine gql_known)) = (511, [])"
    by (simp add: gql_known_def gql_start_def sql_engine_new_def engine_with_models_def engine_new_def list_lru_def gql_engine_lib_def)
  ultimately show ?thesis
    by (auto simp: generate_sql_text_def engine_generate_sql_def is_ok_iff Let_def)
qed

lemma gql_question_governed:
  "governed_query (gc_policy (gql_caller admin)) None (gql_to_core gql_question) = gql_governed"
  by (simp add: governed_query_def gql_caller_def gc_policy_def context_with_admin_def context_with_user_def
      context_with_policy_def context_with_auth_required_def policy_filters_def effective_cap_def with_max_rows_def
      session_policy_new_def gql_to_core_def gql_question_def gql_governed_def query_with_limit_def query_add_measure_def
      query_with_name_def query_new_def measure_simple_def measure_new_def formula_new_def gql_measure_def as_usize_def)

lemma gql_known_found:
  "yaml_get_model (gs_store gql_known) ''orders'' None = Some sample_model"
  "yaml_get_datasource (gs_store gql_known) ''main'' = Some (sample_source ''pg'')"
  "mo_datasource sample_model = ''main''"
  "query_model_name (gql_to_core gql_question) = Some ''orders''"
  by code_simp+

lemma gql_caller_sel:
  "gc_auth_required (gql_caller admin)" "gc_user_id (gql_caller admin) = Some ''ann''" "gc_is_admin (gql_caller admin) = admin"
  by (simp_all add: gql_caller_def context_with_admin_def context_with_user_def context_with_policy_def
      context_with_auth_required_def)

lemma gql_caller_sees: "model_visible (gc_policy (gql_caller admin)) n d"
  by (simp add: gql_caller_def gc_policy_def context_with_admin_def context_with_user_def context_with_policy_def
      context_with_auth_required_def model_visible_def check_model_access_def check_datasource_access_def
      with_max_rows_def session_policy_new_def)

lemma gql_query_runs:
  assumes "reject_if_auth_required gc = Inr ()" and "query_model_name (gql_to_core input) = Some n"
    and "gql_governed_query env gc st (gql_to_core input) n = Inr (m, q)"
    and "stored_datasource env st (mo_datasource m) = Inr ds"
    and "generate_sql_text (ge_engine env) (gs_engine st) q = (Inr sql, en)"
  shows "GqlExecuted ds sql \<in> set (fst (snd (gql_query env now gc st input None)))"
proof -
  obtain r en' where "execute_within env now (policy_timeout gc) en ds sql = (r, en')" by fastforce
  then show ?thesis by (simp add: gql_query_def gql_execute_query_def ok_or_def assms)
qed

theorem gql_query_governed_witness:
  "\<exists>sql. GqlExecuted (sample_source ''pg'') sql
        \<in> set (fst (snd (gql_query sample_gql gql_moment (gql_caller False) gql_known gql_question None))) \<and>
     fst (generate_sql_text gql_engine_lib (gs_engine gql_known) gql_governed) = Inr sql"
proof -
  obtain r eff st' where q: "gql_query sample_gql gql_moment (gql_caller False) gql_known gql_question None = (r, eff, st')"
    by (metis prod_cases3)
  obtain sql en where g: "generate_sql_text gql_engine_lib (gs_engine gql_known) gql_governed = (Inr sql, en)"
    using gql_known_text by (metis prod.collapse)
  have 1: "reject_if_auth_required (gql_caller False) = Inr ()"
    by (simp add: reject_if_auth_required_def gql_caller_sel)
  have 2: "gql_governed_query sample_gql (gql_caller False) gql_known (gql_to_core gql_question) ''orders'' = Inr (sample_model, gql_governed)"
    by (simp add: gql_governed_query_Inr yaml_backend_def gql_known_found gql_caller_sees gql_question_governed)
  have 3: "stored_datasource sample_gql gql_known (mo_datasource sample_model) = Inr (sample_source ''pg'')"
    by (simp add: stored_datasource_yaml [of _ True] gql_known_found)
  have run: "GqlExecuted (sample_source ''pg'') sql \<in> set eff"
    using gql_query_runs [OF 1 gql_known_found(4) 2 3, of sql en gql_moment] q g by simp
  from gql_query_governed [OF q run] show ?thesis
    using run q by (auto simp: gql_question_governed)
qed

text \<open>Creating a model that the engine then does not know, and deleting it.\<close>

definition gql_new_model :: gql_create_model_input where
  "gql_new_model =
     \<lparr>gcm_name = ''refunds'', gcm_datasource = ''main'', gcm_description = None, gcm_measures = [],
      gcm_dimensions = [\<lparr>gd_name = ''region'', gd_label = None\<rparr>], gcm_time_dimensions = [], gcm_joins = None\<rparr>"

lemma graphql_engine_unaware_witness:
  "yaml_get_model (gs_store (gql_step sample_gql gql_moment (gql_caller True) (AskCreateModel gql_new_model) gql_known))
     ''refunds'' None \<noteq> None \<and>
   generate (\<lambda>_. []) (en_generator (es_engine (gs_engine
     (gql_step sample_gql gql_moment (gql_caller True) (AskCreateModel gql_new_model) gql_known)))) gql_governed =
   generate (\<lambda>_. []) (en_generator (es_engine (gs_engine gql_known))) gql_governed"
proof -
  have "gql_run sample_gql gc_is_admin gql_known
      (gql_step sample_gql gql_moment (gql_caller True) (AskCreateModel gql_new_model) gql_known)"
    by (rule gql_run.request [OF gql_run.idle]) (simp add: gql_caller_sel)
  from graphql_engine_unaware [OF this] have "generate (\<lambda>_. []) (en_generator (es_engine (gs_engine
     (gql_step sample_gql gql_moment (gql_caller True) (AskCreateModel gql_new_model) gql_known)))) gql_governed =
   generate (\<lambda>_. []) (en_generator (es_engine (gs_engine gql_known))) gql_governed" .
  moreover have "yaml_get_model (gs_store (gql_step sample_gql gql_moment (gql_caller True) (AskCreateModel gql_new_model) gql_known))
      ''refunds'' None \<noteq> None" by code_simp
  ultimately show ?thesis by blast
qed

theorem socket_acts_as_admin_witness:
  "gql_step sample_gql gql_moment socket_context (AskDeleteModel ''orders'' None) gql_known =
     gql_step sample_gql gql_moment (gql_caller True) (AskDeleteModel ''orders'' None) gql_known \<and>
   yaml_get_model (gs_store (gql_step sample_gql gql_moment socket_context (AskDeleteModel ''orders'' None) gql_known))
     ''orders'' None = None"
proof -
  have "yaml_get_model (gs_store (gql_step sample_gql gql_moment socket_context (AskDeleteModel ''orders'' None) gql_known))
      ''orders'' None = None" by code_simp
  then show ?thesis
    using socket_acts_as_admin [of "AskDeleteModel ''orders'' None" "gql_caller True" sample_gql gql_moment gql_known]
    by (simp add: gql_caller_sel)
qed

definition alice_headers :: headers where
  "alice_headers = [''x-api-key'' \<mapsto> ''k1'', ''x-tenant-id'' \<mapsto> ''acme'']"

theorem http_catalogue_needs_admin_witness:
  "ys_models (gs_store (gql_step sample_gql gql_moment
      (fst (request_context sample_lib (\<lambda>_. Inl []) 0 0 (auth_config_from_env True Auth.sample_env) alice_headers None))
      (AskDeleteModel ''orders'' None) gql_known)) = [(''orders'', sample_model)]"
proof -
  let ?ac = "auth_config_from_env True Auth.sample_env"
  let ?gc = "fst (request_context sample_lib (\<lambda>_. Inl []) 0 0 ?ac alice_headers None)"
  have "extract_api_key alice_headers = Some ''k1''" "extract_tenant alice_headers = Some ''acme''" by code_simp+
  then have "\<forall>i. fst (resolve_identity sample_lib (\<lambda>_. Inl []) 0 0 ?ac (extract_api_key alice_headers)
      (extract_tenant alice_headers) None) = Some i \<longrightarrow> \<not> id_is_admin i"
    by (simp only: sample_resolves) simp
  moreover have "request_context sample_lib (\<lambda>_. Inl []) 0 0 ?ac alice_headers None =
      (?gc, snd (request_context sample_lib (\<lambda>_. Inl []) 0 0 ?ac alice_headers None))" by simp
  ultimately have "plain_request sample_lib (\<lambda>_. Inl []) ?ac ?gc"
    unfolding plain_request_def by blast
  then have run: "gql_run sample_gql (plain_request sample_lib (\<lambda>_. Inl []) ?ac) gql_known
      (gql_step sample_gql gql_moment ?gc (AskDeleteModel ''orders'' None) gql_known)"
    by (rule gql_run.request [OF gql_run.idle])
  have 1: "ac_auth_required ?ac" by code_simp
  have 2: "ys_models (gs_store gql_known) = [(''orders'', sample_model)]" by code_simp
  from http_catalogue_needs_admin [OF 1 gql_sample_sel(1) run] show ?thesis by (simp only: 2)
qed

end
