(* ===== verification/Server.thy ===== *)
theory Server
  imports Graphql_Safety Sql_Storage
begin

text \<open>
  The server around the surfaces (\<open>crates/graphnight-server/src/main.rs\<close>, \<open>cors_config.rs\<close>,
  \<open>request_id.rs\<close>): settings and their precedence, how the engine and the storage are set up at start,
  the health report, the origins a browser may come from, and request identifiers.

  Reading the configuration file, whether a text is a header value, and fresh identifiers are
  parameters; routing, logging and the listener are left out.
\<close>

subsection \<open>Settings\<close>

record server_args =
  sa_config :: string
  sa_host :: "string option"
  sa_port :: "nat option"
  sa_storage_path :: "string option"
  sa_log_level :: string

record data_source_config =
  dsc_driver :: string
  dsc_connection_string :: string
  dsc_description :: "string option"
  dsc_pool_size :: "nat option"

record server_config =
  sv_host :: "string option"
  sv_port :: "nat option"
  sv_storage_type :: "string option"
  sv_storage_path :: "string option"
  sv_datasources :: "(string \<times> data_source_config) list option"

definition load_config :: "(string \<Rightarrow> (string + server_config) option) \<Rightarrow> string \<Rightarrow> string + server_config" where
  "load_config file path =
     (case file path of
        None \<Rightarrow> Inr \<lparr>sv_host = Some ''0.0.0.0'', sv_port = Some 8080, sv_storage_type = Some ''yaml'',
                      sv_storage_path = Some ''./graphnight_data'', sv_datasources = None\<rparr>
      | Some contents \<Rightarrow> contents)"

text \<open>A flag goes before the file, and the file before the default.\<close>

definition server_host :: "server_args \<Rightarrow> server_config \<Rightarrow> string" where
  "server_host args config = unwrap_or (opt_or (sa_host args) (sv_host config)) ''0.0.0.0''"

definition server_port :: "server_args \<Rightarrow> server_config \<Rightarrow> nat" where
  "server_port args config = unwrap_or (opt_or (sa_port args) (sv_port config)) 8080"

definition server_storage_path :: "server_args \<Rightarrow> server_config \<Rightarrow> string" where
  "server_storage_path args config = unwrap_or (opt_or (sa_storage_path args) (sv_storage_path config)) ''./graphnight_data''"

datatype storage_choice = ChooseYaml string | ChooseSqlite string | ChoosePostgres "string option"

definition server_storage :: "server_args \<Rightarrow> server_config \<Rightarrow> storage_choice" where
  "server_storage args config =
     (let kind = unwrap_or (sv_storage_type config) ''yaml''; path = server_storage_path args config in
      if kind = ''yaml'' then ChooseYaml path
      else if kind = ''sqlite'' then ChooseSqlite path
      else if kind = ''postgres'' then ChoosePostgres (opt_or (sa_storage_path args) (sv_storage_path config))
      else ChooseYaml path)"

subsection \<open>Start\<close>

datatype start_error = StartStorage storage_error | StartSecret string secret_error

text \<open>The datasources of the configuration, in the order of its hash map; one that is stored already is left alone.\<close>

fun create_configured ::
    "'s backend \<Rightarrow> env \<Rightarrow> (string \<times> data_source_config) list \<Rightarrow> 's \<Rightarrow> (start_error + unit) \<times> 's" where
  "create_configured bk env [] s = (Inr (), s)"
| "create_configured bk env ((name, config) # rest) s =
     (case bk_get_datasource bk s name of
        Inl e \<Rightarrow> (Inl (StartStorage e), s)
      | Inr (Some _) \<Rightarrow> create_configured bk env rest s
      | Inr None \<Rightarrow>
          (case resolve_connection_string env (dsc_connection_string config) of
             Inl e \<Rightarrow> (Inl (StartSecret name e), s)
           | Inr _ \<Rightarrow>
               (case bk_create_datasource bk s
                       \<lparr>ds_name = name, ds_driver = dsc_driver config,
                        ds_connection_string = dsc_connection_string config, ds_description = dsc_description config,
                        ds_models = [], ds_pool_size = dsc_pool_size config, ds_meta = []\<rparr> of
                  (Inl e, s') \<Rightarrow> (Inl (StartStorage e), s')
                | (Inr _, s') \<Rightarrow> create_configured bk env rest s')))"

definition server_engine :: "('c, 'r, 'p, 'k) engine_lib \<Rightarrow> model list \<Rightarrow> ('c, 'r, 'p) engine_state" where
  "server_engine lib ms = engine_with_models ms (sql_engine_new lib (get_dialect ''postgres'') connection_manager_new)"

definition server_start ::
    "'s backend \<Rightarrow> ('c, 'r, 'p, 'k) engine_lib \<Rightarrow> env \<Rightarrow> server_config \<Rightarrow> 's
      \<Rightarrow> (start_error + ('s, 'c, 'r, 'p) gql_state) \<times> 's" where
  "server_start bk lib env config s =
     (case create_configured bk env (unwrap_or (sv_datasources config) []) s of
        (Inl e, s') \<Rightarrow> (Inl e, s')
      | (Inr _, s') \<Rightarrow>
          (case bk_list_models bk s' None of
             Inl e \<Rightarrow> (Inl (StartStorage e), s')
           | Inr ms \<Rightarrow> (Inr \<lparr>gs_store = s', gs_engine = server_engine lib ms\<rparr>, s')))"

subsection \<open>Health\<close>

record health_body =
  hb_status :: string
  hb_storage_ok :: bool
  hb_models :: "nat option"
  hb_error :: "storage_error option"
  hb_pools :: pool_counts

definition health :: "'s backend \<Rightarrow> ('s, 'c, 'r, 'p) gql_state \<Rightarrow> nat \<times> health_body" where
  "health bk st =
     (let pools = pool_counts_of (es_connections (gs_engine st)) in
      case bk_list_models bk (gs_store st) None of
        Inr ms \<Rightarrow> (200, \<lparr>hb_status = ''ok'', hb_storage_ok = True, hb_models = Some (length ms), hb_error = None,
                        hb_pools = pools\<rparr>)
      | Inl e \<Rightarrow> (503, \<lparr>hb_status = ''unavailable'', hb_storage_ok = False, hb_models = None, hb_error = Some e,
                       hb_pools = pools\<rparr>))"

subsection \<open>Origins\<close>

text \<open>What a browser is allowed; \<open>None\<close> is anything.\<close>

record cors_layer =
  cl_origins :: "string list option"
  cl_methods :: "string list option"
  cl_headers :: "string list option"
  cl_exposed :: "string list"

definition default_local_origins :: "string list" where
  "default_local_origins = [''http://127.0.0.1:8080'', ''http://localhost:8080'']"

definition parse_origin_list :: "(string \<Rightarrow> bool) \<Rightarrow> string \<Rightarrow> string list" where
  "parse_origin_list header_ok raw =
     filter header_ok (filter (\<lambda>s. s \<noteq> [] \<and> s \<noteq> ''*'') (map trim (split_on (CHR '','') raw)))"

definition allowlist_layer :: "string list \<Rightarrow> cors_layer" where
  "allowlist_layer origins =
     \<lparr>cl_origins = Some origins, cl_methods = Some [''GET'', ''POST'', ''OPTIONS''],
      cl_headers = Some [''authorization'', ''content-type'', ''accept'', ''x-api-key'', ''x-tenant-id'', ''x-request-id''],
      cl_exposed = [''x-request-id'']\<rparr>"

definition cors_layer_from_value :: "(string \<Rightarrow> bool) \<Rightarrow> string option \<Rightarrow> cors_layer" where
  "cors_layer_from_value header_ok raw =
     (case Option.bind (map_option trim raw) (\<lambda>s. if s = [] then None else Some s) of
        Some text \<Rightarrow>
          if text = ''*'' then \<lparr>cl_origins = None, cl_methods = None, cl_headers = None, cl_exposed = []\<rparr>
          else allowlist_layer (parse_origin_list header_ok text)
      | None \<Rightarrow> allowlist_layer (parse_origin_list header_ok (str_join '','' default_local_origins)))"

definition cors_layer_from_env :: "(string \<Rightarrow> bool) \<Rightarrow> env \<Rightarrow> cors_layer" where
  "cors_layer_from_env header_ok env = cors_layer_from_value header_ok (env ''GRAPHNIGHT_CORS_ORIGINS'')"

subsection \<open>Request identifiers\<close>

definition request_id :: "headers \<Rightarrow> string \<Rightarrow> string" where
  "request_id hs fresh =
     unwrap_or (Option.bind (map_option trim (hs ''x-request-id'')) (\<lambda>s. if s = [] then None else Some s)) fresh"

text \<open>The inner service sees the identifier and the response carries it, if it can stand in a header.\<close>

definition request_id_middleware :: "(string \<Rightarrow> bool) \<Rightarrow> string \<Rightarrow> (headers \<Rightarrow> headers) \<Rightarrow> headers \<Rightarrow> headers" where
  "request_id_middleware header_ok fresh inner hs =
     (let i = request_id hs fresh;
          put = (\<lambda>h. if header_ok i then h(''x-request-id'' \<mapsto> i) else h)
      in put (inner (put hs)))"

subsection \<open>The dialect of the server\<close>

lemma with_models_drivers:
  "sg_datasource_drivers (with_models g ms) = sg_datasource_drivers g \<and>
   sg_default_dialect (with_models g ms) = sg_default_dialect g"
proof -
  have "sg_datasource_drivers (foldl (\<lambda>g m. g\<lparr>sg_models := AList.update (mo_name m) m (sg_models g)\<rparr>) g ms) = sg_datasource_drivers g \<and>
      sg_default_dialect (foldl (\<lambda>g m. g\<lparr>sg_models := AList.update (mo_name m) m (sg_models g)\<rparr>) g ms) = sg_default_dialect g"
    by (induction ms arbitrary: g) auto
  then show ?thesis by (simp add: with_models_def)
qed

lemma server_engine_dialect: "dialect_for (en_generator (es_engine (server_engine lib ms))) name = Postgres"
proof -
  have "get_dialect ''postgres'' = Postgres" by code_simp
  then have "sg_datasource_drivers (en_generator (es_engine (server_engine lib ms))) = [] \<and>
      sg_default_dialect (en_generator (es_engine (server_engine lib ms))) = Postgres"
    by (simp add: server_engine_def engine_with_models_def sql_engine_new_def engine_new_def with_models_drivers
        generator_new_def)
  then show ?thesis by (simp add: dialect_for_def split: option.split Option.bind_split)
qed

text \<open>
  A server generates every statement for PostgreSQL, whatever the drivers of its datasources are and
  whatever happens over GraphQL after the start: the drivers are never handed to the engine.
\<close>

lemma server_speaks_postgres:
  assumes "server_start bk lib secrets config s = (Inr st, s')" and "gql_run env admitted st st'"
  shows "dialect_for (en_generator (es_engine (gs_engine st'))) name = Postgres"
proof -
  have "en_generator (es_engine (gs_engine st')) = en_generator (es_engine (gs_engine st))"
    by (rule gql_run_keeps [OF assms(2), of "\<lambda>s. en_generator (es_engine (gs_engine s))"]) (rule gql_step_generator)
  moreover obtain ms where "gs_engine st = server_engine lib ms"
    using assms(1) by (auto simp: server_start_def split: prod.splits sum.splits)
  ultimately show ?thesis by (simp add: server_engine_dialect)
qed

text \<open>A datasource that is stored keeps its definition, so a change in the configuration is not applied.\<close>

lemma configured_once:
  assumes "create_configured (yaml_backend True) env configured s = (r, s')" and "yaml_get_datasource s name = Some ds"
  shows "yaml_get_datasource s' name = Some ds"
  using assms
proof (induction "yaml_backend True" env configured s arbitrary: r s' rule: create_configured.induct)
  case (2 env n config rest s)
  show ?case
  proof (cases "yaml_get_datasource s n")
    case (Some old)
    then show ?thesis using 2 by (simp add: yaml_backend_def)
  next
    case None
    define d where "d = \<lparr>ds_name = n, ds_driver = dsc_driver config, ds_connection_string = dsc_connection_string config,
      ds_description = dsc_description config, ds_models = [], ds_pool_size = dsc_pool_size config, ds_meta = []\<rparr>"
    have "fst (yaml_create_datasource True s d) = Inr d" "yaml_get_datasource (snd (yaml_create_datasource True s d)) name = Some ds"
      using datasources_store.create_free [of s d] None "2.prems"(2) by (auto simp: d_def)
    then show ?thesis
      using 2 None
      by (cases "yaml_create_datasource True s d") (auto simp: yaml_backend_def d_def split: sum.splits)
  qed
qed simp

text \<open>Any origin is allowed exactly when the variable is the asterisk itself; in a list it is dropped.\<close>

lemma cors_open_iff:
  "cl_origins (cors_layer_from_value header_ok raw) = None \<longleftrightarrow> map_option trim raw = Some ''*''"
  by (cases raw) (auto simp: cors_layer_from_value_def allowlist_layer_def)

lemma cors_listed:
  "cl_origins (cors_layer_from_value header_ok raw) = Some origins \<Longrightarrow> o' \<in> set origins \<Longrightarrow>
     header_ok o' \<and> o' \<noteq> [] \<and> o' \<noteq> ''*''"
  by (auto simp: cors_layer_from_value_def allowlist_layer_def parse_origin_list_def split: option.splits if_splits bind_splits)

text \<open>The identifier the inner service reads is the one the response carries.\<close>

lemma request_id_echoed:
  assumes "header_ok (request_id hs fresh)"
  shows "request_id_middleware header_ok fresh inner hs ''x-request-id'' = Some (request_id hs fresh)"
    and "hs ''x-request-id'' = Some s \<Longrightarrow> trim s \<noteq> [] \<Longrightarrow> request_id hs fresh = trim s"
  using assms by (simp_all add: request_id_middleware_def Let_def request_id_def unwrap_or_def)

subsection \<open>The catalogue in SQLite\<close>

text \<open>
  C36. Over SQLite storage the model that was just created is not the one its name asks for, because it is kept
  under its datasource and name. If no model was found under the bare name before, a query of that name
  executes nothing and answers an error; if one was, as after a new start, whatever is executed runs on
  the datasource of that earlier model and is what the policy made of it then, whatever was created since.
\<close>

theorem sqlite_created_not_queryable:
  assumes "ge_backend env = sqlite_backend lib"
    and "gql_create_model env gc st input = (Inr info, st1)"
    and "query_model_name (gql_to_core q) = Some (gcm_name input)"
    and "gql_query env now gc' st1 q dry = (r, eff, st2)"
  shows "(case sqlite_get_model (gs_store st) (gcm_name input) None of
      None \<Rightarrow> \<not> is_ok r \<and> GqlExecuted ds sql \<notin> set eff
    | Some old \<Rightarrow> GqlExecuted ds sql \<in> set eff \<longrightarrow>
        sqlite_get_datasource (gs_store st1) (mo_datasource old) = Some ds \<and>
        (\<exists>q'. gql_governed_query env gc' st (gql_to_core q) (gcm_name input) = Inr (old, q') \<and>
           fst (generate_sql_text (ge_engine env) (gs_engine st1) q') = Inr sql))"
proof -
  let ?m = "gql_input_model input"
  obtain m' s' where c: "sqlite_create_model lib (gs_store st) ?m = (Inr m', s')" and st1: "gs_store st1 = s'"
    using assms(1,2) by (auto simp: gql_create_model_def stored_def sqlite_backend_def split: sum.splits prod.splits)
  have same: "sqlite_get_model (gs_store st1) (gcm_name input) None = sqlite_get_model (gs_store st) (gcm_name input) None"
    using sqlite_created(2) [OF c] by (simp add: gql_input_model_def st1)
  obtain r' out eff' st'' where run: "gql_execute_query env now gc' st1 q dry = (r', out, eff', st'')"
    by (metis prod_cases4)
  have eff: "GqlExecuted ds sql \<in> set eff \<longleftrightarrow> GqlExecuted ds sql \<in> set eff'" and r: "is_ok r \<longleftrightarrow> is_ok r'"
    using assms(4) run by (auto simp: gql_query_def split: if_split_asm)
  show ?thesis
  proof (cases "sqlite_get_model (gs_store st) (gcm_name input) None")
    case None
    then have "gql_governed_query env gc' st1 (gql_to_core q) (gcm_name input) = Inl (GqlModelNotFound (gcm_name input))"
      using same by (simp add: gql_governed_query_def assms(1) sqlite_backend_def ok_or_def)
    then have "\<not> is_ok r' \<and> eff' = []"
      using run by (cases "reject_if_auth_required gc'") (auto simp: gql_execute_query_def assms(3) ok_or_def)
    then show ?thesis using None eff r by simp
  next
    case (Some old)
    show ?thesis
    proof (cases "GqlExecuted ds sql \<in> set eff")
      case True
      with gql_execute_query_Executed [OF run] eff same Some assms(1,3) show ?thesis
        by (auto simp: sqlite_backend_def gql_governed_query_Inr)
    qed (simp add: Some)
  qed
qed

text \<open>After a new start it is found, and can no longer be updated.\<close>

lemma sqlite_loaded_not_updatable:
  assumes "sqlite_new lib d = Inr s" and "model_key name (Some (mo_datasource m)) \<notin> mo_name ` snd ` set (sq_models s)"
  shows "sqlite_update_model lib s name m = (Inl (StModelNotFound (model_key name (Some (mo_datasource m)))), s)"
proof -
  let ?key = "model_key name (Some (mo_datasource m))"
  have "map_of (sq_models s) ?key = None"
    using sqlite_loaded_names [OF assms(1)] assms(2)
    by (cases "map_of (sq_models s) ?key") (force dest: map_of_SomeD)+
  then show ?thesis by (simp add: sqlite_update_model_def)
qed

subsection \<open>An example\<close>

definition mysql_config :: server_config where
  "mysql_config =
     \<lparr>sv_host = None, sv_port = None, sv_storage_type = None, sv_storage_path = None,
      sv_datasources = Some [(''shop'', \<lparr>dsc_driver = ''mysql'', dsc_connection_string = ''mysql://db'',
        dsc_description = None, dsc_pool_size = None\<rparr>)]\<rparr>"

lemma server_speaks_postgres_witness:
  "\<exists>st. fst (server_start (yaml_backend True) gql_engine_lib Map.empty mysql_config (yaml_new empty_disk)) = Inr st \<and>
     map_option ds_driver (yaml_get_datasource (gs_store st) ''shop'') = Some ''mysql'' \<and>
     dialect_for (en_generator (es_engine (gs_engine st))) ''orders'' = Postgres"
proof -
  let ?run = "create_configured (yaml_backend True) Map.empty (unwrap_or (sv_datasources mysql_config) []) (yaml_new empty_disk)"
  have 1: "?run = (Inr (), snd ?run)" by code_simp
  have 2: "map_option ds_driver (yaml_get_datasource (snd ?run) ''shop'') = Some ''mysql''" by code_simp
  let ?st = "\<lparr>gs_store = snd ?run, gs_engine = server_engine gql_engine_lib (yaml_list_models (snd ?run) None)\<rparr>"
  have "server_start (yaml_backend True) gql_engine_lib Map.empty mysql_config (yaml_new empty_disk) = (Inr ?st, snd ?run)"
    unfolding server_start_def by (subst 1) (simp add: yaml_backend_def)
  from server_speaks_postgres [OF this gql_run.idle [of sample_gql "\<lambda>_. True"], of "''orders''"] this 2
  show ?thesis by (intro exI [of _ ?st]) simp
qed

text \<open>A database that accepts every statement, and a server on SQLite over it.\<close>

definition accepting_db :: "unit meta_lib" where
  "accepting_db =
     \<lparr>md_execute = (\<lambda>_ _ d. (Inr 1, d)), md_fetch = (\<lambda>_ _ _. Inr []),
      md_models = \<lparr>co_text = mo_name, co_read = (\<lambda>_. Inl [])\<rparr>,
      md_datasources = \<lparr>co_text = ds_name, co_read = (\<lambda>_. Inl [])\<rparr>,
      md_memories = \<lparr>co_text = me_id, co_read = (\<lambda>_. Inl [])\<rparr>,
      md_names = \<lparr>co_text = concat, co_read = (\<lambda>_. Inl [])\<rparr>\<rparr>"

definition sqlite_sample ::
    "(unit sqlite_storage, nat \<times> (64 word \<times> generated_sql) list, nat \<times> (64 word \<times> result_entry) list, string, json) gql_env" where
  "sqlite_sample =
     \<lparr>ge_backend = sqlite_backend accepting_db, ge_engine = gql_engine_lib, ge_stall = (\<lambda>_ _ _. None),
      ge_execute_dag = (\<lambda>_ _ st. (Inr [], [], st)), ge_storage_text = (\<lambda>_. []), ge_new_id = ''m1'', ge_now = []\<rparr>"

definition sqlite_state ::
    "(unit sqlite_storage, nat \<times> (64 word \<times> generated_sql) list, nat \<times> (64 word \<times> result_entry) list, string) gql_state" where
  "sqlite_state = \<lparr>gs_store = \<lparr>sq_pool = (), sq_models = [], sq_datasources = []\<rparr>, gs_engine = gs_engine gql_start\<rparr>"

theorem sqlite_created_not_queryable_witness:
  "is_ok (fst (gql_create_model sqlite_sample (gql_caller True) sqlite_state (gql_new_model\<lparr>gcm_name := ''orders''\<rparr>))) \<and>
   \<not> is_ok (fst (gql_query sqlite_sample gql_moment (gql_caller True)
     (snd (gql_create_model sqlite_sample (gql_caller True) sqlite_state (gql_new_model\<lparr>gcm_name := ''orders''\<rparr>)))
     gql_question None))"
proof -
  let ?input = "gql_new_model\<lparr>gcm_name := ''orders''\<rparr>"
  let ?c = "gql_create_model sqlite_sample (gql_caller True) sqlite_state ?input"
  have ok: "is_ok (fst ?c)" by code_simp
  then obtain info st1 where c: "?c = (Inr info, st1)" by (cases ?c) (auto simp: is_ok_iff)
  obtain r eff st2 where q: "gql_query sqlite_sample gql_moment (gql_caller True) st1 gql_question None = (r, eff, st2)"
    by (metis prod_cases3)
  have 1: "ge_backend sqlite_sample = sqlite_backend accepting_db" by (simp add: sqlite_sample_def)
  have 2: "sqlite_get_model (gs_store sqlite_state) (gcm_name ?input) None = None"
    by (simp add: sqlite_get_model_def sqlite_state_def)
  have 3: "query_model_name (gql_to_core gql_question) = Some (gcm_name ?input)" by code_simp
  from sqlite_created_not_queryable [OF 1 c 3 q, unfolded 2 option.case] have "\<not> is_ok r" by blast
  then show ?thesis using ok c q by simp
qed

end
