(* ===== verification/Cli.thy ===== *)
theory Cli
  imports Server
begin

text \<open>
  The command line (\<open>crates/graphnight-cli/src/main.rs\<close>, \<open>commands/init.rs\<close>): the commands over a storage backend
  and an engine, and the scaffold of a project over a file system.

  A command gives the lines that it prints; tables, YAML and pretty JSON are printed by libraries and stand
  for what they show. Reading files and decoding them are parameters, and so are fresh identifiers,
  the time, and the texts of the four files of a project.
\<close>

subsection \<open>Commands\<close>

datatype query_command = QueryRun string string | QueryDryRun string
datatype model_command = ModelList "string option" | ModelGet string "string option" | ModelCreate string
  | ModelDelete string "string option"
datatype datasource_command = DatasourceList | DatasourceGet string | DatasourceCreate string | DatasourceDelete string
datatype memory_command = MemoryList "string option" "string option" nat | MemoryGet string
  | MemorySave string string "string option" "string option" | MemoryDelete string

datatype cli_command =
    CliInit string bool
  | CliQuery query_command
  | CliModel model_command
  | CliDatasource datasource_command
  | CliMemory memory_command
  | CliSearch string nat
  | CliSql string
  | CliServe string nat

record model_line =
  ml_name :: string
  ml_datasource :: string
  ml_description :: string
  ml_measures :: nat
  ml_dimensions :: nat

record datasource_line =
  dl_name :: string
  dl_driver :: string
  dl_description :: string
  dl_models :: nat

record memory_line =
  yl_id :: string
  yl_learning :: string
  yl_entities :: string
  yl_created_at :: string

datatype cli_line =
    Line string
  | ModelTable "model_line list"
  | DatasourceTable "datasource_line list"
  | MemoryTable "memory_line list"
  | YamlOfModel model
  | YamlOfDatasource data_source
  | YamlOfMemory memory
  | PrettyRows "row list"
  | ScoreLine string nat

datatype cli_error =
    CliFile string
  | CliDecode string
  | CliStorage storage_error
  | CliText string
  | CliGenerate gen_error
  | CliExecute string

record ('s, 'c, 'r, 'p) cli_state =
  cs_store :: 's
  cs_engine :: "('c, 'r, 'p) engine_state"

record ('s, 'c, 'r, 'p, 'k) cli_env =
  cl_backend :: "'s backend"
  cl_engine :: "('c, 'r, 'p, 'k) engine_lib"
  cl_read_file :: "string \<Rightarrow> string + string"
  cl_query :: "string \<Rightarrow> string + query"
  cl_model :: "string \<Rightarrow> string + model"
  cl_datasource :: "string \<Rightarrow> string + data_source"
  cl_new_id :: string
  cl_now :: string

subsection \<open>Queries\<close>

definition read_query :: "('s, 'c, 'r, 'p, 'k) cli_env \<Rightarrow> string \<Rightarrow> cli_error + query" where
  "read_query env file =
     rbind (map_err CliFile (cl_read_file env file)) (\<lambda>content. map_err CliDecode (cl_query env content))"

text \<open>The columns are those of the first row; a value is its JSON text.\<close>

definition tab_table :: "(json \<Rightarrow> string) \<Rightarrow> row list \<Rightarrow> cli_line list" where
  "tab_table json_text rows =
     (case rows of
        [] \<Rightarrow> []
      | first # _ \<Rightarrow>
          let headers = map fst first in
          Line (str_join [CHR 0x09] headers)
          # map (\<lambda>row. Line (str_join [CHR 0x09]
                (map (\<lambda>h. case map_of row h of Some v \<Rightarrow> json_text v | None \<Rightarrow> []) headers))) rows)"

definition query_target :: "'s backend \<Rightarrow> 's \<Rightarrow> query \<Rightarrow> cli_error + data_source" where
  "query_target bk s q =
     rbind (ok_or (CliText ''Query must have name or source_model'') (opt_or (q_name q) (map_option ss_model (q_source_model q))))
       (\<lambda>name. rbind (map_err CliStorage (bk_get_model bk s name None)) (\<lambda>found.
         rbind (ok_or (CliText (''Model not found: '' @ name)) found) (\<lambda>m.
         rbind (map_err CliStorage (bk_get_datasource bk s (mo_datasource m))) (\<lambda>ds.
           ok_or (CliText (''Datasource not found: '' @ mo_datasource m)) ds))))"

definition print_sql ::
    "('s, 'c, 'r, 'p, 'k) cli_env \<Rightarrow> ('s, 'c, 'r, 'p) cli_state \<Rightarrow> string
      \<Rightarrow> (cli_error + cli_line list) \<times> ('s, 'c, 'r, 'p) cli_state" where
  "print_sql env st file =
     (case read_query env file of
        Inl e \<Rightarrow> (Inl e, st)
      | Inr q \<Rightarrow>
          (case generate_sql_text (cl_engine env) (cs_engine st) q of
             (r, en) \<Rightarrow> (rbind (map_err CliGenerate r) (\<lambda>sql. Inr [Line sql]), st\<lparr>cs_engine := en\<rparr>)))"

definition handle_query ::
    "('s, 'c, 'r, 'p, 'k) cli_env \<Rightarrow> moment \<Rightarrow> query_command \<Rightarrow> ('s, 'c, 'r, 'p) cli_state
      \<Rightarrow> (cli_error + cli_line list) \<times> ('s, 'c, 'r, 'p) cli_state" where
  "handle_query env now action st =
     (case action of
        QueryDryRun file \<Rightarrow> print_sql env st file
      | QueryRun file format \<Rightarrow>
          (case rbind (read_query env file) (\<lambda>q. rbind (query_target (cl_backend env) (cs_store st) q) (\<lambda>ds. Inr (q, ds))) of
             Inl e \<Rightarrow> (Inl e, st)
           | Inr (q, ds) \<Rightarrow>
               (case generate_sql_text (cl_engine env) (cs_engine st) q of
                  (Inl e, en) \<Rightarrow> (Inl (CliGenerate e), st\<lparr>cs_engine := en\<rparr>)
                | (Inr sql, en) \<Rightarrow>
                    (case engine_execute_sqlx (cl_engine env) now en ds sql of
                       (Inl e, en') \<Rightarrow> (Inl (CliExecute e), st\<lparr>cs_engine := en'\<rparr>)
                     | (Inr rows, en') \<Rightarrow>
                         (Inr (if format = ''json'' then [PrettyRows rows]
                               else if format = ''table'' then tab_table (el_json_text (cl_engine env)) rows
                               else [Line (''Unknown format: '' @ format)]), st\<lparr>cs_engine := en'\<rparr>)))))"

subsection \<open>Models, datasources, memories\<close>

definition model_line_of :: "model \<Rightarrow> model_line" where
  "model_line_of m =
     \<lparr>ml_name = mo_name m, ml_datasource = mo_datasource m, ml_description = unwrap_or (mo_description m) [],
      ml_measures = length (mo_measures m), ml_dimensions = length (mo_dimensions m)\<rparr>"

text \<open>A change of the store with what is printed on success; \<open>deleted_line\<close> for deletions.\<close>

definition changed ::
    "('a \<Rightarrow> cli_line list) \<Rightarrow> (storage_error + 'a) \<times> 's \<Rightarrow> (cli_error + cli_line list) \<times> 's" where
  "changed show_it r = (case r of (x, s) \<Rightarrow> (rbind (map_err CliStorage x) (\<lambda>v. Inr (show_it v)), s))"

definition deleted_line :: "string \<Rightarrow> string \<Rightarrow> string \<Rightarrow> bool \<Rightarrow> cli_line list" where
  "deleted_line what missing name deleted = [Line ((if deleted then ''Deleted '' @ what else missing @ '' not found'') @ '': '' @ name)]"

definition handle_model ::
    "('s, 'c, 'r, 'p, 'k) cli_env \<Rightarrow> model_command \<Rightarrow> 's \<Rightarrow> (cli_error + cli_line list) \<times> 's" where
  "handle_model env action s =
     (case action of
        ModelList datasource \<Rightarrow>
          (rbind (map_err CliStorage (bk_list_models (cl_backend env) s datasource)) (\<lambda>ms. Inr [ModelTable (map model_line_of ms)]), s)
      | ModelGet name datasource \<Rightarrow>
          (rbind (map_err CliStorage (bk_get_model (cl_backend env) s name datasource)) (\<lambda>m.
             Inr (case m of Some m \<Rightarrow> [YamlOfModel m] | None \<Rightarrow> [Line (''Model not found: '' @ name)])), s)
      | ModelCreate file \<Rightarrow>
          (case rbind (map_err CliFile (cl_read_file env file)) (\<lambda>content. map_err CliDecode (cl_model env content)) of
             Inl e \<Rightarrow> (Inl e, s)
           | Inr m \<Rightarrow> changed (\<lambda>m. [Line (''Created model: '' @ mo_name m)]) (bk_create_model (cl_backend env) s m))
      | ModelDelete name datasource \<Rightarrow>
          changed (deleted_line ''model'' ''Model'' name) (bk_delete_model (cl_backend env) s name datasource))"

definition datasource_line_of :: "data_source \<Rightarrow> datasource_line" where
  "datasource_line_of d =
     \<lparr>dl_name = ds_name d, dl_driver = ds_driver d, dl_description = unwrap_or (ds_description d) [],
      dl_models = length (ds_models d)\<rparr>"

definition handle_datasource ::
    "('s, 'c, 'r, 'p, 'k) cli_env \<Rightarrow> datasource_command \<Rightarrow> 's \<Rightarrow> (cli_error + cli_line list) \<times> 's" where
  "handle_datasource env action s =
     (case action of
        DatasourceList \<Rightarrow>
          (rbind (map_err CliStorage (bk_list_datasources (cl_backend env) s)) (\<lambda>ds. Inr [DatasourceTable (map datasource_line_of ds)]), s)
      | DatasourceGet name \<Rightarrow>
          (rbind (map_err CliStorage (bk_get_datasource (cl_backend env) s name)) (\<lambda>d.
             Inr (case d of Some d \<Rightarrow> [YamlOfDatasource d] | None \<Rightarrow> [Line (''Datasource not found: '' @ name)])), s)
      | DatasourceCreate file \<Rightarrow>
          (case rbind (map_err CliFile (cl_read_file env file)) (\<lambda>content. map_err CliDecode (cl_datasource env content)) of
             Inl e \<Rightarrow> (Inl e, s)
           | Inr d \<Rightarrow> changed (\<lambda>d. [Line (''Created datasource: '' @ ds_name d)]) (bk_create_datasource (cl_backend env) s d))
      | DatasourceDelete name \<Rightarrow>
          changed (deleted_line ''datasource'' ''Datasource'' name) (bk_delete_datasource (cl_backend env) s name))"

definition memory_line_of :: "memory \<Rightarrow> memory_line" where
  "memory_line_of m =
     \<lparr>yl_id = me_id m, yl_learning = me_learning m, yl_entities = str_join '', '' (me_linked_entities m),
      yl_created_at = me_created_at m\<rparr>"

definition cli_memory ::
    "('s, 'c, 'r, 'p, 'k) cli_env \<Rightarrow> string \<Rightarrow> string \<Rightarrow> string option \<Rightarrow> string option \<Rightarrow> memory" where
  "cli_memory env learning entities i description =
     \<lparr>me_id = unwrap_or i (cl_new_id env), me_learning = learning,
      me_linked_entities = map trim (split_on (CHR '','') entities), me_description = description,
      me_created_at = cl_now env, me_updated_at = cl_now env, me_meta = []\<rparr>"

definition handle_memory ::
    "('s, 'c, 'r, 'p, 'k) cli_env \<Rightarrow> memory_command \<Rightarrow> 's \<Rightarrow> (cli_error + cli_line list) \<times> 's" where
  "handle_memory env action s =
     (case action of
        MemoryList query entity limit \<Rightarrow>
          (rbind (map_err CliStorage (bk_list_memories (cl_backend env) s
                    \<lparr>mf_query = query, mf_entity = entity, mf_limit = Some limit, mf_offset = None\<rparr>))
             (\<lambda>ms. Inr [MemoryTable (map memory_line_of ms)]), s)
      | MemoryGet i \<Rightarrow>
          (rbind (map_err CliStorage (bk_get_memory (cl_backend env) s i)) (\<lambda>m.
             Inr (case m of Some m \<Rightarrow> [YamlOfMemory m] | None \<Rightarrow> [Line (''Memory not found: '' @ i)])), s)
      | MemorySave learning entities i description \<Rightarrow>
          changed (\<lambda>m. [Line (''Saved memory: '' @ me_id m)])
            (bk_save_memory (cl_backend env) s (cli_memory env learning entities i description))
      | MemoryDelete i \<Rightarrow>
          changed (deleted_line ''memory'' ''Memory'' i) (bk_delete_memory (cl_backend env) s i))"

definition hit_lines :: "index_hit \<Rightarrow> cli_line list" where
  "hit_lines h =
     [ScoreLine (ih_model_name h) (ih_score h), Line (''  Datasource: '' @ ih_datasource h),
      Line (''  Matched: '' @ str_join '', '' (ih_matched_fields h)), Line (''  Snippet: '' @ ih_snippet h), Line []]"

definition handle_search :: "'s backend \<Rightarrow> string \<Rightarrow> nat \<Rightarrow> 's \<Rightarrow> cli_error + cli_line list" where
  "handle_search bk q limit s =
     rbind (map_err CliStorage (bk_search bk s q limit)) (\<lambda>hits. Inr (concat (map hit_lines hits)))"

definition handle_serve :: "string \<Rightarrow> nat \<Rightarrow> cli_line list" where
  "handle_serve host port =
     [Line (''Server would start on '' @ host @ '':'' @ nat_str port),
      Line (''Use '' @ squote @ ''graphnight-server'' @ squote @ '' binary for production server'')]"

subsection \<open>The scaffold of a project\<close>

text \<open>Files by their paths; a write can be refused. The files come in the order they are written in.\<close>

type_synonym files = "(string \<times> string) list"

definition write_file ::
    "(string \<Rightarrow> bool) \<Rightarrow> bool \<Rightarrow> string \<times> string \<Rightarrow> files \<Rightarrow> (string + unit) \<times> files" where
  "write_file writable force = (\<lambda>(path, contents) fs.
     if map_of fs path \<noteq> None \<and> \<not> force then (Inl (path @ '' already exists (pass --force to overwrite)''), fs)
     else if \<not> writable path then (Inl (''failed to write '' @ path), fs)
     else (Inr (), AList.update path contents fs))"

fun write_files ::
    "(string \<Rightarrow> bool) \<Rightarrow> bool \<Rightarrow> (string \<times> string) list \<Rightarrow> files \<Rightarrow> (string + unit) \<times> files" where
  "write_files writable force [] fs = (Inr (), fs)"
| "write_files writable force (f # rest) fs =
     (case write_file writable force f fs of
        (Inl e, fs') \<Rightarrow> (Inl e, fs')
      | (Inr _, fs') \<Rightarrow> write_files writable force rest fs')"

record project_texts =
  pt_config :: string
  pt_models :: string
  pt_datasources :: string
  pt_query :: string

definition project_files :: "project_texts \<Rightarrow> string \<Rightarrow> (string \<times> string) list" where
  "project_files t dir =
     [(dir @ ''/graphnight.toml'', pt_config t), (dir @ ''/graphnight_data/models.yaml'', pt_models t),
      (dir @ ''/graphnight_data/datasources.yaml'', pt_datasources t), (dir @ ''/query.json'', pt_query t)]"

definition init_project ::
    "project_texts \<Rightarrow> (string \<Rightarrow> bool) \<Rightarrow> string \<Rightarrow> bool \<Rightarrow> files \<Rightarrow> (string + string) \<times> files" where
  "init_project t writable dir force fs =
     (case write_files writable force (project_files t dir) fs of (r, fs') \<Rightarrow> (rbind r (\<lambda>_. Inr dir), fs'))"

definition init_lines :: "string \<Rightarrow> cli_line list" where
  "init_lines path =
     [Line (''Initialized GraphNight project in '' @ path), Line ''Next:'',
      Line (''  graphnight --storage-path '' @ path @ ''/graphnight_data model list''),
      Line (''  graphnight --storage-path '' @ path @ ''/graphnight_data query dry-run --file '' @ path @ ''/query.json'')]"

subsection \<open>A run\<close>

definition cli_engine :: "('c, 'r, 'p, 'k) engine_lib \<Rightarrow> model list \<Rightarrow> ('c, 'r, 'p) engine_state" where
  "cli_engine lib ms = engine_with_models ms (sql_engine_new lib (get_dialect ''postgres'') connection_manager_new)"

definition in_store ::
    "('s \<Rightarrow> (cli_error + cli_line list) \<times> 's) \<Rightarrow> ('s, 'c, 'r, 'p) cli_state
      \<Rightarrow> (cli_error + cli_line list) \<times> ('s, 'c, 'r, 'p) cli_state" where
  "in_store f st = (case f (cs_store st) of (r, s) \<Rightarrow> (r, st\<lparr>cs_store := s\<rparr>))"

definition cli_dispatch ::
    "('s, 'c, 'r, 'p, 'k) cli_env \<Rightarrow> moment \<Rightarrow> cli_command \<Rightarrow> ('s, 'c, 'r, 'p) cli_state
      \<Rightarrow> (cli_error + cli_line list) \<times> ('s, 'c, 'r, 'p) cli_state" where
  "cli_dispatch env now command st =
     (case command of
        CliInit dir force \<Rightarrow> (Inr [], st)
      | CliQuery action \<Rightarrow> handle_query env now action st
      | CliModel action \<Rightarrow> in_store (handle_model env action) st
      | CliDatasource action \<Rightarrow> in_store (handle_datasource env action) st
      | CliMemory action \<Rightarrow> in_store (handle_memory env action) st
      | CliSearch q limit \<Rightarrow> (handle_search (cl_backend env) q limit (cs_store st), st)
      | CliSql file \<Rightarrow> print_sql env st file
      | CliServe host port \<Rightarrow> (Inr (handle_serve host port), st))"

text \<open>Every command but \<open>init\<close>, over the store as it was loaded; \<open>init\<close> is \<open>init_project\<close> with \<open>init_lines\<close>.\<close>

definition cli_main ::
    "('s, 'c, 'r, 'p, 'k) cli_env \<Rightarrow> moment \<Rightarrow> cli_command \<Rightarrow> 's
      \<Rightarrow> (cli_error + cli_line list) \<times> 's" where
  "cli_main env now command s =
     (case bk_list_models (cl_backend env) s None of
        Inl e \<Rightarrow> (Inl (CliStorage e), s)
      | Inr ms \<Rightarrow>
          (case cli_dispatch env now command \<lparr>cs_store = s, cs_engine = cli_engine (cl_engine env) ms\<rparr> of
             (r, st) \<Rightarrow> (r, cs_store st)))"

subsection \<open>Scaffolding\<close>

lemma write_file_keeps:
  "write_file writable False f fs = (r, fs') \<Longrightarrow> map_of fs p = Some c \<Longrightarrow> map_of fs' p = Some c"
  by (auto simp: write_file_def update_conv' split: prod.splits if_split_asm)

lemma write_file_done:
  "write_file writable force (p, c) fs = (Inr u, fs') \<Longrightarrow> map_of fs' = (map_of fs)(p \<mapsto> c) \<and> (map_of fs p = None \<or> force)"
  by (auto simp: write_file_def update_conv' split: if_split_asm)

text \<open>
  Without \<open>force\<close> no file that exists is changed, whether the scaffold succeeds or not; when it succeeds none
  of its files existed and all of them are there.
\<close>

lemma write_files_unforced:
  "write_files writable False files fs = (r, fs') \<Longrightarrow> map_of fs p = Some c \<Longrightarrow> map_of fs' p = Some c"
proof (induction files arbitrary: fs)
  case (Cons f files)
  then show ?case by (auto dest: write_file_keeps split: prod.splits sum.splits)
qed simp

lemma write_files_written:
  "write_files writable False files fs = (Inr u, fs') \<Longrightarrow> distinct (map fst files) \<Longrightarrow>
     (p, c) \<in> set files \<Longrightarrow> map_of fs p = None \<and> map_of fs' p = Some c"
proof (induction files arbitrary: fs)
  case (Cons f files)
  obtain q d where f: "f = (q, d)" by fastforce
  from Cons.prems(1) f obtain mid where mid: "write_file writable False (q, d) fs = (Inr (), mid)"
    and rest: "write_files writable False files mid = (Inr u, fs')"
    by (auto split: prod.splits sum.splits)
  from write_file_done [OF mid] have m: "map_of mid = (map_of fs)(q \<mapsto> d)" "map_of fs q = None" by auto
  show ?case
  proof (cases "(p, c) \<in> set files")
    case True
    then show ?thesis using Cons.IH [OF rest] Cons.prems(2) f m by (auto split: if_split_asm)
  next
    case False
    then have "p = q" "c = d" using Cons.prems(3) f by auto
    then show ?thesis using write_files_unforced [OF rest, of q d] m by simp
  qed
qed simp

lemma init_project_safe:
  assumes "init_project t writable dir False fs = (r, fs')"
  shows "map_of fs p = Some c \<Longrightarrow> map_of fs' p = Some c"
    and "is_ok r \<Longrightarrow> (p, c) \<in> set (project_files t dir) \<Longrightarrow> map_of fs p = None \<and> map_of fs' p = Some c"
proof -
  obtain x where x: "write_files writable False (project_files t dir) fs = (x, fs')" "r = rbind x (\<lambda>_. Inr dir)"
    using assms by (auto simp: init_project_def split: prod.splits)
  show "map_of fs p = Some c \<Longrightarrow> map_of fs' p = Some c" by (rule write_files_unforced [OF x(1)])
  show "map_of fs p = None \<and> map_of fs' p = Some c" if "is_ok r" "(p, c) \<in> set (project_files t dir)"
    using write_files_written [of writable "project_files t dir" fs "()" fs' p c] x that
    by (cases x) (simp_all add: project_files_def)
qed

text \<open>A refusal comes late: with a query file in the directory the other three are written before.\<close>

lemma init_stops_half_way:
  assumes "map_of fs (dir @ ''/query.json'') = Some c" and "\<And>p. writable p"
    and "\<And>p. p \<in> {''/graphnight.toml'', ''/graphnight_data/models.yaml'', ''/graphnight_data/datasources.yaml''} \<Longrightarrow>
      map_of fs (dir @ p) = None"
  shows "\<not> is_ok (fst (init_project t writable dir False fs))"
    and "map_of (snd (init_project t writable dir False fs)) (dir @ ''/graphnight.toml'') = Some (pt_config t)"
  using assms by (simp_all add: init_project_def project_files_def write_file_def update_conv')

subsection \<open>Commands\<close>

fun cli_changes :: "cli_command \<Rightarrow> bool" where
  "cli_changes (CliModel (ModelCreate _)) \<longleftrightarrow> True"
| "cli_changes (CliModel (ModelDelete _ _)) \<longleftrightarrow> True"
| "cli_changes (CliDatasource (DatasourceCreate _)) \<longleftrightarrow> True"
| "cli_changes (CliDatasource (DatasourceDelete _)) \<longleftrightarrow> True"
| "cli_changes (CliMemory (MemorySave _ _ _ _)) \<longleftrightarrow> True"
| "cli_changes (CliMemory (MemoryDelete _)) \<longleftrightarrow> True"
| "cli_changes _ \<longleftrightarrow> False"

lemma print_sql_store: "cs_store (snd (print_sql env st file)) = cs_store st"
  by (auto simp: print_sql_def split: prod.split sum.split)

lemma handle_query_store: "cs_store (snd (handle_query env now action st)) = cs_store st"
  by (auto simp: handle_query_def print_sql_store split: query_command.split prod.split sum.split)

text \<open>Only the six changing commands touch the store.\<close>

lemma cli_reads_keep_store:
  assumes "\<not> cli_changes command"
  shows "snd (cli_main env now command s) = s"
proof -
  have "cs_store (snd (cli_dispatch env now command st)) = cs_store st" for st
    using assms
    by (cases command)
      (auto simp: cli_dispatch_def in_store_def handle_query_store print_sql_store handle_model_def handle_datasource_def
        handle_memory_def split: model_command.splits datasource_command.splits memory_command.splits prod.splits)
  then show ?thesis by (auto simp: cli_main_def split: sum.split prod.split) (metis cli_state.select_convs(1) snd_conv)
qed

text \<open>
  What a query of the command line executes is the statement generated for the query itself, on the stored
  datasource of the stored model that the query names: no policy is asked and no row is masked.
\<close>

lemma cli_query_runs_bare:
  assumes "handle_query env now (QueryRun file format) st = (Inr out, st')"
  obtains q name m ds sql en rows en' where
    "read_query env file = Inr q" "opt_or (q_name q) (map_option ss_model (q_source_model q)) = Some name"
    "bk_get_model (cl_backend env) (cs_store st) name None = Inr (Some m)"
    "bk_get_datasource (cl_backend env) (cs_store st) (mo_datasource m) = Inr (Some ds)"
    "generate_sql_text (cl_engine env) (cs_engine st) q = (Inr sql, en)"
    "engine_execute_sqlx (cl_engine env) now en ds sql = (Inr rows, en')"
    "format = ''table'' \<Longrightarrow> out = tab_table (el_json_text (cl_engine env)) rows"
  using assms
  by (auto simp: handle_query_def query_target_def branch_simps split: sum.splits prod.splits)

text \<open>
  The engine of the command line generates for PostgreSQL, whatever the driver of the datasource is: also
  for the SQLite datasource of the project that \<open>init\<close> writes.
\<close>

lemma cli_engine_is_servers: "cli_engine lib ms = server_engine lib ms"
  by (simp add: cli_engine_def server_engine_def)

lemma cli_speaks_postgres: "dialect_for (en_generator (es_engine (cli_engine lib ms))) name = Postgres"
  by (simp add: cli_engine_is_servers server_engine_dialect)

text \<open>A memory saved with no entities is linked to the entity without a name.\<close>

lemma saved_without_entities: "me_linked_entities (cli_memory env learning [] i description) = [[]]"
  by (simp add: cli_memory_def trim_def trim_start_def trim_end_def)

end
