(* ===== verification/Telemetry.thy ===== *)
theory Telemetry
  imports Security Complex_Main
begin

text \<open>
  Tracing (\<open>crates/graphnight-telemetry/src/lib.rs\<close>): the settings of the environment, the choice of the
  exporter and the sampler, and the life of the guard. The OpenTelemetry library and the reading of
  floats are parameters; what is not a finite number is kept apart.
\<close>

subsection \<open>Settings\<close>

datatype ratio = Finite rat | PlusInfinity | MinusInfinity | NotANumber

text \<open>\<open>f64::clamp(0.0, 1.0)\<close>\<close>

fun clamp_ratio :: "ratio \<Rightarrow> ratio" where
  "clamp_ratio (Finite x) = Finite (max 0 (min 1 x))"
| "clamp_ratio PlusInfinity = Finite 1"
| "clamp_ratio MinusInfinity = Finite 0"
| "clamp_ratio NotANumber = NotANumber"

fun ratio_at_least_one :: "ratio \<Rightarrow> bool" where
  "ratio_at_least_one (Finite x) \<longleftrightarrow> 1 \<le> x"
| "ratio_at_least_one PlusInfinity \<longleftrightarrow> True"
| "ratio_at_least_one _ \<longleftrightarrow> False"

record telemetry_config =
  tm_endpoint :: "string option"
  tm_service_name :: string
  tm_sample_ratio :: ratio
  tm_headers :: "(string \<times> string) list"

definition first_env :: "env \<Rightarrow> string list \<Rightarrow> string option" where
  "first_env env names =
     (case List.map_filter env names of
        [] \<Rightarrow> None
      | v # _ \<Rightarrow> if trim v = [] then None else Some (trim v))"

definition trim_quotes :: "string \<Rightarrow> string" where
  "trim_quotes s = rev (dropWhile (\<lambda>c. [c] = dquote) (rev (dropWhile (\<lambda>c. [c] = dquote) s)))"

definition header_of :: "string \<Rightarrow> (string \<times> string) option" where
  "header_of pair =
     (case split_once (CHR ''='') pair of
        None \<Rightarrow> None
      | Some (key, v) \<Rightarrow> if trim key = [] then None else Some (trim key, trim_quotes (trim v)))"

definition parse_headers :: "string option \<Rightarrow> (string \<times> string) list" where
  "parse_headers raw =
     (case raw of
        None \<Rightarrow> []
      | Some s \<Rightarrow> foldl (\<lambda>m (k, v). AList.update k v m) [] (List.map_filter header_of (split_on (CHR '','') s)))"

definition unless_blank :: "string option \<Rightarrow> string option" where
  "unless_blank v = (case v of Some s \<Rightarrow> if trim s = [] then None else Some s | None \<Rightarrow> None)"

definition telemetry_from_env :: "(string \<Rightarrow> ratio option) \<Rightarrow> env \<Rightarrow> string \<Rightarrow> telemetry_config" where
  "telemetry_from_env parse_f64 env default_service_name =
     \<lparr>tm_endpoint = unless_blank (first_env env
        [''GRAPHNIGHT_OTEL_EXPORTER_OTLP_ENDPOINT'', ''OTEL_EXPORTER_OTLP_ENDPOINT'']),
      tm_service_name = unwrap_or (unless_blank (first_env env
        [''GRAPHNIGHT_OTEL_SERVICE_NAME'', ''OTEL_SERVICE_NAME''])) default_service_name,
      tm_sample_ratio = unwrap_or (map_option clamp_ratio (Option.bind (first_env env
        [''GRAPHNIGHT_OTEL_TRACES_SAMPLER_ARG'', ''OTEL_TRACES_SAMPLER_ARG'']) (\<lambda>v. parse_f64 (trim v)))) (Finite 1),
      tm_headers = parse_headers (first_env env
        [''GRAPHNIGHT_OTEL_EXPORTER_OTLP_HEADERS'', ''OTEL_EXPORTER_OTLP_HEADERS''])\<rparr>"

definition telemetry_enabled :: "telemetry_config \<Rightarrow> bool" where
  "telemetry_enabled c \<longleftrightarrow> tm_endpoint c \<noteq> None"

subsection \<open>The guard\<close>

text \<open>Whether there is a provider, whether it was shut down, and the calls it got.\<close>

datatype provider_call = ForceFlush | ShutdownWithTimeout

record telemetry_guard =
  tg_provider :: bool
  tg_shut_down :: bool
  tg_calls :: "provider_call list"

definition no_telemetry :: telemetry_guard where
  "no_telemetry = \<lparr>tg_provider = False, tg_shut_down = False, tg_calls = []\<rparr>"

definition guard_flush :: "telemetry_guard \<Rightarrow> telemetry_guard" where
  "guard_flush g =
     (if tg_shut_down g then g
      else if tg_provider g then g\<lparr>tg_calls := tg_calls g @ [ForceFlush]\<rparr> else g)"

definition guard_shutdown :: "telemetry_guard \<Rightarrow> telemetry_guard" where
  "guard_shutdown g =
     (let g' = g\<lparr>tg_shut_down := True\<rparr> in
      if tg_provider g' then g'\<lparr>tg_calls := tg_calls g' @ [ShutdownWithTimeout]\<rparr> else g')"

definition guard_drop :: "telemetry_guard \<Rightarrow> telemetry_guard" where
  "guard_drop g = guard_flush g"

subsection \<open>Installation\<close>

datatype sampler = AlwaysOn | ParentBasedRatio ratio

text \<open>
  What is installed: logs alone, or with an exporter to an endpoint, its headers, sampler and service name.
  Building the exporter and installing the subscriber can fail.
\<close>

datatype installed = LogsOnly | Exporting string "(string \<times> string) list" sampler string

definition telemetry_init ::
    "(string \<Rightarrow> (string \<times> string) list \<Rightarrow> string option) \<Rightarrow> string option \<Rightarrow> telemetry_config
      \<Rightarrow> string + installed \<times> telemetry_guard" where
  "telemetry_init exporter_error install_error c =
     (let install = (\<lambda>r. case install_error of
                       Some e \<Rightarrow> Inl (''failed to install tracing subscriber: '' @ e) | None \<Rightarrow> Inr r)
      in case tm_endpoint c of
           None \<Rightarrow> install (LogsOnly, no_telemetry)
         | Some endpoint \<Rightarrow>
             (case exporter_error endpoint (tm_headers c) of
                Some e \<Rightarrow> Inl (''invalid OTLP endpoint '' @ endpoint @ '': '' @ e)
              | None \<Rightarrow>
                  install
                    (Exporting endpoint (tm_headers c)
                       (if ratio_at_least_one (tm_sample_ratio c) then AlwaysOn else ParentBasedRatio (tm_sample_ratio c))
                       (tm_service_name c),
                     no_telemetry\<lparr>tg_provider := True\<rparr>)))"

text \<open>A failure leaves plain logs, if those can be installed, and a guard without a provider.\<close>

definition telemetry_init_from_env ::
    "(string \<Rightarrow> ratio option) \<Rightarrow> (string \<Rightarrow> (string \<times> string) list \<Rightarrow> string option) \<Rightarrow> string option \<Rightarrow> env \<Rightarrow> string
      \<Rightarrow> installed option \<times> telemetry_guard" where
  "telemetry_init_from_env parse_f64 exporter_error install_error env default_service_name =
     (case telemetry_init exporter_error install_error (telemetry_from_env parse_f64 env default_service_name) of
        Inr (i, g) \<Rightarrow> (Some i, g)
      | Inl _ \<Rightarrow> (if install_error = None then Some LogsOnly else None, no_telemetry))"

datatype dotenv_result = DotenvLoaded | DotenvMissing | DotenvFailed string

fun load_dotenv :: "dotenv_result \<Rightarrow> string + unit" where
  "load_dotenv DotenvLoaded = Inr ()"
| "load_dotenv DotenvMissing = Inr ()"
| "load_dotenv (DotenvFailed e) = Inl (''failed to read .env: '' @ e)"

subsection \<open>Properties\<close>

text \<open>
  The first variable that is set decides, not the first that is not blank: a blank variable of its own
  hides the standard one.
\<close>

lemma blank_variable_hides:
  "env a = Some v \<Longrightarrow> trim v = [] \<Longrightarrow> first_env env (a # names) = None"
  by (simp add: first_env_def List.map_filter_simps)

lemma blank_endpoint_disables:
  "env ''GRAPHNIGHT_OTEL_EXPORTER_OTLP_ENDPOINT'' = Some '' '' \<Longrightarrow>
     \<not> telemetry_enabled (telemetry_from_env parse_f64 env name)"
  by (simp add: telemetry_enabled_def telemetry_from_env_def unless_blank_def
      blank_variable_hides [where v = "'' ''"] trim_def trim_start_def trim_end_def is_space_def byte_def)

text \<open>The guard against ratios outside of the unit interval lets through what is not a number.\<close>

lemma sample_ratio_bounds:
  "tm_sample_ratio (telemetry_from_env parse_f64 env name) = Finite x \<Longrightarrow> 0 \<le> x \<and> x \<le> 1"
proof -
  have "clamp_ratio r = Finite x \<Longrightarrow> 0 \<le> x \<and> x \<le> 1" for r by (cases r) auto
  then show "tm_sample_ratio (telemetry_from_env parse_f64 env name) = Finite x \<Longrightarrow> 0 \<le> x \<and> x \<le> 1"
    by (auto simp: telemetry_from_env_def unwrap_or_def split: option.splits)
qed

lemma nan_ratio_passes:
  "first_env env [''GRAPHNIGHT_OTEL_TRACES_SAMPLER_ARG'', ''OTEL_TRACES_SAMPLER_ARG''] = Some v \<Longrightarrow>
     parse_f64 (trim v) = Some NotANumber \<Longrightarrow>
     tm_sample_ratio (telemetry_from_env parse_f64 env name) = NotANumber"
  by (simp add: telemetry_from_env_def unwrap_or_def)

text \<open>
  Whatever is flushed, dropped and shut down in whatever order, a provider is flushed only before it is
  shut down, and a guard without a provider does nothing at all.
\<close>

inductive guard_run :: "telemetry_guard \<Rightarrow> telemetry_guard \<Rightarrow> bool" where
  idle: "guard_run g g"
| flush: "guard_run g h \<Longrightarrow> guard_run g (guard_flush h)"
| shutdown: "guard_run g h \<Longrightarrow> guard_run g (guard_shutdown h)"
| drop: "guard_run g h \<Longrightarrow> guard_run g (guard_drop h)"

definition flushes_first :: "telemetry_guard \<Rightarrow> bool" where
  "flushes_first g \<longleftrightarrow> (\<not> tg_provider g \<longrightarrow> tg_calls g = []) \<and>
     (\<exists>fs ss. tg_calls g = fs @ ss \<and> set fs \<subseteq> {ForceFlush} \<and> set ss \<subseteq> {ShutdownWithTimeout} \<and>
       (\<not> tg_shut_down g \<longrightarrow> ss = []))"

lemma flushes_first_flush: "flushes_first h \<Longrightarrow> flushes_first (guard_flush h)"
  unfolding flushes_first_def guard_flush_def by (auto intro: exI [of _ "_ @ [ForceFlush]"])

lemma flushes_first_shutdown:
  assumes "flushes_first h"
  shows "flushes_first (guard_shutdown h)"
proof -
  obtain fs ss where "tg_calls h = fs @ ss" "set fs \<subseteq> {ForceFlush}" "set ss \<subseteq> {ShutdownWithTimeout}"
    using assms by (auto simp: flushes_first_def)
  then have "\<exists>fs ss. tg_calls h @ [ShutdownWithTimeout] = fs @ ss \<and> set fs \<subseteq> {ForceFlush} \<and> set ss \<subseteq> {ShutdownWithTimeout}"
    by (intro exI [of _ fs] exI [of _ "ss @ [ShutdownWithTimeout]"]) simp
  moreover have "\<exists>fs ss. tg_calls h = fs @ ss \<and> set fs \<subseteq> {ForceFlush} \<and> set ss \<subseteq> {ShutdownWithTimeout}"
    and "\<not> tg_provider h \<longrightarrow> tg_calls h = []"
    using assms by (auto simp: flushes_first_def)
  ultimately show ?thesis by (simp add: flushes_first_def guard_shutdown_def Let_def)
qed

lemma no_flush_after_shutdown:
  assumes "guard_run g h" and "tg_calls g = []"
  shows "flushes_first h"
  using assms
proof induction
  case (idle g)
  then show ?case by (simp add: flushes_first_def)
qed (simp_all add: guard_drop_def flushes_first_flush flushes_first_shutdown)

end
