(* ===== verification/Importers.thy ===== *)
theory Importers
  imports Models "HOL-Library.Multiset"
begin

text \<open>
  Importing models from other tools (\<open>crates/graphnight-core/src/importers.rs\<close>): Cube schemas, which
  carry measures of their own, and dbt manifests, which declare them in a metadata block.

  Reading YAML or JSON into the structures is derived code over \<open>serde\<close> and a parameter. A hash map is
  an association list with distinct keys. A warning is a value that holds what its text interpolates.
\<close>

subsection \<open>The report\<close>

datatype import_warning =
    CaseCollision string string string
  | NotAnAggregate string string string
  | NoSuchAggregation string string string
  | NotAPlainColumn string string string
  | AggregationUndetermined string string string
  | DimensionIsExpression string string string
  | UnreadableJoin string string
  | NoMeasures string
  | OverrideNotNeeded string
  | DanglingJoin string string
  | DimensionsOnly string
  | IncompleteEntry string json
  | RefusedAggregation string string parse_error

record import_report =
  ir_models :: "model list"
  ir_warnings :: "import_warning list"
  ir_skipped :: "string list"

definition is_plain_column :: "string \<Rightarrow> bool" where
  "is_plain_column text =
     (let expr = trim text in
      expr = ''*'' \<or>
      (expr \<noteq> [] \<and> list_all (\<lambda>part. part \<noteq> [] \<and> list_all is_word part) (split_on (CHR ''.'') expr)))"

text \<open>Every field whose lower-case form was seen before, with the latest such field.\<close>

fun case_collisions :: "string \<Rightarrow> (string \<Rightarrow> string option) \<Rightarrow> string list \<Rightarrow> import_warning list" where
  "case_collisions name seen [] = []"
| "case_collisions name seen (field # rest) =
     (case seen (to_lower field) of Some first \<Rightarrow> [CaseCollision name first field] | None \<Rightarrow> [])
       @ case_collisions name (seen(to_lower field \<mapsto> field)) rest"

definition warn_on_case_collisions :: "string \<Rightarrow> string list \<Rightarrow> import_warning list" where
  "warn_on_case_collisions name names = case_collisions name Map.empty names"

subsection \<open>Cube\<close>

record cube_measure =
  cm_name :: string
  cm_title :: "string option"
  cm_sql :: "json option"
  cm_type :: "string option"

record cube_dimension =
  cd_name :: string
  cd_title :: "string option"
  cd_sql :: "json option"
  cd_type :: "string option"

record cube_join =
  cj_name :: string
  cj_sql :: "json option"
  cj_relationship :: "string option"

record cube =
  cu_name :: string
  cu_title :: "string option"
  cu_description :: "string option"
  cu_sql_table :: "json option"
  cu_measures :: "cube_measure list"
  cu_dimensions :: "cube_dimension list"
  cu_joins :: "cube_join list"

definition json_field :: "json \<Rightarrow> string \<Rightarrow> string option" where
  "json_field v key =
     (case v of
        JObject m \<Rightarrow> (case map_of m key of Some (JString s) \<Rightarrow> Some s | _ \<Rightarrow> None)
      | _ \<Rightarrow> None)"

definition cube_sql :: "json option \<Rightarrow> string option" where
  "cube_sql v =
     (case v of
        Some (JString s) \<Rightarrow> Some s
      | Some (JObject m) \<Rightarrow> json_field (JObject m) ''sql''
      | _ \<Rightarrow> None)"

text \<open>\<open>sum(amount)\<close> as the name and what stands between the first and the last parenthesis.\<close>

definition split_aggregate :: "string \<Rightarrow> (string \<times> string option) option" where
  "split_aggregate sql =
     (case split_once (CHR ''('') (trim sql) of
        None \<Rightarrow> None
      | Some (before, rest) \<Rightarrow>
          let name = trim before in
          if name = [] \<or> \<not> list_all is_word name then None
          else (case rsplit_once (CHR '')'') rest of
                  None \<Rightarrow> None
                | Some (between, after) \<Rightarrow>
                    let inner = trim between in
                    Some (name, if inner = [] then None else Some inner)))"

definition has_type :: "string option \<Rightarrow> string \<Rightarrow> bool" where
  "has_type declared text = (case declared of Some t \<Rightarrow> eq_ignore_case t text | None \<Rightarrow> False)"

definition cube_measure_to_measure :: "cube_measure \<Rightarrow> string \<Rightarrow> measure option \<times> import_warning list" where
  "cube_measure_to_measure raw model =
     (let sql = unwrap_or (cube_sql (cm_sql raw)) (cm_name raw);
          formula = (\<lambda>text. \<lparr>f_expression = text, f_label = opt_or (cm_title raw) (Some (cm_name raw)), f_format = None\<rparr>)
      in if has_type (cm_type raw) ''count'' then (Some (measure_new (formula ''*'') Count), [])
         else (case split_aggregate sql of
                 None \<Rightarrow> (None, [NotAnAggregate model (cm_name raw) sql])
               | Some (func, inner) \<Rightarrow>
                   (case aggregation_parse_strict func of
                      Inl _ \<Rightarrow> (None, [NoSuchAggregation model (cm_name raw) func])
                    | Inr aggregation \<Rightarrow>
                        (case inner of
                           Some text \<Rightarrow>
                             (Some (measure_new (formula text) aggregation),
                              if is_plain_column text then [] else [NotAPlainColumn model (cm_name raw) text])
                         | None \<Rightarrow>
                             (case Option.bind (cm_type raw) (\<lambda>t. case aggregation_parse_strict t of
                                      Inl _ \<Rightarrow> None | Inr agg \<Rightarrow> Some agg) of
                                Some agg \<Rightarrow> (Some (measure_new (formula sql) agg), [])
                              | None \<Rightarrow> (None, [AggregationUndetermined model (cm_name raw) sql]))))))"

definition cube_dimension_to_dimension :: "cube_dimension \<Rightarrow> string \<Rightarrow> dimension option \<times> import_warning list" where
  "cube_dimension_to_dimension raw model =
     (if has_type (cd_type raw) ''time'' then None else Some \<lparr>d_name = cd_name raw, d_label = cd_title raw\<rparr>,
      case cube_sql (cd_sql raw) of
        Some sql \<Rightarrow>
          if sql \<noteq> cd_name raw \<and> \<not> str_contains (cd_name raw) sql
          then [DimensionIsExpression model (cd_name raw) sql] else []
      | None \<Rightarrow> [])"

text \<open>\<open>s.replace(p, "")\<close> for a text that is not empty, and \<open>s.trim_matches(c)\<close>.\<close>

definition remove_text :: "string \<Rightarrow> string \<Rightarrow> string" where
  "remove_text p s = concat (split_str p s)"

definition trim_matches :: "char \<Rightarrow> string \<Rightarrow> string" where
  "trim_matches c s = rev (dropWhile (\<lambda>x. x = c) (rev (dropWhile (\<lambda>x. x = c) s)))"

definition clean_join_side :: "string \<Rightarrow> string \<Rightarrow> string" where
  "clean_join_side text name =
     (let side = trim (trim_matches (CHR 0x22) (trim text));
          side = remove_text ''${CUBE}'' side;
          side = remove_text ''{CUBE}'' side;
          side = remove_text (''${'' @ name @ ''}'') side;
          side = remove_text (''{'' @ name @ ''}'') side;
          side = unwrap_or (strip_prefix ''.'' side) side;
          side = last (split_on (CHR ''.'') side)
      in trim side)"

definition cube_join_to_join :: "cube_join \<Rightarrow> join_def option \<times> import_warning list" where
  "cube_join_to_join raw =
     (case cube_sql (cj_sql raw) of
        None \<Rightarrow> (None, [])
      | Some sql \<Rightarrow>
          (case split_once (CHR ''='') sql of
             None \<Rightarrow> (None, [])
           | Some (l, r) \<Rightarrow>
               let left = clean_join_side l (cj_name raw); right = clean_join_side r (cj_name raw) in
               if left = [] \<or> right = [] then (None, [UnreadableJoin (cj_name raw) sql])
               else (Some \<lparr>jn_name = cj_name raw, jn_model = [],
                       jn_type = (if str_contains ''one_to_one'' (unwrap_or (cj_relationship raw) ''many_to_one'')
                                  then Inner else Left),
                       jn_on = [(left, right)], jn_alias = None\<rparr>, [])))"

text \<open>What the conversions of a list keep, and what they warn of, in order.\<close>

definition collect_some :: "('a \<Rightarrow> 'b option \<times> import_warning list) \<Rightarrow> 'a list \<Rightarrow> 'b list \<times> import_warning list" where
  "collect_some f xs = (List.map_filter (fst \<circ> f) xs, concat (map (snd \<circ> f) xs))"

definition cube_time_dimensions :: "cube \<Rightarrow> time_dimension list" where
  "cube_time_dimensions c =
     map (\<lambda>raw. \<lparr>td_dimension = cd_name raw, td_granularity = Day, td_label = cd_title raw\<rparr>)
       (filter (\<lambda>raw. has_type (cd_type raw) ''time'') (cu_dimensions c))"

definition join_target :: "join_def \<Rightarrow> join_def" where
  "join_target j = (if jn_model j = [] then j\<lparr>jn_model := jn_name j\<rparr> else j)"

definition import_one_cube :: "string \<Rightarrow> cube \<Rightarrow> model \<times> import_warning list" where
  "import_one_cube datasource c =
     (let (measures, w1) = collect_some (\<lambda>raw. cube_measure_to_measure raw (cu_name c)) (cu_measures c);
          (dimensions, w2) = collect_some (\<lambda>raw. cube_dimension_to_dimension raw (cu_name c))
             (filter (\<lambda>raw. \<not> has_type (cd_type raw) ''time'') (cu_dimensions c));
          (joins, w3) = collect_some cube_join_to_join (cu_joins c);
          times = cube_time_dimensions c;
          w4 = (if measures = [] then [NoMeasures (cu_name c)] else []);
          w5 = warn_on_case_collisions (cu_name c) (map d_name dimensions @ map td_dimension times);
          table = cube_sql (cu_sql_table c);
          sql = (case table of
                   Some t \<Rightarrow> if \<not> eq_ignore_case t (cu_name c) then Some (''SELECT * FROM '' @ t) else None
                 | None \<Rightarrow> None);
          w6 = (if table \<noteq> None \<and> sql = None then [OverrideNotNeeded (cu_name c)] else [])
      in (\<lparr>mo_name = cu_name c, mo_datasource = datasource,
           mo_description = opt_or (cu_description c) (cu_title c), mo_measures = measures,
           mo_dimensions = dimensions, mo_time_dimensions = times, mo_joins = map join_target joins,
           mo_sql = sql, mo_meta = []\<rparr>,
          w1 @ w2 @ w3 @ w4 @ w5 @ w6))"

definition warn_about_dangling_joins :: "model list \<Rightarrow> import_warning list" where
  "warn_about_dangling_joins ms =
     concat (map (\<lambda>m. List.map_filter (\<lambda>j. if jn_model j \<notin> mo_name ` set ms
                                            then Some (DanglingJoin (jn_model j) (mo_name m)) else None) (mo_joins m)) ms)"

definition import_cubes :: "string \<Rightarrow> cube list \<Rightarrow> import_report" where
  "import_cubes datasource cubes =
     (let converted = map (import_one_cube datasource) cubes; ms = map fst converted in
      \<lparr>ir_models = ms, ir_warnings = concat (map snd converted) @ warn_about_dangling_joins ms, ir_skipped = []\<rparr>)"

definition import_cube_str :: "(string \<Rightarrow> 'e + cube list) \<Rightarrow> string \<Rightarrow> string \<Rightarrow> 'e + import_report" where
  "import_cube_str from_yaml text datasource = rbind (from_yaml text) (\<lambda>cubes. Inr (import_cubes datasource cubes))"

subsection \<open>dbt\<close>

record dbt_column =
  dc_name :: "string option"
  dc_description :: "string option"
  dc_data_type :: "string option"

record dbt_config =
  df_materialized :: "string option"
  df_enabled :: "bool option"
  df_meta :: "(string \<times> json) list"

record dbt_node =
  dn_name :: string
  dn_resource_type :: string
  dn_description :: "string option"
  dn_columns :: "(string \<times> dbt_column) list"
  dn_meta :: "(string \<times> json) list"
  dn_config :: dbt_config

definition measures_meta :: "dbt_node \<Rightarrow> json option" where
  "measures_meta node =
     opt_or (map_of (df_meta (dn_config node)) ''graphnight_measures'') (map_of (dn_meta node) ''graphnight_measures'')"

definition declared_measure :: "dbt_node \<Rightarrow> json \<Rightarrow> measure option \<times> import_warning list" where
  "declared_measure node item =
     (case (json_field item ''name'', json_field item ''column'', json_field item ''aggregation'') of
        (Some name, Some column, Some text) \<Rightarrow>
          (case aggregation_parse_strict text of
             Inl e \<Rightarrow> (None, [RefusedAggregation (dn_name node) name e])
           | Inr aggregation \<Rightarrow>
               (Some (measure_new
                  \<lparr>f_expression = column, f_label = opt_or (json_field item ''label'') (Some name),
                   f_format = json_field item ''format''\<rparr> aggregation), []))
      | _ \<Rightarrow> (None, [IncompleteEntry (dn_name node) item]))"

definition dbt_measures :: "dbt_node \<Rightarrow> measure list \<times> import_warning list" where
  "dbt_measures node =
     (case measures_meta node of
        Some (JArray items) \<Rightarrow> collect_some (declared_measure node) items
      | _ \<Rightarrow> ([], []))"

definition is_time_column :: "string \<Rightarrow> string option \<Rightarrow> bool" where
  "is_time_column column data_type =
     (let name = to_lower column in
      list_ex (\<lambda>suffix. ends_with suffix name)
        [''_at'', ''_date'', ''_time'', ''_ts'', ''_timestamp'', ''_day'', ''_month'', ''_year''] \<or>
      name \<in> set [''date'', ''time'', ''timestamp'', ''day'', ''month'', ''year'', ''created'', ''updated''] \<or>
      (case data_type of
         Some text \<Rightarrow>
           let t = to_lower text in str_contains ''timestamp'' t \<or> str_contains ''date'' t \<or> str_contains ''datetime'' t
       | None \<Rightarrow> False))"

text \<open>The entries of a hash map in the order of their keys.\<close>

definition by_key :: "(string \<times> 'v) list \<Rightarrow> (string \<times> 'v) list" where
  "by_key m = map (\<lambda>k. (k, the (map_of m k))) (sort (map fst m))"

definition column_name :: "string \<times> dbt_column \<Rightarrow> string" where
  "column_name = (\<lambda>(i, c). unwrap_or (dc_name c) i)"

definition is_time_entry :: "string \<times> dbt_column \<Rightarrow> bool" where
  "is_time_entry e = is_time_column (column_name e) (dc_data_type (snd e))"

definition import_node :: "string \<Rightarrow> dbt_node \<Rightarrow> model \<times> import_warning list" where
  "import_node datasource node =
     (let columns = by_key (dn_columns node); (measures, w1) = dbt_measures node in
      (\<lparr>mo_name = dn_name node, mo_datasource = datasource, mo_description = dn_description node,
        mo_measures = measures,
        mo_dimensions = map (\<lambda>e. \<lparr>d_name = column_name e, d_label = dc_description (snd e)\<rparr>)
          (filter (\<lambda>e. \<not> is_time_entry e) columns),
        mo_time_dimensions = map (\<lambda>e. \<lparr>td_dimension = column_name e, td_granularity = Day,
            td_label = dc_description (snd e)\<rparr>) (filter is_time_entry columns),
        mo_joins = [], mo_sql = None, mo_meta = []\<rparr>,
       w1 @ (if measures = [] then [DimensionsOnly (dn_name node)] else [])
          @ warn_on_case_collisions (dn_name node) (map column_name columns)))"

definition add_node :: "string \<Rightarrow> dbt_node \<Rightarrow> import_report \<Rightarrow> import_report" where
  "add_node datasource node report =
     (if dn_resource_type node \<noteq> ''model'' then report
      else if df_enabled (dn_config node) = Some False
      then report\<lparr>ir_skipped := ir_skipped report @ [dn_name node @ '' (disabled)'']\<rparr>
      else if df_materialized (dn_config node) = Some ''ephemeral''
      then report\<lparr>ir_skipped := ir_skipped report @ [dn_name node @ '' (ephemeral)'']\<rparr>
      else (case import_node datasource node of
              (m, ws) \<Rightarrow> report\<lparr>ir_models := ir_models report @ [m], ir_warnings := ir_warnings report @ ws\<rparr>))"

definition import_manifest :: "string \<Rightarrow> (string \<times> dbt_node) list \<Rightarrow> import_report" where
  "import_manifest datasource nodes =
     fold (\<lambda>(i, node). add_node datasource node) (by_key nodes)
       \<lparr>ir_models = [], ir_warnings = [], ir_skipped = []\<rparr>"

definition import_dbt_str ::
    "(string \<Rightarrow> 'e + (string \<times> dbt_node) list) \<Rightarrow> string \<Rightarrow> string \<Rightarrow> 'e + import_report" where
  "import_dbt_str from_json text datasource = rbind (from_json text) (\<lambda>nodes. Inr (import_manifest datasource nodes))"

subsection \<open>What a Cube schema becomes\<close>

text \<open>The function of an aggregation, as it reaches a statement, carries no SQL.\<close>

definition safe_aggregation :: "aggregation_type \<Rightarrow> bool" where
  "safe_aggregation a \<longleftrightarrow> a = CountDistinct \<or> dotted_identifier (sql_function a)"

definition import_measure_ok :: "measure \<Rightarrow> bool" where
  "import_measure_ok m \<longleftrightarrow>
     safe_aggregation (m_aggregation m) \<and> f_label (m_formula m) \<noteq> None \<and> f_format (m_formula m) = None"

definition bare_name :: "string \<Rightarrow> bool" where
  "bare_name s \<longleftrightarrow> s \<noteq> [] \<and> CHR ''.'' \<notin> set s"

definition import_join_ok :: "join_def \<Rightarrow> bool" where
  "import_join_ok j \<longleftrightarrow>
     jn_model j = jn_name j \<and> jn_type j \<in> {Inner, Left} \<and> jn_alias j = None \<and>
     (case jn_on j of [(l, r)] \<Rightarrow> bare_name l \<and> bare_name r | _ \<Rightarrow> False)"

definition cube_model_ok :: "string \<Rightarrow> cube \<Rightarrow> model \<Rightarrow> bool" where
  "cube_model_ok datasource c m \<longleftrightarrow>
     mo_name m = cu_name c \<and> mo_datasource m = datasource \<and>
     mset (map d_name (mo_dimensions m) @ map td_dimension (mo_time_dimensions m)) = mset (map cd_name (cu_dimensions c)) \<and>
     list_all (\<lambda>t. td_granularity t = Day) (mo_time_dimensions m) \<and>
     list_all import_measure_ok (mo_measures m) \<and> list_all import_join_ok (mo_joins m)"

lemma parse_strict_safe: "aggregation_parse_strict s = Inr a \<Longrightarrow> safe_aggregation a"
  using aggregation_parse_strict_safe by (auto simp: safe_aggregation_def)

lemma opt_or_Some [simp]: "opt_or a (Some b) \<noteq> None"
  by (simp add: opt_or_def split: option.split)

lemma cube_measure_ok: "fst (cube_measure_to_measure raw model) = Some m \<Longrightarrow> import_measure_ok m"
proof -
  have "safe_aggregation Count" by code_simp
  then show "fst (cube_measure_to_measure raw model) = Some m \<Longrightarrow> import_measure_ok m"
    by (auto simp: cube_measure_to_measure_def Let_def import_measure_ok_def measure_new_def opt_or_def
        dest: parse_strict_safe
        split: if_split_asm option.splits prod.splits sum.splits bind_split_asm)
qed

lemma clean_join_side_no_dot: "CHR ''.'' \<notin> set (clean_join_side text name)"
proof -
  have "last (split_on (CHR ''.'') s) \<in> set (split_on (CHR ''.'') s)" for s by simp
  then have "CHR ''.'' \<notin> set (last (split_on (CHR ''.'') s))" for s by (rule split_on_sep_free)
  then show ?thesis using set_trim by (fastforce simp: clean_join_side_def Let_def)
qed

lemma cube_join_ok: "fst (cube_join_to_join raw) = Some j \<Longrightarrow> import_join_ok (join_target j)"
  by (auto simp: cube_join_to_join_def Let_def import_join_ok_def join_target_def bare_name_def clean_join_side_no_dot
      split: option.splits prod.splits if_split_asm)

lemma cube_dimension_some:
  "\<not> has_type (cd_type raw) ''time'' \<Longrightarrow>
     fst (cube_dimension_to_dimension raw model) = Some \<lparr>d_name = cd_name raw, d_label = cd_title raw\<rparr>"
  by (simp add: cube_dimension_to_dimension_def)

lemma import_one_cube_ok: "cube_model_ok datasource c (fst (import_one_cube datasource c))"
proof -
  let ?timed = "\<lambda>raw. has_type (cd_type raw) ''time''"
  have dims: "List.map_filter (\<lambda>raw. fst (cube_dimension_to_dimension raw (cu_name c)))
        (filter (\<lambda>raw. \<not> ?timed raw) (cu_dimensions c)) =
      map (\<lambda>raw. \<lparr>d_name = cd_name raw, d_label = cd_title raw\<rparr>) (filter (\<lambda>raw. \<not> ?timed raw) (cu_dimensions c))"
    by (rule map_filter_map) (simp add: cube_dimension_some)
  have "image_mset cd_name (filter_mset (\<lambda>raw. \<not> ?timed raw) (mset (cu_dimensions c))) +
      image_mset cd_name (filter_mset ?timed (mset (cu_dimensions c))) = image_mset cd_name (mset (cu_dimensions c))"
    by (metis image_mset_union multiset_partition union_commute)
  then show ?thesis
    by (auto simp: cube_model_ok_def import_one_cube_def collect_some_def Let_def dims cube_time_dimensions_def
        list_all_iff set_map_filter comp_def mset_filter
        intro: cube_measure_ok cube_join_ok)
qed

text \<open>
  C38. Every cube becomes one model of its name on the given datasource: its dimensions are split into
  dimensions and daily time dimensions without loss, its measures have labels and aggregations
  that carry no SQL, and its joins are inner or left joins on one pair of unqualified columns to
  the model they are named after.
\<close>

theorem imported_cubes_typed:
  "list_all2 (cube_model_ok datasource) cubes (ir_models (import_cubes datasource cubes))"
  by (simp add: import_cubes_def Let_def list_all2_conv_all_nth import_one_cube_ok)

text \<open>
  A measure that is not a call is dropped, whatever type it declares: \<open>sql: amount\<close> with \<open>type: sum\<close>
  has no parenthesis, so the fallback to the type is out of reach.
\<close>

lemma typed_column_dropped:
  assumes "cm_sql raw = Some (JString sql)" and "CHR ''('' \<notin> set sql" and "\<not> has_type (cm_type raw) ''count''"
  shows "cube_measure_to_measure raw model = (None, [NotAnAggregate model (cm_name raw) sql])"
proof -
  have "CHR ''('' \<notin> set (trim sql)" using assms(2) set_trim by blast
  then show ?thesis
    using assms by (simp add: cube_measure_to_measure_def cube_sql_def split_aggregate_def split_once_def unwrap_or_def)
qed

text \<open>Any function passes as an aggregation, and the fallback turns an empty call into a column.\<close>

lemma any_call_is_an_aggregation:
  "cube_measure_to_measure \<lparr>cm_name = ''n'', cm_title = None, cm_sql = Some (JString ''coalesce(a, b)''), cm_type = None\<rparr> ''m'' =
     (Some (measure_new \<lparr>f_expression = ''a, b'', f_label = Some ''n'', f_format = None\<rparr> (Custom ''coalesce'')),
      [NotAPlainColumn ''m'' ''n'' ''a, b''])"
  "fst (cube_measure_to_measure \<lparr>cm_name = ''n'', cm_title = None, cm_sql = Some (JString ''sum()''), cm_type = Some ''avg''\<rparr> ''m'') =
     Some (measure_new \<lparr>f_expression = ''sum()'', f_label = Some ''n'', f_format = None\<rparr> Avg)"
  by code_simp+

text \<open>Exactly the joins without a target among the models of the file are reported.\<close>

lemma dangling_joins_reported:
  "DanglingJoin target name \<in> set (warn_about_dangling_joins ms) \<longleftrightarrow>
     (\<exists>m \<in> set ms. \<exists>j \<in> set (mo_joins m). name = mo_name m \<and> target = jn_model j \<and> target \<notin> mo_name ` set ms)"
  by (auto simp: warn_about_dangling_joins_def set_map_filter split: if_split_asm)

subsection \<open>What a dbt manifest becomes\<close>

text \<open>Two manifests that hold the same, whatever the order of their hash maps.\<close>

definition same_node :: "dbt_node \<Rightarrow> dbt_node \<Rightarrow> bool" where
  "same_node a b \<longleftrightarrow>
     dn_name a = dn_name b \<and> dn_resource_type a = dn_resource_type b \<and> dn_description a = dn_description b \<and>
     distinct (map fst (dn_columns a)) \<and> distinct (map fst (dn_columns b)) \<and>
     map_of (dn_columns a) = map_of (dn_columns b) \<and> map_of (dn_meta a) = map_of (dn_meta b) \<and>
     df_materialized (dn_config a) = df_materialized (dn_config b) \<and>
     df_enabled (dn_config a) = df_enabled (dn_config b) \<and> map_of (df_meta (dn_config a)) = map_of (df_meta (dn_config b))"

definition same_manifest :: "(string \<times> dbt_node) list \<Rightarrow> (string \<times> dbt_node) list \<Rightarrow> bool" where
  "same_manifest ms ns \<longleftrightarrow>
     distinct (map fst ms) \<and> distinct (map fst ns) \<and>
     (\<forall>k. rel_option same_node (map_of ms k) (map_of ns k))"

lemma sorted_keys_eq:
  assumes "distinct (map fst m)" and "distinct (map fst n)" and "dom (map_of m) = dom (map_of n)"
  shows "sort (map fst m) = sort (map fst n)"
  using assms by (intro sorted_distinct_set_unique) (simp_all add: dom_map_of_conv_image_fst)

lemma by_key_eq:
  assumes "distinct (map fst m)" and "distinct (map fst n)" and "map_of m = map_of n"
  shows "by_key m = by_key n"
  using sorted_keys_eq [of m n] assms by (simp add: by_key_def)

lemma same_node_measures: "same_node a b \<Longrightarrow> dbt_measures a = dbt_measures b"
proof -
  assume s: "same_node a b"
  then have "declared_measure a = declared_measure b"
    by (auto simp: fun_eq_iff declared_measure_def same_node_def split: option.split sum.split)
  with s show ?thesis by (auto simp: dbt_measures_def measures_meta_def same_node_def split: option.split json.split)
qed

lemma same_node_import: "same_node a b \<Longrightarrow> import_node datasource a = import_node datasource b"
  using same_node_measures [of a b] by_key_eq [of "dn_columns a" "dn_columns b"]
  by (simp add: import_node_def same_node_def split_beta Let_def)

lemma same_node_add: "same_node a b \<Longrightarrow> add_node datasource a = add_node datasource b"
  using same_node_import [of a b datasource] by (auto simp: fun_eq_iff add_node_def same_node_def)

lemma import_manifest_keys:
  "import_manifest datasource nodes =
     fold (\<lambda>k. add_node datasource (the (map_of nodes k))) (sort (map fst nodes))
       \<lparr>ir_models = [], ir_warnings = [], ir_skipped = []\<rparr>"
  by (simp add: import_manifest_def by_key_def fold_map comp_def)

text \<open>
  C39. The import of a dbt manifest does not depend on the order in which its hash maps (the nodes, the
  columns, the metadata) happen to be iterated.
\<close>

theorem dbt_import_deterministic:
  assumes "same_manifest ms ns"
  shows "import_manifest datasource ms = import_manifest datasource ns"
proof -
  have rel: "rel_option same_node (map_of ms k) (map_of ns k)" for k
    using assms by (simp add: same_manifest_def)
  then have "map_of ms k = None \<longleftrightarrow> map_of ns k = None" for k
    using rel [of k] by (cases "map_of ms k"; cases "map_of ns k") simp_all
  then have "dom (map_of ms) = dom (map_of ns)" by (auto simp: dom_def)
  then have keys: "sort (map fst ms) = sort (map fst ns)"
    using assms by (intro sorted_keys_eq) (simp_all add: same_manifest_def)
  have "add_node datasource (the (map_of ms k)) = add_node datasource (the (map_of ns k))"
    if key: "k \<in> set (sort (map fst ms))" for k
  proof -
    obtain a where a: "map_of ms k = Some a" using key by (cases "map_of ms k") (auto simp: map_of_eq_None_iff)
    then obtain b where "map_of ns k = Some b" "same_node a b" using rel [of k] by (auto simp: option_rel_Some1)
    then show ?thesis using a same_node_add by simp
  qed
  then show ?thesis unfolding import_manifest_keys keys [symmetric] by (intro fold_cong) auto
qed

text \<open>Which nodes are imported, and what every node adds.\<close>

definition is_imported :: "dbt_node \<Rightarrow> bool" where
  "is_imported node \<longleftrightarrow>
     dn_resource_type node = ''model'' \<and> df_enabled (dn_config node) \<noteq> Some False \<and>
     df_materialized (dn_config node) \<noteq> Some ''ephemeral''"

lemma add_nodes_models:
  "ir_models (fold (\<lambda>(i, node). add_node datasource node) es report) =
     ir_models report @ map (\<lambda>(i, node). fst (import_node datasource node)) (filter (\<lambda>(i, node). is_imported node) es)"
proof (induction es arbitrary: report)
  case (Cons e es)
  obtain i node where e: "e = (i, node)" by fastforce
  have "ir_models (add_node datasource node report) =
      ir_models report @ (if is_imported node then [fst (import_node datasource node)] else [])"
    by (auto simp: add_node_def is_imported_def split: prod.split)
  then show ?case by (simp add: e Cons.IH)
qed simp

lemma set_by_key: "distinct (map fst m) \<Longrightarrow> set (by_key m) = set m"
  by (force simp: by_key_def)

lemma declared_measure_some:
  "fst (declared_measure node item) = Some x \<Longrightarrow>
     json_field item ''name'' \<noteq> None \<and> json_field item ''column'' = Some (f_expression (m_formula x)) \<and>
     (\<exists>text. json_field item ''aggregation'' = Some text \<and> aggregation_parse_strict text = Inr (m_aggregation x))"
  by (auto simp: declared_measure_def measure_new_def split: option.splits sum.splits)

text \<open>
  No measure of an imported dbt model is invented: it stands, with its column and its aggregation, in
  the list of measures that the model's node declares.
\<close>

lemma dbt_invents_no_measure:
  assumes "distinct (map fst nodes)" and "m \<in> set (ir_models (import_manifest datasource nodes))"
    and "x \<in> set (mo_measures m)"
  shows "\<exists>i node items item text. (i, node) \<in> set nodes \<and> is_imported node \<and> dn_name node = mo_name m \<and>
    measures_meta node = Some (JArray items) \<and> item \<in> set items \<and>
    json_field item ''column'' = Some (f_expression (m_formula x)) \<and>
    json_field item ''aggregation'' = Some text \<and> aggregation_parse_strict text = Inr (m_aggregation x)"
proof -
  from assms(1,2) obtain i node where n: "(i, node) \<in> set nodes" "is_imported node" "m = fst (import_node datasource node)"
    by (auto simp: import_manifest_def add_nodes_models set_by_key)
  then have "x \<in> set (fst (dbt_measures node))" and "dn_name node = mo_name m"
    using assms(3) by (auto simp: import_node_def Let_def split: prod.splits)
  moreover from this(1) obtain items item where
    "measures_meta node = Some (JArray items)" "item \<in> set items" "fst (declared_measure node item) = Some x"
    by (auto simp: dbt_measures_def collect_some_def set_map_filter split: option.splits json.splits)
  ultimately show ?thesis using n(1,2) declared_measure_some by blast
qed

text \<open>Every column becomes a dimension or a time dimension, once.\<close>

lemma columns_accounted:
  "mset (map d_name (mo_dimensions m) @ map td_dimension (mo_time_dimensions m)) = mset (map column_name (by_key (dn_columns node)))"
  if "m = fst (import_node datasource node)"
proof -
  have "image_mset column_name (filter_mset (\<lambda>e. \<not> is_time_entry e) M) + image_mset column_name (filter_mset is_time_entry M)
      = image_mset column_name M" for M
    by (metis image_mset_union multiset_partition union_commute)
  then show ?thesis
    using that by (simp add: import_node_def Let_def mset_filter comp_def multiset.map_comp split: prod.splits)
qed

subsection \<open>An example\<close>

definition sample_node :: "json list \<Rightarrow> (string \<times> dbt_column) list \<Rightarrow> dbt_node" where
  "sample_node items columns =
     \<lparr>dn_name = ''orders'', dn_resource_type = ''model'', dn_description = None, dn_columns = columns, dn_meta = [],
      dn_config = \<lparr>df_materialized = Some ''table'', df_enabled = None, df_meta = [(''graphnight_measures'', JArray items)]\<rparr>\<rparr>"

definition sample_column :: dbt_column where
  "sample_column = \<lparr>dc_name = None, dc_description = None, dc_data_type = None\<rparr>"

definition sample_item :: json where
  "sample_item = JObject [(''aggregation'', JString ''sum''), (''column'', JString ''amount''), (''name'', JString ''total'')]"

theorem dbt_import_deterministic_witness:
  "import_manifest ''main'' [(''a'', sample_node [sample_item] [(''id'', sample_column), (''created_at'', sample_column)]),
      (''b'', sample_node [] [])] =
   import_manifest ''main'' [(''b'', sample_node [] []),
      (''a'', sample_node [sample_item] [(''created_at'', sample_column), (''id'', sample_column)])]"
proof (rule dbt_import_deterministic)
  show "same_manifest [(''a'', sample_node [sample_item] [(''id'', sample_column), (''created_at'', sample_column)]),
      (''b'', sample_node [] [])]
    [(''b'', sample_node [] []),
      (''a'', sample_node [sample_item] [(''created_at'', sample_column), (''id'', sample_column)])]"
    by (auto simp: same_manifest_def same_node_def sample_node_def fun_eq_iff)
qed

lemma dbt_invents_no_measure_witness:
  "\<exists>m x. m \<in> set (ir_models (import_manifest ''main'' [(''a'', sample_node [sample_item] [])])) \<and> x \<in> set (mo_measures m) \<and>
     (\<exists>items item. measures_meta (sample_node [sample_item] []) = Some (JArray items) \<and> item \<in> set items \<and>
        json_field item ''column'' = Some (f_expression (m_formula x)))"
proof -
  let ?nodes = "[(''a'', sample_node [sample_item] [])]"
  let ?x = "measure_new \<lparr>f_expression = ''amount'', f_label = Some ''total'', f_format = None\<rparr> Sum"
  let ?m = "fst (import_node ''main'' (sample_node [sample_item] []))"
  have m: "?m \<in> set (ir_models (import_manifest ''main'' ?nodes))" and x: "?x \<in> set (mo_measures ?m)"
    by code_simp+
  have "distinct (map fst ?nodes)" by simp
  from dbt_invents_no_measure [OF this m x] show ?thesis using m x by auto
qed

end
