(* ===== verification/Node_Binding.thy ===== *)
theory Node_Binding
  imports Tool_Safety
begin

text \<open>
  The clients that are linked into another program: what they share, and the one for Node
  (\<open>crates/graphnight-node/src/lib.rs\<close>). Queries go through the query service, as an administrator without a
  policy; everything else goes to the YAML storage.

  The state is that of the tools, the storage and the generator of the engine, and the same environment
  gives the execution of statements, texts of errors, fresh identifiers and the time. Reading JSON is a parameter.
\<close>

subsection \<open>A client that is embedded\<close>

definition embedded_context :: "string \<Rightarrow> call_context" where
  "embedded_context who =
     \<lparr>cc_user_id = Some ''embedded'', cc_tenant_id = None, cc_is_admin = True, cc_auth_required = False,
      cc_policy = None, cc_principal_label = Some who\<rparr>"

text \<open>The first of the stored datasources, in the order of their hash map, gives the default dialect.\<close>

definition embedded_engine :: "data_source list \<Rightarrow> model list \<Rightarrow> sql_generator" where
  "embedded_engine dss ms =
     (let default_driver = (case dss of ds # _ \<Rightarrow> ds_driver ds | [] \<Rightarrow> ''postgres'') in
      with_models (with_datasources (generator_new (get_dialect default_driver)) dss) ms)"

definition embedded_new :: "yaml_disk \<Rightarrow> yaml_storage tool_state" where
  "embedded_new disk =
     (let storage = yaml_load (yaml_new disk) in
      \<lparr>sv_store = storage, sv_engine = embedded_engine (yaml_list_datasources storage) (yaml_list_models storage None)\<rparr>)"

datatype client_error =
    ClientParse parse_error
  | ClientService service_error
  | ClientStorage storage_error

type_synonym 'a client_result = "(client_error + 'a) \<times> yaml_storage tool_state"

definition client_execute ::
    "yaml_storage tool_env \<Rightarrow> string \<Rightarrow> yaml_storage tool_state \<Rightarrow> query \<Rightarrow> execute_options \<Rightarrow> client_error + query_outcome" where
  "client_execute env who sv q options =
     map_err ClientService (fst (execute_query (service_of env sv) (embedded_context who) q options))"

text \<open>A change of the storage that converts its result.\<close>

definition client_store ::
    "('a \<Rightarrow> 'b) \<Rightarrow> (storage_error + 'a) \<times> yaml_storage \<Rightarrow> yaml_storage tool_state \<Rightarrow> 'b client_result" where
  "client_store convert change sv =
     (case change of (x, s) \<Rightarrow> (rbind (map_err ClientStorage x) (\<lambda>v. Inr (convert v)), sv\<lparr>sv_store := s\<rparr>))"

text \<open>A model is stored and then made known to the engine.\<close>

definition client_create_model ::
    "yaml_storage tool_env \<Rightarrow> string \<Rightarrow> yaml_storage tool_state \<Rightarrow> model \<Rightarrow> model client_result" where
  "client_create_model env who sv m =
     (case bk_create_model (tl_backend env) (sv_store sv) m of
        (Inl e, s) \<Rightarrow> (Inl (ClientStorage e), sv\<lparr>sv_store := s\<rparr>)
      | (Inr created, s) \<Rightarrow>
          (case register_model_governed (embedded_context who) (sv_engine sv) created of
             Inl e \<Rightarrow> (Inl (ClientService e), sv\<lparr>sv_store := s\<rparr>)
           | Inr g \<Rightarrow> (Inr created, sv\<lparr>sv_store := s, sv_engine := g\<rparr>)))"

definition client_memory ::
    "yaml_storage tool_env \<Rightarrow> string \<Rightarrow> string list \<Rightarrow> string option \<Rightarrow> string option \<Rightarrow> memory" where
  "client_memory env learning linked_entities i description =
     \<lparr>me_id = unwrap_or i (tl_new_id env), me_learning = learning, me_linked_entities = linked_entities,
      me_description = description, me_created_at = tl_now env, me_updated_at = tl_now env, me_meta = []\<rparr>"

subsection \<open>Objects of Node\<close>

record node_measure =
  nm_formula :: formula
  nm_aggregation :: string

record node_time_dimension =
  nt_dimension :: string
  nt_granularity :: string
  nt_label :: "string option"

record node_filter =
  nf_field :: string
  nf_operator :: string
  nf_value :: "string option"
  nf_values :: "string list option"
  nf_or_condition :: "bool option"

record node_order_by =
  nb_field :: string
  nb_descending :: "bool option"

record node_query =
  nq_name :: "string option"
  nq_source_model :: "source_spec option"
  nq_measures :: "node_measure list"
  nq_dimensions :: "dimension list"
  nq_time_dimensions :: "node_time_dimension list"
  nq_filters :: "node_filter list"
  nq_order :: "node_order_by list"
  nq_limit :: "nat option"
  nq_offset :: "nat option"
  nq_whole_periods_only :: "bool option"
  nq_distinct_dimension_values :: "bool option"

record node_join =
  nj_name :: string
  nj_model :: string
  nj_join_type :: string
  nj_on :: "(string \<times> string) list"
  nj_alias :: "string option"

record node_model =
  no_name :: string
  no_datasource :: string
  no_description :: "string option"
  no_measures :: "node_measure list"
  no_dimensions :: "dimension list"
  no_time_dimensions :: "node_time_dimension list"
  no_joins :: "node_join list"

record node_data_source =
  nd_name :: string
  nd_driver :: string
  nd_connection_string :: string
  nd_description :: "string option"
  nd_models :: "string list"
  nd_pool_size :: "nat option"

record node_query_result =
  nr_data :: "json list"
  nr_columns :: "string list"
  nr_sql :: string
  nr_row_count :: nat

record node_model_summary =
  ns_name :: string
  ns_datasource :: string
  ns_description :: string
  ns_measures :: "string list"
  ns_dimensions :: "string list"
  ns_time_dimensions :: "string list"

record node_data_source_summary =
  nds_name :: string
  nds_driver :: string
  nds_description :: string
  nds_models :: "string list"
  nds_pool_size :: "nat option"

record node_memory_item =
  nmi_id :: string
  nmi_learning :: string
  nmi_linked_entities :: "string list"
  nmi_description :: "string option"
  nmi_created_at :: string
  nmi_updated_at :: string

subsection \<open>Conversions\<close>

definition node_parse_aggregation :: "string \<Rightarrow> aggregation_type" where
  "node_parse_aggregation s =
     (let l = to_lower s in
      if l = ''sum'' then Sum else if l = ''avg'' then Avg else if l = ''count'' then Count
      else if l = ''min'' then Min else if l = ''max'' then Max
      else if l = ''count_distinct'' then CountDistinct else Sum)"

definition node_parse_granularity :: "string \<Rightarrow> time_granularity" where
  "node_parse_granularity s =
     (let l = to_lower s in
      if l = ''second'' then Second else if l = ''minute'' then Minute else if l = ''hour'' then Hour
      else if l = ''day'' then Day else if l = ''week'' then Week else if l = ''month'' then Month
      else if l = ''quarter'' then Quarter else if l = ''year'' then Year else Day)"

definition node_parse_join_type :: "string \<Rightarrow> join_type" where
  "node_parse_join_type s =
     (let l = to_lower s in
      if l = ''inner'' then Inner else if l = ''left'' then Left else if l = ''right'' then Right
      else if l = ''full'' then Full else Inner)"

definition node_measure_to_core :: "node_measure \<Rightarrow> measure" where
  "node_measure_to_core m =
     \<lparr>m_formula = nm_formula m, m_aggregation = node_parse_aggregation (nm_aggregation m)\<rparr>"

definition node_time_dimension_to_core :: "node_time_dimension \<Rightarrow> time_dimension" where
  "node_time_dimension_to_core t =
     \<lparr>td_dimension = nt_dimension t, td_granularity = node_parse_granularity (nt_granularity t), td_label = nt_label t\<rparr>"

text \<open>The value is JSON text; what is not is taken as null.\<close>

definition node_filter_to_core :: "(string \<Rightarrow> json option) \<Rightarrow> node_filter \<Rightarrow> client_error + filter_cond" where
  "node_filter_to_core from_str f =
     (let v = unwrap_or (Option.bind (nf_value f) from_str) JNull in
      rbind (map_err ClientParse (operator_parse_strict (nf_operator f))) (\<lambda>op.
        Inr \<lparr>fl_field = nf_field f, fl_operator = op, fl_value = v, fl_or = unwrap_or (nf_or_condition f) False\<rparr>))"

definition node_convert_query :: "(string \<Rightarrow> json option) \<Rightarrow> node_query \<Rightarrow> client_error + query" where
  "node_convert_query from_str input =
     rbind (rmap (node_filter_to_core from_str) (nq_filters input)) (\<lambda>filters. Inr
       (query_new\<lparr>q_name := nq_name input, q_source_model := nq_source_model input,
          q_measures := map node_measure_to_core (nq_measures input), q_dimensions := nq_dimensions input,
          q_time_dimensions := map node_time_dimension_to_core (nq_time_dimensions input), q_filters := filters,
          q_order := map (\<lambda>o'. \<lparr>ob_field = nb_field o', ob_descending = unwrap_or (nb_descending o') False\<rparr>) (nq_order input),
          q_limit := nq_limit input, q_offset := nq_offset input,
          q_whole_periods_only := nq_whole_periods_only input,
          q_distinct_dimension_values := nq_distinct_dimension_values input\<rparr>))"

definition node_join_to_core :: "node_join \<Rightarrow> join_def" where
  "node_join_to_core j =
     \<lparr>jn_name = nj_name j, jn_model = nj_model j, jn_type = node_parse_join_type (nj_join_type j), jn_on = nj_on j,
      jn_alias = nj_alias j\<rparr>"

definition node_convert_model :: "node_model \<Rightarrow> model" where
  "node_convert_model input =
     \<lparr>mo_name = no_name input, mo_datasource = no_datasource input, mo_description = no_description input,
      mo_measures = map node_measure_to_core (no_measures input), mo_dimensions = no_dimensions input,
      mo_time_dimensions = map node_time_dimension_to_core (no_time_dimensions input),
      mo_joins = map node_join_to_core (no_joins input), mo_sql = None, mo_meta = []\<rparr>"

definition node_summary :: "model \<Rightarrow> node_model_summary" where
  "node_summary m =
     \<lparr>ns_name = mo_name m, ns_datasource = mo_datasource m, ns_description = unwrap_or (mo_description m) [],
      ns_measures = map (\<lambda>x. f_expression (m_formula x)) (mo_measures m), ns_dimensions = map d_name (mo_dimensions m),
      ns_time_dimensions = map td_dimension (mo_time_dimensions m)\<rparr>"

definition node_data_source_summary_of :: "data_source \<Rightarrow> node_data_source_summary" where
  "node_data_source_summary_of d =
     \<lparr>nds_name = ds_name d, nds_driver = ds_driver d, nds_description = unwrap_or (ds_description d) [],
      nds_models = ds_models d, nds_pool_size = ds_pool_size d\<rparr>"

definition node_item :: "memory \<Rightarrow> node_memory_item" where
  "node_item m =
     \<lparr>nmi_id = me_id m, nmi_learning = me_learning m, nmi_linked_entities = me_linked_entities m,
      nmi_description = me_description m, nmi_created_at = me_created_at m, nmi_updated_at = me_updated_at m\<rparr>"

subsection \<open>The client\<close>

text \<open>Each row as an object; anything else under the key \<open>value\<close>. The row count is a 32-bit integer.\<close>

definition node_row :: "json \<Rightarrow> json" where
  "node_row v = (case v of JObject m \<Rightarrow> JObject m | _ \<Rightarrow> JObject [(''value'', v)])"

definition node_query_client ::
    "yaml_storage tool_env \<Rightarrow> (string \<Rightarrow> json option) \<Rightarrow> yaml_storage tool_state \<Rightarrow> node_query \<Rightarrow> client_error + node_query_result" where
  "node_query_client env from_str sv input =
     rbind (node_convert_query from_str input) (\<lambda>q.
     rbind (client_execute env ''node'' sv q options_executing) (\<lambda>outcome.
       let data = map node_row (qo_data outcome) in
       Inr \<lparr>nr_data = data, nr_columns = qo_columns outcome, nr_sql = unwrap_or (qo_sql outcome) [],
            nr_row_count = length data mod 2 ^ 32\<rparr>))"

definition node_generate_sql ::
    "yaml_storage tool_env \<Rightarrow> (string \<Rightarrow> json option) \<Rightarrow> yaml_storage tool_state \<Rightarrow> node_query \<Rightarrow> client_error + string" where
  "node_generate_sql env from_str sv input =
     rbind (node_convert_query from_str input) (\<lambda>q.
     rbind (client_execute env ''node'' sv q options_dry_run) (\<lambda>outcome. Inr (unwrap_or (qo_sql outcome) [])))"

definition node_dry_run ::
    "yaml_storage tool_env \<Rightarrow> (string \<Rightarrow> json option) \<Rightarrow> yaml_storage tool_state \<Rightarrow> node_query \<Rightarrow> client_error + node_query_result" where
  "node_dry_run env from_str sv input =
     rbind (node_generate_sql env from_str sv input) (\<lambda>sql.
       Inr \<lparr>nr_data = [], nr_columns = [], nr_sql = sql, nr_row_count = 0\<rparr>)"

definition node_list_models ::
    "yaml_storage tool_env \<Rightarrow> yaml_storage tool_state \<Rightarrow> string option \<Rightarrow> client_error + node_model_summary list" where
  "node_list_models env sv datasource =
     rbind (map_err ClientStorage (bk_list_models (tl_backend env) (sv_store sv) datasource)) (\<lambda>ms. Inr (map node_summary ms))"

definition node_get_model ::
    "yaml_storage tool_env \<Rightarrow> yaml_storage tool_state \<Rightarrow> string \<Rightarrow> string option \<Rightarrow> client_error + node_model_summary option" where
  "node_get_model env sv name datasource =
     rbind (map_err ClientStorage (bk_get_model (tl_backend env) (sv_store sv) name datasource))
       (\<lambda>m. Inr (map_option node_summary m))"

definition node_create_model ::
    "yaml_storage tool_env \<Rightarrow> yaml_storage tool_state \<Rightarrow> node_model \<Rightarrow> node_model_summary client_result" where
  "node_create_model env sv input =
     (case client_create_model env ''node'' sv (node_convert_model input) of
        (r, sv') \<Rightarrow> (rbind r (\<lambda>m. Inr (node_summary m)), sv'))"

definition node_list_datasources ::
    "yaml_storage tool_env \<Rightarrow> yaml_storage tool_state \<Rightarrow> client_error + node_data_source_summary list" where
  "node_list_datasources env sv =
     rbind (map_err ClientStorage (bk_list_datasources (tl_backend env) (sv_store sv)))
       (\<lambda>ds. Inr (map node_data_source_summary_of ds))"

definition node_create_datasource ::
    "yaml_storage tool_env \<Rightarrow> yaml_storage tool_state \<Rightarrow> node_data_source \<Rightarrow> node_data_source_summary client_result" where
  "node_create_datasource env sv d =
     client_store node_data_source_summary_of
       (bk_create_datasource (tl_backend env) (sv_store sv)
          \<lparr>ds_name = nd_name d, ds_driver = nd_driver d, ds_connection_string = nd_connection_string d,
           ds_description = nd_description d, ds_models = nd_models d, ds_pool_size = nd_pool_size d, ds_meta = []\<rparr>) sv"

definition node_search ::
    "yaml_storage tool_env \<Rightarrow> yaml_storage tool_state \<Rightarrow> string \<Rightarrow> nat option \<Rightarrow> client_error + index_hit list" where
  "node_search env sv query limit =
     map_err ClientStorage (bk_search (tl_backend env) (sv_store sv) query (unwrap_or limit 10))"

definition node_save_memory ::
    "yaml_storage tool_env \<Rightarrow> yaml_storage tool_state \<Rightarrow> string \<Rightarrow> string list \<Rightarrow> string option \<Rightarrow> string option
      \<Rightarrow> node_memory_item client_result" where
  "node_save_memory env sv learning linked_entities i description =
     client_store node_item
       (bk_save_memory (tl_backend env) (sv_store sv) (client_memory env learning linked_entities i description)) sv"

definition node_list_memories ::
    "yaml_storage tool_env \<Rightarrow> yaml_storage tool_state \<Rightarrow> string option \<Rightarrow> string option \<Rightarrow> nat option \<Rightarrow> nat option
      \<Rightarrow> client_error + node_memory_item list" where
  "node_list_memories env sv query entity limit offset =
     rbind (map_err ClientStorage (bk_list_memories (tl_backend env) (sv_store sv)
       \<lparr>mf_query = query, mf_entity = entity, mf_limit = limit, mf_offset = offset\<rparr>)) (\<lambda>ms. Inr (map node_item ms))"

definition node_delete_memory ::
    "yaml_storage tool_env \<Rightarrow> yaml_storage tool_state \<Rightarrow> string \<Rightarrow> bool client_result" where
  "node_delete_memory env sv i = client_store id (bk_delete_memory (tl_backend env) (sv_store sv) i) sv"

subsection \<open>The engine knows what is stored\<close>

inductive client_run :: "yaml_storage tool_env \<Rightarrow> yaml_storage tool_state \<Rightarrow> yaml_storage tool_state \<Rightarrow> bool" for env where
  idle: "client_run env r r"
| model: "client_run env r s \<Longrightarrow> client_run env r (snd (client_create_model env who s m))"
| datasource: "client_run env r s \<Longrightarrow>
    client_run env r (s\<lparr>sv_store := snd (bk_create_datasource (tl_backend env) (sv_store s) ds)\<rparr>)"
| saved: "client_run env r s \<Longrightarrow> client_run env r (s\<lparr>sv_store := snd (bk_save_memory (tl_backend env) (sv_store s) m)\<rparr>)"
| forgotten: "client_run env r s \<Longrightarrow> client_run env r (s\<lparr>sv_store := snd (bk_delete_memory (tl_backend env) (sv_store s) i)\<rparr>)"

lemma client_store_state: "snd (client_store f change sv) = sv\<lparr>sv_store := snd change\<rparr>"
  by (simp add: client_store_def split: prod.split)

text \<open>The changes of the Node client are steps of a run.\<close>

lemma node_runs:
  "client_run env r s \<Longrightarrow> client_run env r (snd (node_create_model env s input))"
  "client_run env r s \<Longrightarrow> client_run env r (snd (node_create_datasource env s ds))"
  "client_run env r s \<Longrightarrow> client_run env r (snd (node_save_memory env s learning entities j description))"
  "client_run env r s \<Longrightarrow> client_run env r (snd (node_delete_memory env s i))"
  unfolding node_create_datasource_def node_save_memory_def node_delete_memory_def client_store_state
  using client_run.model [of env r s "''node''" "node_convert_model input"]
  by (auto simp: node_create_model_def client_run.datasource client_run.saved client_run.forgotten split: prod.splits)

lemma sync_forget: "in_sync sv \<Longrightarrow> in_sync (sv\<lparr>sv_store := snd (yaml_delete_memory True (sv_store sv) i)\<rparr>)"
  by (auto simp: in_sync_def yaml_inv_def yaml_delete_memory_def store_defs intro: store_ok_delete)

lemma client_create_model_sync:
  assumes "in_sync sv"
  shows "in_sync (snd (client_create_model (on_yaml env) who sv m))"
proof (cases "yaml_create_model True (sv_store sv) m")
  case (Pair r s)
  show ?thesis
  proof (cases r)
    case (Inl e)
    then have "s = sv_store sv" using sync_create(2) Pair by blast
    then show ?thesis using assms Pair Inl by (simp add: client_create_model_def yaml_backend_def)
  next
    case (Inr saved)
    then show ?thesis using sync_create(1) [OF assms, of m saved s] Pair
      by (simp add: client_create_model_def yaml_backend_def register_model_governed_def require_admin_def embedded_context_def)
  qed
qed

lemma client_run_sync: "client_run (on_yaml env) r s \<Longrightarrow> in_sync r \<Longrightarrow> in_sync s"
proof (induction rule: client_run.induct)
  case (model r s who m)
  then show ?case using client_create_model_sync by blast
qed (simp_all add: yaml_backend_def sync_datasources(1) sync_save sync_forget)

lemma with_models_stored:
  assumes "store_ok mo_name xs file" and "sg_models g = []"
  shows "lookup_model (with_models g (map snd xs)) n = map_of xs n"
proof -
  have "sg_models (with_models g ms) = foldl (\<lambda>acc m. AList.update (mo_name m) m acc) (sg_models g) ms" for ms
    unfolding with_models_def by (induction ms arbitrary: g) simp_all
  then have "sg_models (with_models g (map snd xs)) = insert_all mo_name (map snd xs) []"
    using assms(2) by (simp add: insert_all_def)
  moreover have "insert_all mo_name (map snd xs) [] = xs"
    using insert_all_append [of "[]" xs mo_name] assms(1) by (auto simp: store_ok_def)
  ultimately show ?thesis by (simp add: lookup_model_def)
qed

lemma with_datasources_models: "sg_models (with_datasources g dss) = sg_models g"
  unfolding with_datasources_def
  by (induction dss arbitrary: g) (simp_all add: register_datasource_def Let_def)

lemma embedded_new_sync:
  assumes "yaml_inv s"
  shows "in_sync (embedded_new (ys_disk s))"
proof -
  have "sg_models (with_datasources (generator_new d) dss) = []" for d dss by (simp add: with_datasources_models generator_new_def)
  then have "lookup_model (with_models (with_datasources (generator_new d) dss) (map snd (ys_models s))) n = map_of (ys_models s) n"
    for d dss n
    using assms unfolding yaml_inv_def by (intro with_models_stored) auto
  then show ?thesis using assms
    by (simp add: in_sync_def embedded_new_def embedded_engine_def yaml_inv_reload yaml_list_models_def Let_def)
qed


definition sample_node_model :: node_model where
  "sample_node_model =
     \<lparr>no_name = ''orders'', no_datasource = ''shop'', no_description = None,
      no_measures = [\<lparr>nm_formula = formula_new ''amount'', nm_aggregation = ''sum''\<rparr>], no_dimensions = [dimension_new ''status''],
      no_time_dimensions = [], no_joins = []\<rparr>"


text \<open>But a datasource that is created later is not made known: its models get the default dialect.\<close>

lemma later_datasource_default:
  assumes "map_of (sg_datasource_drivers (sv_engine sv)) (nd_name d) = None"
    and "lookup_model (sv_engine sv) name = Some m" and "mo_datasource m = nd_name d"
  shows "dialect_for (sv_engine (snd (node_create_datasource env sv d))) name = sg_default_dialect (sv_engine sv)"
  using assms by (simp add: node_create_datasource_def client_store_state dialect_for_def)

subsection \<open>Values of filters\<close>

text \<open>A list of values is never looked at, so a membership test is always refused unless its value is an array as text.\<close>

lemma node_values_ignored:
  "node_filter_to_core from_str (f\<lparr>nf_values := vs\<rparr>) = node_filter_to_core from_str f"
  by (simp add: node_filter_to_core_def)

lemma node_membership_refused:
  assumes "node_filter_to_core from_str f = Inr c" and "nf_value f = None" and "fl_operator c \<in> {In, NotIn}"
  shows "\<not> is_ok (render_condition ser g d source_alias base mode c params)"
  using assms
  by (auto simp: node_filter_to_core_def unwrap_or_def branch_simps render_condition_def render_comparison_def Let_def ok_or_def
      split: if_splits)

text \<open>A text that is not JSON, such as a plain word, becomes null.\<close>

lemma node_plain_text_is_null:
  assumes "node_filter_to_core from_str f = Inr c" and "nf_value f = Some s" and "from_str s = None"
  shows "fl_value c = JNull"
  using assms by (auto simp: node_filter_to_core_def unwrap_or_def branch_simps)

text \<open>An aggregation that is not known is a sum.\<close>

lemma node_unknown_aggregation: "node_parse_aggregation ''median'' = Sum"
  by code_simp

end
