(* ===== verification/Python_Binding.thy ===== *)
theory Python_Binding
  imports Node_Binding Executor
begin

text \<open>
  The client for Python (\<open>crates/graphnight-python/src/lib.rs\<close>): dictionaries read field by field into queries
  and models, JSON values as Python objects, and the operations, which are those of every embedded client.

  Python objects are an arbitrary type; what PyO3 extracts from one is a parameter, with what it
  documents as hypotheses where it is needed. The time of an execution is a parameter.
\<close>

subsection \<open>Objects\<close>

text \<open>
  Extraction as a string, a 64-bit integer, a float (its text, none for one that is not finite), a truth
  value, a natural number of 32 and of 64 bits; the dictionary and the list an object is.
\<close>

record 'o py_lib =
  py_str :: "'o \<Rightarrow> string option"
  py_i64 :: "'o \<Rightarrow> int option"
  py_f64 :: "'o \<Rightarrow> string option option"
  py_bool :: "'o \<Rightarrow> bool option"
  py_u32 :: "'o \<Rightarrow> nat option"
  py_usize :: "'o \<Rightarrow> nat option"
  py_dict :: "'o \<Rightarrow> (string \<Rightarrow> 'o option) option"
  py_list :: "'o \<Rightarrow> 'o list option"
  py_json :: "string \<Rightarrow> json option"

type_synonym 'o py_dict_view = "string \<Rightarrow> 'o option"

text \<open>\<open>get_item(k).ok().flatten().and_then(extract)\<close>, and the items of a list that are read by \<open>f\<close>.\<close>

definition py_get :: "('o \<Rightarrow> 'a option) \<Rightarrow> 'o py_dict_view \<Rightarrow> string \<Rightarrow> 'a option" where
  "py_get extract d k = Option.bind (d k) extract"

definition py_items :: "'o py_lib \<Rightarrow> ('o \<Rightarrow> 'a option) \<Rightarrow> 'o py_dict_view \<Rightarrow> string \<Rightarrow> 'a list" where
  "py_items py f d k = (case py_get (py_list py) d k of Some xs \<Rightarrow> List.map_filter f xs | None \<Rightarrow> [])"

datatype py_value =
    PyNone | PyBool bool | PyInt int | PyFloat string | PyStr string
  | PyListOf "py_value list" | PyDictOf "(string \<times> py_value) list"

text \<open>Every JSON number reads as a float, so the case of an unsigned integer is never reached.\<close>

fun value_to_py :: "json \<Rightarrow> py_value" where
  "value_to_py JNull = PyNone"
| "value_to_py (JBool b) = PyBool b"
| "value_to_py (JNumber s) = (case number_i64 s of Some i \<Rightarrow> PyInt i | None \<Rightarrow> PyFloat s)"
| "value_to_py (JString s) = PyStr s"
| "value_to_py (JArray xs) = PyListOf (map value_to_py xs)"
| "value_to_py (JObject m) = PyDictOf (map (\<lambda>(k, v). (k, value_to_py v)) m)"

subsection \<open>Reading queries and models\<close>

definition python_parse_aggregation :: "string \<Rightarrow> aggregation_type" where
  "python_parse_aggregation s =
     (let l = to_lower s in
      if l = ''sum'' then Sum else if l = ''avg'' then Avg else if l = ''count'' then Count
      else if l = ''min'' then Min else if l = ''max'' then Max
      else if l = ''count_distinct'' then CountDistinct else Sum)"

definition python_parse_granularity :: "string \<Rightarrow> time_granularity" where
  "python_parse_granularity s =
     (let l = to_lower s in
      if l = ''second'' then Second else if l = ''minute'' then Minute else if l = ''hour'' then Hour
      else if l = ''day'' then Day else if l = ''week'' then Week else if l = ''month'' then Month
      else if l = ''quarter'' then Quarter else if l = ''year'' then Year else Day)"

definition extract_formula :: "'o py_lib \<Rightarrow> 'o py_dict_view \<Rightarrow> formula" where
  "extract_formula py obj =
     (case obj ''formula'' of
        None \<Rightarrow> formula_new []
      | Some f \<Rightarrow>
          (case py_str py f of
             Some s \<Rightarrow> formula_new s
           | None \<Rightarrow>
               (case py_dict py f of
                  Some fd \<Rightarrow> \<lparr>f_expression = unwrap_or (py_get (py_str py) fd ''expression'') [],
                              f_label = py_get (py_str py) fd ''label'', f_format = py_get (py_str py) fd ''format''\<rparr>
                | None \<Rightarrow> formula_new [])))"

definition extract_measure :: "'o py_lib \<Rightarrow> 'o py_dict_view \<Rightarrow> measure" where
  "extract_measure py obj =
     \<lparr>m_formula = extract_formula py obj,
      m_aggregation = python_parse_aggregation (unwrap_or (py_get (py_str py) obj ''aggregation'') ''sum'')\<rparr>"

definition extract_dimension_from_obj :: "'o py_lib \<Rightarrow> 'o \<Rightarrow> dimension option" where
  "extract_dimension_from_obj py obj =
     (case py_str py obj of
        Some name \<Rightarrow> Some (dimension_new name)
      | None \<Rightarrow> map_option (\<lambda>d. \<lparr>d_name = unwrap_or (py_get (py_str py) d ''name'') [], d_label = py_get (py_str py) d ''label''\<rparr>)
                  (py_dict py obj))"

definition extract_time_dimension :: "'o py_lib \<Rightarrow> 'o py_dict_view \<Rightarrow> time_dimension" where
  "extract_time_dimension py obj =
     \<lparr>td_dimension = unwrap_or (py_get (py_str py) obj ''dimension'') [],
      td_granularity = python_parse_granularity (unwrap_or (py_get (py_str py) obj ''granularity'') ''day''),
      td_label = py_get (py_str py) obj ''label''\<rparr>"

text \<open>A string that is JSON is its value; an integer goes before a float, and both before a truth value.\<close>

definition extract_py_value :: "'o py_lib \<Rightarrow> 'o \<Rightarrow> json" where
  "extract_py_value py v =
     (case py_str py v of
        Some s \<Rightarrow> unwrap_or (py_json py s) (JString s)
      | None \<Rightarrow>
          (case py_i64 py v of
             Some n \<Rightarrow> json_i64 n
           | None \<Rightarrow>
               (case py_f64 py v of
                  Some x \<Rightarrow> (case x of Some s \<Rightarrow> JNumber s | None \<Rightarrow> JNull)
                | None \<Rightarrow> (case py_bool py v of Some b \<Rightarrow> JBool b | None \<Rightarrow> JNull))))"

definition extract_filter :: "'o py_lib \<Rightarrow> 'o py_dict_view \<Rightarrow> client_error + filter_cond" where
  "extract_filter py obj =
     rbind (map_err ClientParse (operator_parse_strict (unwrap_or (py_get (py_str py) obj ''operator'') ''eq''))) (\<lambda>op.
       Inr \<lparr>fl_field = unwrap_or (py_get (py_str py) obj ''field'') [], fl_operator = op,
            fl_value = (case obj ''value'' of Some v \<Rightarrow> extract_py_value py v | None \<Rightarrow> JNull),
            fl_or = unwrap_or (py_get (py_bool py) obj ''or_condition'') False\<rparr>)"

definition extract_source :: "'o py_lib \<Rightarrow> 'o py_dict_view \<Rightarrow> source_spec" where
  "extract_source py d =
     \<lparr>ss_model = unwrap_or (py_get (py_str py) d ''model'') [], ss_datasource = py_get (py_str py) d ''datasource'',
      ss_alias = py_get (py_str py) d ''alias''\<rparr>"

definition dict_to_query :: "'o py_lib \<Rightarrow> 'o py_dict_view \<Rightarrow> client_error + query" where
  "dict_to_query py dict =
     rbind (rmap (extract_filter py) (py_items py (py_dict py) dict ''filters'')) (\<lambda>filters. Inr
       (query_new\<lparr>q_name := py_get (py_str py) dict ''name'',
          q_source_model := map_option (extract_source py) (py_get (py_dict py) dict ''source_model''),
          q_measures := map (extract_measure py) (py_items py (py_dict py) dict ''measures''),
          q_dimensions := py_items py (extract_dimension_from_obj py) dict ''dimensions'',
          q_time_dimensions := map (extract_time_dimension py) (py_items py (py_dict py) dict ''time_dimensions''),
          q_filters := filters,
          q_order := map (\<lambda>d. \<lparr>ob_field = unwrap_or (py_get (py_str py) d ''field'') [],
                               ob_descending = unwrap_or (py_get (py_bool py) d ''descending'') False\<rparr>)
                       (py_items py (py_dict py) dict ''order''),
          q_limit := py_get (py_usize py) dict ''limit'', q_offset := py_get (py_usize py) dict ''offset'',
          q_whole_periods_only := py_get (py_bool py) dict ''whole_periods_only'',
          q_distinct_dimension_values := py_get (py_bool py) dict ''distinct_dimension_values''\<rparr>))"

definition python_model :: "'o py_lib \<Rightarrow> 'o py_dict_view \<Rightarrow> model" where
  "python_model py d =
     \<lparr>mo_name = unwrap_or (py_get (py_str py) d ''name'') [], mo_datasource = unwrap_or (py_get (py_str py) d ''datasource'') [],
      mo_description = py_get (py_str py) d ''description'',
      mo_measures = map (extract_measure py) (py_items py (py_dict py) d ''measures''),
      mo_dimensions = py_items py (extract_dimension_from_obj py) d ''dimensions'',
      mo_time_dimensions = map (extract_time_dimension py) (py_items py (py_dict py) d ''time_dimensions''),
      mo_joins = [], mo_sql = py_get (py_str py) d ''sql'', mo_meta = []\<rparr>"

definition python_datasource :: "'o py_lib \<Rightarrow> 'o py_dict_view \<Rightarrow> data_source" where
  "python_datasource py d =
     \<lparr>ds_name = unwrap_or (py_get (py_str py) d ''name'') [], ds_driver = unwrap_or (py_get (py_str py) d ''driver'') ''postgres'',
      ds_connection_string = unwrap_or (py_get (py_str py) d ''connection_string'') [],
      ds_description = py_get (py_str py) d ''description'', ds_models = [], ds_pool_size = py_get (py_u32 py) d ''pool_size'',
      ds_meta = []\<rparr>"

subsection \<open>Answers\<close>

definition model_summary :: "model \<Rightarrow> json" where
  "model_summary m =
     json_object
       [(''name'', JString (mo_name m)), (''datasource'', JString (mo_datasource m)),
        (''description'', JString (unwrap_or (mo_description m) [])),
        (''measures'', json_strings (map (\<lambda>x. f_expression (m_formula x)) (mo_measures m))),
        (''dimensions'', json_strings (map d_name (mo_dimensions m))),
        (''time_dimensions'', json_strings (map td_dimension (mo_time_dimensions m)))]"

definition memory_to_value :: "memory \<Rightarrow> json" where
  "memory_to_value m =
     json_object
       [(''id'', JString (me_id m)), (''learning'', JString (me_learning m)),
        (''linked_entities'', json_strings (me_linked_entities m)),
        (''description'', JString (unwrap_or (me_description m) [])),
        (''created_at'', JString (me_created_at m)), (''updated_at'', JString (me_updated_at m))]"

subsection \<open>The client\<close>

definition python_query ::
    "yaml_storage tool_env \<Rightarrow> 'o py_lib \<Rightarrow> string \<Rightarrow> yaml_storage tool_state \<Rightarrow> 'o py_dict_view \<Rightarrow> client_error + py_value" where
  "python_query env py elapsed sv d =
     rbind (dict_to_query py d) (\<lambda>q.
     rbind (client_execute env ''python'' sv q options_executing) (\<lambda>outcome.
       Inr (value_to_py (json_object
         [(''data'', JArray (qo_data outcome)), (''columns'', json_strings (qo_columns outcome)),
          (''sql'', JString (unwrap_or (qo_sql outcome) [])), (''execution_time_ms'', JNumber elapsed)]))))"

definition python_generate_sql ::
    "yaml_storage tool_env \<Rightarrow> 'o py_lib \<Rightarrow> yaml_storage tool_state \<Rightarrow> 'o py_dict_view \<Rightarrow> client_error + string" where
  "python_generate_sql env py sv d =
     rbind (dict_to_query py d) (\<lambda>q.
     rbind (client_execute env ''python'' sv q options_dry_run) (\<lambda>outcome. Inr (unwrap_or (qo_sql outcome) [])))"

definition python_dry_run ::
    "yaml_storage tool_env \<Rightarrow> 'o py_lib \<Rightarrow> yaml_storage tool_state \<Rightarrow> 'o py_dict_view \<Rightarrow> client_error + py_value" where
  "python_dry_run env py sv d =
     rbind (dict_to_query py d) (\<lambda>q.
     rbind (client_execute env ''python'' sv q options_dry_run) (\<lambda>outcome.
       Inr (value_to_py (json_object
         ((''sql'', JString (unwrap_or (qo_sql outcome) []))
          # (case q_name q of Some name \<Rightarrow> [(''name'', JString name)] | None \<Rightarrow> []))))))"

definition python_list_models ::
    "yaml_storage tool_env \<Rightarrow> yaml_storage tool_state \<Rightarrow> string option \<Rightarrow> client_error + py_value" where
  "python_list_models env sv datasource =
     rbind (map_err ClientStorage (bk_list_models (tl_backend env) (sv_store sv) datasource))
       (\<lambda>ms. Inr (value_to_py (JArray (map model_summary ms))))"

definition python_get_model ::
    "yaml_storage tool_env \<Rightarrow> yaml_storage tool_state \<Rightarrow> string \<Rightarrow> string option \<Rightarrow> client_error + py_value" where
  "python_get_model env sv name datasource =
     rbind (map_err ClientStorage (bk_get_model (tl_backend env) (sv_store sv) name datasource))
       (\<lambda>m. Inr (value_to_py (case m of Some m \<Rightarrow> model_summary m | None \<Rightarrow> JNull)))"

definition python_create_model ::
    "yaml_storage tool_env \<Rightarrow> 'o py_lib \<Rightarrow> yaml_storage tool_state \<Rightarrow> 'o py_dict_view \<Rightarrow> py_value client_result" where
  "python_create_model env py sv d =
     (case client_create_model env ''python'' sv (python_model py d) of
        (r, sv') \<Rightarrow>
          (rbind r (\<lambda>m. Inr (value_to_py (json_object
             [(''name'', JString (mo_name m)), (''datasource'', JString (mo_datasource m)),
              (''description'', JString (unwrap_or (mo_description m) []))]))), sv'))"

definition python_list_datasources :: "yaml_storage tool_env \<Rightarrow> yaml_storage tool_state \<Rightarrow> client_error + py_value" where
  "python_list_datasources env sv =
     rbind (map_err ClientStorage (bk_list_datasources (tl_backend env) (sv_store sv))) (\<lambda>dss.
       Inr (value_to_py (JArray (map (\<lambda>d. json_object
         [(''name'', JString (ds_name d)), (''driver'', JString (ds_driver d)),
          (''description'', JString (unwrap_or (ds_description d) [])), (''models'', json_strings (ds_models d))]) dss))))"

definition python_create_datasource ::
    "yaml_storage tool_env \<Rightarrow> 'o py_lib \<Rightarrow> yaml_storage tool_state \<Rightarrow> 'o py_dict_view \<Rightarrow> py_value client_result" where
  "python_create_datasource env py sv d =
     client_store
       (\<lambda>ds. value_to_py (json_object
          [(''name'', JString (ds_name ds)), (''driver'', JString (ds_driver ds)),
           (''description'', JString (unwrap_or (ds_description ds) []))]))
       (bk_create_datasource (tl_backend env) (sv_store sv) (python_datasource py d)) sv"

definition python_search ::
    "yaml_storage tool_env \<Rightarrow> yaml_storage tool_state \<Rightarrow> string \<Rightarrow> nat option \<Rightarrow> client_error + py_value" where
  "python_search env sv q limit =
     rbind (map_err ClientStorage (bk_search (tl_backend env) (sv_store sv) q (unwrap_or limit 10))) (\<lambda>hits.
       Inr (value_to_py (JArray (map (\<lambda>h. json_object
         [(''model_name'', JString (ih_model_name h)), (''datasource'', JString (ih_datasource h)),
          (''score'', JNumber (tl_float env (of_nat (ih_score h)))),
          (''matched_fields'', json_strings (ih_matched_fields h)), (''snippet'', JString (ih_snippet h))]) hits))))"

definition python_save_memory ::
    "yaml_storage tool_env \<Rightarrow> yaml_storage tool_state \<Rightarrow> string \<Rightarrow> string list \<Rightarrow> string option \<Rightarrow> string option
      \<Rightarrow> py_value client_result" where
  "python_save_memory env sv learning linked_entities i description =
     client_store (\<lambda>m. value_to_py (memory_to_value m))
       (bk_save_memory (tl_backend env) (sv_store sv) (client_memory env learning linked_entities i description)) sv"

definition python_list_memories ::
    "yaml_storage tool_env \<Rightarrow> yaml_storage tool_state \<Rightarrow> memory_filter \<Rightarrow> client_error + py_value" where
  "python_list_memories env sv f =
     rbind (map_err ClientStorage (bk_list_memories (tl_backend env) (sv_store sv) f))
       (\<lambda>ms. Inr (value_to_py (JArray (map memory_to_value ms))))"

definition python_forget_memory ::
    "yaml_storage tool_env \<Rightarrow> yaml_storage tool_state \<Rightarrow> string \<Rightarrow> py_value client_result" where
  "python_forget_memory env sv i =
     client_store (\<lambda>success. value_to_py (json_object [(''success'', JBool success), (''id'', JString i)]))
       (bk_delete_memory (tl_backend env) (sv_store sv) i) sv"

subsection \<open>Properties\<close>

text \<open>The changes of the Python client are steps of a run too, so its engine knows what is stored.\<close>

lemma python_runs:
  "client_run env r s \<Longrightarrow> client_run env r (snd (python_create_model env py s d))"
  "client_run env r s \<Longrightarrow> client_run env r (snd (python_create_datasource env py s d))"
  "client_run env r s \<Longrightarrow> client_run env r (snd (python_save_memory env s learning entities j description))"
  "client_run env r s \<Longrightarrow> client_run env r (snd (python_forget_memory env s i))"
  unfolding python_create_datasource_def python_save_memory_def python_forget_memory_def client_store_state
  using client_run.model [of env r s "''python''" "python_model py d"]
  by (auto simp: python_create_model_def client_run.datasource client_run.saved client_run.forgotten split: prod.splits)

text \<open>
  A list is no string, no number and no truth value for PyO3, so as the value of a filter it becomes null,
  and a membership test with a Python list is always refused.
\<close>

lemma python_list_value_is_null:
  assumes "py_str py v = None" "py_i64 py v = None" "py_f64 py v = None" "py_bool py v = None"
  shows "extract_py_value py v = JNull"
  using assms by (simp add: extract_py_value_def)

lemma python_membership_refused:
  assumes "extract_filter py obj = Inr c" and "obj ''value'' = Some v" and "fl_operator c \<in> {In, NotIn}"
    and "py_str py v = None" "py_i64 py v = None" "py_f64 py v = None" "py_bool py v = None"
  shows "\<not> is_ok (render_condition ser g d source_alias base mode c params)"
  using assms
  by (auto simp: extract_filter_def branch_simps python_list_value_is_null render_condition_def render_comparison_def
      Let_def ok_or_def split: if_splits)

text \<open>
  A truth value is an integer for PyO3, so it is sent as one; and a string that happens to be JSON is sent as
  what it reads as: the text \<open>007\<close> stays, the text \<open>7\<close> becomes a number.
\<close>

lemma python_bool_is_number:
  "py_str py v = None \<Longrightarrow> py_i64 py v = Some (if b then 1 else 0) \<Longrightarrow> extract_py_value py v = json_i64 (if b then 1 else 0)"
  by (simp add: extract_py_value_def)

lemma python_text_is_reread: "py_str py v = Some s \<Longrightarrow> py_json py s = Some j \<Longrightarrow> extract_py_value py v = j"
  by (simp add: extract_py_value_def unwrap_or_def)

text \<open>An unsigned integer that does not fit a signed one reaches Python as a float.\<close>

lemma large_integer_is_float:
  assumes "all_digits s" and "2 ^ 63 \<le> nat_of_digits s"
  shows "value_to_py (JNumber s) = PyFloat s"
proof (cases s)
  case (Cons c digits)
  have "c \<noteq> CHR ''-''" using assms(1) Cons by (auto simp: all_digits_def is_ascii_digit_def byte_def)
  then show ?thesis using assms Cons by simp
qed simp

end
