(* ===== verification/Elixir_Binding.thy ===== *)
theory Elixir_Binding
  imports Engine Storage
begin

text \<open>
  The Elixir binding (\<open>crates/graphnight-elixir/src/lib.rs\<close>): the structs that cross the border, their
  conversions, and the functions of the native module over the YAML backend and the engine.

  Encoding and decoding terms is done by the library; a JSON value is its value here. Errors are texts.
  The engine here generates and executes directly, without the query service and its policies.
\<close>

subsection \<open>Structs\<close>

record elixir_measure =
  xm_formula :: string
  xm_label :: "string option"
  xm_format :: "string option"
  xm_aggregation :: string

record elixir_dimension =
  xd_name :: string
  xd_label :: "string option"

record elixir_time_dimension =
  xt_dimension :: string
  xt_granularity :: string
  xt_label :: "string option"

record elixir_join =
  xj_name :: string
  xj_model :: string
  xj_join_type :: string
  xj_on :: "(string \<times> string) list"
  xj_alias :: "string option"

record elixir_model =
  xo_name :: string
  xo_datasource :: string
  xo_description :: "string option"
  xo_measures :: "elixir_measure list"
  xo_dimensions :: "elixir_dimension list"
  xo_time_dimensions :: "elixir_time_dimension list"
  xo_joins :: "elixir_join list"

record elixir_data_source =
  xs_name :: string
  xs_driver :: string
  xs_connection_string :: string
  xs_description :: "string option"
  xs_models :: "string list"
  xs_pool_size :: "nat option"

record elixir_filter =
  xf_field :: string
  xf_operator :: string
  xf_value :: json
  xf_or_condition :: bool

record elixir_query =
  xq_name :: "string option"
  xq_source_model :: "source_spec option"
  xq_measures :: "elixir_measure list"
  xq_dimensions :: "elixir_dimension list"
  xq_time_dimensions :: "elixir_time_dimension list"
  xq_filters :: "elixir_filter list"
  xq_order :: "order_by list"
  xq_limit :: "nat option"
  xq_offset :: "nat option"
  xq_whole_periods_only :: "bool option"
  xq_distinct_dimension_values :: "bool option"
  xq_stage_ref :: "string option"

record elixir_query_result =
  xr_data :: "row list"
  xr_columns :: "string list"
  xr_sql :: "string option"

subsection \<open>Conversions\<close>

definition elixir_parse_aggregation :: "string \<Rightarrow> aggregation_type" where
  "elixir_parse_aggregation s =
     (let u = to_upper s in
      if u = ''SUM'' then Sum else if u = ''AVG'' then Avg else if u = ''COUNT'' then Count
      else if u = ''MIN'' then Min else if u = ''MAX'' then Max
      else if u = ''COUNT_DISTINCT'' then CountDistinct else Custom s)"

definition elixir_parse_granularity :: "string \<Rightarrow> time_granularity" where
  "elixir_parse_granularity s =
     (let u = to_upper s in
      if u = ''SECOND'' then Second else if u = ''MINUTE'' then Minute else if u = ''HOUR'' then Hour
      else if u = ''DAY'' then Day else if u = ''WEEK'' then Week else if u = ''MONTH'' then Month
      else if u = ''QUARTER'' then Quarter else if u = ''YEAR'' then Year else Day)"

definition elixir_parse_join_type :: "string \<Rightarrow> join_type" where
  "elixir_parse_join_type s =
     (let u = to_upper s in
      if u = ''INNER'' then Inner else if u = ''LEFT'' then Left else if u = ''RIGHT'' then Right
      else if u = ''FULL'' then Full else Left)"

definition elixir_measure_to_core :: "elixir_measure \<Rightarrow> measure" where
  "elixir_measure_to_core mm =
     \<lparr>m_formula = formula_with_format (formula_with_label (formula_new (xm_formula mm)) (unwrap_or (xm_label mm) []))
                    (unwrap_or (xm_format mm) []),
      m_aggregation = elixir_parse_aggregation (xm_aggregation mm)\<rparr>"

definition elixir_dimension_to_core :: "elixir_dimension \<Rightarrow> dimension" where
  "elixir_dimension_to_core d = dimension_with_label (dimension_new (xd_name d)) (unwrap_or (xd_label d) [])"

definition elixir_time_dimension_to_core :: "elixir_time_dimension \<Rightarrow> time_dimension" where
  "elixir_time_dimension_to_core t =
     time_dimension_with_label (time_dimension_new (xt_dimension t) (elixir_parse_granularity (xt_granularity t)))
       (unwrap_or (xt_label t) [])"

definition elixir_join_to_core :: "elixir_join \<Rightarrow> join_def" where
  "elixir_join_to_core j =
     \<lparr>jn_name = xj_name j, jn_model = xj_model j, jn_type = elixir_parse_join_type (xj_join_type j), jn_on = xj_on j,
      jn_alias = xj_alias j\<rparr>"

definition elixir_model_to_core :: "elixir_model \<Rightarrow> model" where
  "elixir_model_to_core m =
     \<lparr>mo_name = xo_name m, mo_datasource = xo_datasource m, mo_description = xo_description m,
      mo_measures = map elixir_measure_to_core (xo_measures m),
      mo_dimensions = map elixir_dimension_to_core (xo_dimensions m),
      mo_time_dimensions = map elixir_time_dimension_to_core (xo_time_dimensions m),
      mo_joins = map elixir_join_to_core (xo_joins m), mo_sql = None, mo_meta = []\<rparr>"

definition elixir_ds_to_core :: "elixir_data_source \<Rightarrow> data_source" where
  "elixir_ds_to_core ds =
     \<lparr>ds_name = xs_name ds, ds_driver = xs_driver ds, ds_connection_string = xs_connection_string ds,
      ds_description = xs_description ds, ds_models = xs_models ds, ds_pool_size = xs_pool_size ds, ds_meta = []\<rparr>"

definition elixir_filter_to_core :: "elixir_filter \<Rightarrow> parse_error + filter_cond" where
  "elixir_filter_to_core f =
     rbind (operator_parse_strict (xf_operator f)) (\<lambda>op.
       let filter = filter_new (xf_field f) op (xf_value f) in
       Inr (if xf_or_condition f then filter_or filter else filter))"

definition elixir_query_to_core :: "elixir_query \<Rightarrow> parse_error + query" where
  "elixir_query_to_core q =
     rbind (rmap elixir_filter_to_core (xq_filters q)) (\<lambda>filters. Inr
       \<lparr>q_name = xq_name q, q_source_model = xq_source_model q,
        q_measures = map elixir_measure_to_core (xq_measures q),
        q_dimensions = map elixir_dimension_to_core (xq_dimensions q),
        q_time_dimensions = map elixir_time_dimension_to_core (xq_time_dimensions q),
        q_filters = filters, q_order = xq_order q, q_limit = xq_limit q, q_offset = xq_offset q,
        q_whole_periods_only = xq_whole_periods_only q,
        q_distinct_dimension_values = xq_distinct_dimension_values q, q_stage_ref = xq_stage_ref q\<rparr>)"

fun granularity_to_string :: "time_granularity \<Rightarrow> string" where
  "granularity_to_string Second = ''SECOND''"
| "granularity_to_string Minute = ''MINUTE''"
| "granularity_to_string Hour = ''HOUR''"
| "granularity_to_string Day = ''DAY''"
| "granularity_to_string Week = ''WEEK''"
| "granularity_to_string Month = ''MONTH''"
| "granularity_to_string Quarter = ''QUARTER''"
| "granularity_to_string Year = ''YEAR''"

fun join_type_to_string :: "join_type \<Rightarrow> string" where
  "join_type_to_string Inner = ''INNER''"
| "join_type_to_string Left = ''LEFT''"
| "join_type_to_string Right = ''RIGHT''"
| "join_type_to_string Full = ''FULL''"

definition core_measure_to_elixir :: "measure \<Rightarrow> elixir_measure" where
  "core_measure_to_elixir m =
     \<lparr>xm_formula = f_expression (m_formula m), xm_label = f_label (m_formula m), xm_format = f_format (m_formula m),
      xm_aggregation = aggregation_display (m_aggregation m)\<rparr>"

definition core_model_to_elixir :: "model \<Rightarrow> elixir_model" where
  "core_model_to_elixir m =
     \<lparr>xo_name = mo_name m, xo_datasource = mo_datasource m, xo_description = mo_description m,
      xo_measures = map core_measure_to_elixir (mo_measures m),
      xo_dimensions = map (\<lambda>d. \<lparr>xd_name = d_name d, xd_label = d_label d\<rparr>) (mo_dimensions m),
      xo_time_dimensions = map (\<lambda>t. \<lparr>xt_dimension = td_dimension t,
        xt_granularity = granularity_to_string (td_granularity t), xt_label = td_label t\<rparr>) (mo_time_dimensions m),
      xo_joins = map (\<lambda>j. \<lparr>xj_name = jn_name j, xj_model = jn_model j, xj_join_type = join_type_to_string (jn_type j),
        xj_on = jn_on j, xj_alias = jn_alias j\<rparr>) (mo_joins m)\<rparr>"

definition core_ds_to_elixir :: "data_source \<Rightarrow> elixir_data_source" where
  "core_ds_to_elixir ds =
     \<lparr>xs_name = ds_name ds, xs_driver = ds_driver ds, xs_connection_string = ds_connection_string ds,
      xs_description = ds_description ds, xs_models = ds_models ds, xs_pool_size = ds_pool_size ds\<rparr>"

subsection \<open>The native module\<close>

datatype nif_error =
    NifStorage storage_error
  | NifParse parse_error
  | NifText string
  | NifGenerate gen_error

record ('c, 'r, 'p) engine_resource =
  er_engine :: "('c, 'r, 'p) engine_state"
  er_storage :: yaml_storage

text \<open>The storage is opened on its directory and not loaded.\<close>

definition init_engine :: "('c, 'r, 'p, 'k) engine_lib \<Rightarrow> yaml_disk \<Rightarrow> ('c, 'r, 'p) engine_resource" where
  "init_engine lib disk =
     (let storage = yaml_new disk in
      \<lparr>er_engine = engine_with_models (yaml_list_models storage None)
         (sql_engine_new lib (get_dialect ''postgres'') connection_manager_new),
       er_storage = storage\<rparr>)"

text \<open>A change of the storage, and whether it succeeded or not the rest of the resource.\<close>

definition nif_store ::
    "('a \<Rightarrow> 'b) \<Rightarrow> (storage_error + 'a) \<times> yaml_storage \<Rightarrow> ('c, 'r, 'p) engine_resource
      \<Rightarrow> (nif_error + 'b) \<times> ('c, 'r, 'p) engine_resource" where
  "nif_store convert change r =
     (case change of (x, s) \<Rightarrow> (rbind (map_err NifStorage x) (\<lambda>v. Inr (convert v)), r\<lparr>er_storage := s\<rparr>))"

text \<open>After a successful change of a model the cached results are dropped.\<close>

definition then_invalidate ::
    "('c, 'r, 'p, 'k) engine_lib \<Rightarrow> (nif_error + 'b) \<times> ('c, 'r, 'p) engine_resource
      \<Rightarrow> (nif_error + 'b) \<times> ('c, 'r, 'p) engine_resource" where
  "then_invalidate lib = (\<lambda>(x, r). (x, if is_ok x then r\<lparr>er_engine := invalidate_result_cache lib (er_engine r)\<rparr> else r))"

definition elixir_create_datasource ::
    "bool \<Rightarrow> elixir_data_source \<Rightarrow> ('c, 'r, 'p) engine_resource
      \<Rightarrow> (nif_error + elixir_data_source) \<times> ('c, 'r, 'p) engine_resource" where
  "elixir_create_datasource wr ds r =
     nif_store core_ds_to_elixir (yaml_create_datasource wr (er_storage r) (elixir_ds_to_core ds)) r"

definition elixir_list_datasources :: "('c, 'r, 'p) engine_resource \<Rightarrow> elixir_data_source list" where
  "elixir_list_datasources r = map core_ds_to_elixir (yaml_list_datasources (er_storage r))"

definition elixir_get_datasource :: "string \<Rightarrow> ('c, 'r, 'p) engine_resource \<Rightarrow> elixir_data_source option" where
  "elixir_get_datasource name r = map_option core_ds_to_elixir (yaml_get_datasource (er_storage r) name)"

definition elixir_create_model ::
    "('c, 'r, 'p, 'k) engine_lib \<Rightarrow> bool \<Rightarrow> elixir_model \<Rightarrow> ('c, 'r, 'p) engine_resource
      \<Rightarrow> (nif_error + elixir_model) \<times> ('c, 'r, 'p) engine_resource" where
  "elixir_create_model lib wr m r =
     then_invalidate lib (nif_store core_model_to_elixir (yaml_create_model wr (er_storage r) (elixir_model_to_core m)) r)"

definition elixir_list_models :: "string option \<Rightarrow> ('c, 'r, 'p) engine_resource \<Rightarrow> elixir_model list" where
  "elixir_list_models datasource r = map core_model_to_elixir (yaml_list_models (er_storage r) datasource)"

definition elixir_get_model :: "string \<Rightarrow> string option \<Rightarrow> ('c, 'r, 'p) engine_resource \<Rightarrow> elixir_model option" where
  "elixir_get_model name datasource r = map_option core_model_to_elixir (yaml_get_model (er_storage r) name datasource)"

definition elixir_update_model ::
    "('c, 'r, 'p, 'k) engine_lib \<Rightarrow> bool \<Rightarrow> string \<Rightarrow> elixir_model \<Rightarrow> ('c, 'r, 'p) engine_resource
      \<Rightarrow> (nif_error + elixir_model) \<times> ('c, 'r, 'p) engine_resource" where
  "elixir_update_model lib wr name m r =
     then_invalidate lib (nif_store core_model_to_elixir (yaml_update_model wr (er_storage r) name (elixir_model_to_core m)) r)"

definition elixir_delete_model ::
    "('c, 'r, 'p, 'k) engine_lib \<Rightarrow> bool \<Rightarrow> string \<Rightarrow> string option \<Rightarrow> ('c, 'r, 'p) engine_resource
      \<Rightarrow> (nif_error + bool) \<times> ('c, 'r, 'p) engine_resource" where
  "elixir_delete_model lib wr name datasource r =
     then_invalidate lib (nif_store id (yaml_delete_model wr (er_storage r) name datasource) r)"

text \<open>The datasource of the stored model that a query names.\<close>

definition nif_target :: "yaml_storage \<Rightarrow> query \<Rightarrow> nif_error + data_source" where
  "nif_target s q =
     rbind (ok_or (NifText ''Query must have a name or source_model'')
              (opt_or (q_name q) (map_option ss_model (q_source_model q)))) (\<lambda>name.
     rbind (ok_or (NifText (''Model not found: '' @ name)) (yaml_get_model s name None)) (\<lambda>m.
       ok_or (NifText (''Datasource not found: '' @ mo_datasource m)) (yaml_get_datasource s (mo_datasource m))))"

definition nif_execute_query ::
    "('c, 'r, 'p, 'k) engine_lib \<Rightarrow> moment \<Rightarrow> elixir_query \<Rightarrow> bool \<Rightarrow> ('c, 'r, 'p) engine_resource
      \<Rightarrow> (nif_error + elixir_query_result) \<times> ('c, 'r, 'p) engine_resource" where
  "nif_execute_query lib now query dry_run r =
     (case rbind (map_err NifParse (elixir_query_to_core query)) (\<lambda>q.
             rbind (nif_target (er_storage r) q) (\<lambda>ds. Inr (q, ds))) of
        Inl e \<Rightarrow> (Inl e, r)
      | Inr (q, ds) \<Rightarrow>
          (case generate_sql_text lib (er_engine r) q of
             (Inl e, en) \<Rightarrow> (Inl (NifGenerate e), r\<lparr>er_engine := en\<rparr>)
           | (Inr sql, en) \<Rightarrow>
               if dry_run
               then (Inr \<lparr>xr_data = [], xr_columns = [], xr_sql = Some sql\<rparr>, r\<lparr>er_engine := en\<rparr>)
               else (case engine_execute_sqlx lib now en ds sql of
                       (Inl e, en') \<Rightarrow> (Inl (NifText e), r\<lparr>er_engine := en'\<rparr>)
                     | (Inr rows, en') \<Rightarrow>
                         (Inr \<lparr>xr_data = rows, xr_columns = (case rows of first # _ \<Rightarrow> map fst first | [] \<Rightarrow> []),
                               xr_sql = Some sql\<rparr>, r\<lparr>er_engine := en'\<rparr>))))"

definition nif_dry_run_query ::
    "('c, 'r, 'p, 'k) engine_lib \<Rightarrow> moment \<Rightarrow> elixir_query \<Rightarrow> ('c, 'r, 'p) engine_resource
      \<Rightarrow> (nif_error + elixir_query_result) \<times> ('c, 'r, 'p) engine_resource" where
  "nif_dry_run_query lib now query r = nif_execute_query lib now query True r"

subsection \<open>What is lost on the way\<close>

text \<open>
  A label that is not there comes back as the empty one, an aggregation that is shown under the name of
  another is read as that one, and \<open>COUNT(DISTINCT\<close> is read as the name of a function.
\<close>

definition blank :: "string option \<Rightarrow> string option" where
  "blank label = Some (unwrap_or label [])"

definition blank_labels :: "model \<Rightarrow> model" where
  "blank_labels m =
     m\<lparr>mo_measures := map (\<lambda>x. x\<lparr>m_formula := (m_formula x)\<lparr>f_label := blank (f_label (m_formula x)),
           f_format := blank (f_format (m_formula x))\<rparr>\<rparr>) (mo_measures m),
       mo_dimensions := map (\<lambda>d. d\<lparr>d_label := blank (d_label d)\<rparr>) (mo_dimensions m),
       mo_time_dimensions := map (\<lambda>t. t\<lparr>td_label := blank (td_label t)\<rparr>) (mo_time_dimensions m)\<rparr>"

fun shown_faithfully :: "aggregation_type \<Rightarrow> bool" where
  "shown_faithfully CountDistinct \<longleftrightarrow> False"
| "shown_faithfully (Custom s) \<longleftrightarrow> to_upper s \<notin> {''SUM'', ''AVG'', ''COUNT'', ''MIN'', ''MAX'', ''COUNT_DISTINCT''}"
| "shown_faithfully _ \<longleftrightarrow> True"

lemma granularity_roundtrip: "elixir_parse_granularity (granularity_to_string g) = g"
  by (cases g; hypsubst; code_simp)

lemma join_type_roundtrip: "elixir_parse_join_type (join_type_to_string j) = j"
  by (cases j; hypsubst; code_simp)

lemma aggregation_roundtrip:
  "elixir_parse_aggregation (aggregation_display a) = a \<longleftrightarrow> shown_faithfully a"
proof (cases a)
  case (Custom s)
  then show ?thesis by (simp add: elixir_parse_aggregation_def aggregation_display_def Let_def)
qed (hypsubst, code_simp)+

lemma count_distinct_lost:
  "elixir_parse_aggregation (aggregation_display CountDistinct) = Custom ''COUNT(DISTINCT ''"
  by code_simp

lemma measure_back:
  "shown_faithfully (m_aggregation x) \<Longrightarrow> elixir_measure_to_core (core_measure_to_elixir x) =
     x\<lparr>m_formula := (m_formula x)\<lparr>f_label := blank (f_label (m_formula x)), f_format := blank (f_format (m_formula x))\<rparr>\<rparr>"
  by (cases x, cases "m_formula x") (simp add: elixir_measure_to_core_def core_measure_to_elixir_def aggregation_roundtrip
      formula_with_label_def formula_with_format_def formula_new_def blank_def)

lemma dimension_back:
  "elixir_dimension_to_core \<lparr>xd_name = d_name d, xd_label = d_label d\<rparr> = d\<lparr>d_label := blank (d_label d)\<rparr>"
  by (cases d) (simp add: elixir_dimension_to_core_def dimension_with_label_def dimension_new_def blank_def)

lemma time_dimension_back:
  "elixir_time_dimension_to_core \<lparr>xt_dimension = td_dimension t,
       xt_granularity = granularity_to_string (td_granularity t), xt_label = td_label t\<rparr> = t\<lparr>td_label := blank (td_label t)\<rparr>"
  by (cases t) (simp add: elixir_time_dimension_to_core_def time_dimension_with_label_def time_dimension_new_def blank_def
      granularity_roundtrip)

lemma join_back:
  "elixir_join_to_core \<lparr>xj_name = jn_name j, xj_model = jn_model j, xj_join_type = join_type_to_string (jn_type j),
     xj_on = jn_on j, xj_alias = jn_alias j\<rparr> = j"
  by (cases j) (simp add: elixir_join_to_core_def join_type_roundtrip)

lemma elixir_model_roundtrip:
  assumes "mo_sql m = None" and "mo_meta m = []"
    and "\<And>x. x \<in> set (mo_measures m) \<Longrightarrow> shown_faithfully (m_aggregation x)"
  shows "elixir_model_to_core (core_model_to_elixir m) = blank_labels m"
proof (rule model.equality)
  show "mo_measures (elixir_model_to_core (core_model_to_elixir m)) = mo_measures (blank_labels m)"
    using assms(3) by (simp add: elixir_model_to_core_def core_model_to_elixir_def blank_labels_def measure_back)
qed (use assms(1,2) in \<open>simp_all add: elixir_model_to_core_def core_model_to_elixir_def blank_labels_def dimension_back
    time_dimension_back join_back comp_def\<close>)

lemma datasource_roundtrip: "ds_meta ds = [] \<Longrightarrow> elixir_ds_to_core (core_ds_to_elixir ds) = ds"
  by (simp add: elixir_ds_to_core_def core_ds_to_elixir_def)

subsection \<open>Runs\<close>

inductive elixir_run :: "('c, 'r, 'p, 'k) engine_lib \<Rightarrow> ('c, 'r, 'p) engine_resource \<Rightarrow> ('c, 'r, 'p) engine_resource \<Rightarrow> bool"
    for lib where
  idle: "elixir_run lib r r"
| datasource: "elixir_run lib r s \<Longrightarrow> elixir_run lib r (snd (elixir_create_datasource wr ds s))"
| created: "elixir_run lib r s \<Longrightarrow> elixir_run lib r (snd (elixir_create_model lib wr m s))"
| updated: "elixir_run lib r s \<Longrightarrow> elixir_run lib r (snd (elixir_update_model lib wr n m s))"
| deleted: "elixir_run lib r s \<Longrightarrow> elixir_run lib r (snd (elixir_delete_model lib wr n d s))"
| queried: "elixir_run lib r s \<Longrightarrow> elixir_run lib r (snd (nif_execute_query lib now q dry s))"

text \<open>An engine that knows no model and has no plan.\<close>

definition knows_nothing :: "('c, 'r, 'p, 'k) engine_lib \<Rightarrow> ('c, 'r, 'p) engine_state \<Rightarrow> bool" where
  "knows_nothing lib en \<longleftrightarrow> sg_models (en_generator (es_engine en)) = [] \<and>
     (\<forall>k. lru_view (el_plans lib) (en_plan_cache (es_engine en)) k = None)"

lemma resolve_source_empty: "sg_models g = [] \<Longrightarrow> \<exists>e. resolve_source g q = Inl e"
  by (auto simp: resolve_source_def lookup_model_def ok_or_def split: option.split)

lemma generate_empty: "sg_models g = [] \<Longrightarrow> \<exists>e. generate ser g q = Inl e"
  using resolve_source_empty [of g q] by (auto simp: generate_def)

lemma generates_nothing:
  assumes "lru_laws (el_plans lib)" and "knows_nothing lib en"
  shows "\<exists>e en'. generate_sql_text lib en q = (Inl e, en') \<and> knows_nothing lib en'"
proof -
  let ?g = "en_generator (es_engine en)"
  let ?key = "plan_key (resolved_dialect_name ?g q) (en_policy_fingerprint (es_engine en)) (el_query_json lib q)"
  obtain e where e: "generate (el_serializer lib) ?g q = Inl e"
    using generate_empty [of ?g] assms(2) unfolding knows_nothing_def by blast
  obtain v c where c: "lru_get (el_plans lib) (en_plan_cache (es_engine en)) ?key = (v, c)" by fastforce
  have "v = None" "\<forall>k. lru_view (el_plans lib) c k = None"
    using assms c unfolding lru_laws_def knows_nothing_def by (metis fst_conv, metis snd_conv)
  then show ?thesis using e c assms(2)
    by (simp add: generate_sql_text_def engine_generate_sql_def knows_nothing_def Let_def)
qed

lemma nif_keeps_engine:
  "er_engine (snd (elixir_create_datasource wr ds r)) = er_engine r"
  "es_engine (er_engine (snd (elixir_create_model lib wr m r))) = es_engine (er_engine r)"
  "es_engine (er_engine (snd (elixir_update_model lib wr n m r))) = es_engine (er_engine r)"
  "es_engine (er_engine (snd (elixir_delete_model lib wr n d r))) = es_engine (er_engine r)"
  by (simp_all add: elixir_create_datasource_def elixir_create_model_def elixir_update_model_def elixir_delete_model_def
      then_invalidate_def nif_store_def invalidate_result_cache_def split: prod.split)

lemma knows_nothing_engine: "es_engine en' = es_engine en \<Longrightarrow> knows_nothing lib en' = knows_nothing lib en"
  by (simp add: knows_nothing_def)

lemma nif_query_fails:
  assumes "lru_laws (el_plans lib)" and "knows_nothing lib (er_engine r)"
  shows "\<exists>e r'. nif_execute_query lib now q dry r = (Inl e, r') \<and> knows_nothing lib (er_engine r')"
proof -
  have "\<exists>e en. generate_sql_text lib (er_engine r) x = (Inl e, en) \<and> knows_nothing lib en" for x
    by (rule generates_nothing [OF assms])
  then show ?thesis using assms(2)
    by (auto simp: nif_execute_query_def split: sum.split prod.split) (metis Pair_inject sum.distinct(1))+
qed

lemma elixir_run_knows_nothing:
  assumes "lru_laws (el_plans lib)" and "elixir_run lib (init_engine lib disk) r"
  shows "knows_nothing lib (er_engine r)"
  using assms(2)
proof (induction "init_engine lib disk" r)
  case idle
  then show ?case using assms(1)
    by (simp add: init_engine_def knows_nothing_def engine_with_models_def sql_engine_new_def engine_new_def with_models_def
        generator_new_def yaml_list_models_def yaml_new_def lru_laws_def)
next
  case (queried s now q dry)
  then show ?case using nif_query_fails [OF assms(1) queried(2), of now q dry] by auto
qed (simp_all add: nif_keeps_engine knows_nothing_engine [OF nif_keeps_engine(2)] knows_nothing_engine [OF nif_keeps_engine(3)]
    knows_nothing_engine [OF nif_keeps_engine(4)])

text \<open>
  The storage is never loaded and models are never registered, so whatever is created, updated and
  deleted, no query and no dry run of the Elixir binding ever gets an answer.
\<close>

lemma elixir_never_answers:
  assumes "lru_laws (el_plans lib)" and "elixir_run lib (init_engine lib disk) r"
  shows "\<not> is_ok (fst (nif_execute_query lib now q dry r))"
  using nif_query_fails [OF assms(1) elixir_run_knows_nothing [OF assms], of now q dry] by auto

text \<open>
  The first model that is created over a directory with stored models replaces them all in the file.
\<close>

lemma elixir_erases_stored_models:
  assumes "elixir_create_model lib True m (init_engine lib disk) = (x, r)"
  shows "is_ok x" and "yd_models (ys_disk (er_storage r)) = Some [elixir_model_to_core m]"
  using assms
  by (auto simp: elixir_create_model_def init_engine_def yaml_new_def yaml_create_model_def and_return_def persist_models_def
      nif_store_def then_invalidate_def Let_def)

end
