(* ===== verification/Spec2Isabelle.thy ===== *)
theory Spec2Isabelle
  imports Models Formula Join Security Dialects Generator Cache Governance Storage Sql_Storage Tantivy
    Executor Introspection Engine
    Auth Rate_Limit Llm Agent Suggest Memory Tool_Safety Hybrid Mcp Rest
    Graphql_Safety Server Cli Telemetry Importers
    Python_Binding Elixir_Binding
begin

text \<open>
  A verification library for GraphNight, a semantic layer that turns queries over named measures
  and dimensions into SQL, under access policies, for people and for language-model agents.

  \<^bold>\<open>How the program works.\<close> A semantic model (\<open>graphnight-core/src/models.rs\<close>) gives names to a
  datasource's measures, dimensions and joins. A query names a model. The service
  (\<open>graphnight-runtime/src/governance.rs\<close>) checks the caller's policy, appends the filters the
  policy forces, caps the rows, asks the engine (\<open>graphnight-sql/src/lib.rs\<close>) for the statement
  and runs it, masks columns of the rows and writes an audit entry. The engine keeps a plan
  cache and a result cache (\<open>cache.rs\<close>) in front of the generator (\<open>generator.rs\<close>), which resolves
  fields, renders measures and filters, walks joins (\<open>graphnight-core/src/join.rs\<close>) and has one of
  four dialects (\<open>dialects.rs\<close>) print the plan. Models, datasources and memories live in a
  storage backend (\<open>graphnight-storage\<close>).

  \<^bold>\<open>Theories.\<close>
  \<^item> \<open>GN_Prelude\<close>: results as sums (\<open>rbind\<close>, \<open>rmap\<close>, \<open>ok_or\<close>, \<open>map_err\<close>), the string functions of
    Rust's standard library that the source calls, association lists, JSON values.
  \<^item> \<open>Models\<close> (\<open>core/models.rs\<close>): the data model, its parsers and metadata.
  \<^item> \<open>Formula\<close> (\<open>core/formula.rs\<close>): the measure shorthand, its regular expressions matched by hand,
    the registry, and the allowlisted function calls.
  \<^item> \<open>Join\<close> (\<open>core/join.rs\<close>): the join graph, breadth-first search, join resolution and clauses.
  \<^item> \<open>Security\<close> (\<open>core/security.rs\<close>, \<open>core/secrets.rs\<close>): policies, masks, the audit buffer,
    secret references; the environment is a parameter.
  \<^item> \<open>Dialects\<close> (\<open>sql/dialects.rs\<close>): the four dialects, and readers of quoted text as the
    specification of quoting (locale \<open>quoting\<close>, interpreted for each dialect's identifiers and
    literals).
  \<^item> \<open>Generator\<close> (\<open>sql/generator.rs\<close>): registries, field resolution, measures, the where clause,
    plans and statements; \<open>gen_reachable\<close> is the set of generators a program can build.
  \<^item> \<open>Cache\<close> (\<open>sql/cache.rs\<close>, \<open>sql/lib.rs\<close>): FNV-1a on 64-bit words, the canonical bytes of a query,
    the result and plan caches over a least-recently-used map known by its laws (\<open>lru_laws\<close>,
    which \<open>list_lru\<close> satisfies), and the cached execution.
  \<^item> \<open>Governance\<close> (\<open>runtime/governance.rs\<close>): execution of a query and of a pipeline as a result and
    a list of effects, over an environment \<open>service_env\<close> for storage, engine and database.
  \<^item> \<open>Storage\<close> (\<open>storage/yaml.rs\<close>, \<open>storage/backend.rs\<close>): the YAML backend and its files (locale
    \<open>named_store\<close>, interpreted for models and datasources).
  \<^item> \<open>Sql_Storage\<close> (\<open>storage/sqlite.rs\<close>, \<open>storage/postgres.rs\<close>): the backends over a database, which is a
    parameter that answers statements; \<open>Server\<close> runs the GraphQL surface over SQLite.
  \<^item> \<open>Tantivy\<close> (\<open>storage/tantivy.rs\<close>): the YAML maps beside a search index, which is a parameter.

  \<^item> \<open>Executor\<close> (\<open>sql/executor.rs\<close>): the connection pools (locale \<open>pool_lookup\<close>, interpreted for the four
    drivers), bound values, cells as JSON, and streams of rows over drivers that are parameters.
  \<^item> \<open>Introspection\<close> (\<open>sql/introspection.rs\<close>): the catalogue statements and the models inferred.
  \<^item> \<open>Engine\<close> (\<open>sql/lib.rs\<close>): the engine as its callers see it, \<open>Cache\<close> over \<open>Executor\<close>.
  \<^item> \<open>Fnv\<close>, \<open>Numbers\<close>, \<open>Json_Objects\<close>, \<open>Tool_Error\<close>: FNV-1a; decimal numbers and the nearest 64-bit
    float; JSON objects with sorted keys; the errors tools report and Rust's quoted text.
  \<^item> \<open>Auth\<close> (\<open>server/auth_config.rs\<close>, \<open>server/oidc.rs\<close>): who a caller is, from API keys or a validated
    token; the token library and the fetch of key sets are parameters.
  \<^item> \<open>Rate_Limit\<close> (\<open>server/rate_limit.rs\<close>): token buckets over a clock.
  \<^item> \<open>Llm\<close> (\<open>runtime/llm.rs\<close>): the two wire formats and the retry loop of a completion (locale
    \<open>retry_loop\<close>, interpreted for both clients); the HTTP exchange is a parameter.
  \<^item> \<open>Agent\<close> (\<open>runtime/agent.rs\<close>): the loop of an agent over a model, tools and a clock, all arbitrary
    functions, with its budgets.
  \<^item> \<open>Suggest\<close> (\<open>runtime/suggest.rs\<close>): the query shorthand, the edit distance and suggestions.
  \<^item> \<open>Memory\<close> (\<open>runtime/memory.rs\<close>): records, scopes and ranking.
  \<^item> \<open>Tool_Types\<close>, \<open>Tool_Queries\<close>, \<open>Tools\<close>, \<open>Tool_Safety\<close> (\<open>runtime/tools.rs\<close>): the inputs and the table
    of tools; the tools that read; those that write and the dispatch; what they guarantee (locale
    \<open>tool_invariant\<close>, interpreted over the YAML backend).
  \<^item> \<open>Hybrid\<close> (\<open>runtime/embedding.rs\<close> and the search of \<open>tools.rs\<close>): vectors of texts, the fusion of ranks and
    the cache of vectors; without an embedder it is the search of \<open>Tool_Queries\<close>.
  \<^item> \<open>Mcp\<close> (\<open>runtime/mcp.rs\<close>): JSON-RPC lines, their dispatch to the tools, and whole sessions.
  \<^item> \<open>Rest\<close> (\<open>server/rest.rs\<close>): bodies, their conversion, the handlers over \<open>Auth\<close> and \<open>Governance\<close>.

  \<^item> \<open>Graphql_Types\<close>, \<open>Graphql\<close>, \<open>Graphql_Safety\<close> (\<open>graphnight-graphql\<close>): inputs, contexts and gates; the
    resolvers over a storage backend and the engine of \<open>Engine\<close>; runs of requests (\<open>gql_run\<close>) and what
    holds of them over HTTP and over the WebSocket endpoint.
  \<^item> \<open>Server\<close> (\<open>server/main.rs\<close>, \<open>cors_config.rs\<close>, \<open>request_id.rs\<close>): settings, the start, health, origins.
  \<^item> \<open>Cli\<close> (\<open>cli/main.rs\<close>, \<open>cli/commands/init.rs\<close>): the commands over a backend and the engine, the scaffold.
  \<^item> \<open>Telemetry\<close> (\<open>telemetry/lib.rs\<close>): settings of tracing, what is installed, the life of the guard.
  \<^item> \<open>Node_Binding\<close>, \<open>Python_Binding\<close>, \<open>Elixir_Binding\<close> (\<open>node/lib.rs\<close>, \<open>python/lib.rs\<close>, \<open>elixir/lib.rs\<close>): the clients
    linked into other programs; the first two over \<open>Governance\<close>, the third over \<open>Engine\<close> alone.
  \<^item> \<open>Importers\<close> (\<open>core/importers.rs\<close>): models from Cube schemas and dbt manifests.

  \<^bold>\<open>Conventions.\<close> Strings are lists of bytes (UTF-8). A fallible function returns a sum, \<open>Inl\<close> the
  error; a panic is \<open>None\<close> or an error of its own. Hash maps are association lists whose order
  stands for the unspecified iteration order. Locks are held for the duration of an operation;
  where a task waits for a lock it holds itself, the operation has no result. Third-party code
  (databases, the LRU crate, JSON printing and parsing, signatures, HTTP) is a parameter. Loops are
  total functions with a measure: the agent loop by the steps left, a completion by the retries
  left, searches by what is not yet visited, so no fuel is needed. Clocks are parameters. Scores
  and bucket levels are exact rationals where the code computes with floats. Counts and offsets are natural
  numbers; where a sum or a cast can leave its width, the remainder is written out (the next offset of an
  outcome, the row counts of the Node binding), and fingerprints are 64-bit words. Times of caches are
  nanoseconds. A YAML file is the values written to it: printing and reading them back are not modelled.

  \<^bold>\<open>Not modelled.\<close> Network and database input and output (they are parameters),
  the recording of metrics and spans, the marshalling of foreign values; the module \<open>multistage\<close> of the GraphQL
  crate is not in the repository and a parameter; the manifest lists every part with its reason.
\<close>

end
